(* ===== verification/Prelude.thy ===== *)
theory Prelude
  imports Complex_Main "HOL-Library.AList" "HOL-Library.Char_ord" "HOL-Library.Code_Target_Nat" "HOL-Library.List_Lexorder"
    "HOL-Library.Product_Lexorder"
begin

text \<open>
  What every component shares: Python values that reach a run-time type check, epoch
  times (finite double precision numbers and the overflow value), the ordered
  dictionaries of CPython, results with errors as values, the text primitives the code
  calls (\<^verbatim>\<open>strip\<close>, \<^verbatim>\<open>lower\<close>, hexadecimal digests), and the environment: the
  functions of the interpreter and of the cryptographic library the code only calls.
\<close>

section \<open>Collections used by the automation\<close>

named_theorems dict_simps \<open>rewrites for ordered dictionaries\<close>
named_theorems frame_simps \<open>fields a store helper leaves alone\<close>

section \<open>Epoch times\<close>

text \<open>
  A time is a finite double (kept as the rational it denotes) or \<open>Inf\<close>, what a sum
  that overflows gives. Every time the code stores is a validated finite value or the
  sum of a finite value and a positive duration, so no other float occurs.
\<close>

datatype epoch = Fin rat | Inf

fun is_finite :: "epoch \<Rightarrow> bool" where
  "is_finite (Fin _) = True"
| "is_finite Inf = False"

instantiation epoch :: linorder
begin

fun less_eq_epoch :: "epoch \<Rightarrow> epoch \<Rightarrow> bool" where
  "less_eq_epoch (Fin a) (Fin b) = (a \<le> b)"
| "less_eq_epoch _ Inf = True"
| "less_eq_epoch Inf (Fin _) = False"

definition less_epoch :: "epoch \<Rightarrow> epoch \<Rightarrow> bool" where
  "less_epoch x y \<longleftrightarrow> x \<le> y \<and> \<not> y \<le> x"

instance
proof
  fix x y z :: epoch
  show "x < y \<longleftrightarrow> x \<le> y \<and> \<not> y \<le> x" by (rule less_epoch_def)
  show "x \<le> x" by (cases x) auto
  show "x \<le> y \<Longrightarrow> y \<le> z \<Longrightarrow> x \<le> z" by (cases x; cases y; cases z) auto
  show "x \<le> y \<Longrightarrow> y \<le> x \<Longrightarrow> x = y" by (cases x; cases y) auto
  show "x \<le> y \<or> y \<le> x" by (cases x; cases y) auto
qed

end

lemma less_epoch_simps [simp]:
  "(Fin a < Fin b) = (a < b)" "Fin a < Inf" "\<not> (Inf < x)"
  by (cases x, auto simp: less_epoch_def)+

lemma epoch_not_le: "\<not> (x \<le> (y::epoch)) \<longleftrightarrow> y < x"
  by (rule not_le)

section \<open>Python values that reach a run-time check\<close>

text \<open>
  \<open>VNonFinite\<close> is any of \<^verbatim>\<open>inf\<close>, \<^verbatim>\<open>-inf\<close> and \<^verbatim>\<open>nan\<close>; \<open>VOther\<close> is an object of
  a type no check accepts. A string is the list of its characters.
\<close>

datatype pyval = VNone | VBool bool | VInt int | VFloat rat | VNonFinite | VStr string | VOther

text \<open>An argument that must be an instance of one particular class.\<close>

datatype 'a pyarg = ArgNone | ArgObj 'a | ArgOther

text \<open>Equality of the numbers among them: \<^verbatim>\<open>1 == 1.0 == True\<close>.\<close>

fun py_num :: "pyval \<Rightarrow> rat option" where
  "py_num (VBool b) = Some (if b then 1 else 0)"
| "py_num (VInt i) = Some (of_int i)"
| "py_num (VFloat r) = Some r"
| "py_num _ = None"

definition py_eq :: "pyval \<Rightarrow> pyval \<Rightarrow> bool" where
  "py_eq x y \<longleftrightarrow>
     (case (py_num x, py_num y) of
        (Some a, Some b) \<Rightarrow> a = b
      | (None, None) \<Rightarrow> x = y
      | _ \<Rightarrow> False)"

lemma py_eq_refl [simp]: "py_eq x x"
  by (cases x) (auto simp: py_eq_def)

section \<open>The environment\<close>

text \<open>
  The functions outside the repository: \<open>sha256\<close> (message to the 32 digest bytes) and
  \<open>hmac_sha256\<close> (key, message) of \<^verbatim>\<open>hashlib\<close>/\<^verbatim>\<open>hmac\<close>, \<open>utf8\<close> for \<^verbatim>\<open>str.encode\<close>
  (\<open>None\<close> where it raises \<^verbatim>\<open>UnicodeEncodeError\<close>), \<open>fl_add\<close> for the double addition of
  two finite numbers, \<open>float_of_int\<close> for \<^verbatim>\<open>float(int)\<close> (\<open>None\<close> where it raises
  \<^verbatim>\<open>OverflowError\<close>) and \<open>pack_double\<close> for \<^verbatim>\<open>struct.pack("!d", .)\<close>. Bytes are
  characters.
\<close>

record env =
  sha256 :: "string \<Rightarrow> string"
  hmac_sha256 :: "string \<Rightarrow> string \<Rightarrow> string"
  utf8 :: "string \<Rightarrow> string option"
  fl_add :: "rat \<Rightarrow> rat \<Rightarrow> epoch"
  float_of_int :: "int \<Rightarrow> rat option"
  pack_double :: "epoch \<Rightarrow> string"

text \<open>Rounding to nearest is monotone: the only fact about addition that a proof uses.\<close>

definition fl_add_mono :: "env \<Rightarrow> bool" where
  "fl_add_mono E \<longleftrightarrow> (\<forall>a b c. b \<le> c \<longrightarrow> fl_add E a b \<le> fl_add E a c)"

text \<open>
  A concrete environment for evaluation: 32-byte digests that keep the start of the
  message, exact addition.
\<close>

definition pad32 :: "string \<Rightarrow> string" where
  "pad32 m = take 32 (m @ replicate 32 (CHR 0x00))"

definition test_env :: env where
  "test_env = \<lparr>sha256 = pad32, hmac_sha256 = (\<lambda>k m. pad32 (k @ m)), utf8 = Some,
     fl_add = (\<lambda>a b. Fin (a + b)), float_of_int = (\<lambda>i. Some (of_int i)),
     pack_double = (\<lambda>_. [])\<rparr>"

lemma length_pad32 [simp]: "length (pad32 m) = 32"
  by (simp add: pad32_def)

lemma test_env_lengths: "length (sha256 test_env m) = 32" "length (hmac_sha256 test_env k m) = 32"
  by (simp_all add: test_env_def)

lemma test_env_mono: "fl_add_mono test_env"
  by (simp add: fl_add_mono_def test_env_def)

section \<open>Text primitives\<close>

definition char_code :: "char \<Rightarrow> nat" where
  "char_code c = of_char c"

definition is_space :: "char \<Rightarrow> bool" where
  "is_space c \<longleftrightarrow> char_code c \<in> {9, 10, 11, 12, 13, 28, 29, 30, 31, 32, 133, 160}"

definition py_strip :: "string \<Rightarrow> string" where
  "py_strip s = rev (dropWhile is_space (rev (dropWhile is_space s)))"

definition lower_char :: "char \<Rightarrow> char" where
  "lower_char c =
     (let n = char_code c in
      if 65 \<le> n \<and> n \<le> 90 \<or> 192 \<le> n \<and> n \<le> 222 \<and> n \<noteq> 215 then char_of (n + 32) else c)"

definition py_lower :: "string \<Rightarrow> string" where
  "py_lower s = map lower_char s"

definition hex_digits :: string where
  "hex_digits = ''0123456789abcdef''"

definition hex_byte :: "char \<Rightarrow> string" where
  "hex_byte c = [hex_digits ! (char_code c div 16), hex_digits ! (char_code c mod 16)]"

definition hexdigest :: "string \<Rightarrow> string" where
  "hexdigest bs = concat (map hex_byte bs)"

definition hex_value :: "char \<Rightarrow> nat option" where
  "hex_value c =
     (let n = char_code c in
      if 48 \<le> n \<and> n \<le> 57 then Some (n - 48)
      else if 97 \<le> n \<and> n \<le> 102 then Some (n - 87)
      else if 65 \<le> n \<and> n \<le> 70 then Some (n - 55)
      else None)"

text \<open>\<^verbatim>\<open>bytes.fromhex\<close> on text without spaces: \<open>None\<close> where it raises \<^verbatim>\<open>ValueError\<close>.\<close>

fun fromhex :: "string \<Rightarrow> string option" where
  "fromhex [] = Some []"
| "fromhex [_] = None"
| "fromhex (h # l # cs) =
     (case (hex_value h, hex_value l, fromhex cs) of
        (Some a, Some b, Some bs) \<Rightarrow> Some (char_of (16 * a + b) # bs)
      | _ \<Rightarrow> None)"

definition is_hex_char :: "char \<Rightarrow> bool" where
  "is_hex_char c \<longleftrightarrow> c \<in> set hex_digits"

text \<open>\<^verbatim>\<open>re.fullmatch(r"[0-9a-f]{64}", s)\<close>\<close>

definition is_sha256_hex :: "string \<Rightarrow> bool" where
  "is_sha256_hex s \<longleftrightarrow> length s = 64 \<and> list_all is_hex_char s"

definition zero_digest :: string where
  "zero_digest = replicate 64 (CHR ''0'')"

lemma char_code_less [simp]: "char_code c < 256"
  by (simp add: char_code_def)

lemma char_of_char_code [simp]: "char_of (char_code c) = c"
  by (simp add: char_code_def)

lemma length_hexdigest [simp]: "length (hexdigest bs) = 2 * length bs"
  by (induction bs) (simp_all add: hexdigest_def hex_byte_def)

lemma hex_nibbles:
  "\<forall>n \<in> set [0..<16]. hex_value (hex_digits ! n) = Some n \<and> is_hex_char (hex_digits ! n)"
  by code_simp

lemma hex_value_digit: "n < 16 \<Longrightarrow> hex_value (hex_digits ! n) = Some n"
  using hex_nibbles by simp

lemma hex_digit_is_hex: "n < 16 \<Longrightarrow> is_hex_char (hex_digits ! n)"
  using hex_nibbles by simp

lemma fromhex_hexdigest [simp]: "fromhex (hexdigest bs) = Some bs"
proof (induction bs)
  case Nil
  show ?case by (simp add: hexdigest_def)
next
  case (Cons b bs)
  have "16 * (char_code b div 16) + char_code b mod 16 = char_code b" by simp
  moreover have "char_code b div 16 < 16" using char_code_less [of b] by linarith
  ultimately show ?case using Cons
    by (simp add: hexdigest_def hex_byte_def hex_value_digit)
qed

lemma hexdigest_inject: "hexdigest a = hexdigest b \<longleftrightarrow> a = b"
  using fromhex_hexdigest by (metis option.inject)

lemma hexdigest_is_hex: "list_all is_hex_char (hexdigest bs)"
proof (induction bs)
  case Nil
  show ?case by (simp add: hexdigest_def)
next
  case (Cons b bs)
  have "char_code b div 16 < 16" using char_code_less [of b] by linarith
  with Cons show ?case by (simp add: hexdigest_def hex_byte_def hex_digit_is_hex)
qed

text \<open>\<^verbatim>\<open>str(n)\<close> of a natural number, for messages.\<close>

fun show_nat :: "nat \<Rightarrow> string" where
  "show_nat n =
     (if n < 10 then [char_of (48 + n)] else show_nat (n div 10) @ [char_of (48 + n mod 10)])"

declare show_nat.simps [simp del]

lemma lower_char_idem [simp]: "lower_char (lower_char c) = lower_char c"
  by (auto simp: lower_char_def Let_def char_code_def)

lemma is_space_lower [simp]: "is_space (lower_char c) = is_space c"
  by (auto simp: is_space_def lower_char_def Let_def char_code_def)

lemma py_lower_idem [simp]: "py_lower (py_lower s) = py_lower s"
  by (simp add: py_lower_def)

lemma dropWhile_lower: "dropWhile is_space (map lower_char s) = map lower_char (dropWhile is_space s)"
  by (simp add: dropWhile_map comp_def)

lemma py_strip_lower: "py_strip (py_lower s) = py_lower (py_strip s)"
  by (simp add: py_strip_def py_lower_def dropWhile_lower rev_map)

lemma dropWhile_rev_dropWhile:
  "dropWhile P (rev (dropWhile P (rev (dropWhile P s)))) = rev (dropWhile P (rev (dropWhile P s)))"
proof (cases "dropWhile P s")
  case Nil
  show ?thesis unfolding Nil by simp
next
  case (Cons c cs)
  then have c: "\<not> P c" by (metis hd_dropWhile list.distinct(1) list.sel(1))
  have "\<exists>zs. rev (dropWhile P (rev (c # cs))) = c # zs"
  proof -
    have "dropWhile P (rev cs @ [c]) = dropWhile P (rev cs) @ [c]"
      using c by (induction "rev cs" arbitrary: cs) (auto simp: dropWhile_append dropWhile_eq_Nil_conv)
    then show ?thesis by simp
  qed
  with c Cons show ?thesis by auto
qed

lemma py_strip_idem [simp]: "py_strip (py_strip s) = py_strip s"
  unfolding py_strip_def by (simp add: dropWhile_rev_dropWhile)

lemma strip_lower_idem [simp]: "py_lower (py_strip (py_lower (py_strip s))) = py_lower (py_strip s)"
  by (simp add: py_strip_lower)

lemma length_py_lower [simp]: "length (py_lower s) = length s"
  by (simp add: py_lower_def)

lemma py_lower_Nil [simp]: "py_lower s = [] \<longleftrightarrow> s = []"
  by (simp add: py_lower_def)

section \<open>Results\<close>

text \<open>A computation without effects that may raise: \<open>Inl\<close> the exception.\<close>

definition ebind :: "'e + 'a \<Rightarrow> ('a \<Rightarrow> 'e + 'b) \<Rightarrow> 'e + 'b" where
  "ebind r f = (case r of Inl e \<Rightarrow> Inl e | Inr x \<Rightarrow> f x)"

definition echeck :: "bool \<Rightarrow> 'e \<Rightarrow> 'e + unit" where
  "echeck bad e = (if bad then Inl e else Inr ())"

lemma ebind_simps [simp]: "ebind (Inl e) f = Inl e" "ebind (Inr x) f = f x"
  by (simp_all add: ebind_def)

lemma ebind_Inr: "ebind r f = Inr y \<longleftrightarrow> (\<exists>x. r = Inr x \<and> f x = Inr y)"
  by (cases r) auto

lemma ebind_Inl: "ebind r f = Inl e \<longleftrightarrow> r = Inl e \<or> (\<exists>x. r = Inr x \<and> f x = Inl e)"
  by (cases r) auto

lemma echeck_Inr [simp]: "echeck b e = Inr u \<longleftrightarrow> \<not> b"
  by (simp add: echeck_def)

lemma echeck_Inl [simp]: "echeck b e = Inl e' \<longleftrightarrow> b \<and> e = e'"
  by (auto simp: echeck_def)

text \<open>
  A method that changes a state of type \<open>'s\<close> and may raise: an exception leaves what
  was written before it, so the state comes back in both cases.
\<close>

type_synonym ('s, 'e, 'a) effect = "'s \<Rightarrow> ('e + 'a) \<times> 's"

definition ret :: "'a \<Rightarrow> ('s, 'e, 'a) effect" where
  "ret x = (\<lambda>s. (Inr x, s))"

definition lift :: "'e + 'a \<Rightarrow> ('s, 'e, 'a) effect" where
  "lift r = (\<lambda>s. (r, s))"

definition sbind :: "('s, 'e, 'a) effect \<Rightarrow> ('a \<Rightarrow> ('s, 'e, 'b) effect) \<Rightarrow> ('s, 'e, 'b) effect" where
  "sbind m f = (\<lambda>s. case m s of (Inl e, t) \<Rightarrow> (Inl e, t) | (Inr x, t) \<Rightarrow> f x t)"

text \<open>
  A method advances from states with \<open>I\<close> when its final state, raised or not, has \<open>I\<close>
  again and is related to the initial one by \<open>R\<close>.
\<close>

definition advances ::
  "('s \<Rightarrow> bool) \<Rightarrow> ('s \<Rightarrow> 's \<Rightarrow> bool) \<Rightarrow> ('s, 'e, 'a) effect \<Rightarrow> bool" where
  "advances I R m \<longleftrightarrow> (\<forall>s. I s \<longrightarrow> I (snd (m s)) \<and> R s (snd (m s)))"

lemma advancesI: "(\<And>s. I s \<Longrightarrow> I (snd (m s)) \<and> R s (snd (m s))) \<Longrightarrow> advances I R m"
  by (simp add: advances_def)

lemma advancesD: "advances I R m \<Longrightarrow> I s \<Longrightarrow> I (snd (m s)) \<and> R s (snd (m s))"
  by (simp add: advances_def)

text \<open>The contract of a relation that method calls can be chained along.\<close>

locale step_order =
  fixes I :: "'s \<Rightarrow> bool" and R :: "'s \<Rightarrow> 's \<Rightarrow> bool"
  assumes R_refl: "R s s"
    and R_trans: "R s t \<Longrightarrow> R t u \<Longrightarrow> R s u"
begin

lemma advances_ret: "advances I R (ret x)"
  by (simp add: advances_def ret_def R_refl)

lemma advances_lift: "advances I R (lift r)"
  by (simp add: advances_def lift_def R_refl)

lemma advances_read: "advances I R (\<lambda>s. (f s, s))"
  by (simp add: advances_def R_refl)

lemma advances_sbind:
  assumes "advances I R m" and "\<And>x. advances I R (f x)"
  shows "advances I R (sbind m f)"
proof (rule advancesI)
  fix s assume "I s"
  obtain r t where m: "m s = (r, t)" by (cases "m s")
  with advancesD [OF assms(1) \<open>I s\<close>] have t: "I t" "R s t" by simp_all
  show "I (snd (sbind m f s)) \<and> R s (snd (sbind m f s))"
  proof (cases r)
    case (Inl e)
    with t show ?thesis by (simp add: sbind_def m)
  next
    case (Inr x)
    with advancesD [OF assms(2) t(1), of x] t show ?thesis
      by (auto simp: sbind_def m intro: R_trans)
  qed
qed

lemmas advances_rules = advances_ret advances_lift advances_read advances_sbind

end

lemma sbind_lift [simp]:
  "sbind (lift (Inl e)) f = lift (Inl e)" "sbind (lift (Inr x)) f = f x"
  by (simp_all add: sbind_def lift_def)

section \<open>Ordered dictionaries\<close>

text \<open>
  A dictionary of CPython keeps insertion order: assigning to a present key keeps its
  place, a new key goes last, deleting closes the gap. \<open>AList.update\<close> and
  \<open>AList.delete\<close> do exactly that on an association list with distinct keys.
\<close>

type_synonym ('k, 'v) dict = "('k \<times> 'v) list"

abbreviation dget :: "('k, 'v) dict \<Rightarrow> 'k \<Rightarrow> 'v option" where
  "dget d k \<equiv> map_of d k"

abbreviation dset :: "'k \<Rightarrow> 'v \<Rightarrow> ('k, 'v) dict \<Rightarrow> ('k, 'v) dict" where
  "dset k v d \<equiv> AList.update k v d"

abbreviation ddel :: "'k \<Rightarrow> ('k, 'v) dict \<Rightarrow> ('k, 'v) dict" where
  "ddel k d \<equiv> AList.delete k d"

definition dkeys :: "('k, 'v) dict \<Rightarrow> 'k set" where
  "dkeys d = fst ` set d"

abbreviation dvals :: "('k, 'v) dict \<Rightarrow> 'v list" where
  "dvals d \<equiv> map snd d"

abbreviation wf_dict :: "('k, 'v) dict \<Rightarrow> bool" where
  "wf_dict d \<equiv> distinct (map fst d)"

definition dmem :: "'k \<Rightarrow> ('k, 'v) dict \<Rightarrow> bool" where
  "dmem k d \<longleftrightarrow> map_of d k \<noteq> None"

text \<open>Deleting, in one pass over a snapshot, every entry that satisfies a test.\<close>

definition dprune :: "('v \<Rightarrow> bool) \<Rightarrow> ('k, 'v) dict \<Rightarrow> ('k, 'v) dict" where
  "dprune p d = filter (\<lambda>(k, v). \<not> p v) d"

definition count_vals :: "('v \<Rightarrow> bool) \<Rightarrow> ('k, 'v) dict \<Rightarrow> nat" where
  "count_vals p d = length (filter p (dvals d))"

lemma dmem_iff [dict_simps]: "dmem k d \<longleftrightarrow> k \<in> dkeys d"
  by (simp add: dmem_def dkeys_def map_of_eq_None_iff)

lemma dget_dset [dict_simps]: "dget (dset k v d) k' = (if k' = k then Some v else dget d k')"
  by (simp add: update_conv')

lemma dget_ddel [dict_simps]: "dget (ddel k d) k' = (if k' = k then None else dget d k')"
  by (simp add: delete_conv')

lemma dkeys_dset [dict_simps]: "dkeys (dset k v d) = insert k (dkeys d)"
  by (simp add: dkeys_def dom_update)

lemma dkeys_ddel [dict_simps]: "dkeys (ddel k d) = dkeys d - {k}"
  by (induction d) (auto simp: dkeys_def AList.delete_eq)

lemma dkeys_None: "dget d k = None \<longleftrightarrow> k \<notin> dkeys d"
  unfolding dkeys_def by (rule map_of_eq_None_iff)

lemma dkeys_Nil [simp]: "dkeys [] = {}"
  by (simp add: dkeys_def)

lemma dkeys_Cons [simp]: "dkeys (e # d) = insert (fst e) (dkeys d)"
  by (simp add: dkeys_def)

lemma dkeys_fst_set: "set (map fst d) = dkeys d"
  by (simp add: dkeys_def)

lemma dkeys_Some: "k \<in> dkeys d \<longleftrightarrow> (\<exists>v. dget d k = Some v)"
  by (metis dkeys_None not_None_eq)

lemma dget_in_keys: "dget d k = Some v \<Longrightarrow> k \<in> dkeys d"
  by (simp add: dkeys_Some)

lemma wf_dset [dict_simps]: "wf_dict d \<Longrightarrow> wf_dict (dset k v d)"
  by (rule distinct_update)

lemma wf_ddel [dict_simps]: "wf_dict d \<Longrightarrow> wf_dict (ddel k d)"
  by (rule distinct_delete)

lemma wf_filter [dict_simps]: "wf_dict d \<Longrightarrow> wf_dict (filter p d)"
  by (rule distinct_map_filter)

lemma wf_dprune [dict_simps]: "wf_dict d \<Longrightarrow> wf_dict (dprune p d)"
  by (simp add: dprune_def wf_filter)

lemma dset_new: "k \<notin> dkeys d \<Longrightarrow> dset k v d = d @ [(k, v)]"
  by (induction d) auto

declare map_of_eq_Some_iff [simp del] Some_eq_map_of_iff [simp del]

lemma dget_mem: "wf_dict d \<Longrightarrow> (k, v) \<in> set d \<longleftrightarrow> dget d k = Some v"
  by (simp add: map_of_eq_Some_iff)

lemma mem_dget: "wf_dict d \<Longrightarrow> (k, v) \<in> set d \<Longrightarrow> dget d k = Some v"
  by (rule map_of_is_SomeI)

lemma dget_dprune [dict_simps]:
  "wf_dict d \<Longrightarrow>
     dget (dprune p d) k = (case dget d k of None \<Rightarrow> None | Some v \<Rightarrow> if p v then None else Some v)"
proof (induction d)
  case Nil
  show ?case by (simp add: dprune_def)
next
  case (Cons x d)
  obtain j w where x: "x = (j, w)" by (cases x)
  have "j \<notin> dkeys d" using Cons.prems x by (auto simp: dkeys_def)
  then have "dget d j = None" by (simp add: dkeys_None)
  with Cons x show ?case by (auto simp: dprune_def split: option.splits)
qed

lemma dkeys_dprune_subset: "dkeys (dprune p d) \<subseteq> dkeys d"
  by (auto simp: dkeys_def dprune_def)

lemma length_dprune_le: "length (dprune p d) \<le> length d"
  by (simp add: dprune_def)

lemma length_dset: "length (dset k v d) = (if k \<in> dkeys d then length d else Suc (length d))"
  by (induction d) auto

lemma length_ddel_le: "length (ddel k d) \<le> length d"
  by (rule length_delete_le)

lemma length_ddel_mem: "wf_dict d \<Longrightarrow> k \<in> dkeys d \<Longrightarrow> length (ddel k d) = length d - 1"
proof (induction d)
  case Nil
  then show ?case by simp
next
  case (Cons x d)
  show ?case
  proof (cases "fst x = k")
    case True
    with Cons.prems(1) have "k \<notin> dkeys d" by (auto simp: dkeys_def)
    with True show ?thesis by (cases x) (simp add: dkeys_def)
  next
    case False
    with Cons have "k \<in> dkeys d" by auto
    then have "0 < length d" by (cases d) auto
    with False Cons \<open>k \<in> dkeys d\<close> show ?thesis by (cases x) simp
  qed
qed

lemma ddel_filter: "ddel k d = filter (\<lambda>e. fst e \<noteq> k) d"
  by (induction d) auto

lemma count_ddel_le: "count_vals p (ddel k d) \<le> count_vals p d"
proof (induction d)
  case Nil
  show ?case by simp
next
  case (Cons x d)
  then show ?case by (cases x) (auto simp: count_vals_def)
qed

lemma count_dset_new:
  "k \<notin> dkeys d \<Longrightarrow> count_vals p (dset k v d) = count_vals p d + (if p v then 1 else 0)"
  by (simp add: dset_new count_vals_def)

lemma count_dprune_le: "count_vals p (dprune q d) \<le> count_vals p d"
proof (induction d)
  case Nil
  show ?case by (simp add: dprune_def)
next
  case (Cons x d)
  then show ?case by (cases x) (auto simp: count_vals_def dprune_def)
qed

text \<open>The contract the components use, and that the association lists meet it.\<close>

locale ordered_dict =
  fixes get :: "'d \<Rightarrow> 'k \<Rightarrow> 'v option"
    and put :: "'k \<Rightarrow> 'v \<Rightarrow> 'd \<Rightarrow> 'd"
    and del :: "'k \<Rightarrow> 'd \<Rightarrow> 'd"
    and items :: "'d \<Rightarrow> ('k \<times> 'v) list"
    and wf :: "'d \<Rightarrow> bool"
  assumes get_put: "get (put k v d) j = (if j = k then Some v else get d j)"
    and get_del: "get (del k d) j = (if j = k then None else get d j)"
    and wf_put: "wf d \<Longrightarrow> wf (put k v d)"
    and wf_del: "wf d \<Longrightarrow> wf (del k d)"
    and items_get: "wf d \<Longrightarrow> (k, v) \<in> set (items d) \<longleftrightarrow> get d k = Some v"
    and items_put_new: "wf d \<Longrightarrow> get d k = None \<Longrightarrow> items (put k v d) = items d @ [(k, v)]"
    and items_del: "wf d \<Longrightarrow> items (del k d) = filter (\<lambda>e. fst e \<noteq> k) (items d)"
begin

text \<open>Moving a key from one dictionary to another changes no other entry.\<close>

lemma move_other: "j \<noteq> k \<Longrightarrow> get (put k v (del k d)) j = get d j"
  by (simp add: get_put get_del)

lemma del_put_new:
  assumes "wf d" and "get d k = None"
  shows "items (del k (put k v d)) = items d"
proof -
  have "items (del k (put k v d)) = filter (\<lambda>e. fst e \<noteq> k) (items d @ [(k, v)])"
    using assms by (simp add: items_del items_put_new wf_put)
  moreover have "\<forall>e \<in> set (items d). fst e \<noteq> k"
    using assms by (auto simp: items_get)
  ultimately show ?thesis by simp
qed

end

interpretation alist_dict: ordered_dict
  "map_of :: ('k \<times> 'v) list \<Rightarrow> 'k \<Rightarrow> 'v option" AList.update AList.delete id
  "\<lambda>d. distinct (map fst d)"
proof unfold_locales
  fix d :: "('k \<times> 'v) list" and k j v
  show "map_of (AList.update k v d) j = (if j = k then Some v else map_of d j)"
    by (rule dget_dset)
  show "map_of (AList.delete k d) j = (if j = k then None else map_of d j)"
    by (rule dget_ddel)
  assume wf: "distinct (map fst d)"
  show "distinct (map fst (AList.update k v d))" using wf by (rule wf_dset)
  show "distinct (map fst (AList.delete k d))" using wf by (rule wf_ddel)
  show "(k, v) \<in> set (id d) \<longleftrightarrow> map_of d k = Some v" using wf unfolding id_apply by (rule dget_mem)
  show "id (AList.delete k d) = filter (\<lambda>e. fst e \<noteq> k) (id d)" by (simp add: ddel_filter)
  assume "map_of d k = None"
  then show "id (AList.update k v d) = id d @ [(k, v)]" by (simp add: dset_new dkeys_None)
qed

end
