(* ===== verification/Store_Config.thy ===== *)
theory Store_Config
  imports Prelude
begin

text \<open>
  The value classes of \<^verbatim>\<open>relay_state_store.py\<close> whose constructors validate:
  \<^verbatim>\<open>RelayStateStoreConfig\<close>, \<^verbatim>\<open>ComputeNodeCapabilities\<close>, \<^verbatim>\<open>SchedulerNodeState\<close> and
  the two encrypted envelopes. A constructor is a function from unchecked Python values
  to a typed record or the exception it raises.
\<close>

section \<open>Exceptions\<close>

text \<open>
  The exception classes of the module, with their messages, and the built-in exceptions
  that the same lines can raise.
\<close>

datatype store_error =
    RelayStateStoreError string
  | RelayStateCapacityExceeded string
  | RelayStateCredentialMismatch string
  | RelayStateConflict string
  | RelayStateNoCapacity string
  | RelayStateInvalidReservation string
  | PyKeyError
  | PyTypeError
  | PyValueError
  | PyUnicodeError
  | PyOverflowError

definition RELAY_STATE_SCHEMA_VERSION :: int where
  "RELAY_STATE_SCHEMA_VERSION = 1"

definition CONTEXT_TIER_TOKEN_BOUNDS :: "(string, nat) dict" where
  "CONTEXT_TIER_TOKEN_BOUNDS = [(''8k-fast'', 8192), (''64k-full'', 65536)]"

definition ALLOWED_BACKEND_CLASSES :: "string list" where
  "ALLOWED_BACKEND_CLASSES = [''cpu'', ''cuda'', ''metal'', ''vulkan'', ''gpu'', ''unknown'']"

section \<open>Configuration\<close>

record config =
  namespace :: string
  lease_ttl_seconds :: rat
  max_compute_nodes :: nat
  max_node_id_bytes :: nat
  reservation_ttl_seconds :: rat
  max_request_ttl_seconds :: rat
  max_reservations :: nat
  max_reservations_per_client :: nat
  max_reservations_per_node :: nat
  max_queue_depth_per_node :: nat
  max_request_lifecycles :: nat
  max_queued_requests :: nat
  max_queued_requests_per_client :: nat
  max_identity_bytes :: nat
  max_model_id_bytes :: nat
  max_scheduler_fingerprints :: nat
  max_envelope_bytes :: nat
  claim_ttl_seconds :: rat
  max_claims :: nat
  max_claims_per_node :: nat
  max_consumer_identity_bytes :: nat
  max_response_envelope_bytes :: nat
  max_responses :: nat
  max_responses_per_client :: nat
  response_replay_ttl_seconds :: rat
  max_terminal_records :: nat
  max_terminal_records_per_client :: nat
  terminal_retention_seconds :: rat
  max_cancellation_token_bytes :: nat
  control_tombstone_ttl_seconds :: rat
  max_control_tombstones :: nat
  max_control_tombstones_per_node :: nat
  node_transition_batch_size :: nat
  max_pending_node_transitions :: nat
  max_node_tombstones :: nat
  node_tombstone_ttl_seconds :: rat
  max_removed_owner_fences :: nat

text \<open>The keyword arguments of the constructor, and the defaults of the dataclass.\<close>

type_synonym kwargs = "(string, pyval) dict"

definition config_defaults :: kwargs where
  "config_defaults =
    [(''schema_version'', VInt RELAY_STATE_SCHEMA_VERSION),
     (''lease_ttl_seconds'', VFloat 30), (''max_compute_nodes'', VInt 1024),
     (''max_node_id_bytes'', VInt 8192), (''reservation_ttl_seconds'', VFloat 15),
     (''max_request_ttl_seconds'', VFloat 3600), (''max_reservations'', VInt 4096),
     (''max_reservations_per_client'', VInt 8), (''max_reservations_per_node'', VInt 128),
     (''max_queue_depth_per_node'', VInt 128), (''max_request_lifecycles'', VInt 4096),
     (''max_queued_requests'', VInt 4096), (''max_queued_requests_per_client'', VInt 8),
     (''max_identity_bytes'', VInt 8192), (''max_model_id_bytes'', VInt 128),
     (''max_scheduler_fingerprints'', VInt 4096), (''max_envelope_bytes'', VInt 1048576),
     (''claim_ttl_seconds'', VFloat 30), (''max_claims'', VInt 4096),
     (''max_claims_per_node'', VInt 128), (''max_consumer_identity_bytes'', VInt 1024),
     (''max_response_envelope_bytes'', VInt 1048576), (''max_responses'', VInt 4096),
     (''max_responses_per_client'', VInt 8), (''response_replay_ttl_seconds'', VFloat 300),
     (''max_terminal_records'', VInt 4096), (''max_terminal_records_per_client'', VInt 8),
     (''terminal_retention_seconds'', VFloat 3600), (''max_cancellation_token_bytes'', VInt 1024),
     (''control_tombstone_ttl_seconds'', VFloat 300), (''max_control_tombstones'', VInt 4096),
     (''max_control_tombstones_per_node'', VInt 128), (''node_transition_batch_size'', VInt 64),
     (''max_pending_node_transitions'', VInt 1024), (''max_node_tombstones'', VInt 1024),
     (''node_tombstone_ttl_seconds'', VFloat 300), (''max_removed_owner_fences'', VInt 4096)]"

definition cfg_arg :: "kwargs \<Rightarrow> string \<Rightarrow> pyval" where
  "cfg_arg kw name =
     (case dget kw name of Some v \<Rightarrow> v
      | None \<Rightarrow> (case dget config_defaults name of Some v \<Rightarrow> v | None \<Rightarrow> VNone))"

definition is_namespace_start :: "char \<Rightarrow> bool" where
  "is_namespace_start c \<longleftrightarrow> (let n = char_code c in 97 \<le> n \<and> n \<le> 122 \<or> 48 \<le> n \<and> n \<le> 57)"

text \<open>\<^verbatim>\<open>^[a-z0-9][a-z0-9._-]{0,127}$\<close>\<close>

definition namespace_re :: "string \<Rightarrow> bool" where
  "namespace_re s \<longleftrightarrow>
     (case s of [] \<Rightarrow> False
      | c # cs \<Rightarrow> is_namespace_start c \<and> length cs \<le> 127 \<and>
          list_all (\<lambda>d. is_namespace_start d \<or> d \<in> set ''._-'') cs)"

text \<open>
  \<^verbatim>\<open>float(value)\<close> of a value that is not a bool: \<open>Inr None\<close> for a value that is no
  finite number.
\<close>

definition finite_float :: "env \<Rightarrow> pyval \<Rightarrow> store_error + rat option" where
  "finite_float E v =
     (case v of
        VInt i \<Rightarrow> (case float_of_int E i of None \<Rightarrow> Inl PyOverflowError | Some r \<Rightarrow> Inr (Some r))
      | VFloat r \<Rightarrow> Inr (Some r)
      | _ \<Rightarrow> Inr None)"

definition validate_int_bound :: "pyval \<Rightarrow> string \<Rightarrow> nat \<Rightarrow> store_error + nat" where
  "validate_int_bound v name maximum =
     (case v of
        VInt i \<Rightarrow>
          if 1 \<le> i \<and> i \<le> int maximum then Inr (nat i)
          else Inl (RelayStateStoreError
            (name @ '' must be an integer between 1 and '' @ show_nat maximum))
      | _ \<Rightarrow> Inl (RelayStateStoreError
            (name @ '' must be an integer between 1 and '' @ show_nat maximum)))"

text \<open>The bounds are also passed as the text the message shows.\<close>

definition validate_float_bound ::
  "env \<Rightarrow> pyval \<Rightarrow> string \<Rightarrow> rat \<times> string \<Rightarrow> rat \<times> string \<Rightarrow> store_error + rat" where
  "validate_float_bound E v name lo hi =
     ebind (finite_float E v) (\<lambda>f.
       let bad = RelayStateStoreError
             (name @ '' must be finite and between '' @ snd lo @ '' and '' @ snd hi)
       in case (f, py_num v) of
            (Some r, Some x) \<Rightarrow> if fst lo \<le> r \<and> r \<le> fst hi then Inr x else Inl bad
          | _ \<Rightarrow> Inl bad)"

definition int_bounds :: "(string \<times> string \<times> nat) list" where
  "int_bounds =
    [(''max_reservations'', ''reservation bound'', 1000000),
     (''max_reservations_per_client'', ''per-client reservation bound'', 10000),
     (''max_reservations_per_node'', ''per-node reservation bound'', 10000),
     (''max_queue_depth_per_node'', ''per-node queue bound'', 1000000),
     (''max_request_lifecycles'', ''request lifecycle bound'', 1000000),
     (''max_queued_requests'', ''global queue bound'', 1000000),
     (''max_queued_requests_per_client'', ''per-client queued-work bound'', 10000),
     (''max_identity_bytes'', ''identity byte bound'', 65536),
     (''max_model_id_bytes'', ''model-id byte bound'', 1024),
     (''max_scheduler_fingerprints'', ''scheduler fingerprint bound'', 1000000),
     (''max_envelope_bytes'', ''encrypted-envelope byte bound'', 67108864),
     (''max_claims'', ''claim bound'', 1000000),
     (''max_claims_per_node'', ''per-node claim bound'', 10000),
     (''max_consumer_identity_bytes'', ''consumer identity byte bound'', 65536),
     (''max_response_envelope_bytes'', ''response encrypted-envelope byte bound'', 67108864),
     (''max_responses'', ''response bound'', 1000000),
     (''max_responses_per_client'', ''per-client response bound'', 10000),
     (''max_terminal_records'', ''terminal-record bound'', 1000000),
     (''max_cancellation_token_bytes'', ''cancellation-token byte bound'', 65536),
     (''max_control_tombstones'', ''control-tombstone bound'', 1000000),
     (''node_transition_batch_size'', ''node-transition batch bound'', 10000),
     (''max_pending_node_transitions'', ''pending node-transition bound'', 1000000),
     (''max_node_tombstones'', ''node-tombstone bound'', 1000000),
     (''max_removed_owner_fences'', ''removed-owner fence bound'', 1000000),
     (''max_control_tombstones_per_node'', ''per-node control-tombstone bound'', 10000),
     (''max_terminal_records_per_client'', ''per-client terminal-record bound'', 10000)]"

fun validate_int_bounds :: "kwargs \<Rightarrow> (string \<times> string \<times> nat) list \<Rightarrow> store_error + unit" where
  "validate_int_bounds kw [] = Inr ()"
| "validate_int_bounds kw ((field, name, maximum) # bs) =
     ebind (validate_int_bound (cfg_arg kw field) name maximum) (\<lambda>_. validate_int_bounds kw bs)"

definition int_field :: "kwargs \<Rightarrow> string \<Rightarrow> nat" where
  "int_field kw name = (case cfg_arg kw name of VInt i \<Rightarrow> nat i | _ \<Rightarrow> 0)"

definition num_field :: "kwargs \<Rightarrow> string \<Rightarrow> rat" where
  "num_field kw name = (case py_num (cfg_arg kw name) of Some r \<Rightarrow> r | None \<Rightarrow> 0)"

text \<open>The typed view of arguments that \<open>post_init\<close> accepts.\<close>

definition typed_config :: "kwargs \<Rightarrow> config" where
  "typed_config kw =
    \<lparr>namespace = (case cfg_arg kw ''namespace'' of VStr s \<Rightarrow> s | _ \<Rightarrow> []),
     lease_ttl_seconds = num_field kw ''lease_ttl_seconds'',
     max_compute_nodes = int_field kw ''max_compute_nodes'',
     max_node_id_bytes = int_field kw ''max_node_id_bytes'',
     reservation_ttl_seconds = num_field kw ''reservation_ttl_seconds'',
     max_request_ttl_seconds = num_field kw ''max_request_ttl_seconds'',
     max_reservations = int_field kw ''max_reservations'',
     max_reservations_per_client = int_field kw ''max_reservations_per_client'',
     max_reservations_per_node = int_field kw ''max_reservations_per_node'',
     max_queue_depth_per_node = int_field kw ''max_queue_depth_per_node'',
     max_request_lifecycles = int_field kw ''max_request_lifecycles'',
     max_queued_requests = int_field kw ''max_queued_requests'',
     max_queued_requests_per_client = int_field kw ''max_queued_requests_per_client'',
     max_identity_bytes = int_field kw ''max_identity_bytes'',
     max_model_id_bytes = int_field kw ''max_model_id_bytes'',
     max_scheduler_fingerprints = int_field kw ''max_scheduler_fingerprints'',
     max_envelope_bytes = int_field kw ''max_envelope_bytes'',
     claim_ttl_seconds = num_field kw ''claim_ttl_seconds'',
     max_claims = int_field kw ''max_claims'',
     max_claims_per_node = int_field kw ''max_claims_per_node'',
     max_consumer_identity_bytes = int_field kw ''max_consumer_identity_bytes'',
     max_response_envelope_bytes = int_field kw ''max_response_envelope_bytes'',
     max_responses = int_field kw ''max_responses'',
     max_responses_per_client = int_field kw ''max_responses_per_client'',
     response_replay_ttl_seconds = num_field kw ''response_replay_ttl_seconds'',
     max_terminal_records = int_field kw ''max_terminal_records'',
     max_terminal_records_per_client = int_field kw ''max_terminal_records_per_client'',
     terminal_retention_seconds = num_field kw ''terminal_retention_seconds'',
     max_cancellation_token_bytes = int_field kw ''max_cancellation_token_bytes'',
     control_tombstone_ttl_seconds = num_field kw ''control_tombstone_ttl_seconds'',
     max_control_tombstones = int_field kw ''max_control_tombstones'',
     max_control_tombstones_per_node = int_field kw ''max_control_tombstones_per_node'',
     node_transition_batch_size = int_field kw ''node_transition_batch_size'',
     max_pending_node_transitions = int_field kw ''max_pending_node_transitions'',
     max_node_tombstones = int_field kw ''max_node_tombstones'',
     node_tombstone_ttl_seconds = num_field kw ''node_tombstone_ttl_seconds'',
     max_removed_owner_fences = int_field kw ''max_removed_owner_fences''\<rparr>"

definition post_init_config :: "env \<Rightarrow> kwargs \<Rightarrow> store_error + unit" where
  "post_init_config E kw =
     ebind (echeck
       (case cfg_arg kw ''namespace'' of VStr s \<Rightarrow> \<not> namespace_re s | _ \<Rightarrow> True)
       (RelayStateStoreError ''namespace must be 1-128 lowercase routing-safe characters'')) (\<lambda>_.
     ebind (echeck (cfg_arg kw ''schema_version'' \<noteq> VInt RELAY_STATE_SCHEMA_VERSION)
       (RelayStateStoreError ''unsupported relay state schema version'')) (\<lambda>_.
     ebind (finite_float E (cfg_arg kw ''lease_ttl_seconds'')) (\<lambda>lease.
     ebind (echeck (lease = None \<or> num_field kw ''lease_ttl_seconds'' \<le> 0)
       (RelayStateStoreError ''lease TTL must be a finite positive number'')) (\<lambda>_.
     ebind (echeck
       (case cfg_arg kw ''max_compute_nodes'' of VInt i \<Rightarrow> \<not> (1 \<le> i \<and> i \<le> 1000000) | _ \<Rightarrow> True)
       (RelayStateStoreError ''compute-node bound must be between 1 and 1,000,000'')) (\<lambda>_.
     ebind (echeck
       (case cfg_arg kw ''max_node_id_bytes'' of VInt i \<Rightarrow> \<not> (1 \<le> i \<and> i \<le> 65536) | _ \<Rightarrow> True)
       (RelayStateStoreError ''node-id bound must be between 1 and 65,536 bytes'')) (\<lambda>_.
     ebind (validate_float_bound E (cfg_arg kw ''reservation_ttl_seconds'')
       ''reservation TTL'' (1/1000, ''0.001'') (300, ''300.0'')) (\<lambda>_.
     ebind (validate_float_bound E (cfg_arg kw ''max_request_ttl_seconds'')
       ''request TTL'' (1/1000, ''0.001'') (86400, ''86400.0'')) (\<lambda>_.
     ebind (validate_float_bound E (cfg_arg kw ''claim_ttl_seconds'')
       ''claim TTL'' (1/1000, ''0.001'') (3600, ''3600.0'')) (\<lambda>_.
     ebind (validate_float_bound E (cfg_arg kw ''response_replay_ttl_seconds'')
       ''response replay TTL'' (1/1000, ''0.001'') (86400, ''86400.0'')) (\<lambda>_.
     ebind (validate_float_bound E (cfg_arg kw ''terminal_retention_seconds'')
       ''terminal retention'' (1/1000, ''0.001'') (604800, ''604800.0'')) (\<lambda>_.
     ebind (validate_float_bound E (cfg_arg kw ''control_tombstone_ttl_seconds'')
       ''control tombstone TTL'' (1/1000, ''0.001'') (300, ''300.0'')) (\<lambda>_.
     ebind (validate_float_bound E (cfg_arg kw ''node_tombstone_ttl_seconds'')
       ''node tombstone TTL'' (1/1000, ''0.001'') (300, ''300.0'')) (\<lambda>_.
     ebind (echeck
       (num_field kw ''terminal_retention_seconds'' < num_field kw ''response_replay_ttl_seconds'')
       (RelayStateStoreError ''terminal retention must cover response replay retention'')) (\<lambda>_.
     ebind (echeck
       (num_field kw ''terminal_retention_seconds'' < num_field kw ''control_tombstone_ttl_seconds'')
       (RelayStateStoreError ''terminal retention must cover control tombstone TTL'')) (\<lambda>_.
     validate_int_bounds kw int_bounds)))))))))))))))"

definition mk_config :: "env \<Rightarrow> kwargs \<Rightarrow> store_error + config" where
  "mk_config E kw =
     (if \<not> dmem ''namespace'' kw \<or>
         (\<exists>k \<in> set (map fst kw). k \<noteq> ''namespace'' \<and> \<not> dmem k config_defaults)
      then Inl PyTypeError
      else ebind (post_init_config E kw) (\<lambda>_. Inr (typed_config kw)))"

section \<open>Compute-node capabilities\<close>

record capabilities =
  supported_model_ids :: "string list"
  active_context_tier :: string
  maximum_total_context_tokens :: nat
  default_output_token_reservation :: nat
  maximum_output_tokens :: nat
  max_concurrency :: nat
  backend_class :: string

text \<open>The loop over the model ids: normalise, drop repeats, keep the first occurrence.\<close>

fun normalize_model_ids :: "pyval list \<Rightarrow> string list \<Rightarrow> store_error + string list" where
  "normalize_model_ids [] acc = Inr acc"
| "normalize_model_ids (v # vs) acc =
     (case v of
        VStr s \<Rightarrow>
          if py_strip s = [] \<or> length (py_strip s) > 128
          then Inl (RelayStateStoreError
            ''model IDs must be non-empty strings of at most 128 characters'')
          else let value = py_lower (py_strip s)
               in normalize_model_ids vs (if value \<in> set acc then acc else acc @ [value])
      | _ \<Rightarrow> Inl (RelayStateStoreError
            ''model IDs must be non-empty strings of at most 128 characters''))"

definition validate_positive_int :: "pyval \<Rightarrow> string \<Rightarrow> nat \<Rightarrow> store_error + nat" where
  "validate_positive_int v name maximum =
     (case v of
        VInt i \<Rightarrow>
          if 1 \<le> i \<and> i \<le> int maximum then Inr (nat i)
          else Inl (RelayStateStoreError
            (name @ '' must be an integer between 1 and '' @ show_nat maximum))
      | _ \<Rightarrow> Inl (RelayStateStoreError
            (name @ '' must be an integer between 1 and '' @ show_nat maximum)))"

definition normalized_text :: "pyval \<Rightarrow> string" where
  "normalized_text v = (case v of VStr s \<Rightarrow> py_lower (py_strip s) | _ \<Rightarrow> [])"

text \<open>\<open>ids\<close> is \<open>None\<close> when the argument is no tuple.\<close>

definition mk_capabilities ::
  "pyval list option \<Rightarrow> pyval \<Rightarrow> pyval \<Rightarrow> pyval \<Rightarrow> pyval \<Rightarrow> pyval \<Rightarrow> pyval \<Rightarrow> pyval \<Rightarrow>
   store_error + capabilities" where
  "mk_capabilities ids tier tot dflt out conc backend version =
     ebind (echeck (version \<noteq> VStr ''v1'')
       (RelayStateStoreError ''capability API version must be v1'')) (\<lambda>_.
     ebind (case ids of
        None \<Rightarrow> Inl (RelayStateStoreError
          ''supported model IDs must be a tuple containing 1-64 values'')
      | Some vs \<Rightarrow>
          if \<not> (1 \<le> length vs \<and> length vs \<le> 64)
          then Inl (RelayStateStoreError
            ''supported model IDs must be a tuple containing 1-64 values'')
          else normalize_model_ids vs []) (\<lambda>models.
     ebind (case dget CONTEXT_TIER_TOKEN_BOUNDS (normalized_text tier) of
        None \<Rightarrow> Inl (RelayStateStoreError ''unsupported active context tier'')
      | Some bound \<Rightarrow> Inr bound) (\<lambda>bound.
     ebind (validate_positive_int tot ''maximum context tokens'' 1000000) (\<lambda>tot'.
     ebind (echeck (tot' < bound)
       (RelayStateStoreError ''maximum context tokens are below the active tier'')) (\<lambda>_.
     ebind (validate_positive_int dflt ''default output reservation'' 1000000) (\<lambda>dflt'.
     ebind (validate_positive_int out ''maximum output tokens'' 1000000) (\<lambda>out'.
     ebind (echeck (dflt' > out')
       (RelayStateStoreError ''default output reservation exceeds maximum output tokens'')) (\<lambda>_.
     ebind (validate_positive_int conc ''maximum concurrency'' 128) (\<lambda>conc'.
     Inr \<lparr>supported_model_ids = models, active_context_tier = normalized_text tier,
          maximum_total_context_tokens = tot', default_output_token_reservation = dflt',
          maximum_output_tokens = out', max_concurrency = conc',
          backend_class = (if normalized_text backend \<in> set ALLOWED_BACKEND_CLASSES
                           then normalized_text backend else ''unknown'')\<rparr>)))))))))"

section \<open>Scheduler state of a node\<close>

record scheduler_state =
  healthy :: bool
  draining :: bool
  claimed_work :: nat

definition mk_scheduler_state :: "pyval \<Rightarrow> pyval \<Rightarrow> pyval \<Rightarrow> store_error + scheduler_state" where
  "mk_scheduler_state h d w =
     (case (h, d) of
        (VBool hb, VBool db) \<Rightarrow>
          (case w of
             VInt i \<Rightarrow>
               if 0 \<le> i \<and> i \<le> 1000000
               then Inr \<lparr>healthy = hb, draining = db, claimed_work = nat i\<rparr>
               else Inl (RelayStateStoreError
                 ''claimed work must be an integer between 0 and 1,000,000'')
           | _ \<Rightarrow> Inl (RelayStateStoreError
                 ''claimed work must be an integer between 0 and 1,000,000''))
      | _ \<Rightarrow> Inl (RelayStateStoreError ''scheduler health flags must be booleans''))"

definition default_scheduler_state :: scheduler_state where
  "default_scheduler_state = \<lparr>healthy = True, draining = False, claimed_work = 0\<rparr>"

section \<open>Encrypted envelopes\<close>

text \<open>
  The version is kept as it was given: the check compares with \<^verbatim>\<open>!=\<close>, so the float
  \<^verbatim>\<open>1.0\<close> passes it too, and it serialises differently.
\<close>

record envelope =
  protocol :: string
  version :: pyval
  ciphertext :: string
  cipherkey :: string
  iv :: string

definition E2EE_PROTOCOL :: string where
  "E2EE_PROTOCOL = ''tokenplace_api_v1_relay_e2ee''"

definition version_rejected :: "pyval \<Rightarrow> bool" where
  "version_rejected v \<longleftrightarrow> (case v of VBool _ \<Rightarrow> True | _ \<Rightarrow> \<not> py_eq v (VInt 1))"

definition mk_envelope ::
  "string \<times> string \<times> string \<Rightarrow> pyval \<Rightarrow> pyval \<Rightarrow> pyval \<Rightarrow> pyval \<Rightarrow> pyval \<Rightarrow>
   store_error + envelope" where
  "mk_envelope msgs p v ct ck i =
     (if p \<noteq> VStr E2EE_PROTOCOL then Inl (RelayStateStoreError (fst msgs))
      else if version_rejected v then Inl (RelayStateStoreError (fst (snd msgs)))
      else case (ct, ck, i) of
        (VStr ct', VStr ck', VStr i') \<Rightarrow>
          if ct' = [] \<or> ck' = [] \<or> i' = [] then Inl (RelayStateStoreError (snd (snd msgs)))
          else Inr \<lparr>protocol = E2EE_PROTOCOL, version = v, ciphertext = ct', cipherkey = ck', iv = i'\<rparr>
      | _ \<Rightarrow> Inl (RelayStateStoreError (snd (snd msgs))))"

definition mk_request_envelope ::
  "pyval \<Rightarrow> pyval \<Rightarrow> pyval \<Rightarrow> pyval \<Rightarrow> pyval \<Rightarrow> store_error + envelope" where
  "mk_request_envelope = mk_envelope
     (''unsupported encrypted-envelope protocol'', ''unsupported encrypted-envelope version'',
      ''encrypted-envelope values must be non-empty strings'')"

definition mk_response_envelope ::
  "pyval \<Rightarrow> pyval \<Rightarrow> pyval \<Rightarrow> pyval \<Rightarrow> pyval \<Rightarrow> store_error + envelope" where
  "mk_response_envelope = mk_envelope
     (''unsupported encrypted response protocol'', ''unsupported encrypted response version'',
      ''encrypted response values must be non-empty strings'')"

definition envelope_eq :: "envelope \<Rightarrow> envelope \<Rightarrow> bool" where
  "envelope_eq a b \<longleftrightarrow> protocol a = protocol b \<and> py_eq (version a) (version b) \<and>
     ciphertext a = ciphertext b \<and> cipherkey a = cipherkey b \<and> iv a = iv b"

lemma envelope_eq_refl [simp]: "envelope_eq e e"
  by (simp add: envelope_eq_def)

section \<open>What the constructors guarantee\<close>

lemma validate_int_bounds_member:
  "validate_int_bounds kw bs = Inr () \<Longrightarrow> (f, name, m) \<in> set bs \<Longrightarrow>
     1 \<le> int_field kw f \<and> int_field kw f \<le> m"
  by (induction bs)
    (auto simp: ebind_Inr validate_int_bound_def int_field_def split: pyval.splits if_splits)

lemma validate_float_bound_field:
  "validate_float_bound E (cfg_arg kw f) name lo hi = Inr x \<Longrightarrow> x = num_field kw f"
  by (auto simp: validate_float_bound_def ebind_Inr Let_def num_field_def split: option.splits if_splits)

lemma mk_config_Inr:
  assumes "mk_config E kw = Inr cfg"
  shows "cfg = typed_config kw" and "post_init_config E kw = Inr ()"
  using assms by (auto simp: mk_config_def ebind_Inr split: if_splits)

lemma post_init_bounds:
  assumes "post_init_config E kw = Inr ()"
  shows "validate_int_bounds kw int_bounds = Inr ()"
    and "num_field kw ''response_replay_ttl_seconds'' \<le> num_field kw ''terminal_retention_seconds''"
    and "num_field kw ''control_tombstone_ttl_seconds'' \<le> num_field kw ''terminal_retention_seconds''"
    and "0 < num_field kw ''lease_ttl_seconds''"
    and "1 \<le> int_field kw ''max_compute_nodes'' \<and> int_field kw ''max_compute_nodes'' \<le> 1000000"
    and "1 \<le> int_field kw ''max_node_id_bytes'' \<and> int_field kw ''max_node_id_bytes'' \<le> 65536"
  using assms unfolding post_init_config_def ebind_Inr echeck_Inr
  by (auto simp: not_less not_le int_field_def split: pyval.splits)

end
