(* ===== verification/Store_State.thy ===== *)
theory Store_State
  imports Store_Config
begin

text \<open>
  The records of \<^verbatim>\<open>relay_state_store.py\<close>, the state of \<^verbatim>\<open>InMemoryRelayStateStore\<close>,
  and its helpers without effects: argument checks, digests, envelope serialisation, the
  acknowledgement token. Field names carry a prefix per record, since several records of
  the source share theirs.
\<close>

section \<open>Records\<close>

text \<open>The canonical identity of a request: the pair of its client and request digests.\<close>

datatype identity = Identity (id_client: string) (id_request: string)

record registration =
  reg_node_id :: string
  reg_capabilities :: capabilities
  reg_control_credential_digest :: string
  reg_registered_at_epoch :: epoch
  reg_lease_expires_at_epoch :: epoch

record reservation =
  res_client_identity_digest :: string
  res_request_identity_digest :: string
  res_scheduler_fingerprint :: string
  res_selected_node_id :: string
  res_requested_model_id :: string
  res_requested_context_tier :: string
  res_request_deadline_epoch :: epoch
  res_reservation_expires_at_epoch :: epoch
  res_token_digest :: string

record queued_request =
  qd_client_identity_digest :: string
  qd_request_identity_digest :: string
  qd_client_public_key :: string
  qd_request_id :: string
  qd_selected_node_id :: string
  qd_requested_model_id :: string
  qd_requested_context_tier :: string
  qd_request_deadline_epoch :: epoch
  qd_envelope :: envelope
  qd_enqueued_at_epoch :: epoch
  qd_sequence :: nat

record control_tombstone =
  ct_client_identity_digest :: string
  ct_request_identity_digest :: string
  ct_selected_node_id :: string
  ct_control_credential_digest :: string
  ct_consumer_identity_digest :: string
  ct_generation :: int
  ct_status :: string
  ct_reason :: string
  ct_request_deadline_epoch :: epoch
  ct_acknowledged :: bool
  ct_expires_at_epoch :: epoch

record node_tombstone =
  nt_node_identity_digest :: string
  nt_control_credential_digest :: string
  nt_cause :: string
  nt_status :: string
  nt_transition_epoch :: epoch
  nt_completed :: bool
  nt_expires_at_epoch :: epoch

record pending_transition =
  pt_node_id :: string
  pt_node_identity_digest :: string
  pt_control_credential_digest :: string
  pt_cause :: string
  pt_status :: string
  pt_reason :: string
  pt_transition_epoch :: epoch

record former_authority =
  fa_control_credential_digest :: string
  fa_cause :: string
  fa_status :: string
  fa_transition_epoch :: epoch
  fa_expires_at_epoch :: epoch

record claim_record =
  cl_client_identity_digest :: string
  cl_request_identity_digest :: string
  cl_consumer_identity_digest :: string
  cl_selected_node_id :: string
  cl_control_credential_digest :: string
  cl_request_deadline_epoch :: epoch
  cl_envelope :: envelope
  cl_sequence :: nat
  cl_generation :: int
  cl_lease_expires_at_epoch :: epoch

record response_record =
  rs_client_identity_digest :: string
  rs_request_identity_digest :: string
  rs_client_public_key :: string
  rs_request_id :: string
  rs_selected_node_id :: string
  rs_consumer_identity_digest :: string
  rs_generation :: int
  rs_envelope :: envelope
  rs_accepted_at_epoch :: epoch
  rs_response_digest :: string
  rs_replay_expires_at_epoch :: epoch
  rs_status :: string

record terminal_record =
  tm_client_identity_digest :: string
  tm_request_identity_digest :: string
  tm_selected_node_id :: string
  tm_control_credential_digest :: string
  tm_consumer_identity_digest :: string
  tm_generation :: int
  tm_response_digest :: string
  tm_accepted_at_epoch :: epoch
  tm_replay_expires_at_epoch :: epoch
  tm_expires_at_epoch :: epoch
  tm_outcome :: string
  tm_retrieval_state :: string
  tm_retrieval_credential_digest :: string
  tm_acknowledgement_digest :: string
  tm_reason :: string
  tm_cancellation_token_digest :: string

section \<open>Results of the operations\<close>

datatype selection_result = SelectionResult
  (sel_node: string) (sel_model: string) (sel_tier: string) (sel_deadline: epoch)
  (sel_expires: "epoch option") (sel_token: "string option") (sel_created: bool) (sel_state: string)

datatype enqueue_result = EnqueueResult
  (enq_state: string) (enq_node: string) (enq_deadline: epoch) (enq_sequence: nat) (enq_created: bool)

datatype claim_result = ClaimResult
  (clm_state: string) (clm_generation: "int option") (clm_lease: "epoch option")
  (clm_deadline: "epoch option") (clm_client_public_key: "string option")
  (clm_request_id: "string option") (clm_envelope: "envelope option")

datatype claim_renewal_result = ClaimRenewalResult
  (rnw_state: string) (rnw_generation: "int option") (rnw_lease: "epoch option")
  (rnw_reason: "string option") (rnw_acknowledged: bool)

datatype terminal_transition_result = TerminalTransitionResult
  (ttr_state: string) (ttr_reason: string) (ttr_new_outcome: bool)

datatype node_transition_result = NodeTransitionResult
  (ntr_state: string) (ntr_cause: string) (ntr_epoch: "epoch option") (ntr_processed: nat)
  (ntr_reservations: nat) (ntr_queued: nat) (ntr_claims: nat) (ntr_outcomes: nat)
  (ntr_continuation: bool)

datatype response_acceptance_result = ResponseAcceptanceResult
  (rar_state: string) (rar_generation: int) (rar_accepted_at: epoch) (rar_replay_expires: epoch)
  (rar_new_outcome: bool)

datatype response_retrieval_result = ResponseRetrievalResult
  (rrr_state: string) (rrr_envelope: "envelope option") (rrr_token: "string option")
  (rrr_replay_expires: "epoch option")

section \<open>The store\<close>

text \<open>
  One field per attribute of \<^verbatim>\<open>InMemoryRelayStateStore\<close>; dictionaries keep insertion
  order. The lock makes each public method one atomic step, so a method is a function
  from state to state; the clock value it reads is an argument.
\<close>

record store =
  acknowledgement_key :: string
  records :: "(string, registration) dict"
  scheduler_states :: "(string, scheduler_state) dict"
  registration_order :: "(string, nat) dict"
  next_registration_order :: nat
  reservations :: "(identity, reservation) dict"
  queued :: "(identity, queued_request) dict"
  queued_token_digests :: "(identity, string) dict"
  cancellation_token_digests :: "(identity, string) dict"
  node_queues :: "(string, queued_request list) dict"
  claims :: "(identity, claim_record) dict"
  responses :: "(identity, response_record) dict"
  terminals :: "(identity, terminal_record) dict"
  control_tombstones :: "(identity, control_tombstone) dict"
  node_tombstones :: "(string, node_tombstone) dict"
  pending_node_transitions :: "(string, pending_transition) dict"
  former_node_authorities :: "(string, (string, former_authority) dict) dict"
  node_work_identities :: "(string, identity list) dict"
  deferred_deadline_identities :: "identity set"
  next_claim_generation :: int
  fairness_cursors :: "(string, string \<times> nat) dict"
  fairness_activity :: nat
  next_queue_sequence :: nat

type_synonym 'a store_op = "(store, store_error, 'a) effect"

text \<open>\<open>key\<close> is \<open>None\<close> when the argument is not a bytes object.\<close>

definition init_store :: "string option \<Rightarrow> store_error + store" where
  "init_store key =
     (case key of
        Some k \<Rightarrow>
          if length k < 32
          then Inl (RelayStateStoreError
            ''acknowledgement key must be bytes containing at least 256 bits'')
          else Inr \<lparr>acknowledgement_key = k, records = [], scheduler_states = [],
            registration_order = [], next_registration_order = 0, reservations = [],
            queued = [], queued_token_digests = [], cancellation_token_digests = [],
            node_queues = [], claims = [], responses = [], terminals = [],
            control_tombstones = [], node_tombstones = [], pending_node_transitions = [],
            former_node_authorities = [], node_work_identities = [],
            deferred_deadline_identities = {}, next_claim_generation = 0,
            fairness_cursors = [], fairness_activity = 0, next_queue_sequence = 0\<rparr>
      | None \<Rightarrow> Inl (RelayStateStoreError
            ''acknowledgement key must be bytes containing at least 256 bits''))"

section \<open>Argument checks\<close>

definition validate_node_id :: "env \<Rightarrow> config \<Rightarrow> pyval \<Rightarrow> store_error + string" where
  "validate_node_id E cfg v =
     (let bad = RelayStateStoreError ''node ID is empty or exceeds its configured byte bound''
      in case v of
           VStr s \<Rightarrow>
             if s = [] then Inl bad
             else (case utf8 E s of
                     None \<Rightarrow> Inl PyUnicodeError
                   | Some bs \<Rightarrow> if length bs > max_node_id_bytes cfg then Inl bad else Inr s)
         | _ \<Rightarrow> Inl bad)"

definition validate_digest :: "pyval \<Rightarrow> store_error + string" where
  "validate_digest v =
     (let bad = RelayStateStoreError ''control credential digest must be lowercase SHA-256 hex''
      in case v of VStr s \<Rightarrow> if is_sha256_hex s then Inr s else Inl bad | _ \<Rightarrow> Inl bad)"

definition require_digest :: "registration \<Rightarrow> string \<Rightarrow> store_error + unit" where
  "require_digest r d = echeck (reg_control_credential_digest r \<noteq> d)
     (RelayStateCredentialMismatch ''control credential digest does not own this registration'')"

text \<open>\<open>obj_arg\<close> is the \<^verbatim>\<open>isinstance\<close> check of an argument of one class.\<close>

definition obj_arg :: "'a pyarg \<Rightarrow> string \<Rightarrow> store_error + 'a" where
  "obj_arg a msg = (case a of ArgObj x \<Rightarrow> Inr x | _ \<Rightarrow> Inl (RelayStateStoreError msg))"

definition now_of :: "env \<Rightarrow> pyval \<Rightarrow> store_error + rat" where
  "now_of E v =
     ebind (finite_float E v) (\<lambda>f. case f of
        None \<Rightarrow> Inl (RelayStateStoreError ''epoch clock must return a finite number'')
      | Some r \<Rightarrow> Inr r)"

definition deadline_arg :: "env \<Rightarrow> pyval \<Rightarrow> store_error + epoch" where
  "deadline_arg E v =
     ebind (finite_float E v) (\<lambda>f. case f of
        None \<Rightarrow> Inl (RelayStateStoreError ''request deadline must be finite'')
      | Some r \<Rightarrow> Inr (Fin r))"

definition lease_deadline :: "env \<Rightarrow> config \<Rightarrow> rat \<Rightarrow> store_error + epoch" where
  "lease_deadline E cfg now =
     (let d = fl_add E now (lease_ttl_seconds cfg)
      in if is_finite d then Inr d else Inl (RelayStateStoreError ''lease deadline must be finite''))"

definition model_id_arg :: "env \<Rightarrow> config \<Rightarrow> pyval \<Rightarrow> store_error + string" where
  "model_id_arg E cfg v =
     (let bad = RelayStateStoreError ''requested model is invalid''
      in case v of
           VStr s \<Rightarrow>
             (let m = py_lower (py_strip s)
              in if m = [] then Inl bad
                 else case utf8 E m of
                        None \<Rightarrow> Inl PyUnicodeError
                      | Some bs \<Rightarrow> if length bs > max_model_id_bytes cfg then Inl bad else Inr m)
         | _ \<Rightarrow> Inl bad)"

definition context_tier_arg :: "pyval \<Rightarrow> store_error + string" where
  "context_tier_arg v =
     (if dmem (normalized_text v) CONTEXT_TIER_TOKEN_BOUNDS then Inr (normalized_text v)
      else Inl (RelayStateStoreError ''requested context tier is invalid''))"

definition generation_arg :: "pyval \<Rightarrow> store_error + int" where
  "generation_arg v =
     (case v of
        VInt g \<Rightarrow> if g < 1 then Inl (RelayStateStoreError ''claim generation is invalid'') else Inr g
      | _ \<Rightarrow> Inl (RelayStateStoreError ''claim generation is invalid''))"

section \<open>Digests\<close>

definition NUL :: string where
  "NUL = [CHR 0x00]"

text \<open>A bounded identity and its domain-separated digest.\<close>

definition identity_digest :: "env \<Rightarrow> nat \<Rightarrow> string \<Rightarrow> pyval \<Rightarrow> string \<Rightarrow> store_error + string" where
  "identity_digest E bound msg v domain =
     (case v of
        VStr s \<Rightarrow>
          if s = [] then Inl (RelayStateStoreError msg)
          else (case utf8 E s of
                  None \<Rightarrow> Inl PyUnicodeError
                | Some bs \<Rightarrow>
                    if length bs > bound then Inl (RelayStateStoreError msg)
                    else Inr (hexdigest (sha256 E (domain @ NUL @ bs))))
      | _ \<Rightarrow> Inl (RelayStateStoreError msg))"

definition identity_arg :: "env \<Rightarrow> config \<Rightarrow> pyval \<Rightarrow> pyval \<Rightarrow> store_error + identity" where
  "identity_arg E cfg client request =
     ebind (identity_digest E (max_identity_bytes cfg) ''request identity is invalid'' client ''client'') (\<lambda>c.
     ebind (identity_digest E (max_identity_bytes cfg) ''request identity is invalid'' request ''request'') (\<lambda>r.
     Inr (Identity c r)))"

definition consumer_digest :: "env \<Rightarrow> config \<Rightarrow> pyval \<Rightarrow> store_error + string" where
  "consumer_digest E cfg v =
     identity_digest E (max_consumer_identity_bytes cfg) ''consumer identity is invalid'' v ''consumer''"

definition cancellation_token_digest :: "env \<Rightarrow> config \<Rightarrow> pyval \<Rightarrow> store_error + string" where
  "cancellation_token_digest E cfg v =
     identity_digest E (max_cancellation_token_bytes cfg) ''cancellation proof is invalid'' v ''cancel''"

definition safe_cancellation_token_digest :: "env \<Rightarrow> config \<Rightarrow> pyval \<Rightarrow> string" where
  "safe_cancellation_token_digest E cfg v =
     (case cancellation_token_digest E cfg v of Inl _ \<Rightarrow> zero_digest | Inr d \<Rightarrow> d)"

text \<open>
  The digest of a node id that \<open>validate_node_id\<close> accepted, for which \<open>utf8\<close> returns.
\<close>

definition utf8_bytes :: "env \<Rightarrow> string \<Rightarrow> string" where
  "utf8_bytes E s = (case utf8 E s of Some bs \<Rightarrow> bs | None \<Rightarrow> [])"

definition node_digest :: "env \<Rightarrow> string \<Rightarrow> string" where
  "node_digest E n = hexdigest (sha256 E (''node'' @ NUL @ utf8_bytes E n))"

definition scheduler_fingerprint :: "env \<Rightarrow> string \<Rightarrow> string \<Rightarrow> string" where
  "scheduler_fingerprint E m tier = hexdigest (sha256 E (utf8_bytes E (m @ NUL @ tier)))"

text \<open>A reservation token is lowercase hexadecimal, so its ASCII bytes are its characters.\<close>

definition token_digest :: "env \<Rightarrow> pyval \<Rightarrow> store_error + string" where
  "token_digest E v =
     (case v of
        VStr s \<Rightarrow> if is_sha256_hex s then Inr (hexdigest (sha256 E s))
                  else Inl (RelayStateInvalidReservation ''reservation invalid'')
      | _ \<Rightarrow> Inl (RelayStateInvalidReservation ''reservation invalid''))"

definition safe_retrieval_credential_digest :: "env \<Rightarrow> pyval \<Rightarrow> string" where
  "safe_retrieval_credential_digest E v =
     (case v of
        VStr s \<Rightarrow> if is_sha256_hex s then hexdigest (sha256 E s) else zero_digest
      | _ \<Rightarrow> zero_digest)"

definition acknowledgement_digest :: "env \<Rightarrow> string \<Rightarrow> string" where
  "acknowledgement_digest E token = hexdigest (sha256 E token)"

definition safe_acknowledgement_digest :: "env \<Rightarrow> pyval \<Rightarrow> string" where
  "safe_acknowledgement_digest E v =
     (case v of
        VStr s \<Rightarrow> if is_sha256_hex s then acknowledgement_digest E s else zero_digest
      | _ \<Rightarrow> zero_digest)"

definition derive_acknowledgement_token ::
  "env \<Rightarrow> string \<Rightarrow> identity \<Rightarrow> epoch \<Rightarrow> string \<Rightarrow> store_error + string" where
  "derive_acknowledgement_token E key i accepted digest =
     (case (fromhex (id_client i), fromhex (id_request i), fromhex digest) of
        (Some a, Some b, Some d) \<Rightarrow>
          Inr (hexdigest (hmac_sha256 E key
            (''token.place/relay-response-ack/v1'' @ NUL @ a @ b @ pack_double E accepted @ d)))
      | _ \<Rightarrow> Inl PyValueError)"

definition acknowledgement_matches ::
  "env \<Rightarrow> string \<Rightarrow> identity \<Rightarrow> terminal_record \<Rightarrow> pyval \<Rightarrow> store_error + bool" where
  "acknowledgement_matches E key i t supplied =
     ebind (derive_acknowledgement_token E key i (tm_accepted_at_epoch t) (tm_response_digest t)) (\<lambda>expected.
     Inr (acknowledgement_digest E expected = tm_acknowledgement_digest t \<and>
          safe_acknowledgement_digest E supplied = tm_acknowledgement_digest t))"

section \<open>Envelope serialisation\<close>

definition json_escape_char :: "char \<Rightarrow> string" where
  "json_escape_char c =
     (let n = char_code c in
      if n = 34 then [CHR 0x5C, CHR 0x22]
      else if n = 92 then [CHR 0x5C, CHR 0x5C]
      else if n = 8 then [CHR 0x5C, CHR ''b'']
      else if n = 9 then [CHR 0x5C, CHR ''t'']
      else if n = 10 then [CHR 0x5C, CHR ''n'']
      else if n = 12 then [CHR 0x5C, CHR ''f'']
      else if n = 13 then [CHR 0x5C, CHR ''r'']
      else if n < 32 then CHR 0x5C # ''u00'' @ hex_byte c
      else [c])"

definition json_string :: "string \<Rightarrow> string" where
  "json_string s = [CHR 0x22] @ concat (map json_escape_char s) @ [CHR 0x22]"

text \<open>A version that the constructor accepted is the int \<^verbatim>\<open>1\<close> or the float \<^verbatim>\<open>1.0\<close>.\<close>

definition json_version :: "pyval \<Rightarrow> string" where
  "json_version v = (case v of VFloat _ \<Rightarrow> ''1.0'' | _ \<Rightarrow> ''1'')"

fun json_object :: "(string \<times> string) list \<Rightarrow> string" where
  "json_object [] = ''}''"
| "json_object [(k, v)] = json_string k @ '':'' @ v @ ''}''"
| "json_object ((k, v) # rest) = json_string k @ '':'' @ v @ '','' @ json_object rest"

definition dumps :: "(string \<times> string) list \<Rightarrow> string" where
  "dumps kvs = ''{'' @ json_object kvs"

definition serialized_envelope :: "env \<Rightarrow> envelope \<Rightarrow> store_error + string" where
  "serialized_envelope E e =
     (case utf8 E (dumps [(''protocol'', json_string (protocol e)),
              (''version'', json_version (version e)),
              (''ciphertext'', json_string (ciphertext e)),
              (''cipherkey'', json_string (cipherkey e)), (''iv'', json_string (iv e))]) of
        None \<Rightarrow> Inl PyUnicodeError | Some bs \<Rightarrow> Inr bs)"

definition validate_envelope_size :: "env \<Rightarrow> config \<Rightarrow> envelope \<Rightarrow> store_error + unit" where
  "validate_envelope_size E cfg e =
     ebind (serialized_envelope E e) (\<lambda>bs. echeck (length bs > max_envelope_bytes cfg)
       (RelayStateStoreError ''encrypted envelope exceeds its configured byte bound''))"

text \<open>The response is serialised with its keys sorted.\<close>

definition serialized_response_envelope :: "env \<Rightarrow> envelope \<Rightarrow> store_error + string" where
  "serialized_response_envelope E e =
     (case utf8 E (dumps [(''cipherkey'', json_string (cipherkey e)),
              (''ciphertext'', json_string (ciphertext e)), (''iv'', json_string (iv e)),
              (''protocol'', json_string (protocol e)),
              (''version'', json_version (version e))]) of
        None \<Rightarrow> Inl PyUnicodeError | Some bs \<Rightarrow> Inr bs)"

section \<open>Small helpers\<close>

definition require_same_parameters ::
  "string \<times> string \<times> epoch \<Rightarrow> string \<Rightarrow> string \<Rightarrow> epoch \<Rightarrow> store_error + unit" where
  "require_same_parameters rec m tier deadline =
     echeck (fst rec \<noteq> m \<or> fst (snd rec) \<noteq> tier \<or> snd (snd rec) \<noteq> deadline)
       (RelayStateConflict ''request identity conflict'')"

definition res_parameters :: "reservation \<Rightarrow> string \<times> string \<times> epoch" where
  "res_parameters r =
     (res_requested_model_id r, res_requested_context_tier r, res_request_deadline_epoch r)"

definition qd_parameters :: "queued_request \<Rightarrow> string \<times> string \<times> epoch" where
  "qd_parameters q =
     (qd_requested_model_id q, qd_requested_context_tier q, qd_request_deadline_epoch q)"

definition selection_result_of :: "reservation \<Rightarrow> string option \<Rightarrow> bool \<Rightarrow> selection_result" where
  "selection_result_of r token created =
     SelectionResult (res_selected_node_id r) (res_requested_model_id r)
       (res_requested_context_tier r) (res_request_deadline_epoch r)
       (Some (res_reservation_expires_at_epoch r)) token created ''reserved''"

definition enqueue_result_of :: "queued_request \<Rightarrow> bool \<Rightarrow> string \<Rightarrow> enqueue_result" where
  "enqueue_result_of q created state =
     EnqueueResult state (qd_selected_node_id q) (qd_request_deadline_epoch q) (qd_sequence q) created"

definition response_result :: "response_record \<Rightarrow> bool \<Rightarrow> response_acceptance_result" where
  "response_result r new =
     ResponseAcceptanceResult ''response_ready'' (rs_generation r) (rs_accepted_at_epoch r)
       (rs_replay_expires_at_epoch r) new"

definition terminal_response_result :: "terminal_record \<Rightarrow> response_acceptance_result" where
  "terminal_response_result t =
     ResponseAcceptanceResult ''response_ready'' (tm_generation t) (tm_accepted_at_epoch t)
       (tm_replay_expires_at_epoch t) False"

definition qd_identity :: "queued_request \<Rightarrow> identity" where
  "qd_identity q = Identity (qd_client_identity_digest q) (qd_request_identity_digest q)"

text \<open>Dataclass equality of two queued requests: every field, the envelopes included.\<close>

definition queued_eq :: "queued_request \<Rightarrow> queued_request \<Rightarrow> bool" where
  "queued_eq a b \<longleftrightarrow> a\<lparr>qd_envelope := qd_envelope b\<rparr> = b \<and> envelope_eq (qd_envelope a) (qd_envelope b)"

text \<open>Live work: an unconsumed reservation or a queued request.\<close>

datatype work = WReservation reservation | WQueued queued_request

fun work_node :: "work \<Rightarrow> string" where
  "work_node (WReservation r) = res_selected_node_id r"
| "work_node (WQueued q) = qd_selected_node_id q"

fun work_deadline :: "work \<Rightarrow> epoch" where
  "work_deadline (WReservation r) = res_request_deadline_epoch r"
| "work_deadline (WQueued q) = qd_request_deadline_epoch q"

definition work_of :: "store \<Rightarrow> identity \<Rightarrow> work option" where
  "work_of s i =
     (case dget (reservations s) i of
        Some r \<Rightarrow> Some (WReservation r)
      | None \<Rightarrow> map_option WQueued (dget (queued s) i))"

definition node_queue :: "store \<Rightarrow> string \<Rightarrow> queued_request list" where
  "node_queue s n = (case dget (node_queues s) n of Some q \<Rightarrow> q | None \<Rightarrow> [])"

definition node_work :: "store \<Rightarrow> string \<Rightarrow> identity list" where
  "node_work s n = (case dget (node_work_identities s) n of Some w \<Rightarrow> w | None \<Rightarrow> [])"

end
