(* ===== verification/Store_Nodes.thy ===== *)
theory Store_Nodes
  imports Store_State
begin

text \<open>
  The methods of \<^verbatim>\<open>InMemoryRelayStateStore\<close> that keep the books: retention reaping,
  the terminal transition every lifecycle ends with, removal of a node with its work in
  bounded batches, lease expiry, and the node-facing operations (register, renew, get,
  list, expire, unregister, scheduler state).
\<close>

section \<open>Index maintenance\<close>

definition discard_work ::
  "string \<Rightarrow> identity \<Rightarrow> (string, identity list) dict \<Rightarrow> (string, identity list) dict" where
  "discard_work n i d =
     (case dget d n of
        None \<Rightarrow> d
      | Some w \<Rightarrow> (let w' = removeAll i w in if w' = [] then ddel n d else dset n w' d))"

definition discard_node_work_identity :: "string \<Rightarrow> identity \<Rightarrow> store \<Rightarrow> store" where
  "discard_node_work_identity n i s =
     s\<lparr>node_work_identities := discard_work n i (node_work_identities s)\<rparr>"

definition remove_queued_identity :: "identity \<Rightarrow> queued_request \<Rightarrow> store \<Rightarrow> store" where
  "remove_queued_identity i q s =
     (let n = qd_selected_node_id q;
          remaining = filter (\<lambda>item. \<not> queued_eq item q) (node_queue s n);
          s1 = s\<lparr>queued := ddel i (queued s),
                 queued_token_digests := ddel i (queued_token_digests s),
                 cancellation_token_digests := ddel i (cancellation_token_digests s),
                 node_queues := (if remaining \<noteq> [] then dset n remaining (node_queues s)
                                 else ddel n (node_queues s)),
                 claims := ddel i (claims s)\<rparr>
      in discard_node_work_identity n i s1)"

text \<open>
  The two bulk removals the class keeps besides \<^verbatim>\<open>_transition_node_locked\<close>: a lifecycle
  whose deadline transition is deferred stays.
\<close>

fun remove_node_reservations :: "string \<Rightarrow> (identity, reservation) dict \<Rightarrow> store \<Rightarrow> store" where
  "remove_node_reservations n [] s = s"
| "remove_node_reservations n ((i, r) # xs) s =
     remove_node_reservations n xs
       (if res_selected_node_id r = n \<and> i \<notin> deferred_deadline_identities s
        then discard_node_work_identity n i
               (s\<lparr>reservations := ddel i (reservations s),
                  cancellation_token_digests := ddel i (cancellation_token_digests s)\<rparr>)
        else s)"

fun remove_queue_entries :: "string \<Rightarrow> queued_request list \<Rightarrow> store \<Rightarrow> store" where
  "remove_queue_entries n [] s = s"
| "remove_queue_entries n (q # qs) s =
     (let i = qd_identity q
      in remove_queue_entries n qs
           (if i \<in> deferred_deadline_identities s
            then s\<lparr>node_queues := dset n (node_queue s n @ [q]) (node_queues s)\<rparr>
            else discard_node_work_identity n i
                   (s\<lparr>queued := ddel i (queued s),
                      queued_token_digests := ddel i (queued_token_digests s),
                      cancellation_token_digests := ddel i (cancellation_token_digests s),
                      claims := ddel i (claims s)\<rparr>)))"

definition remove_node_queue :: "string \<Rightarrow> store \<Rightarrow> store" where
  "remove_node_queue n s =
     remove_queue_entries n (node_queue s n) (s\<lparr>node_queues := ddel n (node_queues s)\<rparr>)"

section \<open>Retention\<close>

definition mark_retrieval_expired ::
  "identity \<Rightarrow> (identity, terminal_record) dict \<Rightarrow> (identity, terminal_record) dict" where
  "mark_retrieval_expired i ts =
     (case dget ts i of
        Some t \<Rightarrow>
          if tm_retrieval_state t = ''response_ready''
          then dset i (t\<lparr>tm_retrieval_state := ''retrieval_expired''\<rparr>) ts
          else ts
      | None \<Rightarrow> ts)"

fun expire_responses ::
  "rat \<Rightarrow> (identity, response_record) dict \<Rightarrow>
   (identity, response_record) dict \<times> (identity, terminal_record) dict \<Rightarrow>
   (identity, response_record) dict \<times> (identity, terminal_record) dict" where
  "expire_responses now [] rt = rt"
| "expire_responses now ((i, r) # xs) (rs, ts) =
     expire_responses now xs
       (if rs_replay_expires_at_epoch r \<le> Fin now
        then (ddel i rs, mark_retrieval_expired i ts)
        else (rs, ts))"

text \<open>\<^verbatim>\<open>pending_authorities\<close>: the owner whose fence a pending transition reserves.\<close>

definition pending_authorities :: "(string, pending_transition) dict \<Rightarrow> (string, string) dict" where
  "pending_authorities ps =
     fold (\<lambda>(n, p). dset (pt_node_identity_digest p) (pt_control_credential_digest p)) ps []"

definition prune_authorities ::
  "rat \<Rightarrow> (string, string) dict \<Rightarrow> (string, (string, former_authority) dict) dict \<Rightarrow>
   (string, (string, former_authority) dict) dict" where
  "prune_authorities now pend fs =
     filter (\<lambda>(nd, auths). auths \<noteq> [])
       (map (\<lambda>(nd, auths).
          (nd, filter (\<lambda>(owner, a).
                 \<not> (fa_expires_at_epoch a \<le> Fin now \<and> dget pend nd \<noteq> Some owner)) auths)) fs)"

definition reap_retained :: "rat \<Rightarrow> store \<Rightarrow> store" where
  "reap_retained now s =
     (let (rs, ts) = expire_responses now (responses s) (responses s, terminals s)
      in s\<lparr>responses := rs,
           terminals := dprune (\<lambda>t. tm_expires_at_epoch t \<le> Fin now) ts,
           control_tombstones :=
             dprune (\<lambda>t. ct_expires_at_epoch t \<le> Fin now) (control_tombstones s),
           node_tombstones :=
             dprune (\<lambda>t. nt_expires_at_epoch t \<le> Fin now) (node_tombstones s),
           former_node_authorities :=
             prune_authorities now (pending_authorities (pending_node_transitions s))
               (former_node_authorities s)\<rparr>)"

section \<open>The terminal transition\<close>

text \<open>The claim whose owner must be told to stop, if any.\<close>

definition tombstone_claim ::
  "store \<Rightarrow> identity \<Rightarrow> work \<Rightarrow> string \<Rightarrow> rat \<Rightarrow> bool \<Rightarrow> claim_record option" where
  "tombstone_claim s i w status now force =
     (case dget (claims s) i of
        None \<Rightarrow> None
      | Some c \<Rightarrow>
          if force
             \<or> (status = ''cancelled'' \<and> cl_lease_expires_at_epoch c > Fin now)
             \<or> (status = ''expired'' \<and> cl_lease_expires_at_epoch c \<ge> work_deadline w)
          then Some c else None)"

definition terminal_full :: "config \<Rightarrow> store \<Rightarrow> identity \<Rightarrow> bool" where
  "terminal_full cfg s i \<longleftrightarrow>
     length (terminals s) \<ge> max_terminal_records cfg
     \<or> count_vals (\<lambda>t. tm_client_identity_digest t = id_client i) (terminals s)
         \<ge> max_terminal_records_per_client cfg"

definition tombstone_full :: "config \<Rightarrow> store \<Rightarrow> claim_record \<Rightarrow> bool" where
  "tombstone_full cfg s c \<longleftrightarrow>
     length (control_tombstones s) \<ge> max_control_tombstones cfg
     \<or> count_vals (\<lambda>t. ct_selected_node_id t = cl_selected_node_id c) (control_tombstones s)
         \<ge> max_control_tombstones_per_node cfg"

definition closing_terminal ::
  "env \<Rightarrow> config \<Rightarrow> store \<Rightarrow> identity \<Rightarrow> work \<Rightarrow> claim_record option \<Rightarrow> string \<Rightarrow> string \<Rightarrow> rat \<Rightarrow>
   terminal_record" where
  "closing_terminal E cfg s i w tc status reason now =
     \<lparr>tm_client_identity_digest = id_client i, tm_request_identity_digest = id_request i,
      tm_selected_node_id = work_node w,
      tm_control_credential_digest =
        (case tc of Some c \<Rightarrow> cl_control_credential_digest c | None \<Rightarrow> []),
      tm_consumer_identity_digest =
        (case tc of Some c \<Rightarrow> cl_consumer_identity_digest c | None \<Rightarrow> []),
      tm_generation = (case tc of Some c \<Rightarrow> cl_generation c | None \<Rightarrow> 0),
      tm_response_digest = [], tm_accepted_at_epoch = Fin now,
      tm_replay_expires_at_epoch = Fin now,
      tm_expires_at_epoch = fl_add E now (terminal_retention_seconds cfg),
      tm_outcome = status, tm_retrieval_state = ''completed_unavailable'',
      tm_retrieval_credential_digest = [], tm_acknowledgement_digest = [],
      tm_reason = reason,
      tm_cancellation_token_digest =
        (case dget (cancellation_token_digests s) i of Some d \<Rightarrow> d | None \<Rightarrow> [])\<rparr>"

definition closing_tombstone ::
  "env \<Rightarrow> config \<Rightarrow> identity \<Rightarrow> claim_record \<Rightarrow> string \<Rightarrow> string \<Rightarrow> rat \<Rightarrow> control_tombstone" where
  "closing_tombstone E cfg i c status reason now =
     \<lparr>ct_client_identity_digest = id_client i, ct_request_identity_digest = id_request i,
      ct_selected_node_id = cl_selected_node_id c,
      ct_control_credential_digest = cl_control_credential_digest c,
      ct_consumer_identity_digest = cl_consumer_identity_digest c,
      ct_generation = cl_generation c, ct_status = status, ct_reason = reason,
      ct_request_deadline_epoch = cl_request_deadline_epoch c, ct_acknowledged = False,
      ct_expires_at_epoch =
        min (fl_add E now (control_tombstone_ttl_seconds cfg)) (fl_add E now 300)\<rparr>"

text \<open>Removing the lifecycle from every live structure, after its terminal is written.\<close>

definition drop_lifecycle :: "identity \<Rightarrow> work \<Rightarrow> store \<Rightarrow> store" where
  "drop_lifecycle i w s =
     (let s1 = s\<lparr>reservations := ddel i (reservations s)\<rparr>;
          s2 = (case dget (queued s1) i of Some q \<Rightarrow> remove_queued_identity i q s1 | None \<Rightarrow> s1);
          s3 = s2\<lparr>cancellation_token_digests := ddel i (cancellation_token_digests s2),
                  queued_token_digests := ddel i (queued_token_digests s2),
                  deferred_deadline_identities := deferred_deadline_identities s2 - {i}\<rparr>
      in discard_node_work_identity (work_node w) i s3)"

definition terminalize ::
  "env \<Rightarrow> config \<Rightarrow> identity \<Rightarrow> work \<Rightarrow> string \<Rightarrow> string \<Rightarrow> rat \<Rightarrow> bool \<Rightarrow>
   terminal_transition_result store_op" where
  "terminalize E cfg i w status reason now force s =
     (let tc = tombstone_claim s i w status now force
      in if terminal_full cfg s i
         then (Inl (RelayStateCapacityExceeded ''terminal lifecycle capacity reached''), s)
         else if (case tc of Some c \<Rightarrow> tombstone_full cfg s c | None \<Rightarrow> False)
         then (Inl (RelayStateCapacityExceeded ''control tombstone capacity reached''), s)
         else
           (let t = closing_terminal E cfg s i w tc status reason now;
                s1 = s\<lparr>terminals := dset i t (terminals s),
                       control_tombstones :=
                         (case tc of
                            Some c \<Rightarrow> dset i (closing_tombstone E cfg i c status reason now)
                                        (control_tombstones s)
                          | None \<Rightarrow> control_tombstones s)\<rparr>
            in (Inr (TerminalTransitionResult status reason True), drop_lifecycle i w s1)))"

section \<open>Removing a node with its work\<close>

fun first_max :: "('a \<Rightarrow> 'b::linorder) \<Rightarrow> 'a list \<Rightarrow> 'a option" where
  "first_max f [] = None"
| "first_max f (x # xs) =
     Some (fold (\<lambda>y best. if f y > f best then y else best) xs x)"

definition digest_or_empty :: "string option \<Rightarrow> string" where
  "digest_or_empty d = (case d of Some x \<Rightarrow> x | None \<Rightarrow> [])"

definition already_complete :: "string \<Rightarrow> epoch \<Rightarrow> node_transition_result" where
  "already_complete cause e = NodeTransitionResult ''already_complete'' cause (Some e) 0 0 0 0 0 False"

text \<open>The node is not registered and has no pending transition.\<close>

definition transition_absent ::
  "env \<Rightarrow> string \<Rightarrow> string option \<Rightarrow> string \<Rightarrow> store \<Rightarrow> store_error + node_transition_result" where
  "transition_absent E n supplied cause s =
     (let former = (case dget (former_node_authorities s) (node_digest E n) of
                      Some d \<Rightarrow> d | None \<Rightarrow> []);
          by_history =
            (let matching =
               (if cause = ''explicit_unregister''
                then map snd (filter (\<lambda>(owner, a). owner = digest_or_empty supplied) former)
                else map snd (filter (\<lambda>(owner, a). fa_cause a = cause) former))
             in case first_max fa_transition_epoch matching of
                  Some a \<Rightarrow> Inr (already_complete (fa_cause a) (fa_transition_epoch a))
                | None \<Rightarrow> Inr (NodeTransitionResult ''not_found'' cause None 0 0 0 0 0 False))
      in case dget (node_tombstones s) (node_digest E n) of
           Some t \<Rightarrow>
             if cause = ''explicit_unregister''
             then if nt_control_credential_digest t \<noteq> digest_or_empty supplied
                  then Inl (RelayStateCredentialMismatch
                    ''control credential digest does not own this transition'')
                  else Inr (already_complete (nt_cause t) (nt_transition_epoch t))
             else by_history
         | None \<Rightarrow> by_history)"

definition new_pending ::
  "env \<Rightarrow> string \<Rightarrow> registration \<Rightarrow> string \<Rightarrow> rat \<Rightarrow> pending_transition" where
  "new_pending E n r cause now =
     \<lparr>pt_node_id = n, pt_node_identity_digest = node_digest E n,
      pt_control_credential_digest = reg_control_credential_digest r, pt_cause = cause,
      pt_status = ''cancelled'', pt_reason = ''server_unregistered'',
      pt_transition_epoch = Fin now\<rparr>"

definition fence_of :: "store \<Rightarrow> string \<Rightarrow> (string, former_authority) dict" where
  "fence_of s nd = (case dget (former_node_authorities s) nd of Some d \<Rightarrow> d | None \<Rightarrow> [])"

definition fence_count :: "store \<Rightarrow> nat" where
  "fence_count s = sum_list (map length (dvals (former_node_authorities s)))"

text \<open>Eligibility is removed before any work is touched.\<close>

definition retire_node ::
  "env \<Rightarrow> config \<Rightarrow> string \<Rightarrow> registration \<Rightarrow> string \<Rightarrow> rat \<Rightarrow> store \<Rightarrow> store" where
  "retire_node E cfg n r cause now s =
     (let nd = node_digest E n; owner = reg_control_credential_digest r
      in s\<lparr>records := ddel n (records s),
           scheduler_states := ddel n (scheduler_states s),
           registration_order := ddel n (registration_order s),
           fairness_cursors := filter (\<lambda>(f, c). fst c \<noteq> n) (fairness_cursors s),
           pending_node_transitions :=
             dset n (new_pending E n r cause now) (pending_node_transitions s),
           former_node_authorities :=
             dset nd (dset owner
                 \<lparr>fa_control_credential_digest = owner, fa_cause = cause,
                  fa_status = ''cancelled'', fa_transition_epoch = Fin now,
                  fa_expires_at_epoch = fl_add E now (terminal_retention_seconds cfg)\<rparr>
                 (fence_of s nd)) (former_node_authorities s),
           node_tombstones :=
             dset nd \<lparr>nt_node_identity_digest = nd, nt_control_credential_digest = owner,
               nt_cause = cause, nt_status = ''cancelled'', nt_transition_epoch = Fin now,
               nt_completed = (node_work s n = []),
               nt_expires_at_epoch =
                 min (fl_add E now (node_tombstone_ttl_seconds cfg)) (fl_add E now 300)\<rparr>
               (node_tombstones s)\<rparr>)"

text \<open>
  The first half: find or open the pending transition, or answer at once
  (\<open>Inl\<close> a final result, \<open>Inr\<close> the transition to advance).
\<close>

definition transition_open ::
  "env \<Rightarrow> config \<Rightarrow> string \<Rightarrow> string option \<Rightarrow> string \<Rightarrow> rat \<Rightarrow>
   (node_transition_result + pending_transition) store_op" where
  "transition_open E cfg n supplied cause now s =
     (case dget (pending_node_transitions s) n of
        Some p \<Rightarrow>
          if cause \<noteq> pt_cause p
          then (Inl (RelayStateConflict ''node transition cause conflicts''), s)
          else if cause = ''explicit_unregister''
                  \<and> pt_control_credential_digest p \<noteq> digest_or_empty supplied
          then (Inl (RelayStateCredentialMismatch
                 ''control credential digest does not own this transition''), s)
          else (Inr (Inr p), s)
      | None \<Rightarrow>
          (case dget (records s) n of
             None \<Rightarrow> (map_sum id Inl (transition_absent E n supplied cause s), s)
           | Some r \<Rightarrow>
               if cause = ''explicit_unregister''
                  \<and> reg_control_credential_digest r \<noteq> digest_or_empty supplied
               then (Inl (RelayStateCredentialMismatch
                      ''control credential digest does not own this registration''), s)
               else if cause \<noteq> ''explicit_unregister'' \<and> reg_lease_expires_at_epoch r > Fin now
               then (Inr (Inl (NodeTransitionResult ''lease_active'' cause None 0 0 0 0 0 False)), s)
               else if length (pending_node_transitions s) \<ge> max_pending_node_transitions cfg
               then (Inl (RelayStateCapacityExceeded ''pending node-transition capacity reached''), s)
               else if \<not> dmem (reg_control_credential_digest r) (fence_of s (node_digest E n))
                       \<and> fence_count s \<ge> max_removed_owner_fences cfg
               then (Inl (RelayStateCapacityExceeded ''removed-owner fencing capacity reached''), s)
               else if \<not> dmem (node_digest E n) (node_tombstones s)
                       \<and> length (node_tombstones s) \<ge> max_node_tombstones cfg
               then (Inl (RelayStateCapacityExceeded ''node tombstone capacity reached''), s)
               else (Inr (Inr (new_pending E n r cause now)), retire_node E cfg n r cause now s)))"

text \<open>
  The batch: processed, reservations, queued, claims and new outcomes are counted; the
  loop stops at the first identity for which no terminal capacity is left.
\<close>

record batch_counts =
  bc_processed :: nat
  bc_reservations :: nat
  bc_queued :: nat
  bc_claims :: nat
  bc_outcomes :: nat

definition no_counts :: batch_counts where
  "no_counts = \<lparr>bc_processed = 0, bc_reservations = 0, bc_queued = 0, bc_claims = 0, bc_outcomes = 0\<rparr>"

definition count_terminalized :: "store \<Rightarrow> identity \<Rightarrow> bool \<Rightarrow> batch_counts \<Rightarrow> batch_counts" where
  "count_terminalized s i new b =
     b\<lparr>bc_processed := bc_processed b + 1,
       bc_reservations := bc_reservations b + of_bool (dmem i (reservations s)),
       bc_queued := bc_queued b + of_bool (dmem i (queued s)),
       bc_claims := bc_claims b + of_bool (dmem i (claims s)),
       bc_outcomes := bc_outcomes b + of_bool new\<rparr>"

fun transition_batch ::
  "env \<Rightarrow> config \<Rightarrow> string \<Rightarrow> pending_transition \<Rightarrow> rat \<Rightarrow> identity list \<Rightarrow> batch_counts \<Rightarrow>
   batch_counts store_op" where
  "transition_batch E cfg n p now [] b s = (Inr b, s)"
| "transition_batch E cfg n p now (i # is) b s =
     (case (dget (terminals s) i, work_of s i) of
        (None, Some w) \<Rightarrow>
          (case terminalize E cfg i w (pt_status p) (pt_reason p) now (dmem i (claims s)) s of
             (Inl (RelayStateCapacityExceeded _), s') \<Rightarrow> (Inr b, s')
           | (Inl e, s') \<Rightarrow> (Inl e, s')
           | (Inr r, s') \<Rightarrow>
               transition_batch E cfg n p now is (count_terminalized s i (ttr_new_outcome r) b) s')
      | _ \<Rightarrow>
          transition_batch E cfg n p now is (b\<lparr>bc_processed := bc_processed b + 1\<rparr>)
            (discard_node_work_identity n i s))"

definition transition_close ::
  "env \<Rightarrow> config \<Rightarrow> string \<Rightarrow> pending_transition \<Rightarrow> rat \<Rightarrow> bool store_op" where
  "transition_close E cfg n p now s =
     (if node_work s n \<noteq> []
      then (Inr True, s\<lparr>pending_node_transitions := dset n p (pending_node_transitions s)\<rparr>)
      else
        (let expiry = fl_add E now (terminal_retention_seconds cfg);
             nd = pt_node_identity_digest p; owner = pt_control_credential_digest p
         in if \<not> is_finite expiry
            then (Inl (RelayStateStoreError ''former-owner retention deadline must be finite''), s)
            else
              (case dget (fence_of s nd) owner of
                 None \<Rightarrow>
                   (Inl PyKeyError,
                    s\<lparr>former_node_authorities := dset nd (fence_of s nd) (former_node_authorities s)\<rparr>)
               | Some a \<Rightarrow>
                   (Inr False,
                    s\<lparr>former_node_authorities :=
                        dset nd (dset owner (a\<lparr>fa_expires_at_epoch := expiry\<rparr>) (fence_of s nd))
                          (former_node_authorities s),
                      pending_node_transitions := ddel n (pending_node_transitions s),
                      node_tombstones :=
                        (case dget (node_tombstones s) nd of
                           Some t \<Rightarrow> dset nd (t\<lparr>nt_completed := True\<rparr>) (node_tombstones s)
                         | None \<Rightarrow> node_tombstones s)\<rparr>))))"

definition transition_node ::
  "env \<Rightarrow> config \<Rightarrow> string \<Rightarrow> string option \<Rightarrow> string \<Rightarrow> rat \<Rightarrow> node_transition_result store_op" where
  "transition_node E cfg n supplied cause now =
     sbind (transition_open E cfg n supplied cause now) (\<lambda>opened.
       case opened of
         Inl res \<Rightarrow> ret res
       | Inr p \<Rightarrow>
           (\<lambda>s. sbind (transition_batch E cfg n p now
                     (take (node_transition_batch_size cfg) (node_work s n)) no_counts) (\<lambda>b.
             sbind (transition_close E cfg n p now) (\<lambda>cont.
             ret (NodeTransitionResult (if cont then ''transitioning'' else ''complete'')
               (pt_cause p) (Some (pt_transition_epoch p)) (bc_processed b) (bc_reservations b)
               (bc_queued b) (bc_claims b) (bc_outcomes b) cont))) s))"

section \<open>Lease expiry and the reaper\<close>

fun expire_each :: "env \<Rightarrow> config \<Rightarrow> rat \<Rightarrow> registration list \<Rightarrow> unit store_op" where
  "expire_each E cfg now [] = ret ()"
| "expire_each E cfg now (r # rs) =
     sbind (transition_node E cfg (reg_node_id r) None ''registration_lease_expired'' now)
       (\<lambda>_. expire_each E cfg now rs)"

definition expired_registrations :: "rat \<Rightarrow> store \<Rightarrow> registration list" where
  "expired_registrations now s =
     sort_key reg_node_id
       (filter (\<lambda>r. reg_lease_expires_at_epoch r \<le> Fin now) (dvals (records s)))"

definition continue_one ::
  "env \<Rightarrow> config \<Rightarrow> rat \<Rightarrow> registration list \<Rightarrow> unit store_op" where
  "continue_one E cfg now expired s =
     (case sort (map fst (pending_node_transitions s)) of
        [] \<Rightarrow> (Inr (), s)
      | n # _ \<Rightarrow>
          if n \<in> set (map reg_node_id expired) then (Inr (), s)
          else (case dget (pending_node_transitions s) n of
                  None \<Rightarrow> (Inl PyKeyError, s)
                | Some p \<Rightarrow>
                    sbind (transition_node E cfg n
                       (if pt_cause p = ''explicit_unregister''
                        then Some (pt_control_credential_digest p) else None)
                       (pt_cause p) now) (\<lambda>_. ret ()) s))"

definition expire_locked ::
  "env \<Rightarrow> config \<Rightarrow> rat \<Rightarrow> bool \<Rightarrow> registration list store_op" where
  "expire_locked E cfg now continue_pending s0 =
     (let s = reap_retained now s0; expired = expired_registrations now s
      in sbind (expire_each E cfg now expired) (\<lambda>_.
           sbind (if continue_pending then continue_one E cfg now expired else ret ()) (\<lambda>_.
           ret expired)) s)"

definition due_work :: "rat \<Rightarrow> store \<Rightarrow> (identity \<times> work) list" where
  "due_work now s =
     map (\<lambda>(i, r). (i, WReservation r))
       (filter (\<lambda>(i, r). res_request_deadline_epoch r \<le> Fin now) (reservations s))
     @ map (\<lambda>(i, q). (i, WQueued q))
       (filter (\<lambda>(i, q). qd_request_deadline_epoch q \<le> Fin now) (queued s))"

text \<open>
  Deadline terminalisation; an identity for which capacity is lacking is deferred. The
  terminal transition raises nothing but the capacity error.
\<close>

fun expire_due :: "env \<Rightarrow> config \<Rightarrow> rat \<Rightarrow> (identity \<times> work) list \<Rightarrow> unit store_op" where
  "expire_due E cfg now [] s = (Inr (), s)"
| "expire_due E cfg now ((i, w) # xs) s =
     (if \<not> dmem i (terminals s) \<and> (dmem i (reservations s) \<or> dmem i (queued s))
      then (case terminalize E cfg i w ''expired'' ''request_deadline_expired'' now False s of
              (Inl (RelayStateCapacityExceeded _), s') \<Rightarrow>
                expire_due E cfg now xs
                  (s'\<lparr>deferred_deadline_identities := insert i (deferred_deadline_identities s')\<rparr>)
            | (Inl e, s') \<Rightarrow> (Inl e, s')
            | (Inr _, s') \<Rightarrow> expire_due E cfg now xs s')
      else expire_due E cfg now xs s)"

fun expire_reservations :: "rat \<Rightarrow> (identity, reservation) dict \<Rightarrow> store \<Rightarrow> store" where
  "expire_reservations now [] s = s"
| "expire_reservations now ((i, r) # xs) s =
     expire_reservations now xs
       (if res_reservation_expires_at_epoch r \<le> Fin now \<and> i \<notin> deferred_deadline_identities s
        then discard_node_work_identity (res_selected_node_id r) i
               (s\<lparr>reservations := ddel i (reservations s),
                  cancellation_token_digests := ddel i (cancellation_token_digests s)\<rparr>)
        else s)"

definition reap_locked :: "env \<Rightarrow> config \<Rightarrow> rat \<Rightarrow> unit store_op" where
  "reap_locked E cfg now s0 =
     (let s = reap_retained now s0
      in sbind (expire_due E cfg now (due_work now s)) (\<lambda>_.
         sbind (expire_locked E cfg now False) (\<lambda>_ t.
         (Inr (), expire_reservations now (reservations t) t))) s)"

section \<open>Node operations\<close>

definition new_registration ::
  "string \<Rightarrow> capabilities \<Rightarrow> string \<Rightarrow> registration option \<Rightarrow> rat \<Rightarrow> epoch \<Rightarrow> registration" where
  "new_registration n caps digest existing now lease =
     \<lparr>reg_node_id = n, reg_capabilities = caps,
      reg_control_credential_digest =
        (case existing of Some r \<Rightarrow> reg_control_credential_digest r | None \<Rightarrow> digest),
      reg_registered_at_epoch =
        (case existing of Some r \<Rightarrow> reg_registered_at_epoch r | None \<Rightarrow> Fin now),
      reg_lease_expires_at_epoch = lease\<rparr>"

definition store_registration :: "string \<Rightarrow> registration \<Rightarrow> bool \<Rightarrow> store \<Rightarrow> store" where
  "store_registration n r fresh s =
     (let s1 = s\<lparr>records := dset n r (records s)\<rparr>
      in if fresh
         then s1\<lparr>scheduler_states := dset n default_scheduler_state (scheduler_states s),
                 registration_order :=
                   dset n (next_registration_order s) (registration_order s),
                 next_registration_order := next_registration_order s + 1\<rparr>
         else s1)"

definition register_locked ::
  "env \<Rightarrow> config \<Rightarrow> string \<Rightarrow> capabilities \<Rightarrow> string \<Rightarrow> rat \<Rightarrow> epoch \<Rightarrow> registration store_op" where
  "register_locked E cfg n caps digest now lease s =
     (if dmem n (pending_node_transitions s)
      then (Inl (RelayStateConflict ''node transition is incomplete''), s)
      else case dget (records s) n of
        Some r \<Rightarrow>
          (case require_digest r digest of
             Inl e \<Rightarrow> (Inl e, s)
           | Inr _ \<Rightarrow>
               (let r' = new_registration n caps digest (Some r) now lease
                in (Inr r', store_registration n r' False s)))
      | None \<Rightarrow>
          if length (records s) \<ge> max_compute_nodes cfg
          then (Inl (RelayStateCapacityExceeded ''compute-node registration capacity reached''), s)
          else if dmem digest (fence_of s (node_digest E n))
          then (Inl (RelayStateCredentialMismatch
                 ''control credential digest has stale registration authority''), s)
          else (let r' = new_registration n caps digest None now lease
                in (Inr r', store_registration n r' True s)))"

definition register ::
  "env \<Rightarrow> config \<Rightarrow> pyval \<Rightarrow> capabilities pyarg \<Rightarrow> pyval \<Rightarrow> pyval \<Rightarrow> registration store_op" where
  "register E cfg node_id caps digest clock =
     sbind (lift (validate_node_id E cfg node_id)) (\<lambda>n.
     sbind (lift (validate_digest digest)) (\<lambda>d.
     sbind (lift (obj_arg caps ''capabilities must be ComputeNodeCapabilities'')) (\<lambda>c.
     sbind (lift (now_of E clock)) (\<lambda>now.
     sbind (lift (lease_deadline E cfg now)) (\<lambda>lease.
     sbind (\<lambda>s. (Inr (), reap_retained now s)) (\<lambda>_.
     sbind (expire_locked E cfg now False) (\<lambda>_.
     register_locked E cfg n c d now lease)))))))"

definition renew_locked ::
  "env \<Rightarrow> config \<Rightarrow> string \<Rightarrow> string \<Rightarrow> capabilities option \<Rightarrow> rat \<Rightarrow> registration option store_op" where
  "renew_locked E cfg n digest caps now s =
     (case dget (records s) n of
        None \<Rightarrow> (Inr None, s)
      | Some r \<Rightarrow>
          (case ebind (require_digest r digest) (\<lambda>_. lease_deadline E cfg now) of
             Inl e \<Rightarrow> (Inl e, s)
           | Inr lease \<Rightarrow>
               (let r' = r\<lparr>reg_capabilities := (case caps of Some c \<Rightarrow> c | None \<Rightarrow> reg_capabilities r),
                           reg_lease_expires_at_epoch := lease\<rparr>
                in (Inr (Some r'), s\<lparr>records := dset n r' (records s)\<rparr>))))"

definition renew ::
  "env \<Rightarrow> config \<Rightarrow> pyval \<Rightarrow> pyval \<Rightarrow> capabilities pyarg \<Rightarrow> pyval \<Rightarrow> registration option store_op" where
  "renew E cfg node_id digest caps clock =
     sbind (lift (validate_node_id E cfg node_id)) (\<lambda>n.
     sbind (lift (validate_digest digest)) (\<lambda>d.
     sbind (lift (case caps of
        ArgNone \<Rightarrow> Inr None
      | _ \<Rightarrow> map_sum id Some (obj_arg caps ''capabilities must be ComputeNodeCapabilities''))) (\<lambda>c.
     sbind (lift (now_of E clock)) (\<lambda>now.
     sbind (expire_locked E cfg now False) (\<lambda>_.
     renew_locked E cfg n d c now)))))"

definition get_node :: "env \<Rightarrow> config \<Rightarrow> pyval \<Rightarrow> pyval \<Rightarrow> registration option store_op" where
  "get_node E cfg node_id clock =
     sbind (lift (validate_node_id E cfg node_id)) (\<lambda>n.
     sbind (lift (now_of E clock)) (\<lambda>now.
     sbind (expire_locked E cfg now False) (\<lambda>_ s. (Inr (dget (records s) n), s))))"

definition list_nodes :: "env \<Rightarrow> config \<Rightarrow> pyval \<Rightarrow> registration list store_op" where
  "list_nodes E cfg clock =
     sbind (lift (now_of E clock)) (\<lambda>now.
     sbind (expire_locked E cfg now False) (\<lambda>_ s.
       (Inr (map snd (sort_key fst (records s))), s)))"

definition expire_nodes :: "env \<Rightarrow> config \<Rightarrow> pyval \<Rightarrow> registration list store_op" where
  "expire_nodes E cfg clock =
     sbind (lift (now_of E clock)) (\<lambda>now. expire_locked E cfg now True)"

text \<open>The digest is checked only for an explicit unregister; otherwise it may be absent.\<close>

definition unregister_node_and_transition_work ::
  "env \<Rightarrow> config \<Rightarrow> pyval \<Rightarrow> pyval \<Rightarrow> pyval \<Rightarrow> pyval \<Rightarrow> node_transition_result store_op" where
  "unregister_node_and_transition_work E cfg node_id digest cause clock =
     sbind (lift (validate_node_id E cfg node_id)) (\<lambda>n.
     sbind (lift (case cause of
        VStr c \<Rightarrow>
          if c \<in> {''explicit_unregister'', ''registration_lease_expired''} then Inr c
          else Inl (RelayStateStoreError ''node transition cause is invalid'')
      | _ \<Rightarrow> Inl (RelayStateStoreError ''node transition cause is invalid''))) (\<lambda>c.
     sbind (lift (if c = ''explicit_unregister'' then map_sum id Some (validate_digest digest)
                  else Inr (case digest of VStr d \<Rightarrow> Some d | _ \<Rightarrow> None))) (\<lambda>d.
     sbind (lift (now_of E clock)) (\<lambda>now.
     sbind (\<lambda>s. (Inr (), reap_retained now s)) (\<lambda>_.
     transition_node E cfg n d c now)))))"

definition unregister :: "env \<Rightarrow> config \<Rightarrow> pyval \<Rightarrow> pyval \<Rightarrow> pyval \<Rightarrow> bool store_op" where
  "unregister E cfg node_id digest clock =
     sbind (unregister_node_and_transition_work E cfg node_id digest
              (VStr ''explicit_unregister'') clock) (\<lambda>r.
     ret (ntr_state r \<notin> {''not_found'', ''already_complete''}))"

definition set_scheduler_state ::
  "env \<Rightarrow> config \<Rightarrow> pyval \<Rightarrow> pyval \<Rightarrow> scheduler_state pyarg \<Rightarrow> pyval \<Rightarrow> bool store_op" where
  "set_scheduler_state E cfg node_id digest state clock =
     sbind (lift (validate_node_id E cfg node_id)) (\<lambda>n.
     sbind (lift (validate_digest digest)) (\<lambda>d.
     sbind (lift (obj_arg state ''scheduler state must be SchedulerNodeState'')) (\<lambda>st.
     sbind (lift (now_of E clock)) (\<lambda>now.
     sbind (expire_locked E cfg now False) (\<lambda>_ s.
       case dget (records s) n of
         None \<Rightarrow> (Inr False, s)
       | Some r \<Rightarrow>
           (case require_digest r d of
              Inl e \<Rightarrow> (Inl e, s)
            | Inr _ \<Rightarrow>
                (Inr True, s\<lparr>scheduler_states := dset n st (scheduler_states s)\<rparr>)))))))"

end
