(* ===== verification/Store_Requests.thy ===== *)
theory Store_Requests
  imports Store_Nodes
begin

text \<open>
  The client-facing and worker-facing methods of \<^verbatim>\<open>InMemoryRelayStateStore\<close>: selecting
  a node and reserving capacity, enqueueing, claiming and renewing, accepting and
  retrieving a response, cancelling, and the read-only listings.
\<close>

section \<open>Selection\<close>

definition active_fairness_fingerprints :: "env \<Rightarrow> store \<Rightarrow> string set" where
  "active_fairness_fingerprints E s =
     set (map res_scheduler_fingerprint (dvals (reservations s))) \<union>
     set (map (\<lambda>q. scheduler_fingerprint E (qd_requested_model_id q) (qd_requested_context_tier q))
       (dvals (queued s)))"

definition cursor_eviction_candidate ::
  "env \<Rightarrow> config \<Rightarrow> string \<Rightarrow> store \<Rightarrow> store_error + string option" where
  "cursor_eviction_candidate E cfg fp s =
     (if dmem fp (fairness_cursors s) then Inr None
      else if length (fairness_cursors s) < max_scheduler_fingerprints cfg then Inr None
      else
        (let idle = [(snd c, f). (f, c) \<leftarrow> fairness_cursors s, f \<notin> active_fairness_fingerprints E s]
         in if idle = [] then Inl (RelayStateNoCapacity ''no scheduler capacity'')
            else Inr (Some (snd (min_list idle)))))"

text \<open>An eligible node: context size, load, registration order, node id.\<close>

type_synonym candidate = "nat \<times> nat \<times> nat \<times> string"

definition node_load :: "store \<Rightarrow> string \<Rightarrow> scheduler_state \<Rightarrow> nat" where
  "node_load s n st =
     count_vals (\<lambda>r. res_selected_node_id r = n) (reservations s) + length (node_queue s n)
     + claimed_work st"

definition node_compatible :: "capabilities \<Rightarrow> scheduler_state \<Rightarrow> nat \<Rightarrow> nat \<Rightarrow> bool" where
  "node_compatible caps st tier_size tokens \<longleftrightarrow>
     \<not> tier_size < tokens \<and> \<not> maximum_total_context_tokens caps < tokens
     \<and> healthy st \<and> \<not> draining st"

definition node_has_room :: "config \<Rightarrow> store \<Rightarrow> string \<Rightarrow> capabilities \<Rightarrow> scheduler_state \<Rightarrow> bool" where
  "node_has_room cfg s n caps st \<longleftrightarrow>
     (let rs = count_vals (\<lambda>r. res_selected_node_id r = n) (reservations s);
          qs = length (node_queue s n)
      in \<not> (node_load s n st \<ge> max_concurrency caps
            \<or> rs \<ge> max_reservations_per_node cfg
            \<or> rs + qs \<ge> max_queue_depth_per_node cfg))"

definition candidate_of ::
  "config \<Rightarrow> store \<Rightarrow> string \<Rightarrow> nat \<Rightarrow> string \<Rightarrow> registration \<Rightarrow> store_error + candidate option" where
  "candidate_of cfg s m tokens n r =
     (let caps = reg_capabilities r
      in case dget (scheduler_states s) n of
           None \<Rightarrow> Inl PyKeyError
         | Some st \<Rightarrow>
             if m \<notin> set (supported_model_ids caps) then Inr None
             else case dget CONTEXT_TIER_TOKEN_BOUNDS (active_context_tier caps) of
               None \<Rightarrow> Inl PyKeyError
             | Some tier_size \<Rightarrow>
                 if \<not> node_compatible caps st tier_size tokens \<or> \<not> node_has_room cfg s n caps st
                 then Inr None
                 else case dget (registration_order s) n of
                   None \<Rightarrow> Inl PyKeyError
                 | Some order \<Rightarrow> Inr (Some (tier_size, node_load s n st, order, n)))"

fun eligible_nodes ::
  "config \<Rightarrow> store \<Rightarrow> string \<Rightarrow> nat \<Rightarrow> (string, registration) dict \<Rightarrow> store_error + candidate list" where
  "eligible_nodes cfg s m tokens [] = Inr []"
| "eligible_nodes cfg s m tokens ((n, r) # rest) =
     ebind (candidate_of cfg s m tokens n r) (\<lambda>c.
     ebind (eligible_nodes cfg s m tokens rest) (\<lambda>cs.
     Inr (case c of Some x \<Rightarrow> x # cs | None \<Rightarrow> cs)))"

text \<open>Smallest sufficient tier, then least load, then registration order after the cursor.\<close>

definition tied_candidates :: "candidate list \<Rightarrow> candidate list" where
  "tied_candidates cs =
     (let smallest = min_list (map fst cs);
          cs1 = filter (\<lambda>c. fst c = smallest) cs;
          least = min_list (map (fst \<circ> snd) cs1)
      in sort_key (fst \<circ> snd \<circ> snd) (filter (\<lambda>c. fst (snd c) = least) cs1))"

definition after_cursor :: "store \<Rightarrow> string \<Rightarrow> candidate \<Rightarrow> bool" where
  "after_cursor s cursor c =
     (case dget (registration_order s) cursor of
        None \<Rightarrow> True | Some k \<Rightarrow> fst (snd (snd c)) > k)"

definition pick_candidate :: "store \<Rightarrow> string \<Rightarrow> candidate list \<Rightarrow> candidate" where
  "pick_candidate s fp tied =
     (case dget (fairness_cursors s) fp of
        None \<Rightarrow> hd tied
      | Some c \<Rightarrow>
          (case find (after_cursor s (fst c)) tied of Some x \<Rightarrow> x | None \<Rightarrow> hd tied))"

definition reserve_on ::
  "env \<Rightarrow> identity \<Rightarrow> reservation \<Rightarrow> string option \<Rightarrow> string option \<Rightarrow> store \<Rightarrow> store" where
  "reserve_on E i r evicted cancel s =
     (let cursors = (case evicted of Some f \<Rightarrow> ddel f (fairness_cursors s)
                                   | None \<Rightarrow> fairness_cursors s);
          n = res_selected_node_id r;
          w = node_work s n
      in s\<lparr>reservations := dset i r (reservations s),
           node_work_identities :=
             dset n (if i \<in> set w then w else w @ [i]) (node_work_identities s),
           cancellation_token_digests :=
             (case cancel of Some d \<Rightarrow> dset i d (cancellation_token_digests s)
                           | None \<Rightarrow> cancellation_token_digests s),
           fairness_activity := fairness_activity s + 1,
           fairness_cursors :=
             dset (res_scheduler_fingerprint r) (n, fairness_activity s + 1) cursors\<rparr>)"

definition lifecycle_state :: "store \<Rightarrow> identity \<Rightarrow> rat \<Rightarrow> string" where
  "lifecycle_state s i now =
     (case dget (claims s) i of
        Some c \<Rightarrow> if cl_lease_expires_at_epoch c > Fin now then ''claimed'' else ''queued''
      | None \<Rightarrow> ''queued'')"

text \<open>The request as select and enqueue see it, after its arguments are checked.\<close>

record request_args =
  ra_identity :: identity
  ra_model :: string
  ra_tier :: string
  ra_deadline :: epoch

definition fresh_reservation ::
  "env \<Rightarrow> config \<Rightarrow> request_args \<Rightarrow> string option \<Rightarrow> string \<Rightarrow> rat \<Rightarrow> selection_result store_op" where
  "fresh_reservation E cfg a cancel raw_token now s =
     (case dget CONTEXT_TIER_TOKEN_BOUNDS (ra_tier a) of
        None \<Rightarrow> (Inl PyKeyError, s)
      | Some tokens \<Rightarrow>
          (case eligible_nodes cfg s (ra_model a) tokens (records s) of
             Inl e \<Rightarrow> (Inl e, s)
           | Inr eligible \<Rightarrow>
               if eligible = [] then (Inl (RelayStateNoCapacity ''no scheduler capacity''), s)
               else
                 (let fp = scheduler_fingerprint E (ra_model a) (ra_tier a);
                      n = snd (snd (snd (pick_candidate s fp (tied_candidates eligible))))
                  in case cursor_eviction_candidate E cfg fp s of
                       Inl e \<Rightarrow> (Inl e, s)
                     | Inr evicted \<Rightarrow>
                         (let expires = min (fl_add E now (reservation_ttl_seconds cfg)) (ra_deadline a)
                          in if \<not> is_finite expires
                             then (Inl (RelayStateStoreError ''reservation deadline must be finite''), s)
                             else
                               (let r = \<lparr>res_client_identity_digest = id_client (ra_identity a),
                                         res_request_identity_digest = id_request (ra_identity a),
                                         res_scheduler_fingerprint = fp, res_selected_node_id = n,
                                         res_requested_model_id = ra_model a,
                                         res_requested_context_tier = ra_tier a,
                                         res_request_deadline_epoch = ra_deadline a,
                                         res_reservation_expires_at_epoch = expires,
                                         res_token_digest = hexdigest (sha256 E raw_token)\<rparr>
                                in (Inr (selection_result_of r (Some raw_token) True),
                                    reserve_on E (ra_identity a) r evicted cancel s))))))"

definition select_locked ::
  "env \<Rightarrow> config \<Rightarrow> request_args \<Rightarrow> string option \<Rightarrow> string \<Rightarrow> rat \<Rightarrow> selection_result store_op" where
  "select_locked E cfg a cancel raw_token now s =
     (let i = ra_identity a; deadline = ra_deadline a;
          stored = dget (cancellation_token_digests s) i
      in if deadline \<le> Fin now
         then (Inl (RelayStateInvalidReservation ''request deadline expired''), s)
         else if deadline > fl_add E now (max_request_ttl_seconds cfg)
         then (Inl (RelayStateStoreError ''request deadline exceeds its configured bound''), s)
         else if dmem i (terminals s)
         then (Inl (RelayStateConflict ''request lifecycle is terminal''), s)
         else case dget (queued s) i of
           Some q \<Rightarrow>
             (case require_same_parameters (qd_parameters q) (ra_model a) (ra_tier a) deadline of
                Inl e \<Rightarrow> (Inl e, s)
              | Inr _ \<Rightarrow>
                  if stored \<noteq> None \<and> cancel \<noteq> None \<and> stored \<noteq> cancel
                  then (Inl (RelayStateConflict ''request identity conflict''), s)
                  else (Inr (SelectionResult (qd_selected_node_id q) (ra_model a) (ra_tier a)
                          deadline None None False (lifecycle_state s i now)), s))
         | None \<Rightarrow>
             (case dget (reservations s) i of
                Some r \<Rightarrow>
                  (case require_same_parameters (res_parameters r) (ra_model a) (ra_tier a) deadline of
                     Inl e \<Rightarrow> (Inl e, s)
                   | Inr _ \<Rightarrow>
                       if stored \<noteq> None \<and> (cancel = None \<or> stored \<noteq> cancel)
                       then (Inl (RelayStateConflict ''request identity conflict''), s)
                       else (Inr (selection_result_of r None False), s))
              | None \<Rightarrow>
                  if length (reservations s) \<ge> max_reservations cfg
                  then (Inl (RelayStateNoCapacity ''no scheduler capacity''), s)
                  else if length (reservations s) + length (queued s) \<ge> max_request_lifecycles cfg
                  then (Inl (RelayStateNoCapacity ''no scheduler capacity''), s)
                  else if count_vals (\<lambda>r. res_client_identity_digest r = id_client i) (reservations s)
                          + count_vals (\<lambda>q. qd_client_identity_digest q = id_client i) (queued s)
                          \<ge> max_reservations_per_client cfg
                  then (Inl (RelayStateNoCapacity ''no scheduler capacity''), s)
                  else fresh_reservation E cfg a cancel raw_token now s))"

text \<open>\<open>raw_token\<close> is the draw of \<^verbatim>\<open>secrets.token_hex(32)\<close>, used only by a fresh reservation.\<close>

definition request_args_of ::
  "env \<Rightarrow> config \<Rightarrow> pyval \<Rightarrow> pyval \<Rightarrow> pyval \<Rightarrow> pyval \<Rightarrow> pyval \<Rightarrow> store_error + request_args" where
  "request_args_of E cfg client request model tier deadline =
     ebind (identity_arg E cfg client request) (\<lambda>i.
     ebind (model_id_arg E cfg model) (\<lambda>m.
     ebind (context_tier_arg tier) (\<lambda>t.
     ebind (deadline_arg E deadline) (\<lambda>d.
     Inr \<lparr>ra_identity = i, ra_model = m, ra_tier = t, ra_deadline = d\<rparr>))))"

definition select_and_reserve ::
  "env \<Rightarrow> config \<Rightarrow> pyval \<Rightarrow> pyval \<Rightarrow> pyval \<Rightarrow> pyval \<Rightarrow> pyval \<Rightarrow> pyval \<Rightarrow> string \<Rightarrow> pyval \<Rightarrow>
   selection_result store_op" where
  "select_and_reserve E cfg client request model tier deadline cancel raw_token clock =
     sbind (lift (request_args_of E cfg client request model tier deadline)) (\<lambda>a.
     sbind (lift (if cancel = VNone then Inr None
                  else map_sum id Some (cancellation_token_digest E cfg cancel))) (\<lambda>c.
     sbind (lift (now_of E clock)) (\<lambda>now.
     sbind (reap_locked E cfg now) (\<lambda>_.
     select_locked E cfg a c raw_token now))))"

section \<open>Enqueue\<close>

definition enqueue_on :: "identity \<Rightarrow> queued_request \<Rightarrow> string \<Rightarrow> string \<Rightarrow> store \<Rightarrow> store" where
  "enqueue_on i q token cancel s =
     (let n = qd_selected_node_id q
      in s\<lparr>next_queue_sequence := next_queue_sequence s + 1,
           queued := dset i q (queued s),
           queued_token_digests := dset i token (queued_token_digests s),
           cancellation_token_digests := dset i cancel (cancellation_token_digests s),
           node_queues := dset n (node_queue s n @ [q]) (node_queues s),
           reservations := ddel i (reservations s)\<rparr>)"

text \<open>What enqueue checks of a reservation before it consumes it.\<close>

definition reservation_check ::
  "config \<Rightarrow> request_args \<Rightarrow> string \<Rightarrow> string \<Rightarrow> string \<Rightarrow> rat \<Rightarrow> store \<Rightarrow> reservation \<Rightarrow> store_error + unit" where
  "reservation_check cfg a node token cancel now s r =
     (let i = ra_identity a
      in ebind (echeck
           ((case dget (records s) (res_selected_node_id r) of
               None \<Rightarrow> True | Some g \<Rightarrow> reg_lease_expires_at_epoch g \<le> Fin now)
            \<or> dmem (res_selected_node_id r) (pending_node_transitions s))
           (RelayStateInvalidReservation ''reservation invalid'')) (\<lambda>_.
         ebind (require_same_parameters (res_parameters r) (ra_model a) (ra_tier a) (ra_deadline a)) (\<lambda>_.
         ebind (echeck
           (case dget (cancellation_token_digests s) i of None \<Rightarrow> False | Some d \<Rightarrow> d \<noteq> cancel)
           (RelayStateConflict ''request identity conflict'')) (\<lambda>_.
         ebind (echeck (res_selected_node_id r \<noteq> node \<or> res_token_digest r \<noteq> token)
           (RelayStateInvalidReservation ''reservation invalid'')) (\<lambda>_.
         ebind (echeck (length (node_queue s node) \<ge> max_queue_depth_per_node cfg)
           (RelayStateNoCapacity ''no scheduler capacity'')) (\<lambda>_.
         echeck (length (queued s) \<ge> max_queued_requests cfg
                 \<or> count_vals (\<lambda>q. qd_client_identity_digest q = id_client i) (queued s)
                     \<ge> max_queued_requests_per_client cfg)
           (RelayStateNoCapacity ''no scheduler capacity'')))))))"

definition enqueue_retry ::
  "request_args \<Rightarrow> string \<Rightarrow> envelope \<Rightarrow> string \<Rightarrow> string \<Rightarrow> rat \<Rightarrow> store \<Rightarrow> queued_request \<Rightarrow>
   store_error + enqueue_result" where
  "enqueue_retry a node e token cancel now s q =
     (let i = ra_identity a
      in ebind (require_same_parameters (qd_parameters q) (ra_model a) (ra_tier a) (ra_deadline a)) (\<lambda>_.
         ebind (echeck (qd_selected_node_id q \<noteq> node \<or> \<not> envelope_eq (qd_envelope q) e)
           (RelayStateConflict ''request identity conflict'')) (\<lambda>_.
         case dget (queued_token_digests s) i of
           None \<Rightarrow> Inl PyKeyError
         | Some td \<Rightarrow>
             if td \<noteq> token then Inl (RelayStateInvalidReservation ''reservation invalid'')
             else (case dget (cancellation_token_digests s) i of
                     None \<Rightarrow> Inl PyKeyError
                   | Some cd \<Rightarrow>
                       if cd \<noteq> cancel then Inl (RelayStateConflict ''request identity conflict'')
                       else Inr (enqueue_result_of q False (lifecycle_state s i now))))))"

definition enqueue_locked ::
  "env \<Rightarrow> config \<Rightarrow> request_args \<Rightarrow> string \<times> string \<Rightarrow> string \<Rightarrow> envelope \<Rightarrow> string \<Rightarrow> string \<Rightarrow> rat \<Rightarrow>
   enqueue_result store_op" where
  "enqueue_locked E cfg a raw node e token cancel now s =
     (let i = ra_identity a; deadline = ra_deadline a
      in if deadline \<le> Fin now
         then (Inl (RelayStateInvalidReservation ''reservation invalid''), s)
         else if dmem i (terminals s)
         then (Inl (RelayStateConflict ''request lifecycle is terminal''), s)
         else case dget (queued s) i of
           Some q \<Rightarrow> (enqueue_retry a node e token cancel now s q, s)
         | None \<Rightarrow>
             if deadline > fl_add E now (max_request_ttl_seconds cfg)
             then (Inl (RelayStateStoreError ''request deadline exceeds its configured bound''), s)
             else (case dget (reservations s) i of
                None \<Rightarrow> (Inl (RelayStateInvalidReservation ''reservation invalid''), s)
              | Some r \<Rightarrow>
                  (case reservation_check cfg a node token cancel now s r of
                     Inl err \<Rightarrow> (Inl err, s)
                   | Inr _ \<Rightarrow>
                       (let q = \<lparr>qd_client_identity_digest = id_client i, qd_request_identity_digest = id_request i,
                                 qd_client_public_key = fst raw, qd_request_id = snd raw,
                                 qd_selected_node_id = node, qd_requested_model_id = ra_model a,
                                 qd_requested_context_tier = ra_tier a,
                                 qd_request_deadline_epoch = deadline, qd_envelope = e,
                                 qd_enqueued_at_epoch = Fin now,
                                 qd_sequence = next_queue_sequence s + 1\<rparr>
                        in (Inr (enqueue_result_of q True ''queued''),
                            enqueue_on i q token cancel s)))))"

definition text_of :: "pyval \<Rightarrow> string" where
  "text_of v = (case v of VStr s \<Rightarrow> s | _ \<Rightarrow> [])"

definition enqueue_encrypted_request ::
  "env \<Rightarrow> config \<Rightarrow> pyval \<Rightarrow> pyval \<Rightarrow> pyval \<Rightarrow> pyval \<Rightarrow> pyval \<Rightarrow> pyval \<Rightarrow> pyval \<Rightarrow> envelope pyarg \<Rightarrow>
   pyval \<Rightarrow> pyval \<Rightarrow> enqueue_result store_op" where
  "enqueue_encrypted_request E cfg client request token node model tier deadline env cancel clock =
     sbind (lift (identity_arg E cfg client request)) (\<lambda>i.
     sbind (lift (validate_node_id E cfg node)) (\<lambda>n.
     sbind (lift (model_id_arg E cfg model)) (\<lambda>m.
     sbind (lift (context_tier_arg tier)) (\<lambda>t.
     sbind (lift (deadline_arg E deadline)) (\<lambda>d.
     sbind (lift (obj_arg env ''envelope must be EncryptedRequestEnvelope'')) (\<lambda>e.
     sbind (lift (validate_envelope_size E cfg e)) (\<lambda>_.
     sbind (lift (token_digest E token)) (\<lambda>td.
     sbind (lift (cancellation_token_digest E cfg cancel)) (\<lambda>cd.
     sbind (lift (now_of E clock)) (\<lambda>now.
     sbind (reap_locked E cfg now) (\<lambda>_.
     enqueue_locked E cfg \<lparr>ra_identity = i, ra_model = m, ra_tier = t, ra_deadline = d\<rparr>
       (text_of client, text_of request) n e td cd now)))))))))))"

section \<open>Claims\<close>

text \<open>
  The loop of the claim: skip expired and actively claimed entries, and take the first
  of the rest. \<open>total\<close> and \<open>here\<close> are the active claims of the store and of the node.
\<close>

fun claim_first ::
  "env \<Rightarrow> config \<Rightarrow> string \<Rightarrow> string \<Rightarrow> string \<Rightarrow> rat \<Rightarrow> nat \<Rightarrow> nat \<Rightarrow> queued_request list \<Rightarrow>
   claim_result store_op" where
  "claim_first E cfg n owner consumer now tot here [] s =
     (Inr (ClaimResult ''empty'' None None None None None None), s)"
| "claim_first E cfg n owner consumer now tot here (q # qs) s =
     (let i = qd_identity q; existing = dget (claims s) i
      in if qd_request_deadline_epoch q \<le> Fin now
         then claim_first E cfg n owner consumer now tot here qs s
         else if (case existing of Some c \<Rightarrow> cl_lease_expires_at_epoch c > Fin now | None \<Rightarrow> False)
         then claim_first E cfg n owner consumer now tot here qs s
         else if tot \<ge> max_claims cfg \<or> here \<ge> max_claims_per_node cfg
         then (Inl (RelayStateCapacityExceeded ''claim capacity reached''), s)
         else
           (let g = next_claim_generation s + 1;
                s1 = s\<lparr>next_claim_generation := g\<rparr>;
                lease = min (fl_add E now (claim_ttl_seconds cfg)) (qd_request_deadline_epoch q)
            in if \<not> is_finite lease
               then (Inl (RelayStateStoreError ''claim deadline must be finite''), s1)
               else
                 (let c = \<lparr>cl_client_identity_digest = qd_client_identity_digest q,
                           cl_request_identity_digest = qd_request_identity_digest q,
                           cl_consumer_identity_digest = consumer, cl_selected_node_id = n,
                           cl_control_credential_digest = owner,
                           cl_request_deadline_epoch = qd_request_deadline_epoch q,
                           cl_envelope = qd_envelope q, cl_sequence = qd_sequence q,
                           cl_generation = g, cl_lease_expires_at_epoch = lease\<rparr>
                  in (Inr (ClaimResult (if existing \<noteq> None then ''reclaimed'' else ''claimed'')
                        (Some g) (Some lease) (Some (qd_request_deadline_epoch q))
                        (Some (qd_client_public_key q)) (Some (qd_request_id q))
                        (Some (qd_envelope q))),
                      s1\<lparr>claims := dset i c (claims s1)\<rparr>))))"

definition claim_locked ::
  "env \<Rightarrow> config \<Rightarrow> string \<Rightarrow> string \<Rightarrow> string \<Rightarrow> rat \<Rightarrow> claim_result store_op" where
  "claim_locked E cfg n digest consumer now s =
     (case dget (records s) n of
        None \<Rightarrow> (Inl (RelayStateCredentialMismatch ''claim owner is invalid''), s)
      | Some r \<Rightarrow>
          (case require_digest r digest of
             Inl e \<Rightarrow> (Inl e, s)
           | Inr _ \<Rightarrow>
               (let active = filter (\<lambda>c. cl_lease_expires_at_epoch c > Fin now) (dvals (claims s))
                in claim_first E cfg n (reg_control_credential_digest r) consumer now (length active)
                     (length (filter (\<lambda>c. cl_selected_node_id c = n) active)) (node_queue s n) s)))"

definition claim_queued_request ::
  "env \<Rightarrow> config \<Rightarrow> pyval \<Rightarrow> pyval \<Rightarrow> pyval \<Rightarrow> pyval \<Rightarrow> claim_result store_op" where
  "claim_queued_request E cfg node_id digest consumer clock =
     sbind (lift (validate_node_id E cfg node_id)) (\<lambda>n.
     sbind (lift (validate_digest digest)) (\<lambda>d.
     sbind (lift (consumer_digest E cfg consumer)) (\<lambda>c.
     sbind (lift (now_of E clock)) (\<lambda>now.
     sbind (reap_locked E cfg now) (\<lambda>_.
     claim_locked E cfg n d c now)))))"

definition renewal_state :: "string \<Rightarrow> claim_renewal_result" where
  "renewal_state st = ClaimRenewalResult st None None None False"

definition renew_claim_locked ::
  "env \<Rightarrow> config \<Rightarrow> string \<Rightarrow> string \<Rightarrow> string \<Rightarrow> identity \<Rightarrow> int \<Rightarrow> bool \<Rightarrow> rat \<Rightarrow>
   claim_renewal_result store_op" where
  "renew_claim_locked E cfg n digest consumer i g ack now s =
     (case dget (control_tombstones s) i of
        Some t \<Rightarrow>
          if \<not> (ct_selected_node_id t = n \<and> ct_generation t = g
                \<and> ct_control_credential_digest t = digest
                \<and> ct_consumer_identity_digest t = consumer)
          then (Inr (renewal_state ''owner_mismatch''), s)
          else
            (let fresh = (ack \<and> \<not> ct_acknowledged t);
                 t' = (if fresh then t\<lparr>ct_acknowledged := True\<rparr> else t)
             in (Inr (ClaimRenewalResult (if ct_acknowledged t' then ''acknowledged'' else ct_status t')
                       (Some g) None (Some (ct_reason t')) (ct_acknowledged t')),
                 if fresh then s\<lparr>control_tombstones := dset i t' (control_tombstones s)\<rparr> else s))
      | None \<Rightarrow>
          if (case dget (records s) n of None \<Rightarrow> True | Some r \<Rightarrow> reg_control_credential_digest r \<noteq> digest)
          then (Inr (renewal_state ''owner_mismatch''), s)
          else case dget (claims s) i of
            None \<Rightarrow> (Inr (renewal_state ''missing_or_expired''), s)
          | Some c \<Rightarrow>
              if cl_request_deadline_epoch c \<le> Fin now
              then (Inr (renewal_state ''missing_or_expired''), s)
              else if cl_generation c \<noteq> g
              then (Inr (ClaimRenewalResult ''stale_generation'' (Some (cl_generation c)) None None False), s)
              else if cl_selected_node_id c \<noteq> n \<or> cl_consumer_identity_digest c \<noteq> consumer
              then (Inr (renewal_state ''owner_mismatch''), s)
              else if cl_lease_expires_at_epoch c \<le> Fin now
              then (Inr (renewal_state ''missing_or_expired''), s)
              else
                (let lease = min (fl_add E now (claim_ttl_seconds cfg)) (cl_request_deadline_epoch c)
                 in (Inr (ClaimRenewalResult ''continued'' (Some g) (Some lease) None False),
                     s\<lparr>claims := dset i (c\<lparr>cl_lease_expires_at_epoch := lease\<rparr>) (claims s)\<rparr>)))"

definition renew_claim_or_read_control ::
  "env \<Rightarrow> config \<Rightarrow> pyval \<Rightarrow> pyval \<Rightarrow> pyval \<Rightarrow> pyval \<Rightarrow> pyval \<Rightarrow> pyval \<Rightarrow> bool \<Rightarrow> pyval \<Rightarrow>
   claim_renewal_result store_op" where
  "renew_claim_or_read_control E cfg node_id digest consumer client request gen ack clock =
     sbind (lift (validate_node_id E cfg node_id)) (\<lambda>n.
     sbind (lift (validate_digest digest)) (\<lambda>d.
     sbind (lift (consumer_digest E cfg consumer)) (\<lambda>c.
     sbind (lift (identity_arg E cfg client request)) (\<lambda>i.
     sbind (lift (generation_arg gen)) (\<lambda>g.
     sbind (lift (now_of E clock)) (\<lambda>now.
     sbind (reap_locked E cfg now) (\<lambda>_.
     renew_claim_locked E cfg n d c i g ack now)))))))"

definition renew_claim ::
  "env \<Rightarrow> config \<Rightarrow> pyval \<Rightarrow> pyval \<Rightarrow> pyval \<Rightarrow> pyval \<Rightarrow> pyval \<Rightarrow> pyval \<Rightarrow> pyval \<Rightarrow>
   claim_renewal_result store_op" where
  "renew_claim E cfg node_id digest consumer client request gen clock =
     renew_claim_or_read_control E cfg node_id digest consumer client request gen False clock"

section \<open>Responses\<close>

definition response_full :: "config \<Rightarrow> store \<Rightarrow> string \<Rightarrow> bool" where
  "response_full cfg s client \<longleftrightarrow>
     length (responses s) \<ge> max_responses cfg
     \<or> count_vals (\<lambda>r. rs_client_identity_digest r = client) (responses s)
         \<ge> max_responses_per_client cfg
     \<or> length (terminals s) \<ge> max_terminal_records cfg
     \<or> count_vals (\<lambda>t. tm_client_identity_digest t = client) (terminals s)
         \<ge> max_terminal_records_per_client cfg"

text \<open>The claim and the queued request that authorise a response.\<close>

definition response_check ::
  "string \<Rightarrow> string \<Rightarrow> string \<Rightarrow> string \<times> string \<Rightarrow> identity \<Rightarrow> int \<Rightarrow> rat \<Rightarrow> store \<Rightarrow>
   store_error + (registration \<times> queued_request)" where
  "response_check n digest consumer raw i g now s =
     (case dget (records s) n of
        None \<Rightarrow> Inl (RelayStateCredentialMismatch ''response owner is invalid'')
      | Some reg \<Rightarrow>
          if reg_control_credential_digest reg \<noteq> digest
          then Inl (RelayStateCredentialMismatch ''response owner is invalid'')
          else (case dget (claims s) i of
            None \<Rightarrow> Inl (RelayStateConflict ''response claim is missing or expired'')
          | Some c \<Rightarrow>
              if cl_generation c \<noteq> g
              then Inl (RelayStateConflict ''response claim generation is stale'')
              else if cl_selected_node_id c \<noteq> n \<or> cl_consumer_identity_digest c \<noteq> consumer
              then Inl (RelayStateCredentialMismatch ''response owner is invalid'')
              else if cl_lease_expires_at_epoch c \<le> Fin now \<or> cl_request_deadline_epoch c \<le> Fin now
              then Inl (RelayStateConflict ''response claim is missing or expired'')
              else (case dget (queued s) i of
                None \<Rightarrow> Inl (RelayStateConflict ''response lifecycle identity conflict'')
              | Some q \<Rightarrow>
                  if qd_selected_node_id q \<noteq> n \<or> qd_client_public_key q \<noteq> fst raw
                     \<or> qd_request_id q \<noteq> snd raw
                  then Inl (RelayStateConflict ''response lifecycle identity conflict'')
                  else Inr (reg, q))))"

definition commit_response ::
  "env \<Rightarrow> config \<Rightarrow> string \<Rightarrow> string \<Rightarrow> identity \<Rightarrow> int \<Rightarrow> envelope \<Rightarrow> string \<Rightarrow> rat \<Rightarrow>
   registration \<Rightarrow> queued_request \<Rightarrow> response_acceptance_result store_op" where
  "commit_response E cfg n consumer i g e rd now reg q s =
     (let replay = fl_add E now (response_replay_ttl_seconds cfg);
          keep = fl_add E now (terminal_retention_seconds cfg)
      in if \<not> is_finite replay \<or> \<not> is_finite keep
         then (Inl (RelayStateStoreError ''response retention deadline must be finite''), s)
         else
           (let r = \<lparr>rs_client_identity_digest = id_client i, rs_request_identity_digest = id_request i,
                     rs_client_public_key = qd_client_public_key q, rs_request_id = qd_request_id q,
                     rs_selected_node_id = n, rs_consumer_identity_digest = consumer,
                     rs_generation = g, rs_envelope = e, rs_accepted_at_epoch = Fin now,
                     rs_response_digest = rd, rs_replay_expires_at_epoch = replay,
                     rs_status = ''response_ready''\<rparr>
            in case (dget (queued_token_digests s) i,
                     derive_acknowledgement_token E (acknowledgement_key s) i (Fin now) rd,
                     dget (cancellation_token_digests s) i) of
                 (None, _, _) \<Rightarrow> (Inl PyKeyError, s)
               | (Some _, Inl err, _) \<Rightarrow> (Inl err, s)
               | (Some _, Inr _, None) \<Rightarrow> (Inl PyKeyError, s)
               | (Some td, Inr token, Some cd) \<Rightarrow>
                   (let t = \<lparr>tm_client_identity_digest = id_client i, tm_request_identity_digest = id_request i,
                             tm_selected_node_id = n,
                             tm_control_credential_digest = reg_control_credential_digest reg,
                             tm_consumer_identity_digest = consumer, tm_generation = g,
                             tm_response_digest = rd, tm_accepted_at_epoch = Fin now,
                             tm_replay_expires_at_epoch = replay, tm_expires_at_epoch = keep,
                             tm_outcome = ''completed'', tm_retrieval_state = ''response_ready'',
                             tm_retrieval_credential_digest = td,
                             tm_acknowledgement_digest = acknowledgement_digest E token,
                             tm_reason = ''response_completed'',
                             tm_cancellation_token_digest = cd\<rparr>
                    in (Inr (response_result r True),
                        remove_queued_identity i q
                          (s\<lparr>responses := dset i r (responses s),
                             terminals := dset i t (terminals s)\<rparr>)))))"

definition accept_locked ::
  "env \<Rightarrow> config \<Rightarrow> string \<Rightarrow> string \<Rightarrow> string \<Rightarrow> string \<times> string \<Rightarrow> identity \<Rightarrow> int \<Rightarrow> envelope \<Rightarrow>
   string \<Rightarrow> rat \<Rightarrow> response_acceptance_result store_op" where
  "accept_locked E cfg n digest consumer raw i g e rd now s =
     (case dget (terminals s) i of
        Some t \<Rightarrow>
          if tm_selected_node_id t = n \<and> tm_generation t = g
             \<and> tm_control_credential_digest t = digest
             \<and> tm_consumer_identity_digest t = consumer \<and> tm_response_digest t = rd
          then (Inr (terminal_response_result t), s)
          else (Inl (RelayStateConflict ''response lifecycle conflict''), s)
      | None \<Rightarrow>
          (case response_check n digest consumer raw i g now s of
             Inl err \<Rightarrow> (Inl err, s)
           | Inr (reg, q) \<Rightarrow>
               if response_full cfg s (id_client i)
               then (Inl (RelayStateCapacityExceeded ''response lifecycle capacity reached''), s)
               else commit_response E cfg n consumer i g e rd now reg q s))"

definition accept_encrypted_response ::
  "env \<Rightarrow> config \<Rightarrow> pyval \<Rightarrow> pyval \<Rightarrow> pyval \<Rightarrow> pyval \<Rightarrow> pyval \<Rightarrow> pyval \<Rightarrow> envelope pyarg \<Rightarrow> pyval \<Rightarrow>
   response_acceptance_result store_op" where
  "accept_encrypted_response E cfg node_id digest consumer client request gen env clock =
     sbind (lift (validate_node_id E cfg node_id)) (\<lambda>n.
     sbind (lift (validate_digest digest)) (\<lambda>d.
     sbind (lift (consumer_digest E cfg consumer)) (\<lambda>c.
     sbind (lift (identity_arg E cfg client request)) (\<lambda>i.
     sbind (lift (generation_arg gen)) (\<lambda>g.
     sbind (lift (obj_arg env ''response envelope must be EncryptedResponseEnvelope'')) (\<lambda>e.
     sbind (lift (serialized_response_envelope E e)) (\<lambda>bs.
     sbind (lift (echeck (length bs > max_response_envelope_bytes cfg)
       (RelayStateStoreError ''encrypted response exceeds its configured byte bound''))) (\<lambda>_.
     sbind (lift (now_of E clock)) (\<lambda>now.
     sbind (reap_locked E cfg now) (\<lambda>_.
     accept_locked E cfg n d c (text_of client, text_of request) i g e
       (hexdigest (sha256 E bs)) now))))))))))"

definition retrieval_state :: "string \<Rightarrow> response_retrieval_result" where
  "retrieval_state st = ResponseRetrievalResult st None None None"

definition retrieve_locked ::
  "env \<Rightarrow> identity \<Rightarrow> pyval \<Rightarrow> pyval \<Rightarrow> response_retrieval_result store_op" where
  "retrieve_locked E i credential ack s =
     (case dget (terminals s) i of
        None \<Rightarrow> (Inr (retrieval_state ''invalid_retrieval_credential''), s)
      | Some t \<Rightarrow>
          if safe_retrieval_credential_digest E credential \<noteq> tm_retrieval_credential_digest t
          then (Inr (retrieval_state ''invalid_retrieval_credential''), s)
          else if tm_retrieval_state t \<noteq> ''response_ready''
          then (if tm_retrieval_state t = ''acknowledged'' \<and> ack \<noteq> VNone
                then (case acknowledgement_matches E (acknowledgement_key s) i t ack of
                        Inl err \<Rightarrow> (Inl err, s)
                      | Inr True \<Rightarrow> (Inr (retrieval_state (tm_retrieval_state t)), s)
                      | Inr False \<Rightarrow> (Inr (retrieval_state ''invalid_acknowledgement''), s))
                else (Inr (retrieval_state (tm_retrieval_state t)), s))
          else case dget (responses s) i of
            None \<Rightarrow>
              (Inr (retrieval_state ''retrieval_expired''),
               s\<lparr>terminals := dset i (t\<lparr>tm_retrieval_state := ''retrieval_expired''\<rparr>) (terminals s)\<rparr>)
          | Some r \<Rightarrow>
              (case derive_acknowledgement_token E (acknowledgement_key s) i
                      (tm_accepted_at_epoch t) (tm_response_digest t) of
                 Inl err \<Rightarrow> (Inl err, s)
               | Inr token \<Rightarrow>
                   if ack = VNone
                   then (Inr (ResponseRetrievalResult ''response_ready'' (Some (rs_envelope r))
                           (Some token) (Some (rs_replay_expires_at_epoch r))), s)
                   else if \<not> (acknowledgement_digest E token = tm_acknowledgement_digest t
                              \<and> safe_acknowledgement_digest E ack = tm_acknowledgement_digest t)
                   then (Inr (retrieval_state ''invalid_acknowledgement''), s)
                   else (Inr (retrieval_state ''acknowledged''),
                         s\<lparr>responses := ddel i (responses s),
                           terminals := dset i (t\<lparr>tm_retrieval_state := ''acknowledged''\<rparr>)
                             (terminals s)\<rparr>)))"

definition retrieve_encrypted_response ::
  "env \<Rightarrow> config \<Rightarrow> pyval \<Rightarrow> pyval \<Rightarrow> pyval \<Rightarrow> pyval \<Rightarrow> pyval \<Rightarrow> response_retrieval_result store_op" where
  "retrieve_encrypted_response E cfg client request credential ack clock =
     sbind (lift (identity_arg E cfg client request)) (\<lambda>i.
     sbind (lift (now_of E clock)) (\<lambda>now.
     sbind (reap_locked E cfg now) (\<lambda>_.
     retrieve_locked E i credential ack)))"

section \<open>Cancellation and deadline expiry\<close>

definition invalid_proof :: terminal_transition_result where
  "invalid_proof =
     TerminalTransitionResult ''invalid_cancellation_proof'' ''invalid_cancellation_proof'' False"

definition cancel_locked ::
  "env \<Rightarrow> config \<Rightarrow> identity \<Rightarrow> string \<Rightarrow> string \<Rightarrow> string \<Rightarrow> rat \<Rightarrow> terminal_transition_result store_op" where
  "cancel_locked E cfg i supplied status reason now s =
     (case dget (terminals s) i of
        Some t \<Rightarrow>
          if status = ''cancelled'' \<and> tm_cancellation_token_digest t \<noteq> supplied
          then (Inr invalid_proof, s)
          else (Inr (TerminalTransitionResult (tm_outcome t) (tm_reason t) False), s)
      | None \<Rightarrow>
          if status = ''cancelled'' \<and> dget (cancellation_token_digests s) i \<noteq> Some supplied
          then (Inr invalid_proof, s)
          else case work_of s i of
            None \<Rightarrow> (Inr invalid_proof, s)
          | Some w \<Rightarrow>
              if status = ''expired'' \<and> work_deadline w > Fin now
              then (Inr (TerminalTransitionResult ''not_expired'' ''request_deadline_active'' False), s)
              else terminalize E cfg i w status reason now False s)"

definition cancel_or_expire_request ::
  "env \<Rightarrow> config \<Rightarrow> pyval \<Rightarrow> pyval \<Rightarrow> pyval \<Rightarrow> string \<Rightarrow> string \<Rightarrow> pyval \<Rightarrow>
   terminal_transition_result store_op" where
  "cancel_or_expire_request E cfg client request cancel status reason clock =
     (if (status, reason) \<notin> {(''cancelled'', ''requester_cancelled''),
                              (''expired'', ''request_deadline_expired'')}
      then lift (Inl (RelayStateStoreError ''terminal status or reason is invalid''))
      else case identity_arg E cfg client request of
        Inl _ \<Rightarrow> ret invalid_proof
      | Inr i \<Rightarrow>
          sbind (lift (now_of E clock)) (\<lambda>now.
          sbind (reap_locked E cfg now) (\<lambda>_.
          cancel_locked E cfg i (safe_cancellation_token_digest E cfg cancel) status reason now)))"

section \<open>Listings\<close>

definition list_reservations :: "env \<Rightarrow> config \<Rightarrow> pyval \<Rightarrow> reservation list store_op" where
  "list_reservations E cfg clock =
     sbind (lift (now_of E clock)) (\<lambda>now.
     sbind (reap_locked E cfg now) (\<lambda>_ s.
       (Inr (filter (\<lambda>r. res_request_deadline_epoch r > Fin now) (dvals (reservations s))), s)))"

definition queued_requests :: "env \<Rightarrow> config \<Rightarrow> pyval \<Rightarrow> pyval \<Rightarrow> queued_request list store_op" where
  "queued_requests E cfg node_id clock =
     sbind (lift (validate_node_id E cfg node_id)) (\<lambda>n.
     sbind (lift (now_of E clock)) (\<lambda>now.
     sbind (reap_locked E cfg now) (\<lambda>_ s.
       (Inr (filter (\<lambda>q. qd_request_deadline_epoch q > Fin now
               \<and> (case dget (claims s) (qd_identity q) of
                    None \<Rightarrow> True | Some c \<Rightarrow> cl_lease_expires_at_epoch c \<le> Fin now))
             (node_queue s n)), s))))"

definition active_claims :: "env \<Rightarrow> config \<Rightarrow> pyval \<Rightarrow> pyval \<Rightarrow> claim_record list store_op" where
  "active_claims E cfg node_id clock =
     sbind (lift (validate_node_id E cfg node_id)) (\<lambda>n.
     sbind (lift (now_of E clock)) (\<lambda>now.
     sbind (reap_locked E cfg now) (\<lambda>_ s.
       (Inr (filter (\<lambda>c. cl_selected_node_id c = n \<and> cl_lease_expires_at_epoch c > Fin now)
             (sort_key cl_sequence (dvals (claims s)))), s))))"

definition listing :: "env \<Rightarrow> config \<Rightarrow> pyval \<Rightarrow> (store \<Rightarrow> 'a list) \<Rightarrow> 'a list store_op" where
  "listing E cfg clock f =
     sbind (lift (now_of E clock)) (\<lambda>now.
     sbind (reap_locked E cfg now) (\<lambda>_ s. (Inr (f s), s)))"

definition response_records :: "env \<Rightarrow> config \<Rightarrow> pyval \<Rightarrow> response_record list store_op" where
  "response_records E cfg clock = listing E cfg clock (\<lambda>s. dvals (responses s))"

definition terminal_records :: "env \<Rightarrow> config \<Rightarrow> pyval \<Rightarrow> terminal_record list store_op" where
  "terminal_records E cfg clock = listing E cfg clock (\<lambda>s. dvals (terminals s))"

definition list_control_tombstones :: "env \<Rightarrow> config \<Rightarrow> pyval \<Rightarrow> control_tombstone list store_op" where
  "list_control_tombstones E cfg clock = listing E cfg clock (\<lambda>s. dvals (control_tombstones s))"

definition list_node_tombstones :: "env \<Rightarrow> config \<Rightarrow> pyval \<Rightarrow> node_tombstone list store_op" where
  "list_node_tombstones E cfg clock =
     listing E cfg clock (\<lambda>s. map snd (sort_key fst (node_tombstones s)))"

end
