(* ===== verification/Store_Lifecycle.thy ===== *)
theory Store_Lifecycle
  imports Store_Requests
begin

text \<open>
  The lifecycle invariant of the store: how reservations, queued requests, claims,
  responses, terminal records and the two derived indexes (the per-node queue and the
  per-node work list) agree, and that each helper keeps it.
\<close>

section \<open>The invariant\<close>

definition inv_wf :: "store \<Rightarrow> bool" where
  "inv_wf s \<longleftrightarrow> wf_dict (reservations s) \<and> wf_dict (queued s) \<and> wf_dict (queued_token_digests s)
     \<and> wf_dict (cancellation_token_digests s) \<and> wf_dict (claims s)
     \<and> wf_dict (responses s) \<and> wf_dict (terminals s) \<and> wf_dict (control_tombstones s)"

text \<open>Every record is stored under its own identity.\<close>

definition inv_keys :: "store \<Rightarrow> bool" where
  "inv_keys s \<longleftrightarrow>
     (\<forall>i r. dget (reservations s) i = Some r \<longrightarrow>
        i = Identity (res_client_identity_digest r) (res_request_identity_digest r))
     \<and> (\<forall>i q. dget (queued s) i = Some q \<longrightarrow> i = qd_identity q)
     \<and> (\<forall>i t. dget (terminals s) i = Some t \<longrightarrow>
        i = Identity (tm_client_identity_digest t) (tm_request_identity_digest t))"

text \<open>A lifecycle is in at most one of the stages reserved, queued and terminal.\<close>

definition inv_live :: "store \<Rightarrow> bool" where
  "inv_live s \<longleftrightarrow> dkeys (reservations s) \<inter> dkeys (queued s) = {}
     \<and> (dkeys (reservations s) \<union> dkeys (queued s)) \<inter> dkeys (terminals s) = {}"

text \<open>The queue of a node is the queued requests of that node, in enqueue order.\<close>

definition inv_queue :: "store \<Rightarrow> bool" where
  "inv_queue s \<longleftrightarrow>
     (\<forall>n. node_queue s n = filter (\<lambda>q. qd_selected_node_id q = n) (dvals (queued s)))"

definition inv_sequence :: "store \<Rightarrow> bool" where
  "inv_sequence s \<longleftrightarrow> sorted_wrt (<) (map qd_sequence (dvals (queued s)))
     \<and> (\<forall>q \<in> set (dvals (queued s)). qd_sequence q \<le> next_queue_sequence s)"

text \<open>A claim copies its queued request, ends by the deadline, and its generation is its own.\<close>

definition claim_of_queued :: "store \<Rightarrow> identity \<Rightarrow> claim_record \<Rightarrow> bool" where
  "claim_of_queued s i c \<longleftrightarrow>
     (\<exists>q. dget (queued s) i = Some q \<and> cl_selected_node_id c = qd_selected_node_id q
        \<and> cl_request_deadline_epoch c = qd_request_deadline_epoch q
        \<and> cl_envelope c = qd_envelope q \<and> cl_sequence c = qd_sequence q)
     \<and> cl_lease_expires_at_epoch c \<le> cl_request_deadline_epoch c
     \<and> 1 \<le> cl_generation c \<and> cl_generation c \<le> next_claim_generation s"

definition inv_claims :: "store \<Rightarrow> bool" where
  "inv_claims s \<longleftrightarrow> 0 \<le> next_claim_generation s
     \<and> (\<forall>i c. dget (claims s) i = Some c \<longrightarrow> claim_of_queued s i c)
     \<and> (\<forall>i j c d. dget (claims s) i = Some c \<longrightarrow> dget (claims s) j = Some d \<longrightarrow>
          cl_generation c = cl_generation d \<longrightarrow> i = j)"

definition inv_tokens :: "store \<Rightarrow> bool" where
  "inv_tokens s \<longleftrightarrow> dkeys (queued_token_digests s) = dkeys (queued s)
     \<and> dkeys (queued s) \<subseteq> dkeys (cancellation_token_digests s)
     \<and> dkeys (cancellation_token_digests s) \<subseteq> dkeys (queued s) \<union> dkeys (reservations s)"

text \<open>The work list of a node is exactly the live work selected for it.\<close>

definition inv_work :: "store \<Rightarrow> bool" where
  "inv_work s \<longleftrightarrow>
     (\<forall>n i. i \<in> set (node_work s n) \<longleftrightarrow> (\<exists>w. work_of s i = Some w \<and> work_node w = n))"

text \<open>A response is stored exactly while its terminal record offers it.\<close>

definition inv_responses :: "store \<Rightarrow> bool" where
  "inv_responses s \<longleftrightarrow>
     (\<forall>i r. dget (responses s) i = Some r \<longrightarrow>
        (\<exists>t. dget (terminals s) i = Some t \<and> tm_retrieval_state t = ''response_ready''
           \<and> tm_replay_expires_at_epoch t = rs_replay_expires_at_epoch r
           \<and> tm_response_digest t = rs_response_digest r
           \<and> tm_accepted_at_epoch t = rs_accepted_at_epoch r))
     \<and> (\<forall>i t. dget (terminals s) i = Some t \<longrightarrow> tm_retrieval_state t = ''response_ready'' \<longrightarrow>
          i \<in> dkeys (responses s)
          \<and> tm_replay_expires_at_epoch t \<le> tm_expires_at_epoch t)"

text \<open>A stop instruction never outlives the terminal record it announces.\<close>

definition inv_tombstones :: "store \<Rightarrow> bool" where
  "inv_tombstones s \<longleftrightarrow>
     (\<forall>i c. dget (control_tombstones s) i = Some c \<longrightarrow>
        (\<exists>t. dget (terminals s) i = Some t \<and> ct_expires_at_epoch c \<le> tm_expires_at_epoch t
           \<and> tm_retrieval_state t = ''completed_unavailable''
           \<and> tm_outcome t = ct_status c \<and> tm_reason t = ct_reason c
           \<and> tm_generation t = ct_generation c))"

definition lifecycle_inv :: "store \<Rightarrow> bool" where
  "lifecycle_inv s \<longleftrightarrow> inv_wf s \<and> inv_keys s \<and> inv_live s \<and> inv_queue s \<and> inv_sequence s
     \<and> inv_claims s \<and> inv_tokens s \<and> inv_work s \<and> inv_responses s \<and> inv_tombstones s"

lemmas inv_defs = inv_wf_def inv_keys_def inv_live_def inv_queue_def inv_sequence_def
  inv_claims_def claim_of_queued_def inv_tokens_def inv_work_def inv_responses_def
  inv_tombstones_def

lemmas view_defs = node_queue_def node_work_def work_of_def

text \<open>What the arithmetic and the configuration must give.\<close>

definition env_ok :: "env \<Rightarrow> config \<Rightarrow> bool" where
  "env_ok E cfg \<longleftrightarrow> fl_add_mono E
     \<and> response_replay_ttl_seconds cfg \<le> terminal_retention_seconds cfg
     \<and> control_tombstone_ttl_seconds cfg \<le> terminal_retention_seconds cfg"

lemma env_ok_replay:
  "env_ok E cfg \<Longrightarrow> fl_add E now (response_replay_ttl_seconds cfg)
     \<le> fl_add E now (terminal_retention_seconds cfg)"
  by (simp add: env_ok_def fl_add_mono_def)

lemma env_ok_tombstone:
  "env_ok E cfg \<Longrightarrow> min (fl_add E now (control_tombstone_ttl_seconds cfg)) (fl_add E now 300)
     \<le> fl_add E now (terminal_retention_seconds cfg)"
  by (simp add: env_ok_def fl_add_mono_def min.coboundedI1)

section \<open>Fields the invariant does not read\<close>

lemma lifecycle_frames [frame_simps]:
  "lifecycle_inv (s\<lparr>records := x1\<rparr>) = lifecycle_inv s"
  "lifecycle_inv (s\<lparr>scheduler_states := x2\<rparr>) = lifecycle_inv s"
  "lifecycle_inv (s\<lparr>registration_order := x3\<rparr>) = lifecycle_inv s"
  "lifecycle_inv (s\<lparr>next_registration_order := x4\<rparr>) = lifecycle_inv s"
  "lifecycle_inv (s\<lparr>node_tombstones := x5\<rparr>) = lifecycle_inv s"
  "lifecycle_inv (s\<lparr>pending_node_transitions := x6\<rparr>) = lifecycle_inv s"
  "lifecycle_inv (s\<lparr>former_node_authorities := x7\<rparr>) = lifecycle_inv s"
  "lifecycle_inv (s\<lparr>fairness_cursors := x8\<rparr>) = lifecycle_inv s"
  "lifecycle_inv (s\<lparr>fairness_activity := x9\<rparr>) = lifecycle_inv s"
  "lifecycle_inv (s\<lparr>deferred_deadline_identities := x10\<rparr>) = lifecycle_inv s"
  by (simp_all add: lifecycle_inv_def inv_defs view_defs cong: option.case_cong)

section \<open>Index helpers\<close>

lemma ddel_absent: "dget d k = None \<Longrightarrow> ddel k d = d"
  by (simp add: map_of_eq_None_iff)

lemma ddel_notin: "k \<notin> dkeys d \<Longrightarrow> ddel k d = d"
  by (simp add: dkeys_None [symmetric] ddel_absent)

lemma node_work_discard [frame_simps]:
  "node_work (s\<lparr>node_work_identities := discard_work n i d\<rparr>) m =
     (let old = (case dget d m of Some w \<Rightarrow> w | None \<Rightarrow> [])
      in if m = n then removeAll i old else old)"
  by (auto simp: node_work_def discard_work_def dict_simps Let_def split: option.splits)

lemma dvals_ddel: "wf_dict d \<Longrightarrow> dget d k = Some v \<Longrightarrow>
    (\<And>j w. dget d j = Some w \<Longrightarrow> P w \<longleftrightarrow> j = k) \<Longrightarrow>
    dvals (ddel k d) = filter (\<lambda>v. \<not> P v) (dvals d)"
proof -
  assume wf: "wf_dict d" and P: "\<And>j w. dget d j = Some w \<Longrightarrow> P w \<longleftrightarrow> j = k"
  have "\<forall>e \<in> set d. (fst e \<noteq> k) = (\<not> P (snd e))"
    using wf P by (metis dget_mem prod.collapse)
  then have "filter (\<lambda>e. fst e \<noteq> k) d = filter (\<lambda>e. \<not> P (snd e)) d"
    by (auto intro: filter_cong)
  then show ?thesis by (simp add: ddel_filter filter_map comp_def)
qed

lemma queued_eq_identity: "queued_eq a b \<Longrightarrow> qd_identity a = qd_identity b"
  unfolding queued_eq_def qd_identity_def
  by (metis queued_request.select_convs(1,2) queued_request.surjective queued_request.update_convs(9))

lemma queued_eq_refl [simp]: "queued_eq a a"
  by (simp add: queued_eq_def)


text \<open>The part of the invariant that ties the indexes to the live work.\<close>

definition indexed :: "store \<Rightarrow> bool" where
  "indexed s \<longleftrightarrow> wf_dict (queued s) \<and> (\<forall>i q. dget (queued s) i = Some q \<longrightarrow> i = qd_identity q)
     \<and> inv_queue s \<and> inv_claims s \<and> inv_work s"

lemma lifecycle_indexed: "lifecycle_inv s \<Longrightarrow> indexed s"
  by (simp add: lifecycle_inv_def indexed_def inv_wf_def inv_keys_def)

lemma indexed_frames [frame_simps]:
  "indexed (s\<lparr>terminals := x\<rparr>) = indexed s"
  "indexed (s\<lparr>responses := y\<rparr>) = indexed s"
  "indexed (s\<lparr>control_tombstones := z\<rparr>) = indexed s"
  by (simp_all add: indexed_def inv_defs view_defs cong: option.case_cong)

lemma view_frames [frame_simps]:
  "work_of (s\<lparr>terminals := x\<rparr>) = work_of s"
  "work_of (s\<lparr>responses := y\<rparr>) = work_of s"
  "work_of (s\<lparr>control_tombstones := z\<rparr>) = work_of s"
  "node_work (s\<lparr>terminals := x\<rparr>) = node_work s"
  "node_work (s\<lparr>responses := y\<rparr>) = node_work s"
  "node_work (s\<lparr>control_tombstones := z\<rparr>) = node_work s"
  "node_queue (s\<lparr>terminals := x\<rparr>) = node_queue s"
  "node_queue (s\<lparr>responses := y\<rparr>) = node_queue s"
  "node_queue (s\<lparr>control_tombstones := z\<rparr>) = node_queue s"
  by (simp_all add: view_defs fun_eq_iff cong: option.case_cong)

lemma queue_without:
  assumes "indexed s" and "dget (queued s) i = Some q"
  shows "filter (\<lambda>item. \<not> queued_eq item q) (node_queue s n) =
         filter (\<lambda>q'. qd_selected_node_id q' = n) (dvals (ddel i (queued s)))"
proof -
  have ids: "\<And>j w. dget (queued s) j = Some w \<Longrightarrow> queued_eq w q \<longleftrightarrow> j = i"
    using assms by (metis indexed_def option.inject queued_eq_identity queued_eq_refl)
  have "dvals (ddel i (queued s)) = filter (\<lambda>v. \<not> queued_eq v q) (dvals (queued s))"
    using assms ids by (intro dvals_ddel) (auto simp: indexed_def)
  moreover have "node_queue s n = filter (\<lambda>q'. qd_selected_node_id q' = n) (dvals (queued s))"
    using assms(1) by (simp add: indexed_def inv_queue_def)
  ultimately show ?thesis by (simp add: conj_commute)
qed

lemma queue_without_other:
  assumes "indexed s" and "dget (queued s) i = Some q" and "n \<noteq> qd_selected_node_id q"
  shows "node_queue s n = filter (\<lambda>q'. qd_selected_node_id q' = n) (dvals (ddel i (queued s)))"
proof -
  have "\<forall>item \<in> set (node_queue s n). \<not> queued_eq item q"
  proof
    fix item assume "item \<in> set (node_queue s n)"
    then have "qd_selected_node_id item = n"
      using assms(1) by (auto simp: indexed_def inv_queue_def)
    with assms(3) show "\<not> queued_eq item q"
      unfolding queued_eq_def
      by (metis queued_request.ext_inject queued_request.surjective queued_request.update_convs(9))
  qed
  then have "filter (\<lambda>item. \<not> queued_eq item q) (node_queue s n) = node_queue s n"
    by (simp add: filter_id_conv)
  with queue_without [OF assms(1,2), of n] show ?thesis by simp
qed

lemma work_elsewhere:
  assumes "indexed s" and "work_of s i = Some w" and "n \<noteq> work_node w"
  shows "i \<notin> set (node_work s n)"
  using assms by (auto simp: indexed_def inv_work_def)

lemma node_queue_remove:
  assumes "indexed s" and "dget (queued s) i = Some q"
  shows "node_queue (remove_queued_identity i q s) n =
         filter (\<lambda>q'. qd_selected_node_id q' = n) (dvals (ddel i (queued s)))"
proof -
  have "node_queue (remove_queued_identity i q s) n =
     (if n = qd_selected_node_id q then filter (\<lambda>item. \<not> queued_eq item q) (node_queue s n)
      else node_queue s n)"
    by (simp add: remove_queued_identity_def discard_node_work_identity_def Let_def dict_simps
        node_queue_def)
  then show ?thesis
    using queue_without [OF assms] queue_without_other [OF assms] by simp
qed

lemma removeAll_absent: "x \<notin> set xs \<Longrightarrow> removeAll x xs = xs"
  by (rule removeAll_id)

lemma node_work_remove:
  assumes "indexed s" and "dget (queued s) i = Some q" and "dget (reservations s) i = None"
  shows "node_work (remove_queued_identity i q s) n = removeAll i (node_work s n)"
proof -
  have w: "work_of s i = Some (WQueued q)" using assms by (simp add: work_of_def)
  have "node_work (remove_queued_identity i q s) n =
     (if n = qd_selected_node_id q then removeAll i (node_work s n) else node_work s n)"
    by (simp add: remove_queued_identity_def discard_node_work_identity_def Let_def
        frame_simps) (simp add: node_work_def)
  with work_elsewhere [OF assms(1) w, of n] show ?thesis by simp
qed

lemma remove_queued_fields [frame_simps]:
  "reservations (remove_queued_identity i q s) = reservations s"
  "queued (remove_queued_identity i q s) = ddel i (queued s)"
  "queued_token_digests (remove_queued_identity i q s) = ddel i (queued_token_digests s)"
  "cancellation_token_digests (remove_queued_identity i q s) = ddel i (cancellation_token_digests s)"
  "claims (remove_queued_identity i q s) = ddel i (claims s)"
  "responses (remove_queued_identity i q s) = responses s"
  "terminals (remove_queued_identity i q s) = terminals s"
  "control_tombstones (remove_queued_identity i q s) = control_tombstones s"
  "next_queue_sequence (remove_queued_identity i q s) = next_queue_sequence s"
  "next_claim_generation (remove_queued_identity i q s) = next_claim_generation s"
  "records (remove_queued_identity i q s) = records s"
  "scheduler_states (remove_queued_identity i q s) = scheduler_states s"
  "registration_order (remove_queued_identity i q s) = registration_order s"
  "next_registration_order (remove_queued_identity i q s) = next_registration_order s"
  "pending_node_transitions (remove_queued_identity i q s) = pending_node_transitions s"
  "former_node_authorities (remove_queued_identity i q s) = former_node_authorities s"
  "node_tombstones (remove_queued_identity i q s) = node_tombstones s"
  "fairness_cursors (remove_queued_identity i q s) = fairness_cursors s"
  "deferred_deadline_identities (remove_queued_identity i q s) = deferred_deadline_identities s"
  by (simp_all add: remove_queued_identity_def discard_node_work_identity_def Let_def)

text \<open>
  \<open>removed i s t\<close>: \<open>t\<close> is \<open>s\<close> with the lifecycle \<open>i\<close> taken out of every live structure.
\<close>

definition removed :: "identity \<Rightarrow> store \<Rightarrow> store \<Rightarrow> bool" where
  "removed i s t \<longleftrightarrow>
     reservations t = ddel i (reservations s) \<and> queued t = ddel i (queued s)
     \<and> queued_token_digests t = ddel i (queued_token_digests s)
     \<and> cancellation_token_digests t = ddel i (cancellation_token_digests s)
     \<and> claims t = ddel i (claims s)
     \<and> next_queue_sequence t = next_queue_sequence s
     \<and> next_claim_generation t = next_claim_generation s
     \<and> (\<forall>n. node_queue t n =
           filter (\<lambda>q. qd_selected_node_id q = n) (dvals (ddel i (queued s))))
     \<and> (\<forall>n. node_work t n = removeAll i (node_work s n))"

lemma claimD: "inv_claims s \<Longrightarrow> dget (claims s) i = Some c \<Longrightarrow> claim_of_queued s i c"
  unfolding inv_claims_def by blast

lemma claims_absent:
  assumes "inv_claims s" and "dget (queued s) i = None"
  shows "dget (claims s) i = None"
  using assms claimD [of s i] by (cases "dget (claims s) i") (auto simp: claim_of_queued_def)

lemma remove_queued_removed:
  assumes "indexed s" and "dget (queued s) i = Some q" and "dget (reservations s) i = None"
  shows "removed i s (remove_queued_identity i q s)"
  using assms node_queue_remove node_work_remove
  by (simp add: removed_def frame_simps ddel_absent)


lemma node_work_discard_at:
  assumes "node_work_identities t = discard_work n i (node_work_identities s)"
  shows "node_work t m = (if m = n then removeAll i (node_work s n) else node_work s m)"
  using assms by (auto simp: node_work_def discard_work_def dict_simps Let_def split: option.splits)

lemma drop_reservation_removed:
  assumes "indexed s" and "dget (reservations s) i = Some r" and "dget (queued s) i = None"
    and "i \<notin> dkeys (queued_token_digests s)"
  shows "removed i s (discard_node_work_identity (res_selected_node_id r) i
     (s\<lparr>reservations := ddel i (reservations s),
        cancellation_token_digests := ddel i (cancellation_token_digests s)\<rparr>))"
    (is "removed i s ?t")
proof -
  have w: "work_of s i = Some (WReservation r)" using assms by (simp add: work_of_def)
  have "node_work_identities ?t = discard_work (res_selected_node_id r) i (node_work_identities s)"
    by (simp add: discard_node_work_identity_def)
  from node_work_discard_at [OF this] work_elsewhere [OF assms(1) w]
  have "\<forall>n. node_work ?t n = removeAll i (node_work s n)" by auto
  moreover have "claims s = ddel i (claims s)"
    using assms claims_absent by (simp add: indexed_def ddel_absent)
  moreover have "\<forall>n. node_queue ?t n = filter (\<lambda>q. qd_selected_node_id q = n) (dvals (queued s))"
    using assms(1) by (simp add: indexed_def inv_queue_def discard_node_work_identity_def node_queue_def)
  ultimately show ?thesis
    using assms by (simp add: removed_def discard_node_work_identity_def ddel_absent ddel_notin)
qed

lemma drop_lifecycle_removed:
  assumes "indexed s" and w: "work_of s i = Some w"
    and disj: "dkeys (reservations s) \<inter> dkeys (queued s) = {}"
    and tok: "dkeys (queued_token_digests s) = dkeys (queued s)"
  shows "removed i s (drop_lifecycle i w s)"
proof (cases "dget (reservations s) i")
  case (Some r)
  with w have wr: "w = WReservation r" by (simp add: work_of_def)
  have i: "i \<in> dkeys (reservations s)" using Some by (rule dget_in_keys)
  with disj have q: "i \<notin> dkeys (queued s)" by blast
  have "removed i s (discard_node_work_identity (res_selected_node_id r) i
     (s\<lparr>reservations := ddel i (reservations s),
        cancellation_token_digests := ddel i (cancellation_token_digests s)\<rparr>))"
    using assms Some q by (intro drop_reservation_removed) (auto simp: dkeys_None)
  then show ?thesis
    using q tok unfolding wr removed_def drop_lifecycle_def discard_node_work_identity_def
    by (simp add: Let_def dkeys_None [symmetric] view_defs)
next
  case None
  with w obtain q where q: "dget (queued s) i = Some q" and wq: "w = WQueued q"
    by (auto simp: work_of_def)
  let ?u = "remove_queued_identity i q s"
  have rem: "removed i s ?u" using assms(1) q None by (rule remove_queued_removed)
  have "node_work_identities (drop_lifecycle i w s) =
      discard_work (qd_selected_node_id q) i (node_work_identities ?u)"
    using q None by (simp add: drop_lifecycle_def Let_def wq discard_node_work_identity_def
        remove_queued_identity_def ddel_absent)
  from node_work_discard_at [OF this] rem
  have "\<forall>n. node_work (drop_lifecycle i w s) n = removeAll i (node_work s n)"
    by (simp add: removed_def)
  moreover have "node_queues (drop_lifecycle i w s) = node_queues ?u"
    using q None by (simp add: drop_lifecycle_def Let_def wq discard_node_work_identity_def
        remove_queued_identity_def ddel_absent)
  then have "\<forall>n. node_queue (drop_lifecycle i w s) n = node_queue ?u n"
    by (simp add: node_queue_def)
  ultimately show ?thesis
    using rem q None by (simp add: removed_def drop_lifecycle_def Let_def
        discard_node_work_identity_def frame_simps ddel_absent delete_idem)
qed


lemma work_of_removed:
  "removed i s t \<Longrightarrow> work_of t j = (if j = i then None else work_of s j)"
  by (simp add: removed_def work_of_def dict_simps split: option.splits)

lemma removed_work: "inv_work s \<Longrightarrow> removed i s t \<Longrightarrow> inv_work t"
  using work_of_removed [of i s t] by (auto simp: inv_work_def removed_def)

lemma removed_queue: "removed i s t \<Longrightarrow> inv_queue t"
  by (simp add: inv_queue_def removed_def)

lemma sorted_wrt_ddel: "sorted_wrt P (map f (dvals d)) \<Longrightarrow> sorted_wrt P (map f (dvals (ddel k d)))"
  by (induction d) (auto simp: AList.delete_eq)

lemma removed_sequence: "inv_sequence s \<Longrightarrow> removed i s t \<Longrightarrow> inv_sequence t"
  using sorted_wrt_ddel [of "(<)" qd_sequence "queued s" i]
  by (auto simp: inv_sequence_def removed_def ddel_filter)

lemma removed_claims:
  assumes "inv_claims s" and "removed i s t"
  shows "inv_claims t"
proof -
  have c: "\<And>j c. dget (claims t) j = Some c \<Longrightarrow> j \<noteq> i \<and> dget (claims s) j = Some c"
    using assms(2) by (auto simp: removed_def dict_simps split: if_splits)
  have "\<And>j c. dget (claims t) j = Some c \<Longrightarrow> claim_of_queued t j c"
  proof -
    fix j c assume "dget (claims t) j = Some c"
    with c have j: "j \<noteq> i" and "dget (claims s) j = Some c" by blast+
    then have "claim_of_queued s j c" using claimD [OF assms(1)] by blast
    with j assms(2) show "claim_of_queued t j c"
      by (simp add: claim_of_queued_def removed_def dget_ddel)
  qed
  moreover have "\<And>j k c d. dget (claims t) j = Some c \<Longrightarrow> dget (claims t) k = Some d \<Longrightarrow>
      cl_generation c = cl_generation d \<Longrightarrow> j = k"
    using c assms(1) unfolding inv_claims_def by blast
  moreover have "0 \<le> next_claim_generation t"
    using assms by (simp add: inv_claims_def removed_def)
  ultimately show ?thesis unfolding inv_claims_def by blast
qed

lemma removed_tokens: "inv_tokens s \<Longrightarrow> removed i s t \<Longrightarrow> inv_tokens t"
  by (auto simp: inv_tokens_def removed_def dkeys_ddel)

lemma live_sets:
  "A \<inter> B = {} \<Longrightarrow> (A \<union> B) \<inter> T = {} \<Longrightarrow> T' \<subseteq> insert i T \<Longrightarrow>
     (A - {i}) \<inter> (B - {i}) = {} \<and> ((A - {i}) \<union> (B - {i})) \<inter> T' = {}"
  by blast

lemma removed_live:
  "inv_live s \<Longrightarrow> removed i s t \<Longrightarrow> dkeys (terminals t) \<subseteq> insert i (dkeys (terminals s)) \<Longrightarrow> inv_live t"
  unfolding inv_live_def removed_def by (simp only: dkeys_ddel) (rule live_sets, simp_all)

text \<open>Taking a lifecycle out keeps the invariant, whatever it leaves behind as its outcome.\<close>

lemma lifecycle_removed:
  assumes inv: "lifecycle_inv s" and rem: "removed i s t"
    and wf: "wf_dict (responses t)" "wf_dict (terminals t)" "wf_dict (control_tombstones t)"
    and keys: "\<And>j u. dget (terminals t) j = Some u \<Longrightarrow> dget (terminals s) j = Some u
       \<or> j = Identity (tm_client_identity_digest u) (tm_request_identity_digest u)"
    and tkeys: "dkeys (terminals t) \<subseteq> insert i (dkeys (terminals s))"
    and out: "inv_responses t" "inv_tombstones t"
  shows "lifecycle_inv t"
proof -
  have "inv_wf t"
    using inv rem wf by (simp add: lifecycle_inv_def inv_wf_def removed_def dict_simps)
  moreover have "inv_keys t"
  proof -
    have "\<And>j r. dget (reservations t) j = Some r \<Longrightarrow> dget (reservations s) j = Some r"
      and "\<And>j q. dget (queued t) j = Some q \<Longrightarrow> dget (queued s) j = Some q"
      using rem by (auto simp: removed_def dget_ddel split: if_splits)
    with inv keys show ?thesis unfolding lifecycle_inv_def inv_keys_def by blast
  qed
  moreover have "inv_live t"
    using inv rem tkeys by (intro removed_live [of s i t]) (simp_all add: lifecycle_inv_def)
  moreover have "inv_work t"
    using inv rem by (intro removed_work [of s i t]) (simp_all add: lifecycle_inv_def)
  moreover have "inv_sequence t"
    using inv rem by (intro removed_sequence [of s i t]) (simp_all add: lifecycle_inv_def)
  moreover have "inv_claims t"
    using inv rem by (intro removed_claims [of s i t]) (simp_all add: lifecycle_inv_def)
  moreover have "inv_tokens t"
    using inv rem by (intro removed_tokens [of s i t]) (simp_all add: lifecycle_inv_def)
  ultimately show ?thesis using out removed_queue [OF rem] by (simp add: lifecycle_inv_def)
qed

section \<open>Retention\<close>

definition offered_expired :: "terminal_record \<Rightarrow> terminal_record" where
  "offered_expired t =
     (if tm_retrieval_state t = ''response_ready''
      then t\<lparr>tm_retrieval_state := ''retrieval_expired''\<rparr> else t)"

lemma offered_expired_idem [simp]: "offered_expired (offered_expired t) = offered_expired t"
  by (simp add: offered_expired_def)

lemma dget_mark_retrieval_expired:
  "dget (mark_retrieval_expired j ts) i =
     (if i = j then map_option offered_expired (dget ts i) else dget ts i)"
  by (auto simp: mark_retrieval_expired_def offered_expired_def dict_simps split: option.splits)

definition replay_over :: "rat \<Rightarrow> (identity, response_record) dict \<Rightarrow> identity \<Rightarrow> bool" where
  "replay_over now xs i \<longleftrightarrow> (\<exists>r. (i, r) \<in> set xs \<and> rs_replay_expires_at_epoch r \<le> Fin now)"

lemma replay_over_Cons [simp]:
  "replay_over now ((j, r) # xs) i \<longleftrightarrow>
     i = j \<and> rs_replay_expires_at_epoch r \<le> Fin now \<or> replay_over now xs i"
  by (auto simp: replay_over_def)

lemma replay_over_Nil [simp]: "\<not> replay_over now [] i"
  by (simp add: replay_over_def)

lemma expire_responses_get:
  "expire_responses now xs (rs, ts) = (rs', ts') \<Longrightarrow>
     dget rs' i = (if replay_over now xs i then None else dget rs i)
     \<and> dget ts' i = (if replay_over now xs i then map_option offered_expired (dget ts i) else dget ts i)"
proof (induction xs arbitrary: rs ts)
  case (Cons x xs)
  obtain j r where x: "x = (j, r)" by (cases x)
  show ?case
  proof (cases "rs_replay_expires_at_epoch r \<le> Fin now")
    case True
    with Cons.prems x
    have "expire_responses now xs (ddel j rs, mark_retrieval_expired j ts) = (rs', ts')" by simp
    from Cons.IH [OF this] True x show ?thesis
      by (auto simp: dget_mark_retrieval_expired dget_ddel option.map_comp comp_def)
  next
    case False
    with Cons.prems x have "expire_responses now xs (rs, ts) = (rs', ts')" by simp
    from Cons.IH [OF this] False x show ?thesis by auto
  qed
qed simp

lemma wf_mark_retrieval_expired: "wf_dict ts \<Longrightarrow> wf_dict (mark_retrieval_expired i ts)"
  by (auto simp: mark_retrieval_expired_def dict_simps split: option.splits)

lemma expire_responses_wf:
  assumes "expire_responses now xs (rs, ts) = (rs', ts')" and "wf_dict rs" and "wf_dict ts"
  shows "wf_dict rs' \<and> wf_dict ts'"
  using assms
proof (induction xs arbitrary: rs ts)
  case (Cons x xs)
  obtain j r where x: "x = (j, r)" by (cases x)
  show ?case
  proof (cases "rs_replay_expires_at_epoch r \<le> Fin now")
    case True
    with Cons.prems x show ?thesis
      by (intro Cons.IH [of "ddel j rs" "mark_retrieval_expired j ts"])
        (simp_all add: wf_mark_retrieval_expired wf_ddel)
  next
    case False
    with Cons x show ?thesis by simp
  qed
qed simp


lemma reap_retained_fields [frame_simps]:
  "reservations (reap_retained now s) = reservations s"
  "queued (reap_retained now s) = queued s"
  "queued_token_digests (reap_retained now s) = queued_token_digests s"
  "cancellation_token_digests (reap_retained now s) = cancellation_token_digests s"
  "node_queues (reap_retained now s) = node_queues s"
  "claims (reap_retained now s) = claims s"
  "node_work_identities (reap_retained now s) = node_work_identities s"
  "next_queue_sequence (reap_retained now s) = next_queue_sequence s"
  "next_claim_generation (reap_retained now s) = next_claim_generation s"
  "records (reap_retained now s) = records s"
  "scheduler_states (reap_retained now s) = scheduler_states s"
  "registration_order (reap_retained now s) = registration_order s"
  "next_registration_order (reap_retained now s) = next_registration_order s"
  "pending_node_transitions (reap_retained now s) = pending_node_transitions s"
  "fairness_cursors (reap_retained now s) = fairness_cursors s"
  "deferred_deadline_identities (reap_retained now s) = deferred_deadline_identities s"
  "control_tombstones (reap_retained now s) =
     dprune (\<lambda>t. ct_expires_at_epoch t \<le> Fin now) (control_tombstones s)"
  by (simp_all add: reap_retained_def split: prod.splits)

lemma replay_over_iff:
  "wf_dict d \<Longrightarrow> replay_over now d i \<longleftrightarrow> (\<exists>r. dget d i = Some r \<and> rs_replay_expires_at_epoch r \<le> Fin now)"
  unfolding replay_over_def by (metis dget_mem)

definition reaped_terminal :: "rat \<Rightarrow> store \<Rightarrow> identity \<Rightarrow> terminal_record \<Rightarrow> terminal_record option" where
  "reaped_terminal now s i t =
     (if tm_expires_at_epoch t \<le> Fin now then None
      else Some (if replay_over now (responses s) i then offered_expired t else t))"

lemma offered_expired_fields [simp]:
  "tm_expires_at_epoch (offered_expired t) = tm_expires_at_epoch t"
  "tm_client_identity_digest (offered_expired t) = tm_client_identity_digest t"
  "tm_request_identity_digest (offered_expired t) = tm_request_identity_digest t"
  "tm_outcome (offered_expired t) = tm_outcome t"
  "tm_reason (offered_expired t) = tm_reason t"
  "tm_generation (offered_expired t) = tm_generation t"
  "tm_response_digest (offered_expired t) = tm_response_digest t"
  "tm_retrieval_state (offered_expired t) =
     (if tm_retrieval_state t = ''response_ready'' then ''retrieval_expired''
      else tm_retrieval_state t)"
  by (simp_all add: offered_expired_def)

lemma reap_responses_get:
  assumes "inv_wf s"
  shows "dget (responses (reap_retained now s)) i =
           (if replay_over now (responses s) i then None else dget (responses s) i)"
    and "wf_dict (responses (reap_retained now s))"
proof -
  obtain rs ts where e: "expire_responses now (responses s) (responses s, terminals s) = (rs, ts)"
    by fastforce
  then have "responses (reap_retained now s) = rs" by (simp add: reap_retained_def)
  with expire_responses_get [OF e, of i] expire_responses_wf [OF e] assms
  show "dget (responses (reap_retained now s)) i =
           (if replay_over now (responses s) i then None else dget (responses s) i)"
    and "wf_dict (responses (reap_retained now s))"
    by (simp_all add: inv_wf_def)
qed

lemma reap_terminals_get:
  assumes "inv_wf s"
  shows "dget (terminals (reap_retained now s)) i =
           Option.bind (dget (terminals s) i) (reaped_terminal now s i)"
    and "wf_dict (terminals (reap_retained now s))"
proof -
  obtain rs ts where e: "expire_responses now (responses s) (responses s, terminals s) = (rs, ts)"
    by fastforce
  then have t: "terminals (reap_retained now s) = dprune (\<lambda>t. tm_expires_at_epoch t \<le> Fin now) ts"
    by (simp add: reap_retained_def)
  have wf: "wf_dict ts" using expire_responses_wf [OF e] assms by (simp add: inv_wf_def)
  then show "wf_dict (terminals (reap_retained now s))" by (simp add: t wf_dprune)
  from wf expire_responses_get [OF e, of i]
  show "dget (terminals (reap_retained now s)) i =
           Option.bind (dget (terminals s) i) (reaped_terminal now s i)"
    by (cases "dget (terminals s) i") (simp_all add: t dget_dprune reaped_terminal_def)
qed

lemma reap_retained_responses:
  assumes inv: "inv_responses s" and wf: "inv_wf s"
  shows "inv_responses (reap_retained now s)"
  unfolding inv_responses_def
proof (intro conjI allI impI)
  fix i r assume "dget (responses (reap_retained now s)) i = Some r"
  with wf have r: "dget (responses s) i = Some r" and ov: "\<not> replay_over now (responses s) i"
    by (auto simp: reap_responses_get split: if_splits)
  from inv r obtain t where t: "dget (terminals s) i = Some t"
      "tm_retrieval_state t = ''response_ready''"
      "tm_replay_expires_at_epoch t = rs_replay_expires_at_epoch r"
      "tm_response_digest t = rs_response_digest r" "tm_accepted_at_epoch t = rs_accepted_at_epoch r"
    unfolding inv_responses_def by blast
  have "\<not> rs_replay_expires_at_epoch r \<le> Fin now"
    using ov r wf by (simp add: replay_over_iff inv_wf_def)
  moreover have "tm_replay_expires_at_epoch t \<le> tm_expires_at_epoch t"
    using inv t unfolding inv_responses_def by blast
  ultimately have "\<not> tm_expires_at_epoch t \<le> Fin now" using t(3) by auto
  with t ov have "dget (terminals (reap_retained now s)) i = Some t"
    using wf by (simp add: reap_terminals_get reaped_terminal_def)
  with t show "\<exists>t. dget (terminals (reap_retained now s)) i = Some t
      \<and> tm_retrieval_state t = ''response_ready''
      \<and> tm_replay_expires_at_epoch t = rs_replay_expires_at_epoch r
      \<and> tm_response_digest t = rs_response_digest r
      \<and> tm_accepted_at_epoch t = rs_accepted_at_epoch r" by blast
next
  fix i t assume a: "dget (terminals (reap_retained now s)) i = Some t"
    and ready: "tm_retrieval_state t = ''response_ready''"
  from a wf obtain u where u: "dget (terminals s) i = Some u" and tu: "reaped_terminal now s i u = Some t"
    by (auto simp: reap_terminals_get bind_eq_Some_conv)
  with ready have ov: "\<not> replay_over now (responses s) i" and t: "t = u"
    by (auto simp: reaped_terminal_def offered_expired_def split: if_splits)
  with inv u ready have "i \<in> dkeys (responses s)" "tm_replay_expires_at_epoch t \<le> tm_expires_at_epoch t"
    unfolding inv_responses_def by blast+
  with ov wf show "i \<in> dkeys (responses (reap_retained now s))"
      and "tm_replay_expires_at_epoch t \<le> tm_expires_at_epoch t"
    by (simp_all add: dkeys_Some reap_responses_get)
qed

lemma reap_retained_tombstones:
  assumes inv: "inv_tombstones s" and wf: "inv_wf s"
  shows "inv_tombstones (reap_retained now s)"
  unfolding inv_tombstones_def
proof (intro allI impI)
  fix i c assume "dget (control_tombstones (reap_retained now s)) i = Some c"
  with wf have c: "dget (control_tombstones s) i = Some c" and late: "\<not> ct_expires_at_epoch c \<le> Fin now"
    by (auto simp: frame_simps dget_dprune inv_wf_def split: option.splits if_splits)
  with inv obtain t where t: "dget (terminals s) i = Some t" "ct_expires_at_epoch c \<le> tm_expires_at_epoch t"
      "tm_retrieval_state t = ''completed_unavailable''" "tm_outcome t = ct_status c"
      "tm_reason t = ct_reason c" "tm_generation t = ct_generation c"
    unfolding inv_tombstones_def by blast
  from late t(2) have "\<not> tm_expires_at_epoch t \<le> Fin now" by auto
  with t wf have "dget (terminals (reap_retained now s)) i = Some t"
    by (simp add: reap_terminals_get reaped_terminal_def offered_expired_def)
  with t show "\<exists>t. dget (terminals (reap_retained now s)) i = Some t
      \<and> ct_expires_at_epoch c \<le> tm_expires_at_epoch t
      \<and> tm_retrieval_state t = ''completed_unavailable'' \<and> tm_outcome t = ct_status c
      \<and> tm_reason t = ct_reason c \<and> tm_generation t = ct_generation c" by blast
qed

lemma reap_terminal_keys:
  "inv_wf s \<Longrightarrow> dkeys (terminals (reap_retained now s)) \<subseteq> dkeys (terminals s)"
  unfolding subset_eq Ball_def dkeys_Some by (auto simp: reap_terminals_get bind_eq_Some_conv)

lemma reap_views [frame_simps]:
  "node_queue (reap_retained now s) = node_queue s"
  "node_work (reap_retained now s) = node_work s"
  "work_of (reap_retained now s) = work_of s"
  by (simp_all add: view_defs fun_eq_iff frame_simps cong: option.case_cong)

lemma reap_retained_lifecycle:
  assumes "lifecycle_inv s"
  shows "lifecycle_inv (reap_retained now s)"
proof -
  from assms have wf: "inv_wf s" by (simp add: lifecycle_inv_def)
  have "inv_wf (reap_retained now s)"
    using wf reap_responses_get(2) reap_terminals_get(2)
    by (simp add: inv_wf_def frame_simps wf_dprune)
  moreover have "inv_keys (reap_retained now s)"
    using assms unfolding lifecycle_inv_def inv_keys_def
    by (auto simp: frame_simps reap_terminals_get reaped_terminal_def bind_eq_Some_conv
        split: if_splits)
  moreover have "inv_live (reap_retained now s)"
    using assms reap_terminal_keys [OF wf, of now]
    unfolding lifecycle_inv_def inv_live_def reap_retained_fields by blast
  moreover have "inv_queue (reap_retained now s)" "inv_sequence (reap_retained now s)"
      "inv_claims (reap_retained now s)" "inv_tokens (reap_retained now s)"
      "inv_work (reap_retained now s)"
    using assms by (simp_all add: lifecycle_inv_def inv_queue_def inv_sequence_def inv_claims_def
        claim_of_queued_def inv_tokens_def inv_work_def frame_simps)
  ultimately show ?thesis
    using assms wf by (simp add: lifecycle_inv_def reap_retained_responses reap_retained_tombstones)
qed


section \<open>The terminal transition\<close>

lemma drop_lifecycle_fields [frame_simps]:
  "terminals (drop_lifecycle i w s) = terminals s"
  "responses (drop_lifecycle i w s) = responses s"
  "control_tombstones (drop_lifecycle i w s) = control_tombstones s"
  "records (drop_lifecycle i w s) = records s"
  "scheduler_states (drop_lifecycle i w s) = scheduler_states s"
  "registration_order (drop_lifecycle i w s) = registration_order s"
  "next_registration_order (drop_lifecycle i w s) = next_registration_order s"
  "pending_node_transitions (drop_lifecycle i w s) = pending_node_transitions s"
  "former_node_authorities (drop_lifecycle i w s) = former_node_authorities s"
  "node_tombstones (drop_lifecycle i w s) = node_tombstones s"
  "fairness_cursors (drop_lifecycle i w s) = fairness_cursors s"
  "next_claim_generation (drop_lifecycle i w s) = next_claim_generation s"
  "next_queue_sequence (drop_lifecycle i w s) = next_queue_sequence s"
  by (simp_all add: drop_lifecycle_def discard_node_work_identity_def Let_def frame_simps
      split: option.splits)

text \<open>The two outcomes of the transition: nothing happens, or the lifecycle is closed.\<close>

definition closed_store ::
  "env \<Rightarrow> config \<Rightarrow> identity \<Rightarrow> work \<Rightarrow> string \<Rightarrow> string \<Rightarrow> rat \<Rightarrow> bool \<Rightarrow> store \<Rightarrow> store" where
  "closed_store E cfg i w status reason now force s =
     (let tc = tombstone_claim s i w status now force
      in drop_lifecycle i w
           (s\<lparr>terminals := dset i (closing_terminal E cfg s i w tc status reason now) (terminals s),
              control_tombstones :=
                (case tc of
                   Some c \<Rightarrow> dset i (closing_tombstone E cfg i c status reason now) (control_tombstones s)
                 | None \<Rightarrow> control_tombstones s)\<rparr>))"

definition no_room ::
  "config \<Rightarrow> identity \<Rightarrow> work \<Rightarrow> string \<Rightarrow> rat \<Rightarrow> bool \<Rightarrow> store \<Rightarrow> bool" where
  "no_room cfg i w status now force s \<longleftrightarrow>
     terminal_full cfg s i
     \<or> (\<exists>c. tombstone_claim s i w status now force = Some c \<and> tombstone_full cfg s c)"

lemma terminalize_cases:
  "terminalize E cfg i w status reason now force s =
     (if no_room cfg i w status now force s
      then (Inl (RelayStateCapacityExceeded
              (if terminal_full cfg s i then ''terminal lifecycle capacity reached''
               else ''control tombstone capacity reached'')), s)
      else (Inr (TerminalTransitionResult status reason True),
            closed_store E cfg i w status reason now force s))"
  by (simp add: terminalize_def no_room_def closed_store_def Let_def split: option.splits)

lemma removed_frame: "removed i (s\<lparr>terminals := x, control_tombstones := y\<rparr>) t = removed i s t"
  by (simp add: removed_def frame_simps)

lemma closed_store_removed:
  assumes "lifecycle_inv s" and "work_of s i = Some w"
  shows "removed i s (closed_store E cfg i w status reason now force s)"
proof -
  have "removed i (s\<lparr>terminals := x, control_tombstones := y\<rparr>)
      (drop_lifecycle i w (s\<lparr>terminals := x, control_tombstones := y\<rparr>))" for x y
    using assms lifecycle_indexed [OF assms(1)]
    by (intro drop_lifecycle_removed)
      (simp_all add: frame_simps lifecycle_inv_def inv_live_def inv_tokens_def)
  then show ?thesis by (simp add: closed_store_def Let_def removed_frame)
qed

lemma closed_store_terminals [frame_simps]:
  "terminals (closed_store E cfg i w status reason now force s) =
     dset i (closing_terminal E cfg s i w (tombstone_claim s i w status now force) status reason now)
       (terminals s)"
  "responses (closed_store E cfg i w status reason now force s) = responses s"
  "control_tombstones (closed_store E cfg i w status reason now force s) =
     (case tombstone_claim s i w status now force of
        Some c \<Rightarrow> dset i (closing_tombstone E cfg i c status reason now) (control_tombstones s)
      | None \<Rightarrow> control_tombstones s)"
  by (simp_all add: closed_store_def Let_def frame_simps)

lemma closing_terminal_simps [simp]:
  "tm_client_identity_digest (closing_terminal E cfg s i w tc status reason now) = id_client i"
  "tm_request_identity_digest (closing_terminal E cfg s i w tc status reason now) = id_request i"
  "tm_retrieval_state (closing_terminal E cfg s i w tc status reason now) = ''completed_unavailable''"
  "tm_outcome (closing_terminal E cfg s i w tc status reason now) = status"
  "tm_reason (closing_terminal E cfg s i w tc status reason now) = reason"
  "tm_expires_at_epoch (closing_terminal E cfg s i w tc status reason now) =
     fl_add E now (terminal_retention_seconds cfg)"
  "tm_generation (closing_terminal E cfg s i w tc status reason now) =
     (case tc of Some c \<Rightarrow> cl_generation c | None \<Rightarrow> 0)"
  by (simp_all add: closing_terminal_def)

lemma no_response: "inv_responses s \<Longrightarrow> dget (terminals s) i = None \<Longrightarrow> dget (responses s) i = None"
  unfolding inv_responses_def by (metis not_Some_eq)

lemma no_tombstone:
  "inv_tombstones s \<Longrightarrow> dget (terminals s) i = None \<Longrightarrow> dget (control_tombstones s) i = None"
  unfolding inv_tombstones_def by (metis not_Some_eq)

lemma closed_store_responses:
  assumes "inv_responses s" and "dget (terminals s) i = None"
  shows "inv_responses (closed_store E cfg i w status reason now force s)"
proof -
  have "dget (responses s) i = None" using assms by (rule no_response)
  with assms show ?thesis
    unfolding inv_responses_def by (auto simp: frame_simps dget_dset split: if_splits)
qed

lemma closed_store_tombstones:
  assumes "inv_tombstones s" and "dget (terminals s) i = None" and "env_ok E cfg"
  shows "inv_tombstones (closed_store E cfg i w status reason now force s)"
  unfolding inv_tombstones_def
proof (intro allI impI)
  fix j c
  assume c: "dget (control_tombstones (closed_store E cfg i w status reason now force s)) j = Some c"
  have none: "dget (control_tombstones s) i = None" using assms(1,2) by (rule no_tombstone)
  show "\<exists>t. dget (terminals (closed_store E cfg i w status reason now force s)) j = Some t
      \<and> ct_expires_at_epoch c \<le> tm_expires_at_epoch t
      \<and> tm_retrieval_state t = ''completed_unavailable'' \<and> tm_outcome t = ct_status c
      \<and> tm_reason t = ct_reason c \<and> tm_generation t = ct_generation c"
  proof (cases "j = i")
    case True
    with c none obtain d where d: "tombstone_claim s i w status now force = Some d"
        and "c = closing_tombstone E cfg i d status reason now"
      by (auto simp: frame_simps dget_dset split: option.splits)
    with True env_ok_tombstone [OF assms(3)] show ?thesis
      by (simp add: frame_simps dget_dset closing_tombstone_def)
  next
    case False
    with c have "dget (control_tombstones s) j = Some c"
      by (auto simp: frame_simps dget_dset split: option.splits)
    with assms(1) False show ?thesis
      unfolding inv_tombstones_def by (simp add: frame_simps dget_dset)
  qed
qed

lemma closed_store_lifecycle:
  assumes "lifecycle_inv s" and "dget (terminals s) i = None" and "work_of s i = Some w"
    and "env_ok E cfg"
  shows "lifecycle_inv (closed_store E cfg i w status reason now force s)"
proof (rule lifecycle_removed [OF assms(1) closed_store_removed [OF assms(1,3)]])
  let ?t = "closed_store E cfg i w status reason now force s"
  show "wf_dict (responses ?t)" "wf_dict (terminals ?t)" "wf_dict (control_tombstones ?t)"
    using assms(1) by (auto simp: lifecycle_inv_def inv_wf_def frame_simps wf_dset split: option.split)
  show "inv_responses ?t" using assms by (intro closed_store_responses) (simp_all add: lifecycle_inv_def)
  show "inv_tombstones ?t" using assms by (intro closed_store_tombstones) (simp_all add: lifecycle_inv_def)
  show "dkeys (terminals ?t) \<subseteq> insert i (dkeys (terminals s))" by (simp add: frame_simps dkeys_dset)
  fix j u assume "dget (terminals ?t) j = Some u"
  then show "dget (terminals s) j = Some u
      \<or> j = Identity (tm_client_identity_digest u) (tm_request_identity_digest u)"
    by (auto simp: frame_simps dget_dset split: if_splits)
qed

lemma terminalize_lifecycle:
  assumes "lifecycle_inv s" and "dget (terminals s) i = None" and "work_of s i = Some w"
    and "env_ok E cfg"
  shows "lifecycle_inv (snd (terminalize E cfg i w status reason now force s))"
  using assms by (simp add: terminalize_cases closed_store_lifecycle)

section \<open>Stale index entries and short reservations\<close>

lemma node_work_absent:
  assumes "inv_work s" and "work_of s i = None"
  shows "i \<notin> set (node_work s n)"
  using assms by (simp add: inv_work_def)

lemma work_of_cong:
  "reservations t = reservations s \<Longrightarrow> queued t = queued s \<Longrightarrow> work_of t = work_of s"
  by (simp add: work_of_def fun_eq_iff cong: option.case_cong)

lemma lifecycle_cong:
  assumes "reservations t = reservations s" "queued t = queued s"
    "queued_token_digests t = queued_token_digests s"
    "cancellation_token_digests t = cancellation_token_digests s" "claims t = claims s"
    "responses t = responses s" "terminals t = terminals s"
    "control_tombstones t = control_tombstones s" "next_queue_sequence t = next_queue_sequence s"
    "next_claim_generation t = next_claim_generation s" "node_queue t = node_queue s"
    "\<And>n. node_work t n = node_work s n"
  shows "lifecycle_inv t = lifecycle_inv s"
  using work_of_cong [OF assms(1,2)] unfolding lifecycle_inv_def inv_defs assms by simp

lemma discard_stale_lifecycle:
  assumes inv: "lifecycle_inv s" and stale: "work_of s i = None"
  shows "lifecycle_inv (discard_node_work_identity n i s)"
proof -
  let ?t = "discard_node_work_identity n i s"
  have w: "node_work ?t m = node_work s m" for m
    using node_work_discard_at [of ?t n i s m] node_work_absent [OF _ stale] inv
    by (simp add: discard_node_work_identity_def lifecycle_inv_def)
  have "lifecycle_inv ?t = lifecycle_inv s"
    by (rule lifecycle_cong) (simp_all add: discard_node_work_identity_def w [unfolded discard_node_work_identity_def]
        node_queue_def fun_eq_iff)
  with inv show ?thesis by simp
qed

lemma terminal_not_live:
  assumes "inv_live s" and "dget (terminals s) i \<noteq> None"
  shows "work_of s i = None"
proof -
  have "i \<in> dkeys (terminals s)" using assms(2) by (auto simp: dkeys_Some)
  with assms(1) have "i \<notin> dkeys (reservations s)" "i \<notin> dkeys (queued s)"
    unfolding inv_live_def by blast+
  then show ?thesis by (simp add: work_of_def dkeys_None [symmetric])
qed

definition drop_reservation :: "identity \<Rightarrow> reservation \<Rightarrow> store \<Rightarrow> store" where
  "drop_reservation i r s = discard_node_work_identity (res_selected_node_id r) i
     (s\<lparr>reservations := ddel i (reservations s),
        cancellation_token_digests := ddel i (cancellation_token_digests s)\<rparr>)"

lemma drop_reservation_lifecycle:
  assumes inv: "lifecycle_inv s" and r: "dget (reservations s) i = Some r"
  shows "lifecycle_inv (drop_reservation i r s)"
proof -
  let ?t = "drop_reservation i r s"
  have "i \<notin> dkeys (queued s)"
    using inv dget_in_keys [OF r] unfolding lifecycle_inv_def inv_live_def by blast
  then have "removed i s ?t"
    using inv r unfolding drop_reservation_def
    by (intro drop_reservation_removed lifecycle_indexed)
      (simp_all add: dkeys_None lifecycle_inv_def inv_tokens_def)
  then show ?thesis
  proof (rule lifecycle_removed [OF inv])
    have same: "terminals ?t = terminals s" "responses ?t = responses s"
        "control_tombstones ?t = control_tombstones s"
      by (simp_all add: drop_reservation_def discard_node_work_identity_def)
    then show "wf_dict (responses ?t)" "wf_dict (terminals ?t)" "wf_dict (control_tombstones ?t)"
      using inv by (simp_all add: lifecycle_inv_def inv_wf_def)
    have "inv_responses ?t = inv_responses s" "inv_tombstones ?t = inv_tombstones s"
      using same by (simp_all add: inv_responses_def inv_tombstones_def)
    with inv show "inv_responses ?t" "inv_tombstones ?t" by (simp_all add: lifecycle_inv_def)
    show "dkeys (terminals ?t) \<subseteq> insert i (dkeys (terminals s))" using same by auto
    show "\<And>j u. dget (terminals ?t) j = Some u \<Longrightarrow> dget (terminals s) j = Some u
       \<or> j = Identity (tm_client_identity_digest u) (tm_request_identity_digest u)"
      using same by simp
  qed
qed

end
