(* ===== verification/Store_Housekeeping.thy ===== *)
theory Store_Housekeeping
  imports Store_Lifecycle
begin

text \<open>
  The housekeeping every method runs first (reaping, deadline expiry, lease expiry, node
  transitions) reasoned about once: whatever invariant and whatever relation its
  elementary steps respect, \<open>reap_locked\<close>, \<open>expire_locked\<close> and \<open>transition_node\<close>
  respect.
\<close>

section \<open>What the helpers do to live work and to pending transitions\<close>

lemma work_of_drop_lifecycle:
  "work_of (drop_lifecycle i w s) j = (if j = i then None else work_of s j)"
  by (auto simp: work_of_def drop_lifecycle_def Let_def discard_node_work_identity_def frame_simps
      dict_simps split: option.splits)

lemma work_of_terminalize:
  "work_of (snd (terminalize E cfg i w status reason now force s)) j =
     (if j = i \<and> \<not> no_room cfg i w status now force s then None else work_of s j)"
  by (simp add: terminalize_cases closed_store_def Let_def work_of_drop_lifecycle frame_simps)

lemma closed_store_frames [frame_simps]:
  "records (closed_store E cfg i w status reason now force s) = records s"
  "scheduler_states (closed_store E cfg i w status reason now force s) = scheduler_states s"
  "registration_order (closed_store E cfg i w status reason now force s) = registration_order s"
  "next_registration_order (closed_store E cfg i w status reason now force s) = next_registration_order s"
  "pending_node_transitions (closed_store E cfg i w status reason now force s) = pending_node_transitions s"
  "former_node_authorities (closed_store E cfg i w status reason now force s) = former_node_authorities s"
  "node_tombstones (closed_store E cfg i w status reason now force s) = node_tombstones s"
  "fairness_cursors (closed_store E cfg i w status reason now force s) = fairness_cursors s"
  "next_claim_generation (closed_store E cfg i w status reason now force s) = next_claim_generation s"
  "next_queue_sequence (closed_store E cfg i w status reason now force s) = next_queue_sequence s"
  by (simp_all add: closed_store_def Let_def frame_simps)

text \<open>The two loops, one identity at a time, with the terminal transition resolved.\<close>

lemma expire_due_Cons:
  "expire_due E cfg now ((i, w) # xs) s =
     (if \<not> dmem i (terminals s) \<and> (dmem i (reservations s) \<or> dmem i (queued s))
      then if no_room cfg i w ''expired'' now False s
           then expire_due E cfg now xs
             (s\<lparr>deferred_deadline_identities := insert i (deferred_deadline_identities s)\<rparr>)
           else expire_due E cfg now xs
             (closed_store E cfg i w ''expired'' ''request_deadline_expired'' now False s)
      else expire_due E cfg now xs s)"
  by (simp add: terminalize_cases)

lemma batch_Cons_live:
  "dget (terminals s) i = None \<Longrightarrow> work_of s i = Some w \<Longrightarrow>
   transition_batch E cfg n p now (i # is) b s =
     (if no_room cfg i w (pt_status p) now (dmem i (claims s)) s then (Inr b, s)
      else transition_batch E cfg n p now is (count_terminalized s i True b)
        (closed_store E cfg i w (pt_status p) (pt_reason p) now (dmem i (claims s)) s))"
  by (simp add: terminalize_cases)

lemma batch_Cons_stale:
  "dget (terminals s) i \<noteq> None \<or> work_of s i = None \<Longrightarrow>
   transition_batch E cfg n p now (i # is) b s =
     transition_batch E cfg n p now is (b\<lparr>bc_processed := bc_processed b + 1\<rparr>)
       (discard_node_work_identity n i s)"
  by (auto split: option.splits)

declare expire_due.simps(2) [simp del] transition_batch.simps(2) [simp del]

lemma pending_batch [frame_simps]:
  "pending_node_transitions (snd (transition_batch E cfg n p now is b s)) = pending_node_transitions s"
proof (induction "is" arbitrary: b s)
  case (Cons i "is")
  show ?case
  proof (cases "dget (terminals s) i = None \<and> work_of s i \<noteq> None")
    case True
    then show ?thesis using Cons by (auto simp: batch_Cons_live frame_simps)
  next
    case False
    then have "dget (terminals s) i \<noteq> None \<or> work_of s i = None" by auto
    then show ?thesis using Cons by (simp add: batch_Cons_stale discard_node_work_identity_def)
  qed
qed simp

definition snapshot_of :: "store \<Rightarrow> (identity \<times> work) list \<Rightarrow> bool" where
  "snapshot_of s xs \<longleftrightarrow> (\<forall>(i, w) \<in> set xs. work_of s i = None \<or> work_of s i = Some w)"

lemma snapshot_terminalize:
  "snapshot_of s xs \<Longrightarrow> snapshot_of (snd (terminalize E cfg i w status reason now force s)) xs"
  unfolding snapshot_of_def work_of_terminalize by (auto split: if_splits prod.splits)

lemma due_work_snapshot:
  assumes "wf_dict (reservations s)" and "wf_dict (queued s)"
    and "dkeys (reservations s) \<inter> dkeys (queued s) = {}"
  shows "snapshot_of s (due_work now s)"
  unfolding snapshot_of_def
proof (rule ballI, clarify)
  fix i w assume "(i, w) \<in> set (due_work now s)" and ne: "work_of s i \<noteq> Some w"
  then consider (r) r where "w = WReservation r" "(i, r) \<in> set (reservations s)"
    | (q) q where "w = WQueued q" "(i, q) \<in> set (queued s)"
    by (auto simp: due_work_def)
  then show "work_of s i = None"
  proof cases
    case r
    have "dget (reservations s) i = Some r" using assms(1) r(2) by (rule map_of_is_SomeI)
    with r ne show ?thesis by (simp add: work_of_def)
  next
    case q
    have "dget (queued s) i = Some q" using assms(2) q(2) by (rule map_of_is_SomeI)
    moreover from this assms(3) have "dget (reservations s) i = None"
      using dget_in_keys by (fastforce simp: dkeys_None)
    ultimately show ?thesis using q ne by (simp add: work_of_def)
  qed
qed

lemma live_iff: "work_of s i \<noteq> None \<longleftrightarrow> dmem i (reservations s) \<or> dmem i (queued s)"
  by (auto simp: work_of_def dmem_def split: option.splits)

section \<open>The contract and its consequences\<close>

locale housekeeping = step_order I R
  for I :: "store \<Rightarrow> bool" and R :: "store \<Rightarrow> store \<Rightarrow> bool" +
  fixes E :: env and cfg :: config and now :: rat
  assumes live_wf: "I s \<Longrightarrow> wf_dict (reservations s) \<and> wf_dict (queued s)
      \<and> dkeys (reservations s) \<inter> dkeys (queued s) = {}"
    and terminal_dead: "I s \<Longrightarrow> dget (terminals s) i \<noteq> None \<Longrightarrow> work_of s i = None"
    and reap_law: "I s \<Longrightarrow> I (reap_retained now s) \<and> R s (reap_retained now s)"
    and close_law: "I s \<Longrightarrow> dget (terminals s) i = None \<Longrightarrow> work_of s i = Some w \<Longrightarrow>
      \<not> no_room cfg i w status now force s \<Longrightarrow>
      I (closed_store E cfg i w status reason now force s)
      \<and> R s (closed_store E cfg i w status reason now force s)"
    and defer_law: "I s \<Longrightarrow>
      I (s\<lparr>deferred_deadline_identities := insert i (deferred_deadline_identities s)\<rparr>)
      \<and> R s (s\<lparr>deferred_deadline_identities := insert i (deferred_deadline_identities s)\<rparr>)"
    and discard_law: "I s \<Longrightarrow> work_of s i = None \<Longrightarrow>
      I (discard_node_work_identity n i s) \<and> R s (discard_node_work_identity n i s)"
    and retire_law: "I s \<Longrightarrow> dget (records s) n = Some g \<Longrightarrow>
      dget (pending_node_transitions s) n = None \<Longrightarrow>
      length (pending_node_transitions s) < max_pending_node_transitions cfg \<Longrightarrow>
      dmem (reg_control_credential_digest g) (fence_of s (node_digest E n))
        \<or> fence_count s < max_removed_owner_fences cfg \<Longrightarrow>
      dmem (node_digest E n) (node_tombstones s)
        \<or> length (node_tombstones s) < max_node_tombstones cfg \<Longrightarrow>
      I (retire_node E cfg n g cause now s) \<and> R s (retire_node E cfg n g cause now s)"
    and finish_law: "I s \<Longrightarrow> dget (pending_node_transitions s) n = Some p \<Longrightarrow>
      I (snd (transition_close E cfg n p now s)) \<and> R s (snd (transition_close E cfg n p now s))"
    and drop_law: "I s \<Longrightarrow> dget (reservations s) i = Some r \<Longrightarrow>
      I (drop_reservation i r s) \<and> R s (drop_reservation i r s)"
begin

lemma terminalize_law:
  assumes "I s" and "dget (terminals s) i = None" and "work_of s i = Some w"
  shows "I (snd (terminalize E cfg i w status reason now force s))
    \<and> R s (snd (terminalize E cfg i w status reason now force s))"
  using close_law [OF assms] assms(1) by (simp add: terminalize_cases R_refl)

lemma advances_reap_retained: "advances I R (\<lambda>s. (Inr (), reap_retained now s))"
  by (rule advancesI) (simp add: reap_law)

lemma batch_law:
  "I s \<Longrightarrow> I (snd (transition_batch E cfg n p now is b s))
     \<and> R s (snd (transition_batch E cfg n p now is b s))"
proof (induction "is" arbitrary: b s)
  case Nil
  then show ?case by (simp add: R_refl)
next
  case (Cons i "is")
  show ?case
  proof (cases "dget (terminals s) i = None \<and> work_of s i \<noteq> None")
    case False
    then have "work_of s i = None" using terminal_dead [OF Cons.prems] by blast
    then have d: "I (discard_node_work_identity n i s)" "R s (discard_node_work_identity n i s)"
      using discard_law [OF Cons.prems] by blast+
    have "dget (terminals s) i \<noteq> None \<or> work_of s i = None" using False by auto
    with d(2) Cons.IH [OF d(1)] show ?thesis
      by (simp add: batch_Cons_stale) (blast intro: R_trans)
  next
    case True
    then obtain w where w: "dget (terminals s) i = None" "work_of s i = Some w" by blast
    let ?t = "closed_store E cfg i w (pt_status p) (pt_reason p) now (dmem i (claims s)) s"
    show ?thesis
    proof (cases "no_room cfg i w (pt_status p) now (dmem i (claims s)) s")
      case True
      with w Cons.prems show ?thesis by (simp add: batch_Cons_live R_refl)
    next
      case False
      from close_law [OF Cons.prems w False] have "I ?t" "R s ?t" by blast+
      with Cons.IH [OF \<open>I ?t\<close>] False w show ?thesis
        by (simp add: batch_Cons_live) (blast intro: R_trans)
    qed
  qed
qed

lemma open_law:
  assumes "I s"
  shows "I (snd (transition_open E cfg n supplied cause now s))
      \<and> R s (snd (transition_open E cfg n supplied cause now s))
      \<and> (\<forall>p. fst (transition_open E cfg n supplied cause now s) = Inr (Inr p) \<longrightarrow>
           dget (pending_node_transitions (snd (transition_open E cfg n supplied cause now s))) n = Some p)"
proof (cases "dget (pending_node_transitions s) n")
  case (Some p)
  with assms show ?thesis by (auto simp: transition_open_def R_refl)
next
  case None
  show ?thesis
  proof (cases "dget (records s) n")
    case absent: None
    have "map_sum id Inl (transition_absent E n supplied cause s) \<noteq> Inr (Inr p)" for p
      by (cases "transition_absent E n supplied cause s") simp_all
    then have "\<forall>p. map_sum id Inl (transition_absent E n supplied cause s) \<noteq> Inr (Inr p)" by blast
    with assms None absent show ?thesis by (simp add: transition_open_def R_refl)
  next
    case (Some r)
    show ?thesis
    proof (cases "snd (transition_open E cfg n supplied cause now s) = s
        \<and> (\<forall>p. fst (transition_open E cfg n supplied cause now s) \<noteq> Inr (Inr p))")
      case True
      with assms show ?thesis by (simp add: R_refl)
    next
      case False
      with None Some have res: "transition_open E cfg n supplied cause now s =
          (Inr (Inr (new_pending E n r cause now)), retire_node E cfg n r cause now s)"
        and guards: "length (pending_node_transitions s) < max_pending_node_transitions cfg"
          "dmem (reg_control_credential_digest r) (fence_of s (node_digest E n))
             \<or> fence_count s < max_removed_owner_fences cfg"
          "dmem (node_digest E n) (node_tombstones s)
             \<or> length (node_tombstones s) < max_node_tombstones cfg"
        by (auto simp: transition_open_def split: if_splits)
      from retire_law [OF assms Some None guards] show ?thesis
        by (simp add: res) (simp add: retire_node_def Let_def dget_dset)
    qed
  qed
qed

lemma advances_transition_node: "advances I R (transition_node E cfg n supplied cause now)"
proof (rule advancesI)
  fix s assume I: "I s"
  obtain r t where o: "transition_open E cfg n supplied cause now s = (r, t)"
    by (cases "transition_open E cfg n supplied cause now s")
  from open_law [OF I, of n supplied cause] o
  have t: "I t" "R s t" and p: "\<And>p. r = Inr (Inr p) \<Longrightarrow> dget (pending_node_transitions t) n = Some p"
    by simp_all
  show "I (snd (transition_node E cfg n supplied cause now s))
      \<and> R s (snd (transition_node E cfg n supplied cause now s))"
  proof (cases "\<exists>p. r = Inr (Inr p)")
    case False
    then have "snd (transition_node E cfg n supplied cause now s) = t"
      by (auto simp: transition_node_def sbind_def o ret_def split: sum.splits)
    with t show ?thesis by simp
  next
    case True
    then obtain p where r: "r = Inr (Inr p)" by blast
    let ?is = "take (node_transition_batch_size cfg) (node_work t n)"
    obtain b u where bu: "transition_batch E cfg n p now ?is no_counts t = (b, u)"
      by (cases "transition_batch E cfg n p now ?is no_counts t")
    from batch_law [OF t(1), of n p ?is no_counts] bu have u: "I u" "R t u" by simp_all
    from bu have "pending_node_transitions u = pending_node_transitions t"
      using pending_batch [of E cfg n p now ?is no_counts t] by simp
    with p [OF r] have "dget (pending_node_transitions u) n = Some p" by simp
    with finish_law [OF u(1)] have c: "I (snd (transition_close E cfg n p now u))"
        "R u (snd (transition_close E cfg n p now u))" by blast+
    have "snd (transition_node E cfg n supplied cause now s) = u
        \<or> snd (transition_node E cfg n supplied cause now s) = snd (transition_close E cfg n p now u)"
      by (auto simp: transition_node_def sbind_def o r bu ret_def split: sum.splits prod.splits)
    with t u c show ?thesis by (auto intro: R_trans)
  qed
qed

lemma advances_expire_each: "advances I R (expire_each E cfg now rs)"
  by (induction rs) (auto intro: advances_rules advances_transition_node)

lemma advances_continue_one: "advances I R (continue_one E cfg now expired)"
proof (rule advancesI)
  fix s assume I: "I s"
  have a: "advances I R (sbind (transition_node E cfg n d c now) (\<lambda>_. ret ()))" for n d c
    by (intro advances_rules advances_transition_node)
  show "I (snd (continue_one E cfg now expired s)) \<and> R s (snd (continue_one E cfg now expired s))"
    using I advancesD [OF a I]
    by (auto simp: continue_one_def R_refl split: list.split option.split)
qed

lemma advances_expire_locked: "advances I R (expire_locked E cfg now cont)"
proof (rule advancesI)
  fix s assume "I s"
  then have t: "I (reap_retained now s)" "R s (reap_retained now s)" using reap_law by blast+
  have "advances I R (sbind (expire_each E cfg now ex) (\<lambda>_.
      sbind (if cont then continue_one E cfg now ex else ret ()) (\<lambda>_. ret ex)))" for ex
    using advances_continue_one advances_expire_each
    by (cases cont) (auto intro: advances_rules)
  from advancesD [OF this t(1)] t(2)
  show "I (snd (expire_locked E cfg now cont s)) \<and> R s (snd (expire_locked E cfg now cont s))"
    unfolding expire_locked_def Let_def using R_trans by blast
qed

lemma expire_due_law:
  "I s \<Longrightarrow> snapshot_of s xs \<Longrightarrow> I (snd (expire_due E cfg now xs s)) \<and> R s (snd (expire_due E cfg now xs s))"
proof (induction xs arbitrary: s)
  case Nil
  then show ?case by (simp add: R_refl)
next
  case (Cons x xs)
  obtain i w where x: "x = (i, w)" by (cases x)
  have snap: "snapshot_of s xs" using Cons.prems(2) by (simp add: snapshot_of_def)
  show ?case
  proof (cases "\<not> dmem i (terminals s) \<and> (dmem i (reservations s) \<or> dmem i (queued s))")
    case False
    with Cons.IH [OF Cons.prems(1) snap] show ?thesis
      unfolding x expire_due_Cons if_not_P [OF False] by blast
  next
    case live: True
    then have "work_of s i \<noteq> None" using live_iff by blast
    with live Cons.prems(2) have w: "dget (terminals s) i = None" "work_of s i = Some w"
      by (auto simp: x snapshot_of_def dmem_def)
    let ?d = "s\<lparr>deferred_deadline_identities := insert i (deferred_deadline_identities s)\<rparr>"
    let ?t = "closed_store E cfg i w ''expired'' ''request_deadline_expired'' now False s"
    show ?thesis
    proof (cases "no_room cfg i w ''expired'' now False s")
      case True
      have "snapshot_of ?d xs" using snap by (simp add: snapshot_of_def work_of_def cong: option.case_cong)
      then have "I (snd (expire_due E cfg now xs ?d)) \<and> R ?d (snd (expire_due E cfg now xs ?d))"
        using defer_law [OF Cons.prems(1)] Cons.IH by blast
      then show ?thesis
        unfolding x expire_due_Cons if_P [OF live] if_P [OF True]
        using defer_law [OF Cons.prems(1)] R_trans by blast
    next
      case False
      have "snapshot_of ?t xs"
        using snapshot_terminalize [OF snap, of E cfg i w "''expired''" "''request_deadline_expired''" now False]
          False by (simp add: terminalize_cases)
      then have "I (snd (expire_due E cfg now xs ?t)) \<and> R ?t (snd (expire_due E cfg now xs ?t))"
        using close_law [OF Cons.prems(1) w False] Cons.IH by blast
      then show ?thesis
        unfolding x expire_due_Cons if_P [OF live] if_not_P [OF False]
        using close_law [OF Cons.prems(1) w False] R_trans by blast
    qed
  qed
qed

lemma expire_reservations_law:
  assumes "I s" and "distinct (map fst xs)" and "\<forall>(i, r) \<in> set xs. dget (reservations s) i = Some r"
  shows "I (expire_reservations now xs s) \<and> R s (expire_reservations now xs s)"
  using assms
proof (induction xs arbitrary: s)
  case Nil
  then show ?case by (simp add: R_refl)
next
  case (Cons x xs)
  obtain i r where x: "x = (i, r)" by (cases x)
  show ?case
  proof (cases "res_reservation_expires_at_epoch r \<le> Fin now \<and> i \<notin> deferred_deadline_identities s")
    case False
    with Cons x show ?thesis by auto
  next
    case True
    let ?t = "drop_reservation i r s"
    have "I ?t \<and> R s ?t" using Cons.prems x drop_law by auto
    moreover have "\<forall>(j, r') \<in> set xs. dget (reservations ?t) j = Some r'"
      using Cons.prems x by (force simp: drop_reservation_def discard_node_work_identity_def dget_ddel)
    ultimately have "I (expire_reservations now xs ?t) \<and> R ?t (expire_reservations now xs ?t)"
      using Cons by (simp add: x)
    with \<open>I ?t \<and> R s ?t\<close> True x show ?thesis
      by (auto simp: drop_reservation_def intro: R_trans)
  qed
qed

lemma advances_reap_locked: "advances I R (reap_locked E cfg now)"
proof (rule advancesI)
  fix s0 assume "I s0"
  let ?s = "reap_retained now s0"
  have s: "I ?s" "R s0 ?s" using reap_law [OF \<open>I s0\<close>] by blast+
  have snap: "snapshot_of ?s (due_work now ?s)" using live_wf [OF s(1)] by (intro due_work_snapshot) auto
  have e: "advances I R (\<lambda>t. (Inr () :: store_error + unit, expire_reservations now (reservations t) t))"
  proof (rule advancesI)
    fix t assume "I t"
    with live_wf [OF this] have "I (expire_reservations now (reservations t) t)
        \<and> R t (expire_reservations now (reservations t) t)"
      by (intro expire_reservations_law) (auto intro: map_of_is_SomeI)
    then show "I (snd (Inr () :: store_error + unit, expire_reservations now (reservations t) t))
        \<and> R t (snd (Inr () :: store_error + unit, expire_reservations now (reservations t) t))" by simp
  qed
  have rest: "advances I R (sbind (expire_locked E cfg now False)
      (\<lambda>_ t. (Inr () :: store_error + unit, expire_reservations now (reservations t) t)))"
    by (intro advances_rules advances_expire_locked e)
  obtain r t where d: "expire_due E cfg now (due_work now ?s) ?s = (r, t)"
    by (cases "expire_due E cfg now (due_work now ?s) ?s")
  with expire_due_law [OF s(1) snap] have t: "I t" "R ?s t" by simp_all
  show "I (snd (reap_locked E cfg now s0)) \<and> R s0 (snd (reap_locked E cfg now s0))"
    using advancesD [OF rest t(1)] t s
    unfolding reap_locked_def Let_def sbind_def [of "expire_due E cfg now _"] d
    by (auto split: sum.splits intro: R_trans)
qed

end

end
