(* ===== verification/Store_Steps.thy ===== *)
theory Store_Steps
  imports Store_Housekeeping
begin

text \<open>
  The commits of the operations (reserve, enqueue, claim, renew, respond, acknowledge)
  and the lifecycle invariant: each keeps it under the guards its operation checks.
\<close>

section \<open>Reserving\<close>

lemma dvals_dset_new: "k \<notin> dkeys d \<Longrightarrow> dvals (dset k v d) = dvals d @ [v]"
  by (simp add: dset_new)

lemma work_of_reserve:
  "work_of (reserve_on E i r ev cancel s) j = (if j = i then Some (WReservation r) else work_of s j)"
  by (simp add: work_of_def reserve_on_def Let_def dget_dset cong: option.case_cong)

lemma node_work_reserve:
  "node_work (reserve_on E i r ev cancel s) n =
     (if n = res_selected_node_id r
      then (if i \<in> set (node_work s n) then node_work s n else node_work s n @ [i])
      else node_work s n)"
  by (simp add: reserve_on_def Let_def node_work_def [of "_\<lparr>reservations := _\<rparr>"] dget_dset)
    (auto simp: node_work_def dget_dset split: option.splits)

lemma reserve_on_lifecycle:
  assumes inv: "lifecycle_inv s" and free: "dget (terminals s) i = None" "dget (queued s) i = None"
      "dget (reservations s) i = None"
    and i: "Identity (res_client_identity_digest r) (res_request_identity_digest r) = i"
  shows "lifecycle_inv (reserve_on E i r ev cancel s)"
proof -
  let ?t = "reserve_on E i r ev cancel s"
  have nk: "i \<notin> dkeys (terminals s)" "i \<notin> dkeys (queued s)" "i \<notin> dkeys (reservations s)"
    using free by (simp_all add: dkeys_None)
  have f: "reservations ?t = dset i r (reservations s)" "queued ?t = queued s"
      "queued_token_digests ?t = queued_token_digests s" "claims ?t = claims s"
      "responses ?t = responses s" "terminals ?t = terminals s"
      "control_tombstones ?t = control_tombstones s"
      "next_queue_sequence ?t = next_queue_sequence s"
      "next_claim_generation ?t = next_claim_generation s" "node_queues ?t = node_queues s"
      "cancellation_token_digests ?t = (case cancel of Some d \<Rightarrow>
         dset i d (cancellation_token_digests s) | None \<Rightarrow> cancellation_token_digests s)"
    by (simp_all add: reserve_on_def Let_def)
  have "inv_wf ?t" using inv by (auto simp: lifecycle_inv_def inv_wf_def f wf_dset split: option.split)
  moreover have "inv_keys ?t"
    using inv i by (simp add: lifecycle_inv_def inv_keys_def f dget_dset)
  moreover have "inv_live ?t"
    using inv nk unfolding lifecycle_inv_def inv_live_def f dkeys_dset by blast
  moreover have "inv_queue ?t" "inv_sequence ?t" "inv_claims ?t" "inv_responses ?t" "inv_tombstones ?t"
    using inv by (simp_all add: lifecycle_inv_def inv_queue_def inv_sequence_def inv_claims_def
        claim_of_queued_def inv_responses_def inv_tombstones_def f node_queue_def)
  moreover have "inv_tokens ?t"
    using inv unfolding lifecycle_inv_def inv_tokens_def f by (auto simp: dkeys_dset split: option.split)
  moreover have "inv_work ?t"
  proof -
    have "work_of s i = None" using free by (simp add: work_of_def)
    with inv show ?thesis
      unfolding lifecycle_inv_def inv_work_def work_of_reserve node_work_reserve by auto
  qed
  ultimately show ?thesis by (simp add: lifecycle_inv_def)
qed

section \<open>Enqueueing\<close>

lemma enqueue_on_lifecycle:
  assumes inv: "lifecycle_inv s" and r: "dget (reservations s) i = Some r"
    and q: "qd_identity q = i" "qd_selected_node_id q = res_selected_node_id r"
      "qd_sequence q = next_queue_sequence s + 1"
  shows "lifecycle_inv (enqueue_on i q token cancel s)"
proof -
  let ?t = "enqueue_on i q token cancel s"
  have i: "i \<in> dkeys (reservations s)" using r by (rule dget_in_keys)
  then have nk: "i \<notin> dkeys (queued s)" "i \<notin> dkeys (terminals s)"
    using inv unfolding lifecycle_inv_def inv_live_def by blast+
  have noclaim: "dget (claims s) i = None"
    using inv nk claims_absent by (simp add: lifecycle_inv_def dkeys_None)
  have f: "reservations ?t = ddel i (reservations s)" "queued ?t = dset i q (queued s)"
      "queued_token_digests ?t = dset i token (queued_token_digests s)" "claims ?t = claims s"
      "responses ?t = responses s" "terminals ?t = terminals s"
      "control_tombstones ?t = control_tombstones s"
      "next_queue_sequence ?t = next_queue_sequence s + 1"
      "next_claim_generation ?t = next_claim_generation s"
      "cancellation_token_digests ?t = dset i cancel (cancellation_token_digests s)"
      "node_work ?t = node_work s"
      "node_queue ?t n = (if n = qd_selected_node_id q then node_queue s n @ [q] else node_queue s n)" for n
    by (simp_all add: enqueue_on_def Let_def node_work_def node_queue_def dget_dset fun_eq_iff)
  have "inv_wf ?t" using inv by (simp add: lifecycle_inv_def inv_wf_def f wf_dset wf_ddel)
  moreover have "inv_keys ?t"
    using inv q(1) by (auto simp: lifecycle_inv_def inv_keys_def f dget_dset dget_ddel split: if_splits)
  moreover have "inv_live ?t"
    using inv nk unfolding lifecycle_inv_def inv_live_def f dkeys_dset dkeys_ddel by blast
  moreover have "inv_queue ?t"
    using inv nk(1) unfolding lifecycle_inv_def inv_queue_def f by (simp add: dvals_dset_new)
  moreover have "inv_sequence ?t"
    using inv nk(1) q(3) unfolding lifecycle_inv_def inv_sequence_def f
    by (fastforce simp: dset_new sorted_wrt_append)
  moreover have "inv_claims ?t"
    using inv noclaim unfolding lifecycle_inv_def inv_claims_def claim_of_queued_def f
    by (auto simp: dget_dset)
  moreover have "inv_tokens ?t"
    using inv nk unfolding lifecycle_inv_def inv_tokens_def f dkeys_dset dkeys_ddel by blast
  moreover have "inv_work ?t"
  proof -
    have "work_of ?t j = (if j = i then Some (WQueued q) else work_of s j)" for j
      by (simp add: work_of_def f dget_dset dget_ddel cong: option.case_cong)
    moreover have "work_of s i = Some (WReservation r)" using r by (simp add: work_of_def)
    ultimately show ?thesis
      using inv q(2) unfolding lifecycle_inv_def inv_work_def f by auto
  qed
  moreover have "inv_responses ?t" "inv_tombstones ?t"
    using inv by (simp_all add: lifecycle_inv_def inv_responses_def inv_tombstones_def f)
  ultimately show ?thesis by (simp add: lifecycle_inv_def)
qed

section \<open>Claims\<close>

lemma lifecycle_claims_update:
  assumes inv: "lifecycle_inv s" and g: "next_claim_generation s \<le> g"
    and c: "inv_claims (s\<lparr>claims := cs, next_claim_generation := g\<rparr>)" and wf: "wf_dict cs"
  shows "lifecycle_inv (s\<lparr>claims := cs, next_claim_generation := g\<rparr>)"
  using inv c wf unfolding lifecycle_inv_def
  by (simp add: inv_wf_def inv_keys_def inv_live_def inv_queue_def inv_sequence_def inv_tokens_def
      inv_work_def inv_responses_def inv_tombstones_def view_defs cong: option.case_cong)

lemma new_claim_lifecycle:
  assumes inv: "lifecycle_inv s" and q: "dget (queued s) i = Some q"
    and c: "cl_selected_node_id c = qd_selected_node_id q"
      "cl_request_deadline_epoch c = qd_request_deadline_epoch q" "cl_envelope c = qd_envelope q"
      "cl_sequence c = qd_sequence q" "cl_lease_expires_at_epoch c \<le> cl_request_deadline_epoch c"
      "cl_generation c = next_claim_generation s + 1"
  shows "lifecycle_inv (s\<lparr>claims := dset i c (claims s),
           next_claim_generation := next_claim_generation s + 1\<rparr>)"
proof (rule lifecycle_claims_update [OF inv])
  have ic: "inv_claims s" using inv by (simp add: lifecycle_inv_def)
  let ?t = "s\<lparr>claims := dset i c (claims s), next_claim_generation := next_claim_generation s + 1\<rparr>"
  have old: "\<And>j d. dget (claims s) j = Some d \<Longrightarrow>
      claim_of_queued ?t j d \<and> cl_generation d < next_claim_generation s + 1"
    using claimD [OF ic] by (fastforce simp: claim_of_queued_def)
  have "claim_of_queued ?t i c" using q c ic by (simp add: claim_of_queued_def inv_claims_def)
  with old c(6) ic show "inv_claims ?t"
    unfolding inv_claims_def by (fastforce simp: dget_dset split: if_splits)
  show "wf_dict (dset i c (claims s))" using inv by (simp add: lifecycle_inv_def inv_wf_def wf_dset)
qed simp

lemma bump_generation_lifecycle:
  assumes "lifecycle_inv s"
  shows "lifecycle_inv (s\<lparr>next_claim_generation := next_claim_generation s + 1\<rparr>)"
proof -
  have ic: "inv_claims s" using assms by (simp add: lifecycle_inv_def)
  have "inv_claims (s\<lparr>claims := claims s, next_claim_generation := next_claim_generation s + 1\<rparr>)"
    using ic unfolding inv_claims_def claim_of_queued_def by fastforce
  from lifecycle_claims_update [OF assms _ this] assms show ?thesis
    by (simp add: lifecycle_inv_def inv_wf_def)
qed

lemma renew_claim_lifecycle:
  assumes inv: "lifecycle_inv s" and c: "dget (claims s) i = Some c"
    and l: "lease \<le> cl_request_deadline_epoch c"
  shows "lifecycle_inv (s\<lparr>claims := dset i (c\<lparr>cl_lease_expires_at_epoch := lease\<rparr>) (claims s)\<rparr>)"
proof -
  have ic: "inv_claims s" using inv by (simp add: lifecycle_inv_def)
  let ?c = "c\<lparr>cl_lease_expires_at_epoch := lease\<rparr>"
  let ?t = "s\<lparr>claims := dset i ?c (claims s), next_claim_generation := next_claim_generation s\<rparr>"
  have "\<And>j d. dget (claims s) j = Some d \<Longrightarrow> claim_of_queued ?t j d"
    using claimD [OF ic] by (simp add: claim_of_queued_def)
  moreover have "claim_of_queued ?t i ?c"
    using claimD [OF ic c] l by (simp add: claim_of_queued_def)
  ultimately have "inv_claims ?t"
    using ic c unfolding inv_claims_def by (fastforce simp: dget_dset split: if_splits)
  from lifecycle_claims_update [OF inv _ this] inv show ?thesis
    by (simp add: lifecycle_inv_def inv_wf_def wf_dset)
qed

section \<open>Responses\<close>

lemma response_stored_lifecycle:
  assumes inv: "lifecycle_inv s" and free: "dget (terminals s) i = None" and q: "dget (queued s) i = Some q"
    and r: "rs_replay_expires_at_epoch r = tm_replay_expires_at_epoch t"
      "rs_response_digest r = tm_response_digest t" "rs_accepted_at_epoch r = tm_accepted_at_epoch t"
    and t: "tm_retrieval_state t = ''response_ready''"
      "tm_replay_expires_at_epoch t \<le> tm_expires_at_epoch t"
      "Identity (tm_client_identity_digest t) (tm_request_identity_digest t) = i"
  shows "lifecycle_inv (remove_queued_identity i q
     (s\<lparr>responses := dset i r (responses s), terminals := dset i t (terminals s)\<rparr>))"
    (is "lifecycle_inv ?t")
proof (rule lifecycle_removed [OF inv, where i = i])
  let ?u = "s\<lparr>responses := dset i r (responses s), terminals := dset i t (terminals s)\<rparr>"
  have "i \<notin> dkeys (reservations s)"
    using inv dget_in_keys [OF q] unfolding lifecycle_inv_def inv_live_def by blast
  then have "removed i ?u ?t"
    using q lifecycle_indexed [OF inv]
    by (intro remove_queued_removed) (simp_all add: frame_simps dkeys_None)
  then show "removed i s ?t" by (simp add: removed_def frame_simps)
  show "wf_dict (responses ?t)" "wf_dict (terminals ?t)" "wf_dict (control_tombstones ?t)"
    using inv by (simp_all add: frame_simps lifecycle_inv_def inv_wf_def wf_dset)
  show "dkeys (terminals ?t) \<subseteq> insert i (dkeys (terminals s))" by (simp add: frame_simps dkeys_dset)
  show "inv_responses ?t"
    using inv r t unfolding lifecycle_inv_def inv_responses_def
    by (simp add: frame_simps dget_dset dkeys_dset)
  have "dget (control_tombstones s) i = None" using inv free no_tombstone by (simp add: lifecycle_inv_def)
  then show "inv_tombstones ?t"
    using inv unfolding lifecycle_inv_def inv_tombstones_def
    by (auto simp: frame_simps dget_dset split: if_splits)
  show "\<And>j u. dget (terminals ?t) j = Some u \<Longrightarrow> dget (terminals s) j = Some u
      \<or> j = Identity (tm_client_identity_digest u) (tm_request_identity_digest u)"
    using t(3) by (auto simp: frame_simps dget_dset split: if_splits)
qed

lemma lifecycle_outcomes_update:
  assumes inv: "lifecycle_inv s"
    and wf: "wf_dict rs" "wf_dict ts" "wf_dict cs"
    and keys: "dkeys ts = dkeys (terminals s)"
      "\<And>i t. dget ts i = Some t \<Longrightarrow> i = Identity (tm_client_identity_digest t) (tm_request_identity_digest t)"
    and out: "inv_responses (s\<lparr>responses := rs, terminals := ts, control_tombstones := cs\<rparr>)"
      "inv_tombstones (s\<lparr>responses := rs, terminals := ts, control_tombstones := cs\<rparr>)"
  shows "lifecycle_inv (s\<lparr>responses := rs, terminals := ts, control_tombstones := cs\<rparr>)"
  using inv wf keys out unfolding lifecycle_inv_def
  by (simp add: inv_wf_def inv_keys_def inv_live_def inv_queue_def inv_sequence_def inv_claims_def
      claim_of_queued_def inv_tokens_def inv_work_def frame_simps)

lemma acknowledged_lifecycle:
  assumes inv: "lifecycle_inv s" and t: "dget (terminals s) i = Some t"
    and ready: "tm_retrieval_state t = ''response_ready''" and st: "st \<noteq> ''response_ready''"
  shows "lifecycle_inv (s\<lparr>responses := ddel i (responses s),
     terminals := dset i (t\<lparr>tm_retrieval_state := st\<rparr>) (terminals s)\<rparr>)"
proof -
  let ?u = "t\<lparr>tm_retrieval_state := st\<rparr>"
  have nc: "dget (control_tombstones s) i = None"
  proof (rule ccontr)
    assume "dget (control_tombstones s) i \<noteq> None"
    then obtain c where "dget (control_tombstones s) i = Some c" by blast
    with inv t ready show False unfolding lifecycle_inv_def inv_tombstones_def by fastforce
  qed
  have "lifecycle_inv (s\<lparr>responses := ddel i (responses s), terminals := dset i ?u (terminals s),
      control_tombstones := control_tombstones s\<rparr>)"
  proof (rule lifecycle_outcomes_update [OF inv])
    show "wf_dict (ddel i (responses s))" "wf_dict (dset i ?u (terminals s))" "wf_dict (control_tombstones s)"
      using inv by (simp_all add: lifecycle_inv_def inv_wf_def wf_dset wf_ddel)
    show "dkeys (dset i ?u (terminals s)) = dkeys (terminals s)"
      using dget_in_keys [OF t] by (auto simp: dkeys_dset)
    show "\<And>j v. dget (dset i ?u (terminals s)) j = Some v \<Longrightarrow>
        j = Identity (tm_client_identity_digest v) (tm_request_identity_digest v)"
      using inv t by (auto simp: dget_dset lifecycle_inv_def inv_keys_def split: if_splits)
    show "inv_responses (s\<lparr>responses := ddel i (responses s), terminals := dset i ?u (terminals s),
        control_tombstones := control_tombstones s\<rparr>)"
      using inv st unfolding lifecycle_inv_def inv_responses_def
      by (simp add: dget_dset dget_ddel dkeys_ddel)
    show "inv_tombstones (s\<lparr>responses := ddel i (responses s), terminals := dset i ?u (terminals s),
        control_tombstones := control_tombstones s\<rparr>)"
      using inv nc unfolding lifecycle_inv_def inv_tombstones_def by (auto simp: dget_dset)
  qed
  then show ?thesis by simp
qed

lemma ack_tombstone_lifecycle:
  assumes inv: "lifecycle_inv s" and c: "dget (control_tombstones s) i = Some c"
  shows "lifecycle_inv (s\<lparr>control_tombstones :=
     dset i (c\<lparr>ct_acknowledged := True\<rparr>) (control_tombstones s)\<rparr>)"
proof -
  let ?cs = "dset i (c\<lparr>ct_acknowledged := True\<rparr>) (control_tombstones s)"
  have "lifecycle_inv (s\<lparr>responses := responses s, terminals := terminals s, control_tombstones := ?cs\<rparr>)"
  proof (rule lifecycle_outcomes_update [OF inv])
    show "inv_tombstones (s\<lparr>responses := responses s, terminals := terminals s, control_tombstones := ?cs\<rparr>)"
      using inv c unfolding lifecycle_inv_def inv_tombstones_def by (simp add: dget_dset)
  qed (use inv in \<open>simp_all add: lifecycle_inv_def inv_wf_def inv_keys_def inv_responses_def wf_dset\<close>)
  then show ?thesis by simp
qed

end
