(* ===== verification/Store_Scheduler.thy ===== *)
theory Store_Scheduler
  imports Store_Housekeeping
begin

text \<open>
  What the node selection of \<^verbatim>\<open>select_and_reserve\<close> chooses: an eligible node, the smallest
  sufficient context tier among the eligible ones, the least load within that tier, and
  among those the next registration after the cursor of the request class.
\<close>

section \<open>Eligibility\<close>

definition eligible_node ::
  "config \<Rightarrow> store \<Rightarrow> string \<Rightarrow> nat \<Rightarrow> string \<Rightarrow> registration \<Rightarrow> scheduler_state \<Rightarrow> nat \<Rightarrow> bool" where
  "eligible_node cfg s m tokens n r st tier \<longleftrightarrow>
     dget (scheduler_states s) n = Some st \<and> m \<in> set (supported_model_ids (reg_capabilities r))
     \<and> dget CONTEXT_TIER_TOKEN_BOUNDS (active_context_tier (reg_capabilities r)) = Some tier
     \<and> node_compatible (reg_capabilities r) st tier tokens
     \<and> node_has_room cfg s n (reg_capabilities r) st"

lemma candidate_of_Some:
  "candidate_of cfg s m tokens n r = Inr (Some c) \<longleftrightarrow>
     (\<exists>st tier order. eligible_node cfg s m tokens n r st tier
        \<and> dget (registration_order s) n = Some order \<and> c = (tier, node_load s n st, order, n))"
  by (auto simp: candidate_of_def eligible_node_def Let_def split: option.splits)

lemma eligible_nodes_set:
  "eligible_nodes cfg s m tokens rs = Inr cs \<Longrightarrow>
     set cs = {c. \<exists>(n, r) \<in> set rs. candidate_of cfg s m tokens n r = Inr (Some c)}"
proof (induction rs arbitrary: cs)
  case (Cons x rs)
  obtain n r where x: "x = (n, r)" by (cases x)
  with Cons.prems obtain c ds where c: "candidate_of cfg s m tokens n r = Inr c"
      and ds: "eligible_nodes cfg s m tokens rs = Inr ds"
      and cs: "cs = (case c of Some y \<Rightarrow> y # ds | None \<Rightarrow> ds)"
    by (auto simp: ebind_Inr)
  from Cons.IH [OF ds] c cs show ?case by (auto simp: x split: option.splits)
qed simp

section \<open>The best candidates\<close>

definition rank :: "candidate \<Rightarrow> nat \<times> nat" where
  "rank c = (fst c, fst (snd c))"

definition order_of :: "candidate \<Rightarrow> nat" where
  "order_of c = fst (snd (snd c))"

lemma sort_key_Nil: "sort_key f xs = [] \<longleftrightarrow> xs = []"
  by (metis length_0_conv length_sort)

lemma min_list_key_le: "x \<in> set xs \<Longrightarrow> min_list (map f xs) \<le> (f x :: nat)"
  by (subst min_list_Min) auto

lemma min_list_key_ne: "xs \<noteq> [] \<Longrightarrow> filter (\<lambda>x. f x = (min_list (map f xs) :: nat)) xs \<noteq> []"
proof -
  assume ne: "xs \<noteq> []"
  have "Min (f ` set xs) \<in> f ` set xs" using ne by (intro Min_in) auto
  then obtain x where "x \<in> set xs" "f x = Min (f ` set xs)" by (auto simp: image_iff)
  with ne show ?thesis by (auto simp: filter_empty_conv min_list_Min)
qed

lemma tied_candidates_set:
  assumes "cs \<noteq> []"
  shows "set (tied_candidates cs) = {c \<in> set cs. \<forall>d \<in> set cs. rank c \<le> rank d}"
    and "tied_candidates cs \<noteq> []"
    and "sorted (map order_of (tied_candidates cs))"
proof -
  let ?a = "min_list (map fst cs)"
  let ?cs1 = "filter (\<lambda>c. fst c = ?a) cs"
  let ?b = "min_list (map (fst \<circ> snd) ?cs1)"
  have ne1: "?cs1 \<noteq> []" using assms by (rule min_list_key_ne)
  from min_list_key_ne [OF this, of "fst \<circ> snd"]
  have ne2: "filter (\<lambda>c. fst (snd c) = ?b) ?cs1 \<noteq> []" by (simp only: comp_def not_False_eq_True)
  have t: "tied_candidates cs = sort_key (fst \<circ> snd \<circ> snd) (filter (\<lambda>c. fst (snd c) = ?b) ?cs1)"
    unfolding tied_candidates_def Let_def by (rule refl)
  show "tied_candidates cs \<noteq> []" using ne2 unfolding t sort_key_Nil .
  show "sorted (map order_of (tied_candidates cs))"
    unfolding t using sorted_sort_key [of "fst \<circ> snd \<circ> snd"] by (simp add: order_of_def [abs_def] comp_def)
  have la: "\<And>d. d \<in> set cs \<Longrightarrow> ?a \<le> fst d" by (rule min_list_key_le)
  have lb: "\<And>d. d \<in> set cs \<Longrightarrow> fst d = ?a \<Longrightarrow> ?b \<le> fst (snd d)"
    using min_list_key_le [of _ ?cs1 "fst \<circ> snd"] by simp
  obtain d0 where d0: "d0 \<in> set cs" "fst d0 = ?a" "fst (snd d0) = ?b"
    using ne2 unfolding filter_empty_conv by (auto simp del: split_paired_Ex split_paired_All)
  show "set (tied_candidates cs) = {c \<in> set cs. \<forall>d \<in> set cs. rank c \<le> rank d}"
  proof (intro set_eqI iffI)
    fix c assume "c \<in> set (tied_candidates cs)"
    then have c: "c \<in> set cs" "fst c = ?a" "fst (snd c) = ?b" unfolding t by auto
    have "rank c \<le> rank d" if "d \<in> set cs" for d
      using la [OF that] lb [OF that] c by (auto simp: rank_def less_eq_prod_def le_less)
    with c show "c \<in> {c \<in> set cs. \<forall>d \<in> set cs. rank c \<le> rank d}" by simp
  next
    fix c assume "c \<in> {c \<in> set cs. \<forall>d \<in> set cs. rank c \<le> rank d}"
    then have c: "c \<in> set cs" and "rank c \<le> rank d0" using d0 by auto
    with la [OF c] lb [OF c] d0 have "fst c = ?a" "fst (snd c) = ?b"
      by (auto simp: rank_def less_eq_prod_def)
    with c show "c \<in> set (tied_candidates cs)" unfolding t by simp
  qed
qed

section \<open>The cursor\<close>

text \<open>The choice among the tied: the next after the cursor, or the first when there is none.\<close>

lemma find_least:
  assumes "sorted (map f xs)" and "find P xs = Some x" and "y \<in> set xs" and "P y"
  shows "f x \<le> (f y :: nat)"
  using assms by (induction xs) (auto split: if_splits)

lemma hd_least:
  assumes "sorted (map f xs)" and "y \<in> set xs"
  shows "f (hd xs) \<le> (f y :: nat)"
  using assms by (cases xs) auto

lemma find_mem: "find P xs = Some x \<Longrightarrow> x \<in> set xs \<and> P x"
  by (induction xs) (auto split: if_splits)

lemma pick_candidate_mem: "tied \<noteq> [] \<Longrightarrow> pick_candidate s fp tied \<in> set tied"
  by (auto simp: pick_candidate_def split: option.splits dest: find_mem)

text \<open>\<open>cursor_order\<close> is the registration order of the cursor's node, while it is registered.\<close>

definition cursor_order :: "store \<Rightarrow> string \<Rightarrow> nat option" where
  "cursor_order s fp = Option.bind (dget (fairness_cursors s) fp) (\<lambda>c. dget (registration_order s) (fst c))"

definition round_robin :: "nat option \<Rightarrow> nat set \<Rightarrow> nat \<Rightarrow> bool" where
  "round_robin cursor os k \<longleftrightarrow>
     (case cursor of
        None \<Rightarrow> k = Min os
      | Some c \<Rightarrow> k = (if \<exists>j \<in> os. c < j then Min {j \<in> os. c < j} else Min os))"

lemma pick_candidate_round_robin:
  assumes "tied \<noteq> []" and sorted: "sorted (map order_of tied)"
  shows "round_robin (cursor_order s fp) (order_of ` set tied) (order_of (pick_candidate s fp tied))"
proof -
  have first: "order_of (hd tied) = Min (order_of ` set tied)"
    using assms hd_least [OF sorted] by (intro Min_eqI [symmetric]) auto
  show ?thesis
  proof (cases "cursor_order s fp")
    case None
    have "\<And>c. dget (fairness_cursors s) fp = Some c \<Longrightarrow> dget (registration_order s) (fst c) = None"
      using None by (simp add: cursor_order_def)
    then have "pick_candidate s fp tied = hd tied"
      using assms(1) by (cases tied) (auto simp: pick_candidate_def after_cursor_def split: option.splits)
    with None first show ?thesis by (simp add: round_robin_def)
  next
    case (Some k)
    then obtain c where c: "dget (fairness_cursors s) fp = Some c" "dget (registration_order s) (fst c) = Some k"
      by (auto simp: cursor_order_def bind_eq_Some_conv)
    then have after: "after_cursor s (fst c) = (\<lambda>x. k < order_of x)"
      by (simp add: after_cursor_def order_of_def fun_eq_iff)
    show ?thesis
    proof (cases "find (\<lambda>x. k < order_of x) tied")
      case None
      with c after have "pick_candidate s fp tied = hd tied" by (simp add: pick_candidate_def)
      with None Some first show ?thesis by (auto simp: round_robin_def find_None_iff)
    next
      case found: (Some x)
      with c after have p: "pick_candidate s fp tied = x" by (simp add: pick_candidate_def)
      from find_mem [OF found] have x: "x \<in> set tied" "k < order_of x" by blast+
      have "order_of x = Min {j \<in> order_of ` set tied. k < j}"
        using x find_least [OF sorted found] by (intro Min_eqI [symmetric]) auto
      with x Some p show ?thesis by (auto simp: round_robin_def)
    qed
  qed
qed

section \<open>A fresh reservation\<close>

lemma fresh_reservation_Inr:
  assumes "fresh_reservation E cfg a cancel raw now s = (Inr x, t)"
  obtains tokens cs c ev r where
    "dget CONTEXT_TIER_TOKEN_BOUNDS (ra_tier a) = Some tokens"
    "eligible_nodes cfg s (ra_model a) tokens (records s) = Inr cs" "cs \<noteq> []"
    "c = pick_candidate s (scheduler_fingerprint E (ra_model a) (ra_tier a)) (tied_candidates cs)"
    "cursor_eviction_candidate E cfg (scheduler_fingerprint E (ra_model a) (ra_tier a)) s = Inr ev"
    "r = \<lparr>res_client_identity_digest = id_client (ra_identity a),
          res_request_identity_digest = id_request (ra_identity a),
          res_scheduler_fingerprint = scheduler_fingerprint E (ra_model a) (ra_tier a),
          res_selected_node_id = snd (snd (snd c)), res_requested_model_id = ra_model a,
          res_requested_context_tier = ra_tier a, res_request_deadline_epoch = ra_deadline a,
          res_reservation_expires_at_epoch = min (fl_add E now (reservation_ttl_seconds cfg)) (ra_deadline a),
          res_token_digest = hexdigest (sha256 E raw)\<rparr>"
    "is_finite (res_reservation_expires_at_epoch r)"
    "x = selection_result_of r (Some raw) True" "t = reserve_on E (ra_identity a) r ev cancel s"
  using assms by (auto simp: fresh_reservation_def Let_def split: option.splits sum.splits if_splits)

lemma picked_candidate:
  assumes cs: "eligible_nodes cfg s m tokens (records s) = Inr cs" "cs \<noteq> []"
    and c: "c = pick_candidate s fp (tied_candidates cs)"
  obtains r st tier order where "(snd (snd (snd c)), r) \<in> set (records s)"
    "eligible_node cfg s m tokens (snd (snd (snd c))) r st tier"
    "dget (registration_order s) (snd (snd (snd c))) = Some order"
    "c = (tier, node_load s (snd (snd (snd c))) st, order, snd (snd (snd c)))"
proof -
  have "c \<in> set (tied_candidates cs)"
    unfolding c using tied_candidates_set(2) [OF cs(2)] by (rule pick_candidate_mem)
  then have "c \<in> set cs" using tied_candidates_set(1) [OF cs(2)] by auto
  then obtain n r where "(n, r) \<in> set (records s)" "candidate_of cfg s m tokens n r = Inr (Some c)"
    using eligible_nodes_set [OF cs(1)] by auto
  with that show ?thesis by (auto simp: candidate_of_Some)
qed

end
