(* ===== verification/Store_Machine.thy ===== *)
theory Store_Machine
  imports Store_Steps Store_Scheduler
begin

text \<open>
  The store as a state machine: its calls, the state each leaves (whether it returns or
  raises) and the states a sequence of calls reaches. What every commit of every
  operation respects, every call respects.
\<close>

section \<open>Calls\<close>

datatype call =
    Register pyval "capabilities pyarg" pyval
  | Renew pyval pyval "capabilities pyarg"
  | Get_Node pyval
  | List_Nodes
  | Expire_Nodes
  | Unregister_Transition pyval pyval pyval
  | Unregister pyval pyval
  | Set_Scheduler_State pyval pyval "scheduler_state pyarg"
  | Select pyval pyval pyval pyval pyval pyval string
  | Enqueue pyval pyval pyval pyval pyval pyval pyval "envelope pyarg" pyval
  | Claim_Queued pyval pyval pyval
  | Renew_Or_Control pyval pyval pyval pyval pyval pyval bool
  | Accept_Response pyval pyval pyval pyval pyval pyval "envelope pyarg"
  | Retrieve pyval pyval pyval pyval
  | Cancel_Or_Expire pyval pyval pyval string string
  | List_Reservations
  | Queued_Requests pyval
  | Active_Claims pyval
  | Response_Records
  | Terminal_Records
  | Control_Tombstones
  | Node_Tombstones

text \<open>The state a call leaves; \<open>clock\<close> is what the injected clock returns during it.\<close>

fun perform :: "env \<Rightarrow> config \<Rightarrow> pyval \<Rightarrow> call \<Rightarrow> store \<Rightarrow> store" where
  "perform E cfg clock (Register n caps d) s = snd (register E cfg n caps d clock s)"
| "perform E cfg clock (Renew n d caps) s = snd (renew E cfg n d caps clock s)"
| "perform E cfg clock (Get_Node n) s = snd (get_node E cfg n clock s)"
| "perform E cfg clock List_Nodes s = snd (list_nodes E cfg clock s)"
| "perform E cfg clock Expire_Nodes s = snd (expire_nodes E cfg clock s)"
| "perform E cfg clock (Unregister_Transition n d c) s =
     snd (unregister_node_and_transition_work E cfg n d c clock s)"
| "perform E cfg clock (Unregister n d) s = snd (unregister E cfg n d clock s)"
| "perform E cfg clock (Set_Scheduler_State n d st) s = snd (set_scheduler_state E cfg n d st clock s)"
| "perform E cfg clock (Select cl rq m t dl cn raw) s =
     snd (select_and_reserve E cfg cl rq m t dl cn raw clock s)"
| "perform E cfg clock (Enqueue cl rq tok n m t dl env cn) s =
     snd (enqueue_encrypted_request E cfg cl rq tok n m t dl env cn clock s)"
| "perform E cfg clock (Claim_Queued n d c) s = snd (claim_queued_request E cfg n d c clock s)"
| "perform E cfg clock (Renew_Or_Control n d c cl rq g ack) s =
     snd (renew_claim_or_read_control E cfg n d c cl rq g ack clock s)"
| "perform E cfg clock (Accept_Response n d c cl rq g env) s =
     snd (accept_encrypted_response E cfg n d c cl rq g env clock s)"
| "perform E cfg clock (Retrieve cl rq cr ack) s =
     snd (retrieve_encrypted_response E cfg cl rq cr ack clock s)"
| "perform E cfg clock (Cancel_Or_Expire cl rq cn st rs) s =
     snd (cancel_or_expire_request E cfg cl rq cn st rs clock s)"
| "perform E cfg clock List_Reservations s = snd (list_reservations E cfg clock s)"
| "perform E cfg clock (Queued_Requests n) s = snd (queued_requests E cfg n clock s)"
| "perform E cfg clock (Active_Claims n) s = snd (active_claims E cfg n clock s)"
| "perform E cfg clock Response_Records s = snd (response_records E cfg clock s)"
| "perform E cfg clock Terminal_Records s = snd (terminal_records E cfg clock s)"
| "perform E cfg clock Control_Tombstones s = snd (list_control_tombstones E cfg clock s)"
| "perform E cfg clock Node_Tombstones s = snd (list_node_tombstones E cfg clock s)"

text \<open>Calls come in any order, each with any value of the clock.\<close>

inductive reachable :: "env \<Rightarrow> config \<Rightarrow> store \<Rightarrow> bool" for E cfg where
  start: "init_store key = Inr s \<Longrightarrow> reachable E cfg s"
| step: "reachable E cfg s \<Longrightarrow> reachable E cfg (perform E cfg clock c s)"

section \<open>The claim and retrieval bodies, resolved\<close>

definition claimable :: "rat \<Rightarrow> store \<Rightarrow> queued_request \<Rightarrow> bool" where
  "claimable now s q \<longleftrightarrow> Fin now < qd_request_deadline_epoch q
     \<and> (\<forall>d. dget (claims s) (qd_identity q) = Some d \<longrightarrow> cl_lease_expires_at_epoch d \<le> Fin now)"

definition claim_lease :: "env \<Rightarrow> config \<Rightarrow> rat \<Rightarrow> queued_request \<Rightarrow> epoch" where
  "claim_lease E cfg now q = min (fl_add E now (claim_ttl_seconds cfg)) (qd_request_deadline_epoch q)"

definition granted_claim ::
  "env \<Rightarrow> config \<Rightarrow> string \<Rightarrow> string \<Rightarrow> string \<Rightarrow> rat \<Rightarrow> store \<Rightarrow> queued_request \<Rightarrow> claim_record" where
  "granted_claim E cfg n owner consumer now s q =
     \<lparr>cl_client_identity_digest = qd_client_identity_digest q,
      cl_request_identity_digest = qd_request_identity_digest q,
      cl_consumer_identity_digest = consumer, cl_selected_node_id = n,
      cl_control_credential_digest = owner,
      cl_request_deadline_epoch = qd_request_deadline_epoch q,
      cl_envelope = qd_envelope q, cl_sequence = qd_sequence q,
      cl_generation = next_claim_generation s + 1,
      cl_lease_expires_at_epoch = claim_lease E cfg now q\<rparr>"

definition claim_answer :: "env \<Rightarrow> config \<Rightarrow> rat \<Rightarrow> store \<Rightarrow> queued_request \<Rightarrow> claim_result" where
  "claim_answer E cfg now s q =
     ClaimResult (if dget (claims s) (qd_identity q) \<noteq> None then ''reclaimed'' else ''claimed'')
       (Some (next_claim_generation s + 1)) (Some (claim_lease E cfg now q))
       (Some (qd_request_deadline_epoch q)) (Some (qd_client_public_key q)) (Some (qd_request_id q))
       (Some (qd_envelope q))"

text \<open>The loop takes the first claimable entry, and only looks at the capacity for that one.\<close>

lemma claim_first_find:
  "claim_first E cfg n owner consumer now tot here qs s =
     (case find (claimable now s) qs of
        None \<Rightarrow> (Inr (ClaimResult ''empty'' None None None None None None), s)
      | Some q \<Rightarrow>
          if tot \<ge> max_claims cfg \<or> here \<ge> max_claims_per_node cfg
          then (Inl (RelayStateCapacityExceeded ''claim capacity reached''), s)
          else if \<not> is_finite (claim_lease E cfg now q)
          then (Inl (RelayStateStoreError ''claim deadline must be finite''),
                s\<lparr>next_claim_generation := next_claim_generation s + 1\<rparr>)
          else (Inr (claim_answer E cfg now s q),
                s\<lparr>claims := dset (qd_identity q) (granted_claim E cfg n owner consumer now s q) (claims s),
                  next_claim_generation := next_claim_generation s + 1\<rparr>))"
proof (induction qs)
  case (Cons q qs)
  show ?case
  proof (cases "claimable now s q")
    case True
    then have "\<not> qd_request_deadline_epoch q \<le> Fin now"
        "\<not> (case dget (claims s) (qd_identity q) of
              Some c \<Rightarrow> cl_lease_expires_at_epoch c > Fin now | None \<Rightarrow> False)"
      by (auto simp: claimable_def split: option.splits)
    with True show ?thesis
      by (simp add: Let_def claim_lease_def granted_claim_def claim_answer_def)
  next
    case False
    then have "qd_request_deadline_epoch q \<le> Fin now \<or>
        (case dget (claims s) (qd_identity q) of
           Some c \<Rightarrow> cl_lease_expires_at_epoch c > Fin now | None \<Rightarrow> False)"
      by (auto simp: claimable_def split: option.splits)
    then have "claim_first E cfg n owner consumer now tot here (q # qs) s =
        claim_first E cfg n owner consumer now tot here qs s" by (auto simp: Let_def)
    with Cons False show ?thesis by simp
  qed
qed simp

declare claim_first.simps [simp del]

definition settle :: "identity \<Rightarrow> terminal_record \<Rightarrow> string \<Rightarrow> store \<Rightarrow> store" where
  "settle i t st s = s\<lparr>responses := ddel i (responses s),
     terminals := dset i (t\<lparr>tm_retrieval_state := st\<rparr>) (terminals s)\<rparr>"

lemma retrieve_locked_state:
  "snd (retrieve_locked E i credential ack s) = s
   \<or> (\<exists>t st. dget (terminals s) i = Some t \<and> tm_retrieval_state t = ''response_ready''
        \<and> st \<in> {''acknowledged'', ''retrieval_expired''}
        \<and> snd (retrieve_locked E i credential ack s) = settle i t st s)"
proof (cases "dget (terminals s) i")
  case None
  then show ?thesis by (simp add: retrieve_locked_def)
next
  case t: (Some t)
  show ?thesis
  proof (cases "tm_retrieval_state t = ''response_ready''")
    case False
    then have "snd (retrieve_locked E i credential ack s) = s"
      by (simp add: retrieve_locked_def t split: sum.split bool.split)
    then show ?thesis by blast
  next
    case True
    have "snd (retrieve_locked E i credential ack s)
        \<in> {s, settle i t ''acknowledged'' s, settle i t ''retrieval_expired'' s}"
      using ddel_absent [of "responses s" i]
      by (simp add: retrieve_locked_def t True settle_def split: sum.split option.split)
    with t True show ?thesis by blast
  qed
qed

section \<open>The contract of the commits\<close>

locale store_machine = housekeeping +
  assumes reserve_law: "I s \<Longrightarrow> dget (terminals s) i = None \<Longrightarrow> dget (queued s) i = None \<Longrightarrow>
      dget (reservations s) i = None \<Longrightarrow>
      Identity (res_client_identity_digest r) (res_request_identity_digest r) = i \<Longrightarrow>
      length (reservations s) < max_reservations cfg \<Longrightarrow>
      length (reservations s) + length (queued s) < max_request_lifecycles cfg \<Longrightarrow>
      count_vals (\<lambda>r. res_client_identity_digest r = id_client i) (reservations s)
        + count_vals (\<lambda>q. qd_client_identity_digest q = id_client i) (queued s)
        < max_reservations_per_client cfg \<Longrightarrow>
      (res_selected_node_id r, g) \<in> set (records s) \<Longrightarrow>
      node_has_room cfg s (res_selected_node_id r) (reg_capabilities g) st \<Longrightarrow>
      cursor_eviction_candidate E cfg (res_scheduler_fingerprint r) s = Inr ev \<Longrightarrow>
      I (reserve_on E i r ev cancel s) \<and> R s (reserve_on E i r ev cancel s)"
    and enqueue_law: "I s \<Longrightarrow> dget (terminals s) i = None \<Longrightarrow> dget (reservations s) i = Some r \<Longrightarrow>
      qd_identity q = i \<Longrightarrow> qd_selected_node_id q = res_selected_node_id r \<Longrightarrow>
      qd_sequence q = next_queue_sequence s + 1 \<Longrightarrow>
      length (node_queue s (qd_selected_node_id q)) < max_queue_depth_per_node cfg \<Longrightarrow>
      length (queued s) < max_queued_requests cfg \<Longrightarrow>
      count_vals (\<lambda>q. qd_client_identity_digest q = id_client i) (queued s)
        < max_queued_requests_per_client cfg \<Longrightarrow>
      I (enqueue_on i q tok can s) \<and> R s (enqueue_on i q tok can s)"
    and claim_law: "I s \<Longrightarrow> q \<in> set (node_queue s (cl_selected_node_id c)) \<Longrightarrow> qd_identity q = i \<Longrightarrow>
      \<forall>d. dget (claims s) i = Some d \<longrightarrow> cl_lease_expires_at_epoch d \<le> Fin now \<Longrightarrow>
      cl_request_deadline_epoch c = qd_request_deadline_epoch q \<Longrightarrow> cl_envelope c = qd_envelope q \<Longrightarrow>
      cl_sequence c = qd_sequence q \<Longrightarrow>
      cl_lease_expires_at_epoch c \<le> cl_request_deadline_epoch c \<Longrightarrow>
      cl_generation c = next_claim_generation s + 1 \<Longrightarrow>
      length (filter (\<lambda>c. cl_lease_expires_at_epoch c > Fin now) (dvals (claims s))) < max_claims cfg \<Longrightarrow>
      length (filter (\<lambda>d. cl_selected_node_id d = cl_selected_node_id c)
        (filter (\<lambda>c. cl_lease_expires_at_epoch c > Fin now) (dvals (claims s)))) < max_claims_per_node cfg \<Longrightarrow>
      I (s\<lparr>claims := dset i c (claims s), next_claim_generation := next_claim_generation s + 1\<rparr>)
      \<and> R s (s\<lparr>claims := dset i c (claims s), next_claim_generation := next_claim_generation s + 1\<rparr>)"
    and generation_law: "I s \<Longrightarrow> I (s\<lparr>next_claim_generation := next_claim_generation s + 1\<rparr>)
      \<and> R s (s\<lparr>next_claim_generation := next_claim_generation s + 1\<rparr>)"
    and renew_law: "I s \<Longrightarrow> dget (claims s) i = Some c \<Longrightarrow> Fin now < cl_lease_expires_at_epoch c \<Longrightarrow>
      lease \<le> cl_request_deadline_epoch c \<Longrightarrow>
      I (s\<lparr>claims := dset i (c\<lparr>cl_lease_expires_at_epoch := lease\<rparr>) (claims s)\<rparr>)
      \<and> R s (s\<lparr>claims := dset i (c\<lparr>cl_lease_expires_at_epoch := lease\<rparr>) (claims s)\<rparr>)"
    and stop_law: "I s \<Longrightarrow> dget (control_tombstones s) i = Some ct \<Longrightarrow>
      I (s\<lparr>control_tombstones := dset i (ct\<lparr>ct_acknowledged := True\<rparr>) (control_tombstones s)\<rparr>)
      \<and> R s (s\<lparr>control_tombstones := dset i (ct\<lparr>ct_acknowledged := True\<rparr>) (control_tombstones s)\<rparr>)"
    and respond_law: "I s \<Longrightarrow> dget (terminals s) i = None \<Longrightarrow> dget (queued s) i = Some q \<Longrightarrow>
      dget (claims s) i = Some c \<Longrightarrow> \<not> response_full cfg s (id_client i) \<Longrightarrow>
      Identity (rs_client_identity_digest rp) (rs_request_identity_digest rp) = i \<Longrightarrow>
      Identity (tm_client_identity_digest t) (tm_request_identity_digest t) = i \<Longrightarrow>
      rs_replay_expires_at_epoch rp = tm_replay_expires_at_epoch t \<Longrightarrow>
      rs_response_digest rp = tm_response_digest t \<Longrightarrow> rs_accepted_at_epoch rp = tm_accepted_at_epoch t \<Longrightarrow>
      tm_retrieval_state t = ''response_ready'' \<Longrightarrow>
      tm_replay_expires_at_epoch t = fl_add E now (response_replay_ttl_seconds cfg) \<Longrightarrow>
      tm_expires_at_epoch t = fl_add E now (terminal_retention_seconds cfg) \<Longrightarrow>
      I (remove_queued_identity i q (s\<lparr>responses := dset i rp (responses s),
           terminals := dset i t (terminals s)\<rparr>))
      \<and> R s (remove_queued_identity i q (s\<lparr>responses := dset i rp (responses s),
           terminals := dset i t (terminals s)\<rparr>))"
    and retrieve_law: "I s \<Longrightarrow> dget (terminals s) i = Some t \<Longrightarrow>
      tm_retrieval_state t = ''response_ready'' \<Longrightarrow> ready \<in> {''acknowledged'', ''retrieval_expired''} \<Longrightarrow>
      I (settle i t ready s) \<and> R s (settle i t ready s)"
    and register_law: "I s \<Longrightarrow> dget (pending_node_transitions s) n = None \<Longrightarrow>
      dget (records s) n = None \<Longrightarrow> length (records s) < max_compute_nodes cfg \<Longrightarrow> reg_node_id reg = n \<Longrightarrow>
      \<not> dmem (reg_control_credential_digest reg) (fence_of s (node_digest E n)) \<Longrightarrow>
      I (store_registration n reg True s) \<and> R s (store_registration n reg True s)"
    and update_law: "I s \<Longrightarrow> dget (records s) n = Some reg0 \<Longrightarrow>
      reg_node_id reg = n \<or> reg_node_id reg = reg_node_id reg0 \<Longrightarrow>
      reg_control_credential_digest reg = reg_control_credential_digest reg0 \<Longrightarrow>
      I (store_registration n reg False s) \<and> R s (store_registration n reg False s)"
    and scheduler_law: "I s \<Longrightarrow> dget (records s) n = Some reg0 \<Longrightarrow>
      I (s\<lparr>scheduler_states := dset n st (scheduler_states s)\<rparr>)
      \<and> R s (s\<lparr>scheduler_states := dset n st (scheduler_states s)\<rparr>)"
begin

lemma stays: "snd (m s) = s \<Longrightarrow> I s \<Longrightarrow> I (snd (m s)) \<and> R s (snd (m s))"
  by (simp add: R_refl)

lemma advances_select_locked: "advances I R (select_locked E cfg a cancel raw now)"
proof (rule advancesI)
  fix s assume I: "I s"
  let ?m = "select_locked E cfg a cancel raw now"
  show "I (snd (?m s)) \<and> R s (snd (?m s))"
  proof (cases "snd (?m s) = s")
    case True
    with I show ?thesis by (simp add: R_refl)
  next
    case False
    obtain y t where m: "?m s = (y, t)" by (cases "?m s")
    with False have guards: "dget (terminals s) (ra_identity a) = None"
        "dget (queued s) (ra_identity a) = None" "dget (reservations s) (ra_identity a) = None"
        "length (reservations s) < max_reservations cfg"
        "length (reservations s) + length (queued s) < max_request_lifecycles cfg"
        "count_vals (\<lambda>r. res_client_identity_digest r = id_client (ra_identity a)) (reservations s)
          + count_vals (\<lambda>q. qd_client_identity_digest q = id_client (ra_identity a)) (queued s)
          < max_reservations_per_client cfg"
      and fr: "fresh_reservation E cfg a cancel raw now s = (y, t)"
      by (auto simp: select_locked_def Let_def dmem_def split: option.splits sum.splits if_splits)
    from False m fr obtain x where "y = Inr x"
      by (auto simp: fresh_reservation_def Let_def split: option.splits sum.splits if_splits)
    with fr have "fresh_reservation E cfg a cancel raw now s = (Inr x, t)" by simp
    then show ?thesis
    proof (rule fresh_reservation_Inr)
      fix tokens cs c ev r
      let ?fp = "scheduler_fingerprint E (ra_model a) (ra_tier a)"
      assume cs: "eligible_nodes cfg s (ra_model a) tokens (records s) = Inr cs" "cs \<noteq> []"
        "c = pick_candidate s ?fp (tied_candidates cs)"
        and ev: "cursor_eviction_candidate E cfg ?fp s = Inr ev"
        and r: "r = \<lparr>res_client_identity_digest = id_client (ra_identity a),
          res_request_identity_digest = id_request (ra_identity a),
          res_scheduler_fingerprint = ?fp,
          res_selected_node_id = snd (snd (snd c)), res_requested_model_id = ra_model a,
          res_requested_context_tier = ra_tier a, res_request_deadline_epoch = ra_deadline a,
          res_reservation_expires_at_epoch = min (fl_add E now (reservation_ttl_seconds cfg)) (ra_deadline a),
          res_token_digest = hexdigest (sha256 E raw)\<rparr>"
        and t: "t = reserve_on E (ra_identity a) r ev cancel s"
      from picked_candidate [OF cs] obtain g st tier where
        g: "(snd (snd (snd c)), g) \<in> set (records s)"
           "eligible_node cfg s (ra_model a) tokens (snd (snd (snd c))) g st tier" .
      have "I t \<and> R s t" unfolding t
        by (rule reserve_law [OF I guards(1-3) _ guards(4-6), of r g st])
          (use g ev in \<open>simp_all add: r eligible_node_def\<close>)
      with m show ?thesis by simp
    qed
  qed
qed

lemma advances_enqueue_locked: "advances I R (enqueue_locked E cfg a raw node e token cancel now)"
proof (rule advancesI)
  fix s assume I: "I s"
  let ?m = "enqueue_locked E cfg a raw node e token cancel now"
  show "I (snd (?m s)) \<and> R s (snd (?m s))"
  proof (cases "snd (?m s) = s")
    case True
    with I show ?thesis by (simp add: R_refl)
  next
    case False
    then obtain r where t: "dget (terminals s) (ra_identity a) = None"
        and r: "dget (reservations s) (ra_identity a) = Some r"
        and c: "reservation_check cfg a node token cancel now s r = Inr ()"
      by (auto simp: enqueue_locked_def Let_def dmem_def split: option.splits sum.splits if_splits)
    from False t r c obtain q where m: "snd (?m s) = enqueue_on (ra_identity a) q token cancel s"
        and q: "qd_identity q = ra_identity a" "qd_selected_node_id q = node"
          "qd_sequence q = next_queue_sequence s + 1"
      by (auto simp: enqueue_locked_def Let_def dmem_def qd_identity_def split: option.splits if_splits)
    from c q(2) have "qd_selected_node_id q = res_selected_node_id r"
        "length (node_queue s (qd_selected_node_id q)) < max_queue_depth_per_node cfg"
        "length (queued s) < max_queued_requests cfg"
        "count_vals (\<lambda>q. qd_client_identity_digest q = id_client (ra_identity a)) (queued s)
          < max_queued_requests_per_client cfg"
      by (auto simp: reservation_check_def Let_def ebind_Inr)
    from enqueue_law [OF I t r q(1) this(1) q(3) this(2-4)] show ?thesis unfolding m by blast
  qed
qed

lemma claim_first_law:
  assumes I: "I s" and qs: "set qs \<subseteq> set (node_queue s n)"
    and tot: "tot = length (filter (\<lambda>c. cl_lease_expires_at_epoch c > Fin now) (dvals (claims s)))"
    and here: "here = length (filter (\<lambda>c. cl_selected_node_id c = n)
           (filter (\<lambda>c. cl_lease_expires_at_epoch c > Fin now) (dvals (claims s))))"
  shows "I (snd (claim_first E cfg n owner consumer now tot here qs s))
     \<and> R s (snd (claim_first E cfg n owner consumer now tot here qs s))"
proof (cases "find (claimable now s) qs")
  case None
  with I show ?thesis by (simp add: claim_first_find R_refl)
next
  case (Some q)
  with find_mem have q: "q \<in> set (node_queue s n)" "claimable now s q" using qs by fastforce+
  let ?c = "granted_claim E cfg n owner consumer now s q"
  let ?t = "s\<lparr>claims := dset (qd_identity q) ?c (claims s),
     next_claim_generation := next_claim_generation s + 1\<rparr>"
  have "tot < max_claims cfg \<Longrightarrow> here < max_claims_per_node cfg \<Longrightarrow> I ?t \<and> R s ?t"
    using q tot here
    by (intro claim_law [OF I, of q]) (simp_all add: granted_claim_def claimable_def claim_lease_def)
  with Some I generation_law [OF I] show ?thesis by (simp add: claim_first_find R_refl)
qed

lemma advances_claim_locked: "advances I R (claim_locked E cfg n digest consumer now)"
proof (rule advancesI)
  fix s assume "I s"
  then show "I (snd (claim_locked E cfg n digest consumer now s))
      \<and> R s (snd (claim_locked E cfg n digest consumer now s))"
    by (auto simp: claim_locked_def Let_def R_refl
        split: option.splits sum.splits dest: claim_first_law [OF _ subset_refl refl refl])
qed

lemma advances_renew_claim_locked:
  "advances I R (renew_claim_locked E cfg n digest consumer i g ack now)"
proof (rule advancesI)
  fix s assume I: "I s"
  let ?m = "renew_claim_locked E cfg n digest consumer i g ack now"
  show "I (snd (?m s)) \<and> R s (snd (?m s))"
  proof (cases "dget (control_tombstones s) i")
    case (Some t)
    with I stop_law [OF I Some] show ?thesis by (simp add: renew_claim_locked_def Let_def R_refl)
  next
    case None
    show ?thesis
    proof (cases "snd (?m s) = s")
      case True
      with I show ?thesis by (simp add: R_refl)
    next
      case False
      with None obtain c where c: "dget (claims s) i = Some c" "Fin now < cl_lease_expires_at_epoch c"
          and m: "snd (?m s) = s\<lparr>claims := dset i (c\<lparr>cl_lease_expires_at_epoch :=
            min (fl_add E now (claim_ttl_seconds cfg)) (cl_request_deadline_epoch c)\<rparr>) (claims s)\<rparr>"
        by (auto simp: renew_claim_locked_def Let_def not_le split: option.splits if_splits)
      from renew_law [OF I c min.cobounded2] show ?thesis unfolding m by blast
    qed
  qed
qed

lemma advances_accept_locked: "advances I R (accept_locked E cfg n digest consumer raw i g e rd now)"
proof (rule advancesI)
  fix s assume I: "I s"
  let ?m = "accept_locked E cfg n digest consumer raw i g e rd now"
  show "I (snd (?m s)) \<and> R s (snd (?m s))"
  proof (cases "snd (?m s) = s")
    case True
    with I show ?thesis by (simp add: R_refl)
  next
    case False
    then obtain reg q where t: "dget (terminals s) i = None"
        and chk: "response_check n digest consumer raw i g now s = Inr (reg, q)"
        and full: "\<not> response_full cfg s (id_client i)"
        and m: "snd (?m s) = snd (commit_response E cfg n consumer i g e rd now reg q s)"
      by (auto simp: accept_locked_def split: option.splits sum.splits if_splits)
    from chk obtain c where q: "dget (queued s) i = Some q" and c: "dget (claims s) i = Some c"
      by (auto simp: response_check_def split: option.splits if_splits)
    from False m obtain rp t where com: "snd (?m s) = remove_queued_identity i q
          (s\<lparr>responses := dset i rp (responses s), terminals := dset i t (terminals s)\<rparr>)"
        and f: "Identity (rs_client_identity_digest rp) (rs_request_identity_digest rp) = i"
          "Identity (tm_client_identity_digest t) (tm_request_identity_digest t) = i"
          "rs_replay_expires_at_epoch rp = tm_replay_expires_at_epoch t"
          "rs_response_digest rp = tm_response_digest t" "rs_accepted_at_epoch rp = tm_accepted_at_epoch t"
          "tm_retrieval_state t = ''response_ready''"
          "tm_replay_expires_at_epoch t = fl_add E now (response_replay_ttl_seconds cfg)"
          "tm_expires_at_epoch t = fl_add E now (terminal_retention_seconds cfg)"
      by (fastforce simp: commit_response_def Let_def split: option.splits sum.splits if_splits)
    from respond_law [OF I t q c full f] show ?thesis unfolding com .
  qed
qed

lemma advances_retrieve_locked: "advances I R (retrieve_locked E i credential ack)"
proof (rule advancesI)
  fix s assume I: "I s"
  from retrieve_locked_state [of E i credential ack s]
  show "I (snd (retrieve_locked E i credential ack s)) \<and> R s (snd (retrieve_locked E i credential ack s))"
    using I retrieve_law [OF I] R_refl by auto
qed

lemma advances_cancel_locked: "advances I R (cancel_locked E cfg i supplied status reason now)"
proof (rule advancesI)
  fix s assume I: "I s"
  let ?m = "cancel_locked E cfg i supplied status reason now"
  show "I (snd (?m s)) \<and> R s (snd (?m s))"
  proof (cases "snd (?m s) = s")
    case True
    with I show ?thesis by (simp add: R_refl)
  next
    case False
    then obtain w where w: "dget (terminals s) i = None" "work_of s i = Some w"
        and m: "snd (?m s) = snd (terminalize E cfg i w status reason now False s)"
      by (auto simp: cancel_locked_def split: option.splits if_splits)
    from terminalize_law [OF I w] show ?thesis unfolding m .
  qed
qed

lemma advances_register_locked: "advances I R (register_locked E cfg n caps digest now lease)"
proof (rule advancesI)
  fix s assume I: "I s"
  show "I (snd (register_locked E cfg n caps digest now lease s))
      \<and> R s (snd (register_locked E cfg n caps digest now lease s))"
    using I register_law [OF I, of n "new_registration n caps digest None now lease"]
      update_law [OF I, of n _ "new_registration n caps digest (Some _) now lease"]
    by (auto simp: register_locked_def Let_def R_refl dmem_def new_registration_def
        split: option.splits sum.splits)
qed

lemma advances_renew_locked: "advances I R (renew_locked E cfg n digest caps now)"
proof (rule advancesI)
  fix s assume I: "I s"
  let ?m = "renew_locked E cfg n digest caps now"
  show "I (snd (?m s)) \<and> R s (snd (?m s))"
  proof (cases "snd (?m s) = s")
    case True
    with I show ?thesis by (simp add: R_refl)
  next
    case False
    then obtain r r' where r: "dget (records s) n = Some r" "reg_node_id r' = reg_node_id r"
        "reg_control_credential_digest r' = reg_control_credential_digest r"
        and m: "snd (?m s) = store_registration n r' False s"
      by (fastforce simp: renew_locked_def Let_def store_registration_def split: option.splits sum.splits)
    from update_law [OF I r(1) disjI2 [OF r(2)] r(3)] show ?thesis unfolding m .
  qed
qed

lemma advances_now:
  assumes "\<forall>n. now_of E clock = Inr n \<longrightarrow> n = now" and "advances I R (f now)"
  shows "advances I R (sbind (lift (now_of E clock)) f)"
  using assms by (cases "now_of E clock") (auto simp: advances_def sbind_def lift_def R_refl)

lemma advances_listing:
  assumes "\<forall>n. now_of E clock = Inr n \<longrightarrow> n = now"
  shows "advances I R (listing E cfg clock f)"
  unfolding listing_def by (intro advances_now [OF assms] advances_rules advances_reap_locked)

lemma advances_set_scheduler:
  "advances I R (\<lambda>s. case dget (records s) n of
       None \<Rightarrow> (Inr False, s)
     | Some r \<Rightarrow>
         (case require_digest r d of
            Inl e \<Rightarrow> (Inl e, s)
          | Inr _ \<Rightarrow> (Inr True, s\<lparr>scheduler_states := dset n st (scheduler_states s)\<rparr>)))"
  by (rule advancesI) (auto simp: R_refl split: option.splits sum.splits dest: scheduler_law)

lemma advances_unregister_work:
  assumes "\<forall>n. now_of E clock = Inr n \<longrightarrow> n = now"
  shows "advances I R (unregister_node_and_transition_work E cfg n d c clock)"
  unfolding unregister_node_and_transition_work_def
  by (intro advances_rules advances_now [OF assms] advances_reap_retained advances_transition_node)

lemma advances_node_calls:
  assumes "\<forall>n. now_of E clock = Inr n \<longrightarrow> n = now"
  shows "advances I R (register E cfg n caps d clock)" "advances I R (renew E cfg n d caps clock)"
    "advances I R (get_node E cfg n clock)" "advances I R (list_nodes E cfg clock)"
    "advances I R (expire_nodes E cfg clock)" "advances I R (unregister E cfg n d clock)"
    "advances I R (set_scheduler_state E cfg n d st clock)"
  unfolding register_def renew_def get_node_def list_nodes_def expire_nodes_def unregister_def
    set_scheduler_state_def
  by (intro advances_now [OF assms] advances_rules advances_expire_locked advances_reap_retained
      advances_register_locked advances_renew_locked advances_unregister_work [OF assms]
      advances_set_scheduler)+

lemma advances_request_calls:
  assumes "\<forall>n. now_of E clock = Inr n \<longrightarrow> n = now"
  shows "advances I R (select_and_reserve E cfg cl rq m t dl cn raw clock)"
    "advances I R (enqueue_encrypted_request E cfg cl rq tok n m t dl env cn clock)"
    "advances I R (claim_queued_request E cfg n d c clock)"
    "advances I R (renew_claim_or_read_control E cfg n d c cl rq g ack clock)"
    "advances I R (accept_encrypted_response E cfg n d c cl rq g env clock)"
    "advances I R (retrieve_encrypted_response E cfg cl rq cr ackv clock)"
  unfolding select_and_reserve_def enqueue_encrypted_request_def claim_queued_request_def
    renew_claim_or_read_control_def accept_encrypted_response_def retrieve_encrypted_response_def
  by (intro advances_now [OF assms] advances_rules advances_reap_locked advances_select_locked
      advances_enqueue_locked advances_claim_locked advances_renew_claim_locked
      advances_accept_locked advances_retrieve_locked)+

lemma advances_cancel:
  assumes "\<forall>n. now_of E clock = Inr n \<longrightarrow> n = now"
  shows "advances I R (cancel_or_expire_request E cfg cl rq cn st rs clock)"
proof -
  have "advances I R (sbind (lift (now_of E clock)) (\<lambda>now.
      sbind (reap_locked E cfg now) (\<lambda>_. cancel_locked E cfg i dg st rs now)))" for i dg
    by (intro advances_now [OF assms] advances_rules advances_reap_locked advances_cancel_locked)
  then show ?thesis
    by (auto simp: cancel_or_expire_request_def intro: advances_rules split: sum.split)
qed

lemma advances_list_calls:
  assumes "\<forall>n. now_of E clock = Inr n \<longrightarrow> n = now"
  shows "advances I R (list_reservations E cfg clock)" "advances I R (queued_requests E cfg n clock)"
    "advances I R (active_claims E cfg n clock)"
  unfolding list_reservations_def queued_requests_def active_claims_def
  by (intro advances_now [OF assms] advances_rules advances_reap_locked)+

theorem perform_law:
  assumes at: "\<forall>n. now_of E clock = Inr n \<longrightarrow> n = now" and "I s"
  shows "I (perform E cfg clock c s) \<and> R s (perform E cfg clock c s)"
  using \<open>I s\<close>
  by (cases c)
    (auto intro: advancesD [THEN conjunct1] advancesD [THEN conjunct2] advances_node_calls [OF at]
      advances_request_calls [OF at] advances_cancel [OF at] advances_list_calls [OF at]
      advances_listing [OF at] advances_unregister_work [OF at]
      simp: response_records_def terminal_records_def list_control_tombstones_def
        list_node_tombstones_def)

end

end
