(* ===== verification/Store_Invariants.thy ===== *)
theory Store_Invariants
  imports Store_Machine
begin

text \<open>
  The invariants of the store, each as an interpretation of the machine's contract: the
  lifecycle invariant, the capacity bounds, the node registry, the finality of a terminal
  record and the order of claim generations.
\<close>

section \<open>Lifecycle\<close>

lemma retire_lifecycle: "lifecycle_inv s \<Longrightarrow> lifecycle_inv (retire_node E cfg n r cause now s)"
proof -
  assume inv: "lifecycle_inv s"
  have "lifecycle_inv (retire_node E cfg n r cause now s) = lifecycle_inv s"
    by (rule lifecycle_cong) (simp_all add: retire_node_def Let_def view_defs fun_eq_iff)
  with inv show ?thesis by simp
qed

lemma transition_close_lifecycle:
  "lifecycle_inv s \<Longrightarrow> lifecycle_inv (snd (transition_close E cfg n p now s))"
proof -
  assume inv: "lifecycle_inv s"
  have "lifecycle_inv (snd (transition_close E cfg n p now s)) = lifecycle_inv s"
    by (rule lifecycle_cong)
      (auto simp: transition_close_def Let_def view_defs fun_eq_iff split: option.split)
  with inv show ?thesis by simp
qed

lemma store_registration_lifecycle:
  "lifecycle_inv s \<Longrightarrow> lifecycle_inv (store_registration n r fresh s)"
proof -
  assume inv: "lifecycle_inv s"
  have "lifecycle_inv (store_registration n r fresh s) = lifecycle_inv s"
    by (rule lifecycle_cong) (simp_all add: store_registration_def Let_def view_defs fun_eq_iff)
  with inv show ?thesis by simp
qed

lemma queued_of_queue:
  assumes "lifecycle_inv s" and "q \<in> set (node_queue s n)"
  shows "dget (queued s) (qd_identity q) = Some q" and "qd_selected_node_id q = n"
proof -
  from assms have q: "q \<in> set (dvals (queued s))" "qd_selected_node_id q = n"
    by (auto simp: lifecycle_inv_def inv_queue_def)
  then obtain i where "(i, q) \<in> set (queued s)" by auto
  with assms(1) have "dget (queued s) i = Some q"
    by (simp add: lifecycle_inv_def inv_wf_def map_of_is_SomeI)
  with assms(1) show "dget (queued s) (qd_identity q) = Some q"
    by (auto simp: lifecycle_inv_def inv_keys_def)
  show "qd_selected_node_id q = n" by (rule q(2))
qed

definition lifecycle_ok :: "env \<Rightarrow> config \<Rightarrow> store \<Rightarrow> bool" where
  "lifecycle_ok E cfg s \<longleftrightarrow> env_ok E cfg \<and> lifecycle_inv s"

interpretation lifecycle: store_machine "lifecycle_ok E cfg" "\<lambda>_ _. True" E cfg now for E cfg now
proof (unfold_locales, goal_cases)
  case (3 s)
  then show ?case by (simp add: lifecycle_ok_def lifecycle_inv_def inv_wf_def inv_live_def)
next
  case (4 s i)
  then show ?case by (intro terminal_not_live) (simp_all add: lifecycle_ok_def lifecycle_inv_def)
next
  case (14 s q c i)
  then have q: "dget (queued s) i = Some q" "cl_selected_node_id c = qd_selected_node_id q"
    using queued_of_queue [of s q] by (simp_all add: lifecycle_ok_def)
  with 14 show ?case using new_claim_lifecycle [OF _ q] by (simp add: lifecycle_ok_def)
next
  case (18 s i q c rp t)
  then show ?case
    using response_stored_lifecycle [of s i q rp t] env_ok_replay [of E cfg now]
    by (simp add: lifecycle_ok_def)
next
  case (19 s i t ready)
  then show ?case using acknowledged_lifecycle [of s i t ready] by (auto simp: lifecycle_ok_def settle_def)
qed (simp_all add: lifecycle_ok_def frame_simps reap_retained_lifecycle closed_store_lifecycle
    discard_stale_lifecycle retire_lifecycle transition_close_lifecycle drop_reservation_lifecycle
    reserve_on_lifecycle enqueue_on_lifecycle bump_generation_lifecycle renew_claim_lifecycle
    ack_tombstone_lifecycle store_registration_lifecycle)

lemma init_lifecycle: "init_store key = Inr s \<Longrightarrow> lifecycle_inv s"
  by (auto simp: init_store_def lifecycle_inv_def inv_defs view_defs dkeys_def split: option.splits if_splits)

lemma perform_lifecycle: "env_ok E cfg \<Longrightarrow> lifecycle_inv s \<Longrightarrow> lifecycle_inv (perform E cfg clock c s)"
proof -
  assume "env_ok E cfg" "lifecycle_inv s"
  then have "lifecycle_ok E cfg s" by (simp add: lifecycle_ok_def)
  moreover obtain now where "\<forall>n. now_of E clock = Inr n \<longrightarrow> n = now" by (cases "now_of E clock") auto
  ultimately show ?thesis using lifecycle.perform_law [of E clock now cfg s c]
    by (simp add: lifecycle_ok_def)
qed

lemma reachable_lifecycle:
  assumes "reachable E cfg s" and "env_ok E cfg"
  shows "lifecycle_inv s"
  using assms by (induction rule: reachable.induct) (auto intro: init_lifecycle perform_lifecycle)

lemma mk_config_env_ok:
  assumes "mk_config E kw = Inr cfg" and "fl_add_mono E"
  shows "env_ok E cfg"
  using mk_config_Inr [OF assms(1)] post_init_bounds(2,3) [of E kw] assms(2)
  by (simp add: env_ok_def typed_config_def)

end
