(* ===== verification/Store_Progress.thy ===== *)
theory Store_Progress
  imports Store_Invariants
begin

text \<open>
  What no call can undo: a terminal record keeps its outcome until its retention ends, a
  claim generation is never given out twice, and the counters only grow.
\<close>

section \<open>The relation\<close>

definition retrieval_progress :: "string \<Rightarrow> string \<Rightarrow> bool" where
  "retrieval_progress a b \<longleftrightarrow> a = b \<or>
     a = ''response_ready'' \<and> b \<in> {''acknowledged'', ''retrieval_expired''}"

text \<open>The same record, but for an offer that was taken up or ran out.\<close>

definition same_outcome :: "terminal_record \<Rightarrow> terminal_record \<Rightarrow> bool" where
  "same_outcome t u \<longleftrightarrow> u = t\<lparr>tm_retrieval_state := tm_retrieval_state u\<rparr>
     \<and> retrieval_progress (tm_retrieval_state t) (tm_retrieval_state u)"

definition terminals_kept :: "rat \<Rightarrow> store \<Rightarrow> store \<Rightarrow> bool" where
  "terminals_kept now s t \<longleftrightarrow>
     (\<forall>i u. dget (terminals s) i = Some u \<longrightarrow> Fin now < tm_expires_at_epoch u \<longrightarrow>
        (\<exists>v. dget (terminals t) i = Some v \<and> same_outcome u v))"

definition same_claim :: "claim_record \<Rightarrow> claim_record \<Rightarrow> bool" where
  "same_claim c d \<longleftrightarrow> d = c\<lparr>cl_lease_expires_at_epoch := cl_lease_expires_at_epoch d\<rparr>"

definition claims_fenced :: "store \<Rightarrow> store \<Rightarrow> bool" where
  "claims_fenced s t \<longleftrightarrow>
     (\<forall>i d. dget (claims t) i = Some d \<longrightarrow>
        (\<exists>c. dget (claims s) i = Some c \<and> same_claim c d) \<or> next_claim_generation s < cl_generation d)"

definition counters_grow :: "store \<Rightarrow> store \<Rightarrow> bool" where
  "counters_grow s t \<longleftrightarrow> next_claim_generation s \<le> next_claim_generation t
     \<and> next_queue_sequence s \<le> next_queue_sequence t
     \<and> next_registration_order s \<le> next_registration_order t
     \<and> acknowledgement_key t = acknowledgement_key s"

definition progresses :: "rat \<Rightarrow> store \<Rightarrow> store \<Rightarrow> bool" where
  "progresses now s t \<longleftrightarrow> terminals_kept now s t \<and> claims_fenced s t \<and> counters_grow s t"

lemma same_outcome_refl [simp]: "same_outcome t t"
  by (simp add: same_outcome_def retrieval_progress_def)

lemma same_outcome_iff:
  "same_outcome t u \<longleftrightarrow>
     (\<exists>st. u = t\<lparr>tm_retrieval_state := st\<rparr> \<and> retrieval_progress (tm_retrieval_state t) st)"
  by (auto simp: same_outcome_def)

lemma same_outcome_expires: "same_outcome t u \<Longrightarrow> tm_expires_at_epoch u = tm_expires_at_epoch t"
  by (auto simp: same_outcome_iff)

lemma retrieval_progress_trans:
  "retrieval_progress a b \<Longrightarrow> retrieval_progress b c \<Longrightarrow> retrieval_progress a c"
  by (auto simp: retrieval_progress_def)

lemma same_outcome_trans: "same_outcome t u \<Longrightarrow> same_outcome u v \<Longrightarrow> same_outcome t v"
  unfolding same_outcome_iff using retrieval_progress_trans by fastforce

lemma same_outcome_state:
  "retrieval_progress (tm_retrieval_state t) st \<Longrightarrow> same_outcome t (t\<lparr>tm_retrieval_state := st\<rparr>)"
  by (simp add: same_outcome_def)

lemma same_claim_refl [simp]: "same_claim c c"
  by (simp add: same_claim_def)

lemma same_claim_iff: "same_claim c d \<longleftrightarrow> (\<exists>l. d = c\<lparr>cl_lease_expires_at_epoch := l\<rparr>)"
  by (auto simp: same_claim_def)

lemma same_claim_trans: "same_claim c d \<Longrightarrow> same_claim d e \<Longrightarrow> same_claim c e"
  by (auto simp: same_claim_iff)

lemma same_claim_generation: "same_claim c d \<Longrightarrow> cl_generation d = cl_generation c"
  by (auto simp: same_claim_iff)

lemma terminals_kept_trans:
  assumes "terminals_kept now s t" and "terminals_kept now t u"
  shows "terminals_kept now s u"
  unfolding terminals_kept_def
proof (intro allI impI)
  fix i a assume a: "dget (terminals s) i = Some a" "Fin now < tm_expires_at_epoch a"
  with assms(1) obtain b where b: "dget (terminals t) i = Some b" "same_outcome a b"
    unfolding terminals_kept_def by blast
  with a(2) have "Fin now < tm_expires_at_epoch b" by (simp add: same_outcome_expires)
  with assms(2) b(1) obtain c where "dget (terminals u) i = Some c" "same_outcome b c"
    unfolding terminals_kept_def by blast
  with b(2) show "\<exists>v. dget (terminals u) i = Some v \<and> same_outcome a v"
    using same_outcome_trans by blast
qed

lemma claims_fenced_trans:
  assumes "claims_fenced s t" and "counters_grow s t" and "claims_fenced t u"
  shows "claims_fenced s u"
  unfolding claims_fenced_def
proof (intro allI impI)
  fix i e assume "dget (claims u) i = Some e"
  with assms(3) consider d where "dget (claims t) i = Some d" "same_claim d e"
    | "next_claim_generation t < cl_generation e" unfolding claims_fenced_def by blast
  then show "(\<exists>c. dget (claims s) i = Some c \<and> same_claim c e) \<or> next_claim_generation s < cl_generation e"
  proof cases
    case 1
    from assms(1) 1(1) consider c where "dget (claims s) i = Some c" "same_claim c d"
      | "next_claim_generation s < cl_generation d" unfolding claims_fenced_def by blast
    then show ?thesis
      using same_claim_trans [OF _ 1(2)] same_claim_generation [OF 1(2)] by cases auto
  next
    case 2
    with assms(2) show ?thesis by (simp add: counters_grow_def)
  qed
qed

lemma progresses_trans: "progresses now s t \<Longrightarrow> progresses now t u \<Longrightarrow> progresses now s u"
  unfolding progresses_def
  by (auto intro: terminals_kept_trans claims_fenced_trans simp: counters_grow_def)

section \<open>The cases\<close>

text \<open>A step that leaves terminals and claims alone, or only takes claims away.\<close>

lemma terminals_kept_same: "terminals t = terminals s \<Longrightarrow> terminals_kept now s t"
  by (simp add: terminals_kept_def)

lemma terminals_kept_new:
  "terminals t = dset i x (terminals s) \<Longrightarrow> dget (terminals s) i = None \<Longrightarrow> terminals_kept now s t"
  by (auto simp: terminals_kept_def dget_dset)

lemma claims_fenced_same: "claims t = claims s \<Longrightarrow> claims_fenced s t"
  using same_claim_refl by (auto simp: claims_fenced_def)

lemma claims_fenced_ddel: "claims t = ddel i (claims s) \<Longrightarrow> claims_fenced s t"
  by (auto simp: claims_fenced_def dget_ddel split: if_splits)

lemma counters_same:
  "next_claim_generation t = next_claim_generation s \<Longrightarrow> next_queue_sequence t = next_queue_sequence s \<Longrightarrow>
   next_registration_order t = next_registration_order s \<Longrightarrow> acknowledgement_key t = acknowledgement_key s \<Longrightarrow>
   counters_grow s t"
  by (simp add: counters_grow_def)

lemma key_frames [frame_simps]:
  "acknowledgement_key (reap_retained now s) = acknowledgement_key s"
  "acknowledgement_key (remove_queued_identity i q s) = acknowledgement_key s"
  "acknowledgement_key (drop_lifecycle i w s) = acknowledgement_key s"
  "acknowledgement_key (closed_store E cfg i w status reason now force s) = acknowledgement_key s"
  by (simp_all add: reap_retained_def remove_queued_identity_def discard_node_work_identity_def
      drop_lifecycle_def closed_store_def Let_def split: prod.split option.split)

lemma closed_store_claims [frame_simps]:
  assumes "lifecycle_inv s" and "work_of s i = Some w"
  shows "claims (closed_store E cfg i w status reason now force s) = ddel i (claims s)"
  using closed_store_removed [OF assms] by (simp add: removed_def)

lemma reap_progresses: "lifecycle_inv s \<Longrightarrow> progresses now s (reap_retained now s)"
proof -
  assume "lifecycle_inv s"
  then have wf: "inv_wf s" by (simp add: lifecycle_inv_def)
  have "same_outcome u (offered_expired u)" for u
    by (simp add: offered_expired_def same_outcome_def retrieval_progress_def)
  then have "terminals_kept now s (reap_retained now s)"
    unfolding terminals_kept_def reap_terminals_get [OF wf] by (auto simp: reaped_terminal_def)
  then show ?thesis
    by (simp add: progresses_def claims_fenced_same counters_same frame_simps)
qed

lemma claim_fenced_new:
  assumes "claims t = dset i c (claims s)" and "next_claim_generation s < cl_generation c"
  shows "claims_fenced s t"
  using assms same_claim_refl unfolding claims_fenced_def by (auto simp: dget_dset split: if_splits)

lemma claim_fenced_renewed:
  assumes "claims t = dset i (c\<lparr>cl_lease_expires_at_epoch := lease\<rparr>) (claims s)" and "dget (claims s) i = Some c"
  shows "claims_fenced s t"
  using assms same_claim_refl unfolding claims_fenced_def by (auto simp: dget_dset same_claim_def split: if_splits)

lemma settle_progresses:
  assumes "dget (terminals s) i = Some t" and "tm_retrieval_state t = ''response_ready''"
    and "st \<in> {''acknowledged'', ''retrieval_expired''}"
  shows "progresses now s (settle i t st s)"
proof -
  have "same_outcome t (t\<lparr>tm_retrieval_state := st\<rparr>)"
    using assms by (intro same_outcome_state) (simp add: retrieval_progress_def)
  with assms(1) have "terminals_kept now s (settle i t st s)"
    by (simp add: terminals_kept_def settle_def dget_dset)
  then show ?thesis by (simp add: progresses_def claims_fenced_same counters_same settle_def)
qed

lemmas progress_rules = terminals_kept_same claims_fenced_same counters_same

interpretation progress: store_machine "lifecycle_ok E cfg" "progresses now" E cfg now for E cfg now
proof (unfold_locales, goal_cases)
  case (1 s)
  then show ?case by (simp add: progresses_def progress_rules)
next
  case (2 s t u)
  then show ?case by (rule progresses_trans)
next
  case (3 s)
  then show ?case by (rule lifecycle.live_wf)
next
  case (4 s i)
  then show ?case by (rule lifecycle.terminal_dead)
next
  case (5 s)
  with lifecycle.reap_law [OF 5] show ?case by (simp add: lifecycle_ok_def reap_progresses)
next
  case (6 s i w status force reason)
  with lifecycle.close_law [OF 6] show ?case
    by (simp add: progresses_def lifecycle_ok_def terminals_kept_new [OF closed_store_terminals(1)]
        claims_fenced_ddel [OF closed_store_claims] counters_same frame_simps)
next
  case (7 s i)
  with lifecycle.defer_law [OF 7] show ?case by (simp add: progresses_def progress_rules)
next
  case (8 s i n)
  with lifecycle.discard_law [OF 8] show ?case
    by (simp add: progresses_def progress_rules discard_node_work_identity_def)
next
  case (9 s n g cause)
  with lifecycle.retire_law [OF 9] show ?case
    by (simp add: progresses_def progress_rules retire_node_def Let_def)
next
  case (10 s n p)
  with lifecycle.finish_law [OF 10] show ?case
    by (auto simp: progresses_def transition_close_def Let_def split: option.split intro: progress_rules)
next
  case (11 s i r)
  with lifecycle.drop_law [OF 11] show ?case
    by (simp add: progresses_def progress_rules drop_reservation_def discard_node_work_identity_def)
next
  case (12 s i r g st ev cancel)
  with lifecycle.reserve_law [OF 12] show ?case
    by (simp add: progresses_def progress_rules reserve_on_def Let_def)
next
  case (13 s i r q tok can)
  with lifecycle.enqueue_law [OF 13] show ?case
    by (simp add: progresses_def progress_rules counters_grow_def enqueue_on_def Let_def)
next
  case (14 s q c i)
  with lifecycle.claim_law [OF 14] claim_fenced_new [of _ i c s] show ?case
    by (simp add: progresses_def progress_rules counters_grow_def)
next
  case (15 s)
  with lifecycle.generation_law [OF 15] show ?case
    by (simp add: progresses_def progress_rules counters_grow_def)
next
  case 16
  with lifecycle.renew_law [OF 16] claim_fenced_renewed [OF _ 16(2)] show ?case
    by (simp add: progresses_def progress_rules)
next
  case (17 s i ct)
  with lifecycle.stop_law [OF 17] show ?case by (simp add: progresses_def progress_rules)
next
  case (18 s i q c rp t)
  with lifecycle.respond_law [OF 18] terminals_kept_new [of _ i t s] claims_fenced_ddel [of _ i s]
  show ?case by (simp add: progresses_def counters_same frame_simps)
next
  case (19 s i t ready)
  with lifecycle.retrieve_law [OF 19] settle_progresses [of s i t ready now] show ?case by simp
next
  case (20 s n reg)
  with lifecycle.register_law [OF 20] show ?case
    by (simp add: progresses_def progress_rules counters_grow_def store_registration_def Let_def)
next
  case (21 s n reg0 reg)
  with lifecycle.update_law [OF 21] show ?case
    by (simp add: progresses_def progress_rules store_registration_def Let_def)
next
  case (22 s n reg0 st)
  with lifecycle.scheduler_law [OF 22] show ?case by (simp add: progresses_def progress_rules)
qed

end
