(* ===== verification/Store_Capacity.thy ===== *)
theory Store_Capacity
  imports Store_Invariants
begin

text \<open>
  The configured bounds hold in every reachable state: of live work, of outcomes and of
  the node registry, in total and per client or node.
\<close>

section \<open>Bounded dictionaries\<close>

text \<open>At most \<open>total\<close> entries, and at most \<open>each\<close> with the same key \<open>f\<close>.\<close>

definition bounded :: "('k, 'v) dict \<Rightarrow> nat \<Rightarrow> ('v \<Rightarrow> 'g) \<Rightarrow> nat \<Rightarrow> bool" where
  "bounded d tot f each \<longleftrightarrow> length d \<le> tot \<and> (\<forall>g. count_vals (\<lambda>v. f v = g) d \<le> each)"

lemma bounded_Nil [simp]: "bounded [] tot f each"
  by (simp add: bounded_def count_vals_def)

lemma bounded_ddel: "bounded d tot f each \<Longrightarrow> bounded (ddel k d) tot f each"
  unfolding bounded_def by (auto intro: le_trans [OF length_ddel_le] le_trans [OF count_ddel_le])

lemma bounded_dprune: "bounded d tot f each \<Longrightarrow> bounded (dprune p d) tot f each"
  unfolding bounded_def by (auto intro: le_trans [OF length_dprune_le] le_trans [OF count_dprune_le])

lemma bounded_dset_new:
  "bounded d tot f each \<Longrightarrow> dget d k = None \<Longrightarrow> length d < tot \<Longrightarrow>
   count_vals (\<lambda>w. f w = f v) d < each \<Longrightarrow> bounded (dset k v d) tot f each"
  by (auto simp: bounded_def dkeys_None count_dset_new length_dset)

lemma vals_dset_same:
  "dget d k = Some v \<Longrightarrow> f w = f v \<Longrightarrow> map f (dvals (dset k w d)) = map f (dvals d)"
  by (induction d) auto

lemma count_vals_map: "count_vals (\<lambda>v. f v = g) d = length (filter (\<lambda>x. x = g) (map f (dvals d)))"
  by (simp add: count_vals_def filter_map comp_def)

lemma bounded_cong:
  "map f (dvals d) = map f (dvals e) \<Longrightarrow> bounded d tot f each = bounded e tot f each"
  unfolding bounded_def count_vals_map by (metis length_map)

lemma bounded_dset_same:
  "dget d k = Some v \<Longrightarrow> f w = f v \<Longrightarrow> bounded d tot f each \<Longrightarrow> bounded (dset k w d) tot f each"
  using vals_dset_same [of d k v f w] bounded_cong by blast

section \<open>Live work\<close>

definition cap_live :: "config \<Rightarrow> store \<Rightarrow> bool" where
  "cap_live cfg s \<longleftrightarrow>
     bounded (reservations s) (max_reservations cfg) res_selected_node_id (max_reservations_per_node cfg)
     \<and> bounded (queued s) (max_queued_requests cfg) qd_client_identity_digest
         (max_queued_requests_per_client cfg)
     \<and> length (reservations s) + length (queued s) \<le> max_request_lifecycles cfg
     \<and> (\<forall>c. count_vals (\<lambda>r. res_client_identity_digest r = c) (reservations s)
            + count_vals (\<lambda>q. qd_client_identity_digest q = c) (queued s)
            \<le> max_reservations_per_client cfg)
     \<and> (\<forall>n. count_vals (\<lambda>r. res_selected_node_id r = n) (reservations s)
            + count_vals (\<lambda>q. qd_selected_node_id q = n) (queued s) \<le> max_queue_depth_per_node cfg)"

lemma cap_live_cong:
  "reservations t = reservations s \<Longrightarrow> queued t = queued s \<Longrightarrow> cap_live cfg t = cap_live cfg s"
  by (simp add: cap_live_def)

lemma cap_live_removed:
  assumes "cap_live cfg s" and "reservations t = ddel i (reservations s)" and "queued t = ddel i (queued s)"
  shows "cap_live cfg t"
proof -
  have c: "count_vals p (ddel i (reservations s)) + count_vals q (ddel i (queued s))
      \<le> count_vals p (reservations s) + count_vals q (queued s)" for p q
    by (intro add_mono count_ddel_le)
  have l: "length (ddel i (reservations s)) + length (ddel i (queued s))
      \<le> length (reservations s) + length (queued s)"
    by (intro add_mono length_ddel_le)
  from assms(1) show ?thesis
    unfolding cap_live_def assms(2,3) by (auto intro: bounded_ddel le_trans [OF c] le_trans [OF l])
qed

lemma node_queue_count:
  "lifecycle_inv s \<Longrightarrow> length (node_queue s n) = count_vals (\<lambda>q. qd_selected_node_id q = n) (queued s)"
  by (simp add: lifecycle_inv_def inv_queue_def count_vals_def)

lemma cap_live_reserve:
  assumes cap: "cap_live cfg s" and inv: "lifecycle_inv s" and free: "dget (reservations s) i = None"
    and l: "length (reservations s) < max_reservations cfg"
      "length (reservations s) + length (queued s) < max_request_lifecycles cfg"
      "count_vals (\<lambda>q. res_client_identity_digest q = res_client_identity_digest r) (reservations s)
        + count_vals (\<lambda>q. qd_client_identity_digest q = res_client_identity_digest r) (queued s)
        < max_reservations_per_client cfg"
    and room: "node_has_room cfg s (res_selected_node_id r) caps st"
    and t: "reservations t = dset i r (reservations s)" "queued t = queued s"
  shows "cap_live cfg t"
proof -
  let ?n = "res_selected_node_id r"
  have nk: "i \<notin> dkeys (reservations s)" using free by (simp add: dkeys_None)
  from room have n: "count_vals (\<lambda>r. res_selected_node_id r = ?n) (reservations s) < max_reservations_per_node cfg"
      "count_vals (\<lambda>r. res_selected_node_id r = ?n) (reservations s)
        + count_vals (\<lambda>q. qd_selected_node_id q = ?n) (queued s) < max_queue_depth_per_node cfg"
    by (auto simp: node_has_room_def Let_def node_queue_count [OF inv])
  have b: "bounded (dset i r (reservations s)) (max_reservations cfg) res_selected_node_id
      (max_reservations_per_node cfg)"
    using cap free l(1) n(1) unfolding cap_live_def by (intro bounded_dset_new) auto
  show ?thesis
    using cap b l n unfolding cap_live_def t
    by (simp add: count_dset_new [OF nk] length_dset nk)
qed

lemma count_ddel_mem:
  assumes "wf_dict d" and "dget d k = Some v"
  shows "count_vals p d = count_vals p (ddel k d) + (if p v then 1 else 0)"
  using assms
proof (induction d)
  case (Cons x d)
  obtain j w where x: "x = (j, w)" by (cases x)
  show ?case
  proof (cases "j = k")
    case True
    with Cons.prems x have "k \<notin> dkeys d" "w = v" by (auto simp: dkeys_def)
    then have "ddel k d = d" by (intro ddel_notin)
    with True x \<open>w = v\<close> show ?thesis by (simp add: count_vals_def)
  next
    case False
    with Cons x show ?thesis by (simp add: count_vals_def)
  qed
qed simp

lemma cap_live_enqueue:
  assumes cap: "cap_live cfg s" and inv: "lifecycle_inv s" and r: "dget (reservations s) i = Some r"
    and q: "qd_client_identity_digest q = res_client_identity_digest r"
      "qd_selected_node_id q = res_selected_node_id r"
    and l: "length (queued s) < max_queued_requests cfg"
      "count_vals (\<lambda>p. qd_client_identity_digest p = qd_client_identity_digest q) (queued s)
        < max_queued_requests_per_client cfg"
    and t: "reservations t = ddel i (reservations s)" "queued t = dset i q (queued s)"
  shows "cap_live cfg t"
proof -
  have wf: "wf_dict (reservations s)" using inv by (simp add: lifecycle_inv_def inv_wf_def)
  have ik: "i \<in> dkeys (reservations s)" using r by (rule dget_in_keys)
  with inv have nk: "i \<notin> dkeys (queued s)" unfolding lifecycle_inv_def inv_live_def by blast
  have "bounded (dset i q (queued s)) (max_queued_requests cfg) qd_client_identity_digest
      (max_queued_requests_per_client cfg)"
    using cap nk l unfolding cap_live_def by (intro bounded_dset_new) (auto simp: dkeys_None)
  moreover have "0 < length (reservations s)" using ik by (cases "reservations s") auto
  then have "length (ddel i (reservations s)) + length (dset i q (queued s))
      = length (reservations s) + length (queued s)"
    using length_ddel_mem [OF wf ik] nk by (simp add: length_dset)
  moreover have "count_vals (\<lambda>r. res_client_identity_digest r = c) (ddel i (reservations s))
        + count_vals (\<lambda>q. qd_client_identity_digest q = c) (dset i q (queued s))
      = count_vals (\<lambda>r. res_client_identity_digest r = c) (reservations s)
        + count_vals (\<lambda>q. qd_client_identity_digest q = c) (queued s)" for c
    by (simp add: count_dset_new [OF nk] q count_ddel_mem [OF wf r])
  moreover have "count_vals (\<lambda>r. res_selected_node_id r = n) (ddel i (reservations s))
        + count_vals (\<lambda>q. qd_selected_node_id q = n) (dset i q (queued s))
      = count_vals (\<lambda>r. res_selected_node_id r = n) (reservations s)
        + count_vals (\<lambda>q. qd_selected_node_id q = n) (queued s)" for n
    by (simp add: count_dset_new [OF nk] q count_ddel_mem [OF wf r])
  ultimately show ?thesis
    using cap unfolding cap_live_def t by (simp add: bounded_ddel)
qed

section \<open>Outcomes\<close>

definition cap_outcomes :: "config \<Rightarrow> store \<Rightarrow> bool" where
  "cap_outcomes cfg s \<longleftrightarrow>
     bounded (responses s) (max_responses cfg) rs_client_identity_digest (max_responses_per_client cfg)
     \<and> bounded (terminals s) (max_terminal_records cfg) tm_client_identity_digest
         (max_terminal_records_per_client cfg)
     \<and> bounded (control_tombstones s) (max_control_tombstones cfg) ct_selected_node_id
         (max_control_tombstones_per_node cfg)"

lemma cap_outcomes_cong:
  "responses t = responses s \<Longrightarrow> terminals t = terminals s \<Longrightarrow>
   control_tombstones t = control_tombstones s \<Longrightarrow> cap_outcomes cfg t = cap_outcomes cfg s"
  by (simp add: cap_outcomes_def)

lemma mark_vals:
  "map tm_client_identity_digest (dvals (mark_retrieval_expired i ts)) = map tm_client_identity_digest (dvals ts)"
  using vals_dset_same [of ts i _ tm_client_identity_digest]
  by (auto simp: mark_retrieval_expired_def split: option.split)

lemma expire_responses_bounded:
  "expire_responses now xs (rs, ts) = (rs', ts') \<Longrightarrow> bounded rs tot f each \<Longrightarrow>
     bounded rs' tot f each
     \<and> map tm_client_identity_digest (dvals ts') = map tm_client_identity_digest (dvals ts)"
proof (induction xs arbitrary: rs ts)
  case (Cons x xs)
  obtain j r where x: "x = (j, r)" by (cases x)
  show ?case
  proof (cases "rs_replay_expires_at_epoch r \<le> Fin now")
    case True
    with Cons.prems x
    have "expire_responses now xs (ddel j rs, mark_retrieval_expired j ts) = (rs', ts')" by simp
    from Cons.IH [OF this bounded_ddel [OF Cons.prems(2)]] mark_vals [of j ts] show ?thesis by simp
  next
    case False
    with Cons x show ?thesis by simp
  qed
qed simp

lemma cap_outcomes_reap: "cap_outcomes cfg s \<Longrightarrow> cap_outcomes cfg (reap_retained now s)"
proof -
  assume cap: "cap_outcomes cfg s"
  obtain rs ts where e: "expire_responses now (responses s) (responses s, terminals s) = (rs, ts)"
    by fastforce
  have "bounded rs (max_responses cfg) rs_client_identity_digest (max_responses_per_client cfg)"
    and "map tm_client_identity_digest (dvals ts) = map tm_client_identity_digest (dvals (terminals s))"
    using expire_responses_bounded [OF e] cap by (auto simp: cap_outcomes_def)
  with cap show ?thesis
    using bounded_cong [of tm_client_identity_digest ts "terminals s"]
    by (simp add: cap_outcomes_def reap_retained_def e bounded_dprune)
qed

lemma tombstone_claim_node: "tombstone_claim s i w status now force = Some c \<Longrightarrow> dget (claims s) i = Some c"
  by (auto simp: tombstone_claim_def split: option.splits if_splits)

lemma cap_outcomes_close:
  assumes cap: "cap_outcomes cfg s" and inv: "lifecycle_inv s" and free: "dget (terminals s) i = None"
    and room: "\<not> no_room cfg i w status now force s"
  shows "cap_outcomes cfg (closed_store E cfg i w status reason now force s)"
proof -
  let ?t = "closed_store E cfg i w status reason now force s"
  have nc: "dget (control_tombstones s) i = None"
    using inv free no_tombstone by (simp add: lifecycle_inv_def)
  have "bounded (terminals ?t) (max_terminal_records cfg) tm_client_identity_digest
      (max_terminal_records_per_client cfg)"
    using cap free room unfolding cap_outcomes_def closed_store_terminals
    by (intro bounded_dset_new) (auto simp: no_room_def terminal_full_def)
  moreover have "bounded (control_tombstones ?t) (max_control_tombstones cfg) ct_selected_node_id
      (max_control_tombstones_per_node cfg)"
  proof (cases "tombstone_claim s i w status now force")
    case None
    with cap show ?thesis by (simp add: cap_outcomes_def closed_store_terminals)
  next
    case (Some c)
    with room have "\<not> tombstone_full cfg s c" by (auto simp: no_room_def)
    with cap nc Some show ?thesis unfolding cap_outcomes_def closed_store_terminals
      by (auto intro!: bounded_dset_new simp: tombstone_full_def closing_tombstone_def)
  qed
  ultimately show ?thesis using cap by (simp add: cap_outcomes_def closed_store_terminals(2))
qed

section \<open>The node registry\<close>

definition cap_nodes :: "config \<Rightarrow> store \<Rightarrow> bool" where
  "cap_nodes cfg s \<longleftrightarrow> length (records s) \<le> max_compute_nodes cfg
     \<and> length (pending_node_transitions s) \<le> max_pending_node_transitions cfg
     \<and> length (node_tombstones s) \<le> max_node_tombstones cfg
     \<and> fence_count s \<le> max_removed_owner_fences cfg
     \<and> length (fairness_cursors s) \<le> max_scheduler_fingerprints cfg"

lemma cap_nodes_cong:
  "records t = records s \<Longrightarrow> pending_node_transitions t = pending_node_transitions s \<Longrightarrow>
   node_tombstones t = node_tombstones s \<Longrightarrow> former_node_authorities t = former_node_authorities s \<Longrightarrow>
   fairness_cursors t = fairness_cursors s \<Longrightarrow> cap_nodes cfg t = cap_nodes cfg s"
  by (simp add: cap_nodes_def fence_count_def)

definition fences_total :: "(string, (string, former_authority) dict) dict \<Rightarrow> nat" where
  "fences_total fs = sum_list (map length (dvals fs))"

lemma fence_count_total: "fence_count s = fences_total (former_node_authorities s)"
  by (simp add: fence_count_def fences_total_def)

lemma fences_dset:
  "fences_total (dset nd x fs) + length (case dget fs nd of Some d \<Rightarrow> d | None \<Rightarrow> [])
     = fences_total fs + length x"
  by (induction fs) (auto simp: fences_total_def split: option.splits)

lemma fences_dset_same:
  "length x = length (fence_of s nd) \<Longrightarrow>
   fences_total (dset nd x (former_node_authorities s)) = fences_total (former_node_authorities s)"
  using fences_dset [of nd x "former_node_authorities s"] by (simp add: fence_of_def)

lemma fences_prune: "fences_total (prune_authorities now pend fs) \<le> fences_total fs"
proof (induction fs)
  case (Cons x fs)
  obtain nd auths where x: "x = (nd, auths)" by (cases x)
  let ?kept = "filter (\<lambda>(owner, a). \<not> (fa_expires_at_epoch a \<le> Fin now \<and> dget pend nd \<noteq> Some owner)) auths"
  have "fences_total (prune_authorities now pend (x # fs))
      = length ?kept + fences_total (prune_authorities now pend fs)"
    by (simp add: x prune_authorities_def fences_total_def)
  moreover have "fences_total (x # fs) = length auths + fences_total fs" by (simp add: x fences_total_def)
  ultimately show ?case using Cons length_filter_le [of _ auths] by (simp only: add_mono)
qed (simp add: prune_authorities_def)

lemma cap_nodes_reap: "cap_nodes cfg s \<Longrightarrow> cap_nodes cfg (reap_retained now s)"
proof -
  assume cap: "cap_nodes cfg s"
  have "length (node_tombstones (reap_retained now s)) \<le> length (node_tombstones s)"
    by (simp add: reap_retained_def length_dprune_le split: prod.split)
  moreover have "fence_count (reap_retained now s) \<le> fence_count s"
    by (simp add: fence_count_total reap_retained_def fences_prune split: prod.split)
  ultimately show ?thesis using cap by (simp add: cap_nodes_def frame_simps)
qed

lemma cap_nodes_retire:
  assumes cap: "cap_nodes cfg s"
    and p: "length (pending_node_transitions s) < max_pending_node_transitions cfg"
    and f: "dmem (reg_control_credential_digest g) (fence_of s (node_digest E n))
        \<or> fence_count s < max_removed_owner_fences cfg"
    and t: "dmem (node_digest E n) (node_tombstones s)
        \<or> length (node_tombstones s) < max_node_tombstones cfg"
  shows "cap_nodes cfg (retire_node E cfg n g cause now s)"
proof -
  let ?t = "retire_node E cfg n g cause now s"
  have "length (records ?t) \<le> length (records s)"
    by (simp add: retire_node_def Let_def length_ddel_le)
  moreover have "length (fairness_cursors ?t) \<le> length (fairness_cursors s)"
    by (simp add: retire_node_def Let_def)
  moreover have "length (pending_node_transitions ?t) \<le> max_pending_node_transitions cfg"
    using p by (simp add: retire_node_def Let_def length_dset)
  moreover have "length (node_tombstones ?t) \<le> max_node_tombstones cfg"
    using t cap by (auto simp: retire_node_def Let_def length_dset dmem_iff cap_nodes_def)
  moreover obtain a where "former_node_authorities ?t = dset (node_digest E n)
      (dset (reg_control_credential_digest g) a (fence_of s (node_digest E n))) (former_node_authorities s)"
    by (simp add: retire_node_def Let_def)
  then have "fence_count ?t \<le> max_removed_owner_fences cfg"
    using f cap fences_dset [of "node_digest E n" "dset (reg_control_credential_digest g) a
      (fence_of s (node_digest E n))" "former_node_authorities s"]
    by (auto simp: fence_count_total fence_of_def [symmetric] length_dset dmem_iff cap_nodes_def split: if_splits)
  ultimately show ?thesis using cap by (simp add: cap_nodes_def)
qed

lemma cap_nodes_finish:
  assumes cap: "cap_nodes cfg s" and p: "dget (pending_node_transitions s) n = Some p"
  shows "cap_nodes cfg (snd (transition_close E cfg n p now s))"
proof -
  let ?t = "snd (transition_close E cfg n p now s)"
  have n: "n \<in> dkeys (pending_node_transitions s)" using p by (rule dget_in_keys)
  have "records ?t = records s" "fairness_cursors ?t = fairness_cursors s"
    by (auto simp: transition_close_def Let_def split: option.split)
  moreover have "length (pending_node_transitions ?t) \<le> length (pending_node_transitions s)"
    using n by (auto simp: transition_close_def Let_def length_dset length_ddel_le split: option.split)
  moreover have "length (node_tombstones ?t) = length (node_tombstones s)"
    by (auto simp: transition_close_def Let_def length_dset dest: dget_in_keys split: option.split)
  moreover have "fence_count ?t = fence_count s"
    by (auto simp: transition_close_def Let_def fence_count_total fences_dset_same length_dset
        dest: dget_in_keys split: option.split)
  ultimately show ?thesis using cap by (simp add: cap_nodes_def)
qed

lemma cap_nodes_reserve:
  assumes cap: "cap_nodes cfg s"
    and ev: "cursor_eviction_candidate E cfg (res_scheduler_fingerprint r) s = Inr ev"
  shows "cap_nodes cfg (reserve_on E i r ev cancel s)"
proof -
  let ?c = "fairness_cursors s"
  let ?fp = "res_scheduler_fingerprint r"
  have "length (dset ?fp x (case ev of Some f \<Rightarrow> ddel f ?c | None \<Rightarrow> ?c)) \<le> max_scheduler_fingerprints cfg" for x
  proof (cases ev)
    case None
    with ev cap show ?thesis
      by (auto simp: cursor_eviction_candidate_def Let_def length_dset dmem_iff cap_nodes_def split: if_splits)
  next
    case (Some f)
    let ?idle = "[(snd c, f). (f, c) \<leftarrow> ?c, f \<notin> active_fairness_fingerprints E s]"
    from ev Some have ne: "?idle \<noteq> []" and f: "f = snd (min_list ?idle)"
      by (auto simp: cursor_eviction_candidate_def Let_def split: if_splits)
    from ne have "min_list ?idle \<in> set ?idle" by (simp only: min_list_Min Min_in finite_set set_empty not_False_eq_True)
    with f have "f \<in> dkeys ?c" by (auto simp: dkeys_def image_iff) (metis fst_conv)
    then have "length (ddel f ?c) < length ?c"
      by (auto simp: ddel_filter dkeys_def intro: length_filter_less)
    with cap Some show ?thesis by (simp add: length_dset cap_nodes_def)
  qed
  with cap show ?thesis by (simp add: cap_nodes_def reserve_on_def Let_def fence_count_def)
qed

section \<open>The invariant\<close>

definition capacity_inv :: "config \<Rightarrow> store \<Rightarrow> bool" where
  "capacity_inv cfg s \<longleftrightarrow> cap_live cfg s \<and> cap_outcomes cfg s \<and> cap_nodes cfg s"

definition capacity_ok :: "env \<Rightarrow> config \<Rightarrow> store \<Rightarrow> bool" where
  "capacity_ok E cfg s \<longleftrightarrow> lifecycle_ok E cfg s \<and> capacity_inv cfg s"

lemma capacity_cong:
  "reservations t = reservations s \<Longrightarrow> queued t = queued s \<Longrightarrow> responses t = responses s \<Longrightarrow>
   terminals t = terminals s \<Longrightarrow> control_tombstones t = control_tombstones s \<Longrightarrow> records t = records s \<Longrightarrow>
   pending_node_transitions t = pending_node_transitions s \<Longrightarrow> node_tombstones t = node_tombstones s \<Longrightarrow>
   former_node_authorities t = former_node_authorities s \<Longrightarrow> fairness_cursors t = fairness_cursors s \<Longrightarrow>
   capacity_inv cfg t = capacity_inv cfg s"
  using cap_live_cong cap_outcomes_cong cap_nodes_cong unfolding capacity_inv_def by metis

lemma capacity_frames [frame_simps]:
  "capacity_inv cfg (s\<lparr>deferred_deadline_identities := x\<rparr>) = capacity_inv cfg s"
  "capacity_inv cfg (s\<lparr>claims := y, next_claim_generation := g\<rparr>) = capacity_inv cfg s"
  "capacity_inv cfg (s\<lparr>claims := y\<rparr>) = capacity_inv cfg s"
  "capacity_inv cfg (s\<lparr>next_claim_generation := g\<rparr>) = capacity_inv cfg s"
  "capacity_inv cfg (s\<lparr>scheduler_states := z\<rparr>) = capacity_inv cfg s"
  "capacity_inv cfg (discard_node_work_identity n i s) = capacity_inv cfg s"
  by (rule capacity_cong; simp add: discard_node_work_identity_def)+

lemma capacity_close:
  assumes "capacity_inv cfg s" and "lifecycle_inv s" and "dget (terminals s) i = None"
    and "work_of s i = Some w" and "\<not> no_room cfg i w status now force s"
  shows "capacity_inv cfg (closed_store E cfg i w status reason now force s)"
proof -
  let ?t = "closed_store E cfg i w status reason now force s"
  have "removed i s ?t" using assms(2,4) by (rule closed_store_removed)
  then have "cap_live cfg ?t" using assms(1) cap_live_removed [of cfg s ?t i]
    by (simp add: capacity_inv_def removed_def)
  moreover have "cap_outcomes cfg ?t" using assms by (intro cap_outcomes_close) (simp_all add: capacity_inv_def)
  moreover have "cap_nodes cfg ?t = cap_nodes cfg s"
    by (rule cap_nodes_cong) (simp_all add: frame_simps)
  ultimately show ?thesis using assms(1) by (simp add: capacity_inv_def)
qed

lemma capacity_respond:
  assumes cap: "capacity_inv cfg s" and inv: "lifecycle_inv s" and free: "dget (terminals s) i = None"
    and q: "dget (queued s) i = Some q" and room: "\<not> response_full cfg s (id_client i)"
    and ids: "rs_client_identity_digest rp = id_client i" "tm_client_identity_digest t = id_client i"
  shows "capacity_inv cfg (remove_queued_identity i q (s\<lparr>responses := dset i rp (responses s),
     terminals := dset i t (terminals s)\<rparr>))" (is "capacity_inv cfg ?t")
proof -
  have "i \<notin> dkeys (reservations s)"
    using inv dget_in_keys [OF q] unfolding lifecycle_inv_def inv_live_def by blast
  then have "cap_live cfg ?t" using cap
    by (intro cap_live_removed [of cfg s ?t i]) (simp_all add: capacity_inv_def frame_simps ddel_notin)
  moreover have "dget (responses s) i = None" using inv free no_response by (simp add: lifecycle_inv_def)
  then have "cap_outcomes cfg ?t"
    using cap free room ids unfolding capacity_inv_def cap_outcomes_def
    by (auto simp: frame_simps response_full_def intro!: bounded_dset_new)
  moreover have "cap_nodes cfg ?t = cap_nodes cfg s"
    by (rule cap_nodes_cong) (simp_all add: frame_simps)
  ultimately show ?thesis using cap by (simp add: capacity_inv_def)
qed

lemma capacity_settle:
  assumes "capacity_inv cfg s" and "dget (terminals s) i = Some t"
  shows "capacity_inv cfg (settle i t st s)"
proof -
  have "cap_outcomes cfg (settle i t st s)"
    using assms bounded_dset_same [OF assms(2), of tm_client_identity_digest]
    by (simp add: capacity_inv_def cap_outcomes_def settle_def bounded_ddel)
  moreover have "cap_live cfg (settle i t st s) = cap_live cfg s"
      "cap_nodes cfg (settle i t st s) = cap_nodes cfg s"
    by (rule cap_live_cong cap_nodes_cong; simp add: settle_def)+
  ultimately show ?thesis using assms(1) by (simp add: capacity_inv_def)
qed

interpretation capacity: store_machine "capacity_ok E cfg" "\<lambda>_ _. True" E cfg now for E cfg now
proof (unfold_locales, goal_cases)
  case (1 s)
  then show ?case using lifecycle.live_wf [of E cfg s] by (simp add: capacity_ok_def)
next
  case (2 s i)
  then show ?case using lifecycle.terminal_dead [of E cfg s i] by (simp add: capacity_ok_def)
next
  case (3 s)
  have "cap_live cfg (reap_retained now s) = cap_live cfg s"
    by (rule cap_live_cong) (simp_all add: frame_simps)
  with 3 lifecycle.reap_law [of E cfg s now] show ?case
    by (simp add: capacity_ok_def capacity_inv_def cap_outcomes_reap cap_nodes_reap)
next
  case (4 s i w status force reason)
  with lifecycle.close_law [of E cfg s i w status now force reason] show ?case
    by (auto simp: capacity_ok_def lifecycle_ok_def intro: capacity_close)
next
  case (5 s i)
  with lifecycle.defer_law [of E cfg s i] show ?case by (simp add: capacity_ok_def frame_simps)
next
  case (6 s i n)
  with lifecycle.discard_law [of E cfg s i n] show ?case by (simp add: capacity_ok_def frame_simps)
next
  case (7 s n g cause)
  let ?t = "retire_node E cfg n g cause now s"
  have "cap_live cfg ?t = cap_live cfg s" "cap_outcomes cfg ?t = cap_outcomes cfg s"
    by (rule cap_live_cong cap_outcomes_cong; simp add: retire_node_def Let_def)+
  with 7 lifecycle.retire_law [OF _ 7(2-6)] cap_nodes_retire [OF _ 7(4-6)] show ?case
    by (simp add: capacity_ok_def capacity_inv_def)
next
  case (8 s n p)
  let ?t = "snd (transition_close E cfg n p now s)"
  have "cap_live cfg ?t = cap_live cfg s" "cap_outcomes cfg ?t = cap_outcomes cfg s"
    by (rule cap_live_cong cap_outcomes_cong; auto simp: transition_close_def Let_def split: option.split)+
  with 8 lifecycle.finish_law [of E cfg s n p now] cap_nodes_finish [OF _ 8(2)] show ?case
    by (simp add: capacity_ok_def capacity_inv_def)
next
  case (9 s i r)
  let ?t = "drop_reservation i r s"
  have "dget (queued s) i = None"
    using 9 dget_in_keys [OF 9(2)] lifecycle.live_wf [of E cfg s]
    by (auto simp: capacity_ok_def dkeys_None)
  then have "cap_live cfg ?t" using 9 cap_live_removed [of cfg s ?t i]
    by (simp add: capacity_ok_def capacity_inv_def drop_reservation_def discard_node_work_identity_def ddel_absent)
  moreover have "cap_nodes cfg ?t = cap_nodes cfg s" "cap_outcomes cfg ?t = cap_outcomes cfg s"
    by (rule cap_nodes_cong cap_outcomes_cong;
        simp add: drop_reservation_def discard_node_work_identity_def)+
  ultimately show ?case using 9 lifecycle.drop_law [of E cfg s i r]
    by (simp add: capacity_ok_def capacity_inv_def)
next
  case (10 s i r g st ev cancel)
  let ?t = "reserve_on E i r ev cancel s"
  have "cap_live cfg ?t"
    by (rule cap_live_reserve [of cfg s i r "reg_capabilities g" st])
      (use 10 in \<open>auto simp: capacity_ok_def capacity_inv_def lifecycle_ok_def reserve_on_def Let_def\<close>)
  moreover have "cap_outcomes cfg ?t = cap_outcomes cfg s"
    by (rule cap_outcomes_cong) (simp_all add: reserve_on_def Let_def)
  moreover have "lifecycle_ok E cfg ?t" using lifecycle.reserve_law [OF _ 10(2-11)] 10(1)
    by (simp add: capacity_ok_def)
  ultimately show ?case using 10 cap_nodes_reserve [OF _ 10(11)]
    by (simp add: capacity_ok_def capacity_inv_def)
next
  case (11 s i r q tok can)
  let ?t = "enqueue_on i q tok can s"
  have "Identity (res_client_identity_digest r) (res_request_identity_digest r) = i"
    using 11 by (auto simp: capacity_ok_def lifecycle_ok_def lifecycle_inv_def inv_keys_def)
  with 11(4) have c: "qd_client_identity_digest q = res_client_identity_digest r" "id_client i = qd_client_identity_digest q"
    by (auto simp: qd_identity_def)
  have f: "reservations ?t = ddel i (reservations s)" "queued ?t = dset i q (queued s)"
    by (simp_all add: enqueue_on_def Let_def)
  have "cap_live cfg s" "lifecycle_inv s" using 11(1) by (simp_all add: capacity_ok_def capacity_inv_def lifecycle_ok_def)
  from cap_live_enqueue [OF this 11(3) c(1) 11(5) 11(8) 11(9) [unfolded c(2)] f]
  have "cap_live cfg ?t" .
  moreover have "cap_outcomes cfg ?t = cap_outcomes cfg s" "cap_nodes cfg ?t = cap_nodes cfg s"
    by (rule cap_outcomes_cong cap_nodes_cong; simp add: enqueue_on_def Let_def)+
  moreover have "lifecycle_ok E cfg ?t" using lifecycle.enqueue_law [OF _ 11(2-9)] 11(1)
    by (simp add: capacity_ok_def)
  ultimately show ?case using 11 by (simp add: capacity_ok_def capacity_inv_def)
next
  case (12 s q c i)
  then show ?case using lifecycle.claim_law [OF _ 12(2-11)] by (simp add: capacity_ok_def frame_simps)
next
  case (13 s)
  then show ?case using lifecycle.generation_law [of E cfg s] by (simp add: capacity_ok_def frame_simps)
next
  case 14
  then show ?case using lifecycle.renew_law [OF _ 14(2-4)] by (simp add: capacity_ok_def frame_simps)
next
  case (15 s i ct)
  let ?t = "s\<lparr>control_tombstones := dset i (ct\<lparr>ct_acknowledged := True\<rparr>) (control_tombstones s)\<rparr>"
  have "cap_live cfg ?t = cap_live cfg s" "cap_nodes cfg ?t = cap_nodes cfg s"
    by (rule cap_live_cong cap_nodes_cong; simp)+
  with 15 bounded_dset_same [OF 15(2), of ct_selected_node_id] lifecycle.stop_law [of E cfg s i ct] show ?case
    by (simp add: capacity_ok_def capacity_inv_def cap_outcomes_def)
next
  case (16 s i q c rp t)
  moreover have "capacity_inv cfg (remove_queued_identity i q (s\<lparr>responses := dset i rp (responses s),
     terminals := dset i t (terminals s)\<rparr>))"
    by (rule capacity_respond) (use 16 in \<open>auto simp: capacity_ok_def lifecycle_ok_def\<close>)
  ultimately show ?case using lifecycle.respond_law [OF _ 16(2-13)] by (simp add: capacity_ok_def)
next
  case (17 s i t ready)
  then show ?case using lifecycle.retrieve_law [OF _ 17(2-4)] capacity_settle [OF _ 17(2)]
    by (simp add: capacity_ok_def)
next
  case (18 s n reg)
  let ?t = "store_registration n reg True s"
  have "cap_live cfg ?t = cap_live cfg s" "cap_outcomes cfg ?t = cap_outcomes cfg s"
    by (rule cap_live_cong cap_outcomes_cong; simp add: store_registration_def Let_def)+
  moreover have "cap_nodes cfg ?t"
    using 18 by (simp add: capacity_ok_def capacity_inv_def cap_nodes_def store_registration_def Let_def
        length_dset fence_count_def)
  ultimately show ?case using 18 lifecycle.register_law [OF _ 18(2-6)]
    by (simp add: capacity_ok_def capacity_inv_def)
next
  case (19 s n reg0 reg)
  let ?t = "store_registration n reg False s"
  have "cap_live cfg ?t = cap_live cfg s" "cap_outcomes cfg ?t = cap_outcomes cfg s"
    by (rule cap_live_cong cap_outcomes_cong; simp add: store_registration_def Let_def)+
  moreover have "cap_nodes cfg ?t"
    using 19 dget_in_keys [OF 19(2)]
    by (simp add: capacity_ok_def capacity_inv_def cap_nodes_def store_registration_def Let_def
        length_dset fence_count_def)
  ultimately show ?case using 19 lifecycle.update_law [OF _ 19(2-4)]
    by (simp add: capacity_ok_def capacity_inv_def)
next
  case (20 s n reg0 st)
  then show ?case using lifecycle.scheduler_law [OF _ 20(2)] by (simp add: capacity_ok_def frame_simps)
qed

lemma init_capacity: "init_store key = Inr s \<Longrightarrow> capacity_inv cfg s"
  by (auto simp: init_store_def capacity_inv_def cap_live_def cap_outcomes_def cap_nodes_def
      fence_count_def count_vals_def split: option.splits if_splits)

lemma reachable_capacity:
  assumes "reachable E cfg s" and "env_ok E cfg"
  shows "lifecycle_inv s \<and> capacity_inv cfg s"
  using assms
proof (induction rule: reachable.induct)
  case (start key s)
  then show ?case by (simp add: init_lifecycle init_capacity)
next
  case (step s clock c)
  then have "capacity_ok E cfg s" by (simp add: capacity_ok_def lifecycle_ok_def)
  moreover obtain now where "\<forall>n. now_of E clock = Inr n \<longrightarrow> n = now" by (cases "now_of E clock") auto
  ultimately show ?case using capacity.perform_law [of E clock now cfg s c]
    by (simp add: capacity_ok_def lifecycle_ok_def)
qed

end
