(* ===== verification/Store_Registry.thy ===== *)
theory Store_Registry
  imports Store_Progress Store_Capacity
begin

text \<open>
  The node registry: registrations, scheduler states and registration orders belong to
  the same nodes, a node whose removal is pending is not registered, and the fence
  against a removed owner stays up for the configured retention.
\<close>

section \<open>The invariant\<close>

definition registry_inv :: "env \<Rightarrow> store \<Rightarrow> bool" where
  "registry_inv E s \<longleftrightarrow>
     wf_dict (records s) \<and> wf_dict (pending_node_transitions s)
     \<and> dkeys (scheduler_states s) = dkeys (records s) \<and> dkeys (registration_order s) = dkeys (records s)
     \<and> dkeys (records s) \<inter> dkeys (pending_node_transitions s) = {}
     \<and> (\<forall>n r. dget (records s) n = Some r \<longrightarrow> reg_node_id r = n)
     \<and> (\<forall>n k. dget (registration_order s) n = Some k \<longrightarrow> k < next_registration_order s)
     \<and> (\<forall>m n k. dget (registration_order s) m = Some k \<longrightarrow> dget (registration_order s) n = Some k \<longrightarrow> m = n)
     \<and> (\<forall>n p. dget (pending_node_transitions s) n = Some p \<longrightarrow>
          pt_node_id p = n \<and> pt_node_identity_digest p = node_digest E n)"

lemma registry_cong:
  assumes "records t = records s" "scheduler_states t = scheduler_states s"
    "registration_order t = registration_order s" "next_registration_order t = next_registration_order s"
    "pending_node_transitions t = pending_node_transitions s"
  shows "registry_inv E t = registry_inv E s"
  unfolding registry_inv_def assms ..

lemma registry_retire:
  assumes inv: "registry_inv E s" and g: "dget (records s) n = Some g"
  shows "registry_inv E (retire_node E cfg n g cause now s)"
proof -
  let ?t = "retire_node E cfg n g cause now s"
  have f: "records ?t = ddel n (records s)" "scheduler_states ?t = ddel n (scheduler_states s)"
      "registration_order ?t = ddel n (registration_order s)"
      "next_registration_order ?t = next_registration_order s"
      "pending_node_transitions ?t = dset n (new_pending E n g cause now) (pending_node_transitions s)"
    by (simp_all add: retire_node_def Let_def)
  have "wf_dict (records ?t) \<and> wf_dict (pending_node_transitions ?t)"
    using inv by (simp add: registry_inv_def f wf_ddel wf_dset)
  moreover have "dkeys (scheduler_states ?t) = dkeys (records ?t)"
      "dkeys (registration_order ?t) = dkeys (records ?t)"
      "dkeys (records ?t) \<inter> dkeys (pending_node_transitions ?t) = {}"
    using inv by (auto simp: registry_inv_def f dkeys_ddel dkeys_dset)
  moreover have "\<forall>m r. dget (records ?t) m = Some r \<longrightarrow> reg_node_id r = m"
      "\<forall>m k. dget (registration_order ?t) m = Some k \<longrightarrow> k < next_registration_order ?t"
      "\<forall>m m' k. dget (registration_order ?t) m = Some k \<longrightarrow> dget (registration_order ?t) m' = Some k \<longrightarrow> m = m'"
    using inv by (simp_all add: registry_inv_def f dget_ddel)
  moreover have "\<forall>m p. dget (pending_node_transitions ?t) m = Some p \<longrightarrow>
      pt_node_id p = m \<and> pt_node_identity_digest p = node_digest E m"
    using inv by (simp add: registry_inv_def f dget_dset new_pending_def)
  ultimately show ?thesis unfolding registry_inv_def by blast
qed

lemma registry_finish:
  assumes inv: "registry_inv E s" and p: "dget (pending_node_transitions s) n = Some p"
  shows "registry_inv E (snd (transition_close E cfg n p now s))"
proof -
  let ?t = "snd (transition_close E cfg n p now s)"
  have f: "records ?t = records s" "scheduler_states ?t = scheduler_states s"
      "registration_order ?t = registration_order s" "next_registration_order ?t = next_registration_order s"
      and ps: "pending_node_transitions ?t \<in> {dset n p (pending_node_transitions s),
        pending_node_transitions s, ddel n (pending_node_transitions s)}"
    by (auto simp: transition_close_def Let_def split: option.split)
  have "n \<in> dkeys (pending_node_transitions s)" using p by (rule dget_in_keys)
  with ps have "dkeys (pending_node_transitions ?t) \<subseteq> dkeys (pending_node_transitions s)"
    by (auto simp: dkeys_dset dkeys_ddel)
  moreover have "wf_dict (pending_node_transitions ?t)"
    using ps inv by (auto simp: registry_inv_def wf_dset wf_ddel)
  moreover have "\<forall>m p'. dget (pending_node_transitions ?t) m = Some p' \<longrightarrow>
      pt_node_id p' = m \<and> pt_node_identity_digest p' = node_digest E m"
    using ps inv p by (auto simp: registry_inv_def dget_dset dget_ddel split: if_splits)
  ultimately show ?thesis using inv unfolding registry_inv_def f by blast
qed

lemma registry_register:
  assumes inv: "registry_inv E s" and n: "dget (pending_node_transitions s) n = None" "dget (records s) n = None"
    and r: "reg_node_id r = n"
  shows "registry_inv E (store_registration n r True s)"
proof -
  let ?t = "store_registration n r True s"
  have f: "records ?t = dset n r (records s)"
      "scheduler_states ?t = dset n default_scheduler_state (scheduler_states s)"
      "registration_order ?t = dset n (next_registration_order s) (registration_order s)"
      "next_registration_order ?t = next_registration_order s + 1"
      "pending_node_transitions ?t = pending_node_transitions s"
    by (simp_all add: store_registration_def Let_def)
  have "wf_dict (records ?t)" using inv by (simp add: registry_inv_def f wf_dset)
  moreover have "dkeys (scheduler_states ?t) = dkeys (records ?t)"
      "dkeys (registration_order ?t) = dkeys (records ?t)"
      "dkeys (records ?t) \<inter> dkeys (pending_node_transitions ?t) = {}"
    using inv n(1) by (auto simp: registry_inv_def f dkeys_dset dkeys_None)
  moreover have "\<forall>m r. dget (records ?t) m = Some r \<longrightarrow> reg_node_id r = m"
    using inv r by (simp add: registry_inv_def f dget_dset)
  moreover have "\<forall>m k. dget (registration_order ?t) m = Some k \<longrightarrow> k < next_registration_order ?t"
    using inv by (auto simp: registry_inv_def f dget_dset less_Suc_eq split: if_splits)
  moreover have "\<forall>m m' k. dget (registration_order ?t) m = Some k \<longrightarrow>
      dget (registration_order ?t) m' = Some k \<longrightarrow> m = m'"
    using inv by (auto simp: registry_inv_def f dget_dset split: if_splits)
  ultimately show ?thesis using inv unfolding registry_inv_def f(5) by blast
qed

lemma registry_update:
  assumes inv: "registry_inv E s" and r0: "dget (records s) n = Some r0"
    and r: "reg_node_id r = n \<or> reg_node_id r = reg_node_id r0"
  shows "registry_inv E (store_registration n r False s)"
proof -
  have n: "n \<in> dkeys (records s)" "reg_node_id r = n"
    using inv r0 r dget_in_keys [OF r0] by (auto simp: registry_inv_def)
  then show ?thesis using inv
    by (auto simp: registry_inv_def store_registration_def Let_def wf_dset dkeys_dset dget_dset insert_absorb)
qed

section \<open>Fences\<close>

definition fences_wf :: "store \<Rightarrow> bool" where
  "fences_wf s \<longleftrightarrow> wf_dict (former_node_authorities s)
     \<and> (\<forall>(nd, d) \<in> set (former_node_authorities s). wf_dict d)"

definition fence_up :: "rat \<Rightarrow> store \<Rightarrow> string \<Rightarrow> string \<Rightarrow> bool" where
  "fence_up now s nd owner \<longleftrightarrow>
     (case dget (fence_of s nd) owner of None \<Rightarrow> False | Some a \<Rightarrow> Fin now < fa_expires_at_epoch a)"

definition fences_kept :: "env \<Rightarrow> config \<Rightarrow> rat \<Rightarrow> store \<Rightarrow> store \<Rightarrow> bool" where
  "fences_kept E cfg now s t \<longleftrightarrow>
     (Fin now < fl_add E now (terminal_retention_seconds cfg) \<longrightarrow>
        (\<forall>nd owner. fence_up now s nd owner \<longrightarrow> fence_up now t nd owner))"

lemma fences_kept_same: "former_node_authorities t = former_node_authorities s \<Longrightarrow> fences_kept E cfg now s t"
  by (simp add: fences_kept_def fence_up_def fence_of_def)

lemma dget_filter_key:
  assumes "wf_dict d"
  shows "dget (filter (\<lambda>(k, v). P k v) d) k = Option.bind (dget d k) (\<lambda>v. if P k v then Some v else None)"
  using assms
proof (induction d)
  case (Cons x d)
  obtain j w where x: "x = (j, w)" by (cases x)
  have "j \<notin> dkeys d" using Cons.prems x by (auto simp: dkeys_def)
  then have "dget d j = None" by (simp add: dkeys_None)
  with Cons x show ?case by auto
qed simp

lemma fence_of_prune:
  assumes "wf_dict fs"
  shows "(case dget (prune_authorities now pend fs) nd of Some d \<Rightarrow> d | None \<Rightarrow> []) =
     filter (\<lambda>(owner, a). \<not> (fa_expires_at_epoch a \<le> Fin now \<and> dget pend nd \<noteq> Some owner))
       (case dget fs nd of Some d \<Rightarrow> d | None \<Rightarrow> [])"
proof -
  let ?g = "\<lambda>nd auths. filter (\<lambda>(owner, a). \<not> (fa_expires_at_epoch a \<le> Fin now \<and> dget pend nd \<noteq> Some owner)) auths"
  let ?m = "map (\<lambda>(nd, auths). (nd, ?g nd auths)) fs"
  have m: "dget ?m k = map_option (?g k) (dget fs k)" for k by (induction fs) auto
  have "wf_dict ?m" using assms by (simp add: case_prod_beta comp_def)
  then have "dget (prune_authorities now pend fs) nd =
      Option.bind (dget ?m nd) (\<lambda>d. if d \<noteq> [] then Some d else None)"
    unfolding prune_authorities_def by (rule dget_filter_key [where P = "\<lambda>nd auths. auths \<noteq> []"])
  then show ?thesis unfolding m by (cases "dget fs nd") auto
qed

lemma fences_reap:
  assumes "fences_wf s"
  shows "fences_wf (reap_retained now s)" "fences_kept E cfg now s (reap_retained now s)"
proof -
  let ?p = "pending_authorities (pending_node_transitions s)"
  have f: "former_node_authorities (reap_retained now s) = prune_authorities now ?p (former_node_authorities s)"
    by (simp add: reap_retained_def split: prod.split)
  show "fences_wf (reap_retained now s)"
    unfolding fences_wf_def f prune_authorities_def
  proof (intro conjI wf_filter ballI)
    show "wf_dict (map (\<lambda>(nd, auths). (nd, filter (\<lambda>(owner, a).
        \<not> (fa_expires_at_epoch a \<le> Fin now \<and> dget ?p nd \<noteq> Some owner)) auths)) (former_node_authorities s))"
      using assms by (simp add: fences_wf_def case_prod_beta comp_def)
  qed (use assms in \<open>auto simp: fences_wf_def intro: wf_filter\<close>)
  have wf: "wf_dict (fence_of s nd)" for nd
    using assms by (auto simp: fences_wf_def fence_of_def split: option.split dest: map_of_SomeD)
  have g: "fence_of (reap_retained now s) nd =
      filter (\<lambda>(owner, a). \<not> (fa_expires_at_epoch a \<le> Fin now \<and> dget ?p nd \<noteq> Some owner)) (fence_of s nd)" for nd
    using assms unfolding fence_of_def f by (intro fence_of_prune) (simp add: fences_wf_def)
  have "fence_up now (reap_retained now s) nd owner" if "fence_up now s nd owner" for nd owner
  proof -
    from that obtain a where a: "dget (fence_of s nd) owner = Some a" "Fin now < fa_expires_at_epoch a"
      by (auto simp: fence_up_def split: option.splits)
    then have "dget (fence_of (reap_retained now s) nd) owner = Some a"
      unfolding g dget_filter_key [OF wf] by auto
    with a(2) show ?thesis by (simp add: fence_up_def)
  qed
  then show "fences_kept E cfg now s (reap_retained now s)" by (simp add: fences_kept_def)
qed

lemma fences_set:
  assumes "fences_wf s"
    and t: "former_node_authorities t = dset nd (dset owner a (fence_of s nd)) (former_node_authorities s)"
    and up: "Fin now < fl_add E now (terminal_retention_seconds cfg) \<Longrightarrow> Fin now < fa_expires_at_epoch a"
  shows "fences_wf t" "fences_kept E cfg now s t"
proof -
  have wf: "wf_dict (fence_of s nd)"
    using assms(1) by (auto simp: fences_wf_def fence_of_def split: option.split dest: map_of_SomeD)
  have "set (dset k v d) \<subseteq> insert (k, v) (set d)" for k v and d :: "('x, 'y) dict"
    by (induction d) auto
  then show "fences_wf t"
    using assms(1) wf unfolding fences_wf_def t by (fastforce simp: wf_dset)
  have "fence_of t m = (if m = nd then dset owner a (fence_of s nd) else fence_of s m)" for m
    by (simp add: fence_of_def t dget_dset)
  with up show "fences_kept E cfg now s t"
    by (auto simp: fences_kept_def fence_up_def dget_dset split: option.splits)
qed

section \<open>The interpretation\<close>

definition registry_ok :: "env \<Rightarrow> config \<Rightarrow> store \<Rightarrow> bool" where
  "registry_ok E cfg s \<longleftrightarrow> lifecycle_ok E cfg s \<and> registry_inv E s \<and> fences_wf s"

lemma registry_ok_cong:
  assumes "registry_ok E cfg s" and "lifecycle_ok E cfg t"
    and "records t = records s" "scheduler_states t = scheduler_states s"
    "registration_order t = registration_order s" "next_registration_order t = next_registration_order s"
    "pending_node_transitions t = pending_node_transitions s"
    "former_node_authorities t = former_node_authorities s"
  shows "registry_ok E cfg t \<and> fences_kept E cfg now s t"
  using assms registry_cong [OF assms(3-7)] fences_kept_same [OF assms(8)]
  by (simp add: registry_ok_def fences_wf_def)

lemma registry_ok_lifecycle: "registry_ok E cfg s \<Longrightarrow> lifecycle_ok E cfg s"
  by (simp add: registry_ok_def)

lemmas registry_unfolds = discard_node_work_identity_def drop_reservation_def reserve_on_def enqueue_on_def
  settle_def Let_def frame_simps

interpretation registry: store_machine "registry_ok E cfg" "fences_kept E cfg now" E cfg now for E cfg now
proof (unfold_locales, goal_cases)
  case (1 s)
  then show ?case by (simp add: fences_kept_same)
next
  case (2 s t u)
  then show ?case by (simp add: fences_kept_def)
next
  case (3 s)
  then show ?case by (intro lifecycle.live_wf registry_ok_lifecycle)
next
  case (4 s i)
  then show ?case by (intro lifecycle.terminal_dead registry_ok_lifecycle)
next
  case (5 s)
  have "registry_inv E (reap_retained now s) = registry_inv E s"
    by (rule registry_cong) (simp_all add: frame_simps)
  with 5 lifecycle.reap_law [of E cfg s now] fences_reap [where s = s and now = now] show ?case
    by (simp add: registry_ok_def)
next
  case (6 s i w status force reason)
  with lifecycle.close_law [OF registry_ok_lifecycle [OF 6(1)] 6(2-4)] show ?case
    by (intro registry_ok_cong) (simp_all add: frame_simps)
next
  case (7 s i)
  with lifecycle.defer_law [OF registry_ok_lifecycle [OF 7]] show ?case
    by (intro registry_ok_cong) simp_all
next
  case (8 s i n)
  with lifecycle.discard_law [OF registry_ok_lifecycle [OF 8(1)] 8(2)] show ?case
    by (intro registry_ok_cong) (simp_all add: discard_node_work_identity_def)
next
  case (9 s n g cause)
  let ?t = "retire_node E cfg n g cause now s"
  obtain a where "former_node_authorities ?t = dset (node_digest E n)
      (dset (reg_control_credential_digest g) a (fence_of s (node_digest E n))) (former_node_authorities s)"
    and "fa_expires_at_epoch a = fl_add E now (terminal_retention_seconds cfg)"
    by (simp add: retire_node_def Let_def)
  from fences_set [OF _ this(1), of now E cfg] this(2) 9
  show ?case using lifecycle.retire_law [OF registry_ok_lifecycle [OF 9(1)] 9(2-6)]
    by (simp add: registry_ok_def registry_retire)
next
  case (10 s n p)
  let ?t = "snd (transition_close E cfg n p now s)"
  have "fences_wf ?t \<and> fences_kept E cfg now s ?t"
  proof (cases "\<exists>owner a nd. former_node_authorities ?t =
        dset nd (dset owner a (fence_of s nd)) (former_node_authorities s)
        \<and> fa_expires_at_epoch a = fl_add E now (terminal_retention_seconds cfg)")
    case True
    with 10 fences_set [of s ?t _ _ _ now E cfg] show ?thesis by (auto simp: registry_ok_def)
  next
    case False
    then consider "former_node_authorities ?t = former_node_authorities s"
      | nd where "former_node_authorities ?t = dset nd (fence_of s nd) (former_node_authorities s)"
      by (fastforce simp: transition_close_def Let_def split: option.split)
    then show ?thesis
    proof cases
      case 1
      with 10 show ?thesis by (simp add: registry_ok_def fences_wf_def fences_kept_same)
    next
      case 2
      have "wf_dict (fence_of s nd)"
        using 10 by (auto simp: registry_ok_def fences_wf_def fence_of_def split: option.split dest: map_of_SomeD)
      moreover have "set (dset k v d) \<subseteq> insert (k, v) (set d)" for k v and d :: "('x, 'y) dict"
        by (induction d) auto
      ultimately have "fences_wf ?t"
        using 10 2 unfolding registry_ok_def fences_wf_def by (fastforce simp: wf_dset)
      moreover have "fence_of ?t m = fence_of s m" for m
        unfolding fence_of_def [of ?t] 2 by (simp add: dget_dset fence_of_def)
      ultimately show ?thesis by (simp add: fences_kept_def fence_up_def)
    qed
  qed
  with 10 lifecycle.finish_law [OF registry_ok_lifecycle [OF 10(1)] 10(2)] show ?case
    by (simp add: registry_ok_def registry_finish)
next
  case (11 s i r)
  with lifecycle.drop_law [OF registry_ok_lifecycle [OF 11(1)] 11(2)] show ?case
    by (intro registry_ok_cong) (simp_all add: registry_unfolds)
next
  case (12 s i r g st ev cancel)
  with lifecycle.reserve_law [OF registry_ok_lifecycle [OF 12(1)] 12(2-11)] show ?case
    by (intro registry_ok_cong) (simp_all add: registry_unfolds)
next
  case (13 s i r q tok can)
  with lifecycle.enqueue_law [OF registry_ok_lifecycle [OF 13(1)] 13(2-9)] show ?case
    by (intro registry_ok_cong) (simp_all add: registry_unfolds)
next
  case (14 s q c i)
  with lifecycle.claim_law [OF registry_ok_lifecycle [OF 14(1)] 14(2-11)] show ?case
    by (intro registry_ok_cong) simp_all
next
  case (15 s)
  with lifecycle.generation_law [OF registry_ok_lifecycle [OF 15(1)]] show ?case
    by (intro registry_ok_cong) simp_all
next
  case 16
  with lifecycle.renew_law [OF registry_ok_lifecycle [OF 16(1)] 16(2-4)] show ?case
    by (intro registry_ok_cong) simp_all
next
  case (17 s i ct)
  with lifecycle.stop_law [OF registry_ok_lifecycle [OF 17(1)] 17(2)] show ?case
    by (intro registry_ok_cong) simp_all
next
  case (18 s i q c rp t)
  with lifecycle.respond_law [OF registry_ok_lifecycle [OF 18(1)] 18(2-13)] show ?case
    by (intro registry_ok_cong) (simp_all add: frame_simps)
next
  case (19 s i t ready)
  with lifecycle.retrieve_law [OF registry_ok_lifecycle [OF 19(1)] 19(2-4)] show ?case
    by (intro registry_ok_cong) (simp_all add: settle_def)
next
  case (20 s n reg)
  have "former_node_authorities (store_registration n reg True s) = former_node_authorities s"
    by (simp add: store_registration_def Let_def)
  with 20 lifecycle.register_law [OF registry_ok_lifecycle [OF 20(1)] 20(2-6)] show ?case
    by (simp add: registry_ok_def registry_register fences_wf_def fences_kept_same)
next
  case (21 s n reg0 reg)
  have "former_node_authorities (store_registration n reg False s) = former_node_authorities s"
    by (simp add: store_registration_def Let_def)
  with 21 lifecycle.update_law [OF registry_ok_lifecycle [OF 21(1)] 21(2-4)] show ?case
    by (simp add: registry_ok_def registry_update fences_wf_def fences_kept_same)
next
  case (22 s n reg0 st)
  moreover have "registry_inv E (s\<lparr>scheduler_states := dset n st (scheduler_states s)\<rparr>)"
    using 22 dget_in_keys [OF 22(2)] by (auto simp: registry_ok_def registry_inv_def dkeys_dset)
  ultimately show ?case using lifecycle.scheduler_law [OF registry_ok_lifecycle [OF 22(1)] 22(2)]
    by (simp add: registry_ok_def fences_wf_def fences_kept_same)
qed

lemma init_registry: "init_store key = Inr s \<Longrightarrow> registry_inv E s \<and> fences_wf s"
  by (auto simp: init_store_def registry_inv_def fences_wf_def split: option.splits if_splits)

lemma reachable_registry:
  assumes "reachable E cfg s" and "env_ok E cfg"
  shows "registry_ok E cfg s"
  using assms
proof (induction rule: reachable.induct)
  case (start key s)
  then show ?case by (simp add: registry_ok_def lifecycle_ok_def init_lifecycle init_registry)
next
  case (step s clock c)
  obtain now where "\<forall>n. now_of E clock = Inr n \<longrightarrow> n = now" by (cases "now_of E clock") auto
  with step show ?case using registry.perform_law [of E clock now cfg s c] by simp
qed

end
