(* ===== verification/Store_Leases.thy ===== *)
theory Store_Leases
  imports Store_Progress Store_Capacity
begin

text \<open>
  The bound on active claims. Whether a claim is active depends on the time, so the bound
  is an invariant of runs whose clock does not go back.
\<close>

section \<open>Active claims\<close>

definition is_active :: "rat \<Rightarrow> claim_record \<Rightarrow> bool" where
  "is_active now c \<longleftrightarrow> Fin now < cl_lease_expires_at_epoch c"

definition claims_within :: "config \<Rightarrow> rat \<Rightarrow> store \<Rightarrow> bool" where
  "claims_within cfg now s \<longleftrightarrow> count_vals (is_active now) (claims s) \<le> max_claims cfg
     \<and> (\<forall>n. count_vals (\<lambda>c. cl_selected_node_id c = n \<and> is_active now c) (claims s)
          \<le> max_claims_per_node cfg)"

lemma claims_within_cong: "claims t = claims s \<Longrightarrow> claims_within cfg now t = claims_within cfg now s"
  by (simp add: claims_within_def)

lemma claims_within_ddel:
  "claims_within cfg now s \<Longrightarrow> claims t = ddel i (claims s) \<Longrightarrow> claims_within cfg now t"
  unfolding claims_within_def by (auto intro: le_trans [OF count_ddel_le])

lemma count_dset:
  assumes "wf_dict d"
  shows "count_vals p (dset k v d) = count_vals p (ddel k d) + (if p v then 1 else 0)"
  using assms
proof (induction d)
  case (Cons x d)
  obtain j w where x: "x = (j, w)" by (cases x)
  show ?case
  proof (cases "j = k")
    case True
    with Cons.prems x have "k \<notin> dkeys d" by (auto simp: dkeys_def)
    then have "ddel k d = d" by (intro ddel_notin)
    with True x show ?thesis by (simp add: count_vals_def)
  next
    case False
    with Cons x show ?thesis by (simp add: count_vals_def)
  qed
qed (simp add: count_vals_def)

lemma count_ddel_inert:
  assumes "wf_dict d" and "\<forall>v. dget d k = Some v \<longrightarrow> \<not> p v"
  shows "count_vals p (ddel k d) = count_vals p d"
proof (cases "dget d k")
  case None
  then show ?thesis by (simp add: ddel_absent)
next
  case (Some v)
  with assms count_ddel_mem [OF assms(1) Some, of p] show ?thesis by simp
qed

lemma count_mono: "(\<And>v. p v \<Longrightarrow> q v) \<Longrightarrow> count_vals p d \<le> count_vals q d"
proof (induction d)
  case (Cons x d)
  then show ?case by (auto simp: count_vals_def)
qed (simp add: count_vals_def)

lemma claims_within_later:
  assumes "claims_within cfg now s" and "now \<le> later"
  shows "claims_within cfg later s"
proof -
  have a: "is_active later c \<Longrightarrow> is_active now c" for c
    using assms(2) by (auto simp: is_active_def intro: le_less_trans [of "Fin now" "Fin later"])
  have "count_vals (is_active later) (claims s) \<le> count_vals (is_active now) (claims s)"
    using a by (rule count_mono)
  moreover have "count_vals (\<lambda>c. cl_selected_node_id c = n \<and> is_active later c) (claims s)
      \<le> count_vals (\<lambda>c. cl_selected_node_id c = n \<and> is_active now c) (claims s)" for n
    using a by (intro count_mono) blast
  ultimately show ?thesis using assms(1) unfolding claims_within_def by (meson le_trans)
qed

lemma claims_within_new:
  assumes within: "claims_within cfg now s" and wf: "wf_dict (claims s)"
    and old: "\<forall>d. dget (claims s) i = Some d \<longrightarrow> cl_lease_expires_at_epoch d \<le> Fin now"
    and room: "length (filter (\<lambda>c. cl_lease_expires_at_epoch c > Fin now) (dvals (claims s))) < max_claims cfg"
      "length (filter (\<lambda>d. cl_selected_node_id d = cl_selected_node_id c)
        (filter (\<lambda>c. cl_lease_expires_at_epoch c > Fin now) (dvals (claims s)))) < max_claims_per_node cfg"
    and t: "claims t = dset i c (claims s)"
  shows "claims_within cfg now t"
proof -
  have dead: "\<forall>d. dget (claims s) i = Some d \<longrightarrow> \<not> is_active now d"
    using old by (auto simp: is_active_def)
  have "count_vals (is_active now) (claims s) < max_claims cfg"
    using room(1) by (simp add: count_vals_def is_active_def [abs_def])
  moreover have "count_vals (\<lambda>d. cl_selected_node_id d = cl_selected_node_id c \<and> is_active now d) (claims s)
      < max_claims_per_node cfg"
    using room(2) by (simp add: count_vals_def is_active_def filter_filter conj_commute)
  moreover have "count_vals (is_active now) (ddel i (claims s)) = count_vals (is_active now) (claims s)"
    using dead by (intro count_ddel_inert [OF wf]) auto
  moreover have "count_vals (\<lambda>c. cl_selected_node_id c = n \<and> is_active now c) (ddel i (claims s))
      = count_vals (\<lambda>c. cl_selected_node_id c = n \<and> is_active now c) (claims s)" for n
    using dead by (intro count_ddel_inert [OF wf]) auto
  ultimately show ?thesis
    using within unfolding claims_within_def t by (simp add: count_dset [OF wf])
qed

lemma claims_within_renew:
  assumes within: "claims_within cfg now s" and wf: "wf_dict (claims s)"
    and c: "dget (claims s) i = Some c" "is_active now c"
    and t: "claims t = dset i (c\<lparr>cl_lease_expires_at_epoch := lease\<rparr>) (claims s)"
  shows "claims_within cfg now t"
proof -
  have "count_vals p (dset i (c\<lparr>cl_lease_expires_at_epoch := lease\<rparr>) (claims s)) \<le> count_vals p (claims s)"
    if "p (c\<lparr>cl_lease_expires_at_epoch := lease\<rparr>) \<Longrightarrow> p c" for p
    using that by (simp add: count_dset [OF wf] count_ddel_mem [OF wf c(1)])
  from this [of "is_active now"] this [of "\<lambda>c. cl_selected_node_id c = _ \<and> is_active now c"]
  show ?thesis using within c(2) unfolding claims_within_def t by (auto intro: le_trans)
qed

section \<open>The interpretation\<close>

definition leases_ok :: "env \<Rightarrow> config \<Rightarrow> rat \<Rightarrow> store \<Rightarrow> bool" where
  "leases_ok E cfg now s \<longleftrightarrow> lifecycle_ok E cfg s \<and> claims_within cfg now s"

lemma leases_ok_lifecycle: "leases_ok E cfg now s \<Longrightarrow> lifecycle_ok E cfg s"
  by (simp add: leases_ok_def)

lemma leases_ok_cong:
  "leases_ok E cfg now s \<Longrightarrow> lifecycle_ok E cfg t \<Longrightarrow> claims t = claims s \<Longrightarrow> leases_ok E cfg now t \<and> True"
  using claims_within_cong [of t s] by (simp add: leases_ok_def)

lemma leases_ok_ddel:
  "leases_ok E cfg now s \<Longrightarrow> lifecycle_ok E cfg t \<Longrightarrow> claims t = ddel i (claims s) \<Longrightarrow>
   leases_ok E cfg now t \<and> True"
  using claims_within_ddel [of cfg now s t i] by (simp add: leases_ok_def)

lemma lifecycle_ok_claims: "lifecycle_ok E cfg s \<Longrightarrow> wf_dict (claims s)"
  by (simp add: lifecycle_ok_def lifecycle_inv_def inv_wf_def)

interpretation leases: store_machine "leases_ok E cfg now" "\<lambda>_ _. True" E cfg now for E cfg now
proof (unfold_locales, goal_cases)
  case (1 s)
  then show ?case by (intro lifecycle.live_wf leases_ok_lifecycle)
next
  case (2 s i)
  then show ?case by (intro lifecycle.terminal_dead leases_ok_lifecycle)
next
  case (3 s)
  with lifecycle.reap_law [OF leases_ok_lifecycle [OF 3], where now = now] show ?case
    by (intro leases_ok_cong) (simp_all add: frame_simps)
next
  case (4 s i w status force reason)
  with lifecycle.close_law [OF leases_ok_lifecycle [OF 4(1)] 4(2-4)] show ?case
    by (intro leases_ok_ddel) (simp_all add: leases_ok_def lifecycle_ok_def frame_simps)
next
  case (5 s i)
  with lifecycle.defer_law [OF leases_ok_lifecycle [OF 5]] show ?case by (intro leases_ok_cong) simp_all
next
  case (6 s i n)
  with lifecycle.discard_law [OF leases_ok_lifecycle [OF 6(1)] 6(2)] show ?case
    by (intro leases_ok_cong) (simp_all add: discard_node_work_identity_def)
next
  case (7 s n g cause)
  with lifecycle.retire_law [OF leases_ok_lifecycle [OF 7(1)] 7(2-6)] show ?case
    by (intro leases_ok_cong) (simp_all add: retire_node_def Let_def)
next
  case (8 s n p)
  have "claims (snd (transition_close E cfg n p now s)) = claims s"
    by (auto simp: transition_close_def Let_def split: option.split)
  with 8 lifecycle.finish_law [OF leases_ok_lifecycle [OF 8(1)] 8(2), where now = now] show ?case
    by (intro leases_ok_cong) simp_all
next
  case (9 s i r)
  with lifecycle.drop_law [OF leases_ok_lifecycle [OF 9(1)] 9(2)] show ?case
    by (intro leases_ok_cong) (simp_all add: drop_reservation_def discard_node_work_identity_def)
next
  case (10 s i r g st ev cancel)
  with lifecycle.reserve_law [OF leases_ok_lifecycle [OF 10(1)] 10(2-11)] show ?case
    by (intro leases_ok_cong) (simp_all add: reserve_on_def Let_def)
next
  case (11 s i r q tok can)
  with lifecycle.enqueue_law [OF leases_ok_lifecycle [OF 11(1)] 11(2-9)] show ?case
    by (intro leases_ok_cong) (simp_all add: enqueue_on_def Let_def)
next
  case (12 s q c i)
  let ?t = "s\<lparr>claims := dset i c (claims s), next_claim_generation := next_claim_generation s + 1\<rparr>"
  have "claims_within cfg now s" using 12(1) by (simp add: leases_ok_def)
  from claims_within_new [OF this lifecycle_ok_claims [OF leases_ok_lifecycle [OF 12(1)]] 12(4,10,11), of ?t]
  have "claims_within cfg now ?t" by simp
  with lifecycle.claim_law [OF leases_ok_lifecycle [OF 12(1)] 12(2-11)] show ?case
    by (simp add: leases_ok_def)
next
  case (13 s)
  with lifecycle.generation_law [OF leases_ok_lifecycle [OF 13(1)]] show ?case
    by (intro leases_ok_cong) simp_all
next
  case (14 s i c lease)
  let ?t = "s\<lparr>claims := dset i (c\<lparr>cl_lease_expires_at_epoch := lease\<rparr>) (claims s)\<rparr>"
  have "claims_within cfg now s" "is_active now c" using 14(1,3) by (simp_all add: leases_ok_def is_active_def)
  from claims_within_renew [OF this(1) lifecycle_ok_claims [OF leases_ok_lifecycle [OF 14(1)]] 14(2) this(2), of ?t]
  have "claims_within cfg now ?t" by simp
  with lifecycle.renew_law [OF leases_ok_lifecycle [OF 14(1)] 14(2-4)] show ?case
    by (simp add: leases_ok_def)
next
  case (15 s i ct)
  with lifecycle.stop_law [OF leases_ok_lifecycle [OF 15(1)] 15(2)] show ?case
    by (intro leases_ok_cong) simp_all
next
  case (16 s i q c rp t)
  with lifecycle.respond_law [OF leases_ok_lifecycle [OF 16(1)] 16(2-13)] show ?case
    by (intro leases_ok_ddel [where i = i]) (simp_all add: frame_simps)
next
  case (17 s i t ready)
  with lifecycle.retrieve_law [OF leases_ok_lifecycle [OF 17(1)] 17(2-4)] show ?case
    by (intro leases_ok_cong) (simp_all add: settle_def)
next
  case (18 s n reg)
  with lifecycle.register_law [OF leases_ok_lifecycle [OF 18(1)] 18(2-6)] show ?case
    by (intro leases_ok_cong) (simp_all add: store_registration_def Let_def)
next
  case (19 s n reg0 reg)
  with lifecycle.update_law [OF leases_ok_lifecycle [OF 19(1)] 19(2-4)] show ?case
    by (intro leases_ok_cong) (simp_all add: store_registration_def Let_def)
next
  case (20 s n reg0 st)
  with lifecycle.scheduler_law [OF leases_ok_lifecycle [OF 20(1)] 20(2)] show ?case
    by (intro leases_ok_cong) simp_all
qed

text \<open>Runs whose clock is a number that does not go back; \<open>T\<close> is the time of the last call.\<close>

inductive reachable_at :: "env \<Rightarrow> config \<Rightarrow> rat \<Rightarrow> store \<Rightarrow> bool" for E cfg where
  start: "init_store key = Inr s \<Longrightarrow> reachable_at E cfg T s"
| step: "reachable_at E cfg T s \<Longrightarrow> now_of E clock = Inr now \<Longrightarrow> T \<le> now \<Longrightarrow>
    reachable_at E cfg now (perform E cfg clock c s)"

lemma reachable_at_reachable: "reachable_at E cfg T s \<Longrightarrow> reachable E cfg s"
  by (induction rule: reachable_at.induct) (auto intro: reachable.intros)

lemma init_claims_within: "init_store key = Inr s \<Longrightarrow> claims_within cfg T s"
  by (auto simp: init_store_def claims_within_def count_vals_def split: option.splits if_splits)

lemma reachable_at_leases:
  assumes "reachable_at E cfg T s" and "env_ok E cfg"
  shows "leases_ok E cfg T s"
  using assms
proof (induction rule: reachable_at.induct)
  case (start key s T)
  then show ?case by (simp add: leases_ok_def lifecycle_ok_def init_lifecycle init_claims_within)
next
  case (step T s clock now c)
  then have "leases_ok E cfg now s" using claims_within_later [of cfg T s now] by (simp add: leases_ok_def)
  with step leases.perform_law [of E clock now cfg s c] show ?case by simp
qed

end
