(* ===== verification/Store_Demo.thy ===== *)
theory Store_Demo
  imports Store_Registry Store_Leases
begin

text \<open>
  A concrete run of the store that the witnesses evaluate: one node registers, one
  request is reserved, enqueued, claimed and answered, and the answer is acknowledged;
  in a second branch the claimed request is cancelled, in a third the node leaves.
\<close>

section \<open>Inputs\<close>

definition demo_kwargs :: kwargs where
  "demo_kwargs = [(''namespace'', VStr ''demo'')]"

definition demo_config :: config where
  "demo_config = typed_config demo_kwargs"

definition demo_caps :: capabilities where
  "demo_caps = \<lparr>supported_model_ids = [''m''], active_context_tier = ''8k-fast'',
     maximum_total_context_tokens = 8192, default_output_token_reservation = 512,
     maximum_output_tokens = 1024, max_concurrency = 4, backend_class = ''cpu''\<rparr>"

definition demo_envelope :: envelope where
  "demo_envelope = \<lparr>protocol = E2EE_PROTOCOL, version = VInt 1, ciphertext = ''c'', cipherkey = ''k'',
     iv = ''i''\<rparr>"

definition demo_key :: string where
  "demo_key = replicate 32 (CHR ''k'')"

definition demo_digest :: string where
  "demo_digest = replicate 64 (CHR ''a'')"

definition demo_token :: string where
  "demo_token = replicate 64 (CHR ''b'')"

definition demo_token_digest :: string where
  "demo_token_digest = hexdigest (pad32 demo_token)"

definition demo_client :: string where
  "demo_client = hexdigest (pad32 (''client'' @ NUL @ ''c''))"

definition demo_request :: string where
  "demo_request = hexdigest (pad32 (''request'' @ NUL @ ''r''))"

definition demo_consumer :: string where
  "demo_consumer = hexdigest (pad32 (''consumer'' @ NUL @ ''w''))"

definition demo_cancel :: string where
  "demo_cancel = hexdigest (pad32 (''cancel'' @ NUL @ ''x''))"

definition demo_class :: string where
  "demo_class = hexdigest (pad32 (''m'' @ NUL @ ''8k-fast''))"

definition demo_node :: string where
  "demo_node = hexdigest (pad32 (''node'' @ NUL @ ''n''))"

definition demo_identity :: identity where
  "demo_identity = Identity demo_client demo_request"

definition demo_response_digest :: string where
  "demo_response_digest =
     (case serialized_response_envelope test_env demo_envelope of Inr bs \<Rightarrow> hexdigest (pad32 bs) | Inl _ \<Rightarrow> [])"

definition demo_ack :: string where
  "demo_ack = hexdigest demo_key"

section \<open>Calls\<close>

definition demo_register :: call where
  "demo_register = Register (VStr ''n'') (ArgObj demo_caps) (VStr demo_digest)"

definition demo_select :: call where
  "demo_select = Select (VStr ''c'') (VStr ''r'') (VStr ''m'') (VStr ''8k-fast'') (VFloat 10) VNone demo_token"

definition demo_enqueue :: call where
  "demo_enqueue = Enqueue (VStr ''c'') (VStr ''r'') (VStr demo_token) (VStr ''n'') (VStr ''m'')
     (VStr ''8k-fast'') (VFloat 10) (ArgObj demo_envelope) (VStr ''x'')"

definition demo_claim :: call where
  "demo_claim = Claim_Queued (VStr ''n'') (VStr demo_digest) (VStr ''w'')"

definition demo_answer :: call where
  "demo_answer = Accept_Response (VStr ''n'') (VStr demo_digest) (VStr ''w'') (VStr ''c'') (VStr ''r'')
     (VInt 1) (ArgObj demo_envelope)"

definition demo_retrieve :: "pyval \<Rightarrow> call" where
  "demo_retrieve ack = Retrieve (VStr ''c'') (VStr ''r'') (VStr demo_token) ack"

definition demo_cancel_call :: call where
  "demo_cancel_call = Cancel_Or_Expire (VStr ''c'') (VStr ''r'') (VStr ''x'') ''cancelled'' ''requester_cancelled''"

definition demo_unregister :: call where
  "demo_unregister = Unregister (VStr ''n'') (VStr demo_digest)"

section \<open>Records and states\<close>

definition demo_registration :: registration where
  "demo_registration = \<lparr>reg_node_id = ''n'', reg_capabilities = demo_caps,
     reg_control_credential_digest = demo_digest, reg_registered_at_epoch = Fin 0,
     reg_lease_expires_at_epoch = Fin 30\<rparr>"

definition demo_reservation :: reservation where
  "demo_reservation = \<lparr>res_client_identity_digest = demo_client, res_request_identity_digest = demo_request,
     res_scheduler_fingerprint = demo_class, res_selected_node_id = ''n'', res_requested_model_id = ''m'',
     res_requested_context_tier = ''8k-fast'', res_request_deadline_epoch = Fin 10,
     res_reservation_expires_at_epoch = Fin 10, res_token_digest = demo_token_digest\<rparr>"

definition demo_queued_request :: queued_request where
  "demo_queued_request = \<lparr>qd_client_identity_digest = demo_client, qd_request_identity_digest = demo_request,
     qd_client_public_key = ''c'', qd_request_id = ''r'', qd_selected_node_id = ''n'',
     qd_requested_model_id = ''m'', qd_requested_context_tier = ''8k-fast'',
     qd_request_deadline_epoch = Fin 10, qd_envelope = demo_envelope, qd_enqueued_at_epoch = Fin 2,
     qd_sequence = 1\<rparr>"

definition demo_claim_record :: claim_record where
  "demo_claim_record = \<lparr>cl_client_identity_digest = demo_client, cl_request_identity_digest = demo_request,
     cl_consumer_identity_digest = demo_consumer, cl_selected_node_id = ''n'',
     cl_control_credential_digest = demo_digest, cl_request_deadline_epoch = Fin 10,
     cl_envelope = demo_envelope, cl_sequence = 1, cl_generation = 1, cl_lease_expires_at_epoch = Fin 10\<rparr>"

definition demo_response :: response_record where
  "demo_response = \<lparr>rs_client_identity_digest = demo_client, rs_request_identity_digest = demo_request,
     rs_client_public_key = ''c'', rs_request_id = ''r'', rs_selected_node_id = ''n'',
     rs_consumer_identity_digest = demo_consumer, rs_generation = 1, rs_envelope = demo_envelope,
     rs_accepted_at_epoch = Fin 4, rs_response_digest = demo_response_digest,
     rs_replay_expires_at_epoch = Fin 304, rs_status = ''response_ready''\<rparr>"

definition demo_terminal :: "string \<Rightarrow> terminal_record" where
  "demo_terminal st = \<lparr>tm_client_identity_digest = demo_client, tm_request_identity_digest = demo_request,
     tm_selected_node_id = ''n'', tm_control_credential_digest = demo_digest,
     tm_consumer_identity_digest = demo_consumer, tm_generation = 1,
     tm_response_digest = demo_response_digest, tm_accepted_at_epoch = Fin 4,
     tm_replay_expires_at_epoch = Fin 304, tm_expires_at_epoch = Fin 3604, tm_outcome = ''completed'',
     tm_retrieval_state = st, tm_retrieval_credential_digest = demo_token_digest,
     tm_acknowledgement_digest = hexdigest (pad32 demo_ack), tm_reason = ''response_completed'',
     tm_cancellation_token_digest = demo_cancel\<rparr>"

definition demo_cancelled_terminal :: terminal_record where
  "demo_cancelled_terminal = \<lparr>tm_client_identity_digest = demo_client, tm_request_identity_digest = demo_request,
     tm_selected_node_id = ''n'', tm_control_credential_digest = demo_digest,
     tm_consumer_identity_digest = demo_consumer, tm_generation = 1, tm_response_digest = [],
     tm_accepted_at_epoch = Fin 4, tm_replay_expires_at_epoch = Fin 4, tm_expires_at_epoch = Fin 3604,
     tm_outcome = ''cancelled'', tm_retrieval_state = ''completed_unavailable'',
     tm_retrieval_credential_digest = [], tm_acknowledgement_digest = [],
     tm_reason = ''requester_cancelled'', tm_cancellation_token_digest = demo_cancel\<rparr>"

definition demo_tombstone :: control_tombstone where
  "demo_tombstone = \<lparr>ct_client_identity_digest = demo_client, ct_request_identity_digest = demo_request,
     ct_selected_node_id = ''n'', ct_control_credential_digest = demo_digest,
     ct_consumer_identity_digest = demo_consumer, ct_generation = 1, ct_status = ''cancelled'',
     ct_reason = ''requester_cancelled'', ct_request_deadline_epoch = Fin 10, ct_acknowledged = False,
     ct_expires_at_epoch = Fin 304\<rparr>"

definition demo_start :: store where
  "demo_start = \<lparr>acknowledgement_key = demo_key, records = [], scheduler_states = [],
     registration_order = [], next_registration_order = 0, reservations = [],
     queued = [], queued_token_digests = [], cancellation_token_digests = [],
     node_queues = [], claims = [], responses = [], terminals = [],
     control_tombstones = [], node_tombstones = [], pending_node_transitions = [],
     former_node_authorities = [], node_work_identities = [],
     deferred_deadline_identities = {}, next_claim_generation = 0,
     fairness_cursors = [], fairness_activity = 0, next_queue_sequence = 0\<rparr>"

definition demo_registered :: store where
  "demo_registered = demo_start\<lparr>records := [(''n'', demo_registration)],
     scheduler_states := [(''n'', default_scheduler_state)], registration_order := [(''n'', 0)],
     next_registration_order := 1\<rparr>"

definition demo_reserved :: store where
  "demo_reserved = demo_registered\<lparr>reservations := [(demo_identity, demo_reservation)],
     node_work_identities := [(''n'', [demo_identity])],
     fairness_cursors := [(demo_class, (''n'', 1))], fairness_activity := 1\<rparr>"

definition demo_queued :: store where
  "demo_queued = demo_reserved\<lparr>reservations := [], queued := [(demo_identity, demo_queued_request)],
     queued_token_digests := [(demo_identity, demo_token_digest)],
     cancellation_token_digests := [(demo_identity, demo_cancel)],
     node_queues := [(''n'', [demo_queued_request])], next_queue_sequence := 1\<rparr>"

definition demo_claimed :: store where
  "demo_claimed = demo_queued\<lparr>claims := [(demo_identity, demo_claim_record)], next_claim_generation := 1\<rparr>"

definition demo_answered :: store where
  "demo_answered = demo_registered\<lparr>responses := [(demo_identity, demo_response)],
     terminals := [(demo_identity, demo_terminal ''response_ready'')], next_claim_generation := 1,
     fairness_cursors := [(demo_class, (''n'', 1))], fairness_activity := 1, next_queue_sequence := 1\<rparr>"

definition demo_acknowledged :: store where
  "demo_acknowledged = demo_answered\<lparr>responses := [],
     terminals := [(demo_identity, demo_terminal ''acknowledged'')]\<rparr>"

definition demo_cancelled :: store where
  "demo_cancelled = demo_registered\<lparr>terminals := [(demo_identity, demo_cancelled_terminal)],
     control_tombstones := [(demo_identity, demo_tombstone)], next_claim_generation := 1,
     fairness_cursors := [(demo_class, (''n'', 1))], fairness_activity := 1, next_queue_sequence := 1\<rparr>"

definition demo_departed :: store where
  "demo_departed = demo_start\<lparr>next_registration_order := 1,
     node_tombstones := [(demo_node, \<lparr>nt_node_identity_digest = demo_node,
       nt_control_credential_digest = demo_digest, nt_cause = ''explicit_unregister'',
       nt_status = ''cancelled'', nt_transition_epoch = Fin 5, nt_completed = True,
       nt_expires_at_epoch = Fin 305\<rparr>)],
     former_node_authorities := [(demo_node, [(demo_digest, \<lparr>fa_control_credential_digest = demo_digest,
       fa_cause = ''explicit_unregister'', fa_status = ''cancelled'', fa_transition_epoch = Fin 5,
       fa_expires_at_epoch = Fin 3605\<rparr>)])]\<rparr>"

section \<open>The run\<close>

lemma demo_config_ok: "mk_config test_env demo_kwargs = Inr demo_config"
  by code_simp

lemma demo_init: "init_store (Some demo_key) = Inr demo_start"
  by code_simp

lemma demo_step_register: "perform test_env demo_config (VFloat 0) demo_register demo_start = demo_registered"
  by code_simp

lemma demo_step_select: "perform test_env demo_config (VFloat 1) demo_select demo_registered = demo_reserved"
  by code_simp

lemma demo_step_enqueue: "perform test_env demo_config (VFloat 2) demo_enqueue demo_reserved = demo_queued"
  by code_simp

lemma demo_step_claim: "perform test_env demo_config (VFloat 3) demo_claim demo_queued = demo_claimed"
  by code_simp

lemma demo_step_answer: "perform test_env demo_config (VFloat 4) demo_answer demo_claimed = demo_answered"
  by code_simp

lemma demo_step_ack:
  "perform test_env demo_config (VFloat 5) (demo_retrieve (VStr demo_ack)) demo_answered = demo_acknowledged"
  by code_simp

lemma demo_step_cancel: "perform test_env demo_config (VFloat 4) demo_cancel_call demo_claimed = demo_cancelled"
  by code_simp

lemma demo_step_depart: "perform test_env demo_config (VFloat 5) demo_unregister demo_registered = demo_departed"
  by code_simp


lemma demo_env_ok: "env_ok test_env demo_config"
proof -
  have "response_replay_ttl_seconds demo_config \<le> terminal_retention_seconds demo_config"
      "control_tombstone_ttl_seconds demo_config \<le> terminal_retention_seconds demo_config"
    by code_simp+
  then show ?thesis by (simp add: env_ok_def test_env_mono)
qed

lemma demo_clock: "now_of test_env (VFloat t) = Inr t"
  by (simp add: now_of_def finite_float_def)

lemma demo_reachable_at:
  "reachable_at test_env demo_config 0 demo_registered"
  "reachable_at test_env demo_config 1 demo_reserved"
  "reachable_at test_env demo_config 2 demo_queued"
  "reachable_at test_env demo_config 3 demo_claimed"
  "reachable_at test_env demo_config 4 demo_answered"
  "reachable_at test_env demo_config 5 demo_acknowledged"
  "reachable_at test_env demo_config 4 demo_cancelled"
  "reachable_at test_env demo_config 5 demo_departed"
proof -
  have s: "reachable_at test_env demo_config 0 demo_start"
    using demo_init by (rule reachable_at.start)
  note step = reachable_at.step [OF _ demo_clock]
  show 1: "reachable_at test_env demo_config 0 demo_registered"
    using step [OF s, of 0 demo_register] by (simp add: demo_step_register)
  show 2: "reachable_at test_env demo_config 1 demo_reserved"
    using step [OF 1, of 1 demo_select] by (simp add: demo_step_select)
  show 3: "reachable_at test_env demo_config 2 demo_queued"
    using step [OF 2, of 2 demo_enqueue] by (simp add: demo_step_enqueue)
  show 4: "reachable_at test_env demo_config 3 demo_claimed"
    using step [OF 3, of 3 demo_claim] by (simp add: demo_step_claim)
  show 5: "reachable_at test_env demo_config 4 demo_answered"
    using step [OF 4, of 4 demo_answer] by (simp add: demo_step_answer)
  show "reachable_at test_env demo_config 5 demo_acknowledged"
    using step [OF 5, of 5 "demo_retrieve (VStr demo_ack)"] by (simp add: demo_step_ack)
  show "reachable_at test_env demo_config 4 demo_cancelled"
    using step [OF 4, of 4 demo_cancel_call] by (simp add: demo_step_cancel)
  show "reachable_at test_env demo_config 5 demo_departed"
    using step [OF 1, of 5 demo_unregister] by (simp add: demo_step_depart)
qed

lemmas demo_reachable = demo_reachable_at [THEN reachable_at_reachable]

end
