(* ===== verification/Store_Properties.thy ===== *)
theory Store_Properties
  imports Store_Demo
begin

text \<open>
  What the store promises, about every state its calls can reach and about every call.
  Each property is followed by a witness that applies it to the run of \<open>Store_Demo\<close>.
\<close>

section \<open>Invariants of reachable states\<close>

text \<open>C1 (invariant). With a configuration its constructor accepts, every state that any
  sequence of calls reaches, at any clock values and whether calls return or raise,
  satisfies the lifecycle invariant: each request is in at most one of the stages
  reserved, queued and terminal; node queues, work lists, claims, credentials, responses
  and stop instructions agree with it; queue order is sequence order; a claim copies its
  request, ends by the deadline and has a generation of its own.\<close>

theorem reachable_states_keep_lifecycle:
  assumes "fl_add_mono E" and "mk_config E kw = Inr cfg" and "reachable E cfg s"
  shows "lifecycle_inv s"
  using reachable_lifecycle [OF assms(3) mk_config_env_ok [OF assms(2,1)]] .

theorem reachable_states_keep_lifecycle_witness: "lifecycle_inv demo_claimed"
  using reachable_states_keep_lifecycle [OF test_env_mono demo_config_ok demo_reachable(4)] .

text \<open>C2 (bounds). In every reachable state the configured bounds hold: of reservations,
  queued requests, responses, terminal records, stop instructions, registrations,
  pending removals, fences and scheduler cursors, in total and per client or node.\<close>

theorem reachable_states_within_capacity:
  assumes "fl_add_mono E" and "mk_config E kw = Inr cfg" and "reachable E cfg s"
  shows "capacity_inv cfg s"
  using reachable_capacity [OF assms(3) mk_config_env_ok [OF assms(2,1)]] by blast

theorem reachable_states_within_capacity_witness: "capacity_inv demo_config demo_cancelled"
  using reachable_states_within_capacity [OF test_env_mono demo_config_ok demo_reachable(7)] .

text \<open>When the clock does not go back, the claims active at the time of the
  last call never exceed the claim bounds, in total and per node.\<close>

theorem active_claims_bounded:
  assumes "fl_add_mono E" and "mk_config E kw = Inr cfg" and "reachable_at E cfg T s"
  shows "claims_within cfg T s"
  using reachable_at_leases [OF assms(3) mk_config_env_ok [OF assms(2,1)]] by (simp add: leases_ok_def)

theorem active_claims_bounded_witness: "claims_within demo_config 3 demo_claimed"
  using active_claims_bounded [OF test_env_mono demo_config_ok demo_reachable_at(4)] .

text \<open>In every reachable state registrations, scheduler states and
  registration orders are kept for the same nodes, no two nodes share a registration
  order, and no node is both registered and being removed.\<close>

theorem reachable_registry_consistent:
  assumes "fl_add_mono E" and "mk_config E kw = Inr cfg" and "reachable E cfg s"
  shows "registry_inv E s"
  using reachable_registry [OF assms(3) mk_config_env_ok [OF assms(2,1)]] by (simp add: registry_ok_def)

theorem reachable_registry_consistent_witness: "registry_inv test_env demo_departed"
  using reachable_registry_consistent [OF test_env_mono demo_config_ok demo_reachable(8)] .

section \<open>Finality and fencing\<close>

text \<open>A run: calls with the clock value each sees, in order.\<close>

definition run :: "env \<Rightarrow> config \<Rightarrow> (pyval \<times> call) list \<Rightarrow> store \<Rightarrow> store" where
  "run E cfg cs s = fold (\<lambda>(clock, c). perform E cfg clock c) cs s"

lemma run_progress:
  assumes "lifecycle_ok E cfg s" and "dget (terminals s) i = Some t"
    and "\<forall>(clock, c) \<in> set cs. \<forall>now. now_of E clock = Inr now \<longrightarrow> Fin now < tm_expires_at_epoch t"
  shows "\<exists>u. dget (terminals (run E cfg cs s)) i = Some u \<and> same_outcome t u"
  using assms
proof (induction cs arbitrary: s t)
  case Nil
  then show ?case by (simp add: run_def)
next
  case (Cons x cs)
  obtain clock c where x: "x = (clock, c)" by (cases x)
  let ?s = "perform E cfg clock c s"
  have ok: "lifecycle_ok E cfg ?s"
    using Cons.prems(1) perform_lifecycle by (simp add: lifecycle_ok_def)
  have "\<exists>u. dget (terminals ?s) i = Some u \<and> same_outcome t u"
  proof (cases "\<exists>now. now_of E clock = Inr now")
    case True
    then obtain now where now: "now_of E clock = Inr now" by blast
    then have "progresses now s ?s"
      using progress.perform_law [of E clock now cfg s c] Cons.prems(1) by simp
    moreover have "Fin now < tm_expires_at_epoch t" using Cons.prems(3) now x by simp
    ultimately show ?thesis using Cons.prems(2) by (simp add: progresses_def terminals_kept_def)
  next
    case False
    then have "progresses now s ?s" for now
      using progress.perform_law [of E clock now cfg s c] Cons.prems(1) by simp
    moreover obtain now where "Fin now < tm_expires_at_epoch t"
    proof (cases "tm_expires_at_epoch t")
      case (Fin r)
      then have "Fin (r - 1) < tm_expires_at_epoch t" by simp
      then show thesis by (rule that)
    next
      case Inf
      then have "Fin 0 < tm_expires_at_epoch t" by simp
      then show thesis by (rule that)
    qed
    ultimately show ?thesis using Cons.prems(2) by (meson progresses_def terminals_kept_def)
  qed
  then obtain u where u: "dget (terminals ?s) i = Some u" "same_outcome t u" by blast
  from Cons.IH [OF ok u(1)] Cons.prems(3) same_outcome_expires [OF u(2)]
  obtain v where "dget (terminals (run E cfg cs ?s)) i = Some v" "same_outcome u v" by auto
  with same_outcome_trans [OF u(2)] show ?case by (auto simp: x run_def)
qed

text \<open>C3 (safety). A terminal record is final: whatever calls follow, as long as the clock
  stays before the end of its retention, the lifecycle keeps the same outcome, reason,
  generation, response digest and credentials; only an offered response may become
  acknowledged or expired.\<close>

theorem terminal_outcome_is_final:
  assumes "fl_add_mono E" and "mk_config E kw = Inr cfg" and "reachable E cfg s"
    and "dget (terminals s) i = Some t"
    and "\<forall>(clock, c) \<in> set cs. \<forall>now. now_of E clock = Inr now \<longrightarrow> Fin now < tm_expires_at_epoch t"
  shows "\<exists>u. dget (terminals (run E cfg cs s)) i = Some u \<and> same_outcome t u"
proof (rule run_progress [OF _ assms(4,5)])
  have "env_ok E cfg" using assms(2,1) by (rule mk_config_env_ok)
  then show "lifecycle_ok E cfg s" using reachable_lifecycle [OF assms(3)] by (simp add: lifecycle_ok_def)
qed

theorem terminal_outcome_is_final_witness:
  "\<exists>u. dget (terminals (run test_env demo_config [(VFloat 5, demo_cancel_call)] demo_answered)) demo_identity = Some u
     \<and> same_outcome (demo_terminal ''response_ready'') u"
proof (rule terminal_outcome_is_final [OF test_env_mono demo_config_ok demo_reachable(5)])
  show "dget (terminals demo_answered) demo_identity = Some (demo_terminal ''response_ready'')"
    by (simp add: demo_answered_def)
qed (auto simp: demo_clock demo_terminal_def)

text \<open>Claim generations are never reused: after any call, a claim is either
  one that was there before (same owner, request and generation, at most a new lease)
  or has a generation above every generation handed out before the call.\<close>

theorem claim_generations_are_fresh:
  assumes "fl_add_mono E" and "mk_config E kw = Inr cfg" and "reachable E cfg s"
    and "dget (claims (perform E cfg clock c s)) i = Some d"
  shows "(\<exists>b. dget (claims s) i = Some b \<and> same_claim b d) \<or> next_claim_generation s < cl_generation d"
proof -
  have "lifecycle_ok E cfg s"
    using reachable_lifecycle [OF assms(3)] mk_config_env_ok [OF assms(2,1)] by (simp add: lifecycle_ok_def)
  moreover obtain now where "\<forall>n. now_of E clock = Inr n \<longrightarrow> n = now" by (cases "now_of E clock") auto
  ultimately have "claims_fenced s (perform E cfg clock c s)"
    using progress.perform_law [of E clock now cfg s c] by (simp add: progresses_def)
  with assms(4) show ?thesis by (simp add: claims_fenced_def)
qed

theorem claim_generations_are_fresh_witness:
  "(\<exists>b. dget (claims demo_queued) demo_identity = Some b \<and> same_claim b demo_claim_record)
   \<or> next_claim_generation demo_queued < cl_generation demo_claim_record"
proof (rule claim_generations_are_fresh [OF test_env_mono demo_config_ok demo_reachable(3)])
  show "dget (claims (perform test_env demo_config (VFloat 3) demo_claim demo_queued)) demo_identity =
      Some demo_claim_record"
    by (simp add: demo_step_claim demo_claimed_def)
qed

section \<open>Claims and responses\<close>

text \<open>C4 (functional). A claim takes the oldest claimable request of the node: unexpired
  and without an active claim; no claimable request of the node has a smaller sequence
  number. It gets the next generation and a lease that ends by the deadline, and only the
  claim table and the generation counter change.\<close>

theorem claim_takes_oldest:
  assumes "lifecycle_inv s" and "claim_locked E cfg n digest consumer now s = (Inr r, t)"
    and "clm_generation r = Some g"
  shows "\<exists>q c. dget (queued s) (qd_identity q) = Some q \<and> qd_selected_node_id q = n \<and> claimable now s q
     \<and> (\<forall>q' \<in> set (dvals (queued s)). qd_selected_node_id q' = n \<longrightarrow> claimable now s q' \<longrightarrow>
           qd_sequence q \<le> qd_sequence q')
     \<and> g = next_claim_generation s + 1 \<and> cl_generation c = g
     \<and> cl_lease_expires_at_epoch c \<le> qd_request_deadline_epoch q
     \<and> clm_envelope r = Some (qd_envelope q)
     \<and> t = s\<lparr>claims := dset (qd_identity q) c (claims s), next_claim_generation := g\<rparr>"
proof -
  from assms(2,3) obtain q owner where q: "find (claimable now s) (node_queue s n) = Some q"
      and r: "r = claim_answer E cfg now s q"
      and t: "t = s\<lparr>claims := dset (qd_identity q)
        (granted_claim E cfg n owner consumer now s q) (claims s),
        next_claim_generation := next_claim_generation s + 1\<rparr>"
    by (fastforce simp: claim_locked_def Let_def claim_first_find split: option.splits sum.splits if_splits)
  from find_mem [OF q] have m: "q \<in> set (node_queue s n)" "claimable now s q" by blast+
  have queue: "node_queue s n = filter (\<lambda>q. qd_selected_node_id q = n) (dvals (queued s))"
    using assms(1) by (simp add: lifecycle_inv_def inv_queue_def)
  have "sorted (map qd_sequence (dvals (queued s)))"
    using assms(1) by (auto simp: lifecycle_inv_def inv_sequence_def intro: strict_sorted_imp_sorted)
  then have "sorted (map qd_sequence (node_queue s n))"
    unfolding queue by (rule sorted_filter)
  from find_least [OF this q] have "\<forall>q' \<in> set (dvals (queued s)). qd_selected_node_id q' = n \<longrightarrow>
      claimable now s q' \<longrightarrow> qd_sequence q \<le> qd_sequence q'"
    unfolding queue by simp
  moreover have "g = next_claim_generation s + 1" "clm_envelope r = Some (qd_envelope q)"
    using assms(3) by (simp_all add: r claim_answer_def)
  moreover have "cl_lease_expires_at_epoch
      (granted_claim E cfg n owner consumer now s q) \<le> qd_request_deadline_epoch q"
    by (simp add: granted_claim_def claim_lease_def)
  ultimately show ?thesis
    using queued_of_queue [OF assms(1) m(1)] m(2) t
    by (intro exI [of _ q] exI [of _ "granted_claim E cfg n owner consumer now s q"])
      (simp add: granted_claim_def)
qed

theorem claim_takes_oldest_witness:
  "\<exists>q c. dget (queued demo_queued) (qd_identity q) = Some q \<and> qd_selected_node_id q = ''n'' \<and> claimable 3 demo_queued q
     \<and> (\<forall>q' \<in> set (dvals (queued demo_queued)). qd_selected_node_id q' = ''n'' \<longrightarrow> claimable 3 demo_queued q' \<longrightarrow>
           qd_sequence q \<le> qd_sequence q')
     \<and> 1 = next_claim_generation demo_queued + 1 \<and> cl_generation c = 1
     \<and> cl_lease_expires_at_epoch c \<le> qd_request_deadline_epoch q
     \<and> Some demo_envelope = Some (qd_envelope q)
     \<and> demo_claimed = demo_queued\<lparr>claims := dset (qd_identity q) c (claims demo_queued), next_claim_generation := 1\<rparr>"
proof -
  let ?r = "ClaimResult ''claimed'' (Some 1) (Some (Fin 10)) (Some (Fin 10)) (Some ''c'') (Some ''r'') (Some demo_envelope)"
  have "lifecycle_inv demo_queued" using demo_reachable(3) demo_env_ok by (rule reachable_lifecycle)
  moreover have "claim_locked test_env demo_config ''n'' demo_digest demo_consumer 3 demo_queued = (Inr ?r, demo_claimed)"
    by code_simp
  ultimately show ?thesis using claim_takes_oldest [of demo_queued test_env demo_config _ _ _ 3 ?r demo_claimed 1] by simp
qed


lemma demo_accept:
  "accept_locked test_env demo_config ''n'' demo_digest demo_consumer (''c'', ''r'') demo_identity 1 demo_envelope
     demo_response_digest 4 demo_claimed
   = (Inr (ResponseAcceptanceResult ''response_ready'' 1 (Fin 4) (Fin 304) True), demo_answered)"
  by code_simp


lemma accept_new:
  assumes "accept_locked E cfg n digest consumer raw i g e rd now s = (Inr r, t)" and "rar_new_outcome r"
  obtains reg q td cd token rp u where "response_check n digest consumer raw i g now s = Inr (reg, q)"
    "dget (queued_token_digests s) i = Some td"
    "derive_acknowledgement_token E (acknowledgement_key s) i (Fin now) rd = Inr token"
    "t = remove_queued_identity i q
        (s\<lparr>responses := dset i rp (responses s), terminals := dset i u (terminals s)\<rparr>)"
    "rs_envelope rp = e" "rs_replay_expires_at_epoch rp = fl_add E now (response_replay_ttl_seconds cfg)"
    "tm_selected_node_id u = n" "tm_generation u = g"
    "tm_control_credential_digest u = reg_control_credential_digest reg"
    "tm_consumer_identity_digest u = consumer" "tm_response_digest u = rd" "tm_accepted_at_epoch u = Fin now"
    "tm_replay_expires_at_epoch u = fl_add E now (response_replay_ttl_seconds cfg)"
    "tm_retrieval_state u = ''response_ready''" "tm_retrieval_credential_digest u = td"
    "tm_acknowledgement_digest u = acknowledgement_digest E token"
    "r = ResponseAcceptanceResult ''response_ready'' g (Fin now) (fl_add E now (response_replay_ttl_seconds cfg)) True"
proof -
  from assms obtain reg q where chk: "response_check n digest consumer raw i g now s = Inr (reg, q)"
      and com: "commit_response E cfg n consumer i g e rd now reg q s = (Inr r, t)"
    by (auto simp: accept_locked_def terminal_response_result_def split: option.splits sum.splits if_splits)
  from com show thesis
    unfolding commit_response_def Let_def response_result_def
    by (auto split: option.splits sum.splits if_splits intro!: that [OF chk])
qed

text \<open>Accepting a response is idempotent: repeating the accepted call, at any
  later time the record is kept, changes nothing and reports the first acceptance; a call
  with another response for the same lifecycle changes nothing and is refused as a
  conflict.\<close>

theorem response_retry_is_stable:
  assumes "accept_locked E cfg n digest consumer raw i g e rd now s = (Inr r, t)" and "rar_new_outcome r"
  shows "accept_locked E cfg n digest consumer raw i g e rd later t =
       (Inr (ResponseAcceptanceResult ''response_ready'' g (rar_accepted_at r) (rar_replay_expires r) False), t)
     \<and> (rd' \<noteq> rd \<longrightarrow> accept_locked E cfg n digest consumer raw i g e' rd' later t =
       (Inl (RelayStateConflict ''response lifecycle conflict''), t))"
proof -
  from assms obtain reg q td cd token rp u where
      chk: "response_check n digest consumer raw i g now s = Inr (reg, q)"
    and t: "t = remove_queued_identity i q
        (s\<lparr>responses := dset i rp (responses s), terminals := dset i u (terminals s)\<rparr>)"
    and u: "tm_selected_node_id u = n" "tm_generation u = g"
    "tm_control_credential_digest u = reg_control_credential_digest reg"
    "tm_consumer_identity_digest u = consumer" "tm_response_digest u = rd" "tm_accepted_at_epoch u = Fin now"
    "tm_replay_expires_at_epoch u = fl_add E now (response_replay_ttl_seconds cfg)"
    and r: "r = ResponseAcceptanceResult ''response_ready'' g (Fin now)
      (fl_add E now (response_replay_ttl_seconds cfg)) True"
    by (rule accept_new)
  from chk have "reg_control_credential_digest reg = digest"
    by (auto simp: response_check_def split: option.splits if_splits)
  moreover have "dget (terminals t) i = Some u" by (simp add: t frame_simps dget_dset)
  ultimately show ?thesis using u r by (simp add: accept_locked_def terminal_response_result_def)
qed

theorem response_retry_is_stable_witness:
  "accept_locked test_env demo_config ''n'' demo_digest demo_consumer (''c'', ''r'') demo_identity 1 demo_envelope
     demo_response_digest 6 demo_answered
   = (Inr (ResponseAcceptanceResult ''response_ready'' 1 (Fin 4) (Fin 304) False), demo_answered)
   \<and> ''x'' \<noteq> demo_response_digest
   \<and> accept_locked test_env demo_config ''n'' demo_digest demo_consumer (''c'', ''r'') demo_identity 1 demo_envelope
        ''x'' 6 demo_answered = (Inl (RelayStateConflict ''response lifecycle conflict''), demo_answered)"
proof -
  have "''x'' \<noteq> demo_response_digest" by code_simp
  with response_retry_is_stable [OF demo_accept, of 6 "''x''" demo_envelope] show ?thesis by simp
qed

text \<open>C6 (roundtrip). The accepted envelope is what retrieval returns, to the holder of the
  reservation token: retrieval returns the same envelope and acknowledgement token every
  time and changes nothing; giving that token back acknowledges, removes the stored
  response, and every later retrieval reports the acknowledgement. The digests of the
  library have their documented length of 32 bytes.\<close>

theorem accepted_response_is_retrieved:
  assumes "accept_locked E cfg n digest consumer raw i g e rd now s = (Inr r, t)" and "rar_new_outcome r"
    and "dget (queued_token_digests s) i = Some (safe_retrieval_credential_digest E credential)"
    and "\<forall>k m. length (hmac_sha256 E k m) = 32"
  shows "\<exists>token u. retrieve_locked E i credential VNone t =
       (Inr (ResponseRetrievalResult ''response_ready'' (Some e) (Some token) (Some (rar_replay_expires r))), t)
     \<and> retrieve_locked E i credential (VStr token) t = (Inr (retrieval_state ''acknowledged''), u)
     \<and> dget (responses u) i = None
     \<and> retrieve_locked E i credential VNone u = (Inr (retrieval_state ''acknowledged''), u)"
proof -
  from assms(1,2) obtain reg q td cd token rp v where
      td: "dget (queued_token_digests s) i = Some td"
    and tok: "derive_acknowledgement_token E (acknowledgement_key s) i (Fin now) rd = Inr token"
    and t: "t = remove_queued_identity i q
        (s\<lparr>responses := dset i rp (responses s), terminals := dset i v (terminals s)\<rparr>)"
    and rp: "rs_envelope rp = e" "rs_replay_expires_at_epoch rp = fl_add E now (response_replay_ttl_seconds cfg)"
    and v: "tm_response_digest v = rd" "tm_accepted_at_epoch v = Fin now"
      "tm_retrieval_state v = ''response_ready''" "tm_retrieval_credential_digest v = td"
      "tm_acknowledgement_digest v = acknowledgement_digest E token"
    and r: "r = ResponseAcceptanceResult ''response_ready'' g (Fin now)
      (fl_add E now (response_replay_ttl_seconds cfg)) True"
    by (rule accept_new)
  let ?u = "settle i v ''acknowledged'' t"
  have get: "dget (terminals t) i = Some v" "dget (responses t) i = Some rp"
      "acknowledgement_key t = acknowledgement_key s"
    by (simp_all add: t frame_simps dget_dset)
  have cr: "safe_retrieval_credential_digest E credential = td" using td assms(3) by simp
  have "is_sha256_hex token"
    using tok assms(4) hexdigest_is_hex
    by (auto simp: derive_acknowledgement_token_def is_sha256_hex_def split: option.splits)
  then have "retrieve_locked E i credential (VStr token) t = (Inr (retrieval_state ''acknowledged''), ?u)"
    using get v cr tok by (simp add: retrieve_locked_def safe_acknowledgement_digest_def settle_def)
  moreover have "retrieve_locked E i credential VNone t =
      (Inr (ResponseRetrievalResult ''response_ready'' (Some e) (Some token) (Some (rar_replay_expires r))), t)"
    using get v cr tok rp r by (simp add: retrieve_locked_def)
  moreover have "dget (responses ?u) i = None"
      "retrieve_locked E i credential VNone ?u = (Inr (retrieval_state ''acknowledged''), ?u)"
    using v cr by (simp_all add: settle_def dget_ddel retrieve_locked_def dget_dset)
  ultimately show ?thesis by blast
qed

theorem accepted_response_is_retrieved_witness:
  "\<exists>token u. retrieve_locked test_env demo_identity (VStr demo_token) VNone demo_answered =
       (Inr (ResponseRetrievalResult ''response_ready'' (Some demo_envelope) (Some token) (Some (Fin 304))), demo_answered)
     \<and> retrieve_locked test_env demo_identity (VStr demo_token) (VStr token) demo_answered
         = (Inr (retrieval_state ''acknowledged''), u)
     \<and> dget (responses u) demo_identity = None
     \<and> retrieve_locked test_env demo_identity (VStr demo_token) VNone u = (Inr (retrieval_state ''acknowledged''), u)"
proof -
  have "dget (queued_token_digests demo_claimed) demo_identity =
      Some (safe_retrieval_credential_digest test_env (VStr demo_token))" by code_simp
  moreover have "\<forall>k m. length (hmac_sha256 test_env k m) = 32" by (simp add: test_env_lengths)
  ultimately show ?thesis using accepted_response_is_retrieved [OF demo_accept] by simp
qed

section \<open>Scheduling\<close>

text \<open>Every eligible node with its rank, as the specification sees them.\<close>

definition candidates :: "config \<Rightarrow> store \<Rightarrow> string \<Rightarrow> nat \<Rightarrow> candidate set" where
  "candidates cfg s m tokens =
     {(tier, node_load s n st, order, n) |n r st tier order.
        dget (records s) n = Some r \<and> eligible_node cfg s m tokens n r st tier
        \<and> dget (registration_order s) n = Some order}"

text \<open>C7 (functional). A fresh reservation goes to a registered node that supports the
  model, whose tier and context cover the request, that is healthy, not draining and has
  room; among all such nodes none has a smaller tier, none of the same tier a smaller
  load; and among the nodes tied in tier and load the choice is round-robin by
  registration order after the cursor of the request class.\<close>

theorem selection_is_best:
  assumes "registry_inv E s" and "fresh_reservation E cfg a cancel raw now s = (Inr x, t)"
  shows "\<exists>tokens c. dget CONTEXT_TIER_TOKEN_BOUNDS (ra_tier a) = Some tokens
     \<and> c \<in> candidates cfg s (ra_model a) tokens
     \<and> (\<forall>d \<in> candidates cfg s (ra_model a) tokens. rank c \<le> rank d) \<and> sel_node x = snd (snd (snd c))
     \<and> round_robin (cursor_order s (scheduler_fingerprint E (ra_model a) (ra_tier a)))
         (order_of ` {d \<in> candidates cfg s (ra_model a) tokens. rank d = rank c}) (order_of c)"
  using assms(2)
proof (rule fresh_reservation_Inr)
  fix tokens cs c ev r
  let ?fp = "scheduler_fingerprint E (ra_model a) (ra_tier a)"
  assume tok: "dget CONTEXT_TIER_TOKEN_BOUNDS (ra_tier a) = Some tokens"
    and cs: "eligible_nodes cfg s (ra_model a) tokens (records s) = Inr cs" "cs \<noteq> []"
    and c: "c = pick_candidate s ?fp (tied_candidates cs)"
    and r: "r = \<lparr>res_client_identity_digest = id_client (ra_identity a),
          res_request_identity_digest = id_request (ra_identity a),
          res_scheduler_fingerprint = ?fp,
          res_selected_node_id = snd (snd (snd c)), res_requested_model_id = ra_model a,
          res_requested_context_tier = ra_tier a, res_request_deadline_epoch = ra_deadline a,
          res_reservation_expires_at_epoch = min (fl_add E now (reservation_ttl_seconds cfg)) (ra_deadline a),
          res_token_digest = hexdigest (sha256 E raw)\<rparr>"
    and x: "x = selection_result_of r (Some raw) True"
  have wf: "wf_dict (records s)" using assms(1) by (simp add: registry_inv_def)
  have bex: "(\<exists>(n, r) \<in> set (records s). P n r) \<longleftrightarrow> (\<exists>n r. dget (records s) n = Some r \<and> P n r)" for P
    using dget_mem [OF wf] by fastforce
  have set: "set cs = candidates cfg s (ra_model a) tokens"
    unfolding eligible_nodes_set [OF cs(1)] candidate_of_Some bex candidates_def by blast
  note tied = tied_candidates_set [OF cs(2)]
  have mem: "c \<in> set (tied_candidates cs)" unfolding c using tied(2) by (rule pick_candidate_mem)
  then have best: "c \<in> set cs" "\<forall>d \<in> set cs. rank c \<le> rank d" using tied(1) by auto
  then have "set (tied_candidates cs) = {d \<in> set cs. rank d = rank c}"
    unfolding tied(1) by (auto intro: order_antisym)
  with pick_candidate_round_robin [OF tied(2,3), of s ?fp]
  have "round_robin (cursor_order s ?fp) (order_of ` {d \<in> set cs. rank d = rank c}) (order_of c)"
    by (simp add: c)
  with tok best have "dget CONTEXT_TIER_TOKEN_BOUNDS (ra_tier a) = Some tokens
     \<and> c \<in> candidates cfg s (ra_model a) tokens
     \<and> (\<forall>d \<in> candidates cfg s (ra_model a) tokens. rank c \<le> rank d) \<and> sel_node x = snd (snd (snd c))
     \<and> round_robin (cursor_order s ?fp)
         (order_of ` {d \<in> candidates cfg s (ra_model a) tokens. rank d = rank c}) (order_of c)"
    unfolding set by (simp add: x r selection_result_of_def)
  then show ?thesis by blast
qed

definition demo_args :: request_args where
  "demo_args = \<lparr>ra_identity = demo_identity, ra_model = ''m'', ra_tier = ''8k-fast'', ra_deadline = Fin 10\<rparr>"

lemma demo_fresh:
  "fresh_reservation test_env demo_config demo_args None demo_token 1 demo_registered =
     (Inr (selection_result_of demo_reservation (Some demo_token) True), demo_reserved)"
  by code_simp

theorem selection_is_best_witness:
  "\<exists>tokens c. dget CONTEXT_TIER_TOKEN_BOUNDS (ra_tier demo_args) = Some tokens
     \<and> c \<in> candidates demo_config demo_registered (ra_model demo_args) tokens
     \<and> (\<forall>d \<in> candidates demo_config demo_registered (ra_model demo_args) tokens. rank c \<le> rank d)
     \<and> sel_node (selection_result_of demo_reservation (Some demo_token) True) = snd (snd (snd c))
     \<and> round_robin (cursor_order demo_registered
           (scheduler_fingerprint test_env (ra_model demo_args) (ra_tier demo_args)))
         (order_of ` {d \<in> candidates demo_config demo_registered (ra_model demo_args) tokens. rank d = rank c})
         (order_of c)"
proof (rule selection_is_best [OF _ demo_fresh])
  show "registry_inv test_env demo_registered"
    using reachable_registry [OF demo_reachable(1) demo_env_ok] by (simp add: registry_ok_def)
qed

section \<open>Retries\<close>

text \<open>Reserving is idempotent: after a reservation is made, the same request
  (same parameters and cancellation proof), while its deadline is ahead and within the
  bound, finds the same node, creates nothing, changes nothing and never shows the
  reservation token again.\<close>

theorem reservation_retry_is_stable:
  assumes "select_locked E cfg a cancel raw now s = (Inr x, t)" and "sel_created x"
    and "Fin later < ra_deadline a" and "ra_deadline a \<le> fl_add E later (max_request_ttl_seconds cfg)"
    and "dget (cancellation_token_digests s) (ra_identity a) = None"
  shows "\<exists>y. select_locked E cfg a cancel raw' later t = (Inr y, t) \<and> sel_node y = sel_node x
     \<and> \<not> sel_created y \<and> sel_token y = None \<and> sel_expires y = sel_expires x"
proof -
  from assms(1,2) have free: "dget (terminals s) (ra_identity a) = None"
      "dget (queued s) (ra_identity a) = None"
      and "fresh_reservation E cfg a cancel raw now s = (Inr x, t)"
    by (auto simp: select_locked_def Let_def dmem_def selection_result_of_def
        split: option.splits sum.splits if_splits)
  from this(3) obtain r ev where t: "t = reserve_on E (ra_identity a) r ev cancel s"
      and x: "x = selection_result_of r (Some raw) True"
      and r: "res_parameters r = (ra_model a, ra_tier a, ra_deadline a)"
    by (rule fresh_reservation_Inr) (auto simp: res_parameters_def)
  have f: "terminals t = terminals s" "queued t = queued s"
      "reservations t = dset (ra_identity a) r (reservations s)"
      "cancellation_token_digests t = (case cancel of Some d \<Rightarrow>
         dset (ra_identity a) d (cancellation_token_digests s) | None \<Rightarrow> cancellation_token_digests s)"
    by (simp_all add: t reserve_on_def Let_def)
  have "select_locked E cfg a cancel raw' later t = (Inr (selection_result_of r None False), t)"
    using free assms(3-5)
    by (cases cancel) (simp_all add: select_locked_def Let_def f dget_dset dmem_def r require_same_parameters_def
        echeck_def not_le not_less)
  then show ?thesis by (simp add: x selection_result_of_def)
qed

theorem reservation_retry_is_stable_witness:
  "\<exists>y. select_locked test_env demo_config demo_args None demo_token 2 demo_reserved = (Inr y, demo_reserved)
     \<and> sel_node y = ''n'' \<and> \<not> sel_created y \<and> sel_token y = None \<and> sel_expires y = Some (Fin 10)"
proof -
  have "select_locked test_env demo_config demo_args None demo_token 1 demo_registered =
      (Inr (selection_result_of demo_reservation (Some demo_token) True), demo_reserved)"
    by code_simp
  moreover have "ra_deadline demo_args \<le> fl_add test_env 2 (max_request_ttl_seconds demo_config)" by code_simp
  ultimately show ?thesis
    using reservation_retry_is_stable [of test_env demo_config demo_args None demo_token 1 demo_registered _
        demo_reserved 2 demo_token]
    by (simp add: selection_result_of_def demo_reservation_def demo_args_def demo_registered_def demo_start_def)
qed

end
