(* ===== verification/Store_Outcomes.thy ===== *)
theory Store_Outcomes
  imports Store_Demo
begin

text \<open>
  Properties of single operations: retries of an enqueue, cancellation and the stop
  instruction it leaves for the worker, removal of a node with its work, and the fence
  against a removed owner.
\<close>

section \<open>Enqueue\<close>

lemma enqueue_new:
  assumes "enqueue_locked E cfg a raw node e token cancel now s = (Inr x, t)" and "enq_created x"
  obtains r q where "dget (terminals s) (ra_identity a) = None" "dget (queued s) (ra_identity a) = None"
    "dget (reservations s) (ra_identity a) = Some r"
    "reservation_check cfg a node token cancel now s r = Inr ()"
    "t = enqueue_on (ra_identity a) q token cancel s" "x = enqueue_result_of q True ''queued''"
    "qd_parameters q = (ra_model a, ra_tier a, ra_deadline a)" "qd_selected_node_id q = node"
    "qd_envelope q = e" "qd_sequence q = next_queue_sequence s + 1" "qd_identity q = ra_identity a"
  using assms
  by (auto simp: enqueue_locked_def enqueue_retry_def Let_def dmem_def ebind_Inr enqueue_result_of_def
      qd_parameters_def qd_identity_def split: option.splits sum.splits if_splits)

text \<open>Enqueueing needs the reservation and its token, consumes it, and is
  idempotent: the reservation named the node, its token digest is the one given, and it is
  gone afterwards; repeating the call with the same envelope changes nothing and returns
  the same node and sequence number, and another envelope is refused as a conflict.\<close>

theorem enqueue_consumes_reservation_once:
  assumes "enqueue_locked E cfg a raw node e token cancel now s = (Inr x, t)" and "enq_created x"
    and "Fin later < ra_deadline a"
  shows "(\<exists>r. dget (reservations s) (ra_identity a) = Some r \<and> res_selected_node_id r = node
            \<and> res_token_digest r = token)
     \<and> dget (reservations t) (ra_identity a) = None
     \<and> (\<exists>y. enqueue_locked E cfg a raw node e token cancel later t = (Inr y, t) \<and> \<not> enq_created y
            \<and> enq_node y = enq_node x \<and> enq_sequence y = enq_sequence x)
     \<and> (\<not> envelope_eq e e' \<longrightarrow> enqueue_locked E cfg a raw node e' token cancel later t =
          (Inl (RelayStateConflict ''request identity conflict''), t))"
proof -
  from assms(1,2) obtain r q where free: "dget (terminals s) (ra_identity a) = None"
      and r: "dget (reservations s) (ra_identity a) = Some r"
        "reservation_check cfg a node token cancel now s r = Inr ()"
      and t: "t = enqueue_on (ra_identity a) q token cancel s" and x: "x = enqueue_result_of q True ''queued''"
      and q: "qd_parameters q = (ra_model a, ra_tier a, ra_deadline a)" "qd_selected_node_id q = node"
        "qd_envelope q = e"
    by (rule enqueue_new)
  have f: "terminals t = terminals s" "dget (queued t) (ra_identity a) = Some q"
      "dget (queued_token_digests t) (ra_identity a) = Some token"
      "dget (cancellation_token_digests t) (ra_identity a) = Some cancel"
      "dget (reservations t) (ra_identity a) = None"
    by (simp_all add: t enqueue_on_def Let_def dget_dset dget_ddel)
  have late: "\<not> ra_deadline a \<le> Fin later" using assms(3) by simp
  have "res_selected_node_id r = node" "res_token_digest r = token"
    using r(2) by (auto simp: reservation_check_def Let_def ebind_Inr)
  moreover have "enqueue_locked E cfg a raw node e token cancel later t =
      (Inr (enqueue_result_of q False (lifecycle_state t (ra_identity a) later)), t)"
    using f free q late
    by (simp add: enqueue_locked_def enqueue_retry_def Let_def dmem_def require_same_parameters_def echeck_def)
  moreover have "\<not> envelope_eq e e' \<longrightarrow> enqueue_locked E cfg a raw node e' token cancel later t =
      (Inl (RelayStateConflict ''request identity conflict''), t)"
    using f free q late
    by (simp add: enqueue_locked_def enqueue_retry_def Let_def dmem_def require_same_parameters_def echeck_def)
  ultimately show ?thesis using r(1) f(5) x by (auto simp: enqueue_result_of_def)
qed

definition demo_enqueue_args :: request_args where
  "demo_enqueue_args =
     \<lparr>ra_identity = demo_identity, ra_model = ''m'', ra_tier = ''8k-fast'', ra_deadline = Fin 10\<rparr>"

theorem enqueue_consumes_reservation_once_witness:
  "(\<exists>r. dget (reservations demo_reserved) (ra_identity demo_enqueue_args) = Some r \<and> res_selected_node_id r = ''n''
            \<and> res_token_digest r = demo_token_digest)
     \<and> dget (reservations demo_queued) (ra_identity demo_enqueue_args) = None
     \<and> (\<exists>y. enqueue_locked test_env demo_config demo_enqueue_args (''c'', ''r'') ''n'' demo_envelope demo_token_digest
              demo_cancel 3 demo_queued = (Inr y, demo_queued) \<and> \<not> enq_created y
            \<and> enq_node y = ''n'' \<and> enq_sequence y = 1)
     \<and> \<not> envelope_eq demo_envelope (demo_envelope\<lparr>iv := ''j''\<rparr>)
     \<and> enqueue_locked test_env demo_config demo_enqueue_args (''c'', ''r'') ''n'' (demo_envelope\<lparr>iv := ''j''\<rparr>)
            demo_token_digest demo_cancel 3 demo_queued =
          (Inl (RelayStateConflict ''request identity conflict''), demo_queued)"
proof -
  have "enqueue_locked test_env demo_config demo_enqueue_args (''c'', ''r'') ''n'' demo_envelope demo_token_digest
      demo_cancel 2 demo_reserved = (Inr (EnqueueResult ''queued'' ''n'' (Fin 10) 1 True), demo_queued)"
    by code_simp
  moreover have "\<not> envelope_eq demo_envelope (demo_envelope\<lparr>iv := ''j''\<rparr>)" by code_simp
  ultimately show ?thesis
    using enqueue_consumes_reservation_once [of test_env demo_config demo_enqueue_args "(''c'', ''r'')" "''n''"
        demo_envelope demo_token_digest demo_cancel 2 demo_reserved _ demo_queued 3 "demo_envelope\<lparr>iv := ''j''\<rparr>"]
    by (simp add: demo_enqueue_args_def)
qed

section \<open>Cancellation\<close>

text \<open>Cancelling takes the proof the requester enqueued with: a cancellation
  with another digest leaves the state as it is and answers that the proof is invalid,
  whether the lifecycle is live, terminal or unknown.\<close>

theorem cancellation_needs_proof:
  assumes "dget (cancellation_token_digests s) i \<noteq> Some supplied"
    and "\<forall>t. dget (terminals s) i = Some t \<longrightarrow> tm_cancellation_token_digest t \<noteq> supplied"
  shows "cancel_locked E cfg i supplied ''cancelled'' reason now s = (Inr invalid_proof, s)"
  using assms by (auto simp: cancel_locked_def split: option.split)

theorem cancellation_needs_proof_witness:
  "cancel_locked test_env demo_config demo_identity zero_digest ''cancelled'' ''requester_cancelled'' 4 demo_claimed
   = (Inr invalid_proof, demo_claimed)"
proof (rule cancellation_needs_proof)
  show "dget (cancellation_token_digests demo_claimed) demo_identity \<noteq> Some zero_digest" by code_simp
  show "\<forall>t. dget (terminals demo_claimed) demo_identity = Some t \<longrightarrow> tm_cancellation_token_digest t \<noteq> zero_digest"
    by (simp add: demo_claimed_def demo_queued_def demo_reserved_def demo_registered_def demo_start_def)
qed

text \<open>Cancelling a request that a worker holds an active claim on, with the
  proof and with room for the outcome, closes the lifecycle as cancelled, removes its
  claim, and leaves a stop instruction: the worker's next renewal with the claim's
  generation is answered with the cancellation, an acknowledgement is recorded, and no
  renewal by another owner or generation sees it.\<close>

theorem cancellation_stops_worker:
  assumes "lifecycle_inv s" and "dget (claims s) i = Some c" and "Fin now < cl_lease_expires_at_epoch c"
    and "dget (cancellation_token_digests s) i = Some supplied"
    and "cancel_locked E cfg i supplied ''cancelled'' reason now s = (Inr r, t)"
  shows "r = TerminalTransitionResult ''cancelled'' reason True
     \<and> dget (claims t) i = None \<and> work_of t i = None
     \<and> (\<exists>u. dget (terminals t) i = Some u \<and> tm_outcome u = ''cancelled'' \<and> tm_reason u = reason)
     \<and> fst (renew_claim_locked E cfg (cl_selected_node_id c) (cl_control_credential_digest c)
          (cl_consumer_identity_digest c) i (cl_generation c) False later t)
       = Inr (ClaimRenewalResult ''cancelled'' (Some (cl_generation c)) None (Some reason) False)
     \<and> fst (renew_claim_locked E cfg (cl_selected_node_id c) (cl_control_credential_digest c)
          (cl_consumer_identity_digest c) i (cl_generation c) True later t)
       = Inr (ClaimRenewalResult ''acknowledged'' (Some (cl_generation c)) None (Some reason) True)
     \<and> (g \<noteq> cl_generation c \<longrightarrow> renew_claim_locked E cfg n digest consumer i g ack later t
       = (Inr (renewal_state ''owner_mismatch''), t))"
proof -
  have "inv_claims s" using assms(1) by (simp add: lifecycle_inv_def)
  from claimD [OF this assms(2)] obtain q where q: "dget (queued s) i = Some q"
    by (auto simp: claim_of_queued_def)
  have qk: "i \<in> dkeys (queued s)" using q by (rule dget_in_keys)
  then have free: "dget (terminals s) i = None" "dget (reservations s) i = None"
    using assms(1) unfolding lifecycle_inv_def inv_live_def by (auto simp: dkeys_None)
  have w: "work_of s i = Some (WQueued q)" using q free by (simp add: work_of_def)
  let ?t = "closed_store E cfg i (WQueued q) ''cancelled'' reason now False s"
  from assms(4,5) free w have r: "r = TerminalTransitionResult ''cancelled'' reason True" and t: "t = ?t"
    by (auto simp: cancel_locked_def terminalize_cases split: if_splits)
  have tc: "tombstone_claim s i (WQueued q) ''cancelled'' now False = Some c"
    using assms(2,3) by (simp add: tombstone_claim_def)
  let ?c = "closing_tombstone E cfg i c ''cancelled'' reason now"
  have ct: "dget (control_tombstones t) i = Some ?c" by (simp add: t frame_simps tc dget_dset)
  have "removed i s t" unfolding t using assms(1) w by (rule closed_store_removed)
  then have gone: "dget (claims t) i = None" "work_of t i = None"
    using work_of_removed [of i s t i] by (simp_all add: removed_def dget_ddel)
  have "\<exists>u. dget (terminals t) i = Some u \<and> tm_outcome u = ''cancelled'' \<and> tm_reason u = reason"
    by (simp add: t frame_simps dget_dset)
  with r gone ct show ?thesis by (simp add: renew_claim_locked_def closing_tombstone_def Let_def)
qed

theorem cancellation_stops_worker_witness:
  "dget (claims demo_cancelled) demo_identity = None \<and> work_of demo_cancelled demo_identity = None
     \<and> (\<exists>u. dget (terminals demo_cancelled) demo_identity = Some u \<and> tm_outcome u = ''cancelled''
          \<and> tm_reason u = ''requester_cancelled'')
     \<and> fst (renew_claim_locked test_env demo_config ''n'' demo_digest demo_consumer demo_identity 1 False 5 demo_cancelled)
       = Inr (ClaimRenewalResult ''cancelled'' (Some 1) None (Some ''requester_cancelled'') False)
     \<and> fst (renew_claim_locked test_env demo_config ''n'' demo_digest demo_consumer demo_identity 1 True 5 demo_cancelled)
       = Inr (ClaimRenewalResult ''acknowledged'' (Some 1) None (Some ''requester_cancelled'') True)
     \<and> renew_claim_locked test_env demo_config ''n'' demo_digest demo_consumer demo_identity 2 False 5
          demo_cancelled = (Inr (renewal_state ''owner_mismatch''), demo_cancelled)"
proof -
  have "lifecycle_inv demo_claimed" using demo_reachable(4) demo_env_ok by (rule reachable_lifecycle)
  moreover have "dget (claims demo_claimed) demo_identity = Some demo_claim_record"
      "dget (cancellation_token_digests demo_claimed) demo_identity = Some demo_cancel"
    by (simp_all add: demo_claimed_def demo_queued_def)
  moreover have "Fin 4 < cl_lease_expires_at_epoch demo_claim_record" by (simp add: demo_claim_record_def)
  moreover have "cancel_locked test_env demo_config demo_identity demo_cancel ''cancelled'' ''requester_cancelled'' 4
      demo_claimed = (Inr (TerminalTransitionResult ''cancelled'' ''requester_cancelled'' True), demo_cancelled)"
    by code_simp
  ultimately show ?thesis
    using cancellation_stops_worker [of demo_claimed demo_identity demo_claim_record 4 demo_cancel test_env demo_config
        "''requester_cancelled''" _ demo_cancelled 5 2 "''n''" demo_digest demo_consumer False]
    by (simp add: demo_claim_record_def)
qed

end
