(* ===== verification/Store_Removal.thy ===== *)
theory Store_Removal
  imports Store_Demo
begin

text \<open>
  Removing a node with its work: each call handles a bounded batch, the node is out of
  the registry before any work is touched, and enough calls finish the removal.
\<close>

section \<open>One batch\<close>

lemma batch_returns:
  "\<exists>b'. fst (transition_batch E cfg n p now is b s) = Inr b' \<and> bc_processed b' \<le> bc_processed b + length is"
proof (induction "is" arbitrary: b s)
  case (Cons i "is")
  show ?case
  proof (cases "dget (terminals s) i = None \<and> work_of s i \<noteq> None")
    case False
    then have "dget (terminals s) i \<noteq> None \<or> work_of s i = None" by auto
    from Cons [of "b\<lparr>bc_processed := bc_processed b + 1\<rparr>" "discard_node_work_identity n i s"]
      batch_Cons_stale [OF this] show ?thesis by auto
  next
    case True
    then obtain w where w: "dget (terminals s) i = None" "work_of s i = Some w" by blast
    show ?thesis
    proof (cases "no_room cfg i w (pt_status p) now (dmem i (claims s)) s")
      case True
      then show ?thesis by (simp add: batch_Cons_live [OF w])
    next
      case False
      with Cons [of "count_terminalized s i True b"] show ?thesis
        by (fastforce simp: batch_Cons_live [OF w] count_terminalized_def)
    qed
  qed
qed simp

lemma batch_records:
  "records (snd (transition_batch E cfg n p now is b s)) = records s"
proof (induction "is" arbitrary: b s)
  case (Cons i "is")
  show ?case
  proof (cases "dget (terminals s) i = None \<and> work_of s i \<noteq> None")
    case True
    then show ?thesis using Cons by (auto simp: batch_Cons_live frame_simps)
  next
    case False
    then have "dget (terminals s) i \<noteq> None \<or> work_of s i = None" by auto
    then show ?thesis using Cons by (simp add: batch_Cons_stale discard_node_work_identity_def)
  qed
qed simp

lemma transition_open_records:
  assumes "registry_inv E s" and "transition_open E cfg n supplied cause now s = (Inr (Inr p), t)"
  shows "dget (records t) n = None" and "dget (pending_node_transitions t) n = Some p"
proof -
  have "dget (pending_node_transitions s) n = Some p \<and> t = s
      \<or> (\<exists>r. p = new_pending E n r cause now \<and> t = retire_node E cfg n r cause now s)"
    using assms(2) by (auto simp: transition_open_def transition_absent_def Let_def split: option.splits if_splits sum.splits)
  moreover have "dget (records s) n = None" if "dget (pending_node_transitions s) n = Some p"
    using assms(1) dget_in_keys [OF that] by (auto simp: registry_inv_def dkeys_None)
  ultimately show "dget (records t) n = None" "dget (pending_node_transitions t) n = Some p"
    by (auto simp: retire_node_def Let_def dget_ddel dget_dset)
qed

lemma transition_node_cases:
  assumes "transition_node E cfg n supplied cause now s = (Inr r, t)"
    and "ntr_state r \<in> {''transitioning'', ''complete''}"
  obtains p u b v where "transition_open E cfg n supplied cause now s = (Inr (Inr p), u)"
    "transition_batch E cfg n p now (take (node_transition_batch_size cfg) (node_work u n)) no_counts u = (Inr b, v)"
    "transition_close E cfg n p now v = (Inr (ntr_continuation r), t)" "ntr_processed r = bc_processed b"
proof -
  obtain x u where o: "transition_open E cfg n supplied cause now s = (x, u)" by fastforce
  show thesis
  proof (cases "\<exists>p. x = Inr (Inr p)")
    case False
    then have "\<exists>e. x = Inl e \<or> (\<exists>y. x = Inr (Inl y))"
      by (metis sum.exhaust)
    with assms o show thesis
      by (auto simp: transition_node_def sbind_def ret_def transition_open_def transition_absent_def
          already_complete_def Let_def split: option.splits if_splits sum.splits)
  next
    case True
    then obtain p where x: "x = Inr (Inr p)" by blast
    obtain b v where b: "transition_batch E cfg n p now (take (node_transition_batch_size cfg) (node_work u n)) no_counts u
        = (Inr b, v)"
      using batch_returns [of E cfg n p now "take (node_transition_batch_size cfg) (node_work u n)" no_counts u]
      by (metis prod.collapse)
    from assms(1) have "\<exists>c. transition_close E cfg n p now v = (Inr c, t) \<and> ntr_continuation r = c
        \<and> ntr_processed r = bc_processed b"
      by (auto simp: transition_node_def sbind_def ret_def o x b split: sum.splits prod.splits)
    with that o x b show thesis by blast
  qed
qed

text \<open>A removal step on a reachable state handles at most the configured
  batch of live work, and after it the node is out of the registry; it reports more to do
  exactly when live work of the node is left, and then the removal stays pending; when it
  reports completion no reservation or queued request of the node remains.\<close>

theorem node_removal_step:
  assumes "lifecycle_ok E cfg s" and "registry_inv E s"
    and "transition_node E cfg n supplied cause now s = (Inr r, t)"
    and "ntr_state r \<in> {''transitioning'', ''complete''}"
  shows "ntr_processed r \<le> node_transition_batch_size cfg \<and> dget (records t) n = None
     \<and> (ntr_continuation r \<longleftrightarrow> (\<exists>i w. work_of t i = Some w \<and> work_node w = n))
     \<and> (ntr_continuation r \<longleftrightarrow> dget (pending_node_transitions t) n \<noteq> None)"
  using assms(3,4)
proof (rule transition_node_cases)
  fix p u b v
  assume o: "transition_open E cfg n supplied cause now s = (Inr (Inr p), u)"
    and b: "transition_batch E cfg n p now (take (node_transition_batch_size cfg) (node_work u n)) no_counts u = (Inr b, v)"
    and c: "transition_close E cfg n p now v = (Inr (ntr_continuation r), t)"
    and pr: "ntr_processed r = bc_processed b"
  note op = transition_open_records [OF assms(2) o]
  have "lifecycle_ok E cfg t"
    using advancesD [OF lifecycle.advances_transition_node assms(1), of n supplied cause now] assms(3) by simp
  then have work: "\<And>i. i \<in> set (node_work t n) \<longleftrightarrow> (\<exists>w. work_of t i = Some w \<and> work_node w = n)"
    by (simp add: lifecycle_ok_def lifecycle_inv_def inv_work_def)
  have "bc_processed b \<le> node_transition_batch_size cfg"
    using batch_returns [of E cfg n p now "take (node_transition_batch_size cfg) (node_work u n)" no_counts u] b
    by (auto simp: no_counts_def)
  moreover have "records v = records u" "pending_node_transitions v = pending_node_transitions u"
    using batch_records [of E cfg n p now _ no_counts u] pending_batch [of E cfg n p now _ no_counts u] b
    by (metis snd_conv)+
  then have "dget (records t) n = None" "dget (pending_node_transitions v) n = Some p"
    using op c by (auto simp: transition_close_def Let_def split: if_splits option.splits)
  moreover have "ntr_continuation r \<longleftrightarrow> node_work t n \<noteq> []"
      "ntr_continuation r \<longleftrightarrow> dget (pending_node_transitions t) n \<noteq> None"
    using c by (auto simp: transition_close_def Let_def node_work_def dget_dset dget_ddel
        split: if_splits option.splits)
  moreover have "node_work t n \<noteq> [] \<longleftrightarrow> (\<exists>i. i \<in> set (node_work t n))" by (cases "node_work t n") auto
  ultimately show ?thesis using work pr by auto
qed

theorem node_removal_step_witness:
  "0 \<le> node_transition_batch_size demo_config \<and> dget (records demo_departed) ''n'' = None
     \<and> (False \<longleftrightarrow> (\<exists>i w. work_of demo_departed i = Some w \<and> work_node w = ''n''))
     \<and> (False \<longleftrightarrow> dget (pending_node_transitions demo_departed) ''n'' \<noteq> None)"
proof -
  have "registry_ok test_env demo_config demo_registered"
    using reachable_registry [OF demo_reachable(1) demo_env_ok] .
  then have "lifecycle_ok test_env demo_config demo_registered" "registry_inv test_env demo_registered"
    by (simp_all add: registry_ok_def)
  moreover have "transition_node test_env demo_config ''n'' (Some demo_digest) ''explicit_unregister'' 5 demo_registered
      = (Inr (NodeTransitionResult ''complete'' ''explicit_unregister'' (Some (Fin 5)) 0 0 0 0 0 False), demo_departed)"
    by code_simp
  ultimately show ?thesis
    using node_removal_step [of test_env demo_config demo_registered "''n''" "Some demo_digest" "''explicit_unregister''" 5
        "NodeTransitionResult ''complete'' ''explicit_unregister'' (Some (Fin 5)) 0 0 0 0 0 False" demo_departed]
    by simp
qed

section \<open>Enough calls finish\<close>

text \<open>Room for a number of further outcomes, whoever the clients and workers are.\<close>

definition room :: "config \<Rightarrow> nat \<Rightarrow> store \<Rightarrow> bool" where
  "room cfg k s \<longleftrightarrow>
     length (terminals s) + k \<le> max_terminal_records cfg
     \<and> (\<forall>c. count_vals (\<lambda>t. tm_client_identity_digest t = c) (terminals s) + k \<le> max_terminal_records_per_client cfg)
     \<and> length (control_tombstones s) + k \<le> max_control_tombstones cfg
     \<and> (\<forall>m. count_vals (\<lambda>t. ct_selected_node_id t = m) (control_tombstones s) + k
              \<le> max_control_tombstones_per_node cfg)"

lemma count_dset_le: "count_vals p (dset k v d) \<le> count_vals p d + 1"
proof (induction d)
  case (Cons x d)
  then show ?case by (cases x) (auto simp: count_vals_def)
qed (simp add: count_vals_def)

lemma room_dset: "length d + Suc k \<le> m \<Longrightarrow> length (dset i v d) + k \<le> m"
  by (simp add: length_dset split: if_splits)

lemma count_room_dset: "count_vals p d + Suc k \<le> m \<Longrightarrow> count_vals p (dset i v d) + k \<le> m"
  using count_dset_le [of p i v d] by simp

lemma room_less: "room cfg (Suc k) s \<Longrightarrow> room cfg k s"
  by (simp add: room_def Suc_le_eq less_imp_le)

lemma room_closed:
  assumes "room cfg (Suc k) s"
  shows "\<not> no_room cfg i w status now force s"
    and "room cfg k (closed_store E cfg i w status reason now force s)"
proof -
  have len: "length (terminals s) + Suc k \<le> max_terminal_records cfg"
      "length (control_tombstones s) + Suc k \<le> max_control_tombstones cfg"
    and count: "\<And>c. count_vals (\<lambda>t. tm_client_identity_digest t = c) (terminals s) + Suc k
        \<le> max_terminal_records_per_client cfg"
      "\<And>m. count_vals (\<lambda>t. ct_selected_node_id t = m) (control_tombstones s) + Suc k
        \<le> max_control_tombstones_per_node cfg"
    using assms unfolding room_def by blast+
  have "\<not> terminal_full cfg s i" using len(1) count(1) [of "id_client i"] by (simp add: terminal_full_def)
  moreover have "\<not> tombstone_full cfg s c" for c
    using len(2) count(2) [of "cl_selected_node_id c"] by (simp add: tombstone_full_def)
  ultimately show "\<not> no_room cfg i w status now force s" by (simp add: no_room_def)
  have "room cfg k (s\<lparr>terminals := dset i t (terminals s), control_tombstones := dset i c (control_tombstones s)\<rparr>)"
    "room cfg k (s\<lparr>terminals := dset i t (terminals s)\<rparr>)" for t c
    using room_dset [OF len(1)] room_dset [OF len(2)] count_room_dset [OF count(1)] count_room_dset [OF count(2)]
      room_less [OF assms] by (simp_all add: room_def)
  then show "room cfg k (closed_store E cfg i w status reason now force s)"
    by (auto simp: room_def frame_simps split: option.split)
qed

text \<open>With room a batch clears every identity it is given.\<close>

lemma batch_clears:
  assumes "lifecycle_inv s" and "env_ok E cfg" and "room cfg (length is + k) s"
  shows "node_work (snd (transition_batch E cfg n p now is b s)) n = filter (\<lambda>j. j \<notin> set is) (node_work s n)
     \<and> room cfg k (snd (transition_batch E cfg n p now is b s))
     \<and> lifecycle_inv (snd (transition_batch E cfg n p now is b s))"
  using assms(1,3)
proof (induction "is" arbitrary: b s)
  case (Cons i "is")
  have without: "filter (\<lambda>j. j \<notin> set is) (removeAll i xs) = filter (\<lambda>j. j \<notin> set (i # is)) xs" for xs
    by (auto simp: removeAll_filter_not_eq intro: filter_cong)
  have more: "room cfg (Suc (length is + k)) s" using Cons.prems(2) by simp
  show ?case
  proof (cases "dget (terminals s) i = None \<and> work_of s i \<noteq> None")
    case True
    then obtain w where w: "dget (terminals s) i = None" "work_of s i = Some w" by blast
    let ?t = "closed_store E cfg i w (pt_status p) (pt_reason p) now (dmem i (claims s)) s"
    have t: "node_work ?t n = removeAll i (node_work s n)"
      using closed_store_removed [OF Cons.prems(1) w(2)] by (simp add: removed_def)
    have inv: "lifecycle_inv ?t" using Cons.prems(1) w assms(2) by (rule closed_store_lifecycle)
    have "room cfg (length is + k) ?t" using more by (rule room_closed(2))
    from Cons.IH [OF inv this] show ?thesis
      unfolding batch_Cons_live [OF w] if_not_P [OF room_closed(1) [OF more]] t without .
  next
    case False
    then have stale: "dget (terminals s) i \<noteq> None \<or> work_of s i = None" by auto
    then have "work_of s i = None"
      using terminal_not_live [of s i] Cons.prems(1) by (auto simp: lifecycle_inv_def)
    then have t: "lifecycle_inv (discard_node_work_identity n i s)"
      by (rule discard_stale_lifecycle [OF Cons.prems(1)])
    have "node_work (discard_node_work_identity n i s) n = removeAll i (node_work s n)"
      by (subst node_work_discard_at [of _ n i s]) (simp_all add: discard_node_work_identity_def)
    moreover have "room cfg (length is + k) (discard_node_work_identity n i s)"
      using room_less [OF more] by (simp add: room_def discard_node_work_identity_def)
    ultimately show ?thesis using Cons.IH [OF t] unfolding batch_Cons_stale [OF stale] by (simp only: without)
  qed
qed simp

lemma room_mono: "room cfg k s \<Longrightarrow> j \<le> k \<Longrightarrow> room cfg j s"
proof (induction k)
  case (Suc k)
  then show ?case using room_less [OF Suc.prems(1)] by (cases "j = Suc k") auto
qed simp

text \<open>A removal that is pending for the caller, with its fence in place.\<close>

definition removal_open :: "string \<Rightarrow> string option \<Rightarrow> string \<Rightarrow> pending_transition \<Rightarrow> store \<Rightarrow> bool" where
  "removal_open n supplied cause p s \<longleftrightarrow>
     dget (pending_node_transitions s) n = Some p \<and> pt_cause p = cause
     \<and> (cause = ''explicit_unregister'' \<longrightarrow> pt_control_credential_digest p = digest_or_empty supplied)
     \<and> dget (fence_of s (pt_node_identity_digest p)) (pt_control_credential_digest p) \<noteq> None"

lemma batch_fences:
  "former_node_authorities (snd (transition_batch E cfg n p now is b s)) = former_node_authorities s"
proof (induction "is" arbitrary: b s)
  case (Cons i "is")
  show ?case
  proof (cases "dget (terminals s) i = None \<and> work_of s i \<noteq> None")
    case True
    then show ?thesis using Cons by (auto simp: batch_Cons_live frame_simps)
  next
    case False
    then have "dget (terminals s) i \<noteq> None \<or> work_of s i = None" by auto
    then show ?thesis using Cons by (simp add: batch_Cons_stale discard_node_work_identity_def)
  qed
qed simp

lemma length_filter_take:
  "length (filter (\<lambda>j. j \<notin> set (take m xs)) xs) \<le> length xs - m"
proof -
  have "filter (\<lambda>j. j \<notin> set (take m xs)) xs = filter (\<lambda>j. j \<notin> set (take m xs)) (take m xs @ drop m xs)" by simp
  also have "\<dots> = filter (\<lambda>j. j \<notin> set (take m xs)) (drop m xs)" unfolding filter_append by simp
  finally show ?thesis using length_filter_le [of "\<lambda>j. j \<notin> set (take m xs)" "drop m xs"] by simp
qed

lemma removal_call:
  assumes "removal_open n supplied cause p s" and "lifecycle_inv s" and "env_ok E cfg"
    and "room cfg (length (node_work s n)) s" and "is_finite (fl_add E now (terminal_retention_seconds cfg))"
  shows "\<exists>r t. transition_node E cfg n supplied cause now s = (Inr r, t)
    \<and> (if ntr_continuation r
       then removal_open n supplied cause p t \<and> lifecycle_inv t \<and> node_work t n \<noteq> []
         \<and> length (node_work t n) \<le> length (node_work s n) - node_transition_batch_size cfg
         \<and> room cfg (length (node_work t n)) t
       else ntr_state r = ''complete'' \<and> node_work t n = [] \<and> dget (pending_node_transitions t) n = None)"
proof -
  define m where "m = node_transition_batch_size cfg"
  define xs where "xs = take m (node_work s n)"
  have opened: "transition_open E cfg n supplied cause now s = (Inr (Inr p), s)"
    using assms(1) by (auto simp: removal_open_def transition_open_def)
  obtain b v where b: "transition_batch E cfg n p now xs no_counts s = (Inr b, v)"
    using batch_returns [of E cfg n p now xs no_counts s] by (metis prod.collapse)
  have "length xs + (length (node_work s n) - length xs) = length (node_work s n)" by (simp add: xs_def)
  then have "room cfg (length xs + (length (node_work s n) - length xs)) s" using assms(4) by simp
  from batch_clears [OF assms(2,3) this, of n p now no_counts] b
  have v: "node_work v n = filter (\<lambda>j. j \<notin> set xs) (node_work s n)" "lifecycle_inv v"
      "room cfg (length (node_work s n) - length xs) v" by simp_all
  have left: "length (node_work v n) \<le> length (node_work s n) - m"
    unfolding v(1) xs_def by (rule length_filter_take)
  then have roomy: "room cfg (length (node_work v n)) v"
    by (intro room_mono [OF v(3)]) (simp add: xs_def)
  have open_v: "removal_open n supplied cause p v"
    using assms(1) batch_fences [of E cfg n p now xs no_counts s] pending_batch [of E cfg n p now xs no_counts s] b
    by (simp add: removal_open_def fence_of_def)
  show ?thesis
  proof (cases "node_work v n = []")
    case True
    obtain a where a: "dget (fence_of v (pt_node_identity_digest p)) (pt_control_credential_digest p) = Some a"
      using open_v by (auto simp: removal_open_def)
    obtain t where c: "transition_close E cfg n p now v = (Inr False, t)" "node_work t n = node_work v n"
        "pending_node_transitions t = ddel n (pending_node_transitions v)"
      using True assms(5) a by (simp add: transition_close_def Let_def node_work_def)
    have "transition_node E cfg n supplied cause now s = (Inr (NodeTransitionResult ''complete'' (pt_cause p)
        (Some (pt_transition_epoch p)) (bc_processed b) (bc_reservations b) (bc_queued b) (bc_claims b) (bc_outcomes b)
        False), t)"
      by (simp add: transition_node_def sbind_def ret_def opened m_def [symmetric] xs_def [symmetric] b c)
    then show ?thesis using c True by (simp add: dget_ddel)
  next
    case False
    define t where "t = v\<lparr>pending_node_transitions := dset n p (pending_node_transitions v)\<rparr>"
    have c: "transition_close E cfg n p now v = (Inr True, t)" using False by (simp add: transition_close_def t_def)
    have same: "node_work t n = node_work v n" "dget (pending_node_transitions t) n = Some p"
        "fence_of t = fence_of v" by (simp_all add: t_def node_work_def fence_of_def dget_dset fun_eq_iff)
    have "lifecycle_inv t"
      using transition_close_lifecycle [OF v(2), of E cfg n p now] c by simp
    moreover have "room cfg (length (node_work t n)) t" using roomy unfolding same by (simp add: room_def t_def)
    moreover have "removal_open n supplied cause p t" using open_v same by (simp add: removal_open_def)
    moreover have "transition_node E cfg n supplied cause now s = (Inr (NodeTransitionResult ''transitioning'' (pt_cause p)
        (Some (pt_transition_epoch p)) (bc_processed b) (bc_reservations b) (bc_queued b) (bc_claims b) (bc_outcomes b)
        True), t)"
      by (simp add: transition_node_def sbind_def ret_def opened m_def [symmetric] xs_def [symmetric] b c)
    ultimately show ?thesis using False left same by (simp add: m_def)
  qed
qed

text \<open>Calling again while the answer asks for it, once per clock value.\<close>

fun drive_removal ::
  "env \<Rightarrow> config \<Rightarrow> string \<Rightarrow> string option \<Rightarrow> string \<Rightarrow> rat list \<Rightarrow> store \<Rightarrow> node_transition_result option \<times> store" where
  "drive_removal E cfg n supplied cause [] s = (None, s)"
| "drive_removal E cfg n supplied cause (now # nows) s =
     (case transition_node E cfg n supplied cause now s of
        (Inl e, t) \<Rightarrow> (None, t)
      | (Inr r, t) \<Rightarrow> if ntr_continuation r then drive_removal E cfg n supplied cause nows t else (Some r, t))"

text \<open>C8 (liveness). A pending removal is finished by enough calls: with room for the outcomes
  of the node's work and a clock that does not overflow, as many calls as the work has
  batches end with a call that reports completion, and then no work of the node is left
  and nothing is pending.\<close>

theorem removal_completes:
  assumes "removal_open n supplied cause p s" and "lifecycle_inv s" and "env_ok E cfg"
    and "room cfg (length (node_work s n)) s"
    and "list_all (\<lambda>now. is_finite (fl_add E now (terminal_retention_seconds cfg))) nows"
    and "length (node_work s n) \<le> length nows * node_transition_batch_size cfg" and "nows \<noteq> []"
  shows "\<exists>r t. drive_removal E cfg n supplied cause nows s = (Some r, t) \<and> ntr_state r = ''complete''
     \<and> node_work t n = [] \<and> dget (pending_node_transitions t) n = None"
  using assms(1,2,4-)
proof (induction nows arbitrary: s)
  case (Cons now nows)
  have fin: "is_finite (fl_add E now (terminal_retention_seconds cfg))" using Cons.prems(4) by simp
  from removal_call [OF Cons.prems(1,2) assms(3) Cons.prems(3) fin] obtain r t
    where r: "transition_node E cfg n supplied cause now s = (Inr r, t)"
      and rest: "if ntr_continuation r
       then removal_open n supplied cause p t \<and> lifecycle_inv t \<and> node_work t n \<noteq> []
         \<and> length (node_work t n) \<le> length (node_work s n) - node_transition_batch_size cfg
         \<and> room cfg (length (node_work t n)) t
       else ntr_state r = ''complete'' \<and> node_work t n = [] \<and> dget (pending_node_transitions t) n = None"
    by blast
  show ?case
  proof (cases "ntr_continuation r")
    case True
    note more = rest [unfolded if_P [OF True]]
    have "length (node_work s n) - node_transition_batch_size cfg \<le> length nows * node_transition_batch_size cfg"
      using Cons.prems(5) by simp
    with more have "length (node_work t n) \<le> length nows * node_transition_batch_size cfg" by linarith
    moreover from this have "nows \<noteq> []" using more by auto
    ultimately show ?thesis using Cons.IH [of t] more Cons.prems(4) by (simp add: r True)
  next
    case False
    then show ?thesis using rest by (simp add: r)
  qed
qed simp

definition demo_leaving :: store where
  "demo_leaving = retire_node test_env demo_config ''n'' demo_registration ''explicit_unregister'' 5 demo_queued"

definition demo_removal :: pending_transition where
  "demo_removal = new_pending test_env ''n'' demo_registration ''explicit_unregister'' 5"

theorem removal_completes_witness:
  "node_work demo_leaving ''n'' \<noteq> []
   \<and> (\<exists>r t. drive_removal test_env demo_config ''n'' (Some demo_digest) ''explicit_unregister'' [6] demo_leaving = (Some r, t)
     \<and> ntr_state r = ''complete'' \<and> node_work t ''n'' = [] \<and> dget (pending_node_transitions t) ''n'' = None)"
proof (rule conjI)
  show "node_work demo_leaving ''n'' \<noteq> []" by code_simp
  have inv: "lifecycle_inv demo_leaving"
    unfolding demo_leaving_def using reachable_lifecycle [OF demo_reachable(3) demo_env_ok] by (rule retire_lifecycle)
  have "terminals demo_leaving = [] \<and> control_tombstones demo_leaving = []"
    by (simp add: demo_leaving_def retire_node_def Let_def demo_queued_def demo_reserved_def demo_registered_def demo_start_def)
  moreover have "length (node_work demo_leaving ''n'') = 1" by code_simp
  moreover have "1 \<le> max_terminal_records demo_config" by code_simp
  moreover have "1 \<le> max_terminal_records_per_client demo_config" by code_simp
  moreover have "1 \<le> max_control_tombstones demo_config" by code_simp
  moreover have "1 \<le> max_control_tombstones_per_node demo_config" by code_simp
  ultimately have room: "room demo_config (length (node_work demo_leaving ''n'')) demo_leaving"
    by (simp add: room_def count_vals_def)
  show "\<exists>r t. drive_removal test_env demo_config ''n'' (Some demo_digest) ''explicit_unregister'' [6] demo_leaving = (Some r, t)
     \<and> ntr_state r = ''complete'' \<and> node_work t ''n'' = [] \<and> dget (pending_node_transitions t) ''n'' = None"
  proof (rule removal_completes [where p = demo_removal, OF _ inv demo_env_ok room])
    show "removal_open ''n'' (Some demo_digest) ''explicit_unregister'' demo_removal demo_leaving" by code_simp
    show "list_all (\<lambda>now. is_finite (fl_add test_env now (terminal_retention_seconds demo_config))) [6]" by code_simp
    show "length (node_work demo_leaving ''n'') \<le> length [6 :: rat] * node_transition_batch_size demo_config" by code_simp
  qed simp
qed

end
