(* ===== verification/Store_Fencing.thy ===== *)
theory Store_Fencing
  imports Store_Demo
begin

text \<open>
  What a removed owner and a careless operator cannot do: register again behind a fence,
  build a store with settings out of bounds.
\<close>

section \<open>Housekeeping never registers a node\<close>

definition registrations_shrink :: "store \<Rightarrow> store \<Rightarrow> bool" where
  "registrations_shrink s t \<longleftrightarrow> dkeys (records t) \<subseteq> dkeys (records s)"

lemma shrink_same: "records t = records s \<Longrightarrow> registrations_shrink s t"
  by (simp add: registrations_shrink_def)

interpretation shrink: housekeeping "lifecycle_ok E cfg" registrations_shrink E cfg now for E cfg now
proof (unfold_locales, goal_cases)
  case (1 s)
  show ?case by (simp add: registrations_shrink_def)
next
  case (2 s t u)
  then show ?case unfolding registrations_shrink_def by blast
next
  case (3 s)
  then show ?case by (rule lifecycle.live_wf)
next
  case (4 s i)
  then show ?case by (rule lifecycle.terminal_dead)
next
  case (5 s)
  with lifecycle.reap_law [OF 5, where now = now] show ?case by (simp add: shrink_same frame_simps)
next
  case (6 s i w status force reason)
  with lifecycle.close_law [OF 6] show ?case by (simp add: shrink_same frame_simps)
next
  case (7 s i)
  with lifecycle.defer_law [OF 7] show ?case by (simp add: shrink_same)
next
  case (8 s i n)
  with lifecycle.discard_law [OF 8] show ?case by (simp add: shrink_same discard_node_work_identity_def)
next
  case (9 s n g cause)
  with lifecycle.retire_law [OF 9] show ?case
    by (auto simp: registrations_shrink_def retire_node_def Let_def dkeys_ddel)
next
  case (10 s n p)
  have "records (snd (transition_close E cfg n p now s)) = records s"
    by (auto simp: transition_close_def Let_def split: option.split)
  with lifecycle.finish_law [OF 10, where now = now] show ?case by (simp add: shrink_same)
next
  case (11 s i r)
  with lifecycle.drop_law [OF 11] show ?case
    by (simp add: shrink_same drop_reservation_def discard_node_work_identity_def)
qed

text \<open>C9 (safety). A removed owner stays out: while the fence against its credential is up, a
  registration of that node with that credential is refused and the node stays
  unregistered, whatever the call's own housekeeping does first.\<close>

theorem removed_owner_is_fenced:
  assumes "registry_ok E cfg s" and "now_of E clock = Inr now" and "dget (records s) n = None"
    and "fence_up now s (node_digest E n) digest" and "Fin now < fl_add E now (terminal_retention_seconds cfg)"
    and "validate_node_id E cfg (VStr n) = Inr n" and "validate_digest (VStr digest) = Inr digest"
  shows "\<exists>e t. register E cfg (VStr n) (ArgObj caps) (VStr digest) clock s = (Inl e, t) \<and> dget (records t) n = None"
proof (cases "lease_deadline E cfg now")
  case (Inl e)
  then show ?thesis
    using assms(2,3,6,7) by (simp add: register_def sbind_def lift_def obj_arg_def)
next
  case (Inr lease)
  define u where "u = reap_retained now s"
  obtain r v where v: "expire_locked E cfg now False u = (r, v)" by fastforce
  have life: "lifecycle_ok E cfg s" using assms(1) by (rule registry_ok_lifecycle)
  have u: "registry_ok E cfg u" "fences_kept E cfg now s u" "registrations_shrink s u"
    unfolding u_def using registry.reap_law [OF assms(1)] shrink.reap_law [OF life] by blast+
  have kept: "registry_ok E cfg v" "fences_kept E cfg now u v" "registrations_shrink u v"
    using advancesD [OF registry.advances_expire_locked u(1)]
      advancesD [OF shrink.advances_expire_locked registry_ok_lifecycle [OF u(1)]] v by (metis snd_conv)+
  have "dget (records v) n = None"
    using assms(3) u(3) kept(3) unfolding dkeys_None registrations_shrink_def by blast
  moreover have "fence_up now v (node_digest E n) digest"
    using u(2) kept(2) assms(4,5) unfolding fences_kept_def by blast
  then have "dmem digest (fence_of v (node_digest E n))" by (simp add: fence_up_def dmem_def split: option.splits)
  ultimately have "\<exists>e. register_locked E cfg n caps digest now lease v = (Inl e, v)"
    by (simp add: register_locked_def)
  then show ?thesis
    using assms(2,6,7) Inr \<open>dget (records v) n = None\<close> v
    by (cases r) (auto simp: register_def sbind_def lift_def obj_arg_def u_def)
qed

theorem removed_owner_is_fenced_witness:
  "\<exists>e t. register test_env demo_config (VStr ''n'') (ArgObj demo_caps) (VStr demo_digest) (VFloat 6) demo_departed = (Inl e, t)
     \<and> dget (records t) ''n'' = None"
proof (rule removed_owner_is_fenced)
  show "registry_ok test_env demo_config demo_departed"
    using reachable_registry [OF demo_reachable(8) demo_env_ok] .
  show "now_of test_env (VFloat 6) = Inr 6" by (rule demo_clock)
  show "dget (records demo_departed) ''n'' = None" by (simp add: demo_departed_def demo_start_def)
  show "fence_up 6 demo_departed (node_digest test_env ''n'') demo_digest" by code_simp
  show "Fin 6 < fl_add test_env 6 (terminal_retention_seconds demo_config)" by code_simp
  show "validate_node_id test_env demo_config (VStr ''n'') = Inr ''n''" by code_simp
  show "validate_digest (VStr demo_digest) = Inr demo_digest" by code_simp
qed

section \<open>Settings\<close>

text \<open>A store exists only with settings in their documented bounds: every counted
  limit is between 1 and its maximum, the lease is positive, and a terminal record is
  kept at least as long as its response and its stop instruction.\<close>

theorem accepted_settings_are_bounded:
  assumes "mk_config E kw = Inr cfg"
  shows "list_all (\<lambda>(f, name, m). 1 \<le> int_field kw f \<and> int_field kw f \<le> m) int_bounds
     \<and> 1 \<le> max_compute_nodes cfg \<and> max_compute_nodes cfg \<le> 1000000
     \<and> 1 \<le> max_node_id_bytes cfg \<and> max_node_id_bytes cfg \<le> 65536
     \<and> 1 \<le> node_transition_batch_size cfg \<and> node_transition_batch_size cfg \<le> 10000
     \<and> 0 < lease_ttl_seconds cfg
     \<and> response_replay_ttl_seconds cfg \<le> terminal_retention_seconds cfg
     \<and> control_tombstone_ttl_seconds cfg \<le> terminal_retention_seconds cfg"
proof -
  note c = mk_config_Inr [OF assms]
  note b = post_init_bounds [OF c(2)]
  have all: "list_all (\<lambda>(f, name, m). 1 \<le> int_field kw f \<and> int_field kw f \<le> m) int_bounds"
    using validate_int_bounds_member [OF b(1)] by (auto simp: list_all_iff)
  have "1 \<le> int_field kw ''node_transition_batch_size'' \<and> int_field kw ''node_transition_batch_size'' \<le> 10000"
    using validate_int_bounds_member [OF b(1), of "''node_transition_batch_size''" "''node-transition batch bound''" 10000]
    by (simp add: int_bounds_def)
  with all b(2-) show ?thesis unfolding c(1) typed_config_def by simp
qed

theorem accepted_settings_are_bounded_witness:
  "1 \<le> node_transition_batch_size demo_config \<and> node_transition_batch_size demo_config \<le> 10000
   \<and> 0 < lease_ttl_seconds demo_config"
  using accepted_settings_are_bounded [OF demo_config_ok] by blast

end
