(* ===== verification/Json.thy ===== *)
theory Json
  imports Prelude
begin

text \<open>
  JSON values as \<^verbatim>\<open>json.loads\<close> returns them, with the few built-in operations the
  request handlers apply to them: type tests, \<^verbatim>\<open>dict.get\<close>, truth, equality with a
  constant and membership in a set literal.
\<close>

section \<open>Values\<close>

text \<open>
  A number with a fraction or an exponent is a float; \<^verbatim>\<open>json.loads\<close> also reads the three
  constants \<^verbatim>\<open>Infinity\<close>, \<^verbatim>\<open>-Infinity\<close> and \<^verbatim>\<open>NaN\<close>.
\<close>

datatype json =
    JNull
  | JBool bool
  | JInt int
  | JFloat rat
  | JInf
  | JNegInf
  | JNan
  | JStr string
  | JList "json list"
  | JDict "(string \<times> json) list"

type_synonym object = "(string, json) dict"

text \<open>\<^verbatim>\<open>d.get(key)\<close>\<close>

definition jget :: "object \<Rightarrow> string \<Rightarrow> json" where
  "jget d k = (case dget d k of Some v \<Rightarrow> v | None \<Rightarrow> JNull)"

text \<open>\<^verbatim>\<open>d.get(key, default)\<close>\<close>

definition jget_default :: "object \<Rightarrow> string \<Rightarrow> json \<Rightarrow> json" where
  "jget_default d k v = (case dget d k of Some w \<Rightarrow> w | None \<Rightarrow> v)"

fun jtruthy :: "json \<Rightarrow> bool" where
  "jtruthy JNull = False"
| "jtruthy (JBool b) = b"
| "jtruthy (JInt i) = (i \<noteq> 0)"
| "jtruthy (JFloat r) = (r \<noteq> 0)"
| "jtruthy JInf = True"
| "jtruthy JNegInf = True"
| "jtruthy JNan = True"
| "jtruthy (JStr s) = (s \<noteq> [])"
| "jtruthy (JList xs) = (xs \<noteq> [])"
| "jtruthy (JDict d) = (d \<noteq> [])"

text \<open>\<^verbatim>\<open>a or b\<close>\<close>

definition jor :: "json \<Rightarrow> json \<Rightarrow> json" where
  "jor a b = (if jtruthy a then a else b)"

fun is_jstr :: "json \<Rightarrow> bool" where
  "is_jstr (JStr _) = True"
| "is_jstr _ = False"

fun is_jdict :: "json \<Rightarrow> bool" where
  "is_jdict (JDict _) = True"
| "is_jdict _ = False"

fun is_jlist :: "json \<Rightarrow> bool" where
  "is_jlist (JList _) = True"
| "is_jlist _ = False"

text \<open>\<^verbatim>\<open>isinstance(v, int)\<close>: a bool is an int; and the value as a number.\<close>

fun jint :: "json \<Rightarrow> int option" where
  "jint (JBool b) = Some (if b then 1 else 0)"
| "jint (JInt i) = Some i"
| "jint _ = None"

text \<open>The value of a finite number, for \<^verbatim>\<open>==\<close>.\<close>

fun jnum :: "json \<Rightarrow> rat option" where
  "jnum (JBool b) = Some (if b then 1 else 0)"
| "jnum (JInt i) = Some (of_int i)"
| "jnum (JFloat r) = Some r"
| "jnum _ = None"

text \<open>
  Membership in a set hashes the value first: a list or a dict raises \<^verbatim>\<open>TypeError\<close>.
\<close>

fun hashable :: "json \<Rightarrow> bool" where
  "hashable (JList _) = False"
| "hashable (JDict _) = False"
| "hashable _ = True"

lemma jget_simps [simp]: "jget [] k = JNull" "jget ((j, v) # d) k = (if j = k then v else jget d k)"
  by (simp_all add: jget_def)

lemma jget_present: "dget d k = Some v \<Longrightarrow> jget d k = v"
  by (simp add: jget_def)

lemma jget_nonnull: "jget d k = v \<Longrightarrow> v \<noteq> JNull \<Longrightarrow> dget d k = Some v"
  by (auto simp: jget_def split: option.splits)

lemma size_dget [termination_simp]:
  "dget d k = Some v \<Longrightarrow> size v < Suc (size_list (size_prod (\<lambda>_. 0) size) d)"
  by (induction d) (auto split: if_splits)

lemma is_jstr_iff: "is_jstr v \<longleftrightarrow> (\<exists>s. v = JStr s)"
  by (cases v) auto

lemma is_jdict_iff: "is_jdict v \<longleftrightarrow> (\<exists>d. v = JDict d)"
  by (cases v) auto

section \<open>Numerals in text\<close>

definition is_digit :: "char \<Rightarrow> bool" where
  "is_digit c \<longleftrightarrow> (let n = char_code c in 48 \<le> n \<and> n \<le> 57)"

definition digit_value :: "char \<Rightarrow> nat" where
  "digit_value c = char_code c - 48"

text \<open>\<^verbatim>\<open>int(s)\<close> of a text of decimal digits, and \<^verbatim>\<open>str(n)\<close> of an integer.\<close>

definition parse_nat :: "string \<Rightarrow> nat" where
  "parse_nat s = foldl (\<lambda>a c. 10 * a + digit_value c) 0 s"

definition show_int :: "int \<Rightarrow> string" where
  "show_int i = (if i < 0 then CHR ''-'' # show_nat (nat (- i)) else show_nat (nat i))"

lemma char_code_digit: "n < 10 \<Longrightarrow> char_code (char_of (48 + n)) = 48 + n"
  by (simp add: char_code_def)

lemma show_nat_digits: "list_all is_digit (show_nat n)"
proof (induction n rule: show_nat.induct)
  case (1 n)
  then show ?case
    by (cases "n < 10") (simp_all add: show_nat.simps [of n] is_digit_def char_code_digit)
qed

lemma parse_show_nat [simp]: "parse_nat (show_nat n) = n"
proof (induction n rule: show_nat.induct)
  case (1 n)
  then show ?case
    by (cases "n < 10")
      (simp_all add: show_nat.simps [of n] parse_nat_def digit_value_def char_code_digit)
qed

lemma length_show_nat: "length (show_nat n) \<le> k \<longleftrightarrow> n < 10 ^ k" if "0 < k"
  using that
proof (induction n arbitrary: k rule: show_nat.induct)
  case (1 n)
  show ?case
  proof (cases "n < 10")
    case True
    have "(10::nat) ^ 1 \<le> 10 ^ k" using 1(2) by (intro power_increasing) auto
    with True 1(2) show ?thesis by (simp add: show_nat.simps [of n])
  next
    case False
    obtain j where k: "k = Suc j" using 1(2) by (cases k) auto
    show ?thesis
    proof (cases j)
      case 0
      have "length (show_nat (n div 10)) > 0" by (simp add: show_nat.simps [of "n div 10"])
      with False k 0 show ?thesis by (simp add: show_nat.simps [of n])
    next
      case (Suc _)
      with 1(1) [of j] False have "length (show_nat (n div 10)) \<le> j \<longleftrightarrow> n div 10 < 10 ^ j" by simp
      also have "\<dots> \<longleftrightarrow> n < 10 ^ k" by (simp add: k div_less_iff_less_mult mult.commute)
      finally show ?thesis using False k by (simp add: show_nat.simps [of n])
    qed
  qed
qed

end
