(* ===== verification/Relay_Settings.thy ===== *)
theory Relay_Settings
  imports Json
begin

text \<open>
  The settings the relay (\<^verbatim>\<open>src/relay.py\<close>) reads from the process environment: parsing of
  integers and floats, fallbacks and clamps.
\<close>

section \<open>Floats\<close>

text \<open>
  A Python float, with its special values; the order is false on \<^verbatim>\<open>nan\<close>. \<^verbatim>\<open>max\<close> and
  \<^verbatim>\<open>min\<close> keep the first argument unless the second is strictly beyond it.
\<close>

datatype pyfloat = FNum rat | FPosInf | FNegInf | FNan

fun f_less :: "pyfloat \<Rightarrow> pyfloat \<Rightarrow> bool" where
  "f_less (FNum a) (FNum b) = (a < b)"
| "f_less (FNum _) FPosInf = True"
| "f_less FNegInf (FNum _) = True"
| "f_less FNegInf FPosInf = True"
| "f_less _ _ = False"

definition f_max :: "pyfloat \<Rightarrow> pyfloat \<Rightarrow> pyfloat" where
  "f_max a b = (if f_less a b then b else a)"

definition f_min :: "pyfloat \<Rightarrow> pyfloat \<Rightarrow> pyfloat" where
  "f_min a b = (if f_less b a then b else a)"

fun f_finite :: "pyfloat \<Rightarrow> bool" where
  "f_finite (FNum _) = True"
| "f_finite _ = False"

text \<open>The number a JSON value is: \<open>None\<close> when it is no \<^verbatim>\<open>int\<close> or \<^verbatim>\<open>float\<close>.\<close>

fun jfloat :: "json \<Rightarrow> pyfloat option" where
  "jfloat (JBool b) = Some (FNum (if b then 1 else 0))"
| "jfloat (JInt i) = Some (FNum (of_int i))"
| "jfloat (JFloat r) = Some (FNum r)"
| "jfloat JInf = Some FPosInf"
| "jfloat JNegInf = Some FNegInf"
| "jfloat JNan = Some FNan"
| "jfloat _ = None"

lemma f_clamp_num [simp]: "f_max (FNum a) (FNum b) = FNum (max a b)" "f_min (FNum a) (FNum b) = FNum (min a b)"
  by (simp_all add: f_max_def f_min_def max_def min_def)

section \<open>Integers from text\<close>

text \<open>
  \<^verbatim>\<open>int(text)\<close>: surrounding white space, a sign, digits with single underscores between
  them, and at most 4300 digits; \<open>None\<close> is \<^verbatim>\<open>ValueError\<close>.
\<close>

fun underscored :: "string \<Rightarrow> bool" where
  "underscored [] = False"
| "underscored [c] = is_digit c"
| "underscored (c # d # cs) =
     (is_digit c \<and> (if d = CHR ''_'' then underscored cs else underscored (d # cs)))"

definition digits_of :: "string \<Rightarrow> string" where
  "digits_of s = filter is_digit s"

definition unsigned_int :: "string \<Rightarrow> nat option" where
  "unsigned_int s =
     (if underscored s \<and> length (digits_of s) \<le> 4300 then Some (parse_nat (digits_of s)) else None)"

definition py_int :: "string \<Rightarrow> int option" where
  "py_int text =
     (case py_strip text of
        [] \<Rightarrow> None
      | c # cs \<Rightarrow>
          if c = CHR ''-'' then map_option (\<lambda>n. - int n) (unsigned_int cs)
          else if c = CHR ''+'' then map_option int (unsigned_int cs)
          else map_option int (unsigned_int (c # cs)))"

section \<open>The settings\<close>

text \<open>
  \<open>en_vars\<close> is \<^verbatim>\<open>os.environ\<close>; \<open>en_float\<close> is the conversion \<^verbatim>\<open>float(text)\<close> of the
  interpreter, \<open>None\<close> where it raises \<^verbatim>\<open>ValueError\<close>, and \<open>en_float_of_int\<close> its
  \<^verbatim>\<open>float(int)\<close>, \<open>None\<close> where it raises \<^verbatim>\<open>OverflowError\<close>.
\<close>

record environ =
  en_vars :: "string \<Rightarrow> string option"
  en_float :: "string \<Rightarrow> pyfloat option"
  en_float_of_int :: "int \<Rightarrow> rat option"

definition int_setting :: "environ \<Rightarrow> string \<Rightarrow> int \<Rightarrow> int" where
  "int_setting v name fallback =
     (case en_vars v name of
        None \<Rightarrow> max fallback 1
      | Some raw \<Rightarrow> (case py_int raw of None \<Rightarrow> fallback | Some n \<Rightarrow> max n 1))"

definition server_stale_seconds :: "environ \<Rightarrow> int" where
  "server_stale_seconds v = int_setting v ''TOKEN_PLACE_RELAY_SERVER_TTL_SECONDS'' 30"

definition api_v1_poll_wait_seconds :: "environ \<Rightarrow> pyfloat" where
  "api_v1_poll_wait_seconds v =
     (case en_vars v ''TOKEN_PLACE_API_V1_RELAY_POLL_WAIT_SECONDS'' of
        None \<Rightarrow> FNum 10
      | Some raw \<Rightarrow>
          (case en_float v raw of
             None \<Rightarrow> FNum 10
           | Some x \<Rightarrow> if f_less x (FNum 0) then FNum 0 else x))"

definition api_v1_lease_seconds :: "environ \<Rightarrow> int" where
  "api_v1_lease_seconds v = int_setting v ''TOKEN_PLACE_API_V1_RELAY_SERVER_LEASE_SECONDS'' 30"

definition api_v1_max_queue_depth_per_node :: "environ \<Rightarrow> int" where
  "api_v1_max_queue_depth_per_node v = int_setting v ''TOKEN_PLACE_API_V1_MAX_QUEUE_DEPTH_PER_NODE'' 1024"

text \<open>\<open>None\<close> is the \<^verbatim>\<open>OverflowError\<close> of a lease beyond the range of floats.\<close>

definition api_v1_in_flight_ttl_seconds :: "environ \<Rightarrow> pyfloat option" where
  "api_v1_in_flight_ttl_seconds v =
     (let lease = map_option (\<lambda>x. f_max (FNum x) (FNum 1)) (en_float_of_int v (api_v1_lease_seconds v))
      in case en_vars v ''TOKEN_PLACE_API_V1_IN_FLIGHT_TTL_SECONDS'' of
           None \<Rightarrow> lease
         | Some raw \<Rightarrow> (case en_float v raw of None \<Rightarrow> lease | Some x \<Rightarrow> Some (f_max x (FNum 1))))"

definition bounded_float_env :: "environ \<Rightarrow> string \<Rightarrow> rat \<Rightarrow> rat \<Rightarrow> rat" where
  "bounded_float_env v name fallback least =
     (case en_vars v name of
        None \<Rightarrow> fallback
      | Some raw \<Rightarrow>
          (case en_float v raw of
             Some (FNum x) \<Rightarrow> max x least
           | _ \<Rightarrow> fallback))"

definition DEFAULT_INFERENCE_TIMEOUT_SECONDS :: rat where
  "DEFAULT_INFERENCE_TIMEOUT_SECONDS = 480"

definition api_v1_request_deadline_seconds :: "environ \<Rightarrow> rat" where
  "api_v1_request_deadline_seconds v =
     (let min0 = bounded_float_env v ''TOKEN_PLACE_API_V1_REQUEST_DEADLINE_MIN_SECONDS'' 1 (1/1000);
          max0 = bounded_float_env v ''TOKEN_PLACE_API_V1_REQUEST_DEADLINE_MAX_SECONDS'' 3600 min0;
          min_seconds = min (max min0 1) 3600;
          max_seconds = min (max max0 min_seconds) 3600;
          configured = bounded_float_env v ''TOKEN_PLACE_API_V1_REQUEST_DEADLINE_SECONDS''
            DEFAULT_INFERENCE_TIMEOUT_SECONDS min_seconds
      in min (max configured min_seconds) max_seconds)"

definition api_v1_control_tombstone_ttl_seconds :: "environ \<Rightarrow> rat" where
  "api_v1_control_tombstone_ttl_seconds v =
     min (bounded_float_env v ''TOKEN_PLACE_API_V1_CONTROL_TOMBSTONE_TTL_SECONDS'' 60 1) 300"

definition bounded_control_next_poll_seconds :: "environ \<Rightarrow> pyfloat option \<Rightarrow> pyfloat" where
  "bounded_control_next_poll_seconds v hint =
     (let base = f_min (api_v1_poll_wait_seconds v) (FNum 10);
          base' = (case hint of Some h \<Rightarrow> f_min base h | None \<Rightarrow> base)
      in f_max base' (FNum 1))"

section \<open>Facts\<close>

lemma int_setting_positive: "1 \<le> fallback \<Longrightarrow> 1 \<le> int_setting v name fallback"
  by (auto simp: int_setting_def split: option.split)

lemma clamp_bounds:
  fixes a b c :: rat
  shows "1 \<le> min (max c (min (max a 1) 3600)) (min (max b (min (max a 1) 3600)) 3600)
     \<and> min (max c (min (max a 1) 3600)) (min (max b (min (max a 1) 3600)) 3600) \<le> 3600"
  by (simp add: le_max_iff_disj min_le_iff_disj)

lemma request_deadline_bounds:
  "1 \<le> api_v1_request_deadline_seconds v \<and> api_v1_request_deadline_seconds v \<le> 3600"
  using clamp_bounds unfolding api_v1_request_deadline_seconds_def Let_def by blast

text \<open>The parser reads back what \<^verbatim>\<open>str\<close> writes.\<close>

lemma underscored_digits: "list_all is_digit s \<Longrightarrow> underscored s \<longleftrightarrow> s \<noteq> []"
proof (induction s rule: underscored.induct)
  case (3 c d cs)
  have "d \<noteq> CHR ''_''" using 3(3) by (auto simp: is_digit_def char_code_def)
  with 3 show ?case by simp
qed auto

lemma digits_of_digits: "list_all is_digit s \<Longrightarrow> digits_of s = s"
  by (simp add: digits_of_def list_all_iff filter_id_conv)

lemma unsigned_show_nat: "length (show_nat n) \<le> 4300 \<Longrightarrow> unsigned_int (show_nat n) = Some n"
proof -
  have "show_nat n \<noteq> []" by (simp add: show_nat.simps [of n])
  then show "length (show_nat n) \<le> 4300 \<Longrightarrow> unsigned_int (show_nat n) = Some n"
    using show_nat_digits [of n] by (simp add: unsigned_int_def underscored_digits digits_of_digits)
qed

end
