(* ===== verification/Relay_Capabilities.thy ===== *)
theory Relay_Capabilities
  imports Json Store_Config
begin

text \<open>
  What the relay (\<^verbatim>\<open>src/relay.py\<close>) accepts from a compute node and from a client: the
  capabilities a node registers with, the control credential it owns, and the encrypted
  envelope of a request.
\<close>

section \<open>Capabilities\<close>

definition MAX_API_V1_MODEL_IDS_PER_NODE :: nat where
  "MAX_API_V1_MODEL_IDS_PER_NODE = 64"

definition CONTEXT_TIER_ORDER :: "(string, nat) dict" where
  "CONTEXT_TIER_ORDER = [(''8k-fast'', 8192), (''64k-full'', 65536)]"

text \<open>
  The normalised dictionary of a node, from the record of its values. \<open>Refused\<close> is the
  second component of the pair the code returns, and hashing a list or dict as
  \<^verbatim>\<open>api_version\<close> raises.
\<close>

definition capability_object :: "capabilities \<Rightarrow> object" where
  "capability_object c =
     [(''api_version'', JStr ''v1''),
      (''supported_model_ids'', JList (map JStr (supported_model_ids c))),
      (''active_context_tier'', JStr (active_context_tier c)),
      (''maximum_total_context_tokens'', JInt (int (maximum_total_context_tokens c))),
      (''default_output_token_reservation'', JInt (int (default_output_token_reservation c))),
      (''maximum_output_tokens'', JInt (int (maximum_output_tokens c))),
      (''max_concurrency'', JInt (int (max_concurrency c))),
      (''backend_class'', JStr (backend_class c))]"

datatype capability_error = Refused string | UnhashableVersion

definition api_v1_default_capabilities :: capabilities where
  "api_v1_default_capabilities =
     \<lparr>supported_model_ids = [], active_context_tier = ''8k-fast'', maximum_total_context_tokens = 8192,
      default_output_token_reservation = 1024, maximum_output_tokens = 1024, max_concurrency = 1,
      backend_class = ''unknown''\<rparr>"

fun normalise_each :: "json list \<Rightarrow> string list \<Rightarrow> string list option" where
  "normalise_each [] acc = Some acc"
| "normalise_each (v # vs) acc =
     (case v of
        JStr s \<Rightarrow>
          (let m = py_lower (py_strip s)
           in if m = [] \<or> length m > 128 then None
              else normalise_each vs (if m \<in> set acc then acc else acc @ [m]))
      | _ \<Rightarrow> None)"

definition normalise_model_ids :: "json \<Rightarrow> string list option" where
  "normalise_model_ids v =
     (case v of
        JList vs \<Rightarrow>
          if vs = [] \<or> length vs > MAX_API_V1_MODEL_IDS_PER_NODE then None else normalise_each vs []
      | _ \<Rightarrow> None)"

definition normalise_positive_int :: "json \<Rightarrow> int \<Rightarrow> nat option" where
  "normalise_positive_int v maximum =
     (case v of JInt i \<Rightarrow> if 1 \<le> i \<and> i \<le> maximum then Some (nat i) else None | _ \<Rightarrow> None)"

definition backend_of :: "string \<Rightarrow> string" where
  "backend_of s =
     (let b = py_lower (py_strip s); b' = (if b = [] then ''unknown'' else b)
      in if b' \<in> set ALLOWED_BACKEND_CLASSES then b' else ''unknown'')"

definition require :: "'a option \<Rightarrow> string \<Rightarrow> capability_error + 'a" where
  "require x message = (case x of Some y \<Rightarrow> Inr y | None \<Rightarrow> Inl (Refused message))"

definition require_text :: "json \<Rightarrow> string \<Rightarrow> capability_error + string" where
  "require_text v message = (case v of JStr s \<Rightarrow> Inr s | _ \<Rightarrow> Inl (Refused message))"

definition require_three ::
  "nat option \<Rightarrow> nat option \<Rightarrow> nat option \<Rightarrow> string \<Rightarrow> capability_error + (nat \<times> nat \<times> nat)" where
  "require_three x y z message =
     (case (x, y, z) of (Some a, Some b, Some c) \<Rightarrow> Inr (a, b, c) | _ \<Rightarrow> Inl (Refused message))"

definition normalise_capability_dict :: "object \<Rightarrow> capability_error + capabilities" where
  "normalise_capability_dict d =
     (let api_version = jget_default d ''api_version'' (JStr ''v1'');
          tier_value = jor (jget d ''active_context_tier'') (jget d ''context_tier'');
          ids_value = jor (jget d ''supported_model_ids'') (jget d ''model_ids'');
          backend = jget_default d ''backend_class'' (JStr ''unknown'')
      in
      ebind (echeck (\<not> hashable api_version) UnhashableVersion) (\<lambda>_.
      ebind (echeck (api_version \<noteq> JStr ''v1'' \<and> jnum api_version \<noteq> Some 1)
        (Refused ''capabilities.api_version must be v1'')) (\<lambda>_.
      ebind (require_text tier_value ''capabilities.active_context_tier must be a string'') (\<lambda>tier.
      ebind (require (dget CONTEXT_TIER_ORDER (py_strip tier))
        ''capabilities.active_context_tier is unsupported'') (\<lambda>tier_tokens.
      ebind (require (normalise_model_ids ids_value)
        ''capabilities.supported_model_ids must be a non-empty string list'') (\<lambda>ids.
      ebind (require (normalise_positive_int (jget d ''maximum_total_context_tokens'') 1000000)
        ''capabilities.maximum_total_context_tokens must be a positive integer'') (\<lambda>max_context.
      ebind (echeck (max_context < tier_tokens)
        (Refused ''capabilities.maximum_total_context_tokens is below the active tier'')) (\<lambda>_.
      ebind (require_three (normalise_positive_int (jget d ''default_output_token_reservation'') 1000000)
               (normalise_positive_int (jget d ''maximum_output_tokens'') 1000000)
               (normalise_positive_int (jget d ''max_concurrency'') 128)
               ''capability token reservations and concurrency must be positive integers'')
        (\<lambda>(reservation, maximum, concurrency).
      ebind (echeck (reservation > maximum)
        (Refused ''default output reservation cannot exceed maximum output tokens'')) (\<lambda>_.
      ebind (require_text backend ''capabilities.backend_class must be a string'') (\<lambda>backend_text.
      Inr \<lparr>supported_model_ids = ids, active_context_tier = py_strip tier, maximum_total_context_tokens = max_context,
           default_output_token_reservation = reservation, maximum_output_tokens = maximum,
           max_concurrency = concurrency, backend_class = backend_of backend_text\<rparr>)))))))))))"

definition normalise_api_v1_capabilities :: "json \<Rightarrow> capability_error + object" where
  "normalise_api_v1_capabilities v =
     (case v of
        JNull \<Rightarrow> Inr (capability_object api_v1_default_capabilities)
      | JDict d \<Rightarrow> ebind (normalise_capability_dict d) (\<lambda>c. Inr (capability_object c))
      | _ \<Rightarrow> Inl (Refused ''capabilities must be an object''))"

text \<open>\<open>None\<close> is the \<^verbatim>\<open>KeyError\<close> of a requested tier that is not in the table.\<close>

definition context_tier_can_satisfy :: "json \<Rightarrow> string \<Rightarrow> bool option" where
  "context_tier_can_satisfy active requested =
     (case active of
        JStr t \<Rightarrow>
          map_option (\<lambda>n. (case dget CONTEXT_TIER_ORDER t of Some m \<Rightarrow> m | None \<Rightarrow> 0) \<ge> n)
            (dget CONTEXT_TIER_ORDER requested)
      | _ \<Rightarrow> Some False)"

section \<open>Control credentials\<close>

text \<open>
  A digest is \<open>None\<close> where \<^verbatim>\<open>encode\<close> raises. \<open>fresh\<close> is the token that
  \<^verbatim>\<open>secrets.token_urlsafe\<close> returns; the payload is the node's dictionary.
\<close>

definition DIGEST_KEY :: string where
  "DIGEST_KEY = ''api_v1_control_credential_digest''"

definition api_v1_control_credential_digest :: "env \<Rightarrow> string \<Rightarrow> string option" where
  "api_v1_control_credential_digest E credential =
     map_option (\<lambda>bytes. hexdigest (sha256 E bytes)) (utf8 E credential)"

definition store_api_v1_control_credential :: "env \<Rightarrow> string \<Rightarrow> object \<Rightarrow> (string \<times> object) option" where
  "store_api_v1_control_credential E fresh payload =
     (case jget payload DIGEST_KEY of
        JStr (c # cs) \<Rightarrow> Some ([], payload)
      | _ \<Rightarrow> map_option (\<lambda>d. (fresh, dset DIGEST_KEY (JStr d) payload)) (api_v1_control_credential_digest E fresh))"

definition api_v1_server_control_credential_valid :: "env \<Rightarrow> json \<Rightarrow> json \<Rightarrow> bool option" where
  "api_v1_server_control_credential_valid E payload credential =
     (case (payload, credential) of
        (JDict d, JStr (c # cs)) \<Rightarrow>
          (case jget d DIGEST_KEY of
             JStr (e # es) \<Rightarrow> map_option (\<lambda>x. x = e # es) (api_v1_control_credential_digest E (c # cs))
           | _ \<Rightarrow> Some False)
      | _ \<Rightarrow> Some False)"

section \<open>Encrypted envelopes\<close>

definition copy_field :: "object \<Rightarrow> string \<Rightarrow> object \<Rightarrow> object" where
  "copy_field payload f envelope =
     (case dget payload f of Some v \<Rightarrow> dset f v envelope | None \<Rightarrow> envelope)"

definition extract_ciphertext_envelope :: "json \<Rightarrow> bool \<Rightarrow> (string \<times> nat) + object" where
  "extract_ciphertext_envelope payload require_server_key =
     (case payload of
        JDict d \<Rightarrow>
          if \<not> dmem ''ciphertext'' d \<and> \<not> dmem ''chat_history'' d then Inl (''Invalid request data'', 400)
          else if \<not> list_all (\<lambda>f. dmem f d)
                      ((if require_server_key then [''server_public_key''] else []) @ [''cipherkey'', ''iv''])
          then Inl (''Invalid request data'', 400)
          else
            (let text = jget_default d ''ciphertext'' (jget d ''chat_history'');
                 envelope = [(''client_public_key'', jget d ''client_public_key''),
                             (''chat_history'', text), (''ciphertext'', text),
                             (''cipherkey'', jget d ''cipherkey''), (''iv'', jget d ''iv'')];
                 keyed = (if require_server_key
                          then dset ''server_public_key'' (jget d ''server_public_key'') envelope else envelope)
             in Inr (fold (copy_field d) [''request_id'', ''protocol'', ''version'', ''cancel_token''] keyed))
      | _ \<Rightarrow> Inl (''Invalid request data'', 400))"

definition plaintext_fields :: "string list" where
  "plaintext_fields = [''messages'', ''prompt'', ''input'', ''content'', ''response'', ''text'']"

definition payload_has_plaintext_fields :: "json \<Rightarrow> bool" where
  "payload_has_plaintext_fields payload =
     (case payload of JDict d \<Rightarrow> list_ex (\<lambda>f. dmem f d) plaintext_fields | _ \<Rightarrow> False)"

definition relay_fields :: "bool \<Rightarrow> string list" where
  "relay_fields allow_server_public_key =
     [''client_public_key'', ''ciphertext'', ''chat_history'', ''cipherkey'', ''iv'', ''request_id'',
      ''protocol'', ''version'', ''cancel_token'']
     @ (if allow_server_public_key then [''server_public_key''] else [])"

definition payload_has_unexpected_relay_fields :: "json \<Rightarrow> bool \<Rightarrow> bool" where
  "payload_has_unexpected_relay_fields payload allow_server_public_key =
     (case payload of
        JDict d \<Rightarrow> list_ex (\<lambda>f. f \<notin> set (relay_fields allow_server_public_key)) (map fst d)
      | _ \<Rightarrow> False)"

definition faucet_fields :: "string list" where
  "faucet_fields =
     [''client_public_key'', ''server_public_key'', ''chat_history'', ''cipherkey'', ''iv'', ''stream'']"

definition payload_has_unexpected_faucet_fields :: "json \<Rightarrow> bool" where
  "payload_has_unexpected_faucet_fields payload =
     (case payload of JDict d \<Rightarrow> list_ex (\<lambda>f. f \<notin> set faucet_fields) (map fst d) | _ \<Rightarrow> False)"

section \<open>Facts\<close>

subsection \<open>Normalised model ids\<close>

definition normal_id :: "string \<Rightarrow> bool" where
  "normal_id m \<longleftrightarrow> m \<noteq> [] \<and> length m \<le> 128 \<and> py_lower m = m \<and> py_strip m = m"

lemma normalise_each_normal:
  "normalise_each vs acc = Some ids \<Longrightarrow> list_all normal_id acc \<Longrightarrow> distinct acc \<Longrightarrow>
     list_all normal_id ids \<and> distinct ids \<and> length ids \<le> length acc + length vs \<and> set acc \<subseteq> set ids
     \<and> (vs \<noteq> [] \<longrightarrow> ids \<noteq> [])"
proof (induction vs arbitrary: acc)
  case (Cons v vs)
  then obtain s where v: "v = JStr s" by (cases v) auto
  define m where "m = py_lower (py_strip s)"
  define acc' where "acc' = (if m \<in> set acc then acc else acc @ [m])"
  have m: "m \<noteq> []" "length m \<le> 128" and each: "normalise_each vs acc' = Some ids"
    using Cons.prems(1) by (auto simp: v m_def acc'_def Let_def split: if_splits)
  have "normal_id m" using m by (simp add: normal_id_def m_def py_strip_lower)
  then have "list_all normal_id acc'" "distinct acc'" using Cons.prems by (auto simp: acc'_def)
  from Cons.IH [OF each this] show ?case by (auto simp: acc'_def split: if_splits)
qed simp

lemma normalise_model_ids_normal:
  assumes "normalise_model_ids v = Some ids"
  shows "list_all normal_id ids" "distinct ids" "ids \<noteq> []" "length ids \<le> 64"
proof -
  obtain vs where vs: "normalise_each vs [] = Some ids" "vs \<noteq> []" "length vs \<le> 64"
    using assms
    by (auto simp: normalise_model_ids_def MAX_API_V1_MODEL_IDS_PER_NODE_def not_less split: json.splits if_splits)
  from normalise_each_normal [OF this(1)] this(2,3)
  show "list_all normal_id ids" "distinct ids" "ids \<noteq> []" "length ids \<le> 64" by simp_all
qed

lemma normalise_each_fixed:
  "list_all normal_id ids \<Longrightarrow> distinct (acc @ ids) \<Longrightarrow> normalise_each (map JStr ids) acc = Some (acc @ ids)"
proof (induction ids arbitrary: acc)
  case (Cons m ids)
  then show ?case using Cons.IH [of "acc @ [m]"] by (simp add: normal_id_def Let_def)
qed simp

lemma store_ids_fixed:
  "list_all normal_id ids \<Longrightarrow> distinct (acc @ ids) \<Longrightarrow> normalize_model_ids (map VStr ids) acc = Inr (acc @ ids)"
proof (induction ids arbitrary: acc)
  case (Cons m ids)
  then show ?case using Cons.IH [of "acc @ [m]"] by (simp add: normal_id_def Let_def)
qed simp

lemma normalise_model_ids_fixed:
  assumes "normalise_model_ids v = Some ids"
  shows "normalise_model_ids (JList (map JStr ids)) = Some ids"
  using normalise_model_ids_normal [OF assms] normalise_each_fixed [of ids "[]"]
  by (simp add: normalise_model_ids_def MAX_API_V1_MODEL_IDS_PER_NODE_def)

subsection \<open>What a normalised record satisfies\<close>

lemma tier_orders: "CONTEXT_TIER_ORDER = CONTEXT_TIER_TOKEN_BOUNDS"
  by (simp add: CONTEXT_TIER_ORDER_def CONTEXT_TIER_TOKEN_BOUNDS_def)

lemma tier_fixed: "dget CONTEXT_TIER_ORDER t = Some n \<Longrightarrow> py_strip t = t \<and> py_lower t = t"
proof -
  have "list_all (\<lambda>(t, n). py_strip t = t \<and> py_lower t = t) CONTEXT_TIER_ORDER" by code_simp
  then show "dget CONTEXT_TIER_ORDER t = Some n \<Longrightarrow> py_strip t = t \<and> py_lower t = t"
    by (auto simp: list_all_iff dest: map_of_SomeD)
qed

lemma backend_fixed: "b \<in> set ALLOWED_BACKEND_CLASSES \<Longrightarrow> py_strip b = b \<and> py_lower b = b \<and> b \<noteq> []"
proof -
  have "list_all (\<lambda>b. py_strip b = b \<and> py_lower b = b \<and> b \<noteq> []) ALLOWED_BACKEND_CLASSES" by code_simp
  then show "b \<in> set ALLOWED_BACKEND_CLASSES \<Longrightarrow> py_strip b = b \<and> py_lower b = b \<and> b \<noteq> []"
    by (auto simp: list_all_iff)
qed

lemma backend_of_allowed: "backend_of s \<in> set ALLOWED_BACKEND_CLASSES"
  by (simp add: backend_of_def Let_def) (simp add: ALLOWED_BACKEND_CLASSES_def)

definition normal_capabilities :: "capabilities \<Rightarrow> bool" where
  "normal_capabilities c \<longleftrightarrow>
     list_all normal_id (supported_model_ids c) \<and> distinct (supported_model_ids c)
     \<and> supported_model_ids c \<noteq> [] \<and> length (supported_model_ids c) \<le> 64
     \<and> (\<exists>n. dget CONTEXT_TIER_ORDER (active_context_tier c) = Some n \<and> n \<le> maximum_total_context_tokens c)
     \<and> 1 \<le> maximum_total_context_tokens c \<and> maximum_total_context_tokens c \<le> 1000000
     \<and> 1 \<le> default_output_token_reservation c \<and> default_output_token_reservation c \<le> maximum_output_tokens c
     \<and> maximum_output_tokens c \<le> 1000000 \<and> 1 \<le> max_concurrency c \<and> max_concurrency c \<le> 128
     \<and> backend_class c \<in> set ALLOWED_BACKEND_CLASSES"

lemma require_Inr [simp]: "require x m = Inr y \<longleftrightarrow> x = Some y"
  by (auto simp: require_def split: option.splits)

lemma require_text_Inr [simp]: "require_text v m = Inr s \<longleftrightarrow> v = JStr s"
  by (auto simp: require_text_def split: json.splits)

lemma require_three_Inr [simp]:
  "require_three x y z m = Inr (a, b, c) \<longleftrightarrow> x = Some a \<and> y = Some b \<and> z = Some c"
  by (auto simp: require_three_def split: option.splits)

lemma positive_int_Some:
  "normalise_positive_int v m = Some n \<longleftrightarrow> (\<exists>i. v = JInt i \<and> 1 \<le> i \<and> i \<le> m \<and> n = nat i)"
  by (auto simp: normalise_positive_int_def split: json.splits)

lemma normalised_normal:
  assumes "normalise_capability_dict d = Inr c"
  shows "normal_capabilities c"
proof -
  obtain ids_value ids tier n tot r m k b where
    ids: "normalise_model_ids ids_value = Some ids"
    and nums: "dget CONTEXT_TIER_ORDER tier = Some n" "n \<le> tot" "1 \<le> tot" "tot \<le> 1000000"
      "1 \<le> r" "r \<le> m" "m \<le> 1000000" "1 \<le> k" "k \<le> 128"
    and c: "c = \<lparr>supported_model_ids = ids, active_context_tier = tier, maximum_total_context_tokens = tot,
        default_output_token_reservation = r, maximum_output_tokens = m, max_concurrency = k,
        backend_class = backend_of b\<rparr>"
    using assms unfolding normalise_capability_dict_def Let_def ebind_Inr
    by (auto simp: ebind_Inr positive_int_Some not_less split: prod.splits)
  show ?thesis
    using normalise_model_ids_normal [OF ids] nums backend_of_allowed [of b]
    by (simp add: normal_capabilities_def c)
qed

lemma normal_refixed:
  assumes "normal_capabilities c"
  shows "normalise_capability_dict (capability_object c) = Inr c"
proof -
  obtain n where n: "dget CONTEXT_TIER_ORDER (active_context_tier c) = Some n" "n \<le> maximum_total_context_tokens c"
    using assms by (auto simp: normal_capabilities_def)
  have tier: "py_strip (active_context_tier c) = active_context_tier c" "active_context_tier c \<noteq> []"
    using tier_fixed [OF n(1)] n(1) by (auto simp: CONTEXT_TIER_ORDER_def split: if_splits)
  have ids: "normalise_model_ids (JList (map JStr (supported_model_ids c))) = Some (supported_model_ids c)"
    using assms normalise_each_fixed [of "supported_model_ids c" "[]"]
    by (simp add: normal_capabilities_def normalise_model_ids_def MAX_API_V1_MODEL_IDS_PER_NODE_def)
  have backend: "backend_of (backend_class c) = backend_class c"
    using assms backend_fixed by (simp add: normal_capabilities_def backend_of_def Let_def)
  have ints: "normalise_positive_int (JInt (int k)) m = (if 1 \<le> k \<and> int k \<le> m then Some k else None)" for k m
    by (simp add: normalise_positive_int_def)
  show ?thesis
    using assms n tier ids backend
    by (simp add: normalise_capability_dict_def capability_object_def jget_default_def jor_def Let_def
        require_def require_text_def require_three_def normal_capabilities_def echeck_def ints)
qed

lemma normal_stored:
  assumes "normal_capabilities c"
  shows "mk_capabilities (Some (map VStr (supported_model_ids c))) (VStr (active_context_tier c))
     (VInt (int (maximum_total_context_tokens c))) (VInt (int (default_output_token_reservation c)))
     (VInt (int (maximum_output_tokens c))) (VInt (int (max_concurrency c))) (VStr (backend_class c)) (VStr ''v1'')
     = Inr c"
proof -
  obtain n where n: "dget CONTEXT_TIER_TOKEN_BOUNDS (active_context_tier c) = Some n" "n \<le> maximum_total_context_tokens c"
    using assms by (auto simp: normal_capabilities_def tier_orders)
  have texts: "normalized_text (VStr (active_context_tier c)) = active_context_tier c"
      "normalized_text (VStr (backend_class c)) = backend_class c"
    using tier_fixed [of "active_context_tier c"] n(1) backend_fixed [of "backend_class c"] assms
    by (auto simp: normalized_text_def tier_orders normal_capabilities_def)
  have ids: "normalize_model_ids (map VStr (supported_model_ids c)) [] = Inr (supported_model_ids c)"
    using assms store_ids_fixed [of "supported_model_ids c" "[]"] by (simp add: normal_capabilities_def)
  have "1 \<le> length (supported_model_ids c)" "length (supported_model_ids c) \<le> 64"
    using assms by (auto simp: normal_capabilities_def Suc_le_eq)
  then show ?thesis
    using assms n ids texts
    by (simp add: mk_capabilities_def echeck_def validate_positive_int_def normal_capabilities_def)
qed

lemma capability_object_inject: "capability_object c = capability_object d \<longleftrightarrow> c = d"
proof -
  have "map JStr xs = map JStr ys \<longleftrightarrow> xs = ys" for xs ys by (rule inj_map_eq_map) (simp add: inj_def)
  then show ?thesis by (cases c; cases d) (auto simp: capability_object_def)
qed

subsection \<open>Envelopes\<close>

lemma keys_copy_field: "dkeys (copy_field d f e) \<subseteq> insert f (dkeys e)"
  by (auto simp: copy_field_def dkeys_dset split: option.splits)

lemma envelope_keys:
  assumes "extract_ciphertext_envelope payload key = Inr e"
  shows "dkeys e \<subseteq> set (relay_fields key)"
proof -
  have copies: "x = f \<or> x \<in> dkeys e" if "x \<in> dkeys (copy_field d f e)" for x f d e
    using that keys_copy_field by blast
  show ?thesis
    using assms
    by (auto simp: extract_ciphertext_envelope_def relay_fields_def Let_def dkeys_dset
        split: json.splits if_splits dest!: copies)
qed

end
