(* ===== verification/Model_Profiles.thy ===== *)
theory Model_Profiles
  imports Json
begin

text \<open>
  The model catalogue of \<^verbatim>\<open>src/utils/llm/model_profiles.py\<close>, the resolution of a profile
  and the aliases the relay's scheduler applies to a requested model.
\<close>

section \<open>The catalogue\<close>

text \<open>
  A profile with the keys of the \<^verbatim>\<open>TypedDict\<close>; the optional keys are options and the two
  free-form dictionaries are JSON objects.
\<close>

record model_profile =
  mp_profile_id :: string
  mp_api_model_id :: string
  mp_display_name :: string
  mp_description :: string
  mp_owner :: string
  mp_provider :: string
  mp_source_model :: string
  mp_parameters :: string
  mp_quantization :: string
  mp_license :: "string option"
  mp_gguf_repo :: "string option"
  mp_filename :: string
  mp_download_url :: string
  mp_artifact_revision :: "string option"
  mp_artifact_size_bytes :: "nat option"
  mp_artifact_sha256 :: "string option"
  mp_canonical_family_url :: string
  mp_native_context_tokens :: nat
  mp_maximum_validated_context_tokens :: nat
  mp_default_context_tokens :: nat
  mp_supported_context_tiers :: "string list"
  mp_chat_template_policy :: string
  mp_thinking_mode :: string
  mp_generation_defaults :: object
  mp_aliases :: "string list"
  mp_rope_scaling_policy :: "object option"
  mp_public_catalog :: bool
  mp_runnable :: bool

definition LLAMA_3_1_8B_PROFILE_ID :: string where
  "LLAMA_3_1_8B_PROFILE_ID = ''llama-3.1-8b-q4-k-m''"

definition LLAMA_3_1_API_MODEL_ID :: string where
  "LLAMA_3_1_API_MODEL_ID = ''llama-3.1-8b-instruct''"

definition CANONICAL_API_V1_MODEL_ID :: string where
  "CANONICAL_API_V1_MODEL_ID = ''qwen3-8b-instruct''"

definition QWEN3_8B_PROFILE_ID :: string where
  "QWEN3_8B_PROFILE_ID = ''qwen3-8b-q4-k-m''"

definition llama_profile :: model_profile where
  "llama_profile =
     \<lparr>mp_profile_id = LLAMA_3_1_8B_PROFILE_ID, mp_api_model_id = LLAMA_3_1_API_MODEL_ID,
      mp_display_name = ''Meta Llama 3.1 8B Instruct'',
      mp_description = ''Meta'' @ [CHR 0x27] @ ''s July 2024 refresh of the 8B instruction-tuned model using the ''
        @ ''Q4_K_M quantisation that comfortably fits within a 24 GB RTX 4090.'',
      mp_owner = ''Meta'', mp_provider = ''meta'',
      mp_source_model = ''meta-llama/Llama-3.1-8B-Instruct'', mp_parameters = ''8B'',
      mp_quantization = ''Q4_K_M'', mp_license = Some ''llama3.1'',
      mp_gguf_repo = Some ''bartowski/Meta-Llama-3.1-8B-Instruct-GGUF'',
      mp_filename = ''Meta-Llama-3.1-8B-Instruct-Q4_K_M.gguf'',
      mp_download_url = ''https://huggingface.co/bartowski/Meta-Llama-3.1-8B-Instruct-GGUF/resolve/main/''
        @ ''Meta-Llama-3.1-8B-Instruct-Q4_K_M.gguf'',
      mp_artifact_revision = None, mp_artifact_size_bytes = None, mp_artifact_sha256 = None,
      mp_canonical_family_url = ''https://huggingface.co/meta-llama/Meta-Llama-3-8B'', mp_native_context_tokens = 8192,
      mp_maximum_validated_context_tokens = 8192, mp_default_context_tokens = 8192,
      mp_supported_context_tiers = [''8k-fast''], mp_chat_template_policy = ''llama-3'',
      mp_thinking_mode = ''not-applicable'', mp_generation_defaults = [], mp_aliases = [],
      mp_rope_scaling_policy = None, mp_public_catalog = False, mp_runnable = True\<rparr>"

definition qwen_profile :: model_profile where
  "qwen_profile =
     \<lparr>mp_profile_id = QWEN3_8B_PROFILE_ID, mp_api_model_id = CANONICAL_API_V1_MODEL_ID,
      mp_display_name = ''Qwen3 8B Instruct'',
      mp_description = ''Qwen3 8B Instruct Q4_K_M with API v1 non-thinking mode enforced and validated 8K/64K context tiers.'',
      mp_owner = ''Qwen'', mp_provider = ''qwen'',
      mp_source_model = ''Qwen/Qwen3-8B'', mp_parameters = ''8.2B'',
      mp_quantization = ''Q4_K_M'', mp_license = Some ''apache-2.0'',
      mp_gguf_repo = Some ''Qwen/Qwen3-8B-GGUF'', mp_filename = ''Qwen3-8B-Q4_K_M.gguf'',
      mp_download_url = ''https://huggingface.co/Qwen/Qwen3-8B-GGUF/resolve/6a569868d07d3bd59e8b97fb001bf8c0b254bb20/''
        @ ''Qwen3-8B-Q4_K_M.gguf'',
      mp_artifact_revision = Some ''6a569868d07d3bd59e8b97fb001bf8c0b254bb20'', mp_artifact_size_bytes = Some 5027783488,
      mp_artifact_sha256 = Some ''d98cdcbd03e17ce47681435b5150e34c1417f50b5c0019dd560e4882c5745785'',
      mp_canonical_family_url = ''https://huggingface.co/Qwen/Qwen3-8B'',
      mp_native_context_tokens = 32768, mp_maximum_validated_context_tokens = 65536,
      mp_default_context_tokens = 8192, mp_supported_context_tiers = [''8k-fast'', ''64k-full''],
      mp_chat_template_policy = ''gguf-jinja'', mp_thinking_mode = ''disabled'',
      mp_generation_defaults =
        [(''temperature'', JFloat (7/10)), (''top_p'', JFloat (8/10)), (''top_k'', JInt 20), (''min_p'', JFloat 0)],
      mp_aliases = [''llama-3.1-8b-instruct'', ''llama-3-8b-instruct'', ''gpt-3.5-turbo'', ''gpt-5-chat-latest''],
      mp_rope_scaling_policy =
        Some [(''type'', JStr ''yarn''), (''required_for_tier'', JStr ''64k-full''), (''factor'', JFloat 2),
              (''original_context_tokens'', JInt 32768)],
      mp_public_catalog = True, mp_runnable = True\<rparr>"

definition MODEL_PROFILES :: "(string, model_profile) dict" where
  "MODEL_PROFILES = [(LLAMA_3_1_8B_PROFILE_ID, llama_profile), (QWEN3_8B_PROFILE_ID, qwen_profile)]"

section \<open>Resolution\<close>

definition get_model_profile :: "string \<Rightarrow> model_profile option" where
  "get_model_profile name = dget MODEL_PROFILES name"

text \<open>\<open>None\<close> is the \<^verbatim>\<open>RuntimeError\<close> of a catalogue without the default.\<close>

definition get_default_model_profile :: "model_profile option" where
  "get_default_model_profile = get_model_profile QWEN3_8B_PROFILE_ID"

definition iter_model_profiles :: "bool \<Rightarrow> model_profile list" where
  "iter_model_profiles public_only =
     filter (\<lambda>p. \<not> public_only \<or> mp_public_catalog p) (dvals MODEL_PROFILES)"

definition nonempty :: "string option \<Rightarrow> bool" where
  "nonempty s \<longleftrightarrow> s \<noteq> None \<and> s \<noteq> Some []"

definition resolve_profile_id :: "string option \<Rightarrow> string option \<Rightarrow> string" where
  "resolve_profile_id name model =
     (if nonempty name \<and> dmem (the name) MODEL_PROFILES then the name
      else case (if nonempty model
                 then find (\<lambda>(i, p). mp_api_model_id p = the model) MODEL_PROFILES else None) of
             Some (i, p) \<Rightarrow> i
           | None \<Rightarrow> QWEN3_8B_PROFILE_ID)"

fun add_aliases :: "string \<Rightarrow> string list \<Rightarrow> (string, string) dict \<Rightarrow> (string, string) dict" where
  "add_aliases target [] d = d"
| "add_aliases target (a # as) d = add_aliases target as (dset a target d)"

definition build_model_aliases :: "(string, string) dict" where
  "build_model_aliases =
     fold (\<lambda>p. add_aliases (mp_api_model_id p) (mp_aliases p)) (dvals MODEL_PROFILES) []"

text \<open>\<^verbatim>\<open>MODEL_ALIASES.get(model, model)\<close> of the relay.\<close>

definition resolve_alias :: "string \<Rightarrow> string" where
  "resolve_alias model = (case dget build_model_aliases model of Some t \<Rightarrow> t | None \<Rightarrow> model)"

section \<open>Facts\<close>

lemma aliases_value:
  "build_model_aliases =
     map (\<lambda>a. (a, CANONICAL_API_V1_MODEL_ID))
       [''llama-3.1-8b-instruct'', ''llama-3-8b-instruct'', ''gpt-3.5-turbo'', ''gpt-5-chat-latest'']"
  by code_simp

lemma catalogue_find:
  "find P MODEL_PROFILES = Some (i, p) \<Longrightarrow> dget MODEL_PROFILES i = Some p \<and> P (i, p)"
  by (auto simp: MODEL_PROFILES_def LLAMA_3_1_8B_PROFILE_ID_def QWEN3_8B_PROFILE_ID_def split: if_splits)

end
