(* ===== verification/Relay_Scheduler.thy ===== *)
theory Relay_Scheduler
  imports Relay_Settings Relay_Capabilities Model_Profiles
begin

text \<open>
  How the relay process (\<^verbatim>\<open>src/relay.py\<close>) picks a compute node for an API v1 request:
  eligibility and load of a node, the best fit with a round-robin tie break, the rotation
  when a node is removed, and the queue a node polls. The module's dictionaries and its
  cursor are the fields of one state.
\<close>

section \<open>State\<close>

text \<open>
  A node's payload is a dictionary; its \<^verbatim>\<open>last_ping\<close> is kept apart because a
  \<^verbatim>\<open>datetime\<close> (here in microseconds) is no JSON value.
\<close>

datatype ping = PingDatetime int | PingNumber pyfloat | PingOther

record node =
  nd_fields :: object
  nd_last_ping :: ping

record relay =
  known_servers :: "(string, node) dict"
  client_inference_requests :: "(string, object list) dict"
  server_round_robin_next_index :: nat
  api_v1_filtered_round_robin_next_positions :: "(string list, nat) dict"

text \<open>
  What a selection reads of the outside: the clocks, the conversions and roundings of the
  interpreter's floats (\<open>ck_seconds\<close> is \<^verbatim>\<open>timedelta.total_seconds\<close>, \<open>ck_minus\<close> float
  subtraction, \<open>ck_load_score\<close> is \<^verbatim>\<open>round(a / b, 6)\<close>), and the settings.
\<close>

record clock =
  ck_monotonic :: rat
  ck_datetime :: int
  ck_time :: rat
  ck_seconds :: "int \<Rightarrow> rat"
  ck_minus :: "rat \<Rightarrow> rat \<Rightarrow> rat"
  ck_load_score :: "int \<Rightarrow> int \<Rightarrow> rat"
  ck_environ :: environ

text \<open>What the selection can raise.\<close>

datatype scheduler_error = FloatOverflowError | TierKeyError

definition API_V1_SERVER_MARKER :: string where
  "API_V1_SERVER_MARKER = ''api_v1_registered''"

section \<open>Load and eligibility of one node\<close>

definition server_ping_age_seconds :: "clock \<Rightarrow> ping \<Rightarrow> pyfloat" where
  "server_ping_age_seconds ck p =
     (case p of
        PingDatetime t \<Rightarrow> f_max (FNum (ck_seconds ck (ck_datetime ck - t))) (FNum 0)
      | PingNumber x \<Rightarrow>
          f_max (case x of FNum r \<Rightarrow> FNum (ck_minus ck (ck_time ck) r)
                 | FPosInf \<Rightarrow> FNegInf | FNegInf \<Rightarrow> FPosInf | FNan \<Rightarrow> FNan) (FNum 0)
      | PingOther \<Rightarrow> FPosInf)"

definition entry_expires_at :: "json \<Rightarrow> json" where
  "entry_expires_at entry = (case entry of JDict d \<Rightarrow> jget d ''expires_at'' | _ \<Rightarrow> entry)"

definition in_flight_active :: "rat \<Rightarrow> json \<Rightarrow> bool" where
  "in_flight_active now entry =
     (case jfloat (entry_expires_at entry) of Some x \<Rightarrow> f_less (FNum now) x | None \<Rightarrow> False)"

definition api_v1_active_in_flight_count :: "object \<Rightarrow> rat \<Rightarrow> nat" where
  "api_v1_active_in_flight_count payload now =
     (case jget payload ''api_v1_in_flight_requests'' of
        JDict entries \<Rightarrow> length (filter (in_flight_active now) (dvals entries))
      | _ \<Rightarrow> 0)"

text \<open>\<^verbatim>\<open>float(v)\<close> of a number; it is not called on anything else.\<close>

definition to_float :: "clock \<Rightarrow> json \<Rightarrow> scheduler_error + pyfloat" where
  "to_float ck v =
     (case v of
        JInt i \<Rightarrow> (case en_float_of_int (ck_environ ck) i of Some r \<Rightarrow> Inr (FNum r) | None \<Rightarrow> Inl FloatOverflowError)
      | _ \<Rightarrow> (case jfloat v of Some x \<Rightarrow> Inr x | None \<Rightarrow> Inr FNan))"

text \<open>\<open>None\<close> for a value that is no finite number.\<close>

definition valid_request_deadline_monotonic :: "clock \<Rightarrow> json \<Rightarrow> scheduler_error + rat option" where
  "valid_request_deadline_monotonic ck v =
     (if jfloat v = None then Inr None
      else ebind (to_float ck v) (\<lambda>x. Inr (case x of FNum r \<Rightarrow> Some r | _ \<Rightarrow> None)))"

definition api_v1_in_flight_entry_can_be_pruned :: "clock \<Rightarrow> json \<Rightarrow> rat \<Rightarrow> scheduler_error + bool" where
  "api_v1_in_flight_entry_can_be_pruned ck entry now =
     (case jfloat (entry_expires_at entry) of
        None \<Rightarrow> Inr False
      | Some x \<Rightarrow>
          if f_less (FNum now) x then Inr False
          else ebind (case entry of
                        JDict d \<Rightarrow> valid_request_deadline_monotonic ck (jget d ''request_deadline_monotonic'')
                      | _ \<Rightarrow> Inr None) (\<lambda>deadline.
                 Inr (case deadline of None \<Rightarrow> True | Some t \<Rightarrow> t \<le> now)))"

record load =
  ld_queue_depth :: nat
  ld_in_flight_count :: nat
  ld_max_concurrency :: int
  ld_load_score :: rat

definition node_max_concurrency :: "object \<Rightarrow> int" where
  "node_max_concurrency payload =
     (case jget payload ''capabilities'' of
        JDict c \<Rightarrow> (case jget c ''max_concurrency'' of JInt n \<Rightarrow> if n < 1 then 1 else n | _ \<Rightarrow> 1)
      | _ \<Rightarrow> 1)"

definition queue_of :: "relay \<Rightarrow> string \<Rightarrow> object list" where
  "queue_of s key = (case dget (client_inference_requests s) key of Some q \<Rightarrow> q | None \<Rightarrow> [])"

definition api_v1_node_load_snapshot :: "clock \<Rightarrow> relay \<Rightarrow> string \<Rightarrow> object \<Rightarrow> load" where
  "api_v1_node_load_snapshot ck s key payload =
     (let n = node_max_concurrency payload; depth = length (queue_of s key);
          active = api_v1_active_in_flight_count payload (ck_monotonic ck)
      in \<lparr>ld_queue_depth = depth, ld_in_flight_count = active, ld_max_concurrency = n,
          ld_load_score = ck_load_score ck (int (depth + active)) n\<rparr>)"

definition api_v1_node_state :: "object \<Rightarrow> string" where
  "api_v1_node_state payload =
     (case jor (jor (jget payload ''state'') (jget payload ''status'')) (jget payload ''lifecycle_state'') of
        JStr t \<Rightarrow> py_lower (py_strip t)
      | _ \<Rightarrow> [])"

definition ineligible_states :: "string list" where
  "ineligible_states = [''failed'', ''recovering'', ''draining'', ''unregistering'']"

definition api_v1_node_has_ineligible_flag :: "object \<Rightarrow> bool" where
  "api_v1_node_has_ineligible_flag payload = list_ex (\<lambda>f. jget payload f = JBool True) ineligible_states"

definition stale_after_value :: "clock \<Rightarrow> object \<Rightarrow> json" where
  "stale_after_value ck payload =
     (let fallback = JInt (server_stale_seconds (ck_environ ck));
          d = jget_default payload ''last_ping_duration'' fallback
      in if jfloat d = None then fallback else d)"

definition api_v1_node_is_stale :: "clock \<Rightarrow> node \<Rightarrow> scheduler_error + bool" where
  "api_v1_node_is_stale ck n =
     (let polling = (case jfloat (jget (nd_fields n) ''polling_until_monotonic'') of
                       Some x \<Rightarrow> f_less (FNum (ck_monotonic ck)) x | None \<Rightarrow> False)
      in if polling then Inr False
         else ebind (to_float ck (stale_after_value ck (nd_fields n))) (\<lambda>after.
           Inr (f_less (f_max after (FNum 1)) (server_ping_age_seconds ck (nd_last_ping n)))))"

definition api_v1_safe_selected_server_payload :: "string \<Rightarrow> object \<Rightarrow> object" where
  "api_v1_safe_selected_server_payload key c =
     [(''public_key'', JStr key),
      (''capabilities'', JDict
        [(''api_version'', JStr ''v1''),
         (''supported_model_ids'', jget_default c ''supported_model_ids'' (JList [])),
         (''active_context_tier'', jget c ''active_context_tier''),
         (''maximum_total_context_tokens'', jget c ''maximum_total_context_tokens''),
         (''default_output_token_reservation'', jget c ''default_output_token_reservation''),
         (''maximum_output_tokens'', jget c ''maximum_output_tokens''),
         (''max_concurrency'', jget c ''max_concurrency''),
         (''backend_class'', jget_default c ''backend_class'' (JStr ''unknown''))])]"

record server_candidate =
  sc_server_public_key :: string
  sc_selected_server :: object
  sc_capabilities :: object
  sc_tier :: string
  sc_tier_tokens :: nat
  sc_context_window_tokens :: int
  sc_registration_index :: nat
  sc_capacity_limited :: bool
  sc_load :: load

text \<open>The tests on the capabilities, after the tier is known to satisfy the request.\<close>

definition capable_tier :: "object \<Rightarrow> string option \<Rightarrow> (string \<times> nat \<times> int) option" where
  "capable_tier c model =
     (case (jget c ''active_context_tier'', jget c ''supported_model_ids'', jget c ''maximum_total_context_tokens'') of
        (JStr tier, JList models, JInt window) \<Rightarrow>
          if models = [] then None
          else if (case model of Some m \<Rightarrow> m \<noteq> [] \<and> JStr m \<notin> set models | None \<Rightarrow> False) then None
          else (case dget CONTEXT_TIER_ORDER tier of
                  Some tokens \<Rightarrow> if tokens = 0 \<or> window < int tokens then None else Some (tier, tokens, window)
                | None \<Rightarrow> None)
      | _ \<Rightarrow> None)"

definition api_v1_scheduler_candidate ::
  "clock \<Rightarrow> relay \<Rightarrow> string option \<Rightarrow> string \<Rightarrow> bool \<Rightarrow> nat \<Rightarrow> string \<Rightarrow> node \<Rightarrow>
   scheduler_error + server_candidate option" where
  "api_v1_scheduler_candidate ck s model tier include_limited index key n =
     (let payload = nd_fields n
      in if \<not> jtruthy (jget payload API_V1_SERVER_MARKER) then Inr None
         else if api_v1_node_state payload \<in> set ineligible_states \<or> api_v1_node_has_ineligible_flag payload
         then Inr None
         else ebind (api_v1_node_is_stale ck n) (\<lambda>stale.
           if stale then Inr None
           else case jget payload ''capabilities'' of
             JDict c \<Rightarrow>
               if jget c ''api_version'' \<noteq> JStr ''v1'' then Inr None
               else (case context_tier_can_satisfy (jget c ''active_context_tier'') tier of
                       None \<Rightarrow> Inl TierKeyError
                     | Some False \<Rightarrow> Inr None
                     | Some True \<Rightarrow>
                         (case capable_tier c model of
                            None \<Rightarrow> Inr None
                          | Some (active, tokens, window) \<Rightarrow>
                              (let ld = api_v1_node_load_snapshot ck s key payload;
                                   limited = (int (ld_in_flight_count ld) \<ge> ld_max_concurrency ld
                                     \<or> int (ld_queue_depth ld) \<ge> api_v1_max_queue_depth_per_node (ck_environ ck))
                               in if limited \<and> \<not> include_limited then Inr None
                                  else Inr (Some \<lparr>sc_server_public_key = key,
                                         sc_selected_server = api_v1_safe_selected_server_payload key c,
                                         sc_capabilities = c, sc_tier = active, sc_tier_tokens = tokens,
                                         sc_context_window_tokens = window, sc_registration_index = index,
                                         sc_capacity_limited = limited, sc_load = ld\<rparr>))))
           | _ \<Rightarrow> Inr None))"

section \<open>Best fit\<close>

definition is_api_v1 :: "node \<Rightarrow> bool" where
  "is_api_v1 n = jtruthy (jget (nd_fields n) API_V1_SERVER_MARKER)"

definition api_v1_round_robin_keys :: "relay \<Rightarrow> string list" where
  "api_v1_round_robin_keys s = map fst (filter (\<lambda>(k, n). is_api_v1 n) (known_servers s))"

definition no_node :: node where
  "no_node = \<lparr>nd_fields = [], nd_last_ping = PingOther\<rparr>"

fun collect_candidates ::
  "clock \<Rightarrow> relay \<Rightarrow> string option \<Rightarrow> string \<Rightarrow> nat \<Rightarrow> string list \<Rightarrow> scheduler_error + server_candidate list" where
  "collect_candidates ck s model tier index [] = Inr []"
| "collect_candidates ck s model tier index (key # keys) =
     ebind (api_v1_scheduler_candidate ck s model tier True index key
              (case dget (known_servers s) key of Some n \<Rightarrow> n | None \<Rightarrow> no_node)) (\<lambda>c.
     ebind (collect_candidates ck s model tier (index + 1) keys) (\<lambda>cs.
     Inr ((case c of Some x \<Rightarrow> [x] | None \<Rightarrow> []) @ cs)))"

fun tier_counts :: "server_candidate list \<Rightarrow> (string, nat) dict \<Rightarrow> (string, nat) dict" where
  "tier_counts [] d = d"
| "tier_counts (c # cs) d =
     tier_counts cs (dset (sc_tier c) ((case dget d (sc_tier c) of Some n \<Rightarrow> n | None \<Rightarrow> 0) + 1) d)"

definition requested_model_of :: "string option \<Rightarrow> string option" where
  "requested_model_of model =
     (case model of
        Some m \<Rightarrow> if py_strip m \<noteq> [] then Some (resolve_alias (py_lower (py_strip m))) else None
      | None \<Rightarrow> None)"

definition load_candidates_of :: "server_candidate list \<Rightarrow> server_candidate list" where
  "load_candidates_of candidates =
     (let tokens = min_list (map sc_tier_tokens candidates);
          tier_candidates = filter (\<lambda>c. sc_tier_tokens c = tokens) candidates;
          score = min_list (map (ld_load_score \<circ> sc_load) tier_candidates)
      in filter (\<lambda>c. ld_load_score (sc_load c) = score) tier_candidates)"

definition rotation_distance :: "nat \<Rightarrow> nat \<Rightarrow> server_candidate \<Rightarrow> nat" where
  "rotation_distance current registered c =
     nat ((int (sc_registration_index c) - int current) mod int registered)"

text \<open>\<^verbatim>\<open>min(range(len(xs)), key=...)\<close>: the first position of the least value.\<close>

definition first_least :: "('a \<Rightarrow> nat) \<Rightarrow> 'a list \<Rightarrow> nat" where
  "first_least key xs = (let m = min_list (map key xs) in length (takeWhile (\<lambda>x. key x \<noteq> m) xs))"

definition tied_position :: "relay \<Rightarrow> nat \<Rightarrow> nat \<Rightarrow> server_candidate list \<Rightarrow> nat" where
  "tied_position s current registered tied =
     (case dget (api_v1_filtered_round_robin_next_positions s) (map sc_server_public_key tied) of
        Some p \<Rightarrow> p mod length tied
      | None \<Rightarrow> first_least (rotation_distance current registered) tied)"

record selection =
  sel_eligible_count :: nat
  sel_requested_model :: "string option"
  sel_eligible_tier_counts :: "(string, nat) dict"
  sel_capacity_limited_tier_counts :: "(string, nat) dict"
  sel_round_robin_index :: nat
  sel_round_robin_position :: "nat option"

text \<open>The entries the two returned dictionaries do not share are arguments of the constructors.\<close>

datatype best_fit =
    NoServer selection nat nat
  | Selected string selection load bool "string option" object

definition select_best_fit_server_key ::
  "clock \<Rightarrow> string option \<Rightarrow> string \<Rightarrow> relay \<Rightarrow> (scheduler_error + best_fit) \<times> relay" where
  "select_best_fit_server_key ck model tier s =
     (let requested = requested_model_of model;
          keys = api_v1_round_robin_keys s; registered = length keys;
          current = (if registered \<noteq> 0 then server_round_robin_next_index s mod registered else 0)
      in case collect_candidates ck s requested tier 0 keys of
           Inl e \<Rightarrow> (Inl e, s)
         | Inr all_candidates \<Rightarrow>
             (let limited = filter sc_capacity_limited all_candidates;
                  candidates = filter (\<lambda>c. \<not> sc_capacity_limited c) all_candidates;
                  limited_counts = tier_counts limited [];
                  eligible_counts = tier_counts candidates []
              in if candidates = []
                 then (Inr (NoServer
                        \<lparr>sel_eligible_count = 0, sel_requested_model = requested,
                         sel_eligible_tier_counts =
                           (if eligible_counts \<noteq> [] then eligible_counts else limited_counts),
                         sel_capacity_limited_tier_counts = limited_counts,
                         sel_round_robin_index = current, sel_round_robin_position = None\<rparr>
                        registered (length limited)), s)
                 else
                   (let tied = load_candidates_of candidates;
                        p = tied_position s current registered tied;
                        c = tied ! p;
                        next_index = (sc_registration_index c + 1) mod registered;
                        s' = s\<lparr>api_v1_filtered_round_robin_next_positions :=
                                 dset (map sc_server_public_key tied) ((p + 1) mod length tied)
                                   (api_v1_filtered_round_robin_next_positions s),
                               server_round_robin_next_index := next_index\<rparr>
                    in case dget CONTEXT_TIER_ORDER tier of
                         None \<Rightarrow> (Inl TierKeyError, s')
                       | Some requested_tokens \<Rightarrow>
                           (let spillover = (sc_tier_tokens c > requested_tokens)
                            in (Inr (Selected (sc_server_public_key c)
                                  \<lparr>sel_eligible_count = length candidates, sel_requested_model = requested,
                                   sel_eligible_tier_counts = eligible_counts,
                                   sel_capacity_limited_tier_counts = limited_counts,
                                   sel_round_robin_index = next_index, sel_round_robin_position = Some p\<rparr>
                                  (sc_load c) spillover
                                  (if spillover then Some ''no_smaller_eligible_node_available'' else None)
                                  (sc_selected_server c)), s')))))"

section \<open>Removing a node from the rotation\<close>

definition index_of :: "'a \<Rightarrow> 'a list \<Rightarrow> nat" where
  "index_of x xs = length (takeWhile (\<lambda>y. y \<noteq> x) xs)"

definition remove_known_server :: "string \<Rightarrow> relay \<Rightarrow> bool \<times> relay" where
  "remove_known_server key s =
     (let keys = api_v1_round_robin_keys s
      in if \<not> dmem key (known_servers s) then (False, s)
         else
           (let s' = s\<lparr>known_servers := ddel key (known_servers s)\<rparr>
            in if key \<notin> set keys then (True, s')
               else
                 (let removed = index_of key keys;
                      current = server_round_robin_next_index s mod length keys;
                      remaining = length keys - 1
                  in (True, s'\<lparr>server_round_robin_next_index :=
                        (if remaining = 0 then 0
                         else if removed < current then (current - 1) mod remaining
                         else current mod remaining)\<rparr>))))"

section \<open>The queue a node polls\<close>

definition is_e2ee :: "object \<Rightarrow> bool" where
  "is_e2ee item = jtruthy (jget item ''e2ee_v1'')"

definition is_legacy_ciphertext_payload :: "object \<Rightarrow> bool" where
  "is_legacy_ciphertext_payload item =
     list_all (\<lambda>k. dmem k item) [''client_public_key'', ''chat_history'', ''cipherkey'', ''iv'']"

text \<open>The first end-to-end encrypted item and the queue without it.\<close>

fun pop_e2ee :: "object list \<Rightarrow> (object \<times> object list) option" where
  "pop_e2ee [] = None"
| "pop_e2ee (x # xs) =
     (if is_e2ee x then Some (x, xs) else map_option (\<lambda>(y, ys). (y, x # ys)) (pop_e2ee xs))"

text \<open>The loop that drops items until a legacy envelope.\<close>

fun pop_legacy :: "object list \<Rightarrow> object option \<times> object list" where
  "pop_legacy [] = (None, [])"
| "pop_legacy (x # xs) = (if is_legacy_ciphertext_payload x then (Some x, xs) else pop_legacy xs)"

definition pop_next_api_v1_request :: "string \<Rightarrow> relay \<Rightarrow> object option \<times> relay" where
  "pop_next_api_v1_request key s =
     (let q = queue_of s key
      in if q = [] then (None, s)
         else
           (let (first, rest) = (case pop_e2ee q of Some (x, xs) \<Rightarrow> (Some x, xs) | None \<Rightarrow> pop_legacy q);
                rest' = (case first of Some x \<Rightarrow> if is_e2ee x then filter is_e2ee rest else rest | None \<Rightarrow> rest)
            in (first,
                s\<lparr>client_inference_requests :=
                    (if rest' = [] then ddel key (client_inference_requests s)
                     else dset key rest' (client_inference_requests s))\<rparr>)))"

section \<open>Facts\<close>

subsection \<open>Candidates\<close>

text \<open>What a candidate promises about the node it stands for.\<close>

definition fits :: "relay \<Rightarrow> string option \<Rightarrow> string \<Rightarrow> server_candidate \<Rightarrow> bool" where
  "fits s model tier c \<longleftrightarrow>
     (\<exists>n caps models requested. dget (known_servers s) (sc_server_public_key c) = Some n \<and> is_api_v1 n
        \<and> jget (nd_fields n) ''capabilities'' = JDict caps
        \<and> jget caps ''supported_model_ids'' = JList models
        \<and> (\<forall>m. model = Some m \<longrightarrow> m \<noteq> [] \<longrightarrow> JStr m \<in> set models)
        \<and> jget caps ''active_context_tier'' = JStr (sc_tier c)
        \<and> dget CONTEXT_TIER_ORDER (sc_tier c) = Some (sc_tier_tokens c)
        \<and> dget CONTEXT_TIER_ORDER tier = Some requested \<and> requested \<le> sc_tier_tokens c
        \<and> sc_selected_server c = api_v1_safe_selected_server_payload (sc_server_public_key c) caps)"

lemma capable_tier_Some:
  assumes "capable_tier c model = Some (tier, tokens, window)"
  shows "\<exists>models. jget c ''active_context_tier'' = JStr tier \<and> jget c ''supported_model_ids'' = JList models
     \<and> (\<forall>m. model = Some m \<longrightarrow> m \<noteq> [] \<longrightarrow> JStr m \<in> set models) \<and> dget CONTEXT_TIER_ORDER tier = Some tokens"
  using assms by (auto simp: capable_tier_def split: json.splits if_splits option.splits)

lemma candidate_fits:
  assumes "dget (known_servers s) key = Some n"
    and "api_v1_scheduler_candidate ck s model tier include_limited index key n = Inr (Some c)"
  shows "fits s model tier c \<and> sc_server_public_key c = key"
proof -
  have marked: "is_api_v1 n" and stale: "api_v1_node_is_stale ck n = Inr False"
    using assms(2) by (auto simp: api_v1_scheduler_candidate_def is_api_v1_def Let_def ebind_Inr split: if_splits)
  obtain caps where caps: "jget (nd_fields n) ''capabilities'' = JDict caps"
    using assms(2) by (auto simp: api_v1_scheduler_candidate_def Let_def ebind_Inr split: if_splits json.splits)
  obtain active tokens window where t: "context_tier_can_satisfy (jget caps ''active_context_tier'') tier = Some True"
      "capable_tier caps model = Some (active, tokens, window)"
    using assms(2)
    by (auto simp: api_v1_scheduler_candidate_def Let_def ebind_Inr stale caps split: if_splits option.splits bool.splits)
  have c: "sc_server_public_key c = key" "sc_tier c = active" "sc_tier_tokens c = tokens"
      "sc_selected_server c = api_v1_safe_selected_server_payload key caps"
    using assms(2)
    by (auto simp: api_v1_scheduler_candidate_def Let_def ebind_Inr stale caps t split: if_splits)
  from capable_tier_Some [OF t(2)] obtain models where m: "jget caps ''active_context_tier'' = JStr active"
      "jget caps ''supported_model_ids'' = JList models" "dget CONTEXT_TIER_ORDER active = Some tokens"
      "\<forall>m. model = Some m \<longrightarrow> m \<noteq> [] \<longrightarrow> JStr m \<in> set models" by blast
  from t(1) m(1,3) obtain r where "dget CONTEXT_TIER_ORDER tier = Some r" "r \<le> tokens"
    by (auto simp: context_tier_can_satisfy_def)
  with assms(1) marked caps m c show ?thesis unfolding fits_def by auto
qed

lemma candidate_of_none: "api_v1_scheduler_candidate ck s model tier l index key no_node = Inr None"
  by (simp add: api_v1_scheduler_candidate_def no_node_def)

lemma collected_fit:
  assumes "collect_candidates ck s model tier i keys = Inr cs" and "c \<in> set cs"
  shows "fits s model tier c"
  using assms
proof (induction keys arbitrary: i cs)
  case (Cons key keys)
  obtain x ys where x: "api_v1_scheduler_candidate ck s model tier True i key
        (case dget (known_servers s) key of Some n \<Rightarrow> n | None \<Rightarrow> no_node) = Inr x"
      and ys: "collect_candidates ck s model tier (i + 1) keys = Inr ys"
      and cs: "cs = (case x of Some y \<Rightarrow> [y] | None \<Rightarrow> []) @ ys"
    using Cons.prems(1) by (auto simp: ebind_Inr)
  consider "c \<in> set ys" | "x = Some c" using Cons.prems(2) cs by (auto split: option.splits)
  then show ?case
  proof cases
    case 1
    then show ?thesis using Cons.IH [OF ys] by blast
  next
    case 2
    then obtain n where n: "dget (known_servers s) key = Some n"
      using x by (cases "dget (known_servers s) key") (auto simp: candidate_of_none)
    with x 2 candidate_fits [OF n] show ?thesis by auto
  qed
qed simp

lemma candidate_unchanged:
  assumes "client_inference_requests t = client_inference_requests s"
  shows "api_v1_scheduler_candidate ck t = api_v1_scheduler_candidate ck s"
proof -
  have load: "api_v1_node_load_snapshot ck t = api_v1_node_load_snapshot ck s"
    by (intro ext) (simp add: api_v1_node_load_snapshot_def queue_of_def assms)
  show ?thesis by (intro ext) (simp only: api_v1_scheduler_candidate_def load)
qed

lemma collect_unchanged:
  assumes "known_servers t = known_servers s" and "client_inference_requests t = client_inference_requests s"
  shows "collect_candidates ck t model tier i keys = collect_candidates ck s model tier i keys"
  by (induction keys arbitrary: i) (simp_all add: assms(1) candidate_unchanged [OF assms(2)])

subsection \<open>The tied candidates\<close>

abbreviation score :: "server_candidate \<Rightarrow> nat \<times> rat" where
  "score c \<equiv> (sc_tier_tokens c, ld_load_score (sc_load c))"

lemma min_list_mem:
  fixes xs :: "'a::linorder list"
  shows "xs \<noteq> [] \<Longrightarrow> min_list xs \<in> set xs \<and> (\<forall>x \<in> set xs. min_list xs \<le> x)"
  by (simp add: min_list_Min)

lemma tied_nonempty: "cs \<noteq> [] \<Longrightarrow> load_candidates_of cs \<noteq> []"
proof -
  assume "cs \<noteq> []"
  define ts where "ts = filter (\<lambda>c. sc_tier_tokens c = min_list (map sc_tier_tokens cs)) cs"
  have "min_list (map sc_tier_tokens cs) \<in> set (map sc_tier_tokens cs)"
    using \<open>cs \<noteq> []\<close> min_list_mem by blast
  then have "ts \<noteq> []" by (auto simp: ts_def filter_empty_conv)
  then have "min_list (map (ld_load_score \<circ> sc_load) ts) \<in> set (map (ld_load_score \<circ> sc_load) ts)"
    using min_list_mem by blast
  then show "load_candidates_of cs \<noteq> []"
    unfolding load_candidates_of_def Let_def ts_def [symmetric] by (auto simp: filter_empty_conv)
qed

lemma tied_best:
  assumes "c \<in> set (load_candidates_of cs)"
  shows "c \<in> set cs \<and> (\<forall>d \<in> set cs. score c \<le> score d)"
proof -
  define m where "m = min_list (map sc_tier_tokens cs)"
  define ts where "ts = filter (\<lambda>c. sc_tier_tokens c = m) cs"
  have c: "c \<in> set cs" "sc_tier_tokens c = m"
      "ld_load_score (sc_load c) = min_list (map (ld_load_score \<circ> sc_load) ts)"
    using assms by (auto simp: load_candidates_of_def Let_def m_def ts_def)
  have "score c \<le> score d" if "d \<in> set cs" for d
  proof -
    have "m \<le> sc_tier_tokens d"
      using that min_list_mem [of "map sc_tier_tokens cs"] unfolding m_def by fastforce
    moreover have "ld_load_score (sc_load c) \<le> ld_load_score (sc_load d)" if "sc_tier_tokens d = m"
    proof -
      have "d \<in> set ts" using that \<open>d \<in> set cs\<close> by (simp add: ts_def)
      then show ?thesis using min_list_mem [of "map (ld_load_score \<circ> sc_load) ts"] unfolding c(3) by fastforce
    qed
    ultimately show ?thesis using c(2) by (auto simp: less_eq_prod_def le_less)
  qed
  with c(1) show ?thesis by blast
qed

lemma takeWhile_shorter: "x \<in> set xs \<Longrightarrow> \<not> P x \<Longrightarrow> length (takeWhile P xs) < length xs"
  by (induction xs) auto

lemma first_least_bound: "xs \<noteq> [] \<Longrightarrow> first_least key xs < length xs"
proof -
  assume "xs \<noteq> []"
  then have "min_list (map key xs) \<in> set (map key xs)" using min_list_mem by blast
  then obtain x where "x \<in> set xs" "key x = min_list (map key xs)" by auto
  then show "first_least key xs < length xs"
    unfolding first_least_def Let_def by (intro takeWhile_shorter [of x]) auto
qed

lemma tied_position_bound: "tied \<noteq> [] \<Longrightarrow> tied_position s current n tied < length tied"
  by (auto simp: tied_position_def first_least_bound split: option.split)

text \<open>The keys that are tied at a point in time: no selection changes them.\<close>

definition tied_keys :: "clock \<Rightarrow> string option \<Rightarrow> string \<Rightarrow> relay \<Rightarrow> scheduler_error + string list" where
  "tied_keys ck model tier s =
     ebind (collect_candidates ck s (requested_model_of model) tier 0 (api_v1_round_robin_keys s)) (\<lambda>all_candidates.
       let cs = filter (\<lambda>c. \<not> sc_capacity_limited c) all_candidates
       in Inr (if cs = [] then [] else map sc_server_public_key (load_candidates_of cs)))"

text \<open>The selection among tied candidates, with the state it leaves.\<close>

definition advance :: "server_candidate list \<Rightarrow> nat \<Rightarrow> nat \<Rightarrow> relay \<Rightarrow> relay" where
  "advance tied p registered s =
     s\<lparr>api_v1_filtered_round_robin_next_positions :=
         dset (map sc_server_public_key tied) ((p + 1) mod length tied)
           (api_v1_filtered_round_robin_next_positions s),
       server_round_robin_next_index := (sc_registration_index (tied ! p) + 1) mod registered\<rparr>"

lemma advance_frames:
  "known_servers (advance tied p n s) = known_servers s"
  "client_inference_requests (advance tied p n s) = client_inference_requests s"
  "dget (api_v1_filtered_round_robin_next_positions (advance tied p n s)) (map sc_server_public_key tied)
     = Some ((p + 1) mod length tied)"
  by (simp_all add: advance_def dget_dset)

lemma select_value:
  fixes s :: relay
  defines "registered \<equiv> length (api_v1_round_robin_keys s)"
  assumes "collect_candidates ck s (requested_model_of model) tier 0 (api_v1_round_robin_keys s) = Inr all_candidates"
    and cs: "cs = filter (\<lambda>c. \<not> sc_capacity_limited c) all_candidates" "cs \<noteq> []"
    and "dget CONTEXT_TIER_ORDER tier = Some n"
    and tied: "tied = load_candidates_of cs"
    and p: "p = tied_position s (if registered \<noteq> 0 then server_round_robin_next_index s mod registered else 0)
      registered tied"
  shows "\<exists>sel why. select_best_fit_server_key ck model tier s =
     (Inr (Selected (sc_server_public_key (tied ! p)) sel (sc_load (tied ! p)) (sc_tier_tokens (tied ! p) > n) why
        (sc_selected_server (tied ! p))), advance tied p registered s)"
  unfolding select_best_fit_server_key_def Let_def advance_def registered_def [symmetric] cs(1) [symmetric]
    tied [symmetric] p [symmetric] assms(2) sum.case assms(5) option.case if_not_P [OF cs(2)] by blast

lemma select_tied:
  assumes "tied_keys ck model tier s = Inr ks" and "ks \<noteq> []" and "dget CONTEXT_TIER_ORDER tier \<noteq> None"
  shows "\<exists>p t sel ld sp why srv. p < length ks
     \<and> (\<forall>q. dget (api_v1_filtered_round_robin_next_positions s) ks = Some q \<longrightarrow> p = q mod length ks)
     \<and> select_best_fit_server_key ck model tier s = (Inr (Selected (ks ! p) sel ld sp why srv), t)
     \<and> dget (api_v1_filtered_round_robin_next_positions t) ks = Some ((p + 1) mod length ks)
     \<and> known_servers t = known_servers s \<and> client_inference_requests t = client_inference_requests s"
proof -
  obtain all_candidates where all: "collect_candidates ck s (requested_model_of model) tier 0 (api_v1_round_robin_keys s)
      = Inr all_candidates" using assms(1) by (auto simp: tied_keys_def ebind_Inr)
  define cs where "cs = filter (\<lambda>c. \<not> sc_capacity_limited c) all_candidates"
  define tied where "tied = load_candidates_of cs"
  have cs: "cs \<noteq> []" and ks: "ks = map sc_server_public_key tied"
    using assms(1,2) by (auto simp: tied_keys_def all Let_def cs_def [symmetric] tied_def split: if_splits)
  obtain n where n: "dget CONTEXT_TIER_ORDER tier = Some n" using assms(3) by blast
  define registered where "registered = length (api_v1_round_robin_keys s)"
  define current where "current = (if registered \<noteq> 0 then server_round_robin_next_index s mod registered else 0)"
  define p where "p = tied_position s current registered tied"
  have "tied \<noteq> []" unfolding tied_def using cs by (rule tied_nonempty)
  then have p: "p < length ks" unfolding p_def ks length_map by (rule tied_position_bound)
  have key: "sc_server_public_key (tied ! p) = ks ! p" and len: "length tied = length ks"
    using p by (simp_all add: ks)
  have stored: "\<forall>q. dget (api_v1_filtered_round_robin_next_positions s) ks = Some q \<longrightarrow> p = q mod length ks"
    by (simp add: p_def tied_position_def ks)
  obtain sel why where eq: "select_best_fit_server_key ck model tier s =
     (Inr (Selected (ks ! p) sel (sc_load (tied ! p)) (sc_tier_tokens (tied ! p) > n) why
        (sc_selected_server (tied ! p))), advance tied p registered s)"
    using select_value [OF all cs_def cs n tied_def, folded registered_def, folded current_def, OF p_def]
    unfolding key by blast
  have advanced: "dget (api_v1_filtered_round_robin_next_positions (advance tied p registered s)) ks
      = Some ((p + 1) mod length ks)"
    using advance_frames(3) [of tied p registered s] unfolding ks [symmetric] len .
  show ?thesis
    by (rule exI [of _ p], rule exI [of _ "advance tied p registered s"], rule exI [of _ sel],
        rule exI [of _ "sc_load (tied ! p)"], rule exI [of _ "sc_tier_tokens (tied ! p) > n"], rule exI [of _ why],
        rule exI [of _ "sc_selected_server (tied ! p)"]) (intro conjI p stored eq advanced advance_frames(1,2))
qed

lemma tied_keys_unchanged:
  assumes "known_servers t = known_servers s" and "client_inference_requests t = client_inference_requests s"
  shows "tied_keys ck model tier t = tied_keys ck model tier s"
  unfolding tied_keys_def api_v1_round_robin_keys_def assms(1) collect_unchanged [OF assms] by (rule refl)

text \<open>The nodes a sequence of selections returns.\<close>

fun select_each :: "clock list \<Rightarrow> string option \<Rightarrow> string \<Rightarrow> relay \<Rightarrow> string option list" where
  "select_each [] model tier s = []"
| "select_each (ck # cks) model tier s =
     (case select_best_fit_server_key ck model tier s of
        (r, t) \<Rightarrow> (case r of Inr (Selected key _ _ _ _ _) \<Rightarrow> Some key | _ \<Rightarrow> None)
          # select_each cks model tier t)"

lemma rotation_from:
  assumes "list_all (\<lambda>ck. tied_keys ck model tier s = Inr ks) cks" and "ks \<noteq> []"
    and "dget CONTEXT_TIER_ORDER tier \<noteq> None"
    and "dget (api_v1_filtered_round_robin_next_positions s) ks = Some q"
  shows "select_each cks model tier s = map (\<lambda>i. Some (ks ! ((q + i) mod length ks))) [0..<length cks]"
  using assms(1,4)
proof (induction cks arbitrary: s q)
  case (Cons ck cks)
  have "tied_keys ck model tier s = Inr ks" using Cons.prems(1) by simp
  from select_tied [OF this assms(2,3)] Cons.prems(2) obtain t sel ld sp why srv
    where r: "select_best_fit_server_key ck model tier s = (Inr (Selected (ks ! (q mod length ks)) sel ld sp why srv), t)"
      and advanced: "dget (api_v1_filtered_round_robin_next_positions t) ks = Some ((q mod length ks + 1) mod length ks)"
      and same: "known_servers t = known_servers s" "client_inference_requests t = client_inference_requests s"
    by blast
  have "list_all (\<lambda>ck. tied_keys ck model tier t = Inr ks) cks"
    using Cons.prems(1) by (simp add: tied_keys_unchanged [OF same])
  from Cons.IH [OF this advanced] have rest: "select_each cks model tier t =
      map (\<lambda>i. Some (ks ! ((q + Suc i) mod length ks))) [0..<length cks]"
    by (simp add: mod_simps)
  have "select_each (ck # cks) model tier s = Some (ks ! (q mod length ks)) # select_each cks model tier t"
    by (simp add: r)
  also have "\<dots> = map (\<lambda>i. Some (ks ! ((q + i) mod length ks))) [0..<length (ck # cks)]"
    unfolding rest by (subst upt_conv_Cons) (auto simp: map_Suc_upt [symmetric] simp del: upt_Suc)
  finally show ?case .
qed simp

subsection \<open>Removal\<close>

lemma index_of_nth: "x \<in> set xs \<Longrightarrow> index_of x xs < length xs \<and> xs ! index_of x xs = x"
proof -
  assume "x \<in> set xs"
  then have l: "index_of x xs < length xs" unfolding index_of_def by (intro takeWhile_shorter [of x]) auto
  then have "\<not> xs ! index_of x xs \<noteq> x" unfolding index_of_def by (rule nth_length_takeWhile)
  with l show ?thesis by simp
qed

lemma filter_neq_nth:
  assumes "distinct xs" and "r < length xs"
  shows "filter (\<lambda>y. y \<noteq> xs ! r) xs = take r xs @ drop (Suc r) xs"
proof -
  have split: "xs = take r xs @ xs ! r # drop (Suc r) xs" using assms(2) by (rule id_take_nth_drop)
  have "xs ! r \<notin> set (take r xs)" "xs ! r \<notin> set (drop (Suc r) xs)"
    using assms(1) by (metis distinct_append distinct.simps(2) split disjoint_iff list.set_intros(1))+
  then have "filter (\<lambda>y. y \<noteq> xs ! r) (take r xs) = take r xs"
      "filter (\<lambda>y. y \<noteq> xs ! r) (drop (Suc r) xs) = drop (Suc r) xs"
    by (auto simp: filter_id_conv)
  then show ?thesis by (subst (2) split) simp
qed

lemma keys_after_removal:
  "api_v1_round_robin_keys (s\<lparr>known_servers := ddel key (known_servers s), server_round_robin_next_index := i\<rparr>)
     = filter (\<lambda>k. k \<noteq> key) (api_v1_round_robin_keys s)"
  by (simp add: api_v1_round_robin_keys_def ddel_filter filter_map comp_def case_prod_beta conj_commute)

lemma keys_distinct: "wf_dict (known_servers s) \<Longrightarrow> distinct (api_v1_round_robin_keys s)"
  unfolding api_v1_round_robin_keys_def by (rule distinct_map_filter)

text \<open>The node the cursor points to.\<close>

definition next_in_rotation :: "relay \<Rightarrow> string" where
  "next_in_rotation s =
     (let keys = api_v1_round_robin_keys s in keys ! (server_round_robin_next_index s mod length keys))"

lemma rotation_after:
  fixes c r n :: nat
  assumes "c < n" "r < n" "1 < n"
  defines "j \<equiv> (if r < c then (c - 1) mod (n - 1) else c mod (n - 1))"
  shows "j < n - 1" and "(if j < r then j else Suc j) = (if c = r then (c + 1) mod n else c)"
proof -
  show "j < n - 1" using assms(3) by (simp add: j_def)
  consider "r < c" | "r = c" "c < n - 1" | "r = c" "c = n - 1" | "c < r" using assms(1) by linarith
  then show "(if j < r then j else Suc j) = (if c = r then (c + 1) mod n else c)"
    using assms(1-3) by cases (simp_all add: j_def)
qed

subsection \<open>Queues\<close>

lemma pop_e2ee_None: "pop_e2ee q = None \<longleftrightarrow> filter is_e2ee q = []"
  by (induction q) auto

lemma pop_e2ee_Some:
  "pop_e2ee q = Some (x, rest) \<Longrightarrow> is_e2ee x \<and> filter is_e2ee q = x # filter is_e2ee rest"
  by (induction q arbitrary: x rest) (auto split: if_splits)

lemma pop_legacy_eq:
  "pop_legacy q = (find is_legacy_ciphertext_payload q, tl (dropWhile (\<lambda>x. \<not> is_legacy_ciphertext_payload x) q))"
  by (induction q) auto

lemma queue_of_update:
  "queue_of (s\<lparr>client_inference_requests := ddel key (client_inference_requests s)\<rparr>) k
     = (if k = key then [] else queue_of s k)"
  "queue_of (s\<lparr>client_inference_requests := dset key q (client_inference_requests s)\<rparr>) k
     = (if k = key then q else queue_of s k)"
  by (simp_all add: queue_of_def dget_dset dget_ddel)

end
