(* ===== verification/Relay_Lifecycle.thy ===== *)
theory Relay_Lifecycle
  imports Relay_Scheduler
begin

text \<open>
  The life of an API v1 request in the relay process (\<^verbatim>\<open>src/relay.py\<close>): the pending,
  terminal and outcome dictionaries, the waiting responses, the progress slot, the control
  tombstones, cancellation, and the eviction pass the handlers run first.

  The keys of these dictionaries are texts. Every test \<^verbatim>\<open>isinstance(entry, dict)\<close> on an entry
  that only this module writes is built into the type of the entry. An operation reads each
  clock once.
\<close>

section \<open>Dictionaries of dictionaries\<close>

text \<open>
  \<open>nset\<close> is \<^verbatim>\<open>d.setdefault(c, {})[r] = v\<close>; \<open>ndel\<close> pops \<open>r\<close> and then an inner
  dictionary that became empty; \<open>nprune\<close> does so for all entries with \<open>p\<close>.
\<close>

type_synonym 'v nested = "(string, (string, 'v) dict) dict"

definition inner :: "'v nested \<Rightarrow> string \<Rightarrow> (string, 'v) dict" where
  "inner d c = (case dget d c of Some m \<Rightarrow> m | None \<Rightarrow> [])"

definition nget :: "'v nested \<Rightarrow> string \<Rightarrow> string \<Rightarrow> 'v option" where
  "nget d c r = dget (inner d c) r"

definition nset :: "string \<Rightarrow> string \<Rightarrow> 'v \<Rightarrow> 'v nested \<Rightarrow> 'v nested" where
  "nset c r v d = dset c (dset r v (inner d c)) d"

definition ndel :: "string \<Rightarrow> string \<Rightarrow> 'v nested \<Rightarrow> 'v nested" where
  "ndel c r d =
     (case dget d c of
        None \<Rightarrow> d
      | Some m \<Rightarrow> (let m' = ddel r m in if m' = [] then ddel c d else dset c m' d))"

definition nprune :: "('v \<Rightarrow> bool) \<Rightarrow> 'v nested \<Rightarrow> 'v nested" where
  "nprune p d = filter (\<lambda>(c, m). m \<noteq> []) (map (\<lambda>(c, m). (c, dprune p m)) d)"

definition wf_nested :: "'v nested \<Rightarrow> bool" where
  "wf_nested d \<longleftrightarrow> wf_dict d \<and> (\<forall>c. wf_dict (inner d c))"

section \<open>State\<close>

text \<open>One waiting response is kept as it is, several as a list.\<close>

datatype waiting = Single object | Several "object list"

record pending_entry =
  pe_queued_at :: rat
  pe_request_deadline_monotonic :: "rat option"
  pe_cancel_token :: "string option"

record terminal_entry =
  te_status :: string
  te_reason :: string
  te_expires_at :: pyfloat

record relay_tombstone =
  rt_server_public_key :: string
  rt_request_id :: string
  rt_client_public_key :: json
  rt_status :: string
  rt_reason :: string
  rt_deadline_monotonic :: json
  rt_control_credential_digest :: json
  rt_expires_at_monotonic :: pyfloat

record session =
  ss_server_public_key :: string
  ss_client_public_key :: string
  ss_chunks :: "json list"
  ss_closed :: bool
  ss_created_at :: rat
  ss_updated_at :: rat

text \<open>
  \<open>request_outcomes_total\<close> and \<open>evictions_total\<close> are the labelled counters of the metrics.
\<close>

record exchange =
  xc_relay :: relay
  client_responses :: "(string, waiting) dict"
  client_progress :: "(string \<times> string, object) dict"
  client_pending_request_ids :: "pending_entry nested"
  client_pending_request_deadlines :: "rat nested"
  client_terminal_request_ids :: "terminal_entry nested"
  client_terminal_outcomes :: "pyfloat nested"
  api_v1_control_tombstones :: "(string, relay_tombstone) dict"
  api_v1_recently_unregistered_servers :: "(string, rat) dict"
  streaming_sessions :: "(string, session) dict"
  streaming_sessions_by_client :: "(string, string) dict"
  request_outcomes_total :: "(string, nat) dict"
  evictions_total :: "(string, nat) dict"

definition empty_exchange :: exchange where
  "empty_exchange =
     \<lparr>xc_relay = \<lparr>known_servers = [], client_inference_requests = [], server_round_robin_next_index = 0,
                   api_v1_filtered_round_robin_next_positions = []\<rparr>,
      client_responses = [], client_progress = [], client_pending_request_ids = [],
      client_pending_request_deadlines = [], client_terminal_request_ids = [], client_terminal_outcomes = [],
      api_v1_control_tombstones = [], api_v1_recently_unregistered_servers = [], streaming_sessions = [],
      streaming_sessions_by_client = [], request_outcomes_total = [], evictions_total = []\<rparr>"

text \<open>
  What the operations read of the outside: the clocks and settings, float addition, the two
  retention settings of the module and the digests.
\<close>

record ambient =
  am_clock :: clock
  am_plus :: "rat \<Rightarrow> rat \<Rightarrow> pyfloat"
  TERMINAL_REQUEST_TTL_SECONDS :: pyfloat
  PENDING_REQUEST_TTL_SECONDS :: pyfloat
  SERVER_REGISTRATION_TOKENS :: "string list"
  am_digests :: env

definition f_le :: "pyfloat \<Rightarrow> pyfloat \<Rightarrow> bool" where
  "f_le x y \<longleftrightarrow> f_less x y \<or> x = y \<and> x \<noteq> FNan"

fun f_plus :: "ambient \<Rightarrow> rat \<Rightarrow> pyfloat \<Rightarrow> pyfloat" where
  "f_plus am a (FNum b) = am_plus am a b"
| "f_plus am a x = x"

abbreviation now_time :: "ambient \<Rightarrow> rat" where
  "now_time am \<equiv> ck_time (am_clock am)"

abbreviation now_monotonic :: "ambient \<Rightarrow> rat" where
  "now_monotonic am \<equiv> ck_monotonic (am_clock am)"

definition servers :: "exchange \<Rightarrow> (string, node) dict" where
  "servers s = known_servers (xc_relay s)"

definition set_servers :: "(string, node) dict \<Rightarrow> exchange \<Rightarrow> exchange" where
  "set_servers d s = s\<lparr>xc_relay := (xc_relay s)\<lparr>known_servers := d\<rparr>\<rparr>"

definition queues :: "exchange \<Rightarrow> (string, object list) dict" where
  "queues s = client_inference_requests (xc_relay s)"

definition set_queues :: "(string, object list) dict \<Rightarrow> exchange \<Rightarrow> exchange" where
  "set_queues d s = s\<lparr>xc_relay := (xc_relay s)\<lparr>client_inference_requests := d\<rparr>\<rparr>"

section \<open>Outcomes\<close>

definition OUTCOME_ENUM :: "string list" where
  "OUTCOME_ENUM = [''completed'', ''cancelled'', ''expired'', ''timed_out'', ''rate_limited'',
     ''dependency_failure'', ''failed'']"

definition count_label :: "string \<Rightarrow> (string, nat) dict \<Rightarrow> (string, nat) dict" where
  "count_label l d = dset l (case dget d l of Some n \<Rightarrow> Suc n | None \<Rightarrow> 1) d"

definition record_terminal_outcome :: "string \<Rightarrow> exchange \<Rightarrow> exchange" where
  "record_terminal_outcome outcome s =
     (let l = (if outcome \<in> set OUTCOME_ENUM then outcome else ''failed'')
      in s\<lparr>request_outcomes_total := count_label l (request_outcomes_total s)\<rparr>)"

definition terminal_expiry :: "ambient \<Rightarrow> pyfloat" where
  "terminal_expiry am = f_plus am (now_time am) (f_max (TERMINAL_REQUEST_TTL_SECONDS am) (FNum 1))"

definition record_request_terminal_outcome_once ::
  "ambient \<Rightarrow> string \<Rightarrow> string \<Rightarrow> string \<Rightarrow> exchange \<Rightarrow> bool \<times> exchange" where
  "record_request_terminal_outcome_once am c r outcome s =
     (if c = [] \<or> r = [] then (False, s)
      else if nget (client_terminal_outcomes s) c r \<noteq> None then (False, s)
      else (True, record_terminal_outcome outcome
              (s\<lparr>client_terminal_outcomes := nset c r (terminal_expiry am) (client_terminal_outcomes s)\<rparr>)))"

definition has_request_terminal_outcome :: "ambient \<Rightarrow> string \<Rightarrow> string \<Rightarrow> exchange \<Rightarrow> bool \<times> exchange" where
  "has_request_terminal_outcome am c r s =
     (if c = [] \<or> r = [] then (False, s)
      else case nget (client_terminal_outcomes s) c r of
        None \<Rightarrow> (False, s)
      | Some expires \<Rightarrow>
          if f_less (FNum (now_time am)) expires then (True, s)
          else (False, s\<lparr>client_terminal_outcomes := ndel c r (client_terminal_outcomes s)\<rparr>))"

definition terminal_outcome_from_status_reason :: "string \<Rightarrow> string \<Rightarrow> string" where
  "terminal_outcome_from_status_reason status reason =
     (if reason = ''provider_timeout'' then ''timed_out''
      else if status = ''expired'' then ''expired''
      else if status = ''cancelled'' then ''cancelled''
      else ''failed'')"

section \<open>Terminal requests\<close>

definition ALLOWED_API_V1_TERMINAL_STATUSES :: "string list" where
  "ALLOWED_API_V1_TERMINAL_STATUSES = [''cancelled'', ''expired'']"

definition ALLOWED_API_V1_TERMINAL_REASONS :: "string list" where
  "ALLOWED_API_V1_TERMINAL_REASONS =
     [''cancelled'', ''client_timeout'', ''expired'', ''requester_cancelled'', ''requester_gave_up'',
      ''provider_timeout'', ''pending_request_ttl_exceeded'', ''server_unregistered'']"

definition sanitize_terminal_status :: "json \<Rightarrow> string" where
  "sanitize_terminal_status v =
     (case v of JStr t \<Rightarrow> if t \<in> set ALLOWED_API_V1_TERMINAL_STATUSES then t else ''cancelled''
      | _ \<Rightarrow> ''cancelled'')"

definition sanitize_terminal_reason :: "json \<Rightarrow> string \<Rightarrow> string" where
  "sanitize_terminal_reason v status =
     (case v of JStr t \<Rightarrow> if t \<in> set ALLOWED_API_V1_TERMINAL_REASONS then t else status | _ \<Rightarrow> status)"

definition prune_terminal_requests :: "ambient \<Rightarrow> exchange \<Rightarrow> exchange" where
  "prune_terminal_requests am s =
     (let over = (\<lambda>x. f_le x (FNum (now_time am)))
      in s\<lparr>client_terminal_request_ids := nprune (\<lambda>t. over (te_expires_at t)) (client_terminal_request_ids s),
            client_terminal_outcomes := nprune over (client_terminal_outcomes s)\<rparr>)"

definition mark_request_terminal ::
  "ambient \<Rightarrow> string \<Rightarrow> string \<Rightarrow> string \<Rightarrow> string \<Rightarrow> exchange \<Rightarrow> bool \<times> exchange" where
  "mark_request_terminal am c r status0 reason0 s =
     (if c = [] \<or> r = [] then (False, s)
      else
        (let status = sanitize_terminal_status (JStr status0);
             reason = sanitize_terminal_reason (JStr reason0) status;
             s1 = prune_terminal_requests am s
         in if nget (client_terminal_request_ids s1) c r \<noteq> None then (False, s1)
            else record_request_terminal_outcome_once am c r (terminal_outcome_from_status_reason status reason)
              (s1\<lparr>client_terminal_request_ids :=
                  nset c r \<lparr>te_status = status, te_reason = reason, te_expires_at = terminal_expiry am\<rparr>
                    (client_terminal_request_ids s1)\<rparr>)))"

definition get_terminal_request ::
  "ambient \<Rightarrow> string \<Rightarrow> string \<Rightarrow> exchange \<Rightarrow> terminal_entry option \<times> exchange" where
  "get_terminal_request am c r s =
     (if c = [] \<or> r = [] then (None, s)
      else case nget (client_terminal_request_ids s) c r of
        None \<Rightarrow> (None, s)
      | Some t \<Rightarrow>
          if f_le (te_expires_at t) (FNum (now_time am))
          then (None, s\<lparr>client_terminal_request_ids := ndel c r (client_terminal_request_ids s)\<rparr>)
          else (Some t, s))"

section \<open>Control tombstones\<close>

definition control_tombstone_key :: "string \<Rightarrow> string \<Rightarrow> string" where
  "control_tombstone_key server r = server @ CHR 0x00 # r"

definition prune_api_v1_control_tombstones :: "ambient \<Rightarrow> exchange \<Rightarrow> exchange" where
  "prune_api_v1_control_tombstones am s =
     s\<lparr>api_v1_control_tombstones :=
         dprune (\<lambda>t. f_le (rt_expires_at_monotonic t) (FNum (now_monotonic am))) (api_v1_control_tombstones s)\<rparr>"

text \<open>Without a digest of its own the tombstone takes that of the registered node.\<close>

definition add_api_v1_control_tombstone ::
  "ambient \<Rightarrow> string \<Rightarrow> string \<Rightarrow> json \<Rightarrow> string \<Rightarrow> string \<Rightarrow> json \<Rightarrow> json \<Rightarrow> exchange \<Rightarrow> exchange" where
  "add_api_v1_control_tombstone am server r c status0 reason0 deadline digest s =
     (if server = [] \<or> r = [] then s
      else
        (let status = sanitize_terminal_status (JStr status0);
             reason = sanitize_terminal_reason (JStr reason0) status;
             owner = (if digest \<noteq> JNull then digest
                      else case dget (servers s) server of
                        Some n \<Rightarrow> jget (nd_fields n) DIGEST_KEY | None \<Rightarrow> JNull);
             t = \<lparr>rt_server_public_key = server, rt_request_id = r, rt_client_public_key = c, rt_status = status,
                  rt_reason = reason, rt_deadline_monotonic = deadline, rt_control_credential_digest = owner,
                  rt_expires_at_monotonic =
                    am_plus am (now_monotonic am)
                      (api_v1_control_tombstone_ttl_seconds (ck_environ (am_clock am)))\<rparr>;
             s1 = prune_api_v1_control_tombstones am s
         in s1\<lparr>api_v1_control_tombstones :=
                dset (control_tombstone_key server r) t (api_v1_control_tombstones s1)\<rparr>))"

section \<open>Queued work, responses and progress\<close>

definition is_request :: "string \<Rightarrow> string \<Rightarrow> object \<Rightarrow> bool" where
  "is_request c r item \<longleftrightarrow> jget item ''client_public_key'' = JStr c \<and> jget item ''request_id'' = JStr r"

definition names_request :: "string \<Rightarrow> object \<Rightarrow> bool" where
  "names_request r envelope \<longleftrightarrow> jget envelope ''request_id'' = JStr r"

text \<open>A queue is replaced by what is kept; one that lost its last entry is dropped.\<close>

fun without_request :: "string \<Rightarrow> string \<Rightarrow> (string, object list) dict \<Rightarrow> (string, object list) dict" where
  "without_request c r [] = []"
| "without_request c r ((key, q) # d) =
     (let kept = filter (\<lambda>item. \<not> is_request c r item) q
      in if kept = [] \<and> q \<noteq> [] then without_request c r d else (key, kept) # without_request c r d)"

definition remove_request_from_server_queues :: "string \<Rightarrow> string \<Rightarrow> exchange \<Rightarrow> nat \<times> exchange" where
  "remove_request_from_server_queues c r s =
     (sum_list (map (\<lambda>q. length (filter (is_request c r) q)) (dvals (queues s))),
      set_queues (without_request c r (queues s)) s)"

definition store_waiting :: "string \<Rightarrow> object list \<Rightarrow> exchange \<Rightarrow> exchange" where
  "store_waiting c kept s =
     s\<lparr>client_responses :=
         (case kept of
            [] \<Rightarrow> ddel c (client_responses s)
          | [x] \<Rightarrow> dset c (Single x) (client_responses s)
          | _ \<Rightarrow> dset c (Several kept) (client_responses s))\<rparr>"

definition queue_client_response :: "string \<Rightarrow> object \<Rightarrow> exchange \<Rightarrow> exchange" where
  "queue_client_response c envelope s =
     s\<lparr>client_responses :=
         dset c (case dget (client_responses s) c of
                   None \<Rightarrow> Single envelope
                 | Some (Several es) \<Rightarrow> Several (es @ [envelope])
                 | Some (Single e) \<Rightarrow> Several [e, envelope]) (client_responses s)\<rparr>"

definition remove_client_responses_for_request :: "string \<Rightarrow> string \<Rightarrow> exchange \<Rightarrow> nat \<times> exchange" where
  "remove_client_responses_for_request c r s =
     (if c = [] \<or> r = [] then (0, s)
      else case dget (client_responses s) c of
        None \<Rightarrow> (0, s)
      | Some (Several es) \<Rightarrow>
          (length (filter (names_request r) es), store_waiting c (filter (\<lambda>e. \<not> names_request r e) es) s)
      | Some (Single e) \<Rightarrow> if names_request r e then (1, store_waiting c [] s) else (0, s))"

definition has_client_response_for_request :: "string \<Rightarrow> string \<Rightarrow> exchange \<Rightarrow> bool" where
  "has_client_response_for_request c r s \<longleftrightarrow>
     c \<noteq> [] \<and> r \<noteq> [] \<and>
     (case dget (client_responses s) c of
        None \<Rightarrow> False
      | Some (Several es) \<Rightarrow> list_ex (names_request r) es
      | Some (Single e) \<Rightarrow> names_request r e)"

definition pop_client_progress :: "string \<Rightarrow> string \<Rightarrow> exchange \<Rightarrow> object option \<times> exchange" where
  "pop_client_progress c r s =
     (if c = [] \<or> r = [] then (None, s)
      else (dget (client_progress s) (c, r), s\<lparr>client_progress := ddel (c, r) (client_progress s)\<rparr>))"

definition clear_client_progress :: "string \<Rightarrow> string \<Rightarrow> exchange \<Rightarrow> bool \<times> exchange" where
  "clear_client_progress c r s = (let (p, t) = pop_client_progress c r s in (p \<noteq> None, t))"

section \<open>Pending requests\<close>

definition mark_request_pending ::
  "ambient \<Rightarrow> string \<Rightarrow> string \<Rightarrow> json \<Rightarrow> rat option \<Rightarrow> exchange \<Rightarrow> exchange" where
  "mark_request_pending am c r cancel_token deadline s =
     (if c = [] \<or> r = [] then s
      else
        (let entry = \<lparr>pe_queued_at = now_time am, pe_request_deadline_monotonic = deadline,
               pe_cancel_token = (case cancel_token of JStr (t # ts) \<Rightarrow> Some (t # ts) | _ \<Rightarrow> None)\<rparr>
         in s\<lparr>client_pending_request_ids := nset c r entry (client_pending_request_ids s),
              client_pending_request_deadlines :=
                (case deadline of Some t \<Rightarrow> nset c r t (client_pending_request_deadlines s)
                 | None \<Rightarrow> client_pending_request_deadlines s)\<rparr>))"

definition clear_pending_request :: "string \<Rightarrow> string \<Rightarrow> exchange \<Rightarrow> bool \<times> exchange" where
  "clear_pending_request c r s =
     (if c = [] \<or> r = [] \<or> inner (client_pending_request_ids s) c = [] then (False, s)
      else (nget (client_pending_request_ids s) c r \<noteq> None,
            s\<lparr>client_pending_request_ids := ndel c r (client_pending_request_ids s),
              client_pending_request_deadlines := ndel c r (client_pending_request_deadlines s)\<rparr>))"

definition pending_request_entry_is_expired :: "ambient \<Rightarrow> pending_entry \<Rightarrow> rat option \<Rightarrow> bool" where
  "pending_request_entry_is_expired am e deadline \<longleftrightarrow>
     (case (case pe_request_deadline_monotonic e of Some t \<Rightarrow> Some t | None \<Rightarrow> deadline) of
        Some t \<Rightarrow> t \<le> now_monotonic am
      | None \<Rightarrow>
          \<not> f_le (PENDING_REQUEST_TTL_SECONDS am) (FNum 0)
          \<and> f_less (PENDING_REQUEST_TTL_SECONDS am) (FNum (ck_minus (am_clock am) (now_time am) (pe_queued_at e))))"

definition pending_request_deadline :: "string \<Rightarrow> string \<Rightarrow> exchange \<Rightarrow> rat option" where
  "pending_request_deadline c r s = nget (client_pending_request_deadlines s) c r"

definition deadline_passed :: "ambient \<Rightarrow> string \<Rightarrow> string \<Rightarrow> exchange \<Rightarrow> bool" where
  "deadline_passed am c r s \<longleftrightarrow>
     (case pending_request_deadline c r s of Some t \<Rightarrow> t \<le> now_monotonic am | None \<Rightarrow> False)"

definition get_pending_cancel_token :: "string \<Rightarrow> string \<Rightarrow> exchange \<Rightarrow> string option" where
  "get_pending_cancel_token c r s =
     (if c = [] \<or> r = [] then None
      else case nget (client_pending_request_ids s) c r of Some e \<Rightarrow> pe_cancel_token e | None \<Rightarrow> None)"

section \<open>In-flight entries\<close>

definition IN_FLIGHT :: string where
  "IN_FLIGHT = ''api_v1_in_flight_requests''"

definition in_flight_of :: "node \<Rightarrow> object" where
  "in_flight_of n = (case jget (nd_fields n) IN_FLIGHT of JDict m \<Rightarrow> m | _ \<Rightarrow> [])"

text \<open>Storing the entries of a node drops the field with the last of them.\<close>

definition set_fields :: "string \<Rightarrow> (object \<Rightarrow> object) \<Rightarrow> exchange \<Rightarrow> exchange" where
  "set_fields key f s =
     (case dget (servers s) key of
        None \<Rightarrow> s
      | Some n \<Rightarrow> set_servers (dset key (n\<lparr>nd_fields := f (nd_fields n)\<rparr>) (servers s)) s)"

definition set_in_flight :: "string \<Rightarrow> object \<Rightarrow> exchange \<Rightarrow> exchange" where
  "set_in_flight key m s =
     set_fields key (if m = [] then ddel IN_FLIGHT else dset IN_FLIGHT (JDict m)) s"

definition owned_entry :: "string \<Rightarrow> string \<Rightarrow> node \<Rightarrow> object option" where
  "owned_entry c r n =
     (case dget (in_flight_of n) r of
        Some (JDict e) \<Rightarrow> if jget e ''client_public_key'' = JStr c then Some e else None
      | _ \<Rightarrow> None)"

definition cancel_token_of :: "object \<Rightarrow> string option" where
  "cancel_token_of item = (case jget item ''cancel_token'' of JStr (t # ts) \<Rightarrow> Some (t # ts) | _ \<Rightarrow> None)"

definition cancel_token_for_queued_or_in_flight_request :: "string \<Rightarrow> string \<Rightarrow> exchange \<Rightarrow> string option" where
  "cancel_token_for_queued_or_in_flight_request c r s =
     (case get_pending_cancel_token c r s of
        Some t \<Rightarrow> Some t
      | None \<Rightarrow>
          (case find (is_request c r) (concat (dvals (queues s))) of
             Some item \<Rightarrow> cancel_token_of item
           | None \<Rightarrow>
               (case find (\<lambda>e. e \<noteq> None) (map (owned_entry c r) (dvals (servers s))) of
                  Some (Some e) \<Rightarrow> cancel_token_of e
                | _ \<Rightarrow> None)))"

section \<open>Cancellation\<close>

definition cancel_on_node ::
  "ambient \<Rightarrow> string \<Rightarrow> string \<Rightarrow> string \<Rightarrow> string \<Rightarrow> bool \<Rightarrow> string \<Rightarrow> nat \<times> exchange \<Rightarrow> nat \<times> exchange" where
  "cancel_on_node am c r status reason completed key ks =
     (case ks of (k, s) \<Rightarrow>
        (case dget (servers s) key of
           None \<Rightarrow> (k, s)
         | Some n \<Rightarrow>
             (case owned_entry c r n of
                None \<Rightarrow> (k, s)
              | Some e \<Rightarrow>
                  (let s1 = set_in_flight key (ddel r (in_flight_of n)) s;
                       s2 = (case jget (nd_fields n) ''public_key'' of
                               JStr server \<Rightarrow>
                                 if completed then s1
                                 else add_api_v1_control_tombstone am server r (JStr c) status reason
                                        (jget e ''request_deadline_monotonic'') JNull s1
                             | _ \<Rightarrow> s1)
                   in (Suc k, s2)))))"

definition cancel_in_flight ::
  "ambient \<Rightarrow> string \<Rightarrow> string \<Rightarrow> string \<Rightarrow> string \<Rightarrow> bool \<Rightarrow> exchange \<Rightarrow> nat \<times> exchange" where
  "cancel_in_flight am c r status reason completed s =
     fold (cancel_on_node am c r status reason completed) (map fst (servers s)) (0, s)"

definition cancel_api_v1_request ::
  "ambient \<Rightarrow> string \<Rightarrow> string \<Rightarrow> string \<Rightarrow> string \<Rightarrow> exchange \<Rightarrow> nat \<times> exchange" where
  "cancel_api_v1_request am c r status0 reason0 s =
     (if c = [] \<or> r = [] then (0, s)
      else
        (let status = sanitize_terminal_status (JStr status0);
             reason = sanitize_terminal_reason (JStr reason0) status;
             (_, s1) = clear_client_progress c r s;
             completed = has_client_response_for_request c r s1;
             (removed, s2) = remove_request_from_server_queues c r s1;
             (pending_removed, s3) = clear_pending_request c r s2;
             (in_flight_removed, s4) = cancel_in_flight am c r status reason completed s3
         in (removed,
             if (0 < removed \<or> pending_removed \<or> 0 < in_flight_removed)
                \<and> \<not> completed \<and> \<not> has_client_response_for_request c r s4
             then snd (mark_request_terminal am c r status reason s4) else s4)))"

definition expire_pending_request_if_stale :: "ambient \<Rightarrow> string \<Rightarrow> string \<Rightarrow> exchange \<Rightarrow> bool \<times> exchange" where
  "expire_pending_request_if_stale am c r s =
     (if c = [] \<or> r = [] then (False, s)
      else
        (let stale = (case nget (client_pending_request_ids s) c r of
                        Some e \<Rightarrow> pending_request_entry_is_expired am e None | None \<Rightarrow> False)
         in if \<not> stale \<and> \<not> deadline_passed am c r s then (False, s)
            else (True, snd (cancel_api_v1_request am c r ''expired'' ''pending_request_ttl_exceeded'' s))))"

definition is_request_pending :: "ambient \<Rightarrow> string \<Rightarrow> string \<Rightarrow> exchange \<Rightarrow> bool \<times> exchange" where
  "is_request_pending am c r s =
     (if c = [] \<or> r = [] then (False, s)
      else case nget (client_pending_request_ids s) c r of
        None \<Rightarrow> (False, s)
      | Some e \<Rightarrow>
          if pending_request_entry_is_expired am e None \<or> deadline_passed am c r s
          then (False, snd (expire_pending_request_if_stale am c r s))
          else (True, s))"

definition stale_pending :: "ambient \<Rightarrow> exchange \<Rightarrow> (string \<times> string) list" where
  "stale_pending am s =
     concat (map (\<lambda>(c, m). map (\<lambda>(r, e). (c, r))
       (filter (\<lambda>(r, e). pending_request_entry_is_expired am e (pending_request_deadline c r s)) m))
       (client_pending_request_ids s))"

definition expire_unanswered :: "ambient \<Rightarrow> string \<times> string \<Rightarrow> exchange \<Rightarrow> exchange" where
  "expire_unanswered am cr s =
     (case cr of (c, r) \<Rightarrow>
        if has_client_response_for_request c r s then s
        else snd (cancel_api_v1_request am c r ''expired'' ''pending_request_ttl_exceeded'' s))"

definition expire_stale_pending_requests :: "ambient \<Rightarrow> exchange \<Rightarrow> exchange" where
  "expire_stale_pending_requests am s = fold (expire_unanswered am) (stale_pending am s) s"

text \<open>The response is the first that names the request, or the first of all without a name.\<close>

definition pop_client_response :: "string \<Rightarrow> string \<Rightarrow> exchange \<Rightarrow> object option \<times> exchange" where
  "pop_client_response c r s =
     (let taken = (\<lambda>e rest. (Some e,
            snd (clear_pending_request c (case jget e ''request_id'' of JStr q \<Rightarrow> q | _ \<Rightarrow> []) (store_waiting c rest s))))
      in case dget (client_responses s) c of
        None \<Rightarrow> (None, s)
      | Some (Several es) \<Rightarrow>
          (case List.extract (\<lambda>e. r = [] \<or> names_request r e) es of
             None \<Rightarrow> (None, s)
           | Some (front, e, back) \<Rightarrow> taken e (front @ back))
      | Some (Single e) \<Rightarrow> if r \<noteq> [] \<and> \<not> names_request r e then (None, s) else taken e [])"

section \<open>Stream sessions\<close>

text \<open>\<open>fresh\<close> is the token that \<^verbatim>\<open>secrets.token_urlsafe\<close> returns.\<close>

definition register_stream_session ::
  "ambient \<Rightarrow> string \<Rightarrow> string \<Rightarrow> string \<Rightarrow> exchange \<Rightarrow> string option \<times> exchange" where
  "register_stream_session am fresh server c s =
     (if c = [] then (None, s)
      else
        (let session = \<lparr>ss_server_public_key = server, ss_client_public_key = c, ss_chunks = [], ss_closed = False,
               ss_created_at = now_time am, ss_updated_at = now_time am\<rparr>;
             old = (case dget (streaming_sessions_by_client s) c of
                      Some (x # xs) \<Rightarrow> ddel (x # xs) (streaming_sessions s) | _ \<Rightarrow> streaming_sessions s)
         in (Some fresh,
             s\<lparr>streaming_sessions := dset fresh session old,
               streaming_sessions_by_client := dset c fresh (streaming_sessions_by_client s)\<rparr>)))"

definition append_stream_chunk :: "ambient \<Rightarrow> string \<Rightarrow> json \<Rightarrow> bool \<Rightarrow> exchange \<Rightarrow> bool \<times> exchange" where
  "append_stream_chunk am session_id chunk final s =
     (case dget (streaming_sessions s) session_id of
        None \<Rightarrow> (False, s)
      | Some ss \<Rightarrow>
          (True, s\<lparr>streaming_sessions :=
            dset session_id (ss\<lparr>ss_chunks := ss_chunks ss @ [chunk], ss_updated_at := now_time am,
                               ss_closed := (if final then True else ss_closed ss)\<rparr>) (streaming_sessions s)\<rparr>))"

definition pop_stream_chunks_for_client ::
  "ambient \<Rightarrow> string \<Rightarrow> exchange \<Rightarrow> (string \<times> json list \<times> bool) option \<times> exchange" where
  "pop_stream_chunks_for_client am c s =
     (case dget (streaming_sessions_by_client s) c of
        Some (x # xs) \<Rightarrow>
          (let session_id = x # xs
           in case dget (streaming_sessions s) session_id of
             None \<Rightarrow> (None, s\<lparr>streaming_sessions_by_client := ddel c (streaming_sessions_by_client s)\<rparr>)
           | Some ss \<Rightarrow>
               (Some (session_id, ss_chunks ss, ss_closed ss),
                if ss_closed ss
                then s\<lparr>streaming_sessions := ddel session_id (streaming_sessions s),
                       streaming_sessions_by_client := ddel c (streaming_sessions_by_client s)\<rparr>
                else s\<lparr>streaming_sessions :=
                   dset session_id (ss\<lparr>ss_chunks := [], ss_updated_at := now_time am\<rparr>) (streaming_sessions s)\<rparr>))
      | _ \<Rightarrow> (None, s))"

definition close_session :: "string \<Rightarrow> exchange \<Rightarrow> exchange" where
  "close_session session_id s =
     (case dget (streaming_sessions s) session_id of
        None \<Rightarrow> s
      | Some ss \<Rightarrow>
          (let c = ss_client_public_key ss
           in s\<lparr>streaming_sessions := ddel session_id (streaming_sessions s),
                streaming_sessions_by_client :=
                  (if c \<noteq> [] \<and> dget (streaming_sessions_by_client s) c = Some session_id
                   then ddel c (streaming_sessions_by_client s) else streaming_sessions_by_client s)\<rparr>))"

definition close_sessions_of :: "string \<Rightarrow> exchange \<Rightarrow> exchange" where
  "close_sessions_of server s =
     fold close_session
       (map fst (filter (\<lambda>(i, ss). ss_server_public_key ss = server) (streaming_sessions s))) s"

section \<open>Unregistering\<close>

text \<open>
  What the operations raise: an overflow, an encoding error, a \<^verbatim>\<open>TypeError\<close> such as that of
  \<^verbatim>\<open>compare_digest\<close> on texts that are not ASCII. \<open>OutsideModel\<close> is no exception of the program:
  it marks a request whose keys are not texts, which this model leaves out.
\<close>

datatype relay_error = Scheduling scheduler_error | PyOverflowError | UnicodeEncodeError | PyTypeError | OutsideModel

type_synonym 'a act = "(exchange, relay_error, 'a) effect"

definition scheduled :: "scheduler_error + 'a \<Rightarrow> 'a act" where
  "scheduled r = lift (case r of Inl e \<Rightarrow> Inl (Scheduling e) | Inr x \<Rightarrow> Inr x)"

definition encoded :: "'a option \<Rightarrow> 'a act" where
  "encoded r = lift (case r of None \<Rightarrow> Inl UnicodeEncodeError | Some x \<Rightarrow> Inr x)"

definition change :: "(exchange \<Rightarrow> exchange) \<Rightarrow> unit act" where
  "change f = (\<lambda>s. (Inr (), f s))"

definition gets :: "(exchange \<Rightarrow> 'a) \<Rightarrow> 'a act" where
  "gets f = (\<lambda>s. (Inr (f s), s))"

definition run_op :: "(exchange \<Rightarrow> 'a \<times> exchange) \<Rightarrow> 'a act" where
  "run_op f = (\<lambda>s. let (x, t) = f s in (Inr x, t))"

definition json_text :: "json \<Rightarrow> string" where
  "json_text v = (case v of JStr t \<Rightarrow> t | _ \<Rightarrow> [])"

definition API_V1_UNREGISTER_TOMBSTONE_TTL_SECONDS :: rat where
  "API_V1_UNREGISTER_TOMBSTONE_TTL_SECONDS = 300"

definition record_api_v1_server_unregistered :: "ambient \<Rightarrow> string \<Rightarrow> exchange \<Rightarrow> exchange" where
  "record_api_v1_server_unregistered am server s =
     (if server = [] then s
      else s\<lparr>api_v1_recently_unregistered_servers :=
               dset server (now_monotonic am) (api_v1_recently_unregistered_servers s)\<rparr>)"

definition api_v1_server_was_recently_unregistered :: "ambient \<Rightarrow> string \<Rightarrow> exchange \<Rightarrow> bool \<times> exchange" where
  "api_v1_server_was_recently_unregistered am server s =
     (if server = [] then (False, s)
      else
        (let kept = dprune (\<lambda>removed_at. API_V1_UNREGISTER_TOMBSTONE_TTL_SECONDS
                        < ck_minus (am_clock am) (now_monotonic am) removed_at)
                      (api_v1_recently_unregistered_servers s)
         in (dmem server kept, s\<lparr>api_v1_recently_unregistered_servers := kept\<rparr>)))"

definition EVICTION_REASON_ENUM :: "string list" where
  "EVICTION_REASON_ENUM = [''stale_lease'', ''unregistered'', ''capacity_loss'']"

definition field_after :: "node \<Rightarrow> string \<Rightarrow> rat \<Rightarrow> bool" where
  "field_after n f t = (case jfloat (jget (nd_fields n) f) of Some x \<Rightarrow> f_less (FNum t) x | None \<Rightarrow> False)"

definition busy_after :: "node \<Rightarrow> rat \<Rightarrow> bool" where
  "busy_after n t \<longleftrightarrow>
     field_after n ''polling_until_monotonic'' t \<or> 0 < api_v1_active_in_flight_count (nd_fields n) t
     \<or> field_after n ''api_v1_in_flight_until_monotonic'' t"

definition lease_lapsed :: "ambient \<Rightarrow> node \<Rightarrow> scheduler_error + bool" where
  "lease_lapsed am n =
     ebind (to_float (am_clock am) (stale_after_value (am_clock am) (nd_fields n))) (\<lambda>after.
       Inr (\<not> f_le (server_ping_age_seconds (am_clock am) (nd_last_ping n)) (f_max after (FNum 1))))"

text \<open>\<open>cutoff\<close> is the time of an eviction, which leaves a node that came back.\<close>

definition may_remove :: "ambient \<Rightarrow> rat option \<Rightarrow> node \<Rightarrow> scheduler_error + bool" where
  "may_remove am cutoff n =
     (case cutoff of
        None \<Rightarrow> Inr True
      | Some t \<Rightarrow>
          if field_after n ''polling_until_monotonic'' t \<or> field_after n ''api_v1_in_flight_until_monotonic'' t
          then Inr False
          else ebind (lease_lapsed am n) (\<lambda>lapsed.
                 Inr (lapsed \<and> api_v1_active_in_flight_count (nd_fields n) t = 0)))"

definition may_unregister :: "ambient \<Rightarrow> json option \<Rightarrow> node \<Rightarrow> bool option" where
  "may_unregister am credential n =
     (case credential of
        Some v \<Rightarrow>
          if jtruthy (jget (nd_fields n) API_V1_SERVER_MARKER)
          then api_v1_server_control_credential_valid (am_digests am) (JDict (nd_fields n)) v else Some True
      | None \<Rightarrow> Some True)"

definition cancel_dropped :: "ambient \<Rightarrow> object \<Rightarrow> exchange \<Rightarrow> exchange" where
  "cancel_dropped am item s =
     (if is_e2ee item
      then snd (cancel_api_v1_request am (json_text (jget item ''client_public_key'')) (json_text (jget item ''request_id''))
                  ''cancelled'' ''server_unregistered'' s)
      else s)"

definition cancel_orphan :: "ambient \<Rightarrow> string \<Rightarrow> json \<Rightarrow> string \<times> json \<Rightarrow> exchange \<Rightarrow> exchange" where
  "cancel_orphan am server digest entry s =
     (case entry of
        (r, JDict e) \<Rightarrow>
          (let client = jget e ''client_public_key''; c = json_text client
           in if r = [] \<or> has_client_response_for_request c r s then s
              else snd (cancel_api_v1_request am c r ''cancelled'' ''server_unregistered''
                     (add_api_v1_control_tombstone am server r client ''cancelled'' ''server_unregistered''
                        (jget e ''request_deadline_monotonic'') digest s)))
      | _ \<Rightarrow> s)"

definition drop_node :: "ambient \<Rightarrow> string \<Rightarrow> string \<Rightarrow> node option \<Rightarrow> exchange \<Rightarrow> bool \<times> exchange" where
  "drop_node am server reason payload s =
     (let (removed, rl) = remove_known_server server (xc_relay s);
          dropped = (if removed then queue_of rl server else []);
          s1 = s\<lparr>xc_relay := rl\<rparr>;
          s2 = (if removed then set_queues (ddel server (queues s1)) (record_api_v1_server_unregistered am server s1)
                else s1);
          s3 = fold (cancel_dropped am) dropped s2;
          s4 = (case payload of
                  None \<Rightarrow> s3
                | Some n \<Rightarrow> fold (cancel_orphan am server (jget (nd_fields n) DIGEST_KEY)) (in_flight_of n) s3);
          s5 = close_sessions_of server s4
      in (removed,
          if removed \<and> reason \<in> set EVICTION_REASON_ENUM
          then s5\<lparr>evictions_total := count_label reason (evictions_total s5)\<rparr> else s5))"

definition unregister_server :: "ambient \<Rightarrow> string \<Rightarrow> string \<Rightarrow> rat option \<Rightarrow> json option \<Rightarrow> bool option act" where
  "unregister_server am server reason cutoff credential =
     sbind (gets (\<lambda>s. dget (servers s) server)) (\<lambda>payload. case payload of
       None \<Rightarrow> sbind (run_op (drop_node am server reason None)) (\<lambda>b. ret (Some b))
     | Some n \<Rightarrow>
         sbind (scheduled (may_remove am cutoff n)) (\<lambda>may.
           if \<not> may then ret (Some False)
           else sbind (encoded (may_unregister am credential n)) (\<lambda>owner.
             if \<not> owner then ret None
             else sbind (run_op (drop_node am server reason (Some n))) (\<lambda>b. ret (Some b)))))"

section \<open>Eviction\<close>

definition drop_in_flight :: "string \<Rightarrow> string \<Rightarrow> exchange \<Rightarrow> exchange" where
  "drop_in_flight key r s =
     set_fields key (\<lambda>d. case jget d IN_FLIGHT of
        JDict m \<Rightarrow> dset IN_FLIGHT (JDict (ddel r m)) d | _ \<Rightarrow> d) s"

definition tidy_in_flight :: "string \<Rightarrow> exchange \<Rightarrow> exchange" where
  "tidy_in_flight key s =
     set_fields key (\<lambda>d. if jget d IN_FLIGHT = JDict [] then ddel IN_FLIGHT d else d) s"

fun prune_entries ::
  "ambient \<Rightarrow> string \<Rightarrow> (string \<times> json) list \<Rightarrow> (string \<times> string) list \<times> nat \<Rightarrow> ((string \<times> string) list \<times> nat) act" where
  "prune_entries am key [] (targets, removed) = ret (targets, removed)"
| "prune_entries am key ((r, entry) # rest) (targets, removed) =
     sbind (scheduled (api_v1_in_flight_entry_can_be_pruned (am_clock am) entry (now_monotonic am))) (\<lambda>prunable.
       if \<not> prunable then prune_entries am key rest (targets, removed)
       else
         sbind (scheduled (case entry of
                  JDict e \<Rightarrow> valid_request_deadline_monotonic (am_clock am) (jget e ''request_deadline_monotonic'')
                | _ \<Rightarrow> Inr None)) (\<lambda>deadline.
           (case (deadline, entry) of
              (Some t, JDict e) \<Rightarrow>
                (case jget e ''client_public_key'' of
                   JStr (x # xs) \<Rightarrow> prune_entries am key rest (targets @ [(x # xs, r)], removed)
                 | _ \<Rightarrow> sbind (change (drop_in_flight key r)) (\<lambda>_. prune_entries am key rest (targets, Suc removed)))
            | _ \<Rightarrow> sbind (change (drop_in_flight key r)) (\<lambda>_. prune_entries am key rest (targets, Suc removed)))))"

definition expire_target :: "ambient \<Rightarrow> string \<times> string \<Rightarrow> exchange \<Rightarrow> exchange" where
  "expire_target am cr s =
     (case cr of (c, r) \<Rightarrow> snd (cancel_api_v1_request am c r ''expired'' ''provider_timeout'' s))"

definition prune_api_v1_stale_in_flight_entries :: "ambient \<Rightarrow> string \<Rightarrow> nat act" where
  "prune_api_v1_stale_in_flight_entries am key =
     sbind (gets (\<lambda>s. dget (servers s) key)) (\<lambda>payload. case payload of
       None \<Rightarrow> ret 0
     | Some n \<Rightarrow>
         (case jget (nd_fields n) IN_FLIGHT of
            JDict m \<Rightarrow>
              sbind (prune_entries am key m ([], 0)) (\<lambda>(targets, removed).
                sbind (change (tidy_in_flight key)) (\<lambda>_.
                  sbind (change (fold (expire_target am) targets)) (\<lambda>_. ret (removed + length targets))))
          | _ \<Rightarrow> ret 0))"

fun prune_each :: "ambient \<Rightarrow> string list \<Rightarrow> unit act" where
  "prune_each am [] = ret ()"
| "prune_each am (key # keys) = sbind (prune_api_v1_stale_in_flight_entries am key) (\<lambda>_. prune_each am keys)"

definition forget_legacy_lease :: "string \<Rightarrow> exchange \<Rightarrow> exchange" where
  "forget_legacy_lease key s =
     set_fields key (\<lambda>d. ddel ''api_v1_in_flight_request_id'' (ddel ''api_v1_in_flight_until_monotonic'' d)) s"

fun stale_candidates :: "ambient \<Rightarrow> (string \<times> node) list \<Rightarrow> string list act" where
  "stale_candidates am [] = ret []"
| "stale_candidates am ((key, n) # rest) =
     (if busy_after n (now_monotonic am) then stale_candidates am rest
      else sbind (change (forget_legacy_lease key)) (\<lambda>_.
        sbind (scheduled (lease_lapsed am n)) (\<lambda>lapsed.
          sbind (stale_candidates am rest) (\<lambda>keys. ret (if lapsed then key # keys else keys)))))"

fun evict_each :: "ambient \<Rightarrow> string list \<Rightarrow> string list act" where
  "evict_each am [] = ret []"
| "evict_each am (key # keys) =
     sbind (unregister_server am key ''stale_lease'' (Some (now_monotonic am)) None) (\<lambda>gone.
       sbind (evict_each am keys) (\<lambda>evicted. ret (if gone = Some True then key # evicted else evicted)))"

text \<open>
  A candidate cannot have been replaced by another payload within one call, so the test of the
  payload's identity is not written out.
\<close>

definition evict_stale_servers :: "ambient \<Rightarrow> string list act" where
  "evict_stale_servers am =
     sbind (change (prune_terminal_requests am)) (\<lambda>_.
     sbind (change (expire_stale_pending_requests am)) (\<lambda>_.
     sbind (change (prune_api_v1_control_tombstones am)) (\<lambda>_.
     sbind (gets (\<lambda>s. map fst (servers s))) (\<lambda>keys.
     sbind (prune_each am keys) (\<lambda>_.
     sbind (gets servers) (\<lambda>items.
     sbind (stale_candidates am items) (evict_each am)))))))"

end
