(* ===== verification/Relay_Handlers.thy ===== *)
theory Relay_Handlers
  imports Relay_Lifecycle
begin

text \<open>
  The request handlers of the relay process (\<^verbatim>\<open>src/relay.py\<close>), from the decoded JSON body to the
  status and JSON body of the reply. A handler is one step: its lock
  \<^verbatim>\<open>api_v1_terminal_transition_lock\<close> or \<^verbatim>\<open>server_round_robin_lock\<close> covers the changes it makes.
  Only polling waits, and is cut into the pieces between its waits. A body or key of another
  type than the handlers mean is \<open>OutsideModel\<close> where Python would go on with it.
\<close>

section \<open>Replies\<close>

type_synonym reply = "nat \<times> json"

definition error_body :: "string \<Rightarrow> json \<Rightarrow> json" where
  "error_body message code = JDict [(''error'', JDict [(''message'', JStr message), (''code'', code)])]"

definition fail_with :: "string \<Rightarrow> nat \<Rightarrow> reply" where
  "fail_with message code = (code, error_body message (JInt (int code)))"

definition invalid_request_data :: reply where
  "invalid_request_data = fail_with ''Invalid request data'' 400"

definition server_not_found :: reply where
  "server_not_found = fail_with ''Server with the specified public key not found'' 404"

definition invalid_control_credential :: reply where
  "invalid_control_credential = fail_with ''Missing or invalid relay server control credential'' 403"

definition no_longer_waiting :: "string \<Rightarrow> reply" where
  "no_longer_waiting status =
     (410, JDict [(''error'', JDict [(''message'', JStr ''Request is no longer waiting for a response''),
        (''code'', JStr status), (''status'', JStr status)])])"

definition request_closed :: "terminal_entry \<Rightarrow> reply" where
  "request_closed t =
     (410, JDict [(''error'', JDict [(''message'', JStr (''Request '' @ te_status t)), (''code'', JStr (te_status t)),
        (''status'', JStr (te_status t)), (''reason'', JStr (te_reason t))])])"

definition message_reply :: "nat \<Rightarrow> string \<Rightarrow> object \<Rightarrow> reply" where
  "message_reply code message extra = (code, JDict ((''message'', JStr message) # extra))"

fun json_of_float :: "pyfloat \<Rightarrow> json" where
  "json_of_float (FNum r) = JFloat r"
| "json_of_float FPosInf = JInf"
| "json_of_float FNegInf = JNegInf"
| "json_of_float FNan = JNan"

definition api_v1_deadline_metadata :: "ambient \<Rightarrow> json \<Rightarrow> scheduler_error + object" where
  "api_v1_deadline_metadata am v =
     ebind (valid_request_deadline_monotonic (am_clock am) v) (\<lambda>deadline.
       Inr (case deadline of
              None \<Rightarrow> []
            | Some t \<Rightarrow>
                (let remaining = JFloat (max (ck_minus (am_clock am) t (now_monotonic am)) 0)
                 in [(''request_deadline_remaining_seconds'', remaining), (''request_ttl_seconds'', remaining)])))"

definition text_key :: "json \<Rightarrow> string act" where
  "text_key v = lift (case v of JStr t \<Rightarrow> Inr t | _ \<Rightarrow> Inl OutsideModel)"

definition optional_key :: "json \<Rightarrow> string act" where
  "optional_key v = (if v = JNull then ret [] else text_key v)"

text \<open>\<^verbatim>\<open>secrets.compare_digest\<close> takes ASCII texts only.\<close>

definition is_ascii :: "string \<Rightarrow> bool" where
  "is_ascii t = list_all (\<lambda>c. char_code c < 128) t"

definition compare_digest :: "string \<Rightarrow> string \<Rightarrow> bool act" where
  "compare_digest a b = lift (if is_ascii a \<and> is_ascii b then Inr (a = b) else Inl PyTypeError)"

text \<open>\<open>provided\<close> is the header \<^verbatim>\<open>X-Relay-Server-Token\<close>, empty when it is missing.\<close>

fun match_token :: "string \<Rightarrow> string list \<Rightarrow> bool \<Rightarrow> bool act" where
  "match_token candidate [] matched = ret matched"
| "match_token candidate (t # ts) matched =
     sbind (compare_digest candidate t) (\<lambda>same. match_token candidate ts (matched \<or> same))"

definition validate_server_registration :: "ambient \<Rightarrow> string \<Rightarrow> reply option act" where
  "validate_server_registration am provided =
     (let tokens = SERVER_REGISTRATION_TOKENS am; candidate = py_strip provided
      in if tokens = [] then ret None
         else sbind (if candidate = [] then ret False else match_token candidate tokens False) (\<lambda>matched.
           ret (if matched then None else Some (fail_with ''Missing or invalid relay server token'' 401))))"

definition authorised :: "ambient \<Rightarrow> string \<Rightarrow> reply act \<Rightarrow> reply act" where
  "authorised am provided handler =
     sbind (validate_server_registration am provided) (\<lambda>refused.
       case refused of Some e \<Rightarrow> ret e | None \<Rightarrow> handler)"

section \<open>Requests\<close>

text \<open>The checks of an envelope, in the order of the answers.\<close>

definition checked_envelope :: "json \<Rightarrow> bool \<Rightarrow> reply + object" where
  "checked_envelope data require_server_key =
     (if payload_has_plaintext_fields data
      then Inl (fail_with ''Plaintext relay payload fields are forbidden; send ciphertext envelope only'' 400)
      else if payload_has_unexpected_relay_fields data require_server_key
      then Inl (fail_with ''Unexpected relay payload fields are forbidden; send ciphertext envelope only'' 400)
      else case extract_ciphertext_envelope data require_server_key of
        Inl (message, code) \<Rightarrow> Inl (fail_with message code)
      | Inr envelope \<Rightarrow> Inr envelope)"

definition enqueue_envelope :: "string \<Rightarrow> object \<Rightarrow> exchange \<Rightarrow> exchange" where
  "enqueue_envelope server envelope s =
     set_queues (dset server (queue_of (xc_relay s) server @ [envelope]) (queues s)) s"

definition stamped :: "ambient \<Rightarrow> object \<Rightarrow> object" where
  "stamped am envelope =
     (let seconds = api_v1_request_deadline_seconds (ck_environ (am_clock am))
      in fold (\<lambda>(f, v). dset f v)
           [(''e2ee_v1'', JBool True),
            (''_queued_at'', JFloat (now_time am)),
            (''request_deadline_remaining_seconds'', JFloat seconds),
            (''request_ttl_seconds'', JFloat seconds),
            (''_request_deadline_monotonic'', json_of_float (am_plus am (now_monotonic am) seconds))] envelope)"

definition is_registered :: "string \<Rightarrow> exchange \<Rightarrow> bool" where
  "is_registered server s \<longleftrightarrow> (case dget (servers s) server of Some n \<Rightarrow> is_api_v1 n | None \<Rightarrow> False)"

definition accept_request :: "ambient \<Rightarrow> string \<Rightarrow> object \<Rightarrow> reply act" where
  "accept_request am server envelope =
     sbind (gets (is_registered server)) (\<lambda>registered.
     if \<not> registered then ret server_not_found
     else
       sbind (text_key (jget envelope ''client_public_key'')) (\<lambda>c.
       sbind (optional_key (jget envelope ''request_id'')) (\<lambda>r.
         (let e = stamped am envelope; deadline = jget e ''_request_deadline_monotonic''
          in sbind (scheduled (valid_request_deadline_monotonic (am_clock am) deadline)) (\<lambda>d.
             sbind (change (mark_request_pending am c r (jget envelope ''cancel_token'') d)) (\<lambda>_.
             sbind (change (enqueue_envelope server e)) (\<lambda>_.
             sbind (scheduled (api_v1_deadline_metadata am deadline)) (\<lambda>meta.
               ret (message_reply 200 ''Request received'' meta)))))))))"

definition api_v1_relay_requests :: "ambient \<Rightarrow> json \<Rightarrow> reply act" where
  "api_v1_relay_requests am data =
     sbind (evict_stale_servers am) (\<lambda>_.
       case checked_envelope data True of
         Inl e \<Rightarrow> ret e
       | Inr keyed \<Rightarrow>
           (let envelope = ddel ''server_public_key'' keyed
            in if \<not> jtruthy (jget envelope ''client_public_key'')
               then ret (fail_with ''Missing client public key'' 400)
               else sbind (text_key (jget keyed ''server_public_key'')) (\<lambda>server. accept_request am server envelope)))"

definition api_v1_relay_requests_cancel :: "ambient \<Rightarrow> json \<Rightarrow> reply act" where
  "api_v1_relay_requests_cancel am data =
     (case data of
        JDict d \<Rightarrow>
          if \<not> jtruthy (jget d ''client_public_key'') \<or> \<not> jtruthy (jget d ''request_id'') then ret invalid_request_data
          else
            sbind (text_key (jget d ''client_public_key'')) (\<lambda>c.
            sbind (text_key (jget d ''request_id'')) (\<lambda>r.
            sbind (gets (cancel_token_for_queued_or_in_flight_request c r)) (\<lambda>expected.
            sbind (case (expected, jget d ''cancel_token'') of
                     (Some t, JStr provided) \<Rightarrow> compare_digest provided t | _ \<Rightarrow> ret False) (\<lambda>proved.
              if \<not> proved then ret (fail_with ''Missing or invalid cancel proof'' 403)
              else
                (let status = sanitize_terminal_status (jget d ''status'');
                     reason = sanitize_terminal_reason (jget d ''reason'') status
                 in sbind (run_op (cancel_api_v1_request am c r status reason)) (\<lambda>removed.
                      ret (200, JDict [(''status'', JStr status), (''request_id'', JStr r),
                                       (''removed_from_queue'', JInt (int removed))])))))))
      | _ \<Rightarrow> ret invalid_request_data)"

section \<open>Responses\<close>

text \<open>The first node that has the request in flight for this client gives it up.\<close>

fun take_in_flight :: "string \<Rightarrow> string \<Rightarrow> (string \<times> node) list \<Rightarrow> exchange \<Rightarrow> bool \<times> exchange" where
  "take_in_flight c r [] s = (False, s)"
| "take_in_flight c r ((key, n) # rest) s =
     (if owned_entry c r n = None then take_in_flight c r rest s
      else (True, set_in_flight key (ddel r (in_flight_of n)) s))"

definition take_ownership :: "string \<Rightarrow> string \<Rightarrow> exchange \<Rightarrow> bool \<times> exchange" where
  "take_ownership c r s =
     (let (in_flight, s1) = take_in_flight c r (servers s) s;
          (queued, s2) = remove_request_from_server_queues c r s1;
          (pending, s3) = clear_pending_request c r s2
      in (in_flight \<or> 0 < queued \<or> pending, s3))"

definition unless_terminal :: "ambient \<Rightarrow> string \<Rightarrow> string \<Rightarrow> reply act \<Rightarrow> reply act" where
  "unless_terminal am c r handler =
     sbind (run_op (get_terminal_request am c r)) (\<lambda>terminal.
       case terminal of Some t \<Rightarrow> ret (no_longer_waiting (te_status t)) | None \<Rightarrow> handler)"

definition complete_request :: "ambient \<Rightarrow> string \<Rightarrow> string \<Rightarrow> object \<Rightarrow> reply act" where
  "complete_request am c r envelope =
     sbind (run_op (record_request_terminal_outcome_once am c r ''completed'')) (\<lambda>first.
       if \<not> first
       then sbind (run_op (get_terminal_request am c r)) (\<lambda>terminal.
              ret (no_longer_waiting (case terminal of Some t \<Rightarrow> te_status t | None \<Rightarrow> ''cancelled'')))
       else sbind (run_op (clear_client_progress c r)) (\<lambda>_.
            sbind (change (queue_client_response c envelope)) (\<lambda>_.
              ret (message_reply 200 ''Response received and queued for client'' []))))"

definition finish_owned :: "ambient \<Rightarrow> string \<Rightarrow> string \<Rightarrow> object \<Rightarrow> bool \<Rightarrow> reply act" where
  "finish_owned am c r envelope owned =
     (if owned then complete_request am c r envelope
      else sbind (run_op (has_request_terminal_outcome am c r)) (\<lambda>completed.
             ret (no_longer_waiting (if completed then ''completed'' else ''gone''))))"

definition accept_unanswered :: "ambient \<Rightarrow> string \<Rightarrow> string \<Rightarrow> object \<Rightarrow> reply act" where
  "accept_unanswered am c r envelope =
     sbind (run_op (expire_pending_request_if_stale am c r)) (\<lambda>_.
     unless_terminal am c r (
     sbind (run_op (take_ownership c r)) (\<lambda>owned.
     unless_terminal am c r (finish_owned am c r envelope owned))))"

definition accept_response :: "ambient \<Rightarrow> string \<Rightarrow> string \<Rightarrow> object \<Rightarrow> reply act" where
  "accept_response am c r envelope =
     unless_terminal am c r (
     sbind (gets (has_client_response_for_request c r)) (\<lambda>answered.
       if answered then ret (message_reply 200 ''Response already queued for client'' [])
       else accept_unanswered am c r envelope))"

definition api_v1_relay_responses :: "ambient \<Rightarrow> string \<Rightarrow> json \<Rightarrow> reply act" where
  "api_v1_relay_responses am provided data =
     authorised am provided
       (case checked_envelope data False of
          Inl e \<Rightarrow> ret e
        | Inr envelope \<Rightarrow>
            if \<not> jtruthy (jget envelope ''client_public_key'') then ret invalid_request_data
            else
              sbind (text_key (jget envelope ''client_public_key'')) (\<lambda>c.
                case jget envelope ''request_id'' of
                  JStr (x # xs) \<Rightarrow> accept_response am c (x # xs) envelope
                | _ \<Rightarrow> sbind (change (queue_client_response c envelope)) (\<lambda>_.
                         ret (message_reply 200 ''Response received and queued for client'' []))))"

section \<open>Progress\<close>

definition API_V1_PROGRESS_CLIENT_FIELDS :: "string list" where
  "API_V1_PROGRESS_CLIENT_FIELDS =
     [''client_public_key'', ''request_id'', ''protocol'', ''version'', ''ciphertext'', ''cipherkey'', ''iv'']"

definition API_V1_PROGRESS_FIELDS :: "string list" where
  "API_V1_PROGRESS_FIELDS = ''server_public_key'' # ''control_credential'' # API_V1_PROGRESS_CLIENT_FIELDS"

definition is_text_field :: "object \<Rightarrow> string \<Rightarrow> bool" where
  "is_text_field d f \<longleftrightarrow> (case jget d f of JStr (x # xs) \<Rightarrow> True | _ \<Rightarrow> False)"

definition progress_schema_error :: "json \<Rightarrow> reply option" where
  "progress_schema_error data =
     (case data of
        JDict d \<Rightarrow>
          if set (map fst d) \<noteq> set API_V1_PROGRESS_FIELDS
          then Some (fail_with ''Invalid encrypted progress schema'' 400)
          else if payload_has_plaintext_fields data then Some (fail_with ''Plaintext progress is forbidden'' 400)
          else if jget d ''protocol'' \<noteq> JStr ''tokenplace_api_v1_relay_e2ee'' \<or> jnum (jget d ''version'') \<noteq> Some 1
          then Some (fail_with ''Invalid encrypted progress protocol'' 400)
          else if \<not> list_all (is_text_field d) (filter (\<lambda>f. f \<noteq> ''version'') API_V1_PROGRESS_FIELDS)
          then Some (fail_with ''Invalid encrypted progress envelope'' 400)
          else None
      | _ \<Rightarrow> Some (fail_with ''Invalid encrypted progress schema'' 400))"

definition store_progress :: "ambient \<Rightarrow> object \<Rightarrow> reply act" where
  "store_progress am d =
     (let server = json_text (jget d ''server_public_key''); c = json_text (jget d ''client_public_key'');
          r = json_text (jget d ''request_id'')
      in sbind (gets (\<lambda>s. dget (servers s) server)) (\<lambda>payload. case payload of
       None \<Rightarrow> ret invalid_control_credential
     | Some n \<Rightarrow>
         (if \<not> is_api_v1 n then ret invalid_control_credential
          else sbind (encoded (api_v1_server_control_credential_valid (am_digests am) (JDict (nd_fields n))
                        (jget d ''control_credential''))) (\<lambda>valid.
            if \<not> valid then ret invalid_control_credential
            else case owned_entry c r n of
              None \<Rightarrow> ret (fail_with ''Progress request is not active for this owner'' 410)
            | Some e \<Rightarrow>
                sbind (scheduled (valid_request_deadline_monotonic (am_clock am)
                         (jget e ''request_deadline_monotonic''))) (\<lambda>deadline.
                  if (case deadline of Some t \<Rightarrow> t \<le> now_monotonic am | None \<Rightarrow> False)
                  then ret (fail_with ''Progress request has expired'' 410)
                  else sbind (change (\<lambda>s. s\<lparr>client_progress :=
                          dset (c, r) (map (\<lambda>f. (f, jget d f)) API_V1_PROGRESS_CLIENT_FIELDS) (client_progress s)\<rparr>))
                        (\<lambda>_. ret (message_reply 202 ''Encrypted progress accepted'' [])))))))"

definition api_v1_relay_progress :: "ambient \<Rightarrow> string \<Rightarrow> json \<Rightarrow> reply act" where
  "api_v1_relay_progress am provided data =
     authorised am provided
       (case progress_schema_error data of
          Some e \<Rightarrow> ret e
        | None \<Rightarrow> (case data of JDict d \<Rightarrow> store_progress am d | _ \<Rightarrow> ret invalid_request_data))"

section \<open>Retrieval\<close>

definition unless_closed :: "ambient \<Rightarrow> string \<Rightarrow> string \<Rightarrow> (exchange \<Rightarrow> exchange) \<Rightarrow> reply act \<Rightarrow> reply act" where
  "unless_closed am c r tidy handler =
     sbind (run_op (get_terminal_request am c r)) (\<lambda>terminal.
       case terminal of
         Some t \<Rightarrow> sbind (change tidy) (\<lambda>_. ret (request_closed t))
       | None \<Rightarrow> handler)"

definition answer_pending :: "ambient \<Rightarrow> string \<Rightarrow> string \<Rightarrow> reply act" where
  "answer_pending am c r =
     sbind (run_op (is_request_pending am c r)) (\<lambda>pending.
       if pending
       then
         sbind (gets (pending_request_deadline c r)) (\<lambda>deadline.
         sbind (run_op (pop_client_progress c r)) (\<lambda>progress.
         sbind (scheduled (api_v1_deadline_metadata am (case deadline of Some t \<Rightarrow> JFloat t | None \<Rightarrow> JNull))) (\<lambda>meta.
           ret (202, JDict ((''status'', JStr ''pending'') # meta @
             (case progress of Some (x # xs) \<Rightarrow> [(''encrypted_progress'', JDict (x # xs))] | _ \<Rightarrow> []))))))
       else
         unless_closed am c r id
           (ret (if r \<noteq> [] then fail_with (''Unknown request_id: '' @ r) 404
                 else fail_with ''No response available for the given public key'' 404)))"

definition retrieve_response :: "ambient \<Rightarrow> string \<Rightarrow> string \<Rightarrow> reply act" where
  "retrieve_response am c r =
     unless_closed am c r (\<lambda>s. snd (remove_client_responses_for_request c r s))
       (sbind (run_op (pop_client_response c r)) (\<lambda>response.
          case response of
            Some e \<Rightarrow> ret (200, JDict e)
          | None \<Rightarrow>
              sbind (run_op (expire_pending_request_if_stale am c r)) (\<lambda>_.
                unless_closed am c r id (answer_pending am c r))))"

definition api_v1_relay_responses_retrieve :: "ambient \<Rightarrow> json \<Rightarrow> reply act" where
  "api_v1_relay_responses_retrieve am data =
     (case data of
        JDict d \<Rightarrow>
          if \<not> dmem ''client_public_key'' d then ret invalid_request_data
          else
            sbind (text_key (jget d ''client_public_key'')) (\<lambda>c.
            sbind (optional_key (jget d ''request_id'')) (\<lambda>r. retrieve_response am c r))
      | _ \<Rightarrow> if jtruthy data then lift (Inl OutsideModel) else ret invalid_request_data)"

end
