(* ===== verification/Relay_Nodes.thy ===== *)
theory Relay_Nodes
  imports Relay_Handlers
begin

text \<open>
  The handlers of \<^verbatim>\<open>src/relay.py\<close> that compute nodes call: registration, unregistering, polling
  and the control poll of one request.
\<close>

section \<open>Registration\<close>

text \<open>\<open>fresh\<close> is the token that \<^verbatim>\<open>secrets.token_urlsafe\<close> returns.\<close>

definition pinged :: "ambient \<Rightarrow> node \<Rightarrow> node" where
  "pinged am n = n\<lparr>nd_last_ping := PingDatetime (ck_datetime (am_clock am))\<rparr>"

definition place_node :: "ambient \<Rightarrow> string \<Rightarrow> relay \<Rightarrow> relay" where
  "place_node am key rl =
     (case dget (known_servers rl) key of
        Some n \<Rightarrow>
          if is_api_v1 n then rl\<lparr>known_servers := dset key (pinged am n) (known_servers rl)\<rparr>
          else rl\<lparr>server_round_robin_next_index :=
                    (if api_v1_round_robin_keys rl = [] then 0 else server_round_robin_next_index rl),
                  known_servers := dset key (pinged am n) (ddel key (known_servers rl))\<rparr>
      | None \<Rightarrow>
          rl\<lparr>server_round_robin_next_index :=
               (if api_v1_round_robin_keys rl = [] then 0 else server_round_robin_next_index rl),
             known_servers := dset key (pinged am \<lparr>nd_fields = [], nd_last_ping = PingOther\<rparr>) (known_servers rl)\<rparr>)"

definition registered_fields :: "ambient \<Rightarrow> string \<Rightarrow> object \<Rightarrow> object \<Rightarrow> object" where
  "registered_fields am key capabilities d =
     fold (\<lambda>(f, v). dset f v)
       [(''public_key'', JStr key),
        (''last_ping_duration'', JInt (api_v1_lease_seconds (ck_environ (am_clock am)))),
        (API_V1_SERVER_MARKER, JBool True),
        (''capabilities'', JDict capabilities)] d"

definition issue_credential :: "ambient \<Rightarrow> string \<Rightarrow> string \<Rightarrow> string act" where
  "issue_credential am fresh key =
     sbind (gets (\<lambda>s. dget (servers s) key)) (\<lambda>payload. case payload of
       None \<Rightarrow> ret []
     | Some n \<Rightarrow>
         sbind (encoded (store_api_v1_control_credential (am_digests am) fresh (nd_fields n))) (\<lambda>(credential, d).
           sbind (change (set_fields key (\<lambda>_. d))) (\<lambda>_. ret credential)))"

definition normalised_capabilities :: "json \<Rightarrow> (string + object) act" where
  "normalised_capabilities v =
     lift (case normalise_api_v1_capabilities v of
             Inl (Refused message) \<Rightarrow> Inr (Inl message)
           | Inl UnhashableVersion \<Rightarrow> Inl PyTypeError
           | Inr c \<Rightarrow> Inr (Inr c))"

definition invalid_capabilities :: "string \<Rightarrow> reply" where
  "invalid_capabilities message = (400, error_body message (JStr ''invalid_capabilities''))"

definition register_node :: "ambient \<Rightarrow> string \<Rightarrow> string \<Rightarrow> object \<Rightarrow> reply act" where
  "register_node am fresh key capabilities =
     sbind (change (\<lambda>s. set_fields key (registered_fields am key capabilities)
                          (s\<lparr>xc_relay := place_node am key (xc_relay s)\<rparr>))) (\<lambda>_.
     sbind (issue_credential am fresh key) (\<lambda>credential.
       (let v = ck_environ (am_clock am)
        in ret (200, JDict
             ([(''next_ping_in_x_seconds'', JInt (api_v1_lease_seconds v)),
               (''poll_wait_seconds'', json_of_float (api_v1_poll_wait_seconds v)),
               (''relay_capabilities'', JDict [(''encrypted_progress_v1'', JBool True)])]
              @ (if credential = [] then [] else [(''control_credential'', JStr credential)]))))))"

definition api_v1_relay_servers_register :: "ambient \<Rightarrow> string \<Rightarrow> string \<Rightarrow> json \<Rightarrow> reply act" where
  "api_v1_relay_servers_register am provided fresh data =
     authorised am provided
       (case data of
          JDict d \<Rightarrow>
            if \<not> jtruthy (jget d ''server_public_key'') then ret (fail_with ''Missing server public key'' 400)
            else
              sbind (normalised_capabilities (jget d ''capabilities'')) (\<lambda>normalised.
                case normalised of
                  Inl message \<Rightarrow> ret (invalid_capabilities message)
                | Inr capabilities \<Rightarrow>
                    sbind (text_key (jget d ''server_public_key'')) (\<lambda>key. register_node am fresh key capabilities))
        | _ \<Rightarrow> ret invalid_request_data)"

section \<open>Unregistering\<close>

definition shaped_error :: "bool \<Rightarrow> string \<Rightarrow> reply" where
  "shaped_error legacy message =
     (if legacy then (400, JDict [(''error'', JStr message)]) else fail_with message 400)"

definition handle_server_unregister_request :: "ambient \<Rightarrow> string \<Rightarrow> bool \<Rightarrow> json \<Rightarrow> reply act" where
  "handle_server_unregister_request am provided legacy data =
     authorised am provided
       (case data of
          JDict d \<Rightarrow>
            (let key = json_text (jget d ''server_public_key'')
             in if py_strip key = [] then ret (shaped_error legacy ''Invalid public key'')
                else
                  sbind (unregister_server am key ''unregistered'' None (Some (jget d ''control_credential''))) (\<lambda>removed.
                    ret (case removed of
                           None \<Rightarrow> invalid_control_credential
                         | Some b \<Rightarrow> message_reply 200 ''Server unregistered'' [(''removed'', JBool b)])))
        | _ \<Rightarrow> ret (shaped_error legacy ''Invalid request data''))"

section \<open>Polling\<close>

text \<open>
  A poll first renews the node's lease, then looks at the queue in rounds, sleeping after an
  empty one until it is notified or its time is over, and answers at the end. Each of the
  three pieces is a step of its own.
\<close>

definition renew_lease :: "ambient \<Rightarrow> string \<Rightarrow> object option \<Rightarrow> exchange \<Rightarrow> exchange" where
  "renew_lease am key capabilities s =
     (case dget (servers s) key of
        None \<Rightarrow> s
      | Some n \<Rightarrow>
          (let v = ck_environ (am_clock am);
               until = f_plus am (now_monotonic am) (f_max (api_v1_poll_wait_seconds v) (FNum 0));
               d1 = dset ''last_ping_duration'' (JInt (api_v1_lease_seconds v)) (nd_fields n);
               d2 = (case capabilities of Some c \<Rightarrow> dset ''capabilities'' (JDict c) d1 | None \<Rightarrow> d1);
               d3 = dset ''polling_until_monotonic'' (json_of_float until) d2
           in set_servers (dset key ((pinged am n)\<lparr>nd_fields := d3\<rparr>) (servers s)) s))"

definition open_poll :: "ambient \<Rightarrow> string \<Rightarrow> object option \<Rightarrow> (reply + string) act" where
  "open_poll am key capabilities =
     sbind (gets (\<lambda>s. dmem key (servers s))) (\<lambda>known.
       if \<not> known then ret (Inl server_not_found)
       else sbind (change (renew_lease am key capabilities)) (\<lambda>_. ret (Inr key)))"

definition poll_open :: "ambient \<Rightarrow> string \<Rightarrow> json \<Rightarrow> (reply + string) act" where
  "poll_open am provided data =
     sbind (validate_server_registration am provided) (\<lambda>refused.
       case refused of
         Some e \<Rightarrow> ret (Inl e)
       | None \<Rightarrow>
           sbind (evict_stale_servers am) (\<lambda>_.
             case data of
               JDict d \<Rightarrow>
                 if \<not> jtruthy (jget d ''server_public_key'') then ret (Inl (fail_with ''Missing server public key'' 400))
                 else if jget d ''capabilities'' = JNull
                 then sbind (text_key (jget d ''server_public_key'')) (\<lambda>key. open_poll am key None)
                 else
                   sbind (normalised_capabilities (jget d ''capabilities'')) (\<lambda>normalised.
                     case normalised of
                       Inl message \<Rightarrow> ret (Inl (invalid_capabilities message))
                     | Inr c \<Rightarrow> sbind (text_key (jget d ''server_public_key'')) (\<lambda>key. open_poll am key (Some c)))
             | _ \<Rightarrow> ret (Inl invalid_request_data)))"

datatype poll_result = NodeMissing | QueueEmpty | HeadExpired | Claimed object

definition request_key :: "object \<Rightarrow> string" where
  "request_key item = json_text (jget item ''request_id'')"

definition client_key :: "object \<Rightarrow> string" where
  "client_key item = json_text (jget item ''client_public_key'')"

definition expired_at :: "ambient \<Rightarrow> json \<Rightarrow> scheduler_error + bool" where
  "expired_at am v =
     ebind (valid_request_deadline_monotonic (am_clock am) v) (\<lambda>deadline.
       Inr (case deadline of Some t \<Rightarrow> t \<le> now_monotonic am | None \<Rightarrow> False))"

definition pop_next :: "string \<Rightarrow> exchange \<Rightarrow> object option \<times> exchange" where
  "pop_next key s = (let (item, rl) = pop_next_api_v1_request key (xc_relay s) in (item, s\<lparr>xc_relay := rl\<rparr>))"

definition poll_round :: "ambient \<Rightarrow> string \<Rightarrow> poll_result act" where
  "poll_round am key =
     sbind (gets (\<lambda>s. dmem key (servers s))) (\<lambda>known.
     if \<not> known then ret NodeMissing
     else
       sbind (run_op (pop_next key)) (\<lambda>item.
         case item of
           None \<Rightarrow> ret QueueEmpty
         | Some q \<Rightarrow>
             sbind (scheduled (expired_at am (jget q ''_request_deadline_monotonic''))) (\<lambda>expired.
               if \<not> expired then ret (Claimed q)
               else
                 sbind (run_op (cancel_api_v1_request am (client_key q) (request_key q) ''expired'' ''provider_timeout''))
                   (\<lambda>_. ret HeadExpired))))"

text \<open>A node that disappeared while it polled: its claimed request is closed.\<close>

definition close_claimed :: "ambient \<Rightarrow> string \<Rightarrow> object option \<Rightarrow> reply act" where
  "close_claimed am key item =
     (case item of
        Some q \<Rightarrow>
          if is_e2ee q
          then
            sbind (run_op (api_v1_server_was_recently_unregistered am key)) (\<lambda>was_unregistered.
            sbind (run_op (cancel_api_v1_request am (client_key q) (request_key q)
                     (if was_unregistered then ''cancelled'' else ''expired'')
                     (if was_unregistered then ''server_unregistered'' else ''provider_timeout''))) (\<lambda>_.
              ret server_not_found))
          else ret server_not_found
      | None \<Rightarrow> ret server_not_found)"

definition no_requests_available :: "ambient \<Rightarrow> json \<Rightarrow> reply" where
  "no_requests_available am idle =
     (let wait = api_v1_poll_wait_seconds (ck_environ (am_clock am))
      in message_reply 200 ''No requests available''
           [(''next_ping_in_x_seconds'', if f_less (FNum 0) wait then JInt 0 else idle),
            (''poll_wait_seconds'', json_of_float wait)])"

definition in_flight_entry :: "ambient \<Rightarrow> rat option \<Rightarrow> object \<Rightarrow> pyfloat \<Rightarrow> object" where
  "in_flight_entry am deadline item ttl =
     (let lease = f_plus am (now_monotonic am) ttl
      in [(''expires_at'', json_of_float (f_min lease (case deadline of Some t \<Rightarrow> FNum t | None \<Rightarrow> lease))),
          (''started_at_monotonic'', JFloat (now_monotonic am)),
          (''client_public_key'', jget item ''client_public_key''),
          (''cancel_token'', jget item ''cancel_token''),
          (''request_deadline_monotonic'', case deadline of Some t \<Rightarrow> JFloat t | None \<Rightarrow> JNull)])"

definition start_request :: "ambient \<Rightarrow> string \<Rightarrow> rat option \<Rightarrow> object \<Rightarrow> reply act" where
  "start_request am key deadline item =
     sbind (gets (\<lambda>s. dget (servers s) key)) (\<lambda>payload. case payload of
       None \<Rightarrow> close_claimed am key (Some item)
     | Some n \<Rightarrow>
         (case api_v1_in_flight_ttl_seconds (ck_environ (am_clock am)) of
            None \<Rightarrow> lift (Inl PyOverflowError)
          | Some ttl \<Rightarrow>
              sbind (change (set_in_flight key
                (dset (request_key item) (JDict (in_flight_entry am deadline item ttl)) (in_flight_of n)))) (\<lambda>_.
                  ret (200, JDict item))))"

definition dispatch_request :: "ambient \<Rightarrow> string \<Rightarrow> object \<Rightarrow> reply act" where
  "dispatch_request am key item0 =
     (let item = ddel ''_request_deadline_monotonic'' (ddel ''_queued_at'' item0);
          v = jget item0 ''_request_deadline_monotonic''
      in sbind (scheduled (expired_at am v)) (\<lambda>expired.
           if expired
           then
             sbind (run_op (cancel_api_v1_request am (client_key item) (request_key item) ''expired'' ''provider_timeout'')) (\<lambda>_.
               ret (no_requests_available am (JInt (api_v1_lease_seconds (ck_environ (am_clock am))))))
           else
             sbind (scheduled (valid_request_deadline_monotonic (am_clock am) v)) (\<lambda>deadline.
             sbind (scheduled (api_v1_deadline_metadata am (case deadline of Some t \<Rightarrow> JFloat t | None \<Rightarrow> JNull))) (\<lambda>meta.
               (let request = fold (\<lambda>(f, x). dset f x) meta item
                in if request_key request \<noteq> [] then start_request am key deadline request
                   else ret (200, JDict request))))))"

definition idle_ping :: "node \<Rightarrow> json" where
  "idle_ping n =
     (case jget (nd_fields n) ''last_ping_duration'' of JInt i \<Rightarrow> JInt (max i 1) | v \<Rightarrow> v)"

definition poll_close :: "ambient \<Rightarrow> string \<Rightarrow> object option \<Rightarrow> reply act" where
  "poll_close am key item =
     sbind (gets (\<lambda>s. dget (servers s) key)) (\<lambda>payload. case payload of
       None \<Rightarrow> close_claimed am key item
     | Some n \<Rightarrow>
         sbind (change (set_fields key (ddel ''polling_until_monotonic''))) (\<lambda>_.
           case item of
             Some q \<Rightarrow> dispatch_request am key q
           | None \<Rightarrow>
               sbind (change (\<lambda>s. set_servers (dset key
                   (pinged am (n\<lparr>nd_fields := ddel ''polling_until_monotonic'' (nd_fields n)\<rparr>)) (servers s)) s)) (\<lambda>_.
                 ret (no_requests_available am (idle_ping n)))))"

text \<open>Rounds are repeated at once while they find expired requests.\<close>

fun drain :: "nat \<Rightarrow> ambient \<Rightarrow> string \<Rightarrow> poll_result act" where
  "drain 0 am key = poll_round am key"
| "drain (Suc k) am key =
     sbind (poll_round am key) (\<lambda>result.
       if result = HeadExpired then drain k am key else ret result)"

section \<open>Choosing a node\<close>

text \<open>
  \<open>model\<close> and \<open>tier\<close> are the query parameters; \<open>chosen\<close> is the key that
  \<^verbatim>\<open>secrets.choice\<close> returns on the older route.
\<close>

definition API_V1_SELECTION_POLICY :: string where
  "API_V1_SELECTION_POLICY = ''best_fit_smallest_capable_least_loaded_v1''"

definition RELAY_DEFAULT_CONTEXT_TIER :: string where
  "RELAY_DEFAULT_CONTEXT_TIER = ''8k-fast''"

definition DEFAULT_MODEL_IDS :: "string list" where
  "DEFAULT_MODEL_IDS = [''qwen3-8b-instruct'']"

definition tier_counts_json :: "(string, nat) dict \<Rightarrow> json" where
  "tier_counts_json d = JDict (map (\<lambda>(t, n). (t, JInt (int n))) d)"

definition optional_json :: "string option \<Rightarrow> json" where
  "optional_json v = (case v of Some t \<Rightarrow> JStr t | None \<Rightarrow> JNull)"

definition unavailable :: "string \<Rightarrow> string \<Rightarrow> object \<Rightarrow> reply" where
  "unavailable message code extra =
     (503, JDict [(''error'', JDict ([(''message'', JStr message), (''code'', JStr code)] @ extra))])"

definition no_registered_compute_nodes :: reply where
  "no_registered_compute_nodes =
     unavailable ''No registered compute nodes are available on this relay.'' ''no_registered_compute_nodes'' []"

definition selection_fields :: "string \<Rightarrow> string \<Rightarrow> selection \<Rightarrow> object" where
  "selection_fields model tier sel =
     [(''selection_policy'', JStr API_V1_SELECTION_POLICY), (''requested_context_tier'', JStr tier),
      (''requested_model'', JStr model), (''eligible_node_count'', JInt (int (sel_eligible_count sel))),
      (''eligible_tier_counts'', tier_counts_json (sel_eligible_tier_counts sel))]"

definition selection_reply :: "string \<Rightarrow> string \<Rightarrow> best_fit \<Rightarrow> reply" where
  "selection_reply model tier fit =
     (case fit of
        NoServer sel registered limited \<Rightarrow>
          if registered = 0 then no_registered_compute_nodes
          else if limited = 0
          then unavailable
            ''Registered compute nodes are available, but none match the requested model/context tier.''
            ''no_matching_compute_node'' (selection_fields model tier sel)
          else unavailable
            ''Registered compute nodes match the requested model/context tier, but all matching nodes are at capacity. Retry with backoff.''
            ''no_available_capacity''
            (selection_fields model tier sel
             @ [(''capacity_limited_node_count'', JInt (int limited)),
                (''capacity_limited_tier_counts'', tier_counts_json (sel_capacity_limited_tier_counts sel))])
      | Selected key sel ld spillover why server \<Rightarrow>
          (let c = (case jget server ''capabilities'' of JDict d \<Rightarrow> d | _ \<Rightarrow> [])
           in (200, JDict
             ([(''server_public_key'', jget server ''public_key''),
               (''requested_context_tier'', JStr tier), (''requested_model'', JStr model),
               (''resolved_model'', optional_json (sel_requested_model sel)),
               (''selected_context_tier'', jget c ''active_context_tier''),
               (''selected_context_window_tokens'', jget c ''maximum_total_context_tokens''),
               (''selected_model_support'', jget_default c ''supported_model_ids'' (JList [])),
               (''selection_policy'', JStr API_V1_SELECTION_POLICY),
               (''eligible_node_count'', JInt (int (sel_eligible_count sel))),
               (''eligible_tier_counts'', tier_counts_json (sel_eligible_tier_counts sel)),
               (''selected_queue_depth'', JInt (int (ld_queue_depth ld))),
               (''selected_in_flight_count'', JInt (int (ld_in_flight_count ld))),
               (''selected_load_score'', JFloat (ld_load_score ld)),
               (''spillover'', JBool spillover)]
              @ (case why of Some (x # xs) \<Rightarrow> [(''spillover_reason'', JStr (x # xs))] | _ \<Rightarrow> [])))))"

definition select_server :: "ambient \<Rightarrow> string option \<Rightarrow> string \<Rightarrow> best_fit act" where
  "select_server am model tier = (\<lambda>s.
     let (r, rl) = select_best_fit_server_key (am_clock am) model tier (xc_relay s)
     in (case r of Inl e \<Rightarrow> Inl (Scheduling e) | Inr x \<Rightarrow> Inr x, s\<lparr>xc_relay := rl\<rparr>))"

definition select_api_v1 :: "ambient \<Rightarrow> string option \<Rightarrow> string option \<Rightarrow> reply act" where
  "select_api_v1 am model0 tier0 =
     (let model = (case model0 of Some m \<Rightarrow> if py_strip m = [] then hd DEFAULT_MODEL_IDS else m
                   | None \<Rightarrow> hd DEFAULT_MODEL_IDS);
          tier = (case tier0 of Some t \<Rightarrow> if py_strip t = [] then RELAY_DEFAULT_CONTEXT_TIER else py_strip t
                  | None \<Rightarrow> RELAY_DEFAULT_CONTEXT_TIER)
      in if \<not> dmem tier CONTEXT_TIER_ORDER
         then ret (400, error_body ''Unsupported context_tier'' (JStr ''invalid_context_tier''))
         else sbind (select_server am (Some model) tier) (\<lambda>fit. ret (selection_reply model tier fit)))"

definition select_next_server_payload ::
  "ambient \<Rightarrow> bool \<Rightarrow> string \<Rightarrow> string option \<Rightarrow> string option \<Rightarrow> reply act" where
  "select_next_server_payload am api_v1 chosen model tier =
     sbind (evict_stale_servers am) (\<lambda>_.
     sbind (gets servers) (\<lambda>known.
       if known = []
       then sbind (change (\<lambda>s. s\<lparr>xc_relay := (xc_relay s)\<lparr>server_round_robin_next_index := 0\<rparr>\<rparr>)) (\<lambda>_.
              ret (if api_v1 then no_registered_compute_nodes else fail_with ''No servers available'' 503))
       else if \<not> api_v1
       then ret (200, JDict [(''server_public_key'',
              case dget known chosen of Some n \<Rightarrow> jget (nd_fields n) ''public_key'' | None \<Rightarrow> JNull)])
       else select_api_v1 am model tier))"

section \<open>Control poll\<close>

definition control_status :: "json \<Rightarrow> string" where
  "control_status v =
     (if v = JStr ''cancelled'' then ''cancelled'' else if v = JStr ''expired'' then ''expired'' else ''completed/unavailable'')"

definition control_reply :: "ambient \<Rightarrow> string \<Rightarrow> pyfloat option \<Rightarrow> object \<Rightarrow> reply" where
  "control_reply am status hint meta =
     (200, JDict ((''status'', JStr status)
        # (''next_poll_seconds'', json_of_float (bounded_control_next_poll_seconds (ck_environ (am_clock am)) hint))
        # meta))"

definition renew_in_flight :: "ambient \<Rightarrow> string \<Rightarrow> string \<Rightarrow> pyfloat \<Rightarrow> rat option \<Rightarrow> exchange \<Rightarrow> exchange" where
  "renew_in_flight am key r lease deadline s =
     (case dget (servers s) key of
        None \<Rightarrow> s
      | Some n \<Rightarrow>
          (case dget (in_flight_of n) r of
             Some (JDict e) \<Rightarrow>
               (let until = f_plus am (now_monotonic am) lease;
                    capped = (case deadline of Some t \<Rightarrow> f_min until (FNum t) | None \<Rightarrow> until)
                in set_in_flight key (dset r (JDict (dset ''expires_at'' (json_of_float capped) e)) (in_flight_of n)) s)
           | _ \<Rightarrow> s))"

definition half :: "pyfloat \<Rightarrow> pyfloat" where
  "half x = (case x of FNum a \<Rightarrow> FNum (a / 2) | _ \<Rightarrow> x)"

definition control_entry :: "ambient \<Rightarrow> string \<Rightarrow> string \<Rightarrow> object \<Rightarrow> pyfloat \<Rightarrow> reply act \<Rightarrow> reply act" where
  "control_entry am key r e lease otherwise =
     sbind (scheduled (valid_request_deadline_monotonic (am_clock am) (jget e ''request_deadline_monotonic''))) (\<lambda>deadline.
     sbind (scheduled (api_v1_deadline_metadata am (case deadline of Some t \<Rightarrow> JFloat t | None \<Rightarrow> JNull))) (\<lambda>meta.
       if (case deadline of Some t \<Rightarrow> t \<le> now_monotonic am | None \<Rightarrow> False)
       then
         (case jget e ''client_public_key'' of
            JStr (x # xs) \<Rightarrow>
              sbind (run_op (cancel_api_v1_request am (x # xs) r ''expired'' ''provider_timeout'')) (\<lambda>_.
              sbind (run_op (get_terminal_request am (x # xs) r)) (\<lambda>terminal.
                ret (control_reply am
                       (sanitize_terminal_status (case terminal of Some t \<Rightarrow> JStr (te_status t) | None \<Rightarrow> JNull)) None meta)))
          | _ \<Rightarrow> otherwise)
       else
         sbind (change (renew_in_flight am key r lease deadline)) (\<lambda>_.
           ret (control_reply am ''active'' (Some (f_max (half lease) (FNum 1))) meta))))"

definition credential_digest_matches :: "ambient \<Rightarrow> json \<Rightarrow> json \<Rightarrow> bool option" where
  "credential_digest_matches am expected credential =
     (case (expected, credential) of
        (JStr digest, JStr (c # cs)) \<Rightarrow>
          map_option (\<lambda>x. x = digest) (api_v1_control_credential_digest (am_digests am) (c # cs))
      | _ \<Rightarrow> Some False)"

definition live_owner :: "ambient \<Rightarrow> json \<Rightarrow> node option \<Rightarrow> bool option" where
  "live_owner am credential n =
     (case n of
        Some m \<Rightarrow>
          if is_api_v1 m then api_v1_server_control_credential_valid (am_digests am) (JDict (nd_fields m)) credential
          else Some False
      | None \<Rightarrow> Some False)"

definition completed_or_unavailable :: "ambient \<Rightarrow> string \<Rightarrow> json \<Rightarrow> reply act" where
  "completed_or_unavailable am key credential =
     sbind (gets (\<lambda>s. dget (servers s) key)) (\<lambda>payload.
     sbind (encoded (live_owner am credential payload)) (\<lambda>owner.
       ret (if owner then control_reply am ''completed/unavailable'' None [] else invalid_control_credential)))"

definition control_tombstone_answer :: "ambient \<Rightarrow> string \<Rightarrow> string \<Rightarrow> json \<Rightarrow> bool \<Rightarrow> reply act" where
  "control_tombstone_answer am key r credential acknowledge =
     sbind (gets (\<lambda>s. dget (api_v1_control_tombstones s) (control_tombstone_key key r))) (\<lambda>tombstone.
       case tombstone of
         Some t \<Rightarrow>
           if f_less (FNum (now_monotonic am)) (rt_expires_at_monotonic t)
           then
             sbind (encoded (credential_digest_matches am (rt_control_credential_digest t) credential)) (\<lambda>valid.
               if \<not> valid then ret invalid_control_credential
               else
                 sbind (change (\<lambda>s. if acknowledge
                     then s\<lparr>api_v1_control_tombstones := ddel (control_tombstone_key key r) (api_v1_control_tombstones s)\<rparr>
                     else s)) (\<lambda>_.
                 sbind (scheduled (api_v1_deadline_metadata am (rt_deadline_monotonic t))) (\<lambda>meta.
                   ret (control_reply am (control_status (JStr (rt_status t))) None meta))))
           else completed_or_unavailable am key credential
       | None \<Rightarrow> completed_or_unavailable am key credential)"

definition control_request :: "ambient \<Rightarrow> string \<Rightarrow> string \<Rightarrow> json \<Rightarrow> bool \<Rightarrow> pyfloat \<Rightarrow> reply act" where
  "control_request am key r credential acknowledge lease =
     (let answer = control_tombstone_answer am key r credential acknowledge
      in sbind (gets (\<lambda>s. dget (servers s) key)) (\<lambda>payload. case payload of
        None \<Rightarrow> answer
      | Some n \<Rightarrow>
          if \<not> is_api_v1 n then answer
          else
            sbind (encoded (api_v1_server_control_credential_valid (am_digests am) (JDict (nd_fields n)) credential)) (\<lambda>valid.
              if \<not> valid then ret invalid_control_credential
              else case dget (in_flight_of n) r of
                Some (JDict e) \<Rightarrow> control_entry am key r e lease answer
              | _ \<Rightarrow> answer)))"

definition api_v1_relay_servers_control :: "ambient \<Rightarrow> string \<Rightarrow> json \<Rightarrow> reply act" where
  "api_v1_relay_servers_control am provided data =
     authorised am provided
       (sbind (evict_stale_servers am) (\<lambda>_.
        sbind (change (prune_api_v1_control_tombstones am)) (\<lambda>_.
          case data of
            JDict d \<Rightarrow>
              if \<not> jtruthy (jget d ''server_public_key'') \<or> \<not> jtruthy (jget d ''request_id'') then ret invalid_request_data
              else
                (case api_v1_in_flight_ttl_seconds (ck_environ (am_clock am)) of
                   None \<Rightarrow> lift (Inl PyOverflowError)
                 | Some lease \<Rightarrow>
                     sbind (text_key (jget d ''server_public_key'')) (\<lambda>key.
                     sbind (text_key (jget d ''request_id'')) (\<lambda>r.
                       control_request am key r (jget d ''control_credential'')
                         (jget d ''acknowledge'' = JBool True \<or> jget d ''ack'' = JBool True) lease)))
          | _ \<Rightarrow> ret invalid_request_data)))"

end
