(* ===== verification/Relay_Legacy.thy ===== *)
theory Relay_Legacy
  imports Relay_Nodes
begin

text \<open>
  The older routes of \<^verbatim>\<open>src/relay.py\<close>, switched off unless an environment variable asks for
  them, which share the queues and the waiting responses with the API v1 routes.
\<close>

section \<open>The switch\<close>

definition legacy_routes_enabled :: "environ \<Rightarrow> bool" where
  "legacy_routes_enabled v \<longleftrightarrow>
     py_lower (py_strip (case en_vars v ''TOKENPLACE_ENABLE_LEGACY_RELAY_ROUTES'' of Some t \<Rightarrow> t | None \<Rightarrow> ''0''))
       \<in> {''1'', ''true'', ''yes'', ''on''}"

definition legacy_route_deprecated_response :: "string \<Rightarrow> reply" where
  "legacy_route_deprecated_response route =
     (410, JDict [(''error'', JDict
        [(''message'', JStr (''Legacy relay endpoint '' @ CHR 0x27 # route @ CHR 0x27 #
            '' is deprecated. Use API v1 relay E2EE routes.'')),
         (''code'', JStr ''legacy_relay_endpoint_deprecated''), (''deprecated'', JBool True)])])"

definition legacy :: "ambient \<Rightarrow> string \<Rightarrow> reply act \<Rightarrow> reply act" where
  "legacy am route handler =
     (if legacy_routes_enabled (ck_environ (am_clock am)) then handler
      else ret (legacy_route_deprecated_response route))"

definition legacy_error :: "nat \<Rightarrow> string \<Rightarrow> reply" where
  "legacy_error code message = (code, JDict [(''error'', JStr message)])"

text \<open>\<^verbatim>\<open>not data or f not in data\<close> for each of the fields.\<close>

definition with_fields :: "string list \<Rightarrow> reply \<Rightarrow> json \<Rightarrow> (object \<Rightarrow> reply act) \<Rightarrow> reply act" where
  "with_fields fs refused data handler =
     (case data of
        JDict d \<Rightarrow> if list_all (\<lambda>f. dmem f d) fs then handler d else ret refused
      | _ \<Rightarrow> if jtruthy data then lift (Inl OutsideModel) else ret refused)"

definition next_server :: "ambient \<Rightarrow> string \<Rightarrow> reply act" where
  "next_server am chosen = legacy am ''/next_server'' (select_next_server_payload am False chosen None None)"

section \<open>Requests and responses\<close>

definition faucet_item :: "object \<Rightarrow> object" where
  "faucet_item d =
     [(''chat_history'', jget d ''chat_history''), (''client_public_key'', jget d ''client_public_key''),
      (''cipherkey'', jget d ''cipherkey''), (''iv'', jget d ''iv''), (''stream'', JBool (jtruthy (jget d ''stream'')))]"

definition faucet :: "ambient \<Rightarrow> json \<Rightarrow> reply act" where
  "faucet am data = legacy am ''/faucet''
     (sbind (evict_stale_servers am) (\<lambda>_.
       if payload_has_plaintext_fields data
       then ret (fail_with ''Plaintext relay payload fields are forbidden; send ciphertext envelope only'' 400)
       else if payload_has_unexpected_faucet_fields data
       then ret (fail_with ''Unexpected relay payload fields are forbidden; send ciphertext envelope only'' 400)
       else with_fields [''server_public_key'', ''chat_history'', ''cipherkey'', ''iv''] invalid_request_data data (\<lambda>d.
         if jtruthy (jget d ''stream'') \<and> \<not> jtruthy (jget d ''client_public_key'')
         then ret (fail_with ''Streaming requests require a client public key'' 400)
         else sbind (text_key (jget d ''server_public_key'')) (\<lambda>server.
           sbind (gets (\<lambda>s. dmem server (servers s))) (\<lambda>known.
             if \<not> known then ret server_not_found
             else sbind (change (enqueue_envelope server (faucet_item d))) (\<lambda>_.
                    ret (message_reply 200 ''Request received'' [])))))))"

definition source :: "ambient \<Rightarrow> string \<Rightarrow> json \<Rightarrow> reply act" where
  "source am provided data = legacy am ''/source'' (authorised am provided
     (with_fields [''client_public_key'', ''chat_history'', ''cipherkey'', ''iv'']
        (legacy_error 400 ''Invalid request data'') data (\<lambda>d.
          sbind (text_key (jget d ''client_public_key'')) (\<lambda>c.
          sbind (change (\<lambda>s. s\<lparr>client_responses := dset c
              (Single [(''chat_history'', jget d ''chat_history''), (''cipherkey'', jget d ''cipherkey''),
                       (''iv'', jget d ''iv'')]) (client_responses s)\<rparr>)) (\<lambda>_.
            ret (message_reply 200 ''Response received and queued for client'' []))))))"

fun waiting_json :: "waiting \<Rightarrow> json" where
  "waiting_json (Single e) = JDict e"
| "waiting_json (Several es) = JList (map JDict es)"

definition retrieve :: "ambient \<Rightarrow> json \<Rightarrow> reply act" where
  "retrieve am data = legacy am ''/retrieve''
     (with_fields [''client_public_key''] (legacy_error 400 ''Invalid request data'') data (\<lambda>d.
        sbind (text_key (jget d ''client_public_key'')) (\<lambda>c.
        sbind (gets (\<lambda>s. dget (client_responses s) c)) (\<lambda>w.
          case w of
            Some x \<Rightarrow> sbind (change (store_waiting c [])) (\<lambda>_. ret (200, waiting_json x))
          | None \<Rightarrow> ret (legacy_error 200 ''No response available for the given public key'')))))"

section \<open>The node's ping\<close>

text \<open>\<^verbatim>\<open>int(v)\<close>: \<open>None\<close> where it raises \<^verbatim>\<open>TypeError\<close> or \<^verbatim>\<open>ValueError\<close>.\<close>

definition int_of_json :: "json \<Rightarrow> int option act" where
  "int_of_json v =
     lift (case v of
             JBool b \<Rightarrow> Inr (Some (if b then 1 else 0))
           | JInt i \<Rightarrow> Inr (Some i)
           | JFloat x \<Rightarrow> Inr (Some (if x < 0 then - \<lfloor>- x\<rfloor> else \<lfloor>x\<rfloor>))
           | JInf \<Rightarrow> Inl PyOverflowError
           | JNegInf \<Rightarrow> Inl PyOverflowError
           | JStr t \<Rightarrow> Inr (py_int t)
           | _ \<Rightarrow> Inr None)"

definition ping_node :: "ambient \<Rightarrow> string \<Rightarrow> exchange \<Rightarrow> exchange" where
  "ping_node am key s =
     (case dget (servers s) key of
        Some n \<Rightarrow> set_servers (dset key (pinged am n) (servers s)) s
      | None \<Rightarrow>
          set_servers (dset key (pinged am \<lparr>nd_fields = [(''public_key'', JStr key), (''last_ping_duration'', JInt 10)],
                                        nd_last_ping = PingOther\<rparr>) (servers s)) s)"

text \<open>
  A batch takes requests from the head of the queue, drops plaintext ones and stops at an
  encrypted API v1 request. \<open>fresh\<close> gives the tokens of the sessions that are opened.
\<close>

fun take_batch ::
  "ambient \<Rightarrow> (nat \<Rightarrow> string) \<Rightarrow> string \<Rightarrow> int \<Rightarrow> object list \<Rightarrow> object list \<Rightarrow> exchange \<Rightarrow>
   object list \<times> object list \<times> exchange" where
  "take_batch am fresh key k [] batch s = (batch, [], s)"
| "take_batch am fresh key k (q # rest) batch s =
     (if k \<le> int (length batch) then (batch, q # rest, s)
      else if dmem ''api_v1_request'' q then take_batch am fresh key k rest batch s
      else if is_e2ee q then (batch, q # rest, s)
      else if jtruthy (jget q ''stream'')
      then (case register_stream_session am (fresh (length batch)) key (client_key q) s of
              (Some token, t) \<Rightarrow> take_batch am fresh key k rest (batch @ [dset ''stream_session_id'' (JStr token) q]) t
            | (None, t) \<Rightarrow> take_batch am fresh key k rest (batch @ [q]) t)
      else take_batch am fresh key k rest (batch @ [q]) s)"

definition batch_fields :: "int \<Rightarrow> object list \<Rightarrow> object" where
  "batch_fields k batch =
     (case batch of
        [] \<Rightarrow> []
      | q # _ \<Rightarrow>
          map (\<lambda>f. (f, jget q f)) [''client_public_key'', ''chat_history'', ''cipherkey'', ''iv'']
          @ (if jtruthy (jget q ''stream'') \<and> jtruthy (jget q ''stream_session_id'')
             then [(''stream'', JBool True), (''stream_session_id'', jget q ''stream_session_id'')] else [])
          @ (if 1 < k then [(''batch'', JList (map JDict batch))] else []))"

definition collect_batch :: "ambient \<Rightarrow> (nat \<Rightarrow> string) \<Rightarrow> string \<Rightarrow> int \<Rightarrow> exchange \<Rightarrow> object list \<times> exchange" where
  "collect_batch am fresh key k s =
     (case queue_of (xc_relay s) key of
        [] \<Rightarrow> ([], s)
      | queue \<Rightarrow>
          (let (batch, rest, t) = take_batch am fresh key k queue [] s
           in (batch, set_queues (dset key rest (queues t)) t)))"

definition node_ping_duration :: "string \<Rightarrow> exchange \<Rightarrow> json" where
  "node_ping_duration key s =
     (case dget (servers s) key of Some n \<Rightarrow> jget (nd_fields n) ''last_ping_duration'' | None \<Rightarrow> JNull)"

definition serve_sink :: "ambient \<Rightarrow> (nat \<Rightarrow> string) \<Rightarrow> string \<Rightarrow> int \<Rightarrow> reply act" where
  "serve_sink am fresh key k =
     sbind (change (ping_node am key)) (\<lambda>_.
     sbind (gets (node_ping_duration key)) (\<lambda>duration.
     sbind (run_op (collect_batch am fresh key k)) (\<lambda>batch.
       ret (200, JDict ((''next_ping_in_x_seconds'', duration) # batch_fields k batch)))))"

definition sink :: "ambient \<Rightarrow> string \<Rightarrow> (nat \<Rightarrow> string) \<Rightarrow> json \<Rightarrow> reply act" where
  "sink am provided fresh data = legacy am ''/sink''
     (sbind (evict_stale_servers am) (\<lambda>_. authorised am provided
       (case data of
          JDict d \<Rightarrow>
            sbind (if jget d ''max_batch_size'' = JNull then ret (Some 1) else int_of_json (jget d ''max_batch_size'')) (\<lambda>k.
              case k of
                None \<Rightarrow> ret (legacy_error 400 ''Invalid max_batch_size'')
              | Some n \<Rightarrow>
                  if n < 1 then ret (legacy_error 400 ''Invalid max_batch_size'')
                  else if jget d ''server_public_key'' = JNull then ret (legacy_error 400 ''Invalid public key'')
                  else sbind (text_key (jget d ''server_public_key'')) (\<lambda>key. serve_sink am fresh key n))
        | _ \<Rightarrow> ret (legacy_error 400 ''Invalid request data''))))"

section \<open>Streams\<close>

definition stream_source :: "ambient \<Rightarrow> string \<Rightarrow> json \<Rightarrow> reply act" where
  "stream_source am provided data = authorised am provided
     (with_fields [''session_id'', ''chunk''] (legacy_error 400 ''Invalid request data'') data (\<lambda>d.
        sbind (text_key (jget d ''session_id'')) (\<lambda>session_id.
        (let final = jtruthy (jget d ''final'')
         in sbind (run_op (append_stream_chunk am session_id (jget d ''chunk'') final)) (\<lambda>stored.
              ret (if stored then message_reply 200 ''Chunk stored'' [(''final'', JBool final)]
                   else legacy_error 404 ''Unknown stream session''))))))"

definition stream_retrieve :: "ambient \<Rightarrow> json \<Rightarrow> reply act" where
  "stream_retrieve am data =
     with_fields [''client_public_key''] (legacy_error 400 ''Invalid request data'') data (\<lambda>d.
       sbind (text_key (jget d ''client_public_key'')) (\<lambda>c.
       sbind (run_op (pop_stream_chunks_for_client am c)) (\<lambda>popped.
         ret (case popped of
                None \<Rightarrow> legacy_error 200 ''No active stream for the given public key''
              | Some (session_id, chunks, final) \<Rightarrow>
                  (200, JDict ([(''stream'', JBool True), (''session_id'', JStr session_id), (''chunks'', JList chunks)]
                               @ (if final then [(''final'', JBool True)] else [])))))))"

end
