(* ===== verification/Relay_Laws.thy ===== *)
theory Relay_Laws
  imports Relay_Legacy
begin

text \<open>
  What the relay's dictionaries keep, as laws of the elementary changes, and that every handler
  is made of such changes.
\<close>

section \<open>Nested dictionaries\<close>

lemma inner_nset: "inner (nset c r v d) c' = (if c' = c then dset r v (inner d c) else inner d c')"
  by (simp add: nset_def inner_def dget_dset)

lemma inner_ndel: "inner (ndel c r d) c' = (if c' = c then ddel r (inner d c) else inner d c')"
  by (auto simp: ndel_def inner_def dget_dset dget_ddel Let_def split: option.split)

lemma dget_map_values: "dget (map (\<lambda>(c, m). (c, f m)) d) k = map_option f (dget d k)"
  by (induction d) auto

lemma nprune_dprune: "nprune p d = dprune (\<lambda>m. m = []) (map (\<lambda>(c, m). (c, dprune p m)) d)"
  by (simp add: nprune_def dprune_def)

lemma inner_nprune:
  assumes "wf_dict d"
  shows "inner (nprune p d) c = dprune p (inner d c)"
proof -
  have "wf_dict (map (\<lambda>(c, m). (c, dprune p m)) d)" using assms by (simp add: comp_def case_prod_beta)
  from dget_dprune [OF this, of "\<lambda>m. m = []" c] show ?thesis
    by (simp add: nprune_dprune inner_def dget_map_values dprune_def split: option.split)
qed

lemma nget_nset: "nget (nset c r v d) c' r' = (if c' = c \<and> r' = r then Some v else nget d c' r')"
  by (simp add: nget_def inner_nset dget_dset)

lemma nget_ndel: "nget (ndel c r d) c' r' = (if c' = c \<and> r' = r then None else nget d c' r')"
  by (simp add: nget_def inner_ndel dget_ddel)

lemma nget_nprune:
  "wf_nested d \<Longrightarrow>
     nget (nprune p d) c r = (case nget d c r of None \<Rightarrow> None | Some v \<Rightarrow> if p v then None else Some v)"
  by (simp add: nget_def wf_nested_def inner_nprune dget_dprune)

lemma wf_nset: "wf_nested d \<Longrightarrow> wf_nested (nset c r v d)"
  by (simp add: wf_nested_def inner_nset wf_dset) (simp add: nset_def wf_dset)

lemma wf_ndel: "wf_nested d \<Longrightarrow> wf_nested (ndel c r d)"
  by (simp add: wf_nested_def inner_ndel wf_ddel)
    (auto simp: ndel_def wf_dset wf_ddel Let_def split: option.split)

lemma wf_nprune: "wf_nested d \<Longrightarrow> wf_nested (nprune p d)"
  by (simp add: wf_nested_def inner_nprune wf_dprune)
    (simp add: nprune_dprune wf_dprune comp_def case_prod_beta)

lemmas nested_simps = nget_nset nget_ndel nget_nprune wf_nset wf_ndel wf_nprune

section \<open>Running an action\<close>

lemma run_gets: "sbind (gets f) k s = k (f s) s"
  by (simp add: sbind_def gets_def)

lemma run_run_op: "sbind (run_op f) k s = k (fst (f s)) (snd (f s))"
  by (simp add: sbind_def run_op_def case_prod_beta)

lemma run_change: "sbind (change f) k s = k () (f s)"
  by (simp add: sbind_def change_def)

lemma run_ret: "sbind (ret x) k s = k x s" "ret x s = (Inr x, s)"
  by (simp_all add: sbind_def ret_def)

lemmas run_simps = run_gets run_run_op run_change run_ret

section \<open>Waiting responses as lists\<close>

fun envelopes :: "waiting option \<Rightarrow> object list" where
  "envelopes None = []"
| "envelopes (Some (Single e)) = [e]"
| "envelopes (Some (Several es)) = es"

definition waiting_of :: "exchange \<Rightarrow> string \<Rightarrow> object list" where
  "waiting_of s c = envelopes (dget (client_responses s) c)"

lemma has_response_iff:
  "has_client_response_for_request c r s \<longleftrightarrow> c \<noteq> [] \<and> r \<noteq> [] \<and> (\<exists>e \<in> set (waiting_of s c). names_request r e)"
  by (auto simp: has_client_response_for_request_def waiting_of_def list_ex_iff split: option.split waiting.split)

lemma waiting_of_store: "waiting_of (store_waiting c kept s) c' = (if c' = c then kept else waiting_of s c')"
  by (auto simp: waiting_of_def store_waiting_def dget_dset dget_ddel split: list.split)

lemma waiting_of_queue:
  "waiting_of (queue_client_response c e s) c' = (if c' = c then waiting_of s c @ [e] else waiting_of s c')"
  by (auto simp: waiting_of_def queue_client_response_def dget_dset split: option.split waiting.split)

text \<open>One response is kept alone; a list has at least two.\<close>

definition normal_waiting :: "(string, waiting) dict \<Rightarrow> bool" where
  "normal_waiting d \<longleftrightarrow> (\<forall>c es. dget d c = Some (Several es) \<longrightarrow> 2 \<le> length es)"

lemma normal_store: "normal_waiting (client_responses s) \<Longrightarrow> normal_waiting (client_responses (store_waiting c kept s))"
  by (auto simp: normal_waiting_def store_waiting_def dget_dset dget_ddel split: list.split if_splits)

lemma normal_queue:
  "normal_waiting (client_responses s) \<Longrightarrow> normal_waiting (client_responses (queue_client_response c e s))"
  by (auto simp: normal_waiting_def queue_client_response_def dget_dset split: option.splits waiting.splits if_splits)
    (metis Suc_leD numeral_2_eq_2)

section \<open>The laws\<close>

text \<open>The fields the invariant speaks of; every other change leaves them alone.\<close>

definition same_core :: "exchange \<Rightarrow> exchange \<Rightarrow> bool" where
  "same_core s t \<longleftrightarrow>
     client_responses t = client_responses s
     \<and> client_pending_request_ids t = client_pending_request_ids s
     \<and> client_pending_request_deadlines t = client_pending_request_deadlines s
     \<and> client_terminal_request_ids t = client_terminal_request_ids s"

lemma same_core_refl [simp]: "same_core s s"
  by (simp add: same_core_def)

lemma same_core_trans: "same_core s t \<Longrightarrow> same_core t u \<Longrightarrow> same_core s u"
  by (simp add: same_core_def)

definition closes :: "ambient \<Rightarrow> terminal_entry \<Rightarrow> bool" where
  "closes am t \<longleftrightarrow>
     te_status t \<in> set ALLOWED_API_V1_TERMINAL_STATUSES
     \<and> te_reason t \<in> insert (te_status t) (set ALLOWED_API_V1_TERMINAL_REASONS)
     \<and> te_expires_at t = terminal_expiry am"

text \<open>Changes elsewhere.\<close>

lemma core_relay [simp]: "same_core s (s\<lparr>xc_relay := rl\<rparr>)"
  by (simp add: same_core_def)

lemma core_servers [simp]: "same_core s (set_servers d s)"
  by (simp add: set_servers_def)

lemma core_queues [simp]: "same_core s (set_queues d s)"
  by (simp add: set_queues_def)

lemma core_fields [simp]: "same_core s (set_fields key f s)"
  by (simp add: set_fields_def split: option.split)

lemma core_in_flight [simp]: "same_core s (set_in_flight key m s)"
  by (simp add: set_in_flight_def)

lemma core_removed [simp]: "same_core s (snd (remove_request_from_server_queues c r s))"
  by (simp add: remove_request_from_server_queues_def)

lemma core_progress [simp]: "same_core s (snd (pop_client_progress c r s))" "same_core s (snd (clear_client_progress c r s))"
  by (simp_all add: clear_client_progress_def pop_client_progress_def same_core_def)

lemma core_once [simp]: "same_core s (snd (record_request_terminal_outcome_once am c r outcome s))"
  by (simp add: record_request_terminal_outcome_once_def record_terminal_outcome_def same_core_def Let_def)

lemma core_outcome [simp]: "same_core s (snd (has_request_terminal_outcome am c r s))"
  by (simp add: has_request_terminal_outcome_def same_core_def split: option.split)

lemma core_tombstones [simp]: "same_core s (prune_api_v1_control_tombstones am s)"
  by (simp add: prune_api_v1_control_tombstones_def same_core_def)

lemma core_tombstone [simp]: "same_core s (add_api_v1_control_tombstone am server r c status reason deadline digest s)"
  by (simp add: add_api_v1_control_tombstone_def prune_api_v1_control_tombstones_def same_core_def Let_def)

lemma core_on_node: "same_core (snd ks) (snd (cancel_on_node am c r status reason completed key ks))"
proof (cases ks)
  case (Pair k s)
  then show ?thesis
    by (simp add: cancel_on_node_def Let_def split: option.split json.split)
      (blast intro: same_core_trans [OF core_in_flight core_tombstone])
qed

lemma core_cancel_in_flight [simp]: "same_core s (snd (cancel_in_flight am c r status reason completed s))"
proof -
  have "same_core (snd ks) (snd (fold (cancel_on_node am c r status reason completed) keys ks))" for keys ks
  proof (induction keys arbitrary: ks)
    case (Cons key keys)
    show ?case using same_core_trans [OF core_on_node Cons.IH] by simp
  qed simp
  from this [of "(0, s)"] show ?thesis by (simp add: cancel_in_flight_def)
qed

lemma core_take [simp]: "same_core s (snd (take_in_flight c r items s))"
  by (induction c r items s rule: take_in_flight.induct) simp_all

lemma core_close_session: "same_core s (close_session i s)"
  by (simp add: close_session_def same_core_def Let_def split: option.split)

lemma core_sessions [simp]: "same_core s (close_sessions_of server s)"
proof -
  have "same_core s (fold close_session is s)" for "is" s
    by (induction "is" arbitrary: s) (auto intro: same_core_trans [OF core_close_session])
  then show ?thesis by (simp add: close_sessions_of_def)
qed

lemma core_response: "same_core s t \<Longrightarrow> has_client_response_for_request c r t = has_client_response_for_request c r s"
  by (simp add: has_response_iff waiting_of_def same_core_def)

lemma core_terminals: "same_core s t \<Longrightarrow> client_terminal_request_ids t = client_terminal_request_ids s"
  by (simp add: same_core_def)

locale exchange_laws = step_order I R
  for I :: "exchange \<Rightarrow> bool" and R :: "exchange \<Rightarrow> exchange \<Rightarrow> bool" +
  fixes am :: ambient
  assumes frame_law: "I s \<Longrightarrow> same_core s t \<Longrightarrow> I t \<and> R s t"
    and prune_law: "I s \<Longrightarrow> I (prune_terminal_requests am s) \<and> R s (prune_terminal_requests am s)"
    and forget_law: "I s \<Longrightarrow> nget (client_terminal_request_ids s) c r = Some e
        \<Longrightarrow> f_le (te_expires_at e) (FNum (now_time am))
        \<Longrightarrow> s' = s\<lparr>client_terminal_request_ids := ndel c r (client_terminal_request_ids s)\<rparr> \<Longrightarrow> I s' \<and> R s s'"
    and close_law: "I s \<Longrightarrow> \<not> has_client_response_for_request c r s
        \<Longrightarrow> nget (client_terminal_request_ids s) c r = None \<Longrightarrow> c \<noteq> [] \<Longrightarrow> r \<noteq> [] \<Longrightarrow> closes am e
        \<Longrightarrow> s' = s\<lparr>client_terminal_request_ids := nset c r e (client_terminal_request_ids s)\<rparr> \<Longrightarrow> I s' \<and> R s s'"
    and settle_law: "I s \<Longrightarrow> I (snd (clear_pending_request c r s)) \<and> R s (snd (clear_pending_request c r s))"
    and pend_law: "I s \<Longrightarrow> I (mark_request_pending am c r token deadline s) \<and> R s (mark_request_pending am c r token deadline s)"
    and responses_law: "I s \<Longrightarrow> s' = s\<lparr>client_responses := d\<rparr>
        \<Longrightarrow> (normal_waiting (client_responses s) \<Longrightarrow> normal_waiting d)
        \<Longrightarrow> (\<And>c r. has_client_response_for_request c r s'
              \<Longrightarrow> has_client_response_for_request c r s \<or> nget (client_terminal_request_ids s) c r = None)
        \<Longrightarrow> I s' \<and> R s s'"
begin

lemma advances_run:
  assumes "\<And>s. I s \<Longrightarrow> I (snd (f s)) \<and> R s (snd (f s))"
  shows "advances I R (run_op f)"
  using assms by (intro advancesI) (simp add: run_op_def case_prod_beta)

lemma advances_change:
  assumes "\<And>s. I s \<Longrightarrow> I (f s) \<and> R s (f s)"
  shows "advances I R (change f)"
  using assms by (intro advancesI) (simp add: change_def)

lemma advances_scheduled: "advances I R (scheduled x)"
  unfolding scheduled_def by (rule advances_lift)

lemma advances_encoded: "advances I R (encoded x)"
  unfolding encoded_def by (rule advances_lift)

lemma chain: "I s \<Longrightarrow> I t \<and> R s t \<Longrightarrow> (I t \<Longrightarrow> I u \<and> R t u) \<Longrightarrow> I u \<and> R s u"
  using R_trans by blast

lemma fold_law:
  assumes "\<And>x s. I s \<Longrightarrow> I (f x s) \<and> R s (f x s)"
  shows "I s \<Longrightarrow> I (fold f xs s) \<and> R s (fold f xs s)"
proof (induction xs arbitrary: s)
  case (Cons x xs)
  have "I (f x s) \<and> R s (f x s)" using assms [OF Cons.prems] .
  from chain [OF Cons.prems this Cons.IH] show ?case by simp
qed (simp add: R_refl)

subsection \<open>Terminal requests and cancellation\<close>

lemma get_terminal_law:
  "I s \<Longrightarrow> I (snd (get_terminal_request am c r s)) \<and> R s (snd (get_terminal_request am c r s))"
  using forget_law by (auto simp: get_terminal_request_def R_refl split: option.split)

lemma sanitized_closes:
  "closes am \<lparr>te_status = sanitize_terminal_status v, te_reason = sanitize_terminal_reason w (sanitize_terminal_status v),
     te_expires_at = terminal_expiry am\<rparr>"
  by (auto simp: closes_def sanitize_terminal_status_def sanitize_terminal_reason_def ALLOWED_API_V1_TERMINAL_STATUSES_def
      split: json.split)

lemma mark_terminal_law:
  assumes I: "I s" and "\<not> has_client_response_for_request c r s"
  shows "I (snd (mark_request_terminal am c r status reason s)) \<and> R s (snd (mark_request_terminal am c r status reason s))"
proof (cases "c = [] \<or> r = [] \<or> nget (client_terminal_request_ids (prune_terminal_requests am s)) c r \<noteq> None")
  case True
  with prune_law [OF I] I show ?thesis by (auto simp: mark_request_terminal_def Let_def R_refl)
next
  case False
  define p where "p = prune_terminal_requests am s"
  define st where "st = sanitize_terminal_status (JStr status)"
  define e where "e = \<lparr>te_status = st, te_reason = sanitize_terminal_reason (JStr reason) st, te_expires_at = terminal_expiry am\<rparr>"
  define m where "m = p\<lparr>client_terminal_request_ids := nset c r e (client_terminal_request_ids p)\<rparr>"
  have ip: "I p \<and> R s p" using prune_law [OF I] by (simp add: p_def)
  have "\<not> has_client_response_for_request c r p"
    using assms(2) by (simp add: p_def has_response_iff waiting_of_def prune_terminal_requests_def Let_def)
  with False ip sanitized_closes have im: "I m \<and> R p m"
    by (intro close_law [OF _ _ _ _ _ _ m_def]) (auto simp: p_def e_def st_def)
  have "snd (mark_request_terminal am c r status reason s)
      = snd (record_request_terminal_outcome_once am c r (terminal_outcome_from_status_reason st (te_reason e)) m)"
    using False by (simp add: mark_request_terminal_def Let_def p_def st_def e_def m_def)
  with chain [OF I ip] chain [of p m] im frame_law show ?thesis by (metis core_once ip)
qed

lemma cancel_law:
  assumes I: "I s"
  shows "I (snd (cancel_api_v1_request am c r status reason s)) \<and> R s (snd (cancel_api_v1_request am c r status reason s))"
proof (cases "c = [] \<or> r = []")
  case True
  with I show ?thesis by (auto simp: cancel_api_v1_request_def R_refl)
next
  case False
  define st where "st = sanitize_terminal_status (JStr status)"
  define re where "re = sanitize_terminal_reason (JStr reason) st"
  define s1 where "s1 = snd (clear_client_progress c r s)"
  define won where "won = has_client_response_for_request c r s1"
  define s2 where "s2 = snd (remove_request_from_server_queues c r s1)"
  define s3 where "s3 = snd (clear_pending_request c r s2)"
  define s4 where "s4 = snd (cancel_in_flight am c r st re won s3)"
  have i1: "I s1 \<and> R s s1" using frame_law [OF I] by (simp add: s1_def)
  then have i2: "I s2 \<and> R s s2" using chain [OF I i1] frame_law by (simp add: s2_def)
  then have i3: "I s3 \<and> R s s3" using chain [OF I i2] settle_law by (simp add: s3_def)
  then have i4: "I s4 \<and> R s s4" using chain [OF I i3] frame_law by (simp add: s4_def)
  have "snd (cancel_api_v1_request am c r status reason s) =
      (if (0 < fst (remove_request_from_server_queues c r s1) \<or> fst (clear_pending_request c r s2)
           \<or> 0 < fst (cancel_in_flight am c r st re won s3)) \<and> \<not> won \<and> \<not> has_client_response_for_request c r s4
       then snd (mark_request_terminal am c r st re s4) else s4)"
    using False unfolding cancel_api_v1_request_def Let_def case_prod_beta st_def re_def s1_def won_def s2_def s3_def s4_def
    by (simp only: simp_thms if_False snd_conv de_Morgan_disj)
  then show ?thesis using i4 chain [OF I i4 mark_terminal_law] by auto
qed

lemma expire_pending_law:
  "I s \<Longrightarrow> I (snd (expire_pending_request_if_stale am c r s)) \<and> R s (snd (expire_pending_request_if_stale am c r s))"
  using cancel_law by (simp add: expire_pending_request_if_stale_def R_refl Let_def)

lemma is_pending_law:
  "I s \<Longrightarrow> I (snd (is_request_pending am c r s)) \<and> R s (snd (is_request_pending am c r s))"
  using expire_pending_law by (simp add: is_request_pending_def R_refl split: option.split)

lemma expire_stale_law:
  "I s \<Longrightarrow> I (expire_stale_pending_requests am s) \<and> R s (expire_stale_pending_requests am s)"
  unfolding expire_stale_pending_requests_def
  using cancel_law by (intro fold_law) (simp_all add: expire_unanswered_def R_refl split: prod.split)

subsection \<open>Waiting responses\<close>

lemma fewer_law:
  assumes "I s" and "set kept \<subseteq> set (waiting_of s c)"
  shows "I (store_waiting c kept s) \<and> R s (store_waiting c kept s)"
proof (rule responses_law [OF assms(1)])
  show "store_waiting c kept s = s\<lparr>client_responses := client_responses (store_waiting c kept s)\<rparr>"
    by (simp add: store_waiting_def)
  show "normal_waiting (client_responses (store_waiting c kept s))" if "normal_waiting (client_responses s)"
    using that by (rule normal_store)
  show "has_client_response_for_request c' r s \<or> nget (client_terminal_request_ids s) c' r = None"
    if "has_client_response_for_request c' r (store_waiting c kept s)" for c' r
    using that assms(2) by (auto simp: has_response_iff waiting_of_store split: if_splits)
qed

lemma pop_response_law:
  assumes I: "I s"
  shows "I (snd (pop_client_response c r s)) \<and> R s (snd (pop_client_response c r s))"
proof -
  have taken: "I (snd (clear_pending_request c q (store_waiting c kept s)))
      \<and> R s (snd (clear_pending_request c q (store_waiting c kept s)))" if "set kept \<subseteq> set (waiting_of s c)" for q kept
    using chain [OF I fewer_law [OF I that] settle_law] .
  show ?thesis
  proof (cases "dget (client_responses s) c")
    case None
    with I show ?thesis by (simp add: pop_client_response_def R_refl)
  next
    case (Some w)
    then show ?thesis
    proof (cases w)
      case (Single e)
      with Some I taken [of "[]"] show ?thesis by (simp add: pop_client_response_def R_refl)
    next
      case (Several es)
      show ?thesis
      proof (cases "List.extract (\<lambda>e. r = [] \<or> names_request r e) es")
        case None
        with Some Several I show ?thesis by (simp add: pop_client_response_def R_refl)
      next
        case (Some x)
        obtain front e rest where x: "x = (front, e, rest)" by (cases x)
        have "es = front @ e # rest" using extract_SomeE [OF Some [unfolded x]] by blast
        then have "set (front @ rest) \<subseteq> set (waiting_of s c)"
          using \<open>dget (client_responses s) c = Some w\<close> Several by (auto simp: waiting_of_def)
        with taken show ?thesis
          using Some x \<open>dget (client_responses s) c = Some w\<close> Several by (simp add: pop_client_response_def)
      qed
    qed
  qed
qed

lemma remove_responses_law:
  assumes I: "I s"
  shows "I (snd (remove_client_responses_for_request c r s)) \<and> R s (snd (remove_client_responses_for_request c r s))"
proof -
  have "set (filter (\<lambda>e. \<not> names_request r e) es) \<subseteq> set (waiting_of s c)" if "dget (client_responses s) c = Some (Several es)" for es
    using that by (auto simp: waiting_of_def)
  with I fewer_law [OF I] show ?thesis
    by (auto simp: remove_client_responses_for_request_def R_refl split: option.split waiting.split)
qed

lemma queue_law:
  assumes "I s" and "\<And>r. r \<noteq> [] \<Longrightarrow> names_request r e \<Longrightarrow> nget (client_terminal_request_ids s) c r = None"
  shows "I (queue_client_response c e s) \<and> R s (queue_client_response c e s)"
proof (rule responses_law [OF assms(1)])
  show "queue_client_response c e s = s\<lparr>client_responses := client_responses (queue_client_response c e s)\<rparr>"
    by (simp add: queue_client_response_def)
  show "normal_waiting (client_responses (queue_client_response c e s))" if "normal_waiting (client_responses s)"
    using that by (rule normal_queue)
  show "has_client_response_for_request c' r s \<or> nget (client_terminal_request_ids s) c' r = None"
    if "has_client_response_for_request c' r (queue_client_response c e s)" for c' r
    using that assms(2) by (auto simp: has_response_iff waiting_of_queue split: if_splits)
qed

end

end
