(* ===== verification/Relay_Steps.thy ===== *)
theory Relay_Steps
  imports Relay_Laws
begin

text \<open>
  Every handler of the relay keeps what the elementary changes keep.
\<close>

section \<open>Further changes elsewhere\<close>

lemma core_evictions: "same_core s t \<Longrightarrow> same_core s (t\<lparr>evictions_total := d\<rparr>)"
  by (simp add: same_core_def)

lemma core_enqueue [simp]: "same_core s (enqueue_envelope server e s)"
  by (simp add: enqueue_envelope_def)

lemma core_tidy [simp]: "same_core s (drop_in_flight key r s)" "same_core s (tidy_in_flight key s)"
    "same_core s (forget_legacy_lease key s)"
  by (simp_all add: drop_in_flight_def tidy_in_flight_def forget_legacy_lease_def)

lemma core_lease [simp]: "same_core s (renew_lease am key caps s)"
  by (simp add: renew_lease_def Let_def split: option.split)

lemma core_renew [simp]: "same_core s (renew_in_flight am key r lease deadline s)"
  by (simp add: renew_in_flight_def Let_def split: option.split json.split)

lemma core_ping [simp]: "same_core s (ping_node am key s)"
  by (simp add: ping_node_def split: option.split)

lemma core_pop_next [simp]: "same_core s (snd (pop_next key s))"
  by (simp add: pop_next_def case_prod_beta Let_def)

lemma core_unregistered [simp]: "same_core s (snd (api_v1_server_was_recently_unregistered am key s))"
    "same_core s (record_api_v1_server_unregistered am key s)"
  by (simp_all add: api_v1_server_was_recently_unregistered_def record_api_v1_server_unregistered_def same_core_def Let_def)

lemma core_streams [simp]: "same_core s (snd (append_stream_chunk am i chunk final s))"
    "same_core s (snd (pop_stream_chunks_for_client am c s))"
    "same_core s (snd (register_stream_session am fresh key c s))"
  by (simp_all add: append_stream_chunk_def pop_stream_chunks_for_client_def register_stream_session_def same_core_def
      Let_def split: option.split list.split)

lemma core_batch: "same_core s (snd (snd (take_batch am fresh key k q batch s)))"
proof (induction am fresh key k q batch s rule: take_batch.induct)
  case (2 am fresh key k q rest batch s)
  have "same_core s t" if "register_stream_session am (fresh (length batch)) key (client_key q) s = (x, t)" for x t
    using core_streams(3) [of s am "fresh (length batch)" key "client_key q"] that by simp
  with 2 show ?case
    by (auto split: prod.split option.split intro: same_core_trans)
qed simp

lemma core_collect [simp]: "same_core s (snd (collect_batch am fresh key k s))"
proof (cases "queue_of (xc_relay s) key")
  case (Cons q rest)
  with core_batch [of s am fresh key k "q # rest" "[]"] show ?thesis
    by (auto simp: collect_batch_def case_prod_beta Let_def intro: same_core_trans [OF _ core_queues])
qed (simp add: collect_batch_def)

section \<open>The handlers\<close>

context exchange_laws
begin

lemma advances_gets: "advances I R (gets f)"
  unfolding gets_def by (rule advances_read)

lemma advances_frame: "(\<And>s. same_core s (f s)) \<Longrightarrow> advances I R (change f)"
  using frame_law by (intro advances_change) blast

lemma advances_frame_op: "(\<And>s. same_core s (snd (f s))) \<Longrightarrow> advances I R (run_op f)"
  using frame_law by (intro advances_run) blast

lemma advances_keys: "advances I R (text_key v)" "advances I R (optional_key v)" "advances I R (compare_digest a b)"
    "advances I R (normalised_capabilities v)" "advances I R (int_of_json v)"
  by (auto simp: text_key_def optional_key_def compare_digest_def normalised_capabilities_def int_of_json_def
      intro: advances_lift advances_ret)

lemmas step_rules = advances_ret advances_lift advances_sbind advances_scheduled advances_encoded advances_gets
  advances_keys

lemma advances_cancel: "advances I R (run_op (cancel_api_v1_request am c r status reason))"
  using cancel_law by (rule advances_run)

lemma advances_terminal: "advances I R (run_op (get_terminal_request am c r))"
  using get_terminal_law by (rule advances_run)

lemma advances_expire_pending: "advances I R (run_op (expire_pending_request_if_stale am c r))"
  using expire_pending_law by (rule advances_run)

subsection \<open>Eviction\<close>

lemma cancel_dropped_law: "I s \<Longrightarrow> I (cancel_dropped am item s) \<and> R s (cancel_dropped am item s)"
  using cancel_law by (simp add: cancel_dropped_def R_refl)

lemma cancel_orphan_law: "I s \<Longrightarrow> I (cancel_orphan am server digest entry s) \<and> R s (cancel_orphan am server digest entry s)"
proof -
  assume I: "I s"
  have "I (snd (cancel_api_v1_request am c r st re (add_api_v1_control_tombstone am server r v st re d digest s)))
      \<and> R s (snd (cancel_api_v1_request am c r st re (add_api_v1_control_tombstone am server r v st re d digest s)))" for c r v st re d
    using chain [OF I frame_law [OF I core_tombstone] cancel_law] .
  with I show ?thesis
    by (simp add: cancel_orphan_def R_refl Let_def split: prod.split json.split)
qed

lemma drop_node_law: "I s \<Longrightarrow> I (snd (drop_node am server reason payload s)) \<and> R s (snd (drop_node am server reason payload s))"
proof -
  assume I: "I s"
  define rl where "rl = snd (remove_known_server server (xc_relay s))"
  define removed where "removed = fst (remove_known_server server (xc_relay s))"
  define s2 where "s2 = (if removed then set_queues (ddel server (queues (s\<lparr>xc_relay := rl\<rparr>)))
      (record_api_v1_server_unregistered am server (s\<lparr>xc_relay := rl\<rparr>)) else s\<lparr>xc_relay := rl\<rparr>)"
  define s3 where "s3 = fold (cancel_dropped am) (if removed then queue_of rl server else []) s2"
  define s4 where "s4 = (case payload of None \<Rightarrow> s3
      | Some n \<Rightarrow> fold (cancel_orphan am server (jget (nd_fields n) DIGEST_KEY)) (in_flight_of n) s3)"
  have "same_core s s2"
    by (simp add: s2_def same_core_def set_queues_def record_api_v1_server_unregistered_def)
  then have i2: "I s2 \<and> R s s2" by (rule frame_law [OF I])
  then have i3: "I s3 \<and> R s s3" using chain [OF I i2 fold_law [of "cancel_dropped am", OF cancel_dropped_law]] by (simp add: s3_def)
  have i4: "I s4 \<and> R s s4"
    using i3 chain [OF I i3 fold_law [of "cancel_orphan am server d" for d, OF cancel_orphan_law]] by (simp add: s4_def split: option.split)
  have core: "same_core s4 (snd (drop_node am server reason payload s))"
    unfolding drop_node_def Let_def case_prod_beta rl_def [symmetric] removed_def [symmetric] s2_def [symmetric]
      s3_def [symmetric] s4_def [symmetric]
    by (simp add: core_evictions)
  show ?thesis using chain [OF I i4 frame_law [OF _ core]] by blast
qed

lemma advances_unregister: "advances I R (unregister_server am server reason cutoff credential)"
  unfolding unregister_server_def
  by (auto split: option.split intro!: step_rules advances_run drop_node_law)

lemma advances_prune_entries: "advances I R (prune_entries am key entries acc)"
proof (induction am key entries acc rule: prune_entries.induct)
  case (2 am' key r entry rest targets removed)
  then show ?case
    by (auto split: option.split json.split list.split char.split intro!: step_rules advances_frame)
qed (auto intro: step_rules)

lemma expire_target_law: "I s \<Longrightarrow> I (expire_target am cr s) \<and> R s (expire_target am cr s)"
  using cancel_law by (simp add: expire_target_def split: prod.split)

lemma advances_targets: "advances I R (change (fold (expire_target am) targets))"
  by (intro advances_change fold_law [of "expire_target am"] expire_target_law)

lemma advances_prune_in_flight: "advances I R (prune_api_v1_stale_in_flight_entries am key)"
  unfolding prune_api_v1_stale_in_flight_entries_def
  by (auto split: option.split json.split prod.split
      intro!: step_rules advances_prune_entries advances_targets advances_frame)

lemma advances_prune_each: "advances I R (prune_each am keys)"
  by (induction keys) (auto intro: step_rules advances_prune_in_flight)

lemma advances_candidates: "advances I R (stale_candidates am items)"
proof (induction am items rule: stale_candidates.induct)
  case (2 am' key n rest)
  then show ?case by (auto intro!: step_rules advances_frame)
qed (auto intro: step_rules)

lemma advances_evict_each: "advances I R (evict_each am keys)"
  by (induction keys) (auto intro!: step_rules advances_unregister)

lemma advances_evict: "advances I R (evict_stale_servers am)"
  unfolding evict_stale_servers_def
  by (intro step_rules advances_change prune_law expire_stale_law advances_frame core_tombstones advances_prune_each
      advances_candidates advances_evict_each)

subsection \<open>Requests\<close>

lemma advances_match_token: "advances I R (match_token candidate tokens matched)"
  by (induction tokens arbitrary: matched) (auto intro: step_rules)

lemma advances_authorised: "advances I R handler \<Longrightarrow> advances I R (authorised am provided handler)"
  unfolding authorised_def validate_server_registration_def Let_def
  by (auto split: option.split intro!: step_rules advances_match_token)

lemma advances_pend: "advances I R (change (mark_request_pending am c r token deadline))"
  by (intro advances_change pend_law)

lemma advances_requests: "advances I R (api_v1_relay_requests am data)"
  unfolding api_v1_relay_requests_def accept_request_def Let_def
  by (auto split: sum.split intro!: step_rules advances_evict advances_pend advances_frame)

lemma advances_cancel_handler: "advances I R (api_v1_relay_requests_cancel am data)"
  unfolding api_v1_relay_requests_cancel_def Let_def
  by (auto split: json.split option.split intro!: step_rules advances_cancel)

subsection \<open>Responses\<close>

lemma unless_terminal_law:
  assumes "\<And>s. I s \<Longrightarrow> nget (client_terminal_request_ids s) c r = None \<Longrightarrow> c \<noteq> [] \<Longrightarrow> r \<noteq> []
      \<Longrightarrow> I (snd (handler s)) \<and> R s (snd (handler s))"
    and "c \<noteq> []" "r \<noteq> []"
  shows "advances I R (unless_terminal am c r handler)"
proof (rule advancesI)
  fix s assume I: "I s"
  obtain x t where g: "get_terminal_request am c r s = (x, t)" by (cases "get_terminal_request am c r s")
  with get_terminal_law [OF I, of c r] have t: "I t \<and> R s t" by simp
  have "nget (client_terminal_request_ids t) c r = None" if "x = None"
    using g that assms(2,3) by (auto simp: get_terminal_request_def nested_simps split: option.splits if_splits)
  with chain [OF I t assms(1)] assms(2,3) t
  show "I (snd (unless_terminal am c r handler s)) \<and> R s (snd (unless_terminal am c r handler s))"
    by (cases x) (simp_all add: unless_terminal_def sbind_def run_op_def g ret_def)
qed

lemma advances_unless_terminal:
  assumes "advances I R handler" "c \<noteq> []" "r \<noteq> []"
  shows "advances I R (unless_terminal am c r handler)"
  using assms(2,3) by (intro unless_terminal_law advancesD [OF assms(1)])

lemma advances_take_ownership: "advances I R (run_op (take_ownership c r))"
proof (rule advances_run)
  fix s assume I: "I s"
  define s1 where "s1 = snd (take_in_flight c r (servers s) s)"
  define s2 where "s2 = snd (remove_request_from_server_queues c r s1)"
  have "I s2 \<and> R s s2"
    using frame_law [OF I] same_core_trans [OF core_take core_removed] by (simp add: s1_def s2_def)
  from chain [OF I this settle_law]
  show "I (snd (take_ownership c r s)) \<and> R s (snd (take_ownership c r s))"
    by (simp add: take_ownership_def case_prod_beta Let_def s1_def s2_def)
qed

lemma complete_law:
  assumes I: "I s" and none: "nget (client_terminal_request_ids s) c r = None" and e: "names_request r e"
  shows "I (snd (complete_request am c r e s)) \<and> R s (snd (complete_request am c r e s))"
proof -
  define s1 where "s1 = snd (record_request_terminal_outcome_once am c r ''completed'' s)"
  define s2 where "s2 = snd (clear_client_progress c r s1)"
  have c2: "same_core s s2" using same_core_trans [OF core_once core_progress(2)] by (simp add: s1_def s2_def)
  have i1: "I s1 \<and> R s s1" using frame_law [OF I] by (simp add: s1_def)
  have i2: "I s2 \<and> R s s2" by (rule frame_law [OF I c2])
  have "names_request q e \<Longrightarrow> nget (client_terminal_request_ids s2) c q = None" for q
    using none e core_terminals [OF c2] by (simp add: names_request_def)
  then have i3: "I (queue_client_response c e s2) \<and> R s (queue_client_response c e s2)"
    using chain [OF I i2 queue_law] by blast
  show ?thesis
    using i3 chain [OF I i1 get_terminal_law]
    by (simp add: complete_request_def sbind_def run_op_def change_def ret_def s1_def s2_def case_prod_beta split: if_split)
qed

lemma finish_owned_law:
  assumes "c \<noteq> []" "r \<noteq> []" and e: "names_request r e"
  shows "advances I R (unless_terminal am c r (finish_owned am c r e owned))"
proof (cases owned)
  case True
  then show ?thesis using complete_law e assms by (intro unless_terminal_law) (simp_all add: finish_owned_def)
next
  case False
  have "advances I R (finish_owned am c r e owned)"
    using False by (auto simp: finish_owned_def intro!: step_rules advances_frame_op)
  then show ?thesis using assms by (simp add: advances_unless_terminal)
qed

lemma accept_response_law:
  assumes keys: "c \<noteq> []" "r \<noteq> []" and e: "names_request r e"
  shows "advances I R (accept_response am c r e)"
proof -
  have "advances I R (sbind (run_op (take_ownership c r)) (\<lambda>owned. unless_terminal am c r (finish_owned am c r e owned)))"
    by (rule advances_sbind [OF advances_take_ownership finish_owned_law [OF assms]])
  then have "advances I R (accept_unanswered am c r e)"
    unfolding accept_unanswered_def by (intro advances_sbind [OF advances_expire_pending] advances_unless_terminal keys)
  then show ?thesis
    unfolding accept_response_def by (auto intro!: advances_unless_terminal keys step_rules)
qed

lemma advances_responses: "advances I R (api_v1_relay_responses am provided data)"
proof -
  have named: "\<And>r. r \<noteq> [] \<Longrightarrow> \<not> names_request r e"
    if "\<And>x xs. jget e ''request_id'' \<noteq> JStr (x # xs)" for e
    using that by (auto simp: names_request_def neq_Nil_conv)
  have plain: "advances I R (sbind (change (queue_client_response c e)) (\<lambda>_. ret x))"
    if "\<And>r. r \<noteq> [] \<Longrightarrow> \<not> names_request r e" for c e and x :: reply
    using that by (intro step_rules advances_change queue_law) auto
  have body: "advances I R (case jget e ''request_id'' of
        JStr (x # xs) \<Rightarrow> accept_response am c (x # xs) e
      | _ \<Rightarrow> sbind (change (queue_client_response c e)) (\<lambda>_.
               ret (message_reply 200 ''Response received and queued for client'' [])))" if "c \<noteq> []" for c e
  proof (cases "\<exists>x xs. jget e ''request_id'' = JStr (x # xs)")
    case True
    then show ?thesis using accept_response_law [OF that] by (auto simp: names_request_def)
  next
    case False
    then have "\<And>r. r \<noteq> [] \<Longrightarrow> \<not> names_request r e" by (intro named) auto
    from plain [OF this] False show ?thesis by (auto split: json.split list.split)
  qed
  have keyed: "advances I R (sbind (text_key (jget e ''client_public_key'')) f)"
    if "jtruthy (jget e ''client_public_key'')" "\<And>c. c \<noteq> [] \<Longrightarrow> advances I R (f c)" for e and f :: "string \<Rightarrow> reply act"
  proof (cases "jget e ''client_public_key''")
    case (JStr t)
    with that show ?thesis by (simp add: text_key_def)
  qed (simp_all add: text_key_def advances_lift)
  show ?thesis unfolding api_v1_relay_responses_def
    by (intro advances_authorised) (auto split: sum.split intro!: step_rules(1) keyed body)
qed

subsection \<open>Progress and retrieval\<close>

lemma advances_progress: "advances I R (api_v1_relay_progress am provided data)"
proof -
  have "advances I R (store_progress am d)" for d
    unfolding store_progress_def Let_def
    by (auto split: option.split intro!: step_rules advances_frame simp: same_core_def)
  then show ?thesis
    unfolding api_v1_relay_progress_def
    by (intro advances_authorised) (auto split: option.split json.split intro!: step_rules)
qed

lemma advances_unless_closed:
  "advances I R (change tidy) \<Longrightarrow> advances I R handler \<Longrightarrow> advances I R (unless_closed am c r tidy handler)"
  unfolding unless_closed_def by (auto split: option.split intro!: step_rules advances_terminal)

lemma advances_id: "advances I R (change id)"
  by (intro advances_frame) simp

lemma advances_answer_pending: "advances I R (answer_pending am c r)"
  unfolding answer_pending_def
  by (auto intro!: step_rules advances_run is_pending_law frame_law advances_unless_closed advances_id)

lemma advances_retrieve: "advances I R (api_v1_relay_responses_retrieve am data)"
proof -
  have tidy: "advances I R (change (\<lambda>s. snd (remove_client_responses_for_request c r s)))" for c r
    by (intro advances_change remove_responses_law)
  have pop: "advances I R (run_op (pop_client_response c r))" for c r
    by (intro advances_run pop_response_law)
  have "advances I R (retrieve_response am c r)" for c r
    unfolding retrieve_response_def
    by (auto split: option.split intro!: step_rules advances_unless_closed tidy pop advances_expire_pending advances_id
        advances_answer_pending)
  then show ?thesis
    unfolding api_v1_relay_responses_retrieve_def by (auto split: json.split intro!: step_rules)
qed

subsection \<open>Nodes\<close>

lemma advances_register: "advances I R (api_v1_relay_servers_register am provided fresh data)"
proof -
  have "advances I R (issue_credential am fresh key)" for key
    unfolding issue_credential_def by (auto split: option.split prod.split intro!: step_rules advances_frame)
  moreover have "advances I R (change (\<lambda>s. set_fields key f (s\<lparr>xc_relay := g s\<rparr>)))" for key f g
    by (intro advances_frame same_core_trans [OF core_relay core_fields])
  ultimately have "advances I R (register_node am fresh key caps)" for key caps
    unfolding register_node_def Let_def by (auto intro!: step_rules)
  then show ?thesis
    unfolding api_v1_relay_servers_register_def
    by (intro advances_authorised) (auto split: json.split sum.split intro!: step_rules)
qed

lemma advances_unregister_handler: "advances I R (handle_server_unregister_request am provided old data)"
  unfolding handle_server_unregister_request_def Let_def
  by (intro advances_authorised) (auto split: json.split intro!: step_rules advances_unregister)

lemma advances_poll_open: "advances I R (poll_open am provided data)"
proof -
  have "advances I R (open_poll am key caps)" for key caps
    unfolding open_poll_def by (auto intro!: step_rules advances_frame)
  then show ?thesis
    unfolding poll_open_def validate_server_registration_def Let_def
    by (auto split: option.split json.split sum.split intro!: step_rules advances_match_token advances_evict)
qed

lemma advances_poll_round: "advances I R (poll_round am key)"
  unfolding poll_round_def
  by (auto split: option.split intro!: step_rules advances_cancel advances_frame_op)

lemma advances_close_claimed: "advances I R (close_claimed am key item)"
  unfolding close_claimed_def
  by (auto split: option.split intro!: step_rules advances_cancel advances_frame_op)

lemma advances_poll_close: "advances I R (poll_close am key item)"
proof -
  have "advances I R (start_request am key deadline q)" for deadline q
    unfolding start_request_def
    by (auto split: option.split intro!: step_rules advances_frame advances_close_claimed)
  then have "advances I R (dispatch_request am key q)" for q
    unfolding dispatch_request_def Let_def by (auto intro!: step_rules advances_cancel)
  then show ?thesis
    unfolding poll_close_def by (auto split: option.split intro!: step_rules advances_frame advances_close_claimed)
qed

lemma advances_next: "advances I R (select_next_server_payload am api_v1 chosen model tier)"
proof -
  have "advances I R (select_server am m t)" for m t
    using frame_law by (intro advancesI) (simp add: select_server_def case_prod_beta Let_def)
  then have "advances I R (select_api_v1 am model tier)"
    unfolding select_api_v1_def Let_def by (auto intro!: step_rules)
  then show ?thesis
    unfolding select_next_server_payload_def by (auto intro!: step_rules advances_evict advances_frame)
qed

lemma advances_control: "advances I R (api_v1_relay_servers_control am provided data)"
proof -
  have answer: "advances I R (control_tombstone_answer am key r credential ack)" for key r credential ack
    unfolding control_tombstone_answer_def completed_or_unavailable_def
    by (auto split: option.split intro!: step_rules advances_frame simp: same_core_def)
  have "advances I R (control_entry am key r e lease otherwise)" if "advances I R otherwise" for key r e lease otherwise
    unfolding control_entry_def using that
    by (auto split: option.split json.split list.split intro!: step_rules advances_cancel advances_terminal advances_frame)
  with answer have "advances I R (control_request am key r credential ack lease)" for key r credential ack lease
    unfolding control_request_def Let_def by (auto split: option.split json.split intro!: step_rules)
  then show ?thesis
    unfolding api_v1_relay_servers_control_def
    by (intro advances_authorised)
      (auto split: option.split json.split intro!: step_rules advances_evict advances_frame core_tombstones)
qed

subsection \<open>Older routes\<close>

lemma advances_legacy: "advances I R handler \<Longrightarrow> advances I R (legacy am route handler)"
  unfolding legacy_def by (auto intro: step_rules)

lemma advances_with_fields: "(\<And>d. advances I R (handler d)) \<Longrightarrow> advances I R (with_fields fs refused data handler)"
  unfolding with_fields_def by (auto split: json.split intro: step_rules)

lemma advances_next_server: "advances I R (next_server am chosen)"
  unfolding next_server_def by (intro advances_legacy advances_next)

lemma advances_faucet: "advances I R (faucet am data)"
  unfolding faucet_def
  by (intro advances_legacy)
    (auto intro!: step_rules advances_evict advances_with_fields advances_frame core_enqueue)

lemma advances_source: "advances I R (source am provided data)"
proof -
  have "advances I R (change (\<lambda>s. s\<lparr>client_responses := dset c
      (Single [(''chat_history'', x), (''cipherkey'', y), (''iv'', z)]) (client_responses s)\<rparr>))" for c x y z
  proof (rule advances_change, rule responses_law [OF _ refl])
    fix s c' r
    show "has_client_response_for_request c' r s \<or> nget (client_terminal_request_ids s) c' r = None"
      if "has_client_response_for_request c' r (s\<lparr>client_responses := dset c
        (Single [(''chat_history'', x), (''cipherkey'', y), (''iv'', z)]) (client_responses s)\<rparr>)"
      using that by (auto simp: has_response_iff waiting_of_def dget_dset names_request_def split: if_splits)
  qed (auto simp: normal_waiting_def dget_dset)
  then show ?thesis
    unfolding source_def
    by (intro advances_legacy advances_authorised advances_with_fields) (auto intro!: step_rules)
qed

lemma advances_old_retrieve: "advances I R (retrieve am data)"
proof -
  have "advances I R (change (store_waiting c []))" for c
    using fewer_law by (intro advances_change) simp
  then show ?thesis
    unfolding retrieve_def
    by (intro advances_legacy advances_with_fields) (auto split: option.split intro!: step_rules)
qed

lemma advances_sink: "advances I R (sink am provided fresh data)"
proof -
  have "advances I R (serve_sink am fresh key k)" for key k
    unfolding serve_sink_def by (auto intro!: step_rules advances_frame advances_frame_op)
  then show ?thesis
    unfolding sink_def
    by (intro advances_legacy) (auto split: json.split option.split intro!: step_rules advances_evict advances_authorised)
qed

lemma advances_streams: "advances I R (stream_source am provided data)" "advances I R (stream_retrieve am data)"
  unfolding stream_source_def stream_retrieve_def Let_def
  by (auto intro!: advances_authorised advances_with_fields step_rules advances_frame_op)

end

end
