(* ===== verification/Relay_Exchange.thy ===== *)
theory Relay_Exchange
  imports Relay_Steps
begin

text \<open>
  The relay process as one transition system over its handlers, the invariant of its lifecycle
  dictionaries, and what a closed request keeps.
\<close>

section \<open>The invariant\<close>

text \<open>
  A closed request has no waiting response; a pending deadline belongs to a pending request, and
  the deadline of a pending request is the one in the table of deadlines; a closed request has
  one of the documented states.
\<close>

definition valid_terminal :: "terminal_entry \<Rightarrow> bool" where
  "valid_terminal e \<longleftrightarrow>
     te_status e \<in> set ALLOWED_API_V1_TERMINAL_STATUSES
     \<and> te_reason e \<in> insert (te_status e) (set ALLOWED_API_V1_TERMINAL_REASONS)"

definition deadlines_tied :: "pending_entry nested \<Rightarrow> rat nested \<Rightarrow> bool" where
  "deadlines_tied p d \<longleftrightarrow>
     (\<forall>c r. nget d c r \<noteq> None \<longrightarrow> nget p c r \<noteq> None)
     \<and> (\<forall>c r e t. nget p c r = Some e \<longrightarrow> pe_request_deadline_monotonic e = Some t \<longrightarrow> nget d c r = Some t)"

definition exchange_ok :: "exchange \<Rightarrow> bool" where
  "exchange_ok s \<longleftrightarrow>
     wf_nested (client_terminal_request_ids s)
     \<and> normal_waiting (client_responses s)
     \<and> (\<forall>c r. has_client_response_for_request c r s \<longrightarrow> nget (client_terminal_request_ids s) c r = None)
     \<and> (\<forall>c r e. nget (client_terminal_request_ids s) c r = Some e \<longrightarrow> valid_terminal e)
     \<and> deadlines_tied (client_pending_request_ids s) (client_pending_request_deadlines s)"

text \<open>A closed request keeps its record until the retention time is over.\<close>

definition closed_kept :: "ambient \<Rightarrow> exchange \<Rightarrow> exchange \<Rightarrow> bool" where
  "closed_kept am s t \<longleftrightarrow>
     (\<forall>c r e. nget (client_terminal_request_ids s) c r = Some e \<longrightarrow>
        nget (client_terminal_request_ids t) c r = Some e \<or> f_le (te_expires_at e) (FNum (now_time am)))"

lemma response_cong:
  "client_responses t = client_responses s \<Longrightarrow> has_client_response_for_request c r t = has_client_response_for_request c r s"
  by (simp add: has_response_iff waiting_of_def)

lemma ok_core: "exchange_ok s \<Longrightarrow> same_core s t \<Longrightarrow> exchange_ok t"
  using response_cong [of t s] by (simp add: exchange_ok_def same_core_def)

lemma ok_terminals:
  assumes ok: "exchange_ok s" and t: "t = s\<lparr>client_terminal_request_ids := d\<rparr>" and wf: "wf_nested d"
    and new: "\<And>c r e. nget d c r = Some e \<Longrightarrow> nget (client_terminal_request_ids s) c r = Some e
        \<or> \<not> has_client_response_for_request c r s \<and> valid_terminal e"
  shows "exchange_ok t"
proof -
  have has: "has_client_response_for_request c r t = has_client_response_for_request c r s" for c r
    using t by (intro response_cong) simp
  have "nget d c r = None" if "has_client_response_for_request c r s" for c r
  proof (cases "nget d c r")
    case (Some e)
    with new [OF this] ok that show ?thesis by (simp add: exchange_ok_def)
  qed
  moreover have "valid_terminal e" if "nget d c r = Some e" for c r e
    using ok new [OF that] unfolding exchange_ok_def by blast
  ultimately show ?thesis using ok t wf unfolding exchange_ok_def has by simp
qed

lemma prune_keeps:
  assumes ok: "exchange_ok s"
  shows "exchange_ok (prune_terminal_requests am s) \<and> closed_kept am s (prune_terminal_requests am s)"
proof -
  define d where "d = nprune (\<lambda>e. f_le (te_expires_at e) (FNum (now_time am))) (client_terminal_request_ids s)"
  define u where "u = s\<lparr>client_terminal_request_ids := d\<rparr>"
  have wf: "wf_nested (client_terminal_request_ids s)" using ok by (simp add: exchange_ok_def)
  have d: "nget d c r = (case nget (client_terminal_request_ids s) c r of None \<Rightarrow> None
      | Some e \<Rightarrow> if f_le (te_expires_at e) (FNum (now_time am)) then None else Some e)" for c r
    unfolding d_def by (rule nget_nprune [OF wf])
  have "wf_nested d" unfolding d_def by (rule wf_nprune [OF wf])
  then have "exchange_ok u"
    by (rule ok_terminals [OF ok u_def]) (simp add: d split: option.splits if_splits)
  moreover have core: "same_core u (prune_terminal_requests am s)"
    by (simp add: same_core_def u_def d_def prune_terminal_requests_def Let_def)
  ultimately have "exchange_ok (prune_terminal_requests am s)" by (rule ok_core)
  moreover have "closed_kept am s (prune_terminal_requests am s)"
    using core_terminals [OF core] by (simp add: closed_kept_def u_def d)
  ultimately show ?thesis by simp
qed

lemma tied_clear:
  "deadlines_tied p d \<Longrightarrow> deadlines_tied (ndel c r p) (ndel c r d)"
  by (auto simp: deadlines_tied_def nget_ndel)

lemma tied_mark:
  "deadlines_tied p d \<Longrightarrow> pe_request_deadline_monotonic e = None \<Longrightarrow> deadlines_tied (nset c r e p) d"
  "deadlines_tied p d \<Longrightarrow> pe_request_deadline_monotonic e = Some t \<Longrightarrow> deadlines_tied (nset c r e p) (nset c r t d)"
  by (auto simp: deadlines_tied_def nget_nset)

lemma ok_pending:
  assumes "exchange_ok s" and "deadlines_tied p d"
    and "t = s\<lparr>client_pending_request_ids := p, client_pending_request_deadlines := d\<rparr>"
  shows "exchange_ok t \<and> closed_kept am s t"
  using assms response_cong [of t s] by (simp add: exchange_ok_def closed_kept_def)

interpretation relay: exchange_laws exchange_ok "closed_kept am" am for am
proof
  fix s assume ok: "exchange_ok s"
  show "exchange_ok t \<and> closed_kept am s t" if "same_core s t" for t
    using ok_core [OF ok that] core_terminals [OF that] by (simp add: closed_kept_def)
  show "exchange_ok (prune_terminal_requests am s) \<and> closed_kept am s (prune_terminal_requests am s)"
    using ok by (rule prune_keeps)
  have wf: "wf_nested (client_terminal_request_ids s)" using ok by (simp add: exchange_ok_def)
  show "exchange_ok s' \<and> closed_kept am s s'"
    if "nget (client_terminal_request_ids s) c r = Some e" "f_le (te_expires_at e) (FNum (now_time am))"
      and s': "s' = s\<lparr>client_terminal_request_ids := ndel c r (client_terminal_request_ids s)\<rparr>" for c r e s'
  proof
    show "exchange_ok s'" by (rule ok_terminals [OF ok s' wf_ndel [OF wf]]) (simp add: nget_ndel split: if_splits)
    show "closed_kept am s s'" using that by (simp add: closed_kept_def nget_ndel)
  qed
  show "exchange_ok s' \<and> closed_kept am s s'"
    if "\<not> has_client_response_for_request c r s" "nget (client_terminal_request_ids s) c r = None" "closes am e"
      and s': "s' = s\<lparr>client_terminal_request_ids := nset c r e (client_terminal_request_ids s)\<rparr>" for c r e s'
  proof
    have "valid_terminal e" using that(3) by (simp add: valid_terminal_def closes_def)
    with that(1) show "exchange_ok s'"
      by (intro ok_terminals [OF ok s' wf_nset [OF wf]]) (auto simp: nget_nset split: if_splits)
    show "closed_kept am s s'" using that by (simp add: closed_kept_def nget_nset)
  qed
  have tied: "deadlines_tied (client_pending_request_ids s) (client_pending_request_deadlines s)"
    using ok by (simp add: exchange_ok_def)
  show "exchange_ok (snd (clear_pending_request c r s)) \<and> closed_kept am s (snd (clear_pending_request c r s))" for c r
    using ok_pending [OF ok tied_clear [OF tied] refl] ok_pending [OF ok tied, of s]
    by (simp add: clear_pending_request_def)
  show "exchange_ok (mark_request_pending am c r token deadline s)
      \<and> closed_kept am s (mark_request_pending am c r token deadline s)" for c r token deadline
    using ok_pending [OF ok tied_mark(1) [OF tied] refl] ok_pending [OF ok tied_mark(2) [OF tied] refl] ok_pending [OF ok tied, of s]
    by (simp add: mark_request_pending_def Let_def split: option.split)
  show "exchange_ok s' \<and> closed_kept am s s'"
    if "s' = s\<lparr>client_responses := d\<rparr>" "normal_waiting (client_responses s) \<Longrightarrow> normal_waiting d"
      and new: "\<And>c r. has_client_response_for_request c r s'
         \<Longrightarrow> has_client_response_for_request c r s \<or> nget (client_terminal_request_ids s) c r = None" for s' d
    using ok new that(1,2) unfolding exchange_ok_def closed_kept_def by fastforce
next
  show "closed_kept am s s" for s by (simp add: closed_kept_def)
  show "closed_kept am s u" if "closed_kept am s t" "closed_kept am t u" for s t u
    using that unfolding closed_kept_def by blast
qed

section \<open>The transition system\<close>

text \<open>
  The requests the process answers. A claimed item of a poll is handed from one piece of the
  poll to the next by the caller.
\<close>

datatype relay_call =
    Register string string json
  | Unregister string bool json
  | PollOpen string json
  | PollRound string
  | PollClose string "object option"
  | NextNode "string option" "string option"
  | Control string json
  | SubmitRequest json
  | CancelRequest json
  | Respond string json
  | ReportProgress string json
  | RetrieveResponse json
  | OldNextServer string
  | Faucet json
  | Source string json
  | OldRetrieve json
  | Sink string "nat \<Rightarrow> string" json
  | StreamSource string json
  | StreamRetrieve json

definition serve :: "ambient \<Rightarrow> relay_call \<Rightarrow> exchange \<Rightarrow> exchange" where
  "serve am call s =
     (case call of
        Register provided fresh data \<Rightarrow> snd (api_v1_relay_servers_register am provided fresh data s)
      | Unregister provided old data \<Rightarrow> snd (handle_server_unregister_request am provided old data s)
      | PollOpen provided data \<Rightarrow> snd (poll_open am provided data s)
      | PollRound key \<Rightarrow> snd (poll_round am key s)
      | PollClose key item \<Rightarrow> snd (poll_close am key item s)
      | NextNode model tier \<Rightarrow> snd (select_next_server_payload am True [] model tier s)
      | Control provided data \<Rightarrow> snd (api_v1_relay_servers_control am provided data s)
      | SubmitRequest data \<Rightarrow> snd (api_v1_relay_requests am data s)
      | CancelRequest data \<Rightarrow> snd (api_v1_relay_requests_cancel am data s)
      | Respond provided data \<Rightarrow> snd (api_v1_relay_responses am provided data s)
      | ReportProgress provided data \<Rightarrow> snd (api_v1_relay_progress am provided data s)
      | RetrieveResponse data \<Rightarrow> snd (api_v1_relay_responses_retrieve am data s)
      | OldNextServer chosen \<Rightarrow> snd (next_server am chosen s)
      | Faucet data \<Rightarrow> snd (faucet am data s)
      | Source provided data \<Rightarrow> snd (source am provided data s)
      | OldRetrieve data \<Rightarrow> snd (retrieve am data s)
      | Sink provided fresh data \<Rightarrow> snd (sink am provided fresh data s)
      | StreamSource provided data \<Rightarrow> snd (stream_source am provided data s)
      | StreamRetrieve data \<Rightarrow> snd (stream_retrieve am data s))"

inductive served :: "exchange \<Rightarrow> bool" where
  start: "served empty_exchange"
| step: "served s \<Longrightarrow> served (serve am call s)"

lemma serve_keeps: "exchange_ok s \<Longrightarrow> exchange_ok (serve am call s) \<and> closed_kept am s (serve am call s)"
  unfolding serve_def
  by (cases call) (simp_all add: advancesD [OF relay.advances_register] advancesD [OF relay.advances_unregister_handler]
      advancesD [OF relay.advances_poll_open] advancesD [OF relay.advances_poll_round]
      advancesD [OF relay.advances_poll_close] advancesD [OF relay.advances_control] advancesD [OF relay.advances_next] advancesD [OF relay.advances_next_server]
      advancesD [OF relay.advances_requests] advancesD [OF relay.advances_cancel_handler]
      advancesD [OF relay.advances_responses] advancesD [OF relay.advances_progress]
      advancesD [OF relay.advances_retrieve] advancesD [OF relay.advances_faucet] advancesD [OF relay.advances_source]
      advancesD [OF relay.advances_old_retrieve] advancesD [OF relay.advances_sink] advancesD [OF relay.advances_streams(1)]
      advancesD [OF relay.advances_streams(2)])

lemma empty_ok: "exchange_ok empty_exchange"
  by (simp add: exchange_ok_def empty_exchange_def wf_nested_def normal_waiting_def deadlines_tied_def nget_def inner_def
      has_response_iff waiting_of_def)

lemma served_ok: "served s \<Longrightarrow> exchange_ok s"
  by (induction rule: served.induct) (simp_all add: empty_ok serve_keeps)

section \<open>Surroundings for evaluation\<close>

text \<open>Floats are exact and no setting is configured.\<close>

definition trace_ambient :: "rat \<Rightarrow> ambient" where
  "trace_ambient t =
     \<lparr>am_clock = \<lparr>ck_monotonic = t, ck_datetime = 0, ck_time = t, ck_seconds = of_int, ck_minus = (-),
        ck_load_score = (\<lambda>a b. of_int a / of_int b),
        ck_environ = \<lparr>en_vars = (\<lambda>_. None), en_float = (\<lambda>_. None), en_float_of_int = (\<lambda>i. Some (of_int i))\<rparr>\<rparr>,
      am_plus = (\<lambda>a b. FNum (a + b)), TERMINAL_REQUEST_TTL_SECONDS = FNum 300, PENDING_REQUEST_TTL_SECONDS = FNum 300,
      SERVER_REGISTRATION_TOKENS = [], am_digests = test_env\<rparr>"

end
