(* ===== verification/Relay_Effects.thy ===== *)
theory Relay_Effects
  imports Relay_Exchange
begin

text \<open>
  The effect of cancellation, polling, acceptance and retrieval on the dictionaries of the relay.
\<close>

section \<open>What cancellation leaves alone\<close>

lemma cancel_in_flight_rest:
  "client_responses (snd (cancel_in_flight am c r status reason completed s)) = client_responses s"
  using core_cancel_in_flight [of s am c r status reason completed] by (simp add: same_core_def)

lemma mark_terminal_rest:
  "client_responses (snd (mark_request_terminal am c r status reason s)) = client_responses s"
  "client_pending_request_ids (snd (mark_request_terminal am c r status reason s)) = client_pending_request_ids s"
  "client_progress (snd (mark_request_terminal am c r status reason s)) = client_progress s"
  "xc_relay (snd (mark_request_terminal am c r status reason s)) = xc_relay s"
  by (simp_all add: mark_request_terminal_def record_request_terminal_outcome_once_def record_terminal_outcome_def
      prune_terminal_requests_def Let_def)

lemma clear_pending_rest:
  "client_responses (snd (clear_pending_request c r s)) = client_responses s"
  "client_progress (snd (clear_pending_request c r s)) = client_progress s"
  "xc_relay (snd (clear_pending_request c r s)) = xc_relay s"
  "client_terminal_request_ids (snd (clear_pending_request c r s)) = client_terminal_request_ids s"
  by (simp_all add: clear_pending_request_def)

lemma cancel_responses:
  "client_responses (snd (cancel_api_v1_request am c r status reason s)) = client_responses s"
  by (simp add: cancel_api_v1_request_def Let_def case_prod_beta mark_terminal_rest cancel_in_flight_rest clear_pending_rest
      remove_request_from_server_queues_def set_queues_def clear_client_progress_def pop_client_progress_def)

lemma expire_responses:
  "client_responses (snd (expire_pending_request_if_stale am c r s)) = client_responses s"
  by (simp add: expire_pending_request_if_stale_def Let_def cancel_responses)

lemma get_terminal_responses: "client_responses (snd (get_terminal_request am c r s)) = client_responses s"
  by (simp add: get_terminal_request_def split: option.split)

lemma take_in_flight_responses: "client_responses (snd (take_in_flight c r items s)) = client_responses s"
  using core_take [of s c r items] by (simp add: same_core_def)

lemma take_ownership_responses: "client_responses (snd (take_ownership c r s)) = client_responses s"
  by (simp add: take_ownership_def case_prod_beta Let_def clear_pending_rest take_in_flight_responses
      remove_request_from_server_queues_def set_queues_def)

section \<open>What cancellation removes\<close>

lemma in_flight_stored:
  "in_flight_of (n\<lparr>nd_fields := (if m = [] then ddel IN_FLIGHT else dset IN_FLIGHT (JDict m)) (nd_fields n)\<rparr>) = m"
  by (simp add: in_flight_of_def jget_def dget_dset dget_ddel)

lemma servers_set_in_flight:
  "dget (servers (set_in_flight key m s)) k =
     (if k = key then map_option (\<lambda>n. n\<lparr>nd_fields := (if m = [] then ddel IN_FLIGHT else dset IN_FLIGHT (JDict m)) (nd_fields n)\<rparr>)
        (dget (servers s) key) else dget (servers s) k)"
  by (simp add: set_in_flight_def set_fields_def set_servers_def servers_def dget_dset split: option.split)

lemma tombstone_relay: "xc_relay (add_api_v1_control_tombstone am server r c status reason deadline digest s) = xc_relay s"
  by (simp add: add_api_v1_control_tombstone_def prune_api_v1_control_tombstones_def Let_def)

lemma tombstone_servers: "servers (add_api_v1_control_tombstone am server r c status reason deadline digest s) = servers s"
  by (simp add: servers_def tombstone_relay)

lemma cancel_on_node_servers:
  "map_option (owned_entry c r) (dget (servers (snd (cancel_on_node am c r status reason completed key ks))) k) =
     (if k = key then map_option (\<lambda>_. None) (dget (servers (snd ks)) k)
      else map_option (owned_entry c r) (dget (servers (snd ks)) k))"
proof (cases ks)
  case (Pair i s)
  have cleared: "owned_entry c r (n\<lparr>nd_fields := (if ddel r m = [] then ddel IN_FLIGHT else dset IN_FLIGHT (JDict (ddel r m))) (nd_fields n)\<rparr>) = None" for n m
    by (simp only: owned_entry_def in_flight_stored dget_ddel) simp
  show ?thesis
  proof (cases "dget (servers s) key")
    case None
    then show ?thesis by (simp add: Pair cancel_on_node_def)
  next
    case (Some n)
    show ?thesis
    proof (cases "owned_entry c r n")
      case None
      with Some show ?thesis by (simp add: Pair cancel_on_node_def)
    next
      case (Some e)
      have "servers (snd (cancel_on_node am c r status reason completed key ks))
          = servers (set_in_flight key (ddel r (in_flight_of n)) s)"
        using Some \<open>dget (servers s) key = Some n\<close>
        by (simp add: Pair cancel_on_node_def Let_def tombstone_servers split: json.split)
      then show ?thesis
        using \<open>dget (servers s) key = Some n\<close> cleared by (simp add: servers_set_in_flight Pair)
    qed
  qed
qed

lemma cancel_in_flight_servers:
  "dget (servers (snd (cancel_in_flight am c r status reason completed s))) k = Some n \<Longrightarrow> owned_entry c r n = None"
proof -
  have owned: "map_option (owned_entry c r) (dget (servers (snd (fold (cancel_on_node am c r status reason completed) keys ks))) k)
      = (if k \<in> set keys then map_option (\<lambda>_. None) (dget (servers (snd ks)) k)
         else map_option (owned_entry c r) (dget (servers (snd ks)) k))" for keys ks
  proof (induction keys arbitrary: ks)
    case (Cons key keys)
    define ks' where "ks' = cancel_on_node am c r status reason completed key ks"
    have "(dget (servers (snd ks')) k = None) = (dget (servers (snd ks)) k = None)"
      using cancel_on_node_servers [of c r am status reason completed key ks k] unfolding ks'_def
      by (cases "dget (servers (snd ks)) k") (auto split: if_splits)
    then have "map_option (\<lambda>_. None :: object option) (dget (servers (snd ks')) k) = map_option (\<lambda>_. None) (dget (servers (snd ks)) k)"
      by (cases "dget (servers (snd ks')) k"; cases "dget (servers (snd ks)) k") auto
    with Cons.IH [of ks'] cancel_on_node_servers [of c r am status reason completed key ks k]
    show ?case by (cases "k = key") (auto simp: ks'_def)
  qed simp
  assume n: "dget (servers (snd (cancel_in_flight am c r status reason completed s))) k = Some n"
  with owned [of "map fst (servers s)" "(0, s)"]
  have "Some (owned_entry c r n) = (if k \<in> set (map fst (servers s)) then map_option (\<lambda>_. None) (dget (servers s) k)
         else map_option (owned_entry c r) (dget (servers s) k))"
    by (simp add: cancel_in_flight_def)
  then show "owned_entry c r n = None"
    by (cases "dget (servers s) k") (auto split: if_splits simp: map_of_eq_None_iff [symmetric])
qed

lemma without_request_none: "dget (without_request c r d) k = Some q \<Longrightarrow> \<not> list_ex (is_request c r) q"
proof (induction d)
  case (Cons x d)
  obtain key items where x: "x = (key, items)" by (cases x)
  have "\<not> list_ex (is_request c r) (filter (\<lambda>item. \<not> is_request c r item) items)" by (auto simp: list_ex_iff)
  with Cons show ?case by (auto simp: x Let_def split: if_split_asm)
qed simp

text \<open>Nothing of the request is left in the queues, in flight, pending or in progress.\<close>

definition no_trace :: "string \<Rightarrow> string \<Rightarrow> exchange \<Rightarrow> bool" where
  "no_trace c r s \<longleftrightarrow>
     nget (client_pending_request_ids s) c r = None
     \<and> dget (client_progress s) (c, r) = None
     \<and> (\<forall>key q. dget (queues s) key = Some q \<longrightarrow> \<not> list_ex (is_request c r) q)
     \<and> (\<forall>key n. dget (servers s) key = Some n \<longrightarrow> owned_entry c r n = None)"

lemma cancel_in_flight_queues: "queues (snd (cancel_in_flight am c r status reason completed s)) = queues s"
proof -
  have node: "queues (snd (cancel_on_node am c r status reason completed key ks)) = queues (snd ks)" for key ks
    by (cases ks) (simp add: cancel_on_node_def Let_def queues_def tombstone_relay set_in_flight_def set_fields_def
        set_servers_def split: option.split json.split)
  have "queues (snd (fold (cancel_on_node am c r status reason completed) keys ks)) = queues (snd ks)" for keys ks
    by (induction keys arbitrary: ks) (simp_all add: node)
  then show ?thesis by (simp add: cancel_in_flight_def)
qed

lemma cancel_in_flight_progress: "client_progress (snd (cancel_in_flight am c r status reason completed s)) = client_progress s"
proof -
  have node: "client_progress (snd (cancel_on_node am c r status reason completed key ks)) = client_progress (snd ks)" for key ks
    by (cases ks) (simp add: cancel_on_node_def Let_def set_in_flight_def set_fields_def set_servers_def
        add_api_v1_control_tombstone_def prune_api_v1_control_tombstones_def split: option.split json.split)
  have "client_progress (snd (fold (cancel_on_node am c r status reason completed) keys ks)) = client_progress (snd ks)" for keys ks
    by (induction keys arbitrary: ks) (simp_all add: node)
  then show ?thesis by (simp add: cancel_in_flight_def)
qed

lemma cleared_pending: "c \<noteq> [] \<Longrightarrow> r \<noteq> [] \<Longrightarrow> nget (client_pending_request_ids (snd (clear_pending_request c r s))) c r = None"
  by (auto simp: clear_pending_request_def nget_def inner_ndel dget_ddel)

lemma cancel_no_trace:
  assumes "c \<noteq> []" "r \<noteq> []"
  shows "no_trace c r (snd (cancel_api_v1_request am c r status reason s))"
proof -
  define st where "st = sanitize_terminal_status (JStr status)"
  define re where "re = sanitize_terminal_reason (JStr reason) st"
  define s1 where "s1 = snd (clear_client_progress c r s)"
  define won where "won = has_client_response_for_request c r s1"
  define s2 where "s2 = snd (remove_request_from_server_queues c r s1)"
  define s3 where "s3 = snd (clear_pending_request c r s2)"
  define s4 where "s4 = snd (cancel_in_flight am c r st re won s3)"
  have "dget (client_progress s1) (c, r) = None"
    using assms by (simp add: s1_def clear_client_progress_def pop_client_progress_def dget_ddel)
  then have progress: "dget (client_progress s4) (c, r) = None"
    by (simp add: s4_def cancel_in_flight_progress s3_def clear_pending_rest s2_def remove_request_from_server_queues_def
        set_queues_def)
  have queues: "\<not> list_ex (is_request c r) q" if "dget (queues s4) key = Some q" for key q
  proof -
    have "queues s4 = queues s3" unfolding s4_def by (rule cancel_in_flight_queues)
    also have "\<dots> = without_request c r (queues s1)"
      by (simp add: s3_def s2_def queues_def clear_pending_rest remove_request_from_server_queues_def set_queues_def)
    finally show ?thesis using that without_request_none by simp
  qed
  have "client_pending_request_ids s4 = client_pending_request_ids s3"
    using core_cancel_in_flight [of s3 am c r st re won] by (simp add: s4_def same_core_def)
  then have pending: "nget (client_pending_request_ids s4) c r = None"
    using cleared_pending [OF assms, of s2] by (simp add: s3_def)
  have "no_trace c r s4"
    using progress queues pending cancel_in_flight_servers [of am c r st re won s3] by (simp add: no_trace_def s4_def)
  moreover have "no_trace c r (snd (mark_request_terminal am c r st re s4)) = no_trace c r s4"
    by (simp add: no_trace_def mark_terminal_rest queues_def servers_def)
  moreover have "snd (cancel_api_v1_request am c r status reason s) \<in> {s4, snd (mark_request_terminal am c r st re s4)}"
    using assms unfolding cancel_api_v1_request_def Let_def case_prod_beta
    by (simp add: st_def re_def s1_def won_def s2_def s3_def s4_def)
  ultimately show ?thesis by auto
qed

section \<open>Polling\<close>

lemma without_request_dget:
  "wf_dict d \<Longrightarrow> dget (without_request c r d) k =
     (case dget d k of None \<Rightarrow> None
      | Some q \<Rightarrow> (let kept = filter (\<lambda>item. \<not> is_request c r item) q in if kept = [] \<and> q \<noteq> [] then None else Some kept))"
proof (induction d)
  case (Cons x d)
  obtain key q where x: "x = (key, q)" by (cases x)
  have "dget d key = None" using Cons.prems by (simp add: x map_of_eq_None_iff)
  with Cons show ?case by (auto simp: x Let_def)
qed simp

lemma without_request_keys: "fst ` set (without_request c r d) \<subseteq> fst ` set d"
proof (induction d)
  case (Cons x d)
  then show ?case by (cases x) (simp add: Let_def, blast)
qed simp

lemma without_request_wf: "wf_dict d \<Longrightarrow> wf_dict (without_request c r d)"
proof (induction d)
  case (Cons x d)
  then show ?case using without_request_keys [of c r d] by (cases x) (auto simp: Let_def)
qed simp

definition depth :: "string \<Rightarrow> exchange \<Rightarrow> nat" where
  "depth key s = length (queue_of (xc_relay s) key)"

lemma depth_queues: "depth key s = (case dget (queues s) key of None \<Rightarrow> 0 | Some q \<Rightarrow> length q)"
  by (simp add: depth_def queue_of_def queues_def split: option.split)

lemma cancel_queues:
  "queues (snd (cancel_api_v1_request am c r status reason s)) = (if c = [] \<or> r = [] then queues s else without_request c r (queues s))"
  by (auto simp: cancel_api_v1_request_def Let_def case_prod_beta mark_terminal_rest queues_def
      cancel_in_flight_queues [unfolded queues_def] clear_pending_rest remove_request_from_server_queues_def set_queues_def
      clear_client_progress_def pop_client_progress_def)

lemma cancel_depth:
  assumes "wf_dict (queues s)"
  shows "wf_dict (queues (snd (cancel_api_v1_request am c r status reason s)))"
    and "depth key (snd (cancel_api_v1_request am c r status reason s)) \<le> depth key s"
proof -
  show "wf_dict (queues (snd (cancel_api_v1_request am c r status reason s)))"
    using assms by (simp add: cancel_queues without_request_wf)
  show "depth key (snd (cancel_api_v1_request am c r status reason s)) \<le> depth key s"
    using assms by (simp add: depth_queues cancel_queues without_request_dget Let_def split: option.split)
qed

lemma pop_e2ee_length: "pop_e2ee q = Some (x, rest) \<Longrightarrow> length rest < length q"
  by (induction q arbitrary: x rest) (auto split: if_splits option.splits)

lemma pop_legacy_length: "fst (pop_legacy q) = Some x \<Longrightarrow> length (snd (pop_legacy q)) < length q"
  by (induction q) (auto simp: case_prod_beta split: if_splits)

lemma pop_next_depth:
  assumes "pop_next key s = (Some item, t)"
  shows "depth key t < depth key s" and "wf_dict (queues s) \<Longrightarrow> wf_dict (queues t)"
proof -
  let ?q = "queue_of (xc_relay s) key"
  define p where "p = (case pop_e2ee ?q of Some (x, xs) \<Rightarrow> (Some x, xs) | None \<Rightarrow> pop_legacy ?q)"
  define rest where "rest = (if is_e2ee item then filter is_e2ee (snd p) else snd p)"
  have first: "fst p = Some item" and t: "t = s\<lparr>xc_relay := (xc_relay s)\<lparr>client_inference_requests :=
        (if rest = [] then ddel key (client_inference_requests (xc_relay s))
         else dset key rest (client_inference_requests (xc_relay s)))\<rparr>\<rparr>"
    using assms unfolding pop_next_def pop_next_api_v1_request_def Let_def p_def [symmetric]
    by (cases p; auto simp: rest_def split: if_splits)+
  have "length (snd p) < length ?q"
    using first pop_e2ee_length [of ?q] pop_legacy_length [of ?q] by (auto simp: p_def split: option.splits)
  then have shorter: "length rest < length ?q"
    by (cases "is_e2ee item") (simp_all add: rest_def le_less_trans [OF length_filter_le])
  show "depth key t < depth key s" using shorter by (auto simp: depth_def t queue_of_update)
  show "wf_dict (queues s) \<Longrightarrow> wf_dict (queues t)" by (simp add: t queues_def wf_dset wf_ddel)
qed

lemma pop_next_empty: "depth key s = 0 \<Longrightarrow> pop_next key s = (None, s)"
  by (simp add: depth_def pop_next_def pop_next_api_v1_request_def Let_def)

lemma round_expired:
  assumes "poll_round am key s = (Inr HeadExpired, t)"
  obtains q s1 where "pop_next key s = (Some q, s1)"
    and "t = snd (cancel_api_v1_request am (client_key q) (request_key q) ''expired'' ''provider_timeout'' s1)"
proof -
  obtain item s1 where pop: "pop_next key s = (item, s1)" by (cases "pop_next key s")
  show ?thesis
  proof (cases item)
    case None
    then show ?thesis using assms pop
      by (auto simp: poll_round_def sbind_def gets_def run_op_def ret_def split: if_splits)
  next
    case (Some q)
    then show ?thesis using assms pop that
      by (auto simp: poll_round_def sbind_def gets_def run_op_def ret_def scheduled_def lift_def case_prod_beta
          split: if_splits sum.splits)
  qed
qed

lemma round_shrinks:
  assumes "poll_round am key s = (Inr HeadExpired, t)" and "wf_dict (queues s)"
  shows "depth key t < depth key s" and "wf_dict (queues t)"
proof -
  obtain q s1 where pop: "pop_next key s = (Some q, s1)"
    and t: "t = snd (cancel_api_v1_request am (client_key q) (request_key q) ''expired'' ''provider_timeout'' s1)"
    by (rule round_expired [OF assms(1)])
  have wf: "wf_dict (queues s1)" by (rule pop_next_depth(2) [OF pop assms(2)])
  show "depth key t < depth key s"
    using pop_next_depth(1) [OF pop] cancel_depth(2) [OF wf] unfolding t by (rule le_less_trans [rotated])
  show "wf_dict (queues t)" unfolding t by (rule cancel_depth(1) [OF wf])
qed

lemma drain_bound:
  "wf_dict (queues s) \<Longrightarrow> depth key s \<le> k \<Longrightarrow>
     fst (drain k am key s) \<noteq> Inr HeadExpired \<and> drain (k + j) am key s = drain k am key s"
proof (induction k arbitrary: s)
  case 0
  then have "fst (poll_round am key s) \<noteq> Inr HeadExpired"
    using round_shrinks(1) [of am key s "snd (poll_round am key s)"] by (metis not_less0 prod.collapse le_zero_eq)
  then show ?case
    by (cases j) (auto simp: sbind_def ret_def split: prod.split sum.split)
next
  case (Suc k)
  obtain x t where r: "poll_round am key s = (x, t)" by (cases "poll_round am key s")
  show ?case
  proof (cases "x = Inr HeadExpired")
    case True
    have "wf_dict (queues t)" "depth key t \<le> k"
      using round_shrinks [of am key s t] r True Suc.prems by simp_all
    from Suc.IH [OF this] show ?thesis using True by (simp add: r sbind_def)
  next
    case False
    then show ?thesis by (cases x) (auto simp: r sbind_def ret_def)
  qed
qed

section \<open>The mailbox of a client\<close>

text \<open>The specification: a list of envelopes per client.\<close>

type_synonym mailbox = "string \<Rightarrow> object list"

definition mailbox_put :: "string \<Rightarrow> object \<Rightarrow> mailbox \<Rightarrow> mailbox" where
  "mailbox_put c e m = m(c := m c @ [e])"

definition mailbox_take :: "string \<Rightarrow> string \<Rightarrow> mailbox \<Rightarrow> object option \<times> mailbox" where
  "mailbox_take c r m =
     (case List.extract (\<lambda>e. r = [] \<or> names_request r e) (m c) of
        None \<Rightarrow> (None, m)
      | Some (front, e, rest) \<Rightarrow> (Some e, m(c := front @ rest)))"

definition mailbox_drop :: "string \<Rightarrow> string \<Rightarrow> mailbox \<Rightarrow> nat \<times> mailbox" where
  "mailbox_drop c r m =
     (if c = [] \<or> r = [] then (0, m)
      else (length (filter (names_request r) (m c)), m(c := filter (\<lambda>e. \<not> names_request r e) (m c))))"

lemma waiting_store: "waiting_of (store_waiting c kept s) = (waiting_of s)(c := kept)"
  by (rule ext) (simp add: waiting_of_store)

lemma waiting_put: "waiting_of (queue_client_response c e s) = mailbox_put c e (waiting_of s)"
  by (rule ext) (simp add: waiting_of_queue mailbox_put_def)

lemma waiting_settled: "waiting_of (snd (clear_pending_request c r s)) = waiting_of s"
  by (rule ext) (simp add: waiting_of_def clear_pending_rest)

lemma extract_single: "List.extract p [e] = (if p e then Some ([], e, []) else None)"
  by (simp add: extract_Cons_code extract_Nil_code)

lemma waiting_take: "map_prod id waiting_of (pop_client_response c r s) = mailbox_take c r (waiting_of s)"
proof (cases "dget (client_responses s) c")
  case None
  then have "waiting_of s c = []" by (simp add: waiting_of_def)
  then show ?thesis using None by (simp add: pop_client_response_def mailbox_take_def extract_Nil_code)
next
  case (Some w)
  show ?thesis
  proof (cases w)
    case (Single e)
    then have "waiting_of s c = [e]" using Some by (simp add: waiting_of_def)
    then show ?thesis using Some Single
      by (simp add: pop_client_response_def mailbox_take_def extract_single waiting_settled waiting_store)
  next
    case (Several es)
    then have "waiting_of s c = es" using Some by (simp add: waiting_of_def)
    then show ?thesis using Some Several
      by (simp add: pop_client_response_def mailbox_take_def waiting_settled waiting_store split: option.split prod.split)
  qed
qed

lemma waiting_drop: "map_prod id waiting_of (remove_client_responses_for_request c r s) = mailbox_drop c r (waiting_of s)"
proof (cases "dget (client_responses s) c")
  case None
  then have "waiting_of s c = []" by (simp add: waiting_of_def)
  then show ?thesis using None
    by (simp add: remove_client_responses_for_request_def mailbox_drop_def fun_upd_idem)
next
  case (Some w)
  show ?thesis
  proof (cases w)
    case (Single e)
    then have "waiting_of s c = [e]" using Some by (simp add: waiting_of_def)
    then show ?thesis using Some Single
      by (simp add: remove_client_responses_for_request_def mailbox_drop_def waiting_store fun_upd_idem)
  next
    case (Several es)
    then have "waiting_of s c = es" using Some by (simp add: waiting_of_def)
    then show ?thesis using Some Several
      by (simp add: remove_client_responses_for_request_def mailbox_drop_def waiting_store)
  qed
qed

section \<open>Acceptance and retrieval\<close>

text \<open>The reply of an accepted response, and what its acceptance has done.\<close>

definition response_received :: reply where
  "response_received = message_reply 200 ''Response received and queued for client'' []"

lemma received_differs:
  "no_longer_waiting x \<noteq> response_received" "fail_with m (numeral k) \<noteq> response_received"
  "message_reply 200 ''Response already queued for client'' [] \<noteq> response_received"
  by (simp_all add: no_longer_waiting_def response_received_def message_reply_def fail_with_def error_body_def)

lemma unless_terminal_received:
  assumes "unless_terminal am c r handler s = (Inr response_received, t)" "c \<noteq> []" "r \<noteq> []"
  obtains u where "handler u = (Inr response_received, t)" "client_responses u = client_responses s"
    "nget (client_terminal_request_ids u) c r = None"
proof -
  obtain x u where g: "get_terminal_request am c r s = (x, u)" by (cases "get_terminal_request am c r s")
  then have resp: "client_responses u = client_responses s" using get_terminal_responses [of am c r s] by simp
  have "x = None" using assms(1) received_differs(1)
    by (cases x) (auto simp: unless_terminal_def sbind_def run_op_def g ret_def)
  moreover from this have "nget (client_terminal_request_ids u) c r = None"
    using g assms(2,3) by (auto simp: get_terminal_request_def nget_ndel split: option.splits if_splits)
  ultimately show ?thesis using that resp assms(1) by (simp add: unless_terminal_def sbind_def run_op_def g)
qed

lemma complete_received:
  assumes "complete_request am c r e s = (Inr response_received, t)"
  shows "waiting_of t = mailbox_put c e (waiting_of s)" and "client_terminal_request_ids t = client_terminal_request_ids s"
proof -
  define s1 where "s1 = snd (record_request_terminal_outcome_once am c r ''completed'' s)"
  define s2 where "s2 = snd (clear_client_progress c r s1)"
  have c2: "same_core s s2" using same_core_trans [OF core_once core_progress(2)] by (simp add: s1_def s2_def)
  have t: "t = queue_client_response c e s2"
    using assms received_differs(1)
    by (auto simp: complete_request_def sbind_def run_op_def change_def ret_def s1_def s2_def case_prod_beta split: if_splits)
  have "waiting_of s2 = waiting_of s" using c2 by (intro ext) (simp add: waiting_of_def same_core_def)
  with t show "waiting_of t = mailbox_put c e (waiting_of s)" by (simp add: waiting_put)
  show "client_terminal_request_ids t = client_terminal_request_ids s"
    using core_terminals [OF c2] by (simp add: t queue_client_response_def)
qed

lemma unanswered_received:
  assumes acc: "accept_unanswered am c r e s = (Inr response_received, t)" and keys: "c \<noteq> []" "r \<noteq> []"
  shows "waiting_of t = mailbox_put c e (waiting_of s)" and "nget (client_terminal_request_ids t) c r = None"
proof -
  define s1 where "s1 = snd (expire_pending_request_if_stale am c r s)"
  have "unless_terminal am c r (sbind (run_op (take_ownership c r)) (\<lambda>owned.
      unless_terminal am c r (finish_owned am c r e owned))) s1 = (Inr response_received, t)"
    using acc by (simp add: accept_unanswered_def run_simps s1_def)
  then obtain s2 where s2: "client_responses s2 = client_responses s1"
    and r2: "sbind (run_op (take_ownership c r)) (\<lambda>owned.
      unless_terminal am c r (finish_owned am c r e owned)) s2 = (Inr response_received, t)"
    using unless_terminal_received keys by metis
  define owned where "owned = fst (take_ownership c r s2)"
  define s3 where "s3 = snd (take_ownership c r s2)"
  have "unless_terminal am c r (finish_owned am c r e owned) s3 = (Inr response_received, t)"
    using r2 by (simp add: run_simps owned_def s3_def)
  then obtain s4 where s4: "client_responses s4 = client_responses s3"
    and r4: "finish_owned am c r e owned s4 = (Inr response_received, t)"
    and none: "nget (client_terminal_request_ids s4) c r = None"
    using unless_terminal_received keys by metis
  have "complete_request am c r e s4 = (Inr response_received, t)"
    using r4 received_differs(1) by (auto simp: finish_owned_def run_simps split: if_splits)
  moreover have "client_responses s4 = client_responses s"
    by (simp add: s4 s3_def take_ownership_responses s2 s1_def expire_responses)
  then have "waiting_of s4 = waiting_of s" by (intro ext) (simp add: waiting_of_def)
  ultimately show "waiting_of t = mailbox_put c e (waiting_of s)" "nget (client_terminal_request_ids t) c r = None"
    using complete_received [of am c r e s4 t] none by simp_all
qed

lemma accept_received:
  assumes acc: "accept_response am c r e s = (Inr response_received, t)" and keys: "c \<noteq> []" "r \<noteq> []"
  shows "\<not> has_client_response_for_request c r s" and "waiting_of t = mailbox_put c e (waiting_of s)"
    and "nget (client_terminal_request_ids t) c r = None"
proof -
  obtain s1 where s1: "client_responses s1 = client_responses s"
    and r1: "sbind (gets (has_client_response_for_request c r)) (\<lambda>answered.
       if answered then ret (message_reply 200 ''Response already queued for client'' [])
       else accept_unanswered am c r e) s1 = (Inr response_received, t)"
    by (rule unless_terminal_received [OF acc [unfolded accept_response_def] keys])
  have new: "\<not> has_client_response_for_request c r s1"
    using r1 received_differs(3) by (auto simp: run_simps)
  with response_cong [OF s1] show "\<not> has_client_response_for_request c r s" by simp
  have "accept_unanswered am c r e s1 = (Inr response_received, t)" using r1 new by (simp add: run_simps)
  moreover have "waiting_of s1 = waiting_of s" using s1 by (intro ext) (simp add: waiting_of_def)
  ultimately show "waiting_of t = mailbox_put c e (waiting_of s)" "nget (client_terminal_request_ids t) c r = None"
    using unanswered_received keys by metis+
qed

lemma retrieve_first:
  assumes none: "nget (client_terminal_request_ids t) c r = None" and w: "waiting_of t = mailbox_put c e m"
    and e: "names_request r e" and others: "\<not> list_ex (names_request r) (m c)" and r: "r \<noteq> []"
  shows "\<exists>u. retrieve_response am c r t = (Inr (200, JDict e), u) \<and> waiting_of u = m"
proof -
  have "get_terminal_request am c r t = (None, t)" by (simp add: get_terminal_request_def none)
  moreover have "List.extract (\<lambda>e. r = [] \<or> names_request r e) (m c @ [e]) = Some (m c, e, [])"
    using e others r by (auto simp: extract_Some_iff list_ex_iff)
  then have take: "mailbox_take c r (waiting_of t) = (Some e, m)"
    by (simp add: mailbox_take_def w mailbox_put_def)
  obtain x u where pop: "pop_client_response c r t = (x, u)" by (cases "pop_client_response c r t")
  with waiting_take [of c r t] take have "x = Some e" "waiting_of u = m" by simp_all
  ultimately show ?thesis
    by (simp add: retrieve_response_def unless_closed_def sbind_def run_op_def pop ret_def)
qed

end
