(* ===== verification/Exchange_Properties.thy ===== *)
theory Exchange_Properties
  imports Relay_Effects
begin

text \<open>
  The properties of the relay's request handlers: what the lifecycle dictionaries keep, that a
  closed request stays closed, that a response reaches its client once, that a cancellation
  needs its proof and leaves nothing behind, and that a poll ends.
\<close>

section \<open>How a handler got to its reply\<close>

lemma match_token_state: "snd (match_token candidate tokens matched s) = s"
  by (induction tokens arbitrary: matched)
    (simp_all add: sbind_def ret_def compare_digest_def lift_def split: prod.split sum.split)

lemma validate_state: "snd (validate_server_registration am provided s) = s"
  using match_token_state [of "py_strip provided" "SERVER_REGISTRATION_TOKENS am" False s]
  by (auto simp: validate_server_registration_def Let_def sbind_def ret_def split: prod.splits sum.splits)

lemma handler_received:
  assumes "api_v1_relay_responses am provided data s = (Inr response_received, t)"
    and "checked_envelope data False = Inr e" "jget e ''client_public_key'' = JStr c" "jget e ''request_id'' = JStr r" "r \<noteq> []"
  shows "c \<noteq> []" and "accept_response am c r e s = (Inr response_received, t)"
proof -
  obtain x xs where r: "r = x # xs" using assms(5) by (cases r) auto
  obtain v where v: "validate_server_registration am provided s = (v, s)"
    using validate_state [of am provided s] by (cases "validate_server_registration am provided s") auto
  have "v = Inr None"
  proof (rule ccontr)
    assume "v \<noteq> Inr None"
    then obtain y where y: "v = Inr (Some y)" "y = response_received"
      using assms(1) v by (auto simp: api_v1_relay_responses_def authorised_def sbind_def ret_def split: sum.splits option.splits)
    have "fst y = 401" using v y(1)
      by (auto simp: validate_server_registration_def Let_def sbind_def ret_def fail_with_def split: if_splits prod.splits sum.splits)
    with y(2) show False by (simp add: response_received_def message_reply_def)
  qed
  with v assms r received_differs(2) [of "''Invalid request data''"]
  show "c \<noteq> []" "accept_response am c r e s = (Inr response_received, t)"
    by (auto simp: api_v1_relay_responses_def authorised_def sbind_def ret_def text_key_def lift_def invalid_request_data_def
        split: if_splits)
qed

section \<open>A trace\<close>

text \<open>
  A node registers, a client submits a request, which is then answered or cancelled. Floats are
  exact and no setting is configured.
\<close>

definition trace_request :: json where
  "trace_request = JDict [(''client_public_key'', JStr ''c''), (''server_public_key'', JStr ''n''),
     (''ciphertext'', JStr ''YQ==''), (''cipherkey'', JStr ''YQ==''), (''iv'', JStr ''YQ==''), (''request_id'', JStr ''r''),
     (''cancel_token'', JStr ''t'')]"

definition trace_response :: json where
  "trace_response = JDict [(''client_public_key'', JStr ''c''), (''ciphertext'', JStr ''Yg==''),
     (''cipherkey'', JStr ''Yg==''), (''iv'', JStr ''Yg==''), (''request_id'', JStr ''r'')]"

definition trace_envelope :: object where
  "trace_envelope = [(''client_public_key'', JStr ''c''), (''chat_history'', JStr ''Yg==''), (''ciphertext'', JStr ''Yg==''),
     (''cipherkey'', JStr ''Yg==''), (''iv'', JStr ''Yg==''), (''request_id'', JStr ''r'')]"

definition trace_cancel :: object where
  "trace_cancel = [(''client_public_key'', JStr ''c''), (''request_id'', JStr ''r''), (''cancel_token'', JStr ''t'')]"

definition trace_queued :: exchange where
  "trace_queued = serve (trace_ambient 1) (SubmitRequest trace_request)
     (serve (trace_ambient 0) (Register [] ''k'' (JDict [(''server_public_key'', JStr ''n'')])) empty_exchange)"

definition trace_closed :: exchange where
  "trace_closed = serve (trace_ambient 2) (CancelRequest (JDict trace_cancel)) trace_queued"

lemma trace_served: "served trace_queued" "served trace_closed"
  by (simp_all add: trace_queued_def trace_closed_def served.start served.step)

definition trace_terminal :: terminal_entry where
  "trace_terminal = \<lparr>te_status = ''cancelled'', te_reason = ''cancelled'', te_expires_at = FNum 302\<rparr>"

lemma trace_closed_terminal: "nget (client_terminal_request_ids trace_closed) ''c'' ''r'' = Some trace_terminal"
  by code_simp

section \<open>Consistency\<close>

text \<open>C10 (invariant). In every state that requests to the relay can produce, no request is both closed and
  answered, every closed request has one of the documented states and reasons, the two
  tables of pending requests agree on their deadlines, and several waiting responses of a client are kept
  as a list of at least two.\<close>

theorem relay_states_are_consistent: "served s \<Longrightarrow> exchange_ok s"
  by (rule served_ok)

theorem relay_states_are_consistent_witness: "exchange_ok trace_closed"
  by (rule relay_states_are_consistent [OF trace_served(2)])

text \<open>C11 (safety). A request that was cancelled or expired keeps that outcome while its record is
  retained, whatever requests the relay serves meanwhile and with whatever clocks: it gets no
  response, and a response that arrives late is refused with its state.\<close>

theorem closed_request_stays_closed:
  assumes "served s" and "nget (client_terminal_request_ids s) c r = Some e"
    and "list_all (\<lambda>(am, call). \<not> f_le (te_expires_at e) (FNum (now_time am))) calls"
    and "\<not> f_le (te_expires_at e) (FNum (now_time am))"
    and "t = fold (\<lambda>(am, call). serve am call) calls s" and "c \<noteq> []" "r \<noteq> []"
  shows "nget (client_terminal_request_ids t) c r = Some e \<and> \<not> has_client_response_for_request c r t
     \<and> accept_response am c r envelope t = (Inr (no_longer_waiting (te_status e)), t)"
proof -
  have "exchange_ok (fold (\<lambda>(am, call). serve am call) calls s)
      \<and> nget (client_terminal_request_ids (fold (\<lambda>(am, call). serve am call) calls s)) c r = Some e"
    using served_ok [OF assms(1)] assms(2,3)
  proof (induction calls arbitrary: s)
    case (Cons x calls)
    obtain am' call where x: "x = (am', call)" by (cases x)
    have "nget (client_terminal_request_ids (serve am' call s)) c r = Some e"
      using serve_keeps [OF Cons.prems(1), of am' call] Cons.prems(2,3) by (auto simp: x closed_kept_def)
    with Cons.IH [of "serve am' call s"] serve_keeps [OF Cons.prems(1)] Cons.prems(3) show ?case by (simp add: x)
  qed simp
  then have t: "exchange_ok t" "nget (client_terminal_request_ids t) c r = Some e" by (simp_all add: assms(5))
  then have "\<not> has_client_response_for_request c r t" by (auto simp: exchange_ok_def)
  moreover have "get_terminal_request am c r t = (Some e, t)"
    using t(2) assms(4,6,7) by (simp add: get_terminal_request_def)
  ultimately show ?thesis using t(2) by (simp add: accept_response_def unless_terminal_def run_simps)
qed

theorem closed_request_stays_closed_witness:
  "accept_response (trace_ambient 4) ''c'' ''r'' trace_envelope
     (serve (trace_ambient 3) (SubmitRequest trace_request) trace_closed)
   = (Inr (no_longer_waiting ''cancelled''), serve (trace_ambient 3) (SubmitRequest trace_request) trace_closed)"
  using closed_request_stays_closed [OF trace_served(2) trace_closed_terminal,
      of "[(trace_ambient 3, SubmitRequest trace_request)]" "trace_ambient 4" _ trace_envelope]
  by (simp add: trace_terminal_def trace_ambient_def f_le_def)

section \<open>Responses\<close>

text \<open>C12 (refinement). The dictionary of waiting responses, which keeps a lone envelope bare and
  several as a list, implements one list of envelopes per client: storing appends, taking removes
  and returns the first envelope of the request (or of all), dropping removes those of the
  request and counts them.\<close>

theorem responses_refine_mailbox:
  "waiting_of (queue_client_response c e s) = mailbox_put c e (waiting_of s)
   \<and> map_prod id waiting_of (pop_client_response c r s) = mailbox_take c r (waiting_of s)
   \<and> map_prod id waiting_of (remove_client_responses_for_request c r s) = mailbox_drop c r (waiting_of s)
   \<and> has_client_response_for_request c r s = (c \<noteq> [] \<and> r \<noteq> [] \<and> list_ex (names_request r) (waiting_of s c))"
  by (simp add: waiting_put waiting_take waiting_drop has_response_iff list_ex_iff)

text \<open>C13 (roundtrip). Whenever the relay reports a response for a request as received, the client that asks for
  that request next gets exactly this envelope, the mailboxes are then as they were before, and
  so the response is handed out once.\<close>

theorem response_reaches_client_once:
  assumes "api_v1_relay_responses am provided data s = (Inr response_received, t)"
    and "checked_envelope data False = Inr e" "jget e ''client_public_key'' = JStr c" "jget e ''request_id'' = JStr r" "r \<noteq> []"
  shows "\<exists>u. api_v1_relay_responses_retrieve am' (JDict [(''client_public_key'', JStr c), (''request_id'', JStr r)]) t
       = (Inr (200, JDict e), u)
     \<and> waiting_of u = waiting_of s \<and> \<not> has_client_response_for_request c r u"
proof -
  obtain x xs where r: "r = x # xs" using assms(5) by (cases r) auto
  have "c \<noteq> []" and acc: "accept_response am c r e s = (Inr response_received, t)"
    using handler_received [OF assms] by simp_all
  have e: "names_request r e" using assms(4) by (simp add: names_request_def)
  note new = accept_received [OF acc \<open>c \<noteq> []\<close> assms(5)]
  have others: "\<not> list_ex (names_request r) (waiting_of s c)"
    using new(1) \<open>c \<noteq> []\<close> assms(5) by (simp add: has_response_iff list_ex_iff)
  obtain u where u: "retrieve_response am' c r t = (Inr (200, JDict e), u)" "waiting_of u = waiting_of s"
    using retrieve_first [OF new(3,2) e others assms(5)] by blast
  moreover have "\<not> has_client_response_for_request c r u"
    using others u(2) by (simp add: has_response_iff list_ex_iff)
  ultimately show ?thesis
    by (simp add: api_v1_relay_responses_retrieve_def dmem_def text_key_def optional_key_def r)
qed

lemma trace_received:
  "api_v1_relay_responses (trace_ambient 2) [] trace_response trace_queued
     = (Inr response_received, serve (trace_ambient 2) (Respond [] trace_response) trace_queued)"
proof -
  have "fst (api_v1_relay_responses (trace_ambient 2) [] trace_response trace_queued) = Inr response_received" by code_simp
  then show ?thesis by (simp add: serve_def prod_eq_iff)
qed

lemma trace_checked: "checked_envelope trace_response False = Inr trace_envelope"
  by code_simp

theorem response_reaches_client_once_witness:
  "\<exists>u. api_v1_relay_responses_retrieve (trace_ambient 9) (JDict [(''client_public_key'', JStr ''c''), (''request_id'', JStr ''r'')])
         (serve (trace_ambient 2) (Respond [] trace_response) trace_queued) = (Inr (200, JDict trace_envelope), u)
     \<and> waiting_of u = waiting_of trace_queued \<and> \<not> has_client_response_for_request ''c'' ''r'' u"
  by (rule response_reaches_client_once [OF trace_received trace_checked]) (simp_all add: trace_envelope_def)

section \<open>Cancellation\<close>

lemma run_lift: "lift x s = (x, s)"
  by (simp add: lift_def)

text \<open>C14 (safety). A cancellation succeeds only with the cancel token of the request, and then nothing of
  the request is left in the queues, in flight on a node, pending or in progress; any other answer
  changes nothing.\<close>

theorem cancellation_is_proved_and_complete:
  assumes "api_v1_relay_requests_cancel am (JDict d) s = (Inr (code, body), t)"
    and "jget d ''client_public_key'' = JStr c" "jget d ''request_id'' = JStr r"
  shows "if code = 200
     then (\<exists>p. jget d ''cancel_token'' = JStr p \<and> cancel_token_for_queued_or_in_flight_request c r s = Some p) \<and> no_trace c r t
     else t = s"
proof (cases "c = [] \<or> r = []")
  case True
  then show ?thesis using assms
    by (auto simp: api_v1_relay_requests_cancel_def ret_def invalid_request_data_def fail_with_def)
next
  case False
  show ?thesis
  proof (cases "\<exists>p. jget d ''cancel_token'' = JStr p \<and> cancel_token_for_queued_or_in_flight_request c r s = Some p")
    case True
    then obtain p where p: "jget d ''cancel_token'' = JStr p" "cancel_token_for_queued_or_in_flight_request c r s = Some p"
      by blast
    define st where "st = sanitize_terminal_status (jget d ''status'')"
    have "code = 200 \<and> t = snd (cancel_api_v1_request am c r st (sanitize_terminal_reason (jget d ''reason'') st) s)"
      using assms False p
      by (auto simp: api_v1_relay_requests_cancel_def text_key_def run_simps compare_digest_def st_def Let_def run_lift
          split: if_splits)
    with cancel_no_trace [of c r] False p show ?thesis by simp
  next
    case no: False
    have "code = 403 \<and> t = s"
      using assms False no
      by (auto simp: api_v1_relay_requests_cancel_def text_key_def run_simps compare_digest_def Let_def run_lift
          fail_with_def split: if_splits option.splits json.splits)
    then show ?thesis by simp
  qed
qed

theorem cancellation_is_proved_and_complete_witness:
  "cancel_token_for_queued_or_in_flight_request ''c'' ''r'' trace_queued = Some ''t'' \<and> no_trace ''c'' ''r'' trace_closed"
proof -
  obtain code body where reply: "api_v1_relay_requests_cancel (trace_ambient 2) (JDict trace_cancel) trace_queued
      = (Inr (code, body), trace_closed)" and "code = 200"
  proof -
    have "(case fst (api_v1_relay_requests_cancel (trace_ambient 2) (JDict trace_cancel) trace_queued) of
        Inr (code, body) \<Rightarrow> code = 200 | Inl e \<Rightarrow> False)" by code_simp
    with that show thesis by (cases "api_v1_relay_requests_cancel (trace_ambient 2) (JDict trace_cancel) trace_queued")
        (auto simp: trace_closed_def serve_def split: sum.splits)
  qed
  with cancellation_is_proved_and_complete [OF reply, of "''c''" "''r''"] show ?thesis
    by (simp add: trace_cancel_def)
qed

section \<open>Polling\<close>

text \<open>C15 (termination). The rounds of a poll that only find expired requests end: after as many as the queue
  is long, the next result is a claimed request, an empty queue, a missing node or an exception, and
  allowing more rounds changes nothing.\<close>

theorem polling_rounds_end:
  assumes "wf_dict (queues s)" and "length (queue_of (xc_relay s) key) \<le> k"
  shows "fst (drain k am key s) \<noteq> Inr HeadExpired \<and> drain (k + j) am key s = drain k am key s"
  using drain_bound [of s key k am j] assms by (simp add: depth_def)

theorem polling_rounds_end_witness: "fst (drain 1 (trace_ambient 600) ''n'' trace_queued) \<noteq> Inr HeadExpired"
proof -
  have "wf_dict (queues trace_queued)" by code_simp
  moreover have "length (queue_of (xc_relay trace_queued) ''n'') \<le> 1" by code_simp
  ultimately show ?thesis using polling_rounds_end [of trace_queued "''n''" 1] by simp
qed

end
