(* ===== verification/Api_Validation.thy ===== *)
theory Api_Validation
  imports Json
begin

text \<open>
  The request validators of \<^verbatim>\<open>src/api/v1/validation.py\<close>. A validator returns \<open>Inr\<close> or
  the exception it raises; the theorems characterise exactly which inputs pass, and show
  the bounds of what the normalising validators return.
\<close>

section \<open>Errors\<close>

text \<open>
  A message is an f-string, kept as its literal pieces and interpolated values. The only
  exception besides \<^verbatim>\<open>ValidationError\<close> is the \<^verbatim>\<open>TypeError\<close> of hashing a list or a
  dict for a set membership test.
\<close>

datatype piece = Text string | Value json

datatype api_error =
    ValidationError "piece list" "string option" string
  | UnhashableTypeError

definition invalid_request :: "piece list \<Rightarrow> string option \<Rightarrow> api_error" where
  "invalid_request message field = ValidationError message field ''invalid_request_error''"

section \<open>Field validators\<close>

fun validate_required_fields :: "object \<Rightarrow> string list \<Rightarrow> api_error + unit" where
  "validate_required_fields data [] = Inr ()"
| "validate_required_fields data (field # fs) =
     (if \<not> dmem field data
      then Inl (invalid_request [Text (''Missing required parameter: '' @ field)] (Some field))
      else validate_required_fields data fs)"

datatype expected_type = StrType | IntType | ListType | DictType

fun type_name :: "expected_type \<Rightarrow> string" where
  "type_name StrType = ''str''"
| "type_name IntType = ''int''"
| "type_name ListType = ''list''"
| "type_name DictType = ''dict''"

fun has_type :: "json \<Rightarrow> expected_type \<Rightarrow> bool" where
  "has_type v StrType = is_jstr v"
| "has_type v IntType = (jint v \<noteq> None)"
| "has_type v ListType = is_jlist v"
| "has_type v DictType = is_jdict v"

definition validate_field_type :: "object \<Rightarrow> string \<Rightarrow> expected_type \<Rightarrow> bool \<Rightarrow> api_error + unit" where
  "validate_field_type data field expected allow_none =
     (case dget data field of
        None \<Rightarrow> Inr ()
      | Some v \<Rightarrow>
          if v = JNull \<and> allow_none then Inr ()
          else if \<not> has_type v expected
          then Inl (invalid_request
                 [Text (''Invalid type for '' @ field @ '': expected '' @ type_name expected)] (Some field))
          else Inr ())"

definition validate_string_length ::
  "object \<Rightarrow> string \<Rightarrow> int option \<Rightarrow> int option \<Rightarrow> api_error + unit" where
  "validate_string_length data field min_length max_length =
     (case dget data field of
        Some (JStr s) \<Rightarrow>
          (let len = int (length s) in
           ebind (case min_length of
                    Some m \<Rightarrow> echeck (len < m) (invalid_request
                      [Text (field @ '' must be at least '' @ show_int m @ '' characters'')] (Some field))
                  | None \<Rightarrow> Inr ()) (\<lambda>_.
           case max_length of
             Some m \<Rightarrow> echeck (len > m) (invalid_request
               [Text (field @ '' must be at most '' @ show_int m @ '' characters'')] (Some field))
           | None \<Rightarrow> Inr ()))
      | _ \<Rightarrow> Inr ())"

subsection \<open>Base64\<close>

text \<open>
  \<^verbatim>\<open>base64.b64decode(value, validate=True)\<close> of a text: it must be ASCII and pass the
  strict mode of \<^verbatim>\<open>binascii.a2b_base64\<close>, whose loop is \<open>b64_scan\<close>: \<open>quad\<close> counts the
  digits of the current group, \<open>pads\<close> its padding, \<open>started\<close> remembers any padding.
\<close>

definition is_b64 :: "char \<Rightarrow> bool" where
  "is_b64 c \<longleftrightarrow>
     (let n = char_code c in
      65 \<le> n \<and> n \<le> 90 \<or> 97 \<le> n \<and> n \<le> 122 \<or> 48 \<le> n \<and> n \<le> 57 \<or> n = 43 \<or> n = 47)"

definition pad_char :: char where
  "pad_char = CHR ''=''"

fun b64_scan :: "nat \<Rightarrow> nat \<Rightarrow> bool \<Rightarrow> string \<Rightarrow> bool" where
  "b64_scan quad pads started [] = (quad = 0)"
| "b64_scan quad pads started (c # cs) =
     (if c = pad_char
      then (if 2 \<le> quad \<and> 4 \<le> quad + (pads + 1) then cs = []
            else b64_scan quad (if 2 \<le> quad then pads + 1 else pads) True cs)
      else if \<not> is_b64 c \<or> started then False
      else b64_scan ((quad + 1) mod 4) 0 started cs)"

definition b64decodes :: "string \<Rightarrow> bool" where
  "b64decodes s \<longleftrightarrow>
     list_all (\<lambda>c. char_code c < 128) s \<and> (s = [] \<or> hd s \<noteq> pad_char) \<and> b64_scan 0 0 False s"

definition validate_base64 :: "object \<Rightarrow> string \<Rightarrow> api_error + unit" where
  "validate_base64 data field =
     (case dget data field of
        Some (JStr s) \<Rightarrow>
          echeck (\<not> b64decodes s)
            (invalid_request [Text (''Invalid base64 encoding for '' @ field)] (Some field))
      | _ \<Rightarrow> Inr ())"

section \<open>Image generation\<close>

definition dimension_low :: int where "dimension_low = 32"
definition dimension_high :: int where "dimension_high = 1024"

definition ensure_dimension :: "json \<Rightarrow> string \<Rightarrow> api_error + int" where
  "ensure_dimension v field =
     (case jint v of
        None \<Rightarrow> Inl (invalid_request [Text (field @ '' must be an integer'')] (Some field))
      | Some n \<Rightarrow>
          if n < dimension_low \<or> n > dimension_high
          then Inl (invalid_request
                 [Text (field @ '' must be between 32 and 1024 pixels'')] (Some field))
          else Inr n)"

text \<open>
  \<^verbatim>\<open>^(?P<width>\d{2,4})x(?P<height>\d{2,4})$\<close> on a stripped text: a run of digits ends
  where the \<^verbatim>\<open>x\<close> stands, so the groups are the maximal runs.
\<close>

definition size_pattern :: "string \<Rightarrow> (string \<times> string) option" where
  "size_pattern s =
     (let w = takeWhile is_digit s; rest = dropWhile is_digit s
      in case rest of
           [] \<Rightarrow> None
         | c # h \<Rightarrow>
             if c = CHR ''x'' \<and> 2 \<le> length w \<and> length w \<le> 4 \<and> 2 \<le> length h \<and> length h \<le> 4
                \<and> list_all is_digit h
             then Some (w, h) else None)"

definition parse_size_field :: "json \<Rightarrow> api_error + (int \<times> int)" where
  "parse_size_field v =
     (case v of
        JStr s \<Rightarrow>
          (case size_pattern (py_lower (py_strip s)) of
             None \<Rightarrow> Inl (invalid_request [Text ''size must follow the WIDTHxHEIGHT format''] (Some ''size''))
           | Some (w, h) \<Rightarrow>
               ebind (ensure_dimension (JInt (int (parse_nat w))) ''size'') (\<lambda>width.
               ebind (ensure_dimension (JInt (int (parse_nat h))) ''size'') (\<lambda>height.
               Inr (width, height))))
      | _ \<Rightarrow> Inl (invalid_request [Text ''size must be a string formatted as WIDTHxHEIGHT''] (Some ''size'')))"

definition derive_dimensions :: "object \<Rightarrow> api_error + (int \<times> int)" where
  "derive_dimensions payload =
     (if jget payload ''size'' \<noteq> JNull then parse_size_field (jget payload ''size'')
      else
        (let width = jget payload ''width''; height = jget payload ''height''
         in if width = JNull \<and> height = JNull then Inr (512, 512)
            else if width = JNull
            then Inl (invalid_request [Text ''Missing required parameter: width''] (Some ''width''))
            else if height = JNull
            then Inl (invalid_request [Text ''Missing required parameter: height''] (Some ''height''))
            else ebind (ensure_dimension width ''width'') (\<lambda>w.
                 ebind (ensure_dimension height ''height'') (\<lambda>h. Inr (w, h)))))"

text \<open>The dictionary the validator returns; the seed is passed on as it came.\<close>

record image_request =
  im_prompt :: string
  im_seed :: json
  im_width :: int
  im_height :: int

definition validate_image_generation_payload :: "json \<Rightarrow> api_error + image_request" where
  "validate_image_generation_payload payload =
     (case payload of
        JDict data \<Rightarrow>
          ebind (validate_required_fields data [''prompt'']) (\<lambda>_.
          ebind (validate_field_type data ''prompt'' StrType False) (\<lambda>_.
          let prompt = (case jget data ''prompt'' of JStr s \<Rightarrow> py_strip s | _ \<Rightarrow> [])
          in ebind (echeck (prompt = [])
               (invalid_request [Text ''prompt must be a non-empty string''] (Some ''prompt''))) (\<lambda>_.
             ebind (validate_field_type data ''seed'' IntType True) (\<lambda>_.
             let seed = jget data ''seed''
             in ebind (echeck (case jint seed of Some n \<Rightarrow> n < 0 | None \<Rightarrow> False)
                  (invalid_request [Text ''seed must be a non-negative integer''] (Some ''seed''))) (\<lambda>_.
                ebind (derive_dimensions data) (\<lambda>(width, height).
                Inr \<lparr>im_prompt = prompt, im_seed = seed, im_width = width, im_height = height\<rparr>))))))
      | _ \<Rightarrow> Inl (invalid_request [Text ''Invalid request body: expected a JSON object''] None))"

section \<open>Chat messages\<close>

definition valid_roles :: "string list" where
  "valid_roles = [''system'', ''user'', ''assistant'', ''function'']"

definition text_types :: "string list" where
  "text_types = [''input_text'', ''text'']"

definition image_types :: "string list" where
  "image_types = [''image_url'', ''input_image'', ''image'']"

definition at_message :: "nat \<Rightarrow> string" where
  "at_message i = ''messages['' @ show_nat i @ '']''"

definition at_item :: "nat \<Rightarrow> nat \<Rightarrow> string" where
  "at_item i j = at_message i @ ''.content['' @ show_nat j @ '']''"

definition messages_error :: "piece list \<Rightarrow> api_error" where
  "messages_error message = invalid_request message (Some ''messages'')"

definition validate_content_item :: "nat \<Rightarrow> nat \<Rightarrow> json \<Rightarrow> api_error + unit" where
  "validate_content_item i j item =
     (case item of
        JDict d \<Rightarrow>
          (let ty = jget d ''type'' in
           if \<not> hashable ty then Inl UnhashableTypeError
           else if ty \<in> JStr ` set text_types
           then (case jget d ''text'' of
                   JStr s \<Rightarrow>
                     echeck (s = []) (messages_error [Text (at_item i j @ ''.text must be a non-empty string'')])
                 | _ \<Rightarrow> Inl (messages_error [Text (at_item i j @ ''.text must be a non-empty string'')]))
           else if ty \<in> JStr ` set image_types
           then Inl (messages_error
                  [Text ''API v1 chat completions are text-only and do not support image content''])
           else Inl (messages_error
                  [Text (''Unsupported content type in '' @ at_message i @ '': ''), Value ty]))
      | _ \<Rightarrow> Inl (messages_error [Text (at_item i j @ '' must be an object'')]))"

fun validate_content_items :: "nat \<Rightarrow> nat \<Rightarrow> json list \<Rightarrow> api_error + unit" where
  "validate_content_items i j [] = Inr ()"
| "validate_content_items i j (item # items) =
     ebind (validate_content_item i j item) (\<lambda>_. validate_content_items i (j + 1) items)"

definition validate_content :: "nat \<Rightarrow> json \<Rightarrow> api_error + unit" where
  "validate_content i content =
     (case content of
        JStr _ \<Rightarrow> Inr ()
      | JList items \<Rightarrow>
          if items = []
          then Inl (messages_error [Text (at_message i @ ''.content must contain at least one item'')])
          else validate_content_items i 0 items
      | _ \<Rightarrow> Inl (messages_error
               [Text (at_message i @ ''.content must be a string or array of text content blocks'')]))"

definition validate_message :: "nat \<Rightarrow> json \<Rightarrow> api_error + unit" where
  "validate_message i message =
     (case message of
        JDict d \<Rightarrow>
          ebind (validate_required_fields d [''role'', ''content'']) (\<lambda>_.
          ebind (validate_field_type d ''role'' StrType False) (\<lambda>_.
          ebind (echeck (jget d ''role'' \<notin> JStr ` set valid_roles)
            (messages_error [Text (''Invalid role in '' @ at_message i @ '': ''), Value (jget d ''role'')])) (\<lambda>_.
          validate_content i (jget d ''content''))))
      | _ \<Rightarrow> Inl (messages_error [Text (at_message i @ '' must be an object'')]))"

fun validate_messages_from :: "nat \<Rightarrow> json list \<Rightarrow> api_error + unit" where
  "validate_messages_from i [] = Inr ()"
| "validate_messages_from i (m # ms) =
     ebind (validate_message i m) (\<lambda>_. validate_messages_from (i + 1) ms)"

definition validate_chat_messages :: "json \<Rightarrow> api_error + unit" where
  "validate_chat_messages messages =
     (case messages of
        JList ms \<Rightarrow>
          if ms = [] then Inl (messages_error [Text ''messages must contain at least one item''])
          else validate_messages_from 0 ms
      | _ \<Rightarrow> Inl (messages_error [Text ''messages must be an array'']))"

section \<open>Encrypted requests and models\<close>

definition cipher_fields :: "string list" where
  "cipher_fields = [''ciphertext'', ''cipherkey'', ''iv'']"

fun validate_base64_fields :: "object \<Rightarrow> string list \<Rightarrow> api_error + unit" where
  "validate_base64_fields messages [] = Inr ()"
| "validate_base64_fields messages (field # fs) =
     ebind (if dmem field messages then validate_base64 messages field else Inr ())
       (\<lambda>_. validate_base64_fields messages fs)"

definition validate_encrypted_request :: "object \<Rightarrow> api_error + unit" where
  "validate_encrypted_request data =
     ebind (validate_required_fields data [''client_public_key'', ''messages'']) (\<lambda>_.
     ebind (validate_field_type data ''client_public_key'' StrType False) (\<lambda>_.
     case jget_default data ''messages'' (JDict []) of
       JDict messages \<Rightarrow>
         ebind (validate_required_fields messages cipher_fields) (\<lambda>_.
         validate_base64_fields messages cipher_fields)
     | _ \<Rightarrow> Inl (messages_error [Text ''messages must be an object for encrypted requests''])))"

definition validate_model_name :: "string \<Rightarrow> string list \<Rightarrow> api_error + unit" where
  "validate_model_name model_name available_models =
     (if model_name \<notin> set available_models
      then Inl (ValidationError [Text (''Model '' @ [CHR 0x27] @ model_name @ [CHR 0x27] @ '' not found'')]
             (Some ''model'') ''model_not_found'')
      else Inr ())"

section \<open>Loops that stop at the first error\<close>

lemma all_less_Suc_shift: "(\<forall>k < Suc n. P k) \<longleftrightarrow> P 0 \<and> (\<forall>k < n. P (Suc k))"
  by (simp add: less_Suc_eq_0_disj) blast

lemma ex_less_Suc_shift: "(\<exists>k < length (x # xs). P k) \<longleftrightarrow> P 0 \<or> (\<exists>k < length xs. P (Suc k))"
  by (simp add: less_Suc_eq_0_disj) blast

text \<open>The contract of a loop that runs a check on each element with its position.\<close>

locale checked_loop =
  fixes check :: "nat \<Rightarrow> 'a \<Rightarrow> 'e + unit" and loop :: "nat \<Rightarrow> 'a list \<Rightarrow> 'e + unit"
  assumes loop_Nil: "loop i [] = Inr ()"
    and loop_Cons: "loop i (x # xs) = ebind (check i x) (\<lambda>_. loop (i + 1) xs)"
begin

lemma loop_cases: "loop i xs = Inr () \<or> (\<exists>e. loop i xs = Inl e)"
  by (cases "loop i xs") auto

text \<open>The loop passes when no check fails, and otherwise raises the error of the first that does.\<close>

lemma loop_first_error:
  "loop i xs = Inl e \<longleftrightarrow>
     (\<exists>k < length xs. check (i + k) (xs ! k) = Inl e \<and> (\<forall>j < k. check (i + j) (xs ! j) = Inr ()))"
proof (induction xs arbitrary: i)
  case Nil
  show ?case by (simp add: loop_Nil)
next
  case (Cons x xs)
  show ?case
  proof (cases "check i x")
    case (Inl e')
    have "(\<exists>k < length (x # xs). check (i + k) ((x # xs) ! k) = Inl e
        \<and> (\<forall>j < k. check (i + j) ((x # xs) ! j) = Inr ())) \<longleftrightarrow> e = e'"
      using Inl by (subst ex_less_Suc_shift) (auto simp: all_less_Suc_shift)
    then show ?thesis by (auto simp: loop_Cons Inl)
  next
    case (Inr u)
    have "(\<exists>k < length (x # xs). check (i + k) ((x # xs) ! k) = Inl e
        \<and> (\<forall>j < k. check (i + j) ((x # xs) ! j) = Inr ()))
      \<longleftrightarrow> (\<exists>k < length xs. check (Suc i + k) (xs ! k) = Inl e \<and> (\<forall>j < k. check (Suc i + j) (xs ! j) = Inr ()))"
      using Inr by (subst ex_less_Suc_shift) (auto simp: all_less_Suc_shift)
    then show ?thesis by (simp add: loop_Cons Inr Cons)
  qed
qed

lemma loop_accepts: "loop i xs = Inr () \<longleftrightarrow> (\<forall>k < length xs. check (i + k) (xs ! k) = Inr ())"
proof (induction xs arbitrary: i)
  case Nil
  show ?case by (simp add: loop_Nil)
next
  case (Cons x xs)
  have "(\<forall>k < length (x # xs). check (i + k) ((x # xs) ! k) = Inr ())
      \<longleftrightarrow> check i x = Inr () \<and> (\<forall>k < length xs. check (Suc i + k) (xs ! k) = Inr ())"
    by (auto simp: all_less_Suc_shift)
  then show ?case by (cases "check i x") (simp_all add: loop_Cons Cons)
qed

text \<open>When acceptance does not depend on the position it is a test of every element.\<close>

lemma loop_accepts_all:
  assumes "\<And>i x. check i x = Inr () \<longleftrightarrow> P x"
  shows "loop i xs = Inr () \<longleftrightarrow> list_all P xs"
  by (simp add: loop_accepts assms list_all_length)

end

interpretation items_loop: checked_loop "validate_content_item i" "validate_content_items i" for i
  by unfold_locales simp_all

interpretation messages_loop: checked_loop validate_message validate_messages_from
  by unfold_locales simp_all

interpretation required_loop: checked_loop
  "\<lambda>_ f. echeck (\<not> dmem f data) (invalid_request [Text (''Missing required parameter: '' @ f)] (Some f))"
  "\<lambda>_. validate_required_fields data" for data
  by unfold_locales (simp_all add: echeck_def)

interpretation base64_loop: checked_loop
  "\<lambda>_ f. if dmem f messages then validate_base64 messages f else Inr ()"
  "\<lambda>_. validate_base64_fields messages" for messages
  by unfold_locales simp_all

section \<open>What passes\<close>

lemma required_accepts: "validate_required_fields data fs = Inr () \<longleftrightarrow> list_all (\<lambda>f. dmem f data) fs"
  by (rule required_loop.loop_accepts_all) simp

lemma field_type_accepts:
  "validate_field_type data field ty none = Inr () \<longleftrightarrow>
     (case dget data field of None \<Rightarrow> True | Some v \<Rightarrow> v = JNull \<and> none \<or> has_type v ty)"
  by (auto simp: validate_field_type_def split: option.splits)

subsection \<open>Chat messages\<close>

text \<open>The specification: a block with a text, and a message with a known role and text content.\<close>

definition text_block :: "json \<Rightarrow> bool" where
  "text_block item \<longleftrightarrow>
     (\<exists>d ty s. item = JDict d \<and> jget d ''type'' = JStr ty \<and> ty \<in> set text_types
        \<and> jget d ''text'' = JStr s \<and> s \<noteq> [])"

definition text_content :: "json \<Rightarrow> bool" where
  "text_content content \<longleftrightarrow>
     is_jstr content \<or> (\<exists>items. content = JList items \<and> items \<noteq> [] \<and> list_all text_block items)"

definition chat_message :: "json \<Rightarrow> bool" where
  "chat_message m \<longleftrightarrow>
     (\<exists>d r content. m = JDict d \<and> dget d ''role'' = Some (JStr r) \<and> r \<in> set valid_roles
        \<and> dget d ''content'' = Some content \<and> text_content content)"

lemma content_item_accepts: "validate_content_item i j item = Inr () \<longleftrightarrow> text_block item"
proof (cases item)
  case (JDict d)
  show ?thesis
  proof (cases "\<exists>ty. jget d ''type'' = JStr ty \<and> ty \<in> set text_types")
    case True
    then show ?thesis using JDict
      by (auto simp: validate_content_item_def text_block_def split: json.splits)
  next
    case False
    then show ?thesis using JDict
      by (auto simp: validate_content_item_def text_block_def Let_def)
  qed
qed (simp_all add: validate_content_item_def text_block_def)

lemma content_accepts: "validate_content i content = Inr () \<longleftrightarrow> text_content content"
  by (cases content)
    (simp_all add: validate_content_def text_content_def items_loop.loop_accepts_all [OF content_item_accepts])

lemma message_accepts: "validate_message i m = Inr () \<longleftrightarrow> chat_message m"
proof (cases m)
  case (JDict d)
  show ?thesis
  proof (cases "dget d ''role'' \<noteq> None \<and> dget d ''content'' \<noteq> None")
    case True
    then obtain r c where rc: "dget d ''role'' = Some r" "dget d ''content'' = Some c" by blast
    show ?thesis using JDict rc
      by (cases r) (auto simp: validate_message_def chat_message_def ebind_Inr required_accepts
          field_type_accepts jget_present dmem_def content_accepts)
  next
    case False
    then have "validate_required_fields d [''role'', ''content''] \<noteq> Inr ()"
      by (auto simp: required_accepts dmem_def)
    then show ?thesis using False JDict by (auto simp: validate_message_def chat_message_def ebind_Inr)
  qed
qed (simp_all add: validate_message_def chat_message_def)

lemma chat_accepts:
  "validate_chat_messages v = Inr () \<longleftrightarrow> (\<exists>ms. v = JList ms \<and> ms \<noteq> [] \<and> list_all chat_message ms)"
  by (cases v) (simp_all add: validate_chat_messages_def messages_loop.loop_accepts_all [OF message_accepts])

text \<open>
  A rejection names one of the three fields, or is the \<^verbatim>\<open>TypeError\<close> of a block whose
  type is a list or a dict.
\<close>

definition names_message_field :: "api_error \<Rightarrow> bool" where
  "names_message_field e \<longleftrightarrow>
     (\<exists>message field. e = invalid_request message (Some field)
        \<and> field \<in> {''messages'', ''role'', ''content''})"

lemma names_messages_error [simp]: "names_message_field (messages_error m)"
  unfolding names_message_field_def messages_error_def by blast

lemma content_item_error:
  "validate_content_item i j item = Inl e \<Longrightarrow> e = UnhashableTypeError \<or> names_message_field e"
  by (auto simp: validate_content_item_def Let_def split: json.splits if_splits)

lemma message_error:
  assumes "validate_message i m = Inl e"
  shows "e = UnhashableTypeError \<or> names_message_field e"
proof (cases m)
  case (JDict d)
  have "validate_content i c = Inl e \<Longrightarrow> e = UnhashableTypeError \<or> names_message_field e" for c
    by (cases c) (auto simp: validate_content_def items_loop.loop_first_error split: if_splits
        dest: content_item_error)
  moreover have "validate_required_fields d [''role'', ''content''] = Inl e \<Longrightarrow> names_message_field e"
    by (auto simp: names_message_field_def split: if_splits)
  moreover have "validate_field_type d ''role'' StrType False = Inl e \<Longrightarrow> names_message_field e"
    by (auto simp: validate_field_type_def names_message_field_def split: option.splits if_splits)
  ultimately show ?thesis using assms JDict
    by (auto simp: validate_message_def ebind_Inl)
qed (use assms in \<open>auto simp: validate_message_def\<close>)

subsection \<open>Base64\<close>

text \<open>
  The specification: digits, then padding that fills the last group. A text whose digits
  already form whole groups may carry any amount of padding.
\<close>

definition b64_shape :: "string \<Rightarrow> bool" where
  "b64_shape s \<longleftrightarrow>
     (let body = takeWhile is_b64 s; pads = dropWhile is_b64 s;
          q = length body mod 4; k = length pads
      in pads = replicate k pad_char
         \<and> (q = 0 \<and> (body = [] \<longrightarrow> k = 0) \<or> q = 2 \<and> k = 2 \<or> q = 3 \<and> k = 1))"

lemma pad_not_b64 [simp]: "\<not> is_b64 pad_char"
  by code_simp

lemma is_b64_ascii: "is_b64 c \<Longrightarrow> char_code c < 128"
  by (auto simp: is_b64_def Let_def)

lemma scan_body:
  "list_all is_b64 body \<Longrightarrow> q < 4 \<Longrightarrow>
     b64_scan q 0 False (body @ rest) = b64_scan ((q + length body) mod 4) 0 False rest"
proof (induction body arbitrary: q)
  case (Cons c body)
  then have "c \<noteq> pad_char" by auto
  with Cons show ?case by (simp add: mod_simps)
qed simp

lemma scan_padding:
  "b64_scan 0 p True s \<longleftrightarrow> s = replicate (length s) pad_char"
  "\<not> b64_scan (Suc 0) p True s"
  by (induction s arbitrary: p) auto

lemma scan_rest:
  assumes "q < 4" and "rest = [] \<or> \<not> is_b64 (hd rest)"
  shows "b64_scan q 0 False rest \<longleftrightarrow>
     rest = replicate (length rest) pad_char \<and> (q = 0 \<or> q = 2 \<and> length rest = 2 \<or> q = 3 \<and> length rest = 1)"
proof -
  consider "q = 0" | "q = 1" | "q = 2" | "q = 3" using assms(1) by linarith
  then show ?thesis
  proof cases
    case 3
    show ?thesis
    proof (cases rest)
      case (Cons c cs)
      then show ?thesis using 3 assms(2) by (cases cs) auto
    qed (simp add: 3)
  qed (use assms(2) in \<open>cases rest; auto simp: scan_padding\<close>)+
qed

lemma b64decodes_shape: "b64decodes s \<longleftrightarrow> b64_shape s"
proof -
  define body rest where "body = takeWhile is_b64 s" and "rest = dropWhile is_b64 s"
  have s: "s = body @ rest" by (simp add: body_def rest_def)
  have body: "list_all is_b64 body" by (auto simp: body_def list_all_iff dest: set_takeWhileD)
  have rest: "rest = [] \<or> \<not> is_b64 (hd rest)" by (metis hd_dropWhile rest_def)
  have ascii: "list_all (\<lambda>c. char_code c < 128) s" if "rest = replicate (length rest) pad_char"
  proof -
    have "char_code pad_char < 128" by code_simp
    then have "list_all (\<lambda>c. char_code c < 128) (replicate (length rest) pad_char)"
      by (simp add: list_all_iff)
    with that body is_b64_ascii show ?thesis by (auto simp: s list_all_iff)
  qed
  have "b64_scan 0 0 False s \<longleftrightarrow> b64_scan (length body mod 4) 0 False rest"
    using scan_body [OF body, of 0 rest] by (simp add: s)
  also have "\<dots> \<longleftrightarrow> rest = replicate (length rest) pad_char
      \<and> (length body mod 4 = 0 \<or> length body mod 4 = 2 \<and> length rest = 2 \<or> length body mod 4 = 3 \<and> length rest = 1)"
    by (rule scan_rest) (use rest in auto)
  finally have scan: "b64_scan 0 0 False s \<longleftrightarrow> \<dots>" .
  have start: "s = [] \<or> hd s \<noteq> pad_char \<longleftrightarrow> (body = [] \<longrightarrow> rest = [])" if "rest = replicate (length rest) pad_char"
  proof (cases body)
    case Nil
    then show ?thesis using that s by (cases rest) auto
  next
    case (Cons c cs)
    with body have "c \<noteq> pad_char" by auto
    with Cons s show ?thesis by simp
  qed
  show ?thesis
    unfolding b64decodes_def scan b64_shape_def Let_def body_def [symmetric] rest_def [symmetric]
    using ascii start by auto
qed

lemma base64_accepts:
  "validate_base64 data field = Inr () \<longleftrightarrow> (case dget data field of Some (JStr s) \<Rightarrow> b64_shape s | _ \<Rightarrow> True)"
  by (auto simp: validate_base64_def b64decodes_shape split: option.splits json.splits)

text \<open>A ciphertext field that passes: base64 text, or any value that is no text.\<close>

definition cipher_value :: "json \<Rightarrow> bool" where
  "cipher_value v \<longleftrightarrow> (case v of JStr s \<Rightarrow> b64_shape s | _ \<Rightarrow> True)"

lemma encrypted_accepts:
  "validate_encrypted_request data = Inr () \<longleftrightarrow>
     (\<exists>key envelope. dget data ''client_public_key'' = Some (JStr key) \<and> dget data ''messages'' = Some (JDict envelope)
        \<and> list_all (\<lambda>f. \<exists>v. dget envelope f = Some v \<and> cipher_value v) cipher_fields)"
proof -
  have fields: "validate_required_fields m cipher_fields = Inr () \<and> validate_base64_fields m cipher_fields = Inr ()
      \<longleftrightarrow> list_all (\<lambda>f. \<exists>v. dget m f = Some v \<and> cipher_value v) cipher_fields" for m
  proof -
    have "validate_base64_fields m cipher_fields = Inr () \<longleftrightarrow> list_all (\<lambda>f. dmem f m \<longrightarrow> validate_base64 m f = Inr ()) cipher_fields"
      by (rule base64_loop.loop_accepts_all) auto
    then show ?thesis
      by (auto simp: required_accepts cipher_fields_def dmem_def base64_accepts cipher_value_def)
  qed
  show ?thesis
  proof (cases "dget data ''client_public_key''"; cases "dget data ''messages''")
    fix k m assume km: "dget data ''client_public_key'' = Some k" "dget data ''messages'' = Some m"
    show ?thesis
      by (cases m) (use fields in \<open>auto simp: validate_encrypted_request_def ebind_Inr km required_accepts
          dmem_def field_type_accepts jget_default_def is_jstr_iff\<close>)
  qed (simp_all add: validate_encrypted_request_def ebind_Inr required_accepts dmem_def)
qed

subsection \<open>Sizes\<close>

lemma dimension_accepts:
  "ensure_dimension v field = Inr n \<longleftrightarrow> jint v = Some n \<and> dimension_low \<le> n \<and> n \<le> dimension_high"
  by (auto simp: ensure_dimension_def split: option.splits)

lemma derive_bounds:
  assumes "derive_dimensions payload = Inr (w, h)"
  shows "dimension_low \<le> w \<and> w \<le> dimension_high \<and> dimension_low \<le> h \<and> h \<le> dimension_high"
  using assms
  by (auto simp: derive_dimensions_def parse_size_field_def ebind_Inr dimension_accepts Let_def
      dimension_low_def dimension_high_def split: if_splits json.splits option.splits)

lemma strip_padding:
  assumes "list_all is_space pre" and "list_all is_space post"
    and "s \<noteq> []" and "\<not> is_space (hd s)" and "\<not> is_space (last s)"
  shows "py_strip (pre @ s @ post) = s"
proof -
  have "dropWhile is_space (pre @ s @ post) = s @ post"
    using assms by (subst dropWhile_append2) (auto simp: list_all_iff dropWhile_eq_self_iff hd_append)
  moreover have "dropWhile is_space (rev post @ rev s) = rev s"
    using assms by (subst dropWhile_append2) (auto simp: list_all_iff dropWhile_eq_self_iff hd_rev)
  ultimately show ?thesis by (simp add: py_strip_def)
qed

lemma digit_lower: "is_digit c \<Longrightarrow> lower_char c = c"
  by (auto simp: is_digit_def lower_char_def Let_def)

lemma digit_not_space: "is_digit c \<Longrightarrow> \<not> is_space c"
  by (auto simp: is_digit_def is_space_def Let_def)

lemma digits_lower: "list_all is_digit s \<Longrightarrow> py_lower s = s"
  by (induction s) (simp_all add: py_lower_def digit_lower)

lemma x_not_digit: "\<not> is_digit (CHR ''x'')"
  by code_simp

lemma size_pattern_digits:
  assumes "list_all is_digit w" and "list_all is_digit h"
    and "2 \<le> length w" "length w \<le> 4" "2 \<le> length h" "length h \<le> 4"
  shows "size_pattern (w @ CHR ''x'' # h) = Some (w, h)"
proof -
  have "takeWhile is_digit (w @ CHR ''x'' # h) = w" "dropWhile is_digit (w @ CHR ''x'' # h) = CHR ''x'' # h"
    using assms(1) x_not_digit by (auto simp: list_all_iff takeWhile_append2 dropWhile_append2)
  with assms show ?thesis by (simp add: size_pattern_def)
qed

end
