(* ===== verification/Compute_Provider.thy ===== *)
theory Compute_Provider
  imports Relay_Settings Model_Profiles Api_Validation
begin

text \<open>
  The compute providers of \<^verbatim>\<open>src/api/v1/compute_provider.py\<close>: which relay a deployment
  targets, and the client that dispatches a chat request through the relay, polls for the
  encrypted response and gives up at a deadline.

  The network, the clock, sleeping and the local generator are a \<open>world\<close>; the state of a
  call has that world, the requests it sent so far with their outcomes, and the diagnostics label
  \<^verbatim>\<open>_last_backend_path\<close>.
\<close>

section \<open>Floats\<close>

text \<open>
  The arithmetic of the interpreter on finite doubles is a parameter; the special values
  follow IEEE 754.
\<close>

record float_ops =
  fo_plus :: "rat \<Rightarrow> rat \<Rightarrow> pyfloat"
  fo_minus :: "rat \<Rightarrow> rat \<Rightarrow> pyfloat"
  fo_div :: "rat \<Rightarrow> rat \<Rightarrow> pyfloat"

fun pf_plus :: "float_ops \<Rightarrow> pyfloat \<Rightarrow> pyfloat \<Rightarrow> pyfloat" where
  "pf_plus F (FNum a) (FNum b) = fo_plus F a b"
| "pf_plus F FNan b = FNan"
| "pf_plus F a FNan = FNan"
| "pf_plus F FPosInf FNegInf = FNan"
| "pf_plus F FNegInf FPosInf = FNan"
| "pf_plus F FPosInf b = FPosInf"
| "pf_plus F FNegInf b = FNegInf"
| "pf_plus F a b = b"

text \<open>\<open>pf_minus F a b\<close> subtracts a finite number, \<open>pf_div F a b\<close> divides by a positive one.\<close>

fun pf_minus :: "float_ops \<Rightarrow> pyfloat \<Rightarrow> rat \<Rightarrow> pyfloat" where
  "pf_minus F (FNum a) b = fo_minus F a b"
| "pf_minus F a b = a"

fun pf_div :: "float_ops \<Rightarrow> pyfloat \<Rightarrow> rat \<Rightarrow> pyfloat" where
  "pf_div F (FNum a) b = fo_div F a b"
| "pf_div F a b = a"

definition INFERENCE_RESPONSE_GRACE_SECONDS :: rat where
  "INFERENCE_RESPONSE_GRACE_SECONDS = 5"

definition DEFAULT_INFERENCE_TRANSPORT_TIMEOUT_SECONDS :: rat where
  "DEFAULT_INFERENCE_TRANSPORT_TIMEOUT_SECONDS =
     DEFAULT_INFERENCE_TIMEOUT_SECONDS + INFERENCE_RESPONSE_GRACE_SECONDS"

section \<open>Errors\<close>

record provider_error =
  ce_message :: "piece list"
  ce_code :: string
  ce_error_type :: string
  ce_public_message :: string
  ce_status_code :: int

record model_error =
  me_message :: "piece list"
  me_status_code :: int
  me_error_type :: string

text \<open>\<open>OtherException\<close> is any exception class the code does not name, with its text.\<close>

datatype api_exception =
    ComputeProviderError provider_error
  | ModelError model_error
  | OtherException string

text \<open>The constructor with the defaults of its keyword arguments.\<close>

definition provider_error_default :: "piece list \<Rightarrow> api_exception" where
  "provider_error_default message =
     ComputeProviderError
       \<lparr>ce_message = message, ce_code = ''compute_provider_error'', ce_error_type = ''server_error'',
        ce_public_message = ''Unable to generate a response right now.'', ce_status_code = 502\<rparr>"

definition RELAY_ERROR_MAP :: "(string, string \<times> string \<times> int) dict" where
  "RELAY_ERROR_MAP =
     [(''no_registered_compute_nodes'',
        (''service_unavailable_error'', ''No LLM servers are available right now.'', 503)),
      (''compute_node_timeout'',
        (''timeout_error'', ''The LLM server took too long to respond. Please try again.'', 504)),
      (''compute_node_request_cancelled'',
        (''timeout_error'', ''The LLM server request expired before it could be answered. Please try again.'', 504)),
      (''compute_node_bridge_timeout'',
        (''timeout_error'', ''The LLM server took too long to respond. Please try again.'', 504)),
      (''compute_node_unreachable'',
        (''service_unavailable_error'', ''The LLM server is unavailable right now. Please try again.'', 503)),
      (''compute_node_bridge_error'',
        (''server_error'', ''Unable to contact the LLM server right now. Please try again.'', 502)),
      (''compute_node_invalid_payload'',
        (''server_error'', ''The LLM server returned an invalid response. Please try again.'', 502))]"

definition error_from_code :: "string \<Rightarrow> piece list \<Rightarrow> api_exception" where
  "error_from_code code message =
     (let (error_type, public_message, status) =
        (case dget RELAY_ERROR_MAP code of
           Some mapped \<Rightarrow> mapped
         | None \<Rightarrow> (''server_error'', ''Unable to generate a response right now.'', 502))
      in ComputeProviderError
           \<lparr>ce_message = message, ce_code = code, ce_error_type = error_type,
            ce_public_message = public_message, ce_status_code = status\<rparr>)"

section \<open>The world\<close>

datatype http_method = HttpGet | HttpPost

text \<open>The body of a \<^verbatim>\<open>post\<close> is its JSON, of a \<^verbatim>\<open>get\<close> its query parameters.\<close>

record http_call =
  hc_method :: http_method
  hc_url :: string
  hc_body :: object
  hc_timeout :: pyfloat

text \<open>
  What a call of \<^verbatim>\<open>requests\<close> comes to: a \<^verbatim>\<open>RequestException\<close> or another exception with its
  text, or a response with its status and, unless \<^verbatim>\<open>.json()\<close> raises \<^verbatim>\<open>ValueError\<close>, its value.
\<close>

datatype http_outcome =
    RequestFailed string
  | RequestRaised string
  | HttpReply int "json option"

record 'w world =
  wo_time :: "'w \<Rightarrow> rat \<times> 'w"
  wo_sleep :: "pyfloat \<Rightarrow> 'w \<Rightarrow> 'w"
  wo_http :: "http_call \<Rightarrow> 'w \<Rightarrow> http_outcome \<times> 'w"
  wo_generate :: "string \<Rightarrow> json list \<Rightarrow> object \<Rightarrow> 'w \<Rightarrow> (api_exception + json list) \<times> 'w"

text \<open>
  The crypto manager made for one request: its public key, encryption for a node's key
  (\<open>Inl\<close> an exception) and decryption (\<open>None\<close> when it fails).
\<close>

record crypto =
  cr_public_key_b64 :: string
  cr_encrypt_message :: "json \<Rightarrow> string \<Rightarrow> string + object"
  cr_decrypt_message :: "object \<Rightarrow> json option"

record 'w client =
  ct_world :: 'w
  ct_log :: "(http_call \<times> http_outcome) list"
  ct_last_backend_path :: string

type_synonym ('w, 'a) client_act = "('w client, api_exception, 'a) effect"

definition raise :: "api_exception \<Rightarrow> ('w, 'a) client_act" where
  "raise e = lift (Inl e)"

definition read_clock :: "'w world \<Rightarrow> ('w, rat) client_act" where
  "read_clock W = (\<lambda>s. let (t, w) = wo_time W (ct_world s) in (Inr t, s\<lparr>ct_world := w\<rparr>))"

definition sleep :: "'w world \<Rightarrow> pyfloat \<Rightarrow> ('w, unit) client_act" where
  "sleep W d = (\<lambda>s. (Inr (), s\<lparr>ct_world := wo_sleep W d (ct_world s)\<rparr>))"

definition send :: "'w world \<Rightarrow> http_call \<Rightarrow> ('w, http_outcome) client_act" where
  "send W call =
     (\<lambda>s. let (r, w) = wo_http W call (ct_world s)
          in (Inr r, s\<lparr>ct_world := w, ct_log := ct_log s @ [(call, r)]\<rparr>))"

definition set_backend_path :: "string \<Rightarrow> ('w, unit) client_act" where
  "set_backend_path label = (\<lambda>s. (Inr (), s\<lparr>ct_last_backend_path := label\<rparr>))"

section \<open>Results and providers\<close>

record completion_result =
  cm_message :: object
  cm_finish_reason :: "string option"
  cm_usage :: "object option"
  cm_output_budget :: "object option"

datatype provider =
    LocalApiV1ComputeProvider
  | DistributedApiV1ComputeProvider string pyfloat
  | FallbackApiV1ComputeProvider provider provider

definition local_complete_chat ::
  "'w world \<Rightarrow> string \<Rightarrow> json list \<Rightarrow> object \<Rightarrow> ('w, completion_result) client_act" where
  "local_complete_chat W model messages options =
     sbind (\<lambda>s. let (r, w) = wo_generate W model messages options (ct_world s) in (r, s\<lparr>ct_world := w\<rparr>)) (\<lambda>updated.
       if updated = [] then raise (provider_error_default [Text ''model returned an empty message list''])
       else case last updated of
         JDict m \<Rightarrow>
           sbind (set_backend_path ''local_in_process'') (\<lambda>_.
             ret \<lparr>cm_message = m, cm_finish_reason = None, cm_usage = None, cm_output_budget = None\<rparr>)
       | _ \<Rightarrow> raise (provider_error_default [Text ''assistant response must be a message object'']))"

section \<open>Dispatch through the relay\<close>

definition rstrip_slash :: "string \<Rightarrow> string" where
  "rstrip_slash s = rev (dropWhile (\<lambda>c. c = CHR ''/'') (rev s))"

definition ends_with :: "string \<Rightarrow> string \<Rightarrow> bool" where
  "ends_with s e \<longleftrightarrow> length e \<le> length s \<and> drop (length s - length e) s = e"

definition relay_url :: "string \<Rightarrow> string \<Rightarrow> string" where
  "relay_url base path =
     (let base_url = rstrip_slash base
      in base_url @ (if ends_with base_url ''/api/v1'' \<and> take 8 path = ''/api/v1/'' then drop 7 path else path))"

definition poll_interval_seconds :: "float_ops \<Rightarrow> pyfloat \<Rightarrow> pyfloat" where
  "poll_interval_seconds F timeout =
     f_min (f_max (pf_div F timeout 20) (FNum (1 / 10))) (FNum (1 / 2))"

text \<open>
  What stays fixed during one call: the relay, the timeout, the key pair, and the two random
  identifiers of the request.
\<close>

record 'w dispatch =
  di_world :: "'w world"
  di_floats :: float_ops
  di_environ :: environ
  di_base_url :: string
  di_timeout_seconds :: pyfloat
  di_crypto :: crypto
  di_request_id :: string
  di_cancel_token :: string

definition relay_timeout :: "'w dispatch \<Rightarrow> pyfloat" where
  "relay_timeout D = f_max (di_timeout_seconds D) (FNum 1)"

definition post :: "'w dispatch \<Rightarrow> string \<Rightarrow> object \<Rightarrow> pyfloat \<Rightarrow> http_call" where
  "post D path body timeout =
     \<lparr>hc_method = HttpPost, hc_url = relay_url (di_base_url D) path, hc_body = body, hc_timeout = timeout\<rparr>"

definition timeout_error :: api_exception where
  "timeout_error =
     error_from_code ''compute_node_timeout''
       [Text ''timed out waiting for distributed relay API v1 encrypted response'']"

definition cancel_body :: "'w dispatch \<Rightarrow> string \<Rightarrow> string \<Rightarrow> object" where
  "cancel_body D status reason =
     [(''client_public_key'', JStr (cr_public_key_b64 (di_crypto D))), (''request_id'', JStr (di_request_id D)),
      (''status'', JStr status), (''reason'', JStr reason), (''cancel_token'', JStr (di_cancel_token D))]"

definition cancel_relay_request :: "'w dispatch \<Rightarrow> string \<Rightarrow> string \<Rightarrow> ('w, unit) client_act" where
  "cancel_relay_request D status reason =
     sbind (send (di_world D) (post D ''/api/v1/relay/requests/cancel'' (cancel_body D status reason) (FNum 1)))
       (\<lambda>r. case r of RequestRaised e \<Rightarrow> raise (OtherException e) | _ \<Rightarrow> ret ())"

text \<open>The time left, or the timeout error; \<^verbatim>\<open>remaining <= 0\<close> is false of \<^verbatim>\<open>nan\<close>.\<close>

definition remaining_timeout :: "'w dispatch \<Rightarrow> pyfloat \<Rightarrow> ('w, pyfloat) client_act" where
  "remaining_timeout D deadline =
     sbind (read_clock (di_world D)) (\<lambda>t.
       let remaining = pf_minus (di_floats D) deadline t
       in if f_less (FNum 0) remaining \<or> remaining = FNan then ret remaining else raise timeout_error)"

definition next_server_call :: "'w dispatch \<Rightarrow> string \<Rightarrow> pyfloat \<Rightarrow> http_call" where
  "next_server_call D model timeout =
     \<lparr>hc_method = HttpGet, hc_url = relay_url (di_base_url D) ''/api/v1/relay/servers/next'',
      hc_body = [(''model'', JStr (if model = [] then CANONICAL_API_V1_MODEL_ID else model)),
                 (''context_tier'', JStr ''8k-fast'')],
      hc_timeout = timeout\<rparr>"

definition no_nodes :: api_exception where
  "no_nodes = error_from_code ''no_registered_compute_nodes'' [Text ''relay reported no registered compute nodes'']"

definition error_code_of :: "json option \<Rightarrow> json" where
  "error_code_of payload =
     (case payload of
        Some (JDict d) \<Rightarrow> (case jget d ''error'' of JDict e \<Rightarrow> jget e ''code'' | _ \<Rightarrow> JNull)
      | _ \<Rightarrow> JNull)"

definition invalid_payload :: "string \<Rightarrow> api_exception" where
  "invalid_payload message = error_from_code ''compute_node_invalid_payload'' [Text message]"

text \<open>The public key of the node the relay names.\<close>

definition server_key_of :: "http_outcome \<Rightarrow> api_exception + string" where
  "server_key_of outcome =
     (case outcome of
        RequestFailed e \<Rightarrow>
          Inl (error_from_code ''compute_node_unreachable'' [Text (''unable to reach relay next_server endpoint: '' @ e)])
      | RequestRaised e \<Rightarrow> Inl (OtherException e)
      | HttpReply status payload \<Rightarrow>
          if status = 503 \<and> error_code_of payload = JStr ''no_registered_compute_nodes'' then Inl no_nodes
          else if status \<ge> 500
          then Inl (error_from_code ''compute_node_unreachable''
                 [Text (''relay next_server endpoint returned unexpected status '' @ show_int status)])
          else case payload of
            None \<Rightarrow> Inl (invalid_payload ''relay next_server response was not valid JSON'')
          | Some (JDict d) \<Rightarrow>
              (case jget d ''server_public_key'' of
                 JStr key \<Rightarrow> if py_strip key = [] then Inl no_nodes else Inr key
               | _ \<Rightarrow> Inl no_nodes)
          | Some _ \<Rightarrow> Inl (invalid_payload ''relay next_server response must be an object''))"

definition PROTOCOL :: string where
  "PROTOCOL = ''tokenplace_api_v1_relay_e2ee''"

definition plaintext_envelope :: "'w dispatch \<Rightarrow> string \<Rightarrow> json list \<Rightarrow> object \<Rightarrow> json" where
  "plaintext_envelope D model messages options =
     JDict [(''protocol'', JStr PROTOCOL), (''version'', JInt 1), (''request_id'', JStr (di_request_id D)),
            (''client_public_key'', JStr (cr_public_key_b64 (di_crypto D))),
            (''api_v1_request'',
              JDict [(''model'', JStr model), (''messages'', JList messages), (''options'', JDict options)])]"

definition faucet_payload :: "'w dispatch \<Rightarrow> string \<Rightarrow> object \<Rightarrow> object" where
  "faucet_payload D key encrypted =
     fold (\<lambda>(k, v). dset k v) encrypted
       [(''client_public_key'', JStr (cr_public_key_b64 (di_crypto D))), (''server_public_key'', JStr key),
        (''request_id'', JStr (di_request_id D)), (''protocol'', JStr PROTOCOL), (''version'', JInt 1),
        (''cancel_token'', JStr (di_cancel_token D))]"

text \<open>The body of the reply to an accepted request; \<open>None\<close> when it is not JSON.\<close>

definition admission_of :: "http_outcome \<Rightarrow> api_exception + json option" where
  "admission_of outcome =
     (case outcome of
        RequestFailed e \<Rightarrow>
          Inl (error_from_code ''compute_node_unreachable''
            [Text (''unable to post encrypted request to relay faucet endpoint: '' @ e)])
      | RequestRaised e \<Rightarrow> Inl (OtherException e)
      | HttpReply status payload \<Rightarrow>
          if status = 404
          then Inl (error_from_code ''no_registered_compute_nodes''
                 [Text ''relay reported selected compute node is no longer available''])
          else if status \<noteq> 200
          then Inl (error_from_code ''compute_node_bridge_error''
                 [Text (''relay faucet endpoint returned unexpected status '' @ show_int status)])
          else Inr payload)"

text \<open>A lifetime beyond the range of floats is an uncaught \<^verbatim>\<open>OverflowError\<close>.\<close>

definition coerce_admitted_ttl :: "environ \<Rightarrow> json \<Rightarrow> api_exception + pyfloat" where
  "coerce_admitted_ttl v value =
     (case value of
        JBool _ \<Rightarrow> Inr (FNum 0)
      | JInt i \<Rightarrow>
          (case en_float_of_int v i of
             Some x \<Rightarrow> Inr (FNum x)
           | None \<Rightarrow> Inl (OtherException ''int too large to convert to float''))
      | JStr s \<Rightarrow> Inr (case en_float v s of Some x \<Rightarrow> x | None \<Rightarrow> FNum 0)
      | _ \<Rightarrow> Inr (case jfloat value of Some x \<Rightarrow> x | None \<Rightarrow> FNum 0))"

definition admitted_deadline :: "'w dispatch \<Rightarrow> json option \<Rightarrow> pyfloat \<Rightarrow> ('w, pyfloat) client_act" where
  "admitted_deadline D admission deadline =
     (case admission of
        Some (JDict d) \<Rightarrow>
          sbind (lift (coerce_admitted_ttl (di_environ D) (jget d ''request_ttl_seconds''))) (\<lambda>ttl.
            if f_less (FNum 0) ttl
            then sbind (read_clock (di_world D)) (\<lambda>t.
                   ret (pf_plus (di_floats D) (FNum t)
                     (f_min (relay_timeout D) (pf_plus (di_floats D) ttl (FNum INFERENCE_RESPONSE_GRACE_SECONDS)))))
            else ret deadline)
      | _ \<Rightarrow> ret deadline)"

text \<open>Ask the relay for a node, and give it the envelope encrypted for that node.\<close>

definition find_node :: "'w dispatch \<Rightarrow> string \<Rightarrow> pyfloat \<Rightarrow> ('w, string) client_act" where
  "find_node D model deadline =
     sbind (remaining_timeout D deadline) (\<lambda>left.
     sbind (send (di_world D) (next_server_call D model left)) (\<lambda>reply.
       lift (server_key_of reply)))"

definition enqueue_call :: "'w dispatch \<Rightarrow> string \<Rightarrow> object \<Rightarrow> pyfloat \<Rightarrow> http_call" where
  "enqueue_call D key encrypted timeout =
     post D ''/api/v1/relay/requests'' (faucet_payload D key encrypted) timeout"

definition encrypted_for :: "'w dispatch \<Rightarrow> json \<Rightarrow> string \<Rightarrow> api_exception + object" where
  "encrypted_for D plain key =
     (case cr_encrypt_message (di_crypto D) plain key of
        Inl e \<Rightarrow> Inl (invalid_payload (''failed to encrypt relay request envelope: '' @ e))
      | Inr encrypted \<Rightarrow> Inr encrypted)"

definition submit_chat :: "'w dispatch \<Rightarrow> json \<Rightarrow> string \<Rightarrow> pyfloat \<Rightarrow> ('w, pyfloat) client_act" where
  "submit_chat D plain key deadline =
     sbind (lift (encrypted_for D plain key)) (\<lambda>encrypted.
     sbind (remaining_timeout D deadline) (\<lambda>left.
     sbind (send (di_world D) (enqueue_call D key encrypted left)) (\<lambda>reply.
     sbind (lift (admission_of reply)) (\<lambda>admission.
       admitted_deadline D admission deadline))))"

text \<open>Everything up to the polling loop; the result is its deadline.\<close>

definition enqueue_chat :: "'w dispatch \<Rightarrow> string \<Rightarrow> json list \<Rightarrow> object \<Rightarrow> ('w, pyfloat) client_act" where
  "enqueue_chat D model messages options =
     sbind (set_backend_path ''distributed_relay_e2ee_pending'') (\<lambda>_.
     sbind (read_clock (di_world D)) (\<lambda>t.
     let deadline = pf_plus (di_floats D) (FNum t) (relay_timeout D)
     in sbind (find_node D model deadline) (\<lambda>key.
          submit_chat D (plaintext_envelope D model messages options) key deadline)))"

section \<open>Polling for the response\<close>

text \<open>What one answer of the relay means: try again, give up, or the completion.\<close>

datatype answer = TryAgain | GiveUp api_exception | Answered completion_result

definition text_field :: "json \<Rightarrow> string option" where
  "text_field v = (case v of JStr s \<Rightarrow> Some s | _ \<Rightarrow> None)"

definition object_field :: "json \<Rightarrow> object option" where
  "object_field v = (case v of JDict d \<Rightarrow> Some d | _ \<Rightarrow> None)"

definition completion_of :: "object \<Rightarrow> answer" where
  "completion_of response =
     (if jtruthy (jget response ''error'')
      then GiveUp (error_from_code ''compute_node_bridge_error''
             [Text ''compute node reported error: '', Value (jget response ''error'')])
      else case jget response ''message'' of
        JDict m \<Rightarrow>
          Answered \<lparr>cm_message = m, cm_finish_reason = text_field (jget response ''finish_reason''),
                    cm_usage = object_field (jget response ''usage''),
                    cm_output_budget = object_field (jget response ''output_budget'')\<rparr>
      | _ \<Rightarrow> GiveUp (invalid_payload ''compute node response missing assistant message''))"

definition read_decrypted :: "'w dispatch \<Rightarrow> json option \<Rightarrow> answer" where
  "read_decrypted D decrypted =
     (case decrypted of
        None \<Rightarrow> TryAgain
      | Some JNull \<Rightarrow> TryAgain
      | Some (JDict d) \<Rightarrow>
          if jget d ''protocol'' \<noteq> JStr PROTOCOL then TryAgain
          else if jget d ''request_id'' \<noteq> JStr (di_request_id D) then TryAgain
          else if jget d ''client_public_key'' \<noteq> JStr (cr_public_key_b64 (di_crypto D))
          then GiveUp (invalid_payload ''decrypted relay response client_public_key binding mismatch'')
          else (case jget d ''api_v1_response'' of
                  JDict response \<Rightarrow> completion_of response
                | _ \<Rightarrow> GiveUp (invalid_payload ''decrypted relay response missing api_v1_response object''))
      | Some _ \<Rightarrow> GiveUp (invalid_payload ''decrypted relay response payload must be an object''))"

definition relay_reports_closed :: "object \<Rightarrow> answer" where
  "relay_reports_closed e =
     (case jget e ''code'' of
        JStr code \<Rightarrow>
          if code \<in> {''cancelled'', ''expired''}
          then GiveUp (error_from_code ''compute_node_request_cancelled''
                 [Text (''relay reported API v1 request '' @ code)])
          else TryAgain
      | code \<Rightarrow> if hashable code then TryAgain else GiveUp (OtherException ''unhashable type''))"

definition read_payload :: "'w dispatch \<Rightarrow> object \<Rightarrow> answer" where
  "read_payload D d =
     (if jtruthy (jget d ''error'')
      then (case jget d ''error'' of JDict e \<Rightarrow> relay_reports_closed e | _ \<Rightarrow> TryAgain)
      else if \<not> (dmem ''chat_history'' d \<and> dmem ''cipherkey'' d \<and> dmem ''iv'' d) then TryAgain
      else read_decrypted D (cr_decrypt_message (di_crypto D) d))"

definition read_answer :: "'w dispatch \<Rightarrow> http_outcome \<Rightarrow> answer" where
  "read_answer D outcome =
     (case outcome of
        RequestFailed _ \<Rightarrow> TryAgain
      | RequestRaised e \<Rightarrow> GiveUp (OtherException e)
      | HttpReply status payload \<Rightarrow>
          if status = 410
          then GiveUp (error_from_code ''compute_node_request_cancelled''
                 [Text ''relay reported API v1 request expired or was cancelled''])
          else if status = 404
          then GiveUp (error_from_code ''compute_node_bridge_error''
                 [Text ''relay reported unknown API v1 response request id''])
          else if status \<noteq> 200 then TryAgain
          else case payload of Some (JDict d) \<Rightarrow> read_payload D d | _ \<Rightarrow> TryAgain)"

definition retrieve_call :: "'w dispatch \<Rightarrow> pyfloat \<Rightarrow> http_call" where
  "retrieve_call D timeout =
     post D ''/api/v1/relay/responses/retrieve''
       [(''client_public_key'', JStr (cr_public_key_b64 (di_crypto D))), (''request_id'', JStr (di_request_id D))] timeout"

text \<open>The deadline passed after the request was enqueued: cancel it, then report the timeout.\<close>

definition give_up :: "'w dispatch \<Rightarrow> ('w, 'a) client_act" where
  "give_up D = sbind (cancel_relay_request D ''expired'' ''provider_timeout'') (\<lambda>_. raise timeout_error)"

definition wait_a_little :: "'w dispatch \<Rightarrow> pyfloat \<Rightarrow> ('w, unit) client_act" where
  "wait_a_little D deadline =
     sbind (read_clock (di_world D)) (\<lambda>t.
       sleep (di_world D) (f_min (poll_interval_seconds (di_floats D) (di_timeout_seconds D))
         (f_max (pf_minus (di_floats D) deadline t) (FNum 0))))"

text \<open>One request for the response, with the time that is left as a bound of its timeout.\<close>

definition ask_relay :: "'w dispatch \<Rightarrow> pyfloat \<Rightarrow> pyfloat \<Rightarrow> ('w, completion_result option) client_act" where
  "ask_relay D deadline remaining =
     (let interval = poll_interval_seconds (di_floats D) (di_timeout_seconds D);
          timeout = f_min (pf_plus (di_floats D) interval (FNum (1 / 2))) remaining
      in sbind (send (di_world D) (retrieve_call D timeout)) (\<lambda>reply.
           case read_answer D reply of
             TryAgain \<Rightarrow> sbind (wait_a_little D deadline) (\<lambda>_. ret None)
           | GiveUp e \<Rightarrow> raise e
           | Answered c \<Rightarrow> sbind (set_backend_path ''distributed_relay_e2ee'') (\<lambda>_. ret (Some c))))"

text \<open>
  One turn of the loop with its condition; \<open>Inr None\<close> is a turn that goes on to the next.
\<close>

definition poll_turn :: "'w dispatch \<Rightarrow> pyfloat \<Rightarrow> ('w, completion_result option) client_act" where
  "poll_turn D deadline =
     sbind (read_clock (di_world D)) (\<lambda>t.
       if \<not> f_less (FNum t) deadline then give_up D
       else
         sbind (read_clock (di_world D)) (\<lambda>t.
           let remaining = pf_minus (di_floats D) deadline t
           in if \<not> (f_less (FNum 0) remaining \<or> remaining = FNan) then give_up D
              else ask_relay D deadline remaining))"

partial_function (option) poll_loop ::
  "'w dispatch \<Rightarrow> pyfloat \<Rightarrow> 'w client \<Rightarrow> ((api_exception + completion_result) \<times> 'w client) option" where
  "poll_loop D deadline s =
     (case poll_turn D deadline s of
        (Inl e, t) \<Rightarrow> Some (Inl e, t)
      | (Inr (Some c), t) \<Rightarrow> Some (Inr c, t)
      | (Inr None, t) \<Rightarrow> poll_loop D deadline t)"

declare poll_loop.simps [code]

definition distributed_complete_chat ::
  "'w dispatch \<Rightarrow> string \<Rightarrow> json list \<Rightarrow> object \<Rightarrow> 'w client
    \<Rightarrow> ((api_exception + completion_result) \<times> 'w client) option" where
  "distributed_complete_chat D model messages options s =
     (case enqueue_chat D model messages options s of
        (Inl e, t) \<Rightarrow> Some (Inl e, t)
      | (Inr deadline, t) \<Rightarrow> poll_loop D deadline t)"

text \<open>
  A provider as \<^verbatim>\<open>complete_chat\<close> of its class; \<open>None\<close> is a call that never returns. The
  arguments that only the distributed provider needs come as a dispatch whose target is
  replaced by the provider's own.
\<close>

fun complete_chat ::
  "'w dispatch \<Rightarrow> provider \<Rightarrow> string \<Rightarrow> json list \<Rightarrow> object \<Rightarrow> 'w client
    \<Rightarrow> ((api_exception + completion_result) \<times> 'w client) option" where
  "complete_chat D LocalApiV1ComputeProvider model messages options s =
     Some (local_complete_chat (di_world D) model messages options s)"
| "complete_chat D (DistributedApiV1ComputeProvider base timeout) model messages options s =
     distributed_complete_chat (D\<lparr>di_base_url := base, di_timeout_seconds := timeout\<rparr>) model messages options s"
| "complete_chat D (FallbackApiV1ComputeProvider primary fallback) model messages options s =
     (case complete_chat D primary model messages options s of
        Some (Inl (ComputeProviderError e), t) \<Rightarrow>
          (case complete_chat D fallback model messages options t of
             Some (Inr c, u) \<Rightarrow> Some (Inr c, u\<lparr>ct_last_backend_path := ''fallback_local_in_process''\<rparr>)
           | r \<Rightarrow> r)
      | r \<Rightarrow> r)"

end
