(* ===== verification/Provider_Targets.thy ===== *)
theory Provider_Targets
  imports Compute_Provider
begin

text \<open>
  Which relay the API of a deployment targets and which provider it builds
  (\<^verbatim>\<open>src/api/v1/compute_provider.py\<close>): the environment variables in their order of
  precedence, the configuration, and the rule that only production has a default target.
\<close>

section \<open>Absolute URLs\<close>

text \<open>
  \<^verbatim>\<open>urllib.parse.urlsplit\<close> as far as the code reads it. Leading control characters and
  spaces are stripped, tabs and line ends are dropped; a scheme is a letter and then letters, digits
  and \<^verbatim>\<open>+-.\<close> up to the first colon.
\<close>

definition clean_url :: "string \<Rightarrow> string" where
  "clean_url url =
     filter (\<lambda>c. char_code c \<notin> {9, 10, 13}) (dropWhile (\<lambda>c. char_code c \<le> 32) url)"

definition is_letter :: "char \<Rightarrow> bool" where
  "is_letter c \<longleftrightarrow> (let n = char_code c in 65 \<le> n \<and> n \<le> 90 \<or> 97 \<le> n \<and> n \<le> 122)"

definition is_scheme_char :: "char \<Rightarrow> bool" where
  "is_scheme_char c \<longleftrightarrow> is_letter c \<or> is_digit c \<or> c \<in> set ''+-.''"

definition split_scheme :: "string \<Rightarrow> string \<times> string" where
  "split_scheme url =
     (let p = takeWhile (\<lambda>c. c \<noteq> CHR '':'') url
      in if CHR '':'' \<in> set url \<and> p \<noteq> [] \<and> is_letter (hd p) \<and> list_all is_scheme_char p
         then (py_lower p, drop (length p + 1) url) else ([], url))"

definition split_netloc :: "string \<Rightarrow> string" where
  "split_netloc rest =
     (if take 2 rest = ''//'' then takeWhile (\<lambda>c. c \<notin> set ''/?#'') (drop 2 rest) else [])"

text \<open>
  The parameters of the selection: the process environment, the configuration (\<open>Inl\<close> where
  reading it raises), and the test of a network location with brackets.
\<close>

record settings =
  st_environ :: environ
  st_config :: "string \<Rightarrow> string + json"
  st_brackets_ok :: "string \<Rightarrow> bool"

definition urlparse :: "settings \<Rightarrow> string \<Rightarrow> api_exception + string \<times> string" where
  "urlparse S url =
     (let (scheme, rest) = split_scheme (clean_url url); netloc = split_netloc rest;
          opening = CHR ''['' \<in> set netloc; closing = CHR '']'' \<in> set netloc
      in if opening \<noteq> closing \<or> opening \<and> \<not> st_brackets_ok S netloc
         then Inl (OtherException ''Invalid IPv6 URL'') else Inr (scheme, netloc))"

definition normalise_target_url :: "string option \<Rightarrow> string" where
  "normalise_target_url value = rstrip_slash (py_strip (case value of Some v \<Rightarrow> v | None \<Rightarrow> []))"

definition validated_target_url :: "settings \<Rightarrow> string option \<Rightarrow> string \<Rightarrow> api_exception + string" where
  "validated_target_url S value origin =
     (let target = normalise_target_url value
      in if target = [] then Inr []
         else ebind (urlparse S target) (\<lambda>(scheme, netloc).
           if scheme \<notin> {''http'', ''https''} \<or> netloc = []
           then Inl (provider_error_default
                  [Text (''Invalid distributed relay target from '' @ origin
                     @ '': target must be an absolute HTTP(S) URL.'')])
           else Inr target))"

section \<open>The target\<close>

record target_selection =
  ts_url :: string
  ts_source :: string
  ts_relay_only :: bool

definition DEFAULT_PRODUCTION_RELAY_URL :: string where
  "DEFAULT_PRODUCTION_RELAY_URL = ''https://token.place''"

definition EXPLICIT_DISTRIBUTED_TARGET_ENVS :: "string list" where
  "EXPLICIT_DISTRIBUTED_TARGET_ENVS =
     [''TOKENPLACE_API_V1_DISTRIBUTED_RELAY_URL'', ''TOKENPLACE_DISTRIBUTED_RELAY_URL'',
      ''TOKENPLACE_DISTRIBUTED_COMPUTE_URL'']"

definition RELAY_INTERNAL_URL_ENVS :: "string list" where
  "RELAY_INTERNAL_URL_ENVS =
     [''TOKENPLACE_RELAY_INTERNAL_URL'', ''TOKEN_PLACE_RELAY_INTERNAL_URL'', ''RELAY_INTERNAL_URL'']"

definition RELAY_PUBLIC_URL_ENVS :: "string list" where
  "RELAY_PUBLIC_URL_ENVS =
     [''TOKENPLACE_RELAY_PUBLIC_URL'', ''TOKEN_PLACE_RELAY_PUBLIC_URL'', ''RELAY_PUBLIC_URL'']"

definition RELAY_CONFIG_KEYS :: "string list" where
  "RELAY_CONFIG_KEYS = [''api.relay_url'', ''relay.server_url'']"

definition env_of :: "settings \<Rightarrow> string \<Rightarrow> string option" where
  "env_of S = en_vars (st_environ S)"

definition env_default :: "settings \<Rightarrow> string \<Rightarrow> string \<Rightarrow> string" where
  "env_default S name d = (case env_of S name of Some v \<Rightarrow> v | None \<Rightarrow> d)"

definition current_token_place_env :: "settings \<Rightarrow> string" where
  "current_token_place_env S = py_lower (py_strip (env_default S ''TOKEN_PLACE_ENV'' ''development''))"

definition config_value :: "settings \<Rightarrow> string \<Rightarrow> string" where
  "config_value S key = (case st_config S key of Inr (JStr v) \<Rightarrow> v | _ \<Rightarrow> [])"

text \<open>A loop over variable names that returns at the first one with a target.\<close>

fun first_env_target :: "settings \<Rightarrow> string \<Rightarrow> bool \<Rightarrow> string list \<Rightarrow> api_exception + target_selection option" where
  "first_env_target S label relay_only [] = Inr None"
| "first_env_target S label relay_only (name # names) =
     ebind (validated_target_url S (env_of S name) (''env:'' @ name)) (\<lambda>target.
       if target \<noteq> []
       then Inr (Some \<lparr>ts_url = target, ts_source = label @ name, ts_relay_only = relay_only\<rparr>)
       else first_env_target S label relay_only names)"

fun first_config_target :: "settings \<Rightarrow> string list \<Rightarrow> api_exception + target_selection option" where
  "first_config_target S [] = Inr None"
| "first_config_target S (key # keys) =
     ebind (validated_target_url S (Some (config_value S key)) (''config:'' @ key)) (\<lambda>target.
       if target = [] \<or> target = DEFAULT_PRODUCTION_RELAY_URL then first_config_target S keys
       else Inr (Some \<lparr>ts_url = target, ts_source = ''config:'' @ key, ts_relay_only = False\<rparr>))"

definition unset_target :: target_selection where
  "unset_target = \<lparr>ts_url = [], ts_source = ''unset'', ts_relay_only = False\<rparr>"

text \<open>\<open>or_else m n\<close> runs \<open>n\<close> when \<open>m\<close> finds no target.\<close>

definition or_else ::
  "api_exception + target_selection option \<Rightarrow> api_exception + target_selection \<Rightarrow> api_exception + target_selection" where
  "or_else m n = ebind m (\<lambda>found. case found of Some t \<Rightarrow> Inr t | None \<Rightarrow> n)"

definition select_distributed_target :: "settings \<Rightarrow> api_exception + target_selection" where
  "select_distributed_target S =
     or_else (first_env_target S ''explicit_env:'' False EXPLICIT_DISTRIBUTED_TARGET_ENVS)
    (or_else (first_env_target S ''relay_internal_env:'' True RELAY_INTERNAL_URL_ENVS)
    (or_else (first_env_target S ''relay_public_env:'' True RELAY_PUBLIC_URL_ENVS)
    (or_else (first_config_target S RELAY_CONFIG_KEYS)
       (if current_token_place_env S = ''production''
        then Inr \<lparr>ts_url = DEFAULT_PRODUCTION_RELAY_URL, ts_source = ''production_default'', ts_relay_only = False\<rparr>
        else Inr unset_target))))"

definition select_implicit_relay_public_target :: "settings \<Rightarrow> api_exception + target_selection" where
  "select_implicit_relay_public_target S =
     or_else (first_env_target S ''relay_public_env:'' True RELAY_PUBLIC_URL_ENVS) (Inr unset_target)"

section \<open>The provider\<close>

definition join_comma :: "string list \<Rightarrow> string" where
  "join_comma xs = (case xs of [] \<Rightarrow> [] | x # rest \<Rightarrow> x @ concat (map (\<lambda>y. '', '' @ y) rest))"

definition distributed_timeout_seconds :: "environ \<Rightarrow> pyfloat" where
  "distributed_timeout_seconds v =
     (case en_vars v ''TOKENPLACE_API_V1_DISTRIBUTED_TIMEOUT_SECONDS'' of
        None \<Rightarrow> f_max (FNum DEFAULT_INFERENCE_TRANSPORT_TIMEOUT_SECONDS) (FNum 1)
      | Some raw \<Rightarrow>
          (case en_float v raw of
             Some x \<Rightarrow> f_max x (FNum 1)
           | None \<Rightarrow> FNum DEFAULT_INFERENCE_TRANSPORT_TIMEOUT_SECONDS))"

text \<open>
  The function is cached by its arguments; that matters only when the timeout setting changes
  while the process runs.
\<close>

definition build_api_v1_compute_provider ::
  "settings \<Rightarrow> string \<Rightarrow> string \<Rightarrow> bool \<Rightarrow> api_exception + provider" where
  "build_api_v1_compute_provider S mode url fallback_enabled =
     (if mode \<noteq> ''distributed'' then Inr LocalApiV1ComputeProvider
      else if url = []
      then (if \<not> fallback_enabled
            then Inl (provider_error_default
                   [Text (''TOKENPLACE_API_V1_COMPUTE_PROVIDER=distributed requires ''
                      @ ''TOKENPLACE_DISTRIBUTED_COMPUTE_URL or another explicit distributed ''
                      @ ''relay target outside production. Set one of ''
                      @ join_comma EXPLICIT_DISTRIBUTED_TARGET_ENVS
                      @ '', TOKENPLACE_RELAY_INTERNAL_URL, or TOKENPLACE_RELAY_PUBLIC_URL.'')])
            else Inr LocalApiV1ComputeProvider)
      else
        (let distributed = DistributedApiV1ComputeProvider (rstrip_slash url) (distributed_timeout_seconds (st_environ S))
         in Inr (if fallback_enabled then FallbackApiV1ComputeProvider distributed LocalApiV1ComputeProvider
                 else distributed)))"

definition starts_with_text :: "string \<Rightarrow> string \<Rightarrow> bool" where
  "starts_with_text s p \<longleftrightarrow> take (length p) s = p"

text \<open>The selection is an argument, or the public target when none is given.\<close>

definition is_api_v1_implicit_relay_only_selection ::
  "settings \<Rightarrow> target_selection option \<Rightarrow> api_exception + bool" where
  "is_api_v1_implicit_relay_only_selection S given =
     (if py_strip (env_default S ''TOKENPLACE_API_V1_COMPUTE_PROVIDER'' []) \<noteq> [] then Inr False
      else ebind (case given of Some t \<Rightarrow> Inr t | None \<Rightarrow> select_implicit_relay_public_target S) (\<lambda>t.
        Inr (ts_url t \<noteq> [] \<and> ts_relay_only t \<and> starts_with_text (ts_source t) ''relay_public_env:'')))"

definition read_api_v1_provider_env :: "settings \<Rightarrow> api_exception + string \<times> target_selection \<times> bool" where
  "read_api_v1_provider_env S =
     (let configured = py_lower (py_strip (env_default S ''TOKENPLACE_API_V1_COMPUTE_PROVIDER'' []));
          fallback = (py_lower (py_strip (env_default S ''TOKENPLACE_API_V1_DISTRIBUTED_FALLBACK'' ''1''))
                        \<notin> {''0'', ''false'', ''no'', ''off''})
      in ebind (select_implicit_relay_public_target S) (\<lambda>implicit.
         ebind (is_api_v1_implicit_relay_only_selection S (Some implicit)) (\<lambda>relay_only.
           if relay_only then Inr (''distributed'', implicit, False)
           else ebind (select_distributed_target S) (\<lambda>target.
                  Inr (if configured = [] then ''local'' else configured, target, fallback)))))"

definition get_api_v1_compute_provider :: "settings \<Rightarrow> api_exception + provider" where
  "get_api_v1_compute_provider S =
     ebind (read_api_v1_provider_env S) (\<lambda>(mode, target, fallback).
       build_api_v1_compute_provider S mode (ts_url target) fallback)"

definition get_api_v1_compute_provider_for_mode ::
  "settings \<Rightarrow> string \<Rightarrow> string option \<Rightarrow> bool option \<Rightarrow> target_selection option \<Rightarrow> api_exception + provider" where
  "get_api_v1_compute_provider_for_mode S mode url fallback_enabled given =
     ebind (read_api_v1_provider_env S) (\<lambda>(_, env_target, env_fallback).
       let target = (case given of
             Some t \<Rightarrow> t
           | None \<Rightarrow> (case url of
               Some u \<Rightarrow> \<lparr>ts_url = normalise_target_url (Some u), ts_source = ''request_override'', ts_relay_only = False\<rparr>
             | None \<Rightarrow> env_target))
       in build_api_v1_compute_provider S (py_lower (py_strip (if mode = [] then ''local'' else mode)))
            (ts_url target) (case fallback_enabled of Some b \<Rightarrow> b | None \<Rightarrow> env_fallback))"

fun get_api_v1_resolved_provider_path :: "provider \<Rightarrow> string" where
  "get_api_v1_resolved_provider_path (FallbackApiV1ComputeProvider _ _) = ''distributed_with_local_fallback''"
| "get_api_v1_resolved_provider_path (DistributedApiV1ComputeProvider _ _) = ''distributed''"
| "get_api_v1_resolved_provider_path LocalApiV1ComputeProvider = ''local''"

end
