(* ===== verification/Provider_Runs.thy ===== *)
theory Provider_Runs
  imports Provider_Targets
begin

text \<open>
  How a dispatched chat request runs: the requests it sends, the answers it accepts, and that
  its loop ends when the clock does not go back.
\<close>

section \<open>Running the actions\<close>

lemma run_client [simp]:
  "read_clock W s = (Inr (fst (wo_time W (ct_world s))), s\<lparr>ct_world := snd (wo_time W (ct_world s))\<rparr>)"
  "sleep W d s = (Inr (), s\<lparr>ct_world := wo_sleep W d (ct_world s)\<rparr>)"
  "send W call s = (Inr (fst (wo_http W call (ct_world s))),
     s\<lparr>ct_world := snd (wo_http W call (ct_world s)), ct_log := ct_log s @ [(call, fst (wo_http W call (ct_world s)))]\<rparr>)"
  "set_backend_path label s = (Inr (), s\<lparr>ct_last_backend_path := label\<rparr>)"
  "ret x s = (Inr x, s)" "raise e s = (Inl e, s)" "lift r s = (r, s)"
  by (simp_all add: read_clock_def sleep_def send_def set_backend_path_def ret_def raise_def lift_def
      Let_def case_prod_beta)

lemma run_sbind: "m s = (Inr x, t) \<Longrightarrow> sbind m f s = f x t" "m s = (Inl e, t) \<Longrightarrow> sbind m f s = (Inl e, t)"
  by (simp_all add: sbind_def)

section \<open>The shape of a run\<close>

definition is_retrieve :: "'w dispatch \<Rightarrow> http_call \<Rightarrow> bool" where
  "is_retrieve D c \<longleftrightarrow> (\<exists>\<tau>. c = retrieve_call D \<tau>)"

definition cancel_call :: "'w dispatch \<Rightarrow> http_call" where
  "cancel_call D = post D ''/api/v1/relay/requests/cancel'' (cancel_body D ''expired'' ''provider_timeout'') (FNum 1)"

lemma run_give_up:
  "\<exists>e out u. give_up D s = (Inl e, u) \<and> ct_log u = ct_log s @ [(cancel_call D, out)]
     \<and> (e = timeout_error \<or> (\<exists>x. out = RequestRaised x \<and> e = OtherException x))"
  by (auto simp: give_up_def cancel_relay_request_def sbind_def cancel_call_def split: http_outcome.split)

lemma give_up_raises: "give_up D s = (r, t) \<Longrightarrow> \<exists>e. r = Inl e"
  by (auto simp: give_up_def cancel_relay_request_def sbind_def split: http_outcome.splits)

lemma if_app: "(if b then f else g) x = (if b then f x else g x)"
  by simp

lemma run_turn:
  "poll_turn D d s =
     (let (t, w) = wo_time (di_world D) (ct_world s); (t', w') = wo_time (di_world D) w;
          remaining = pf_minus (di_floats D) d t'
      in if \<not> f_less (FNum t) d then give_up D (s\<lparr>ct_world := w\<rparr>)
         else if \<not> (f_less (FNum 0) remaining \<or> remaining = FNan) then give_up D (s\<lparr>ct_world := w'\<rparr>)
         else ask_relay D d remaining (s\<lparr>ct_world := w'\<rparr>))"
  by (simp add: poll_turn_def sbind_def Let_def if_app case_prod_beta)

lemma turn_cases:
  obtains (expired) e out u where "poll_turn D d s = (Inl e, u)" "ct_log u = ct_log s @ [(cancel_call D, out)]"
      "e = timeout_error \<or> (\<exists>x. out = RequestRaised x \<and> e = OtherException x)"
  | (refused) e \<tau> out u where "poll_turn D d s = (Inl e, u)" "ct_log u = ct_log s @ [(retrieve_call D \<tau>, out)]"
      "read_answer D out = GiveUp e"
  | (answered) c \<tau> out u where "poll_turn D d s = (Inr (Some c), u)" "ct_log u = ct_log s @ [(retrieve_call D \<tau>, out)]"
      "read_answer D out = Answered c"
  | (again) \<tau> out u where "poll_turn D d s = (Inr None, u)" "ct_log u = ct_log s @ [(retrieve_call D \<tau>, out)]"
      "read_answer D out = TryAgain"
proof -
  define s1 where "s1 = s\<lparr>ct_world := snd (wo_time (di_world D) (ct_world s))\<rparr>"
  define s2 where "s2 = s1\<lparr>ct_world := snd (wo_time (di_world D) (ct_world s1))\<rparr>"
  have logs: "ct_log s1 = ct_log s" "ct_log s2 = ct_log s" by (simp_all add: s1_def s2_def)
  consider "poll_turn D d s = give_up D s1" | "poll_turn D d s = give_up D s2"
    | left where "poll_turn D d s = ask_relay D d left s2"
  proof -
    define left where "left = pf_minus (di_floats D) d (fst (wo_time (di_world D) (ct_world s1)))"
    have "poll_turn D d s = (if \<not> f_less (FNum (fst (wo_time (di_world D) (ct_world s)))) d then give_up D s1
        else if \<not> (f_less (FNum 0) left \<or> left = FNan) then give_up D s2 else ask_relay D d left s2)"
      by (simp add: run_turn Let_def case_prod_beta s1_def s2_def left_def)
    with that show thesis by metis
  qed
  then show thesis
  proof cases
    case 1
    with run_give_up [of D s1] logs expired show thesis by metis
  next
    case 2
    with run_give_up [of D s2] logs expired show thesis by metis
  next
    case (3 left)
    obtain \<tau> where ask: "ask_relay D d left = sbind (send (di_world D) (retrieve_call D \<tau>)) (\<lambda>reply.
          case read_answer D reply of TryAgain \<Rightarrow> sbind (wait_a_little D d) (\<lambda>_. ret None) | GiveUp e \<Rightarrow> raise e
          | Answered c \<Rightarrow> sbind (set_backend_path ''distributed_relay_e2ee'') (\<lambda>_. ret (Some c)))"
      by (simp add: ask_relay_def Let_def)
    define out where "out = fst (wo_http (di_world D) (retrieve_call D \<tau>) (ct_world s2))"
    show thesis
    proof (cases "read_answer D out")
      case TryAgain
      with 3 again [where out = out and \<tau> = \<tau>] logs show thesis by (simp add: ask sbind_def wait_a_little_def out_def)
    next
      case (GiveUp e)
      with 3 refused [where out = out and \<tau> = \<tau>] logs show thesis by (simp add: ask sbind_def out_def)
    next
      case (Answered c)
      with 3 answered [where out = out and \<tau> = \<tau>] logs show thesis by (simp add: ask sbind_def out_def)
    qed
  qed
qed

text \<open>
  What a run that returns has done in its loop: retrievals whose answers said to try again, and
  then one more request that decides the result.
\<close>

definition decides :: "'w dispatch \<Rightarrow> api_exception + completion_result \<Rightarrow> http_call \<times> http_outcome \<Rightarrow> bool" where
  "decides D r x \<longleftrightarrow>
     (fst x = cancel_call D \<and> (r = Inl timeout_error \<or> (\<exists>e. snd x = RequestRaised e \<and> r = Inl (OtherException e))))
     \<or> is_retrieve D (fst x) \<and> (case r of Inl e \<Rightarrow> read_answer D (snd x) = GiveUp e
           | Inr c \<Rightarrow> read_answer D (snd x) = Answered c)"

definition undecided :: "'w dispatch \<Rightarrow> http_call \<times> http_outcome \<Rightarrow> bool" where
  "undecided D x \<longleftrightarrow> is_retrieve D (fst x) \<and> read_answer D (snd x) = TryAgain"

lemma loop_log:
  assumes "poll_loop D d s = Some (r, t)"
  shows "\<exists>polls x. ct_log t = ct_log s @ polls @ [x] \<and> list_all (undecided D) polls \<and> decides D r x"
proof -
  have "\<forall>r t. snd_part = (r, t) \<longrightarrow>
      (\<exists>polls x. ct_log t = ct_log s @ polls @ [x] \<and> list_all (undecided D) polls \<and> decides D r x)"
    if "poll_loop D d s = Some snd_part" for snd_part
  proof (rule poll_loop.raw_induct [where P = "\<lambda>D d s y. \<forall>r t. y = (r, t) \<longrightarrow>
      (\<exists>polls x. ct_log t = ct_log s @ polls @ [x] \<and> list_all (undecided D) polls \<and> decides D r x)", OF _ that])
    fix loop :: "'a dispatch \<Rightarrow> pyfloat \<Rightarrow> 'a client \<Rightarrow> ((api_exception + completion_result) \<times> 'a client) option"
    fix D d s y
    assume IH: "\<And>D d s y. loop D d s = Some y \<Longrightarrow> \<forall>r t. y = (r, t) \<longrightarrow>
        (\<exists>polls x. ct_log t = ct_log s @ polls @ [x] \<and> list_all (undecided D) polls \<and> decides D r x)"
      and step: "(case poll_turn D d s of (Inl e, t) \<Rightarrow> Some (Inl e, t) | (Inr None, t) \<Rightarrow> loop D d t
        | (Inr (Some c), t) \<Rightarrow> Some (Inr c, t)) = Some y"
    show "\<forall>r t. y = (r, t) \<longrightarrow>
        (\<exists>polls x. ct_log t = ct_log s @ polls @ [x] \<and> list_all (undecided D) polls \<and> decides D r x)"
    proof (rule turn_cases [of D d s], goal_cases expired refused answered again)
      case (expired e out u)
      with step show ?thesis by (auto simp: decides_def)
    next
      case (refused e \<tau> out u)
      with step show ?thesis by (auto simp: decides_def is_retrieve_def)
    next
      case (answered c \<tau> out u)
      with step show ?thesis by (auto simp: decides_def is_retrieve_def)
    next
      case (again \<tau> out u)
      with step have "loop D d u = Some y" by simp
      show ?thesis
      proof (intro allI impI)
        fix r t assume "y = (r, t)"
        with IH [OF \<open>loop D d u = Some y\<close>] obtain polls x where
          "ct_log t = ct_log u @ polls @ [x]" "list_all (undecided D) polls" "decides D r x" by blast
        with again show "\<exists>polls x. ct_log t = ct_log s @ polls @ [x] \<and> list_all (undecided D) polls \<and> decides D r x"
          by (intro exI [of _ "(retrieve_call D \<tau>, out) # polls"] exI [of _ x]) (auto simp: undecided_def is_retrieve_def)
      qed
    qed
  qed
  with assms show ?thesis by blast
qed

section \<open>Enqueueing\<close>

text \<open>
  An accepted request: a node was named, the envelope was encrypted for its key, and the relay
  took it.
\<close>

definition enqueued ::
  "'w dispatch \<Rightarrow> string \<Rightarrow> json list \<Rightarrow> object \<Rightarrow> (http_call \<times> http_outcome) list \<Rightarrow> bool" where
  "enqueued D model messages options calls \<longleftrightarrow>
     (\<exists>\<tau> out key encrypted \<tau>' out'.
        calls = [(next_server_call D model \<tau>, out), (enqueue_call D key encrypted \<tau>', out')]
        \<and> server_key_of out = Inr key
        \<and> encrypted_for D (plaintext_envelope D model messages options) key = Inr encrypted
        \<and> (\<exists>admission. admission_of out' = Inr admission))"

text \<open>The requests before the first poll: the selection of a node, and the ciphertext for it.\<close>

definition early_call :: "'w dispatch \<Rightarrow> string \<Rightarrow> json \<Rightarrow> http_call \<Rightarrow> bool" where
  "early_call D model plain c \<longleftrightarrow>
     (\<exists>\<tau>. c = next_server_call D model \<tau>)
     \<or> (\<exists>key encrypted \<tau>. encrypted_for D plain key = Inr encrypted \<and> c = enqueue_call D key encrypted \<tau>)"

lemma early_callI:
  "early_call D model plain (next_server_call D model \<tau>)"
  "encrypted_for D plain key = Inr encrypted \<Longrightarrow> early_call D model plain (enqueue_call D key encrypted \<tau>)"
  unfolding early_call_def by blast+

lemma relay_url_differs:
  "relay_url base ''/api/v1/relay/requests'' \<noteq> relay_url base ''/api/v1/relay/requests/cancel''"
  "relay_url base ''/api/v1/relay/requests'' \<noteq> relay_url base ''/api/v1/relay/responses/retrieve''"
  "relay_url base ''/api/v1/relay/requests/cancel'' \<noteq> relay_url base ''/api/v1/relay/responses/retrieve''"
  by (simp_all add: relay_url_def Let_def)

lemma early_differs: "early_call D model plain c \<Longrightarrow> c \<noteq> cancel_call D \<and> \<not> is_retrieve D c"
  using relay_url_differs [of "di_base_url D"]
  by (auto simp: early_call_def next_server_call_def enqueue_call_def cancel_call_def retrieve_call_def is_retrieve_def post_def)

lemma retrieve_not_cancel: "is_retrieve D c \<Longrightarrow> c \<noteq> cancel_call D"
  using relay_url_differs(3) [of "di_base_url D"]
  by (auto simp: is_retrieve_def cancel_call_def retrieve_call_def post_def)

lemma enqueued_early:
  "enqueued D model messages options calls
     \<Longrightarrow> list_all (early_call D model (plaintext_envelope D model messages options) \<circ> fst) calls \<and> length calls = 2"
  unfolding enqueued_def by (elim exE conjE) (simp add: early_callI)

lemma remaining_log: "remaining_timeout D d s = (x, u) \<Longrightarrow> ct_log u = ct_log s"
  by (auto simp: remaining_timeout_def sbind_def Let_def if_app split: if_splits)

lemma admitted_log: "admitted_deadline D admission d s = (x, u) \<Longrightarrow> ct_log u = ct_log s"
  by (auto simp: admitted_deadline_def sbind_def if_app split: option.splits json.splits sum.splits if_splits)

lemma sbind_cases:
  assumes "sbind m f s = (r, t)"
  obtains (raised) e where "m s = (Inl e, t)" "r = Inl e" | (went_on) x u where "m s = (Inr x, u)" "f x u = (r, t)"
  using assms by (auto simp: sbind_def split: prod.splits sum.splits)

lemma find_node_log:
  assumes "find_node D model d s = (r, t)"
  shows "(\<exists>\<tau> out. ct_log t = ct_log s @ [(next_server_call D model \<tau>, out)] \<and> r = server_key_of out)
     \<or> ct_log t = ct_log s \<and> (\<exists>e. r = Inl e)"
  using assms unfolding find_node_def
  by (rule sbind_cases) (auto dest!: remaining_log simp: sbind_def)

lemma submit_log:
  assumes "submit_chat D plain key d s = (r, t)"
  shows "(\<exists>encrypted \<tau> out. ct_log t = ct_log s @ [(enqueue_call D key encrypted \<tau>, out)]
        \<and> encrypted_for D plain key = Inr encrypted \<and> ((\<exists>a. admission_of out = Inr a) \<or> (\<exists>e. r = Inl e)))
     \<or> ct_log t = ct_log s \<and> (\<exists>e. r = Inl e)"
proof (cases "encrypted_for D plain key")
  case (Inl e)
  with assms show ?thesis by (auto simp: submit_chat_def sbind_def)
next
  case (Inr encrypted)
  with assms have "sbind (remaining_timeout D d) (\<lambda>left. sbind (send (di_world D) (enqueue_call D key encrypted left)) (\<lambda>reply.
      sbind (lift (admission_of reply)) (\<lambda>admission. admitted_deadline D admission d))) s = (r, t)"
    by (simp add: submit_chat_def sbind_def [of "lift (encrypted_for _ _ _)"])
  then show ?thesis
  proof (rule sbind_cases, goal_cases early late)
    case (early e)
    then show ?case using remaining_log [OF early(1)] by simp
  next
    case (late left u)
    define out where "out = fst (wo_http (di_world D) (enqueue_call D key encrypted left) (ct_world u))"
    show ?case
    proof (cases "admission_of out")
      case (Inl e)
      with late(2) remaining_log [OF late(1)] Inr show ?thesis
        by (intro disjI1 exI [of _ encrypted] exI [of _ left] exI [of _ out]) (auto simp: sbind_def out_def)
    next
      case (Inr a)
      with late(2) remaining_log [OF late(1)] \<open>encrypted_for D plain key = Inr encrypted\<close> show ?thesis
        by (intro disjI1 exI [of _ encrypted] exI [of _ left] exI [of _ out])
          (auto simp: sbind_def out_def dest!: admitted_log)
    qed
  qed
qed

lemma enqueue_log:
  assumes "enqueue_chat D model messages options s = (r, t)"
  shows "\<exists>calls. ct_log t = ct_log s @ calls \<and> length calls \<le> 2
     \<and> list_all (early_call D model (plaintext_envelope D model messages options) \<circ> fst) calls
     \<and> (\<forall>d. r = Inr d \<longrightarrow> enqueued D model messages options calls)"
proof -
  define s1 where "s1 = s\<lparr>ct_last_backend_path := ''distributed_relay_e2ee_pending'',
      ct_world := snd (wo_time (di_world D) (ct_world s))\<rparr>"
  define d where "d = pf_plus (di_floats D) (FNum (fst (wo_time (di_world D) (ct_world s)))) (relay_timeout D)"
  define plain where "plain = plaintext_envelope D model messages options"
  have log1: "ct_log s1 = ct_log s" by (simp add: s1_def)
  have "sbind (find_node D model d) (\<lambda>key. submit_chat D plain key d) s1 = (r, t)"
    using assms by (simp add: enqueue_chat_def sbind_def [of "set_backend_path _"] sbind_def [of "read_clock _"]
        Let_def s1_def d_def plain_def)
  then show ?thesis
  proof (rule sbind_cases, goal_cases early late)
    case (early e)
    with find_node_log [OF early(1)] log1 show ?case by (auto simp: early_call_def)
  next
    case (late key u)
    from find_node_log [OF late(1)] log1 obtain \<tau> out where
      u: "ct_log u = ct_log s @ [(next_server_call D model \<tau>, out)]" "server_key_of out = Inr key" by auto
    from submit_log [OF late(2)] consider
      (posted) encrypted \<tau>' out' where "ct_log t = ct_log u @ [(enqueue_call D key encrypted \<tau>', out')]"
        "encrypted_for D plain key = Inr encrypted" "(\<exists>a. admission_of out' = Inr a) \<or> (\<exists>e. r = Inl e)"
    | (failed) e where "ct_log t = ct_log u" "r = Inl e" by blast
    then show ?case
    proof cases
      case (posted encrypted \<tau>' out')
      with u show ?thesis
        by (intro exI [of _ "[(next_server_call D model \<tau>, out), (enqueue_call D key encrypted \<tau>', out')]"])
          (auto simp: early_call_def enqueued_def plain_def)
    next
      case (failed e)
      with u show ?thesis by (auto simp: early_call_def)
    qed
  qed
qed

text \<open>
  A call of the distributed provider that returns: it failed before a response could be
  expected, or the request was accepted and the loop decided.
\<close>

lemma dispatch_log:
  assumes "distributed_complete_chat D model messages options s = Some (r, t)"
  obtains (early) e calls where "r = Inl e" "ct_log t = ct_log s @ calls"
      "list_all (early_call D model (plaintext_envelope D model messages options) \<circ> fst) calls" "length calls \<le> 2"
  | (polled) calls polls x where "enqueued D model messages options calls" "list_all (undecided D) polls" "decides D r x"
      "ct_log t = ct_log s @ calls @ polls @ [x]"
proof (cases "enqueue_chat D model messages options s")
  case (Pair q u)
  show thesis
  proof (cases q)
    case (Inl e)
    with Pair assms enqueue_log [OF Pair] early show thesis by (auto simp: distributed_complete_chat_def)
  next
    case (Inr d)
    with Pair assms have "poll_loop D d u = Some (r, t)" by (simp add: distributed_complete_chat_def)
    from loop_log [OF this] enqueue_log [OF Pair] Inr polled show thesis by fastforce
  qed
qed

end
