(* ===== verification/Provider_Clock.thy ===== *)
theory Provider_Clock
  imports Provider_Runs
begin

text \<open>
  Why a dispatched request returns: the laws of the clock, of sleeping and of float arithmetic
  that the polling loop relies on, and the bound on its turns that follows from them.
\<close>

section \<open>Laws\<close>

text \<open>
  \<open>now w\<close> is the true time in the world \<open>w\<close>. Reading the clock and waiting for the network do not
  take it back, a reading is the time at some moment of the read, and a sleep lasts at least as
  long as asked for, which is what \<^verbatim>\<open>time.sleep\<close> promises.

  \<open>F\<close> is the interpreter's arithmetic on doubles. The difference of two numbers within a factor of
  two is exact; a sum of non-negative numbers is not negative; a quotient by 20 is finite; and the
  sum of a time and a shorter duration is at most twice the time, without overflow.
\<close>

locale steady_world =
  fixes W :: "'w world" and now :: "'w \<Rightarrow> rat" and F :: float_ops
  assumes clock_reads: "wo_time W w = (t, w') \<Longrightarrow> now w \<le> t \<and> t \<le> now w'"
    and http_steady: "wo_http W call w = (out, w') \<Longrightarrow> now w \<le> now w'"
    and sleep_lasts: "0 \<le> d \<Longrightarrow> now w + d \<le> now (wo_sleep W (FNum d) w)"
    and time_sum: "wo_time W w = (t, w') \<Longrightarrow> 0 \<le> b \<Longrightarrow> b \<le> t \<Longrightarrow> \<exists>c \<le> 2 * t. fo_plus F t b = FNum c"
    and minus_exact: "b \<le> a \<Longrightarrow> a \<le> 2 * b \<Longrightarrow> fo_minus F a b = FNum (a - b)"
    and plus_positive: "0 \<le> a \<Longrightarrow> 0 \<le> b \<Longrightarrow> fo_plus F a b = FPosInf \<or> (\<exists>c \<ge> 0. fo_plus F a b = FNum c)"
    and div_finite: "\<exists>q. fo_div F a 20 = FNum q"
begin

lemma clock_le: "now w \<le> fst (wo_time W w)" "fst (wo_time W w) \<le> now (snd (wo_time W w))"
  "now w \<le> now (snd (wo_time W w))"
  using clock_reads [of w] by (metis prod.collapse order_trans)+

lemma http_le: "now w \<le> now (snd (wo_http W call w))"
  using http_steady by (metis prod.collapse)

text \<open>A turn that goes on has advanced the clock by the poll interval or up to the deadline.\<close>

lemma waited:
  assumes "di_world D = W" "di_floats D = F" and p: "poll_interval_seconds F (di_timeout_seconds D) = FNum p"
    and "0 \<le> p" and d: "d \<le> 2 * now (ct_world s)" and w: "wait_a_little D (FNum d) s = (r, t)"
  shows "now (ct_world s) \<le> now (ct_world t) \<and> min (now (ct_world s) + p) d \<le> now (ct_world t)"
proof -
  define a where "a = fst (wo_time W (ct_world s))"
  define w' where "w' = snd (wo_time W (ct_world s))"
  define z where "z = f_min (FNum p) (f_max (fo_minus F d a) (FNum 0))"
  have a: "now (ct_world s) \<le> a" "a \<le> now w'" using clock_le by (simp_all add: a_def w'_def)
  have t: "ct_world t = wo_sleep W z w'"
    using w assms(1,2) p by (auto simp: wait_a_little_def sbind_def a_def w'_def z_def)
  have "\<exists>x. z = FNum x \<and> 0 \<le> x \<and> (a < d \<longrightarrow> min p (d - a) \<le> x)"
  proof (cases "a < d")
    case True
    then have "fo_minus F d a = FNum (d - a)" using minus_exact d a by simp
    then show ?thesis using True \<open>0 \<le> p\<close> by (simp add: z_def)
  next
    case False
    then show ?thesis using \<open>0 \<le> p\<close>
      by (cases "fo_minus F d a") (auto simp: z_def f_min_def f_max_def)
  qed
  then obtain x where x: "z = FNum x" "0 \<le> x" "a < d \<Longrightarrow> min p (d - a) \<le> x" by blast
  have "now w' + x \<le> now (ct_world t)" using sleep_lasts [OF x(2)] by (simp add: t x(1))
  then show ?thesis using x(2,3) a by (cases "a < d") (auto simp: min_def split: if_splits)
qed

lemma turn_advances:
  assumes "di_floats D = F" "di_world D = W" "poll_interval_seconds (di_floats D) (di_timeout_seconds D) = FNum p"
    and "0 \<le> p" "d \<le> 2 * now (ct_world s)" and turn: "poll_turn D (FNum d) s = (Inr None, t)"
  shows "now (ct_world s) \<le> now (ct_world t) \<and> min (now (ct_world s) + p) d \<le> now (ct_world t)"
proof -
  define u where "u = s\<lparr>ct_world := snd (wo_time W (snd (wo_time W (ct_world s))))\<rparr>"
  have u: "now (ct_world s) \<le> now (ct_world u)"
    using clock_le(3) [of "ct_world s"] clock_le(3) [of "snd (wo_time W (ct_world s))"] by (simp add: u_def)
  obtain left where "ask_relay D (FNum d) left u = (Inr None, t)"
    using turn assms(2) by (auto simp: run_turn Let_def case_prod_beta u_def split: if_splits dest!: give_up_raises)
  then obtain call where call: "(case read_answer D (fst (wo_http W call (ct_world u))) of
      TryAgain \<Rightarrow> sbind (wait_a_little D (FNum d)) (\<lambda>_. ret None) | GiveUp e \<Rightarrow> raise e
      | Answered c \<Rightarrow> sbind (set_backend_path ''distributed_relay_e2ee'') (\<lambda>_. ret (Some c)))
      (u\<lparr>ct_world := snd (wo_http W call (ct_world u)), ct_log := ct_log u @ [(call, fst (wo_http W call (ct_world u)))]\<rparr>)
      = (Inr None, t)"
    using assms(2) by (simp add: ask_relay_def Let_def sbind_def [of "send _ _"])
  define v where "v = u\<lparr>ct_world := snd (wo_http W call (ct_world u)),
      ct_log := ct_log u @ [(call, fst (wo_http W call (ct_world u)))]\<rparr>"
  have "sbind (wait_a_little D (FNum d)) (\<lambda>_. ret (None :: completion_result option)) v = (Inr None, t)"
    using call unfolding v_def [symmetric] by (simp add: sbind_def [of "set_backend_path _"] split: answer.splits)
  then obtain x where wait: "wait_a_little D (FNum d) v = (Inr x, t)" by (rule sbind_cases) auto
  have "now (ct_world s) \<le> now (snd (wo_http W call (ct_world u)))"
    using u http_le [of "ct_world u" call] by simp
  with waited [OF assms(2,1) assms(3) [unfolded assms(1)] assms(4) _ wait] assms(5) show ?thesis by (auto simp: v_def)
qed

lemma loop_returns:
  assumes "di_floats D = F" "di_world D = W" "poll_interval_seconds (di_floats D) (di_timeout_seconds D) = FNum p"
    and "0 < p" "d \<le> 2 * now (ct_world s)" "d - now (ct_world s) \<le> of_nat n * p"
  shows "\<exists>r t. poll_loop D (FNum d) s = Some (r, t)"
  using assms(5,6)
proof (induction n arbitrary: s)
  case 0
  then have "\<not> fst (wo_time W (ct_world s)) < d" using clock_le(1) [of "ct_world s"] by simp
  then have turn: "poll_turn D (FNum d) s = give_up D (s\<lparr>ct_world := snd (wo_time W (ct_world s))\<rparr>)"
    by (simp add: run_turn assms(2) Let_def case_prod_beta)
  obtain r u where "poll_turn D (FNum d) s = (r, u)" by fastforce
  with give_up_raises turn obtain e where "poll_turn D (FNum d) s = (Inl e, u)" by metis
  then show ?case by (subst poll_loop.simps) simp
next
  case (Suc n)
  show ?case
  proof (cases "poll_turn D (FNum d) s")
    case (Pair r u)
    show ?thesis
    proof (cases "r = Inr None")
      case False
      then have "poll_loop D (FNum d) s = (case r of Inl e \<Rightarrow> Some (Inl e, u) | Inr c \<Rightarrow> Some (Inr (the c), u))"
        by (subst poll_loop.simps) (auto simp: Pair split: sum.split option.split)
      then show ?thesis by (cases r) simp_all
    next
      case True
      with turn_advances [OF assms(1-3) less_imp_le [OF assms(4)] Suc.prems(1)] Pair
      have adv: "now (ct_world s) \<le> now (ct_world u)" "min (now (ct_world s) + p) d \<le> now (ct_world u)" by simp_all
      have "d \<le> 2 * now (ct_world u)" "d - now (ct_world u) \<le> of_nat n * p"
      proof -
        have "0 \<le> of_nat n * p" using assms(4) by simp
        with adv(2) Suc.prems(2) show "d - now (ct_world u) \<le> of_nat n * p" by (auto simp: min_def algebra_simps split: if_splits)
        show "d \<le> 2 * now (ct_world u)" using adv(1) Suc.prems(1) by simp
      qed
      from Suc.IH [OF this] obtain r' t where "poll_loop D (FNum d) u = Some (r', t)" by blast
      then show ?thesis using True by (subst poll_loop.simps) (simp add: Pair)
    qed
  qed
qed

end

section \<open>The deadline\<close>

text \<open>No step of the provider takes the time back.\<close>

sublocale steady_world < passing: step_order "\<lambda>_. True" "\<lambda>s t. now (ct_world s) \<le> now (ct_world t)"
  by unfold_locales auto

context steady_world
begin

abbreviation passes :: "('w, 'a) client_act \<Rightarrow> bool" where
  "passes m \<equiv> advances (\<lambda>_. True) (\<lambda>s t. now (ct_world s) \<le> now (ct_world t)) m"

lemma passes_primitive: "passes (read_clock W)" "passes (send W call)" "passes (raise e)"
  by (simp_all add: advances_def clock_le(3) http_le)

lemmas passes_rules = passing.advances_rules passes_primitive

lemma passes_if: "passes m \<Longrightarrow> passes n \<Longrightarrow> passes (if b then m else n)"
  by simp

lemma passes_remaining: "passes (remaining_timeout D d)" if "di_world D = W"
  unfolding remaining_timeout_def Let_def that by (intro passes_rules passes_if)

lemma passes_find_node: "passes (find_node D model d)" if "di_world D = W"
  unfolding find_node_def that by (intro passes_rules passes_remaining that)

lemma passesD: "passes m \<Longrightarrow> m s = (r, t) \<Longrightarrow> now (ct_world s) \<le> now (ct_world t)"
  using advancesD [of "\<lambda>_. True" _ m s] by fastforce

text \<open>The sum of the time and a timeout that is shorter than the time since the epoch.\<close>

definition due :: "pyfloat \<Rightarrow> 'w client \<Rightarrow> bool" where
  "due d s \<longleftrightarrow> (\<exists>x. d = FNum x \<and> x \<le> 2 * now (ct_world s))"

lemma due_later: "due d s \<Longrightarrow> now (ct_world s) \<le> now (ct_world t) \<Longrightarrow> due d t"
  by (auto simp: due_def)

lemma due_sum:
  assumes "0 \<le> b" "b \<le> now (ct_world s)" "read_clock W s = (Inr a, t)"
  shows "due (pf_plus F (FNum a) (FNum b)) t"
proof -
  have a: "now (ct_world s) \<le> a" "a \<le> now (ct_world t)" "wo_time W (ct_world s) = (a, ct_world t)"
    using assms(3) clock_le [of "ct_world s"] by auto
  then obtain c where "c \<le> 2 * a" "fo_plus F a b = FNum c" using time_sum [OF a(3) assms(1)] assms(2) by auto
  with a(2) show ?thesis by (simp add: due_def)
qed

lemma due_admitted:
  assumes "di_floats D = F" "di_world D = W" "relay_timeout D = FNum b" "1 \<le> b" "b \<le> now (ct_world s)"
    and "due d s" "admitted_deadline D admission d s = (Inr d', t)"
  shows "due d' t"
proof (cases "\<exists>o1 ttl. admission = Some (JDict o1) \<and> coerce_admitted_ttl (di_environ D) (jget o1 ''request_ttl_seconds'') = Inr ttl
    \<and> f_less (FNum 0) ttl")
  case False
  with assms(6,7) show ?thesis
    by (auto simp: admitted_deadline_def sbind_def if_app split: option.splits json.splits sum.splits if_splits)
next
  case True
  then obtain o1 ttl where o1: "admission = Some (JDict o1)"
    "coerce_admitted_ttl (di_environ D) (jget o1 ''request_ttl_seconds'') = Inr ttl" "f_less (FNum 0) ttl" by blast
  define c where "c = f_min (FNum b) (pf_plus (di_floats D) ttl (FNum INFERENCE_RESPONSE_GRACE_SECONDS))"
  have "\<exists>x. c = FNum x \<and> 0 \<le> x \<and> x \<le> b"
  proof (cases ttl)
    case (FNum y)
    with o1(3) assms(1) have "fo_plus (di_floats D) y 5 = FPosInf \<or> (\<exists>x \<ge> 0. fo_plus (di_floats D) y 5 = FNum x)"
      using plus_positive [of y 5] by simp
    with FNum assms(4) show ?thesis by (auto simp: c_def f_min_def INFERENCE_RESPONSE_GRACE_SECONDS_def)
  qed (use o1(3) assms(4) in \<open>auto simp: c_def f_min_def\<close>)
  then obtain x where x: "c = FNum x" "0 \<le> x" "x \<le> b" by blast
  obtain a where "read_clock W s = (Inr a, t)" "d' = pf_plus (di_floats D) (FNum a) c"
    using assms(2,3,7) o1 by (auto simp: admitted_deadline_def sbind_def c_def)
  with due_sum [OF x(2) _ this(1)] x assms(1,5) show ?thesis by simp
qed

lemma due_enqueued:
  assumes F: "di_floats D = F" and W: "di_world D = W" and b: "relay_timeout D = FNum b" "1 \<le> b" "b \<le> now (ct_world s)"
    and run: "enqueue_chat D model messages options s = (Inr d, t)"
  shows "due d t"
proof -
  define s0 where "s0 = s\<lparr>ct_last_backend_path := ''distributed_relay_e2ee_pending''\<rparr>"
  obtain a s1 where clock: "read_clock W s0 = (Inr a, s1)" by simp
  define d0 where "d0 = pf_plus (di_floats D) (FNum a) (relay_timeout D)"
  have s1: "now (ct_world s) \<le> now (ct_world s1)" using passesD [OF passes_primitive(1) clock] by (simp add: s0_def)
  have "due d0 s1" using due_sum [OF _ _ clock, of b] b F by (simp add: d0_def s0_def)
  have "sbind (find_node D model d0) (\<lambda>key. submit_chat D (plaintext_envelope D model messages options) key d0) s1 = (Inr d, t)"
    using run clock W by (simp add: enqueue_chat_def sbind_def [of "set_backend_path _"] sbind_def [of "read_clock _"]
        Let_def s0_def d0_def)
  then obtain key s2 where find: "find_node D model d0 s1 = (Inr key, s2)"
    and submit: "submit_chat D (plaintext_envelope D model messages options) key d0 s2 = (Inr d, t)" by (rule sbind_cases) auto
  have s2: "now (ct_world s1) \<le> now (ct_world s2)" using passesD [OF passes_find_node [OF W] find] .
  from submit obtain encrypted where "sbind (remaining_timeout D d0) (\<lambda>left.
      sbind (send W (enqueue_call D key encrypted left)) (\<lambda>reply. sbind (lift (admission_of reply)) (\<lambda>admission.
        admitted_deadline D admission d0))) s2 = (Inr d, t)"
    unfolding submit_chat_def W by (rule sbind_cases) simp_all
  then obtain left s3 where left: "remaining_timeout D d0 s2 = (Inr left, s3)"
    and rest: "sbind (send W (enqueue_call D key encrypted left)) (\<lambda>reply. sbind (lift (admission_of reply)) (\<lambda>admission.
       admitted_deadline D admission d0)) s3 = (Inr d, t)" by (rule sbind_cases) simp_all
  have s3: "now (ct_world s2) \<le> now (ct_world s3)" using passesD [OF passes_remaining [OF W] left] .
  from rest obtain reply s4 where send: "send W (enqueue_call D key encrypted left) s3 = (Inr reply, s4)"
    and "sbind (lift (admission_of reply)) (\<lambda>admission. admitted_deadline D admission d0) s4 = (Inr d, t)"
    by (rule sbind_cases) blast+
  then obtain admission where adm: "admitted_deadline D admission d0 s4 = (Inr d, t)" by (elim sbind_cases) auto
  have "now (ct_world s3) \<le> now (ct_world s4)" using passesD [OF passes_primitive(2) send] .
  with s1 s2 s3 have "b \<le> now (ct_world s4)" "now (ct_world s1) \<le> now (ct_world s4)" using b by simp_all
  with due_admitted [OF F W b(1,2) _ due_later [OF \<open>due d0 s1\<close>] adm] show ?thesis by simp
qed

lemma interval_positive:
  shows "\<exists>p > 0. poll_interval_seconds F (FNum b) = FNum p"
proof -
  obtain q where "fo_div F b 20 = FNum q" using div_finite by blast
  then show ?thesis by (simp add: poll_interval_seconds_def min_def max_def)
qed

lemma dispatch_returns:
  assumes "di_floats D = F" "di_world D = W" "di_timeout_seconds D = FNum b" "max b 1 \<le> now (ct_world s)"
  shows "\<exists>r t. distributed_complete_chat D model messages options s = Some (r, t)"
proof (cases "enqueue_chat D model messages options s")
  case (Pair q u)
  show ?thesis
  proof (cases q)
    case (Inl e)
    with Pair show ?thesis by (simp add: distributed_complete_chat_def)
  next
    case (Inr d)
    have "relay_timeout D = FNum (max b 1)" using assms(3) by (simp add: relay_timeout_def)
    from due_enqueued [OF assms(1,2) this _ assms(4), of model messages options d u] Pair Inr
    obtain x where x: "d = FNum x" "x \<le> 2 * now (ct_world u)" by (auto simp: due_def)
    obtain p where p: "0 < p" "poll_interval_seconds (di_floats D) (FNum b) = FNum p"
      using interval_positive assms(1) by blast
    obtain n where "(x - now (ct_world u)) / p \<le> of_nat n" using real_arch_simple by blast
    then have "x - now (ct_world u) \<le> of_nat n * p" using p(1) by (simp add: pos_divide_le_eq)
    with loop_returns [OF assms(1,2) _ p(1) x(2), of n] p(2) assms(3) Pair Inr x(1) show ?thesis
      by (simp add: distributed_complete_chat_def)
  qed
qed

end

end
