(* ===== verification/Provider_Facts.thy ===== *)
theory Provider_Facts
  imports Provider_Clock
begin

text \<open>
  What an answer of the relay must satisfy to be a completion, and where a target comes from.
\<close>

section \<open>Answers\<close>

lemma error_from_code_eq [simp]:
  "error_from_code c m = error_from_code c' m' \<longleftrightarrow> c = c' \<and> m = m'" "error_from_code c m \<noteq> OtherException x"
  "OtherException x \<noteq> error_from_code c m"
  by (auto simp: error_from_code_def Let_def split: option.splits)

lemma timeout_is_not_an_answer: "read_answer D out \<noteq> GiveUp timeout_error"
proof -
  have completion: "completion_of response \<noteq> GiveUp timeout_error" for response
    by (auto simp: completion_of_def timeout_error_def invalid_payload_def split: json.split)
  have "read_decrypted D x \<noteq> GiveUp timeout_error" for x
    using completion by (auto simp: read_decrypted_def timeout_error_def invalid_payload_def split: json.split option.split)
  moreover have "relay_reports_closed e \<noteq> GiveUp timeout_error" for e
    by (auto simp: relay_reports_closed_def timeout_error_def split: json.split)
  ultimately have "read_payload D d \<noteq> GiveUp timeout_error" for d
    by (auto simp: read_payload_def split: json.split)
  then show ?thesis
    by (auto simp: read_answer_def timeout_error_def split: http_outcome.split option.split json.split)
qed

lemma completion_answered:
  assumes "completion_of response = Answered c"
  shows "\<not> jtruthy (jget response ''error'') \<and> jget response ''message'' = JDict (cm_message c)"
  using assms by (auto simp: completion_of_def split: json.splits if_splits)

lemma decrypted_answered:
  assumes "read_decrypted D x = Answered c"
  shows "\<exists>d response. x = Some (JDict d) \<and> jget d ''protocol'' = JStr PROTOCOL
     \<and> jget d ''request_id'' = JStr (di_request_id D) \<and> jget d ''client_public_key'' = JStr (cr_public_key_b64 (di_crypto D))
     \<and> jget d ''api_v1_response'' = JDict response \<and> completion_of response = Answered c"
  using assms by (auto simp: read_decrypted_def split: option.splits json.splits if_splits)

lemma read_answered:
  assumes "read_answer D out = Answered c"
  shows "\<exists>payload. out = HttpReply 200 (Some (JDict payload)) \<and> \<not> jtruthy (jget payload ''error'')
     \<and> read_decrypted D (cr_decrypt_message (di_crypto D) payload) = Answered c"
  using assms
  by (auto simp: read_answer_def read_payload_def relay_reports_closed_def
      split: http_outcome.splits option.splits json.splits if_splits)

section \<open>Targets\<close>

definition absolute :: "settings \<Rightarrow> string \<Rightarrow> bool" where
  "absolute S url \<longleftrightarrow> (\<exists>scheme netloc. urlparse S url = Inr (scheme, netloc) \<and> scheme \<in> {''http'', ''https''} \<and> netloc \<noteq> [])"

lemma validated_Inr:
  "validated_target_url S value origin = Inr target \<Longrightarrow>
     target = normalise_target_url value \<and> (target = [] \<or> absolute S target)"
  by (auto simp: validated_target_url_def absolute_def Let_def ebind_Inr split: if_splits)

lemma rstrip_idem [simp]: "rstrip_slash (rstrip_slash s) = rstrip_slash s"
  by (simp add: rstrip_slash_def)

lemma normalised_target [simp]: "rstrip_slash (normalise_target_url v) = normalise_target_url v"
  by (simp add: normalise_target_url_def)

lemma env_target_Some:
  assumes "first_env_target S label relay_only names = Inr (Some t)"
  shows "\<exists>name \<in> set names. ts_url t = normalise_target_url (env_of S name) \<and> ts_url t \<noteq> [] \<and> absolute S (ts_url t)
     \<and> ts_source t = label @ name \<and> ts_relay_only t = relay_only"
  using assms by (induction names) (auto simp: ebind_Inr split: if_splits dest!: validated_Inr)

lemma env_target_None:
  "first_env_target S label relay_only names = Inr None \<Longrightarrow> name \<in> set names \<Longrightarrow> normalise_target_url (env_of S name) = []"
  by (induction names) (auto simp: ebind_Inr split: if_splits dest!: validated_Inr)

lemma config_target_Some:
  assumes "first_config_target S keys = Inr (Some t)"
  shows "ts_url t \<noteq> [] \<and> ts_url t \<noteq> DEFAULT_PRODUCTION_RELAY_URL \<and> absolute S (ts_url t) \<and> \<not> ts_relay_only t"
  using assms by (induction keys) (auto simp: ebind_Inr split: if_splits dest!: validated_Inr)

lemma or_else_Inr: "or_else m n = Inr t \<longleftrightarrow> m = Inr (Some t) \<or> m = Inr None \<and> n = Inr t"
  by (auto simp: or_else_def ebind_Inr split: option.splits)

lemma default_absolute: "absolute S DEFAULT_PRODUCTION_RELAY_URL"
proof -
  have "split_scheme (clean_url DEFAULT_PRODUCTION_RELAY_URL) = (''https'', ''//token.place'')" by code_simp
  moreover have "split_netloc ''//token.place'' = ''token.place''" by code_simp
  ultimately show ?thesis by (simp add: absolute_def urlparse_def)
qed

end
