(* ===== verification/Provider_World.thy ===== *)
theory Provider_World
  imports Provider_Runs
begin

text \<open>
  A property of the world that every single effect of the provider keeps is kept by a whole
  dispatched request.
\<close>

section \<open>What the world keeps\<close>

text \<open>A property of the world that no clock reading, no sleep and no request takes away.\<close>

locale kept_world =
  fixes W :: "'w world" and P :: "'w \<Rightarrow> bool"
  assumes time_keeps: "P w \<Longrightarrow> P (snd (wo_time W w))"
    and sleep_keeps: "P w \<Longrightarrow> P (wo_sleep W d w)"
    and http_keeps: "P w \<Longrightarrow> P (snd (wo_http W call w))"

sublocale kept_world < kept: step_order "\<lambda>s. P (ct_world s)" "\<lambda>_ _. True"
  by unfold_locales simp_all

context kept_world
begin

abbreviation keeps :: "('w, 'a) client_act \<Rightarrow> bool" where
  "keeps m \<equiv> advances (\<lambda>s. P (ct_world s)) (\<lambda>_ _. True) m"

lemma keeps_primitive:
  "keeps (read_clock W)" "keeps (send W call)" "keeps (sleep W d)" "keeps (raise e)" "keeps (set_backend_path label)"
  by (simp_all add: advances_def time_keeps http_keeps sleep_keeps)

lemma keeps_if: "keeps m \<Longrightarrow> keeps n \<Longrightarrow> keeps (if b then m else n)"
  by simp

lemmas keeps_rules = kept.advances_rules keeps_primitive keeps_if

lemma keeps_remaining: "keeps (remaining_timeout D d)" if "di_world D = W"
  unfolding remaining_timeout_def Let_def that by (intro keeps_rules)

lemma keeps_find_node: "keeps (find_node D model d)" if "di_world D = W"
  unfolding find_node_def that by (intro keeps_rules keeps_remaining that)

lemma keeps_admitted: "keeps (admitted_deadline D admission d)" if "di_world D = W"
  unfolding admitted_deadline_def that by (cases admission; cases "the admission") (auto intro!: keeps_rules)

lemma keeps_enqueue: "keeps (enqueue_chat D model messages options)" if "di_world D = W"
  unfolding enqueue_chat_def submit_chat_def Let_def that
  by (intro keeps_rules keeps_find_node keeps_remaining keeps_admitted that)

lemma keeps_give_up: "keeps (give_up D)" if "di_world D = W"
proof -
  have "keeps (case r of RequestRaised e \<Rightarrow> raise (OtherException e) | _ \<Rightarrow> ret ())" for r
    by (cases r) (auto intro: keeps_rules)
  then show ?thesis unfolding give_up_def cancel_relay_request_def that by (intro keeps_rules)
qed

lemma keeps_wait: "keeps (wait_a_little D d)" if "di_world D = W"
  unfolding wait_a_little_def that by (intro keeps_rules)

lemma keeps_turn: "keeps (poll_turn D d)" if "di_world D = W"
proof -
  have "keeps (case a of TryAgain \<Rightarrow> sbind (wait_a_little D d) (\<lambda>_. ret None) | GiveUp e \<Rightarrow> raise e
      | Answered c \<Rightarrow> sbind (set_backend_path ''distributed_relay_e2ee'') (\<lambda>_. ret (Some c)))" for a
    by (cases a) (auto intro!: keeps_rules keeps_wait that)
  then have "keeps (ask_relay D d left)" for left
    unfolding ask_relay_def Let_def that by (intro keeps_rules)
  then show ?thesis unfolding poll_turn_def Let_def that by (intro keeps_rules keeps_give_up that)
qed

lemma keepsD: "keeps m \<Longrightarrow> m s = (r, t) \<Longrightarrow> P (ct_world s) \<Longrightarrow> P (ct_world t)"
  using advancesD [of "\<lambda>s. P (ct_world s)" _ m s] by fastforce

lemma loop_keeps:
  assumes "di_world D = W" "poll_loop D d s = Some y" "P (ct_world s)"
  shows "P (ct_world (snd y))"
proof -
  have "di_world D = W \<longrightarrow> P (ct_world s) \<longrightarrow> P (ct_world (snd y))"
  proof (rule poll_loop.raw_induct [where P = "\<lambda>D d s y. di_world D = W \<longrightarrow> P (ct_world s) \<longrightarrow> P (ct_world (snd y))", OF _ assms(2)])
    fix loop :: "'w dispatch \<Rightarrow> pyfloat \<Rightarrow> 'w client \<Rightarrow> ((api_exception + completion_result) \<times> 'w client) option"
    fix D d s y
    assume IH: "\<And>D d s y. loop D d s = Some y \<Longrightarrow> di_world D = W \<longrightarrow> P (ct_world s) \<longrightarrow> P (ct_world (snd y))"
      and step: "(case poll_turn D d s of (Inl e, t) \<Rightarrow> Some (Inl e, t) | (Inr None, t) \<Rightarrow> loop D d t
        | (Inr (Some c), t) \<Rightarrow> Some (Inr c, t)) = Some y"
    show "di_world D = W \<longrightarrow> P (ct_world s) \<longrightarrow> P (ct_world (snd y))"
    proof (intro impI)
      assume D: "di_world D = W" and "P (ct_world s)"
      obtain r u where turn: "poll_turn D d s = (r, u)" by fastforce
      with keepsD [OF keeps_turn [OF D]] \<open>P (ct_world s)\<close> have "P (ct_world u)" by blast
      with step turn IH [of D d u y] D show "P (ct_world (snd y))" by (auto split: sum.splits option.splits)
    qed
  qed
  with assms(1,3) show ?thesis by blast
qed

lemma dispatch_keeps:
  assumes "di_world D = W" "distributed_complete_chat D model messages options s = Some (r, t)" "P (ct_world s)"
  shows "P (ct_world t)"
proof (cases "enqueue_chat D model messages options s")
  case (Pair q u)
  have "P (ct_world u)" using keepsD [OF keeps_enqueue [OF assms(1)] Pair assms(3)] .
  with loop_keeps [OF assms(1), of _ u "(r, t)"] assms(2) Pair show ?thesis
    by (auto simp: distributed_complete_chat_def split: sum.splits)
qed

end

end
