(* ===== verification/Relay_World.thy ===== *)
theory Relay_World
  imports Relay_Effects Provider_Clock Provider_World
begin

text \<open>
  The relay process as the world of the API's distributed provider: the requests of the provider
  reach the modelled handlers, and while the provider sleeps the other parties (compute nodes,
  other clients) use the relay.
\<close>

text \<open>
  \<open>rw_agenda\<close> lists, per sleep of the provider, what the other parties ask of the relay
  meanwhile.
\<close>

record relay_world =
  rw_exchange :: exchange
  rw_clock :: rat
  rw_agenda :: "relay_call list list"

definition ambient_at :: "ambient \<Rightarrow> rat \<Rightarrow> ambient" where
  "ambient_at am t = am\<lparr>am_clock := (am_clock am)\<lparr>ck_monotonic := t, ck_time := t\<rparr>\<rparr>"

text \<open>An exception of a handler is an internal error without a JSON body.\<close>

definition answered :: "reply act \<Rightarrow> exchange \<Rightarrow> http_outcome \<times> exchange" where
  "answered handler s =
     (case handler s of
        (Inr (code, body), t) \<Rightarrow> (HttpReply (int code) (Some body), t)
      | (Inl _, t) \<Rightarrow> (HttpReply 500 None, t))"

definition routed :: "string \<Rightarrow> ambient \<Rightarrow> http_call \<Rightarrow> exchange \<Rightarrow> http_outcome \<times> exchange" where
  "routed base am call =
     (let is_at = (\<lambda>path. hc_url call = relay_url base path); body = JDict (hc_body call)
      in if hc_method call = HttpGet
         then (if is_at ''/api/v1/relay/servers/next''
               then answered (select_next_server_payload am True [] (text_field (jget (hc_body call) ''model''))
                      (text_field (jget (hc_body call) ''context_tier'')))
               else (\<lambda>s. (HttpReply 404 None, s)))
         else if is_at ''/api/v1/relay/requests'' then answered (api_v1_relay_requests am body)
         else if is_at ''/api/v1/relay/requests/cancel'' then answered (api_v1_relay_requests_cancel am body)
         else if is_at ''/api/v1/relay/responses/retrieve'' then answered (api_v1_relay_responses_retrieve am body)
         else (\<lambda>s. (HttpReply 404 None, s)))"

definition elapse :: "rat \<Rightarrow> relay_world \<Rightarrow> relay_world" where
  "elapse d w = w\<lparr>rw_clock := rw_clock w + max d 0\<rparr>"

definition meanwhile :: "ambient \<Rightarrow> relay_world \<Rightarrow> relay_world" where
  "meanwhile am w =
     (case rw_agenda w of
        [] \<Rightarrow> w
      | calls # rest \<Rightarrow>
          w\<lparr>rw_exchange := fold (serve (ambient_at am (rw_clock w))) calls (rw_exchange w), rw_agenda := rest\<rparr>)"

definition relay_process ::
  "string \<Rightarrow> ambient \<Rightarrow> (string \<Rightarrow> json list \<Rightarrow> object \<Rightarrow> relay_world \<Rightarrow> (api_exception + json list) \<times> relay_world)
    \<Rightarrow> relay_world world" where
  "relay_process base am generate =
     \<lparr>wo_time = (\<lambda>w. (rw_clock w, w)),
      wo_sleep = (\<lambda>d w. elapse (case d of FNum x \<Rightarrow> x | _ \<Rightarrow> 0) (meanwhile am w)),
      wo_http = (\<lambda>call w. let (out, t) = routed base (ambient_at am (rw_clock w)) call (rw_exchange w)
                          in (out, w\<lparr>rw_exchange := t\<rparr>)),
      wo_generate = generate\<rparr>"

text \<open>Exact arithmetic, which satisfies the laws of the interpreter's.\<close>

definition exact_floats :: float_ops where
  "exact_floats = \<lparr>fo_plus = (\<lambda>a b. FNum (a + b)), fo_minus = (\<lambda>a b. FNum (a - b)), fo_div = (\<lambda>a b. FNum (a / b))\<rparr>"

lemma meanwhile_clock [simp]: "rw_clock (meanwhile am w) = rw_clock w"
  by (simp add: meanwhile_def split: list.split)

interpretation relay_clock: steady_world "relay_process base am generate" rw_clock exact_floats for base am generate
proof unfold_locales
  fix call w out w' assume "wo_http (relay_process base am generate) call w = (out, w')"
  then show "rw_clock w \<le> rw_clock w'" by (auto simp: relay_process_def case_prod_beta)
qed (auto simp: relay_process_def elapse_def exact_floats_def intro: exI [of _ "_ / 20"])

section \<open>What the provider leaves on the relay\<close>

text \<open>A state of the relay that its handlers reached stays one, whatever the provider does.\<close>

lemma answered_state: "snd (answered handler s) = snd (handler s)"
  by (auto simp: answered_def split: prod.split sum.split)

lemma routed_served:
  assumes "served s"
  shows "served (snd (routed base am call s))"
proof -
  have step: "served (serve am c s)" for c using assms by (rule served.step)
  show ?thesis
    using step [of "NextNode (text_field (jget (hc_body call) ''model'')) (text_field (jget (hc_body call) ''context_tier''))"]
      step [of "SubmitRequest (JDict (hc_body call))"] step [of "CancelRequest (JDict (hc_body call))"]
      step [of "RetrieveResponse (JDict (hc_body call))"] assms
    by (simp add: routed_def Let_def answered_state serve_def)
qed

lemma fold_served: "served s \<Longrightarrow> served (fold (serve am) calls s)"
  by (induction calls arbitrary: s) (simp_all add: served.step)

interpretation relay_kept: kept_world "relay_process base am generate" "\<lambda>w. served (rw_exchange w)" for base am generate
proof unfold_locales
  fix w :: relay_world assume "served (rw_exchange w)"
  then show "served (rw_exchange (snd (wo_time (relay_process base am generate) w)))" by (simp add: relay_process_def)
  show "served (rw_exchange (wo_sleep (relay_process base am generate) d w))" for d
    using \<open>served (rw_exchange w)\<close> fold_served by (simp add: relay_process_def elapse_def meanwhile_def split: list.split)
  show "served (rw_exchange (snd (wo_http (relay_process base am generate) call w)))" for call
    using routed_served [OF \<open>served (rw_exchange w)\<close>] by (simp add: relay_process_def case_prod_beta)
qed

section \<open>The two ends agree on the envelope\<close>

text \<open>What \<^verbatim>\<open>CryptoManager.encrypt_message\<close> returns: three texts under three keys.\<close>

definition ciphertext_object :: "string \<Rightarrow> string \<Rightarrow> string \<Rightarrow> object" where
  "ciphertext_object chat key v = [(''chat_history'', JStr chat), (''cipherkey'', JStr key), (''iv'', JStr v)]"

lemma faucet_payload_fields:
  "faucet_payload D node (ciphertext_object chat key v) =
     [(''client_public_key'', JStr (cr_public_key_b64 (di_crypto D))), (''server_public_key'', JStr node),
      (''request_id'', JStr (di_request_id D)), (''protocol'', JStr PROTOCOL), (''version'', JInt 1),
      (''cancel_token'', JStr (di_cancel_token D)), (''chat_history'', JStr chat), (''cipherkey'', JStr key), (''iv'', JStr v)]"
  by (simp add: faucet_payload_def ciphertext_object_def)

lemma envelope_accepted:
  "\<exists>e. checked_envelope (JDict (faucet_payload D node (ciphertext_object chat key v))) True = Inr e
     \<and> jget e ''server_public_key'' = JStr node \<and> jget e ''client_public_key'' = JStr (cr_public_key_b64 (di_crypto D))
     \<and> jget e ''request_id'' = JStr (di_request_id D) \<and> jget e ''cancel_token'' = JStr (di_cancel_token D)
     \<and> jget e ''chat_history'' = JStr chat \<and> jget e ''cipherkey'' = JStr key \<and> jget e ''iv'' = JStr v"
  unfolding faucet_payload_fields
  by (simp add: checked_envelope_def payload_has_plaintext_fields_def payload_has_unexpected_relay_fields_def
      extract_ciphertext_envelope_def dmem_def copy_field_def plaintext_fields_def relay_fields_def jget_default_def Let_def)

section \<open>A run\<close>

text \<open>
  A node is registered; the API enqueues a chat for it and polls; while it sleeps for the first time
  the node returns its response.
\<close>

definition run_node :: json where
  "run_node = JDict [(''server_public_key'', JStr ''n''),
     (''capabilities'', JDict [(''api_version'', JStr ''v1''), (''model_ids'', JList [JStr ''qwen3-8b-instruct'']),
        (''context_tier'', JStr ''8k-fast''), (''maximum_total_context_tokens'', JInt 8192),
        (''default_output_token_reservation'', JInt 256), (''maximum_output_tokens'', JInt 512),
        (''max_concurrency'', JInt 2), (''backend_class'', JStr ''cpu'')])]"

definition run_response :: json where
  "run_response = JDict ((''client_public_key'', JStr ''c'') # (''request_id'', JStr ''r'')
     # ciphertext_object ''Yg=='' ''Yg=='' ''Yg=='')"

definition run_message :: object where
  "run_message = [(''role'', JStr ''assistant''), (''content'', JStr ''hello'')]"

definition run_crypto :: crypto where
  "run_crypto =
     \<lparr>cr_public_key_b64 = ''c'', cr_encrypt_message = (\<lambda>_ _. Inr (ciphertext_object ''YQ=='' ''YQ=='' ''YQ=='')),
      cr_decrypt_message = (\<lambda>d. if jget d ''chat_history'' = JStr ''Yg==''
         then Some (JDict [(''protocol'', JStr PROTOCOL), (''request_id'', JStr ''r''), (''client_public_key'', JStr ''c''),
                (''api_v1_response'', JDict [(''message'', JDict run_message)])])
         else None)\<rparr>"

definition run_world :: relay_world where
  "run_world =
     \<lparr>rw_exchange = serve (trace_ambient 1000) (Register [] ''k'' run_node) empty_exchange,
      rw_clock = 1000, rw_agenda = [[Respond [] run_response]]\<rparr>"

definition run_dispatch :: "relay_world dispatch" where
  "run_dispatch =
     \<lparr>di_world = relay_process ''http://relay'' (trace_ambient 1000) (\<lambda>_ _ _ w. (Inr [], w)),
      di_floats = exact_floats, di_environ = \<lparr>en_vars = (\<lambda>_. None), en_float = (\<lambda>_. None), en_float_of_int = (\<lambda>i. Some (of_int i))\<rparr>,
      di_base_url = ''http://relay'', di_timeout_seconds = FNum 10, di_crypto = run_crypto,
      di_request_id = ''r'', di_cancel_token = ''t''\<rparr>"

definition run_client :: "relay_world client" where
  "run_client = \<lparr>ct_world = run_world, ct_log = [], ct_last_backend_path = ''unknown''\<rparr>"

lemma run_registered: "served (rw_exchange run_world)"
  by (simp add: run_world_def served.start served.step)

definition run_result :: "((api_exception + completion_result) \<times> relay_world client) option" where
  "run_result = distributed_complete_chat run_dispatch ''qwen3-8b-instruct'' [JDict [(''role'', JStr ''user''), (''content'', JStr ''hi'')]] [] run_client"

lemma run_completes:
  "\<exists>c t. run_result = Some (Inr c, t) \<and> cm_message c = run_message"
proof -
  have "(case run_result of Some (Inr c, t) \<Rightarrow> cm_message c = run_message | _ \<Rightarrow> False)"
    unfolding run_result_def by code_simp
  then show ?thesis by (auto split: option.splits sum.splits prod.splits)
qed

end
