(* ===== verification/Provider_Properties.thy ===== *)
theory Provider_Properties
  imports Provider_Facts Relay_World
begin

text \<open>
  The properties of the compute providers: a dispatched request returns, follows the protocol of
  the relay, accepts only the response to itself and discloses nothing but ciphertext; and which
  relay a deployment targets.
\<close>

section \<open>A dispatched request returns\<close>

text \<open>C16 (termination). A chat request that the API dispatches through a relay always returns, with a completion or
  an exception, when the clock does not go back, a sleep lasts as long as asked for, floats behave
  as doubles do, and the timeout is shorter than the time since the epoch.\<close>

theorem dispatch_always_returns:
  assumes "steady_world W now F" and "di_floats D = F" "di_world D = W" "di_timeout_seconds D = FNum b"
    and "max b 1 \<le> now (ct_world s)"
  shows "\<exists>r t. distributed_complete_chat D model messages options s = Some (r, t)"
  using steady_world.dispatch_returns [OF assms] .

theorem dispatch_always_returns_witness:
  "\<exists>r t. distributed_complete_chat run_dispatch ''qwen3-8b-instruct'' [] [] run_client = Some (r, t)"
  by (rule dispatch_always_returns [where b = 10, OF relay_clock.steady_world_axioms])
    (simp_all add: run_dispatch_def run_client_def run_world_def)



section \<open>It follows the protocol\<close>

text \<open>C18 (safety). A dispatched request is cancelled at most once, only after the relay accepted it, and as the last
  request of the call; a call that runs out of time while it waits for the response always sends
  that cancellation.\<close>

theorem cancelled_once_on_timeout:
  assumes "distributed_complete_chat D model messages options s = Some (r, t)"
  shows "\<exists>new. ct_log t = ct_log s @ new \<and> count_list (map fst new) (cancel_call D) \<le> 1
     \<and> (cancel_call D \<in> set (map fst new) \<longrightarrow> enqueued D model messages options (take 2 new)
          \<and> fst (last new) = cancel_call D \<and> (r = Inl timeout_error \<or> (\<exists>e. r = Inl (OtherException e))))
     \<and> (r = Inl timeout_error \<and> 2 < length new \<longrightarrow> cancel_call D \<in> set (map fst new))"
  using assms
proof (cases rule: dispatch_log)
  case (early e calls)
  then have "cancel_call D \<notin> set (map fst calls)" by (auto simp: list_all_iff dest!: early_differs)
  with early show ?thesis by (intro exI [of _ calls]) (auto simp: count_list_0_iff)
next
  case (polled calls polls x)
  have "cancel_call D \<notin> set (map fst (calls @ polls))"
    using enqueued_early [OF polled(1)] polled(2) early_differs retrieve_not_cancel
    unfolding undecided_def list_all_iff by fastforce
  moreover have "length calls = 2" using enqueued_early [OF polled(1)] by simp
  moreover have "fst x = cancel_call D" if "r = Inl timeout_error"
    using polled(3) that timeout_is_not_an_answer by (auto simp: decides_def)
  moreover have "r = Inl timeout_error \<or> (\<exists>e. r = Inl (OtherException e))" if "fst x = cancel_call D"
    using polled(3) that by (auto simp: decides_def dest: retrieve_not_cancel)
  ultimately show ?thesis using polled
    by (intro exI [of _ "calls @ polls @ [x]"]) (auto simp: count_list_0_iff)
qed

theorem cancelled_once_on_timeout_witness:
  "\<exists>c t. run_result = Some (Inr c, t) \<and> cancel_call run_dispatch \<notin> set (map fst (ct_log t))"
proof -
  obtain c t where run: "run_result = Some (Inr c, t)" using run_completes by blast
  from cancelled_once_on_timeout [OF run [unfolded run_result_def]] obtain new where
    "ct_log t = ct_log run_client @ new" "cancel_call run_dispatch \<notin> set (map fst new)" by blast
  with run show ?thesis by (intro exI [of _ c] exI [of _ t]) (simp add: run_client_def)
qed

text \<open>C19 (safety). A completion comes from a response that decrypts under the request's own key to an object which
  names the protocol, this request and this client, reports no error and has the message; nothing
  else the relay or a node sends is ever returned.\<close>

theorem completion_is_bound:
  assumes "distributed_complete_chat D model messages options s = Some (Inr c, t)"
  shows "\<exists>\<tau> payload d response.
     last (ct_log t) = (retrieve_call D \<tau>, HttpReply 200 (Some (JDict payload)))
     \<and> cr_decrypt_message (di_crypto D) payload = Some (JDict d)
     \<and> jget d ''protocol'' = JStr PROTOCOL \<and> jget d ''request_id'' = JStr (di_request_id D)
     \<and> jget d ''client_public_key'' = JStr (cr_public_key_b64 (di_crypto D))
     \<and> jget d ''api_v1_response'' = JDict response
     \<and> \<not> jtruthy (jget response ''error'') \<and> jget response ''message'' = JDict (cm_message c)"
  using assms
proof (cases rule: dispatch_log)
  case (polled calls polls x)
  then have x: "is_retrieve D (fst x)" "read_answer D (snd x) = Answered c" by (auto simp: decides_def)
  obtain \<tau> where "fst x = retrieve_call D \<tau>" using x(1) by (auto simp: is_retrieve_def)
  moreover obtain payload where p: "snd x = HttpReply 200 (Some (JDict payload))"
    "read_decrypted D (cr_decrypt_message (di_crypto D) payload) = Answered c"
    using read_answered [OF x(2)] by blast
  ultimately have last: "last (ct_log t) = (retrieve_call D \<tau>, HttpReply 200 (Some (JDict payload)))"
    using polled(4) by (cases x) simp
  obtain d response where "cr_decrypt_message (di_crypto D) payload = Some (JDict d)" "jget d ''protocol'' = JStr PROTOCOL"
    "jget d ''request_id'' = JStr (di_request_id D)" "jget d ''client_public_key'' = JStr (cr_public_key_b64 (di_crypto D))"
    "jget d ''api_v1_response'' = JDict response" "completion_of response = Answered c"
    using decrypted_answered [OF p(2)] by blast
  with last completion_answered [of response c] show ?thesis by blast
qed simp

theorem completion_is_bound_witness:
  "\<exists>c t \<tau> payload. run_result = Some (Inr c, t)
     \<and> last (ct_log t) = (retrieve_call run_dispatch \<tau>, HttpReply 200 (Some (JDict payload)))"
proof -
  obtain c t where run: "run_result = Some (Inr c, t)" using run_completes by blast
  from completion_is_bound [OF run [unfolded run_result_def]] run show ?thesis by blast
qed

lemma encrypted_for_Inr: "encrypted_for D plain key = Inr e \<longleftrightarrow> cr_encrypt_message (di_crypto D) plain key = Inr e"
  by (simp add: encrypted_for_def split: sum.split)

text \<open>C20 (safety). The relay sees nothing of a chat but its ciphertext: every request of the call is the selection of a
  node, which names the model, the envelope encrypted for the key of a node, or a retrieval or the
  cancellation, which name only the client key, the request and the cancel token.\<close>

theorem relay_learns_only_ciphertext:
  assumes "distributed_complete_chat D model messages options s = Some (r, t)"
  shows "\<exists>new. ct_log t = ct_log s @ new
     \<and> list_all (\<lambda>(c, out). (\<exists>\<tau>. c = next_server_call D model \<tau>)
         \<or> (\<exists>key encrypted \<tau>. cr_encrypt_message (di_crypto D) (plaintext_envelope D model messages options) key = Inr encrypted
              \<and> c = enqueue_call D key encrypted \<tau>)
         \<or> (\<exists>\<tau>. c = retrieve_call D \<tau>) \<or> c = cancel_call D) new"
  using assms
proof (cases rule: dispatch_log)
  case (early e calls)
  then show ?thesis by (intro exI [of _ calls]) (auto simp: list_all_iff early_call_def encrypted_for_Inr)
next
  case (polled calls polls x)
  have "fst x = cancel_call D \<or> is_retrieve D (fst x)" using polled(3) by (auto simp: decides_def)
  moreover have "list_all (is_retrieve D \<circ> fst) polls" using polled(2) by (auto simp: list_all_iff undecided_def)
  ultimately show ?thesis using polled(4) enqueued_early [OF polled(1)]
    by (intro exI [of _ "calls @ polls @ [x]"])
      (fastforce simp: list_all_iff early_call_def encrypted_for_Inr is_retrieve_def)
qed

theorem relay_learns_only_ciphertext_witness:
  "\<exists>c t. run_result = Some (Inr c, t)
     \<and> list_all (\<lambda>(c, out). (\<exists>\<tau>. c = next_server_call run_dispatch ''qwen3-8b-instruct'' \<tau>)
         \<or> (\<exists>key \<tau>. c = enqueue_call run_dispatch key (ciphertext_object ''YQ=='' ''YQ=='' ''YQ=='') \<tau>)
         \<or> (\<exists>\<tau>. c = retrieve_call run_dispatch \<tau>) \<or> c = cancel_call run_dispatch) (ct_log t)"
proof -
  obtain c t where run: "run_result = Some (Inr c, t)" using run_completes by blast
  from relay_learns_only_ciphertext [OF run [unfolded run_result_def]] run show ?thesis
    by (intro exI [of _ c] exI [of _ t]) (fastforce simp: run_client_def run_dispatch_def run_crypto_def list_all_iff)
qed

text \<open>Two chats whose envelopes encrypt alike cannot be told apart by what is sent or by the result.\<close>

theorem chats_that_encrypt_alike:
  assumes "\<And>key. cr_encrypt_message (di_crypto D) (plaintext_envelope D model messages options) key
      = cr_encrypt_message (di_crypto D) (plaintext_envelope D model messages' options') key"
  shows "distributed_complete_chat D model messages options s = distributed_complete_chat D model messages' options' s"
  by (simp add: distributed_complete_chat_def enqueue_chat_def submit_chat_def encrypted_for_def assms)

text \<open>The envelope the API sends is one the relay accepts, with the node, the client, the request, the
  cancel token and the ciphertext unchanged, for every key pair and request.\<close>

theorem client_envelope_is_accepted:
  "\<exists>e. checked_envelope (JDict (faucet_payload D node (ciphertext_object chat key v))) True = Inr e
     \<and> jget e ''server_public_key'' = JStr node \<and> jget e ''client_public_key'' = JStr (cr_public_key_b64 (di_crypto D))
     \<and> jget e ''request_id'' = JStr (di_request_id D) \<and> jget e ''cancel_token'' = JStr (di_cancel_token D)
     \<and> jget e ''chat_history'' = JStr chat \<and> jget e ''cipherkey'' = JStr key \<and> jget e ''iv'' = JStr v"
  by (rule envelope_accepted)

section \<open>Which relay\<close>

text \<open>A target that is selected is an absolute HTTP or HTTPS URL, and it is the production relay only in
  the production environment or when a variable names it: no other deployment falls back to it.\<close>

theorem only_production_has_a_default:
  assumes "select_distributed_target S = Inr t"
  shows "(ts_url t \<noteq> [] \<longrightarrow> absolute S (ts_url t))
     \<and> (ts_url t = DEFAULT_PRODUCTION_RELAY_URL \<longrightarrow> current_token_place_env S = ''production''
         \<or> (\<exists>name \<in> set (EXPLICIT_DISTRIBUTED_TARGET_ENVS @ RELAY_INTERNAL_URL_ENVS @ RELAY_PUBLIC_URL_ENVS).
              normalise_target_url (env_of S name) = DEFAULT_PRODUCTION_RELAY_URL))"
  using assms default_absolute
  by (auto simp: select_distributed_target_def or_else_Inr unset_target_def DEFAULT_PRODUCTION_RELAY_URL_def
      split: if_splits dest!: env_target_Some config_target_Some)

definition deployment :: "(string, string) dict \<Rightarrow> settings" where
  "deployment vars =
     \<lparr>st_environ = \<lparr>en_vars = dget vars, en_float = (\<lambda>_. None), en_float_of_int = (\<lambda>i. Some (of_int i))\<rparr>,
      st_config = (\<lambda>_. Inr (JStr DEFAULT_PRODUCTION_RELAY_URL)), st_brackets_ok = (\<lambda>_. True)\<rparr>"

theorem only_production_has_a_default_witness:
  "\<exists>t. select_distributed_target (deployment []) = Inr t \<and> ts_url t \<noteq> DEFAULT_PRODUCTION_RELAY_URL"
proof -
  have "\<exists>t. select_distributed_target (deployment []) = Inr t"
  proof -
    have "(case select_distributed_target (deployment []) of Inr t \<Rightarrow> True | Inl e \<Rightarrow> False)" by code_simp
    then show ?thesis by (auto split: sum.splits)
  qed
  then obtain t where t: "select_distributed_target (deployment []) = Inr t" by blast
  have "current_token_place_env (deployment []) \<noteq> ''production''"
    "\<not> list_ex (\<lambda>name. normalise_target_url (env_of (deployment []) name) = DEFAULT_PRODUCTION_RELAY_URL)
       (EXPLICIT_DISTRIBUTED_TARGET_ENVS @ RELAY_INTERNAL_URL_ENVS @ RELAY_PUBLIC_URL_ENVS)"
    by code_simp+
  with only_production_has_a_default [OF t] t show ?thesis by (auto simp: list_ex_iff)
qed

text \<open>A deployment that publishes a relay URL and configures no provider dispatches every chat through that
  relay, without falling back to inference in its own process.\<close>

theorem relay_only_never_infers_locally:
  assumes "get_api_v1_compute_provider S = Inr p"
    and "py_strip (env_default S ''TOKENPLACE_API_V1_COMPUTE_PROVIDER'' []) = []"
    and "name \<in> set RELAY_PUBLIC_URL_ENVS" "normalise_target_url (env_of S name) \<noteq> []"
  shows "\<exists>url timeout. p = DistributedApiV1ComputeProvider url timeout \<and> url \<noteq> []"
proof -
  obtain x where x: "first_env_target S ''relay_public_env:'' True RELAY_PUBLIC_URL_ENVS = Inr x"
    using assms(1) by (auto simp: get_api_v1_compute_provider_def read_api_v1_provider_env_def Let_def
        select_implicit_relay_public_target_def or_else_def ebind_Inr)
  with env_target_None [of S _ True RELAY_PUBLIC_URL_ENVS name] assms(3,4) obtain t where t: "x = Some t"
    by (cases x) auto
  from env_target_Some [OF x [unfolded t]] obtain n where
    n: "ts_url t = normalise_target_url (env_of S n)" "ts_url t \<noteq> []" "ts_source t = ''relay_public_env:'' @ n" "ts_relay_only t"
    by auto
  have "select_implicit_relay_public_target S = Inr t"
    using x t by (simp add: select_implicit_relay_public_target_def or_else_def)
  moreover have "is_api_v1_implicit_relay_only_selection S (Some t) = Inr True"
    using n assms(2) by (simp add: is_api_v1_implicit_relay_only_selection_def starts_with_text_def)
  ultimately have "read_api_v1_provider_env S = Inr (''distributed'', t, False)"
    by (simp add: read_api_v1_provider_env_def Let_def)
  with assms(1) n show ?thesis
    by (auto simp: get_api_v1_compute_provider_def build_api_v1_compute_provider_def Let_def)
qed

theorem relay_only_never_infers_locally_witness:
  "\<exists>url timeout. get_api_v1_compute_provider (deployment [(''RELAY_PUBLIC_URL'', ''https://relay.example/'')])
     = Inr (DistributedApiV1ComputeProvider url timeout)"
proof -
  define S where "S = deployment [(''RELAY_PUBLIC_URL'', ''https://relay.example/'')]"
  have "(case get_api_v1_compute_provider S of Inr p \<Rightarrow> True | Inl e \<Rightarrow> False)" unfolding S_def by code_simp
  then obtain p where p: "get_api_v1_compute_provider S = Inr p" by (auto split: sum.splits)
  have "py_strip (env_default S ''TOKENPLACE_API_V1_COMPUTE_PROVIDER'' []) = []" unfolding S_def by code_simp
  moreover have "normalise_target_url (env_of S ''RELAY_PUBLIC_URL'') \<noteq> []" unfolding S_def by code_simp
  ultimately show ?thesis
    using relay_only_never_infers_locally [OF p, of "''RELAY_PUBLIC_URL''"] p by (auto simp: RELAY_PUBLIC_URL_ENVS_def S_def)
qed

end
