(* ===== verification/Api_Models.thy ===== *)
theory Api_Models
  imports Compute_Provider
begin

text \<open>
  The model catalogue and the local generation of \<^verbatim>\<open>src/api/v1/models.py\<close>: the entries the API
  lists, the resolution of aliases, the loading and caching of a model, and the checks and
  normalisation of a chat before the model sees it.
\<close>

section \<open>Chat messages\<close>

definition join_blank :: "string list \<Rightarrow> string" where
  "join_blank xs = (case xs of [] \<Rightarrow> [] | x # rest \<Rightarrow> x @ concat (map (\<lambda>y. [CHR 0x0A, CHR 0x0A] @ y) rest))"

definition is_text_type :: "json \<Rightarrow> bool" where
  "is_text_type v = (case v of JStr t \<Rightarrow> t \<in> set text_types | _ \<Rightarrow> False)"

text \<open>The segments of the text blocks; \<open>None\<close> is the \<^verbatim>\<open>TypeError\<close> of an unhashable type.\<close>

fun block_segments :: "json list \<Rightarrow> string list option" where
  "block_segments [] = Some []"
| "block_segments (JDict b # bs) =
     (if \<not> hashable (jget b ''type'') then None
      else map_option
        (\<lambda>rest. (case jget b ''text'' of
            JStr t \<Rightarrow> if is_text_type (jget b ''type'') \<and> py_strip t \<noteq> [] then py_strip t # rest else rest
          | _ \<Rightarrow> rest))
        (block_segments bs))"
| "block_segments (_ # bs) = block_segments bs"

definition stringify_content_blocks :: "json \<Rightarrow> json option" where
  "stringify_content_blocks content =
     (case content of
        JList blocks \<Rightarrow> map_option (\<lambda>segments. JStr (join_blank segments)) (block_segments blocks)
      | _ \<Rightarrow> Some content)"

definition normalise_message :: "json \<Rightarrow> json option" where
  "normalise_message message =
     (case message of
        JDict m \<Rightarrow> map_option (\<lambda>c. JDict (dset ''content'' c m)) (stringify_content_blocks (jget m ''content''))
      | _ \<Rightarrow> Some message)"

fun normalise_chat_messages :: "json list \<Rightarrow> json list option" where
  "normalise_chat_messages [] = Some []"
| "normalise_chat_messages (m # ms) =
     (case normalise_message m of
        None \<Rightarrow> None
      | Some n \<Rightarrow> map_option (\<lambda>ns. n # ns) (normalise_chat_messages ms))"

section \<open>The catalogue\<close>

definition optional_text :: "string option \<Rightarrow> json" where
  "optional_text t = (case t of Some s \<Rightarrow> JStr s | None \<Rightarrow> JNull)"

definition profile_to_catalog_entry :: "model_profile \<Rightarrow> object" where
  "profile_to_catalog_entry p =
     [(''id'', JStr (mp_api_model_id p)), (''profile_id'', JStr (mp_profile_id p)), (''name'', JStr (mp_display_name p)),
      (''display_name'', JStr (mp_display_name p)), (''description'', JStr (mp_description p)),
      (''owner'', JStr (mp_owner p)), (''owned_by'', JStr (mp_owner p)), (''provider'', JStr (mp_provider p)),
      (''source_model'', JStr (mp_source_model p)), (''parameters'', JStr (mp_parameters p)),
      (''quantization'', JStr (mp_quantization p)), (''license'', optional_text (mp_license p)),
      (''gguf_repo'', optional_text (mp_gguf_repo p)), (''context_length'', JInt (int (mp_default_context_tokens p))),
      (''native_context_tokens'', JInt (int (mp_native_context_tokens p))),
      (''maximum_validated_context_tokens'', JInt (int (mp_maximum_validated_context_tokens p))),
      (''supported_context_tiers'', JList (map JStr (mp_supported_context_tiers p))),
      (''chat_template_policy'', JStr (mp_chat_template_policy p)), (''thinking_mode'', JStr (mp_thinking_mode p)),
      (''runnable'', JBool (mp_runnable p)), (''url'', JStr (mp_download_url p)), (''file_name'', JStr (mp_filename p)),
      (''adapters'', JList [])]"

definition AVAILABLE_MODELS :: "object list" where
  "AVAILABLE_MODELS = map profile_to_catalog_entry (iter_model_profiles True)"

text \<open>The entry of an adapter: the base entry with the adapter's own values where it has them.\<close>

definition adapter_entry :: "object \<Rightarrow> object \<Rightarrow> object" where
  "adapter_entry base adapter =
     (let base_entry = dset ''base_model_id'' (jget base ''id'') (ddel ''adapters'' base);
          own = (\<lambda>k. jget_default adapter k (jget base_entry k))
      in fold (\<lambda>(k, v). dset k v)
           [(''id'', jget adapter ''id''), (''name'', own ''name''), (''description'', own ''description''),
            (''file_name'', own ''file_name''), (''parameters'', own ''parameters''), (''quantization'', own ''quantization''),
            (''context_length'', own ''context_length''), (''url'', own ''url''), (''base_model_id'', jget base ''id''),
            (''adapter'', JDict [(''id'', jget adapter ''id''), (''instructions'', jget adapter ''instructions''),
               (''prompt_template'', jget adapter ''prompt_template''),
               (''share_base'', jget_default adapter ''share_base'' (JBool False))])]
           (ddel ''adapters'' base))"

definition iter_model_entries :: "object list" where
  "iter_model_entries =
     concat (map (\<lambda>base.
        dset ''base_model_id'' (jget base ''id'') (ddel ''adapters'' base)
        # (case jget base ''adapters'' of
             JList as \<Rightarrow> concat (map (\<lambda>a. case a of JDict d \<Rightarrow> [adapter_entry base d] | _ \<Rightarrow> []) as)
           | _ \<Rightarrow> [])) AVAILABLE_MODELS)"

definition get_model_metadata :: "string \<Rightarrow> object option" where
  "get_model_metadata model = find (\<lambda>e. jget e ''id'' = JStr model) iter_model_entries"

definition resolve_model_alias :: "string \<Rightarrow> string option" where
  "resolve_model_alias model =
     (case dget build_model_aliases model of
        None \<Rightarrow> None
      | Some target \<Rightarrow> if target = [] \<or> get_model_metadata target = None then None else Some target)"

text \<open>\<^verbatim>\<open>resolve_model_alias(m) or m\<close>\<close>

definition canonical_model :: "string \<Rightarrow> string" where
  "canonical_model model = (case resolve_model_alias model of Some t \<Rightarrow> t | None \<Rightarrow> model)"

section \<open>Loading\<close>

text \<open>
  The runtime outside the repository: whether the mock is on, the constructor of \<^verbatim>\<open>llama_cpp\<close>
  (\<open>None\<close> when it is not installed, \<open>Inl\<close> when it raises), and the completion of a loaded model.
\<close>

record 'm runtime =
  rt_use_mock :: bool
  rt_llama :: "(string \<Rightarrow> string + 'm) option"
  rt_complete :: "'m \<Rightarrow> json list \<Rightarrow> object \<Rightarrow> string + object"

datatype 'm model_instance = MockModel | LoadedModel 'm

type_synonym 'm loaded = "(string, 'm) dict"

definition model_error_of :: "string \<Rightarrow> int \<Rightarrow> string \<Rightarrow> api_exception" where
  "model_error_of message status kind =
     ModelError \<lparr>me_message = [Text message], me_status_code = status, me_error_type = kind\<rparr>"

definition join_ids :: "object list \<Rightarrow> string" where
  "join_ids es =
     (case map (\<lambda>e. case jget e ''id'' of JStr i \<Rightarrow> i | _ \<Rightarrow> []) es of
        [] \<Rightarrow> [] | x # rest \<Rightarrow> x @ concat (map (\<lambda>y. '', '' @ y) rest))"

definition shares_base :: "object \<Rightarrow> bool" where
  "shares_base meta = (case jget meta ''adapter'' of JDict a \<Rightarrow> jtruthy (jget a ''share_base'') | _ \<Rightarrow> False)"

definition base_id :: "object \<Rightarrow> string" where
  "base_id meta = (case jget meta ''base_model_id'' of JStr b \<Rightarrow> b | _ \<Rightarrow> [])"

text \<open>The file of a model, of its base when it shares the base; relative paths are under \<^verbatim>\<open>models\<close>.\<close>

definition model_path :: "object \<Rightarrow> string option" where
  "model_path meta =
     (let name = (if shares_base meta
                  then (case get_model_metadata (base_id meta) of Some b \<Rightarrow> jget b ''file_name'' | None \<Rightarrow> jget meta ''file_name'')
                  else jget meta ''file_name'')
      in case name of
           JStr (c # cs) \<Rightarrow> Some (if c = CHR ''/'' then c # cs else ''models/'' @ c # cs)
         | _ \<Rightarrow> None)"

definition load_model :: "(string \<Rightarrow> string + 'm) \<Rightarrow> string \<Rightarrow> object \<Rightarrow> api_exception + 'm" where
  "load_model llama model meta =
     (let failed = (\<lambda>e. Inl (model_error_of (''Failed to load model '' @ [CHR 0x27] @ model @ [CHR 0x27] @ '': '' @ e) 500 ''model_load_error''))
      in case model_path meta of
           None \<Rightarrow> failed ''Model metadata missing file name''
         | Some path \<Rightarrow> (case llama path of Inl e \<Rightarrow> failed e | Inr m \<Rightarrow> Inr m))"

text \<open>A model that is loaded under the cache key, or is loaded now.\<close>

definition cached_model ::
  "(string \<Rightarrow> string + 'm) \<Rightarrow> string \<Rightarrow> object \<Rightarrow> ('m loaded, api_exception, 'm model_instance) effect" where
  "cached_model llama model meta =
     (\<lambda>cache.
        (let key = (if shares_base meta then base_id meta else model)
         in case dget cache key of
              Some m \<Rightarrow> (Inr (LoadedModel m), dset model m cache)
            | None \<Rightarrow>
                (case load_model llama model meta of
                   Inl e \<Rightarrow> (Inl e, cache)
                 | Inr m \<Rightarrow> (Inr (LoadedModel m), dset model m (dset key m cache)))))"

definition get_model_instance :: "'m runtime \<Rightarrow> string \<Rightarrow> ('m loaded, api_exception, 'm model_instance) effect" where
  "get_model_instance R requested =
     (if requested = [] then lift (Inl (model_error_of ''Model ID cannot be empty'' 400 ''invalid_request_error''))
      else
        (let model = canonical_model requested
         in case get_model_metadata model of
              None \<Rightarrow>
                lift (Inl (model_error_of (''Model '' @ [CHR 0x27] @ model @ [CHR 0x27] @ '' not found. Available models: ''
                   @ join_ids iter_model_entries) 400 ''model_not_found''))
            | Some meta \<Rightarrow>
                if rt_use_mock R then ret MockModel
                else (case rt_llama R of
                  None \<Rightarrow> lift (Inl (model_error_of (''llama-cpp-python is not installed. Install full server ''
                            @ ''dependencies to load local models.'') 503 ''model_unavailable''))
                | Some llama \<Rightarrow> cached_model llama model meta)))"

section \<open>Generation\<close>

definition invalid_message :: "piece list \<Rightarrow> api_exception" where
  "invalid_message message =
     ModelError \<lparr>me_message = message, me_status_code = 400, me_error_type = ''invalid_request_error''\<rparr>"

definition bad_text_block :: "nat \<Rightarrow> nat \<Rightarrow> api_exception" where
  "bad_text_block i j =
     invalid_message [Text (''Invalid text-only content block at messages['' @ show_nat i @ ''].content['' @ show_nat j
       @ '']. API v1 chat completions do not support image content.'')]"

fun check_blocks :: "nat \<Rightarrow> nat \<Rightarrow> json list \<Rightarrow> api_exception + unit" where
  "check_blocks i j [] = Inr ()"
| "check_blocks i j (JDict b # bs) =
     (if \<not> hashable (jget b ''type'') then Inl (OtherException ''unhashable type'')
      else if \<not> is_text_type (jget b ''type'') \<or> \<not> is_jstr (jget b ''text'') \<or> jget b ''text'' = JStr []
      then Inl (bad_text_block i j) else check_blocks i (Suc j) bs)"
| "check_blocks i j (_ # bs) = Inl (bad_text_block i j)"

fun check_messages :: "nat \<Rightarrow> json list \<Rightarrow> api_exception + unit" where
  "check_messages i [] = Inr ()"
| "check_messages i (JDict m # ms) =
     (if \<not> dmem ''role'' m \<or> \<not> dmem ''content'' m
      then Inl (invalid_message [Text (''Invalid message format at position '' @ show_nat i
             @ ''. Each message must have '' @ [CHR 0x27] @ ''role'' @ [CHR 0x27] @ '' and '' @ [CHR 0x27] @ ''content''
             @ [CHR 0x27] @ '' fields.'')])
      else case jget m ''content'' of
        JStr _ \<Rightarrow> check_messages (Suc i) ms
      | JList bs \<Rightarrow> ebind (check_blocks i 0 bs) (\<lambda>_. check_messages (Suc i) ms)
      | _ \<Rightarrow> Inl (invalid_message [Text (''Invalid content type at messages['' @ show_nat i
                @ '']. API v1 chat content must be text-only.'')]))"
| "check_messages i (_ # ms) =
     Inl (invalid_message [Text (''Invalid message format at position '' @ show_nat i
        @ ''. Each message must have '' @ [CHR 0x27] @ ''role'' @ [CHR 0x27] @ '' and '' @ [CHR 0x27] @ ''content''
        @ [CHR 0x27] @ '' fields.'')])"

definition mock_responses :: "string list" where
  "mock_responses =
     [''Mock response: Paris is the capital of France and one of the most visited cities in the world.'',
      ''Mock response: The capital of France is Paris, known for its iconic Eiffel Tower and the Louvre Museum.'',
      ''Mock response: Paris, the City of Light, serves as France'' @ [CHR 0x27] @ ''s capital and cultural center.'']"

text \<open>The instructions of an adapter go first, unless they are there already.\<close>

definition is_instruction :: "string \<Rightarrow> json \<Rightarrow> bool" where
  "is_instruction name m =
     (case m of JDict d \<Rightarrow> jget d ''role'' = JStr ''system'' \<and> jget d ''name'' = JStr name | _ \<Rightarrow> False)"

definition with_instructions :: "string \<Rightarrow> object option \<Rightarrow> json list \<Rightarrow> json list" where
  "with_instructions model meta messages =
     (case meta of
        Some m \<Rightarrow>
          (case jget m ''adapter'' of
             JDict a \<Rightarrow>
               (let name = ''adapter:'' @ (case jget_default a ''id'' (JStr model) of JStr i \<Rightarrow> i | _ \<Rightarrow> [])
                in if jtruthy (jget a ''instructions'') \<and> \<not> list_ex (is_instruction name) messages
                   then JDict [(''role'', JStr ''system''), (''name'', JStr name), (''content'', jget a ''instructions'')] # messages
                   else messages)
           | _ \<Rightarrow> messages)
      | None \<Rightarrow> messages)"

definition inference_failed :: "string \<Rightarrow> api_exception" where
  "inference_failed e = model_error_of (''Failed to generate response: '' @ e) 500 ''model_inference_error''"

text \<open>
  \<^verbatim>\<open>response['choices'][0]['message']\<close>; the text of an exception of the interpreter is its class.
\<close>

definition message_of_response :: "object \<Rightarrow> api_exception + json" where
  "message_of_response response =
     (if \<not> jtruthy (jget response ''choices'')
      then Inl (model_error_of ''Model returned an invalid response structure'' 500 ''model_response_error'')
      else case jget response ''choices'' of
        JList (JDict c # _) \<Rightarrow>
          (case dget c ''message'' of Some m \<Rightarrow> Inr m | None \<Rightarrow> Inl (inference_failed ''KeyError''))
      | JDict _ \<Rightarrow> Inl (inference_failed ''KeyError'')
      | _ \<Rightarrow> Inl (inference_failed ''TypeError''))"

text \<open>\<open>pick\<close> is the random choice among the mock responses.\<close>

definition generate_response ::
  "'m runtime \<Rightarrow> nat \<Rightarrow> string \<Rightarrow> json list \<Rightarrow> object \<Rightarrow> ('m loaded, api_exception, json list) effect" where
  "generate_response R pick requested messages options =
     (let model = canonical_model requested
      in if messages = [] then lift (Inl (model_error_of ''Messages cannot be empty'' 400 ''invalid_request_error''))
         else
           sbind (lift (check_messages 0 messages)) (\<lambda>_.
           sbind (lift (case normalise_chat_messages messages of
                          Some ns \<Rightarrow> Inr ns | None \<Rightarrow> Inl (inference_failed ''unhashable type''))) (\<lambda>plain.
           sbind (get_model_instance R model) (\<lambda>m.
           let chat = with_instructions model (get_model_metadata model) plain
           in case m of
                MockModel \<Rightarrow>
                  ret (chat @ [JDict [(''role'', JStr ''assistant''), (''content'', JStr (mock_responses ! (pick mod 3)))]])
              | LoadedModel l \<Rightarrow>
                  if rt_use_mock R
                  then ret (chat @ [JDict [(''role'', JStr ''assistant''), (''content'', JStr (mock_responses ! (pick mod 3)))]])
                  else
                    (case rt_complete R l chat options of
                       Inl e \<Rightarrow> lift (Inl (inference_failed e))
                     | Inr response \<Rightarrow>
                         sbind (lift (message_of_response response)) (\<lambda>message. ret (chat @ [message])))))))"

end
