(* ===== verification/Moderation.thy ===== *)
theory Moderation
  imports Api_Validation "HOL-Library.Sublist"
begin

text \<open>
  The content policy of \<^verbatim>\<open>src/api/v1/moderation.py\<close>: the block list from the process
  environment, the generator that walks the text of a message, and the search. The
  environment is a function from variable names to values.
\<close>

section \<open>The configured policy\<close>

type_synonym getenv = "string \<Rightarrow> string option"

definition getenv_default :: "getenv \<Rightarrow> string \<Rightarrow> string \<Rightarrow> string" where
  "getenv_default env name d = (case env name of Some v \<Rightarrow> v | None \<Rightarrow> d)"

definition DEFAULT_BLOCKLIST :: "string list" where
  "DEFAULT_BLOCKLIST =
     [''build a bomb'', ''harm humans'', ''kill'', ''make a weapon'', ''weaponize'']"

record moderation_decision =
  md_allowed :: bool
  md_reason :: "string option"
  md_matched_term :: "string option"
  md_flagged_text :: "string option"

definition decision_status :: "moderation_decision \<Rightarrow> string" where
  "decision_status d = (if md_allowed d then ''allowed'' else ''blocked'')"

definition get_mode :: "getenv \<Rightarrow> string" where
  "get_mode env =
     (let mode = py_lower (py_strip (getenv_default env ''CONTENT_MODERATION_MODE'' ''disabled''))
      in if mode \<in> {''1'', ''true'', ''on''} then ''block'' else mode)"

text \<open>\<^verbatim>\<open>s.split(",")\<close>\<close>

fun split_comma :: "string \<Rightarrow> string list" where
  "split_comma [] = [[]]"
| "split_comma (c # cs) =
     (if c = CHR '','' then [] # split_comma cs
      else case split_comma cs of w # ws \<Rightarrow> (c # w) # ws | [] \<Rightarrow> [[c]])"

text \<open>The loop that keeps the first occurrence of each term.\<close>

fun unique_terms :: "string list \<Rightarrow> string list \<Rightarrow> string list" where
  "unique_terms [] acc = acc"
| "unique_terms (t # ts) acc = unique_terms ts (if t \<in> set acc then acc else acc @ [t])"

definition get_blocklist :: "getenv \<Rightarrow> string list" where
  "get_blocklist env =
     (let extra = map (\<lambda>t. py_lower (py_strip t))
            (filter (\<lambda>t. py_strip t \<noteq> []) (split_comma (getenv_default env ''CONTENT_MODERATION_BLOCKLIST'' [])));
          include_defaults = py_lower (py_strip (getenv_default env ''CONTENT_MODERATION_INCLUDE_DEFAULTS'' ''1''));
          use_defaults = (include_defaults \<notin> {''0'', ''false'', ''no'', ''off''})
      in unique_terms ((if use_defaults then map py_lower DEFAULT_BLOCKLIST else []) @ extra) [])"

section \<open>The text of a message\<close>

text \<open>
  \<open>iter_text_fragments\<close> is the generator on one value, \<open>iter_fragments\<close> its loop over the
  list under a \<^verbatim>\<open>text\<close> key, \<open>iter_items\<close> its loop over a content list.
\<close>

lemma size_text_list:
  "dget d k = Some (JList xs) \<Longrightarrow> size_list size xs < Suc (size_list (size_prod (\<lambda>_. 0) size) d)"
  using size_dget [of d k "JList xs"] by simp

function iter_text_fragments :: "json \<Rightarrow> string list"
  and iter_fragments :: "json list \<Rightarrow> string list"
  and iter_items :: "json list \<Rightarrow> string list" where
  "iter_text_fragments (JStr s) = [s]"
| "iter_text_fragments (JDict d) =
     (case dget d ''text'' of
        Some (JStr s) \<Rightarrow> [s]
      | Some (JList xs) \<Rightarrow> iter_fragments xs
      | _ \<Rightarrow> [])"
| "iter_text_fragments (JList items) = iter_items items"
| "iter_text_fragments JNull = []"
| "iter_text_fragments (JBool b) = []"
| "iter_text_fragments (JInt i) = []"
| "iter_text_fragments (JFloat r) = []"
| "iter_text_fragments JInf = []"
| "iter_text_fragments JNegInf = []"
| "iter_text_fragments JNan = []"
| "iter_fragments [] = []"
| "iter_fragments (x # xs) = iter_text_fragments x @ iter_fragments xs"
| "iter_items [] = []"
| "iter_items (x # xs) =
     (case x of
        JDict d \<Rightarrow>
          (case (jget d ''type'' = JStr ''text'', jget d ''text'') of
             (True, JStr s) \<Rightarrow> [s]
           | _ \<Rightarrow> iter_text_fragments (JDict d))
      | JStr s \<Rightarrow> [s]
      | _ \<Rightarrow> []) @ iter_items xs"
  by pat_completeness auto

termination
  by (relation "measure (\<lambda>x. case x of Inl v \<Rightarrow> 2 * size v + 1
        | Inr (Inl xs) \<Rightarrow> 2 * size_list size xs | Inr (Inr xs) \<Rightarrow> 2 * size_list size xs)")
    (auto dest: size_text_list)

section \<open>The search\<close>

text \<open>\<^verbatim>\<open>term in text\<close>\<close>

fun starts_with :: "string \<Rightarrow> string \<Rightarrow> bool" where
  "starts_with [] text = True"
| "starts_with (c # cs) [] = False"
| "starts_with (c # cs) (d # ds) = (c = d \<and> starts_with cs ds)"

fun contains :: "string \<Rightarrow> string \<Rightarrow> bool" where
  "contains t [] = (t = [])"
| "contains t (c # cs) = (starts_with t (c # cs) \<or> contains t cs)"

definition allow :: moderation_decision where
  "allow = \<lparr>md_allowed = True, md_reason = None, md_matched_term = None, md_flagged_text = None\<rparr>"

definition block :: "string \<Rightarrow> string \<Rightarrow> moderation_decision" where
  "block t fragment =
     \<lparr>md_allowed = False,
      md_reason = Some (''Request blocked by content moderation policy: matched banned term ''
        @ [CHR 0x27] @ t @ [CHR 0x27] @ ''.''),
      md_matched_term = Some t, md_flagged_text = Some fragment\<rparr>"

definition banned_term :: "string list \<Rightarrow> string \<Rightarrow> string option" where
  "banned_term blocklist fragment =
     find (\<lambda>t. t \<noteq> [] \<and> contains t (py_lower fragment)) blocklist"

fun scan_fragments :: "string list \<Rightarrow> string list \<Rightarrow> moderation_decision option" where
  "scan_fragments blocklist [] = None"
| "scan_fragments blocklist (f # fs) =
     (case banned_term blocklist f of
        Some t \<Rightarrow> Some (block t f)
      | None \<Rightarrow> scan_fragments blocklist fs)"

definition message_content :: "json \<Rightarrow> json" where
  "message_content m = (case m of JDict d \<Rightarrow> jget d ''content'' | _ \<Rightarrow> JNull)"

fun scan_messages :: "string list \<Rightarrow> json list \<Rightarrow> moderation_decision" where
  "scan_messages blocklist [] = allow"
| "scan_messages blocklist (m # ms) =
     (if message_content m = JNull then scan_messages blocklist ms
      else case scan_fragments blocklist (iter_text_fragments (message_content m)) of
             Some d \<Rightarrow> d
           | None \<Rightarrow> scan_messages blocklist ms)"

definition evaluate_messages_for_policy :: "getenv \<Rightarrow> json list \<Rightarrow> moderation_decision" where
  "evaluate_messages_for_policy env messages =
     (if get_mode env \<in> {''disabled'', ''off'', ''none'', ''''} then allow
      else let blocklist = get_blocklist env
           in if blocklist = [] then allow else scan_messages blocklist messages)"

section \<open>Facts\<close>

subsection \<open>Containment is the sublist order\<close>

lemma starts_with_prefix: "starts_with p s \<longleftrightarrow> prefix p s"
  by (induction p s rule: starts_with.induct) auto

lemma contains_sublist: "contains t s \<longleftrightarrow> sublist t s"
  by (induction s) (auto simp: starts_with_prefix sublist_Cons_right)

subsection \<open>The block list\<close>

lemma unique_terms_set: "set (unique_terms ts acc) = set ts \<union> set acc"
  by (induction ts arbitrary: acc) auto

lemma unique_terms_distinct: "distinct acc \<Longrightarrow> distinct (unique_terms ts acc)"
  by (induction ts arbitrary: acc) auto

text \<open>Keeping first occurrences of a reversed list is \<^const>\<open>remdups\<close>.\<close>

lemma unique_terms_remdups: "distinct acc \<Longrightarrow> unique_terms ts acc = acc @ rev (remdups (rev (filter (\<lambda>t. t \<notin> set acc) ts)))"
proof (induction ts arbitrary: acc)
  case (Cons t ts)
  show ?case
  proof (cases "t \<in> set acc")
    case True
    with Cons show ?thesis by simp
  next
    case False
    have "filter (\<lambda>u. u \<notin> set (acc @ [t])) ts = filter (\<lambda>u. u \<noteq> t) (filter (\<lambda>u. u \<notin> set acc) ts)"
      by (auto intro: filter_cong)
    moreover have "remdups (xs @ [t]) = remdups (filter (\<lambda>u. u \<noteq> t) xs) @ [t]" for xs
      by (induction xs) auto
    ultimately show ?thesis using Cons.IH [of "acc @ [t]"] Cons.prems False
      by (simp add: rev_filter [symmetric])
  qed
qed simp

lemma blocklist_terms:
  assumes "t \<in> set (get_blocklist env)"
  shows "t \<noteq> [] \<and> py_lower t = t"
proof -
  have "list_all (\<lambda>t. t \<noteq> [] \<and> py_lower t = t) (map py_lower DEFAULT_BLOCKLIST)"
    by (simp add: DEFAULT_BLOCKLIST_def)
  with assms show ?thesis
    by (auto simp: get_blocklist_def Let_def unique_terms_set list_all_iff split: if_splits)
qed

subsection \<open>The scan finds the first banned text\<close>

text \<open>Every text the policy looks at, in order.\<close>

definition inspected :: "json list \<Rightarrow> string list" where
  "inspected messages =
     concat (map (\<lambda>m. if message_content m = JNull then [] else iter_text_fragments (message_content m)) messages)"

lemma scan_fragments_append:
  "scan_fragments bl (xs @ ys) =
     (case scan_fragments bl xs of Some d \<Rightarrow> Some d | None \<Rightarrow> scan_fragments bl ys)"
  by (induction xs) (auto split: option.splits)

lemma scan_messages_inspected:
  "scan_messages bl ms = (case scan_fragments bl (inspected ms) of Some d \<Rightarrow> d | None \<Rightarrow> allow)"
  by (induction ms) (auto simp: inspected_def scan_fragments_append split: option.splits)

lemma scan_fragments_None: "scan_fragments bl fs = None \<longleftrightarrow> list_all (\<lambda>f. banned_term bl f = None) fs"
  by (induction fs) (auto split: option.splits)

lemma scan_fragments_Some:
  assumes "scan_fragments bl fs = Some d"
  shows "\<exists>pre f post t. fs = pre @ f # post \<and> list_all (\<lambda>f. banned_term bl f = None) pre
     \<and> banned_term bl f = Some t \<and> d = block t f"
  using assms
proof (induction fs)
  case (Cons f fs)
  show ?case
  proof (cases "banned_term bl f")
    case None
    with Cons obtain pre g post t where "fs = pre @ g # post" "list_all (\<lambda>f. banned_term bl f = None) pre"
      "banned_term bl g = Some t" "d = block t g" by auto
    with None show ?thesis by (intro exI [of _ "f # pre"]) auto
  next
    case (Some t)
    with Cons.prems have "f # fs = [] @ f # fs" "d = block t f" by simp_all
    with Some show ?thesis by (metis list.pred_inject(1))
  qed
qed simp

lemma banned_term_None: "banned_term bl f = None \<longleftrightarrow> list_all (\<lambda>t. t = [] \<or> \<not> sublist t (py_lower f)) bl"
  by (auto simp: banned_term_def find_None_iff contains_sublist list_all_iff)

lemma banned_term_Some: "banned_term bl f = Some t \<Longrightarrow> t \<in> set bl \<and> t \<noteq> [] \<and> sublist t (py_lower f)"
  by (auto simp: banned_term_def find_Some_iff contains_sublist)

subsection \<open>Nothing a chat message says is skipped\<close>

text \<open>The texts of a validated message: the string, or the text of each block.\<close>

definition block_text :: "json \<Rightarrow> string" where
  "block_text item = (case item of JDict d \<Rightarrow> (case jget d ''text'' of JStr s \<Rightarrow> s | _ \<Rightarrow> []) | _ \<Rightarrow> [])"

definition content_texts :: "json \<Rightarrow> string list" where
  "content_texts content =
     (case content of JStr s \<Rightarrow> [s] | JList items \<Rightarrow> map block_text items | _ \<Rightarrow> [])"

lemma iter_text_block:
  assumes "text_block item"
  shows "iter_items (item # items) = block_text item # iter_items items"
proof -
  obtain d ty s where d: "item = JDict d" "jget d ''type'' = JStr ty" "jget d ''text'' = JStr s"
    using assms by (auto simp: text_block_def)
  then have "dget d ''text'' = Some (JStr s)" by (auto intro: jget_nonnull)
  with d show ?thesis by (cases "ty = ''text''") (simp_all add: block_text_def)
qed

lemma iter_text_blocks: "list_all text_block items \<Longrightarrow> iter_items items = map block_text items"
  by (induction items) (simp_all add: iter_text_block del: iter_items.simps(2))

lemma iter_text_content: "text_content c \<Longrightarrow> iter_text_fragments c = content_texts c"
  by (auto simp: text_content_def content_texts_def is_jstr_iff iter_text_blocks)

lemma inspected_chat:
  "list_all chat_message ms \<Longrightarrow> inspected ms = concat (map (content_texts \<circ> message_content) ms)"
proof (induction ms)
  case (Cons m ms)
  then obtain d c where m: "m = JDict d" "dget d ''content'' = Some c" "text_content c"
    by (auto simp: chat_message_def)
  then have "message_content m = c" "c \<noteq> JNull" by (auto simp: message_content_def jget_present text_content_def)
  with Cons m show ?case by (simp add: inspected_def iter_text_content)
qed (simp add: inspected_def)

end
