(* ===== verification/Api_Routes.thy ===== *)
theory Api_Routes
  imports Api_Models Provider_Targets Moderation
begin

text \<open>
  The handlers of \<^verbatim>\<open>src/api/v1/routes.py\<close> for chat and text completions, from the decoded JSON body
  to the status, body and diagnostics headers of the response: validation, decryption, content policy, the
  choice of a provider, the completion, the usage estimate and the encryption of the response.
\<close>

section \<open>Surroundings\<close>

text \<open>
  What the handlers call outside the modelled code: decryption of the three ciphertext fields (\<open>Inl\<close>
  the text of an exception, \<open>Inr None\<close> a failure), \<^verbatim>\<open>json.loads\<close> and \<^verbatim>\<open>json.dumps\<close>, encryption for a
  client, \<^verbatim>\<open>str\<close> of a value in a message, a random identifier, \<^verbatim>\<open>zlib.crc32\<close>, the time in seconds, and the classification
  of addresses by \<^verbatim>\<open>ipaddress\<close> (\<open>None\<close> for a text that is no address).
\<close>

record api =
  ap_settings :: settings
  ap_decrypt :: "object \<Rightarrow> string + string option"
  ap_loads :: "string \<Rightarrow> json option"
  ap_dumps :: "json \<Rightarrow> string"
  ap_encrypt :: "object \<Rightarrow> string \<Rightarrow> object option"
  ap_str :: "json \<Rightarrow> string"
  ap_uuid :: string
  ap_crc32 :: "string \<Rightarrow> nat"
  ap_time :: int
  ap_host_url :: string
  ap_remote_addr :: string
  ap_ip_version :: "string \<Rightarrow> nat option"
  ap_ip_is_loopback :: "string \<Rightarrow> bool option"

record response =
  rs_status :: int
  rs_body :: json
  rs_headers :: "(string, string) dict"

definition render :: "api \<Rightarrow> piece list \<Rightarrow> string" where
  "render A ps = concat (map (\<lambda>p. case p of Text t \<Rightarrow> t | Value v \<Rightarrow> ap_str A v) ps)"

definition format_error_response :: "string \<Rightarrow> string \<Rightarrow> string option \<Rightarrow> string option \<Rightarrow> int \<Rightarrow> response" where
  "format_error_response message error_type param code status =
     \<lparr>rs_status = status,
      rs_body = JDict [(''error'', JDict ([(''message'', JStr message), (''type'', JStr error_type)]
        @ (case param of Some p \<Rightarrow> [(''param'', JStr p)] | None \<Rightarrow> [])
        @ (case code of Some c \<Rightarrow> [(''code'', JStr c)] | None \<Rightarrow> [])))],
      rs_headers = []\<rparr>"

definition invalid_body :: "string \<Rightarrow> response" where
  "invalid_body message = format_error_response message ''invalid_request_error'' None None 400"

text \<open>The exceptions a handler catches: those of the validators, and those of the providers.\<close>

definition validation_response :: "api \<Rightarrow> api_error \<Rightarrow> response" where
  "validation_response A e =
     (case e of
        ValidationError message field code \<Rightarrow>
          format_error_response (render A message) ''invalid_request_error'' field (Some code) 400
      | UnhashableTypeError \<Rightarrow>
          format_error_response ''Internal server error: unhashable type'' ''server_error'' None None 500)"

section \<open>Requests from the same host\<close>

definition rpartition_at :: "string \<Rightarrow> string" where
  "rpartition_at netloc = rev (takeWhile (\<lambda>c. c \<noteq> CHR ''@'') (rev netloc))"

text \<open>The host and the port of a network location, as \<^verbatim>\<open>urllib.parse\<close> splits them.\<close>

definition hostinfo :: "string \<Rightarrow> string \<times> string" where
  "hostinfo netloc =
     (let info = rpartition_at netloc
      in if CHR ''['' \<in> set info
         then (let inside = tl (dropWhile (\<lambda>c. c \<noteq> CHR ''['') info);
                   host = takeWhile (\<lambda>c. c \<noteq> CHR '']'') inside;
                   rest = drop (length host + 1) inside
               in (host, tl (dropWhile (\<lambda>c. c \<noteq> CHR '':'') rest)))
         else (takeWhile (\<lambda>c. c \<noteq> CHR '':'') info, tl (dropWhile (\<lambda>c. c \<noteq> CHR '':'') info)))"

text \<open>The zone after a percent sign keeps its case.\<close>

definition hostname_of :: "string \<Rightarrow> string" where
  "hostname_of netloc =
     (let host = fst (hostinfo netloc); name = takeWhile (\<lambda>c. c \<noteq> CHR ''%'') host
      in py_lower name @ drop (length name) host)"

text \<open>\<open>None\<close> is the \<^verbatim>\<open>ValueError\<close> of a port that is no number up to 65535.\<close>

definition port_of :: "string \<Rightarrow> nat option option" where
  "port_of netloc =
     (let port = snd (hostinfo netloc)
      in if port = [] then Some None
         else if list_all is_digit port \<and> parse_nat port \<le> 65535 then Some (Some (parse_nat port)) else None)"

definition path_after :: "string \<Rightarrow> string" where
  "path_after rest =
     (let p = takeWhile (\<lambda>c. c \<notin> set ''?#'')
                (if take 2 rest = ''//'' then drop (2 + length (split_netloc rest)) rest else rest);
          segment = rev (takeWhile (\<lambda>c. c \<noteq> CHR ''/'') (rev p));
          head = take (length p - length segment) p
      in head @ takeWhile (\<lambda>c. c \<noteq> CHR '';'') segment)"

definition normalise_relay_origin :: "api \<Rightarrow> string \<Rightarrow> api_exception + string" where
  "normalise_relay_origin A value =
     (let candidate = rstrip_slash (py_strip value)
      in if candidate = [] then Inr []
         else ebind (urlparse (ap_settings A) candidate) (\<lambda>(scheme, netloc).
           (let path = rstrip_slash (path_after (snd (split_scheme (clean_url candidate))));
                host = py_lower (hostname_of netloc)
            in if scheme \<notin> {''http'', ''https''} \<or> netloc = [] \<or> path \<notin> {[], ''/api/v1''} \<or> host = [] then Inr []
               else (case port_of netloc of
                  None \<Rightarrow> Inr []
                | Some port \<Rightarrow>
                    Inr (py_lower scheme @ ''://'' @ (if ap_ip_version A host = Some 6 then ''['' @ host @ '']'' else host)
                      @ (case port of Some n \<Rightarrow> CHR '':'' # show_nat n | None \<Rightarrow> []) @ path)))))"

definition origin_host_is_loopback :: "api \<Rightarrow> string \<Rightarrow> api_exception + bool" where
  "origin_host_is_loopback A origin =
     ebind (urlparse (ap_settings A) origin) (\<lambda>(_, netloc).
       (let host = py_lower (hostname_of netloc)
        in Inr (host = ''localhost'' \<or> ap_ip_is_loopback A host = Some True)))"

definition request_loopback_relay_origin :: "api \<Rightarrow> api_exception + string" where
  "request_loopback_relay_origin A =
     ebind (normalise_relay_origin A (ap_host_url A)) (\<lambda>origin.
       if origin = [] then Inr []
       else ebind (origin_host_is_loopback A origin) (\<lambda>loopback.
         Inr (if loopback \<and> ap_ip_is_loopback A (ap_remote_addr A) = Some True then origin else [])))"

definition untrusted_relay_origin :: api_exception where
  "untrusted_relay_origin =
     ComputeProviderError
       \<lparr>ce_message = [Text ''desktop bridge distributed routing requires a trusted relay origin''],
        ce_code = ''untrusted_relay_origin'', ce_error_type = ''invalid_request_error'',
        ce_public_message = ''No trusted relay origin is configured for this request.'', ce_status_code = 400\<rparr>"

definition request_relay_target_selection :: "api \<Rightarrow> api_exception + target_selection" where
  "request_relay_target_selection A =
     ebind (select_distributed_target (ap_settings A)) (\<lambda>target.
       if ts_url target \<noteq> [] \<and> starts_with_text (ts_source target) ''explicit_env:'' then Inr target
       else ebind (request_loopback_relay_origin A) (\<lambda>origin.
         if origin \<noteq> []
         then Inr \<lparr>ts_url = origin, ts_source = ''request_override:loopback_same_origin'', ts_relay_only = True\<rparr>
         else if ts_url target \<noteq> [] then Inr target else Inl untrusted_relay_origin))"

section \<open>Usage and options\<close>

definition extract_message_content_for_usage :: "api \<Rightarrow> json \<Rightarrow> string" where
  "extract_message_content_for_usage A message =
     (case message of
        JDict m \<Rightarrow> (case jget_default m ''content'' (JStr []) of JStr t \<Rightarrow> t | c \<Rightarrow> ap_dumps A c)
      | _ \<Rightarrow> [])"

definition estimate_token_length :: "string \<Rightarrow> nat" where
  "estimate_token_length t =
     (let stripped = py_strip t in if stripped = [] then 0 else max 1 ((length stripped + 3) div 4))"

definition is_relay_capable_provider_path :: "string \<Rightarrow> bool" where
  "is_relay_capable_provider_path path \<longleftrightarrow> path \<in> {''distributed'', ''distributed_with_local_fallback''}"

definition passthrough_fields :: "string list" where
  "passthrough_fields =
     [''temperature'', ''top_p'', ''max_tokens'', ''frequency_penalty'', ''presence_penalty'', ''stop'', ''tools'',
      ''tool_choice'', ''response_format'', ''seed'']"

definition extract_chat_completion_options :: "object \<Rightarrow> object" where
  "extract_chat_completion_options data = filter (\<lambda>(k, v). k \<in> set passthrough_fields \<and> v \<noteq> JNull) data"

definition should_force_desktop_bridge_distributed :: "json \<Rightarrow> bool \<Rightarrow> bool" where
  "should_force_desktop_bridge_distributed metadata is_encrypted \<longleftrightarrow>
     (case metadata of
        JDict m \<Rightarrow> is_encrypted \<and> jget m ''inference_target'' = JStr ''desktop_bridge_api_v1_e2ee''
                    \<and> jget m ''relay_path'' = JStr ''api_v1_e2ee''
      | _ \<Rightarrow> False)"

fun provider_class :: "provider \<Rightarrow> string" where
  "provider_class LocalApiV1ComputeProvider = ''LocalApiV1ComputeProvider''"
| "provider_class (DistributedApiV1ComputeProvider _ _) = ''DistributedApiV1ComputeProvider''"
| "provider_class (FallbackApiV1ComputeProvider _ _) = ''FallbackApiV1ComputeProvider''"

section \<open>Chat completions\<close>

text \<open>
  \<^verbatim>\<open>field in data\<close> of a body that is no object: a list has members, a text has parts; \<open>None\<close> is the
  \<^verbatim>\<open>TypeError\<close> of a number. Such a body has no \<^verbatim>\<open>get\<close>, so it fails one step later at the latest.
\<close>

definition body_has :: "json \<Rightarrow> string \<Rightarrow> bool option" where
  "body_has body field =
     (case body of
        JDict d \<Rightarrow> Some (dmem field d)
      | JList xs \<Rightarrow> Some (JStr field \<in> set xs)
      | JStr t \<Rightarrow> Some (contains field t)
      | _ \<Rightarrow> None)"

definition internal_error :: "string \<Rightarrow> response" where
  "internal_error e = format_error_response (''Internal server error: '' @ e) ''server_error'' None None 500"

definition missing_parameter :: "string \<Rightarrow> response" where
  "missing_parameter field =
     format_error_response (''Missing required parameter: '' @ field) ''invalid_request_error'' (Some field)
       (Some ''invalid_request_error'') 400"

definition streaming_unsupported :: "string \<Rightarrow> response" where
  "streaming_unsupported endpoint =
     format_error_response (''Streaming is not supported for API v1 '' @ endpoint
       @ ''. Use /api/v2/chat/completions for Server-Sent Events.'') ''invalid_request_error'' (Some ''stream'') None 400"

definition content_blocked :: "moderation_decision \<Rightarrow> response" where
  "content_blocked d =
     format_error_response (case md_reason d of Some (c # cs) \<Rightarrow> c # cs | _ \<Rightarrow> ''Request blocked by content moderation policy.'')
       ''content_policy_violation'' None (Some ''content_blocked'') 400"

definition encryption_error :: "string \<Rightarrow> int \<Rightarrow> response" where
  "encryption_error message status = format_error_response message ''encryption_error'' None None status"

text \<open>The messages of an encrypted request.\<close>

definition decrypted_messages :: "api \<Rightarrow> object \<Rightarrow> response + json" where
  "decrypted_messages A data =
     (case validate_encrypted_request data of
        Inl e \<Rightarrow> Inl (validation_response A e)
      | Inr _ \<Rightarrow>
          (case ap_decrypt A (case jget data ''messages'' of JDict m \<Rightarrow> m | _ \<Rightarrow> []) of
             Inl e \<Rightarrow> Inl (internal_error e)
           | Inr None \<Rightarrow> Inl (encryption_error ''Failed to decrypt messages'' 400)
           | Inr (Some plain) \<Rightarrow>
               (case ap_loads A plain of
                  None \<Rightarrow> Inl (encryption_error ''Failed to parse JSON from decrypted messages'' 400)
                | Some v \<Rightarrow> Inr v)))"

definition plain_messages :: "api \<Rightarrow> object \<Rightarrow> response + json" where
  "plain_messages A data =
     (case ebind (validate_required_fields data [''messages'']) (\<lambda>_. validate_field_type data ''messages'' ListType False) of
        Inl e \<Rightarrow> Inl (validation_response A e)
      | Inr _ \<Rightarrow> Inr (jget data ''messages''))"

definition allowed_messages :: "api \<Rightarrow> json \<Rightarrow> response + json list" where
  "allowed_messages A messages =
     (case validate_chat_messages messages of
        Inl e \<Rightarrow> Inl (validation_response A e)
      | Inr _ \<Rightarrow>
          (let ms = (case messages of JList ms \<Rightarrow> ms | _ \<Rightarrow> []);
               decision = evaluate_messages_for_policy (env_of (ap_settings A)) ms
           in if \<not> md_allowed decision then Inl (content_blocked decision) else Inr ms))"

text \<open>The model and the messages, once they are valid and allowed.\<close>

definition checked_chat :: "api \<Rightarrow> object \<Rightarrow> response + string \<times> json list" where
  "checked_chat A data =
     (if jtruthy (jget data ''stream'') then Inl (streaming_unsupported ''chat completions'')
      else case validate_field_type data ''model'' StrType False of
        Inl e \<Rightarrow> Inl (validation_response A e)
      | Inr _ \<Rightarrow>
          ebind (if jtruthy (jget data ''encrypted'') then decrypted_messages A data else plain_messages A data) (\<lambda>messages.
          ebind (allowed_messages A messages) (\<lambda>ms.
            Inr (case jget data ''model'' of JStr m \<Rightarrow> m | _ \<Rightarrow> [], ms))))"

definition chosen_provider :: "api \<Rightarrow> bool \<Rightarrow> api_exception + provider" where
  "chosen_provider A forced =
     (if forced
      then ebind (request_relay_target_selection A) (\<lambda>target.
             get_api_v1_compute_provider_for_mode (ap_settings A) ''distributed'' None (Some False) (Some target))
      else get_api_v1_compute_provider (ap_settings A))"

definition get_models_info :: "object list" where
  "get_models_info = iter_model_entries"

definition model_supported :: "string \<Rightarrow> bool" where
  "model_supported model \<longleftrightarrow> list_ex (\<lambda>e. jget e ''id'' = JStr model) get_models_info"

definition model_not_supported :: "string \<Rightarrow> response" where
  "model_not_supported model =
     format_error_response (''Model '' @ [CHR 0x27] @ model @ [CHR 0x27] @ '' is not supported by API v1.'')
       ''invalid_request_error'' (Some ''model'') (Some ''model_not_supported'') 400"

text \<open>Token counts the provider reports; without them the usage is estimated.\<close>

definition authoritative :: "object option \<Rightarrow> bool" where
  "authoritative usage =
     (case usage of
        Some u \<Rightarrow> list_all (\<lambda>k. jint (jget u k) \<noteq> None) [''prompt_tokens'', ''completion_tokens'', ''total_tokens'']
      | None \<Rightarrow> False)"

definition usage_object :: "object option \<Rightarrow> nat \<Rightarrow> nat \<Rightarrow> object" where
  "usage_object usage p c =
     (case usage of
        Some u \<Rightarrow>
          if authoritative usage
          then map (\<lambda>k. (k, jget u k)) [''prompt_tokens'', ''completion_tokens'', ''total_tokens'']
          else [(''prompt_tokens'', JInt (int p)), (''completion_tokens'', JInt (int c)), (''total_tokens'', JInt (int (p + c)))]
      | None \<Rightarrow>
          [(''prompt_tokens'', JInt (int p)), (''completion_tokens'', JInt (int c)), (''total_tokens'', JInt (int (p + c)))])"

definition join_lines :: "string list \<Rightarrow> string" where
  "join_lines xs = (case xs of [] \<Rightarrow> [] | x # rest \<Rightarrow> x @ concat (map (\<lambda>y. CHR 0x0A # y) rest))"

definition finish_reason_of :: "completion_result \<Rightarrow> string \<Rightarrow> string" where
  "finish_reason_of c d = (case cm_finish_reason c of Some (x # xs) \<Rightarrow> x # xs | _ \<Rightarrow> d)"

definition chat_response_data :: "api \<Rightarrow> object \<Rightarrow> string \<Rightarrow> json list \<Rightarrow> completion_result \<Rightarrow> object" where
  "chat_response_data A data model messages c =
     (let m = cm_message c; tools = jget m ''tool_calls'';
          payload = [(''role'', jget_default m ''role'' (JStr ''assistant'')), (''content'', jget_default m ''content'' (JStr []))]
            @ (if jtruthy tools then [(''tool_calls'', tools)] else []);
          segments = extract_message_content_for_usage A (JDict m) # (if jtruthy tools then [ap_dumps A tools] else []);
          prompts = map (extract_message_content_for_usage A) (filter is_jdict messages);
          usage = usage_object (cm_usage c) (sum_list (map estimate_token_length prompts))
            (estimate_token_length (join_lines (filter (\<lambda>t. t \<noteq> []) segments)))
      in [(''id'', JStr (''chatcmpl-'' @ ap_uuid A)), (''object'', JStr ''chat.completion''), (''created'', JInt (ap_time A)),
          (''model'', JStr model),
          (''choices'', JList [JDict [(''index'', JInt 0), (''message'', JDict payload),
             (''finish_reason'', JStr (finish_reason_of c (if jtruthy tools then ''tool_calls'' else ''stop'')))]]),
          (''usage'', JDict usage)]
         @ (case jget data ''metadata'' of JDict (x # xs) \<Rightarrow> [(''metadata'', JDict (x # xs))] | _ \<Rightarrow> []))"

text \<open>The response, encrypted when an encrypted request has a client key; a key that is no text fails.\<close>

definition diagnostics :: "provider \<Rightarrow> string \<Rightarrow> (string, string) dict" where
  "diagnostics p label =
     [(''X-Tokenplace-API-V1-Provider'', provider_class p),
      (''X-Tokenplace-API-V1-Resolved-Provider-Path'', get_api_v1_resolved_provider_path p),
      (''X-Tokenplace-API-V1-Execution-Backend-Path'', label), (''X-Tokenplace-API-V1-Stream-Mode'', ''non-streaming'')]"

definition sealed_response :: "api \<Rightarrow> string \<Rightarrow> object \<Rightarrow> object \<Rightarrow> (string, string) dict \<Rightarrow> response" where
  "sealed_response A error_type data reply headers =
     (case jget data ''client_public_key'' of
        JStr (k # ks) \<Rightarrow>
          if jtruthy (jget data ''encrypted'')
          then (case ap_encrypt A reply (k # ks) of
                  None \<Rightarrow> format_error_response ''Failed to encrypt response'' error_type None None 500
                | Some e \<Rightarrow> \<lparr>rs_status = 200, rs_body = JDict [(''encrypted'', JBool True), (''data'', JDict e)], rs_headers = headers\<rparr>)
          else \<lparr>rs_status = 200, rs_body = JDict reply, rs_headers = headers\<rparr>
      | key \<Rightarrow>
          if jtruthy (jget data ''encrypted'') \<and> jtruthy key
          then format_error_response ''Failed to encrypt response'' error_type None None 500
          else \<lparr>rs_status = 200, rs_body = JDict reply, rs_headers = headers\<rparr>)"

text \<open>
  An exception of the provider. A relay-only deployment reports missing nodes under its own code; an
  exception while it finds out whether it is one counts as no.
\<close>

definition exception_response :: "api \<Rightarrow> bool \<Rightarrow> api_exception \<Rightarrow> response" where
  "exception_response A forced e =
     (case e of
        ModelError m \<Rightarrow> format_error_response (render A (me_message m)) (me_error_type m) None None (me_status_code m)
      | ComputeProviderError c \<Rightarrow>
          (let relay_only = (is_api_v1_implicit_relay_only_selection (ap_settings A) None = Inr True)
           in format_error_response (ce_public_message c) (ce_error_type c) None
                (Some (if ce_code c = ''no_registered_compute_nodes'' \<and> relay_only \<and> \<not> forced
                       then ''no_compute_node_available'' else ce_code c)) (ce_status_code c))
      | OtherException x \<Rightarrow> internal_error x)"

text \<open>\<open>None\<close> is a provider call that never returns.\<close>

definition complete_checked_chat ::
  "api \<Rightarrow> 'w dispatch \<Rightarrow> object \<Rightarrow> string \<Rightarrow> json list \<Rightarrow> 'w client \<Rightarrow> (response \<times> 'w client) option" where
  "complete_checked_chat A D data requested messages s =
     (let forced = should_force_desktop_bridge_distributed (jget data ''metadata'') (jtruthy (jget data ''encrypted''));
          model = canonical_model requested
      in case chosen_provider A forced of
           Inl e \<Rightarrow> Some (exception_response A forced e, s)
         | Inr p \<Rightarrow>
             if \<not> is_relay_capable_provider_path (get_api_v1_resolved_provider_path p) \<and> \<not> model_supported model
             then Some (model_not_supported model, s)
             else
               (case complete_chat D p model messages (extract_chat_completion_options data) s of
                  None \<Rightarrow> None
                | Some (Inl e, t) \<Rightarrow> Some (exception_response A forced e, t)
                | Some (Inr c, t) \<Rightarrow>
                    Some (sealed_response A ''encryption_error'' data (chat_response_data A data requested messages c)
                            (diagnostics p (ct_last_backend_path t)), t)))"

definition handle_chat_completion_request ::
  "api \<Rightarrow> 'w dispatch \<Rightarrow> json \<Rightarrow> 'w client \<Rightarrow> (response \<times> 'w client) option" where
  "handle_chat_completion_request A D body s =
     (if \<not> jtruthy body then Some (invalid_body ''Invalid request body: empty or not JSON'', s)
      else case body_has body ''model'' of
        None \<Rightarrow> Some (internal_error ''argument is not iterable'', s)
      | Some False \<Rightarrow> Some (missing_parameter ''model'', s)
      | Some True \<Rightarrow>
          (case body of
             JDict data \<Rightarrow>
               (case checked_chat A data of
                  Inl r \<Rightarrow> Some (r, s)
                | Inr (model, messages) \<Rightarrow> complete_checked_chat A D data model messages s)
           | _ \<Rightarrow> Some (internal_error ''object has no attribute get'', s)))"

section \<open>Text completions\<close>

text \<open>
  The local provider replaces the content of the message by its plain text while it runs, and the usage
  is estimated afterwards.
\<close>

definition message_after :: "string \<Rightarrow> json \<Rightarrow> json" where
  "message_after label message =
     (if label \<in> {''local_in_process'', ''fallback_local_in_process''}
      then (case normalise_message message of Some m \<Rightarrow> m | None \<Rightarrow> message) else message)"

definition text_response_data :: "api \<Rightarrow> string \<Rightarrow> json \<Rightarrow> completion_result \<Rightarrow> object" where
  "text_response_data A model message c =
     [(''id'', JStr (''cmpl-'' @ take 12 (ap_uuid A))), (''object'', JStr ''text_completion''), (''created'', JInt (ap_time A)),
      (''model'', JStr model),
      (''choices'', JList [JDict [(''index'', JInt 0), (''text'', jget_default (cm_message c) ''content'' (JStr [])),
         (''finish_reason'', JStr (finish_reason_of c ''stop''))]]),
      (''usage'', JDict (usage_object (cm_usage c) (estimate_token_length (extract_message_content_for_usage A message))
         (estimate_token_length (extract_message_content_for_usage A (JDict (cm_message c))))))]"

definition text_exception_response :: "api \<Rightarrow> api_exception \<Rightarrow> response" where
  "text_exception_response A e =
     (case e of
        ModelError m \<Rightarrow> format_error_response (render A (me_message m)) (me_error_type m) None None (me_status_code m)
      | ComputeProviderError c \<Rightarrow>
          format_error_response (ce_public_message c) (ce_error_type c) None (Some (ce_code c)) (ce_status_code c)
      | OtherException x \<Rightarrow> invalid_body (''Internal server error: '' @ x))"

definition complete_text :: "api \<Rightarrow> 'w dispatch \<Rightarrow> object \<Rightarrow> string \<Rightarrow> 'w client \<Rightarrow> (response \<times> 'w client) option" where
  "complete_text A D data requested s =
     (let message = JDict [(''role'', JStr ''user''), (''content'', jget_default data ''prompt'' (JStr []))];
          model = canonical_model requested;
          decision = evaluate_messages_for_policy (env_of (ap_settings A)) [message]
      in if \<not> md_allowed decision then Some (content_blocked decision, s)
         else case get_api_v1_compute_provider (ap_settings A) of
           Inl e \<Rightarrow> Some (text_exception_response A e, s)
         | Inr p \<Rightarrow>
             if \<not> is_relay_capable_provider_path (get_api_v1_resolved_provider_path p) \<and> \<not> model_supported model
             then Some (model_not_supported model, s)
             else
               (case complete_chat D p model [message] (extract_chat_completion_options data) s of
                  None \<Rightarrow> None
                | Some (Inl e, t) \<Rightarrow> Some (text_exception_response A e, t)
                | Some (Inr c, t) \<Rightarrow>
                    Some (sealed_response A ''server_error'' data
                            (text_response_data A requested (message_after (ct_last_backend_path t) message) c)
                            (diagnostics p (ct_last_backend_path t)), t)))"

definition handle_text_completion_request ::
  "api \<Rightarrow> 'w dispatch \<Rightarrow> json \<Rightarrow> 'w client \<Rightarrow> (response \<times> 'w client) option" where
  "handle_text_completion_request A D body s =
     (if \<not> jtruthy body then Some (invalid_body ''Invalid request body'', s)
      else case body of
        JDict data \<Rightarrow>
          (case ebind (validate_required_fields data [''model'']) (\<lambda>_. validate_field_type data ''model'' StrType False) of
             Inl e \<Rightarrow> Some (validation_response A e, s)
           | Inr _ \<Rightarrow>
               (let model = (case jget data ''model'' of JStr m \<Rightarrow> m | _ \<Rightarrow> [])
                in if jtruthy (jget data ''stream'') then Some (streaming_unsupported ''completions'', s)
                   else if canonical_model model = []
                   then Some (format_error_response ''Missing required parameter: model'' ''invalid_request_error''
                          (Some ''model'') None 400, s)
                   else complete_text A D data model s))
      | _ \<Rightarrow> Some (invalid_body ''Internal server error: object has no attribute get'', s))"

section \<open>Models\<close>

definition stable_openai_model_created :: "api \<Rightarrow> string \<Rightarrow> int" where
  "stable_openai_model_created A model = 1700000000 + int (ap_crc32 A model mod 31536000)"

definition format_openai_model_payload :: "api \<Rightarrow> object \<Rightarrow> object" where
  "format_openai_model_payload A m =
     (let i = jget m ''id''; name = (case i of JStr t \<Rightarrow> t | _ \<Rightarrow> []); created = JInt (stable_openai_model_created A name)
      in [(''id'', i), (''object'', JStr ''model''), (''created'', created),
          (''owned_by'', jor (jget m ''owned_by'') (jor (jget m ''owner'') (jor (jget m ''provider'') (JStr ''unknown'')))),
          (''permission'', JList [JDict
             [(''id'', JStr (''modelperm-'' @ name)), (''object'', JStr ''model_permission''), (''created'', created),
              (''allow_create_engine'', JBool False), (''allow_sampling'', JBool True), (''allow_logprobs'', JBool True),
              (''allow_search_indices'', JBool False), (''allow_view'', JBool True), (''allow_fine_tuning'', JBool False),
              (''organization'', JStr ''*''), (''group'', JNull), (''is_blocking'', JBool False)]]),
          (''root'', i), (''parent'', JNull)])"

definition list_models :: "api \<Rightarrow> response" where
  "list_models A =
     \<lparr>rs_status = 200,
      rs_body = JDict [(''object'', JStr ''list''), (''data'', JList (map (JDict \<circ> format_openai_model_payload A) get_models_info))],
      rs_headers = []\<rparr>"

definition get_model :: "api \<Rightarrow> string \<Rightarrow> response" where
  "get_model A requested =
     (case find (\<lambda>m. jget m ''id'' = JStr (canonical_model requested)) get_models_info of
        None \<Rightarrow>
          format_error_response (''Model '' @ [CHR 0x27] @ requested @ [CHR 0x27] @ '' not found'') ''invalid_request_error'' None
            (Some ''model_not_found'') 404
      | Some m \<Rightarrow> \<lparr>rs_status = 200, rs_body = JDict (format_openai_model_payload A m), rs_headers = []\<rparr>)"

section \<open>Operator access\<close>

text \<open>\<^verbatim>\<open>src/api/security.py\<close>: the first variable with a token names the expected one.\<close>

definition OPERATOR_TOKEN_ENV_VARS :: "string list" where
  "OPERATOR_TOKEN_ENV_VARS = [''TOKEN_PLACE_OPERATOR_TOKEN'', ''TOKEN_PLACE_KEY_ROTATION_TOKEN'', ''PUBLIC_KEY_ROTATION_TOKEN'']"

fun first_token :: "(string \<Rightarrow> string option) \<Rightarrow> string list \<Rightarrow> string option" where
  "first_token env [] = None"
| "first_token env (v # vs) =
     (case env v of
        Some raw \<Rightarrow> if py_strip raw \<noteq> [] then Some (py_strip raw) else first_token env vs
      | None \<Rightarrow> first_token env vs)"

definition expected_operator_token :: "(string \<Rightarrow> string option) \<Rightarrow> string option" where
  "expected_operator_token env = first_token env OPERATOR_TOKEN_ENV_VARS"

text \<open>The token of the request: the header of its own, or a bearer token.\<close>

definition provided_token :: "(string \<Rightarrow> string option) \<Rightarrow> string option" where
  "provided_token headers =
     (case headers ''X-Token-Place-Operator'' of
        Some (c # cs) \<Rightarrow> Some (c # cs)
      | given \<Rightarrow>
          (case headers ''Authorization'' of
             Some a \<Rightarrow> if take 7 a = ''Bearer '' then Some (drop 7 a) else given
           | None \<Rightarrow> given))"

definition ensure_operator_access ::
  "(string \<Rightarrow> string option) \<Rightarrow> (string \<Rightarrow> string option) \<Rightarrow> response option" where
  "ensure_operator_access env headers =
     (case expected_operator_token env of
        None \<Rightarrow>
          Some (format_error_response ''Operator authentication is not configured'' ''authentication_error'' None
             (Some ''operator_auth_not_configured'') 503)
      | Some expected \<Rightarrow>
          if provided_token headers \<noteq> Some expected
          then Some (format_error_response ''Operator token missing or invalid'' ''authentication_error'' None
                 (Some ''operator_token_invalid'') 401)
          else None)"

end
