(* ===== verification/Route_Properties.thy ===== *)
theory Route_Properties
  imports Api_Routes Relay_World Provider_Facts
begin

text \<open>
  The properties of the API's completion handlers: which chats reach a provider, that every request
  is answered, that an encrypted request is answered in ciphertext, and what the local model sees.
\<close>

section \<open>Facts\<close>

lemma error_status [simp]: "rs_status (format_error_response message ty param code status) = status"
  by (simp add: format_error_response_def)

lemma validation_status [simp]: "rs_status (validation_response A e) \<noteq> 200"
  by (cases e) (simp_all add: validation_response_def)

lemma allowed_messages_Inr:
  assumes "allowed_messages A v = Inr ms"
  shows "v = JList ms" "validate_chat_messages (JList ms) = Inr ()"
    "md_allowed (evaluate_messages_for_policy (env_of (ap_settings A)) ms)"
proof -
  have "validate_chat_messages v = Inr ()"
    using assms by (cases "validate_chat_messages v") (auto simp: allowed_messages_def)
  moreover obtain ms' where "v = JList ms'" using chat_accepts [of v] calculation by blast
  ultimately show "v = JList ms" "validate_chat_messages (JList ms) = Inr ()"
    "md_allowed (evaluate_messages_for_policy (env_of (ap_settings A)) ms)"
    using assms by (auto simp: allowed_messages_def Let_def split: if_splits)
qed

lemma allowed_messages_Inl: "allowed_messages A v = Inl r \<Longrightarrow> rs_status r \<noteq> 200"
  by (auto simp: allowed_messages_def content_blocked_def Let_def split: sum.splits if_splits)

lemma checked_chat_Inr:
  assumes "checked_chat A data = Inr (model, ms)"
  shows "\<not> jtruthy (jget data ''stream'') \<and> allowed_messages A (JList ms) = Inr ms
     \<and> (if jtruthy (jget data ''encrypted'') then decrypted_messages A data = Inr (JList ms)
        else jget data ''messages'' = JList ms)"
proof -
  obtain v where v: "(if jtruthy (jget data ''encrypted'') then decrypted_messages A data else plain_messages A data) = Inr v"
    "allowed_messages A v = Inr ms" "\<not> jtruthy (jget data ''stream'')"
    using assms by (auto simp: checked_chat_def ebind_Inr split: if_splits sum.splits)
  with allowed_messages_Inr(1) [OF v(2)] show ?thesis
    by (auto simp: plain_messages_def split: if_splits sum.splits)
qed

lemma messages_Inl:
  "decrypted_messages A data = Inl r \<Longrightarrow> rs_status r \<noteq> 200" "plain_messages A data = Inl r \<Longrightarrow> rs_status r \<noteq> 200"
  by (auto simp: decrypted_messages_def plain_messages_def internal_error_def encryption_error_def split: sum.splits option.splits)

lemma checked_chat_Inl: "checked_chat A data = Inl r \<Longrightarrow> rs_status r \<noteq> 200"
  using messages_Inl allowed_messages_Inl
  by (auto simp: checked_chat_def streaming_unsupported_def ebind_Inl split: if_splits sum.splits)

lemma handled_chat:
  assumes "handle_chat_completion_request A D body s = x"
  obtains (refused) r where "x = Some (r, s)" "rs_status r \<noteq> 200"
  | (checked) data model ms where "body = JDict data" "checked_chat A data = Inr (model, ms)"
      "complete_checked_chat A D data model ms s = x"
proof (cases "\<exists>data model ms. body = JDict data \<and> checked_chat A data = Inr (model, ms) \<and> jtruthy body
    \<and> body_has body ''model'' = Some True")
  case True
  with assms checked show thesis by (auto simp: handle_chat_completion_request_def)
next
  case False
  then have "\<exists>r. x = Some (r, s) \<and> rs_status r \<noteq> 200"
    using assms checked_chat_Inl [of A]
    by (auto simp: handle_chat_completion_request_def invalid_body_def internal_error_def missing_parameter_def
        split: option.splits bool.splits json.splits sum.splits)
  with refused show thesis by blast
qed

section \<open>A run\<close>

text \<open>
  The API of a deployment that publishes the relay, which the node of the relay's run serves; once with plain
  messages and once with encrypted ones.
\<close>

definition run_api :: api where
  "run_api =
     \<lparr>ap_settings = \<lparr>st_environ = \<lparr>en_vars = dget [(''RELAY_PUBLIC_URL'', ''http://relay'')], en_float = (\<lambda>_. None),
          en_float_of_int = (\<lambda>i. Some (of_int i))\<rparr>, st_config = (\<lambda>_. Inr JNull), st_brackets_ok = (\<lambda>_. True)\<rparr>,
      ap_decrypt = (\<lambda>_. Inr (Some ''plain'')),
      ap_loads = (\<lambda>_. Some (JList [JDict [(''role'', JStr ''user''), (''content'', JStr ''hi'')]])),
      ap_dumps = (\<lambda>_. []), ap_encrypt = (\<lambda>_ _. Some [(''ciphertext'', JStr ''Yw=='')]), ap_str = (\<lambda>_. []), ap_uuid = ''u'',
      ap_crc32 = (\<lambda>_. 0), ap_time = 0, ap_host_url = ''http://localhost/'', ap_remote_addr = ''127.0.0.1'',
      ap_ip_version = (\<lambda>_. None), ap_ip_is_loopback = (\<lambda>_. Some True)\<rparr>"

definition run_chat :: json where
  "run_chat = JDict [(''model'', JStr ''gpt-3.5-turbo''),
     (''messages'', JList [JDict [(''role'', JStr ''user''), (''content'', JStr ''hi'')]])]"

definition run_sealed :: object where
  "run_sealed = [(''model'', JStr ''gpt-3.5-turbo''), (''encrypted'', JBool True), (''client_public_key'', JStr ''c''),
     (''messages'', JDict [(''ciphertext'', JStr ''YQ==''), (''cipherkey'', JStr ''YQ==''), (''iv'', JStr ''YQ=='')])]"

lemma run_chat_answered: "\<exists>r t. handle_chat_completion_request run_api run_dispatch run_chat run_client = Some (r, t) \<and> rs_status r = 200"
proof -
  have "(case handle_chat_completion_request run_api run_dispatch run_chat run_client of
      Some (r, t) \<Rightarrow> rs_status r = 200 | None \<Rightarrow> False)" by code_simp
  then show ?thesis by (auto split: option.splits prod.splits)
qed

section \<open>What reaches a provider\<close>

text \<open>C21 (safety). A chat request changes the world (it is sent to a relay or to the local model) or succeeds only if
  no streaming was asked for and its messages, the decrypted ones when it is encrypted, are valid text messages
  that the content policy allows; and these are the messages that are completed. Every refusal is an error
  response that leaves everything as it was.\<close>

theorem only_checked_chats_reach_a_provider:
  assumes "handle_chat_completion_request A D body s = Some (r, t)" and "t \<noteq> s \<or> rs_status r = 200"
  shows "\<exists>data model ms. body = JDict data \<and> \<not> jtruthy (jget data ''stream'')
     \<and> (if jtruthy (jget data ''encrypted'') then decrypted_messages A data = Inr (JList ms)
        else jget data ''messages'' = JList ms)
     \<and> validate_chat_messages (JList ms) = Inr ()
     \<and> md_allowed (evaluate_messages_for_policy (env_of (ap_settings A)) ms)
     \<and> complete_checked_chat A D data model ms s = Some (r, t)"
  using assms(1)
proof (cases rule: handled_chat)
  case (refused r')
  with assms(2) show ?thesis by simp
next
  case (checked data model ms)
  note ok = checked_chat_Inr [OF checked(2)]
  with checked allowed_messages_Inr(2,3) [of A "JList ms" ms] show ?thesis
    by (intro exI [of _ data] exI [of _ model] exI [of _ ms]) simp
qed

theorem only_checked_chats_reach_a_provider_witness:
  "\<exists>data ms. run_chat = JDict data \<and> jget data ''messages'' = JList ms
     \<and> md_allowed (evaluate_messages_for_policy (env_of (ap_settings run_api)) ms)"
proof -
  obtain r t where "handle_chat_completion_request run_api run_dispatch run_chat run_client = Some (r, t)" "rs_status r = 200"
    using run_chat_answered by blast
  from only_checked_chats_reach_a_provider [OF this(1) disjI2 [OF this(2)]] obtain data ms where
    "run_chat = JDict data" "if jtruthy (jget data ''encrypted'') then decrypted_messages run_api data = Inr (JList ms)
       else jget data ''messages'' = JList ms"
    "md_allowed (evaluate_messages_for_policy (env_of (ap_settings run_api)) ms)" by blast
  moreover have "\<not> jtruthy (jget data ''encrypted'')" if "run_chat = JDict data" for data
    using that by (auto simp: run_chat_def jget_def)
  ultimately show ?thesis by (intro exI [of _ data] exI [of _ ms]) simp
qed

section \<open>Encrypted requests\<close>

definition is_error :: "response \<Rightarrow> bool" where
  "is_error r \<longleftrightarrow> (\<exists>e. rs_body r = JDict [(''error'', e)])"

lemma formatted_error [simp]: "is_error (format_error_response message ty param code status)"
  by (simp add: is_error_def format_error_response_def)

lemma error_responses [simp]:
  "is_error (internal_error x)" "is_error (invalid_body x)" "is_error (missing_parameter x)" "is_error (streaming_unsupported x)"
  "is_error (content_blocked d)" "is_error (encryption_error x n)" "is_error (model_not_supported x)"
  "is_error (validation_response A e)"
  by (simp_all add: internal_error_def invalid_body_def missing_parameter_def streaming_unsupported_def content_blocked_def
      encryption_error_def model_not_supported_def validation_response_def split: api_error.split)

lemma exception_error [simp]: "is_error (exception_response A forced e)"
  by (cases e) (simp_all add: exception_response_def Let_def)

lemma messages_error_response:
  "decrypted_messages A data = Inl r \<Longrightarrow> is_error r" "plain_messages A data = Inl r \<Longrightarrow> is_error r"
  "allowed_messages A v = Inl r \<Longrightarrow> is_error r"
  by (auto simp: decrypted_messages_def plain_messages_def allowed_messages_def Let_def split: sum.splits option.splits if_splits)

lemma checked_chat_error: "checked_chat A data = Inl r \<Longrightarrow> is_error r"
  using messages_error_response by (auto simp: checked_chat_def ebind_Inl split: if_splits sum.splits)

lemma sealed_ciphertext:
  assumes "jtruthy (jget data ''encrypted'')" "jget data ''client_public_key'' = JStr key" "key \<noteq> []"
  shows "is_error (sealed_response A ty data reply headers)
     \<or> (\<exists>e. ap_encrypt A reply key = Some e
          \<and> rs_body (sealed_response A ty data reply headers) = JDict [(''encrypted'', JBool True), (''data'', JDict e)])"
  using assms by (cases key) (auto simp: sealed_response_def split: option.split)

lemma completed_chat:
  assumes "complete_checked_chat A D data model ms s = Some (r, t)"
  shows "is_error r \<or> (\<exists>p c. complete_chat D p (canonical_model model) ms (extract_chat_completion_options data) s = Some (Inr c, t)
     \<and> r = sealed_response A ''encryption_error'' data (chat_response_data A data model ms c) (diagnostics p (ct_last_backend_path t)))"
  using assms unfolding complete_checked_chat_def Let_def
  by (auto split: sum.splits if_splits option.splits prod.splits)

text \<open>C22 (safety). The answer to an encrypted chat with a client key is an error or ciphertext: what the provider
  returned leaves the API only inside the encryption, for that key, of the completion built from it.\<close>

theorem encrypted_chat_gets_ciphertext:
  assumes "handle_chat_completion_request A D (JDict data) s = Some (r, t)"
    and "jtruthy (jget data ''encrypted'')" and "jget data ''client_public_key'' = JStr key" "key \<noteq> []"
  shows "is_error r
     \<or> (\<exists>p model ms c e. complete_chat D p (canonical_model model) ms (extract_chat_completion_options data) s = Some (Inr c, t)
          \<and> ap_encrypt A (chat_response_data A data model ms c) key = Some e
          \<and> rs_body r = JDict [(''encrypted'', JBool True), (''data'', JDict e)])"
proof -
  have "is_error r \<or> (\<exists>model ms. complete_checked_chat A D data model ms s = Some (r, t))"
    using assms(1) checked_chat_error [of A data]
    by (auto simp: handle_chat_completion_request_def split: if_splits option.splits bool.splits sum.splits prod.splits)
  then show ?thesis
  proof (elim disjE exE)
    fix model ms assume "complete_checked_chat A D data model ms s = Some (r, t)"
    from completed_chat [OF this] sealed_ciphertext [OF assms(2-4)] show ?thesis by metis
  qed simp
qed

theorem encrypted_chat_gets_ciphertext_witness:
  "\<exists>r t. handle_chat_completion_request run_api run_dispatch (JDict run_sealed) run_client = Some (r, t)
     \<and> (\<exists>e. rs_body r = JDict [(''encrypted'', JBool True), (''data'', JDict e)])"
proof -
  have "(case handle_chat_completion_request run_api run_dispatch (JDict run_sealed) run_client of
      Some (r, t) \<Rightarrow> (case rs_body r of JDict d \<Rightarrow> \<not> dmem ''error'' d | _ \<Rightarrow> False) | None \<Rightarrow> False)" by code_simp
  then obtain r t where run: "handle_chat_completion_request run_api run_dispatch (JDict run_sealed) run_client = Some (r, t)"
    and ok: "case rs_body r of JDict d \<Rightarrow> \<not> dmem ''error'' d | _ \<Rightarrow> False" by (auto split: option.splits prod.splits)
  have "\<not> is_error r" using ok by (auto simp: is_error_def dmem_def)
  with encrypted_chat_gets_ciphertext [OF run, of "''c''"] run show ?thesis by (auto simp: run_sealed_def)
qed

text \<open>
  The key has to be non-empty: with an empty one, which the validator accepts, an encrypted chat is answered
  in plaintext.
\<close>

theorem empty_key_gets_plaintext:
  "\<exists>r t d. handle_chat_completion_request run_api run_dispatch (JDict (dset ''client_public_key'' (JStr []) run_sealed)) run_client
     = Some (r, t) \<and> rs_status r = 200 \<and> rs_body r = JDict d \<and> dmem ''choices'' d"
proof -
  have "(case handle_chat_completion_request run_api run_dispatch (JDict (dset ''client_public_key'' (JStr []) run_sealed)) run_client of
      Some (r, t) \<Rightarrow> rs_status r = 200 \<and> (case rs_body r of JDict d \<Rightarrow> dmem ''choices'' d | _ \<Rightarrow> False) | None \<Rightarrow> False)" by code_simp
  then show ?thesis by (auto split: option.splits prod.splits json.splits)
qed

section \<open>Every request is answered\<close>

text \<open>The providers that are built: their timeouts are the configured one.\<close>

fun timed :: "rat \<Rightarrow> provider \<Rightarrow> bool" where
  "timed b (FallbackApiV1ComputeProvider (DistributedApiV1ComputeProvider _ x) LocalApiV1ComputeProvider) = (x = FNum b)"
| "timed b (FallbackApiV1ComputeProvider _ _) = False"
| "timed b (DistributedApiV1ComputeProvider _ x) = (x = FNum b)"
| "timed b LocalApiV1ComputeProvider = True"

lemma built_timed:
  assumes "build_api_v1_compute_provider S mode url fallback = Inr p" "distributed_timeout_seconds (st_environ S) = FNum b"
  shows "timed b p"
  using assms by (auto simp: build_api_v1_compute_provider_def Let_def split: if_splits)

lemma chosen_timed:
  assumes "chosen_provider A forced = Inr p" "distributed_timeout_seconds (st_environ (ap_settings A)) = FNum b"
  shows "timed b p"
  using assms(1) built_timed [OF _ assms(2)]
  by (auto simp: chosen_provider_def get_api_v1_compute_provider_def get_api_v1_compute_provider_for_mode_def ebind_Inr Let_def
      split: if_splits)

lemma complete_chat_returns:
  assumes "steady_world W now F" "di_floats D = F" "di_world D = W" "timed b p" "max b 1 \<le> now (ct_world s)"
  shows "\<exists>r t. complete_chat D p model messages options s = Some (r, t)"
proof -
  have run: "\<exists>r t. complete_chat D (DistributedApiV1ComputeProvider base (FNum b)) model messages options s = Some (r, t)" for base
    using steady_world.dispatch_returns [OF assms(1), of "D\<lparr>di_base_url := base, di_timeout_seconds := FNum b\<rparr>" b s] assms(2,3,5)
    by simp
  have local: "\<exists>r u. complete_chat D LocalApiV1ComputeProvider model messages options t = Some (r, u)" for t
    by (cases "local_complete_chat (di_world D) model messages options t") simp
  show ?thesis
  proof (cases p)
    case (FallbackApiV1ComputeProvider q q')
    with assms(4) obtain base where q: "q = DistributedApiV1ComputeProvider base (FNum b)" "q' = LocalApiV1ComputeProvider"
      by (cases q; cases q') auto
    obtain r t where "complete_chat D q model messages options s = Some (r, t)" using run q(1) by blast
    moreover obtain r' u where "complete_chat D q' model messages options t = Some (r', u)" using local q(2) by blast
    ultimately show ?thesis unfolding FallbackApiV1ComputeProvider complete_chat.simps(3)
      by (cases r; cases r') (auto split: api_exception.split)
  qed (use assms(4) run local in auto)
qed

text \<open>C23 (liveness). Every chat request gets a response, with whatever body, when the world is steady and the configured timeout
  is a number shorter than the time since the epoch.\<close>

theorem every_chat_is_answered:
  assumes "steady_world W now F" and "di_floats D = F" "di_world D = W"
    and "distributed_timeout_seconds (st_environ (ap_settings A)) = FNum b" "max b 1 \<le> now (ct_world s)"
  shows "\<exists>r t. handle_chat_completion_request A D body s = Some (r, t)"
proof -
  obtain x where "handle_chat_completion_request A D body s = x" by blast
  then show ?thesis
  proof (cases rule: handled_chat)
    case (refused r)
    with \<open>handle_chat_completion_request A D body s = x\<close> show ?thesis by blast
  next
    case (checked data model ms)
    define forced where "forced = should_force_desktop_bridge_distributed (jget data ''metadata'') (jtruthy (jget data ''encrypted''))"
    have "\<exists>r t. complete_checked_chat A D data model ms s = Some (r, t)"
    proof (cases "chosen_provider A forced")
      case (Inl e)
      then show ?thesis by (simp add: complete_checked_chat_def forced_def)
    next
      case (Inr p)
      from complete_chat_returns [OF assms(1-3) chosen_timed [OF Inr assms(4)] assms(5)]
      obtain q u where "complete_chat D p (canonical_model model) ms (extract_chat_completion_options data) s = Some (q, u)" by blast
      then show ?thesis using Inr
        by (cases q) (auto simp: complete_checked_chat_def forced_def Let_def)
    qed
    with checked(3) \<open>handle_chat_completion_request A D body s = x\<close> show ?thesis by simp
  qed
qed

theorem every_chat_is_answered_witness:
  "\<exists>r t. handle_chat_completion_request run_api run_dispatch run_chat run_client = Some (r, t)"
  by (rule every_chat_is_answered [where b = 485, OF relay_clock.steady_world_axioms])
    (simp_all add: run_dispatch_def run_client_def run_world_def run_api_def distributed_timeout_seconds_def
      DEFAULT_INFERENCE_TRANSPORT_TIMEOUT_SECONDS_def DEFAULT_INFERENCE_TIMEOUT_SECONDS_def INFERENCE_RESPONSE_GRACE_SECONDS_def)

section \<open>What the local model sees\<close>

lemma text_type_iff: "is_text_type v \<longleftrightarrow> (\<exists>t. v = JStr t \<and> t \<in> set text_types)"
  by (cases v) (simp_all add: is_text_type_def)

lemma text_block_shape:
  "text_block b \<Longrightarrow> \<exists>d s. b = JDict d \<and> is_text_type (jget d ''type'') \<and> hashable (jget d ''type'') \<and> jget d ''text'' = JStr s \<and> s \<noteq> []"
  by (auto simp: text_block_def text_type_iff)

lemma blocks_pass: "list_all text_block bs \<Longrightarrow> check_blocks i j bs = Inr () \<and> (\<exists>ss. block_segments bs = Some ss)"
  by (induction bs arbitrary: j) (auto dest!: text_block_shape)

lemma message_passes:
  assumes "chat_message m"
  shows "check_messages i (m # ms) = check_messages (Suc i) ms
     \<and> (\<exists>d t. normalise_message m = Some (JDict d) \<and> jget d ''content'' = JStr t)"
proof -
  obtain d r c where d: "m = JDict d" "dget d ''role'' = Some r" "dget d ''content'' = Some c" "text_content c"
    using assms by (auto simp: chat_message_def)
  from d(4) consider t where "c = JStr t" | bs where "c = JList bs" "list_all text_block bs"
    by (auto simp: text_content_def is_jstr_iff)
  then show ?thesis
  proof cases
    case (1 t)
    with d show ?thesis
      by (auto simp: dmem_def jget_def normalise_message_def stringify_content_blocks_def update_conv')
  next
    case (2 bs)
    with d blocks_pass [OF 2(2), of i 0] show ?thesis
      by (auto simp: dmem_def jget_def normalise_message_def stringify_content_blocks_def update_conv')
  qed
qed

text \<open>A chat the validator accepts is never refused by the local generator, and the model is given the
  same number of messages, each with plain text as its content.\<close>

theorem validated_chats_become_plain_text:
  assumes "validate_chat_messages (JList ms) = Inr ()"
  shows "check_messages 0 ms = Inr () \<and> (\<exists>ns. normalise_chat_messages ms = Some ns \<and> length ns = length ms
     \<and> list_all (\<lambda>n. \<exists>d t. n = JDict d \<and> jget d ''content'' = JStr t) ns)"
proof -
  have "list_all chat_message ms" using assms chat_accepts by simp
  then have "check_messages i ms = Inr () \<and> (\<exists>ns. normalise_chat_messages ms = Some ns \<and> length ns = length ms
     \<and> list_all (\<lambda>n. \<exists>d t. n = JDict d \<and> jget d ''content'' = JStr t) ns)" for i
  proof (induction ms arbitrary: i)
    case (Cons m ms)
    then obtain ns where ns: "check_messages (Suc i) ms = Inr ()" "normalise_chat_messages ms = Some ns" "length ns = length ms"
      "list_all (\<lambda>n. \<exists>d t. n = JDict d \<and> jget d ''content'' = JStr t) ns" by fastforce
    with message_passes [of m i ms] Cons.prems show ?case by auto
  qed simp
  then show ?thesis .
qed

theorem validated_chats_become_plain_text_witness:
  "\<exists>ns. normalise_chat_messages [JDict [(''role'', JStr ''user''), (''content'', JList [JDict [(''type'', JStr ''text''), (''text'', JStr '' a '')]])]]
     = Some ns \<and> length ns = 1"
proof -
  have "validate_chat_messages (JList [JDict [(''role'', JStr ''user''),
      (''content'', JList [JDict [(''type'', JStr ''text''), (''text'', JStr '' a '')]])]]) = Inr ()" by code_simp
  from validated_chats_become_plain_text [OF this] show ?thesis by auto
qed

text \<open>A model is loaded once: after a successful call, another call for it returns the same model and changes
  nothing, whatever the loader would do now.\<close>

theorem model_is_loaded_once:
  assumes "get_model_instance R model c = (Inr m, c')"
    and "rt_use_mock R' = rt_use_mock R" "rt_llama R' = Some llama"
  shows "get_model_instance R' model c' = (Inr m, c')"
proof (cases "rt_use_mock R")
  case True
  with assms show ?thesis
    by (auto simp: get_model_instance_def Let_def lift_def ret_def split: if_splits option.splits)
next
  case False
  then obtain meta l where run: "get_model_metadata (canonical_model model) = Some meta" "model \<noteq> []"
    "cached_model l (canonical_model model) meta c = (Inr m, c')"
    using assms(1) by (auto simp: get_model_instance_def Let_def lift_def split: if_splits option.splits)
  define key where "key = (if shares_base meta then base_id meta else canonical_model model)"
  obtain x where x: "m = LoadedModel x" "dget c' key = Some x" "dget c' (canonical_model model) = Some x"
    using run(3) by (auto simp: cached_model_def Let_def key_def update_conv' split: option.splits sum.splits)
  then have "dset (canonical_model model) x c' = c'" by (simp add: update_triv)
  with x have "cached_model llama (canonical_model model) meta c' = (Inr m, c')"
    by (simp add: cached_model_def key_def Let_def)
  with run False assms(2,3) show ?thesis by (simp add: get_model_instance_def)
qed

theorem model_is_loaded_once_witness:
  "get_model_instance \<lparr>rt_use_mock = False, rt_llama = Some (\<lambda>_. Inl ''gone''), rt_complete = (\<lambda>_ _ _. Inl [])\<rparr>
     ''gpt-3.5-turbo'' [(''qwen3-8b-instruct'', 7 :: nat)] = (Inr (LoadedModel 7), [(''qwen3-8b-instruct'', 7)])"
proof -
  have first: "get_model_instance \<lparr>rt_use_mock = False, rt_llama = Some (\<lambda>_. Inr (7 :: nat)), rt_complete = (\<lambda>_ _ _. Inl [])\<rparr>
     ''gpt-3.5-turbo'' [] = (Inr (LoadedModel 7), [(''qwen3-8b-instruct'', 7)])" by code_simp
  show ?thesis by (rule model_is_loaded_once [OF first]) simp_all
qed

end
