(* ===== verification/Node_Chat.thy ===== *)
theory Node_Chat
  imports Compute_Provider
begin

text \<open>
  What a compute node accepts of a decrypted chat request and what it lets out of the model's answer
  (\<^verbatim>\<open>src/utils/networking/relay_client.py\<close>): messages, options, and the completion of a model that must not
  show its reasoning.
\<close>

section \<open>Messages\<close>

definition API_V1_ALLOWED_MESSAGE_ROLES :: "string list" where
  "API_V1_ALLOWED_MESSAGE_ROLES = [''system'', ''user'', ''assistant'']"

definition API_V1_MAX_MESSAGES :: nat where
  "API_V1_MAX_MESSAGES = 64"

definition API_V1_MAX_TEXT_BLOCKS :: nat where
  "API_V1_MAX_TEXT_BLOCKS = 32"

definition API_V1_MAX_TOTAL_MESSAGE_UTF8_BYTES :: nat where
  "API_V1_MAX_TOTAL_MESSAGE_UTF8_BYTES = 512 * 1024"

text \<open>\<^verbatim>\<open>len(text.encode("utf-8"))\<close>: a code point below 128 is one byte, the others of the model are two.\<close>

definition utf8_length :: "string \<Rightarrow> nat" where
  "utf8_length s = sum_list (map (\<lambda>c. if char_code c < 128 then 1 else 2) s)"

text \<open>
  Characters and bytes of the content, \<open>Inr None\<close> when it is refused, \<open>Inl\<close> for the \<^verbatim>\<open>TypeError\<close> of a block type
  that cannot be hashed.
\<close>

fun block_sizes :: "json list \<Rightarrow> string + (nat \<times> nat) option" where
  "block_sizes [] = Inr (Some (0, 0))"
| "block_sizes (JDict b # bs) =
     (if \<not> list_all (\<lambda>(k, _). k \<in> {''type'', ''text''}) b then Inr None
      else if \<not> hashable (jget b ''type'') then Inl ''TypeError''
      else if jget b ''type'' \<notin> JStr ` set text_types then Inr None
      else case jget b ''text'' of
        JStr (c # cs) \<Rightarrow>
          ebind (block_sizes bs) (\<lambda>r. Inr (map_option (\<lambda>(n, k). (length (c # cs) + n, utf8_length (c # cs) + k)) r))
      | _ \<Rightarrow> Inr None)"
| "block_sizes (_ # bs) = Inr None"

definition api_v1_content_validation_size :: "json \<Rightarrow> string + (nat \<times> nat) option" where
  "api_v1_content_validation_size content =
     (case content of
        JStr s \<Rightarrow> Inr (Some (length s, utf8_length s))
      | JList bs \<Rightarrow> if bs = [] \<or> length bs > API_V1_MAX_TEXT_BLOCKS then Inr None else block_sizes bs
      | _ \<Rightarrow> Inr None)"

record chat_validation =
  cv_valid :: bool
  cv_code :: "string option"
  cv_reason :: "string option"
  cv_message_count :: nat
  cv_message_index :: "nat option"
  cv_message_content_chars :: "nat option"
  cv_total_content_chars :: nat
  cv_message_content_utf8_bytes :: "nat option"
  cv_total_content_utf8_bytes :: nat

definition refused_message :: "string \<Rightarrow> nat \<Rightarrow> nat option \<Rightarrow> nat \<Rightarrow> nat \<Rightarrow> chat_validation" where
  "refused_message reason count index chars bytes =
     \<lparr>cv_valid = False, cv_code = Some ''compute_node_invalid_request'', cv_reason = Some reason, cv_message_count = count,
      cv_message_index = index, cv_message_content_chars = None, cv_total_content_chars = chars,
      cv_message_content_utf8_bytes = None, cv_total_content_utf8_bytes = bytes\<rparr>"

text \<open>The reason to refuse one message, or the size of its content.\<close>

definition message_size :: "json \<Rightarrow> string + (string + nat \<times> nat)" where
  "message_size m =
     (case m of
        JDict d \<Rightarrow>
          if \<not> list_all (\<lambda>(k, _). k \<in> {''role'', ''content'', ''name''}) d then Inr (Inl ''unknown_message_keys'')
          else if jget d ''role'' \<notin> JStr ` set API_V1_ALLOWED_MESSAGE_ROLES then Inr (Inl ''invalid_role'')
          else if \<not> (case jget d ''name'' of JNull \<Rightarrow> True | JStr n \<Rightarrow> length n \<le> 128 | _ \<Rightarrow> False) then Inr (Inl ''invalid_name'')
          else if \<not> dmem ''content'' d then Inr (Inl ''missing_content'')
          else ebind (api_v1_content_validation_size (jget d ''content'')) (\<lambda>r.
                 Inr (case r of None \<Rightarrow> Inl ''invalid_content'' | Some sz \<Rightarrow> Inr sz))
      | _ \<Rightarrow> Inr (Inl ''message_not_object''))"

fun validate_messages :: "nat \<Rightarrow> nat \<Rightarrow> nat \<Rightarrow> nat \<Rightarrow> json list \<Rightarrow> string + chat_validation" where
  "validate_messages count i chars bytes [] =
     Inr \<lparr>cv_valid = True, cv_code = None, cv_reason = None, cv_message_count = count, cv_message_index = None,
          cv_message_content_chars = None, cv_total_content_chars = chars, cv_message_content_utf8_bytes = None,
          cv_total_content_utf8_bytes = bytes\<rparr>"
| "validate_messages count i chars bytes (m # ms) =
     ebind (message_size m) (\<lambda>r.
       case r of
         Inl reason \<Rightarrow> Inr (refused_message reason count (Some i) chars bytes)
       | Inr (n, k) \<Rightarrow>
           if bytes + k > API_V1_MAX_TOTAL_MESSAGE_UTF8_BYTES
           then Inr \<lparr>cv_valid = False, cv_code = Some ''compute_node_request_too_large'',
                  cv_reason = Some ''aggregate_content_too_large'', cv_message_count = count, cv_message_index = Some i,
                  cv_message_content_chars = Some n, cv_total_content_chars = chars + n,
                  cv_message_content_utf8_bytes = Some k, cv_total_content_utf8_bytes = bytes + k\<rparr>
           else validate_messages count (Suc i) (chars + n) (bytes + k) ms)"

definition validate_api_v1_chat_messages :: "json \<Rightarrow> string + chat_validation" where
  "validate_api_v1_chat_messages messages =
     (case messages of
        JList ms \<Rightarrow>
          if ms = [] \<or> length ms > API_V1_MAX_MESSAGES
          then Inr (refused_message ''invalid_message_list'' (length ms) None 0 0)
          else validate_messages (length ms) 0 0 0 ms
      | _ \<Rightarrow> Inr (refused_message ''invalid_message_list'' 0 None 0 0))"

section \<open>Options\<close>

definition API_V1_MAX_STOP_SEQUENCES :: nat where
  "API_V1_MAX_STOP_SEQUENCES = 16"

definition API_V1_MAX_STOP_CHARS :: nat where
  "API_V1_MAX_STOP_CHARS = 256"

definition API_V1_MAX_TOKENS_LIMIT :: int where
  "API_V1_MAX_TOKENS_LIMIT = 8192"

definition API_V1_MAX_SEED :: int where
  "API_V1_MAX_SEED = 2 ^ 32 - 1"

text \<open>\<^verbatim>\<open>float(value)\<close> of a finite number; an integer beyond the range of floats is not finite.\<close>

definition api_v1_finite_number :: "environ \<Rightarrow> json \<Rightarrow> rat option" where
  "api_v1_finite_number v value =
     (case value of JInt i \<Rightarrow> en_float_of_int v i | JFloat r \<Rightarrow> Some r | _ \<Rightarrow> None)"

definition normalise_number :: "environ \<Rightarrow> rat \<Rightarrow> rat \<Rightarrow> json \<Rightarrow> json option" where
  "normalise_number v least greatest value =
     (case api_v1_finite_number v value of
        Some r \<Rightarrow> if r < least \<or> r > greatest then None else Some (JFloat r)
      | None \<Rightarrow> None)"

definition normalise_integer :: "int \<Rightarrow> int \<Rightarrow> json \<Rightarrow> json option" where
  "normalise_integer least greatest value =
     (case value of JInt i \<Rightarrow> if i < least \<or> i > greatest then None else Some (JInt i) | _ \<Rightarrow> None)"

definition stop_text :: "json \<Rightarrow> bool" where
  "stop_text v = (case v of JStr s \<Rightarrow> s \<noteq> [] \<and> length s \<le> API_V1_MAX_STOP_CHARS | _ \<Rightarrow> False)"

definition api_v1_normalise_stop_option :: "json \<Rightarrow> json option" where
  "api_v1_normalise_stop_option value =
     (case value of
        JStr s \<Rightarrow> if stop_text value then Some value else None
      | JList items \<Rightarrow> if length items \<le> API_V1_MAX_STOP_SEQUENCES \<and> list_all stop_text items then Some value else None
      | _ \<Rightarrow> None)"

definition supported_options :: "string list" where
  "supported_options = [''frequency_penalty'', ''max_tokens'', ''presence_penalty'', ''seed'', ''stop'', ''stream'', ''temperature'', ''top_p'']"

definition intentionally_unsupported_options :: "string list" where
  "intentionally_unsupported_options =
     [''function_call'', ''functions'', ''logit_bias'', ''logprobs'', ''n'', ''parallel_tool_calls'', ''response_format'',
      ''tool_choice'', ''tools'', ''top_logprobs'']"

definition normalise_option :: "environ \<Rightarrow> string \<Rightarrow> json \<Rightarrow> json option" where
  "normalise_option v key value =
     (if key = ''max_tokens'' then normalise_integer 1 API_V1_MAX_TOKENS_LIMIT value
      else if key = ''seed'' then normalise_integer 0 API_V1_MAX_SEED value
      else if key = ''temperature'' then normalise_number v 0 2 value
      else if key = ''top_p'' then normalise_number v 0 1 value
      else if key \<in> {''frequency_penalty'', ''presence_penalty''} then normalise_number v (- 2) 2 value
      else if key = ''stop'' then api_v1_normalise_stop_option value
      else Some value)"

fun normalise_options :: "environ \<Rightarrow> object \<Rightarrow> string \<times> string + object" where
  "normalise_options v [] = Inr []"
| "normalise_options v ((key, value) # rest) =
     (if key = ''stream''
      then if value = JBool False then normalise_options v rest else Inl (''compute_node_options_unsupported'', ''stream'')
      else case normalise_option v key value of
        None \<Rightarrow> Inl (''compute_node_invalid_request'', key)
      | Some y \<Rightarrow> ebind (normalise_options v rest) (\<lambda>r. Inr ((key, y) # r)))"

definition api_v1_rejected_options_summary :: "string list \<Rightarrow> string" where
  "api_v1_rejected_options_summary names =
     (let shown = (case take 5 names of [] \<Rightarrow> [] | x # xs \<Rightarrow> x @ concat (map (\<lambda>y. '', '' @ y) xs))
      in if length names > 5 then shown @ '', and '' @ show_nat (length names - 5) @ '' more option(s)'' else shown)"

text \<open>The error code and the option it is about, or the normalised options.\<close>

definition api_v1_validate_and_normalise_options :: "environ \<Rightarrow> object \<Rightarrow> string \<times> string + object" where
  "api_v1_validate_and_normalise_options v options =
     (let names = sort (map fst options);
          unsupported = filter (\<lambda>k. k \<in> set intentionally_unsupported_options) names;
          unknown = filter (\<lambda>k. k \<notin> set supported_options \<and> k \<notin> set intentionally_unsupported_options) names
      in if unsupported \<noteq> [] \<or> unknown \<noteq> []
         then Inl (''compute_node_options_unsupported'', api_v1_rejected_options_summary (unsupported @ unknown))
         else normalise_options v options)"

section \<open>The model's answer\<close>

definition valid_api_v1_assistant_message :: "json \<Rightarrow> object option" where
  "valid_api_v1_assistant_message message =
     (case message of
        JDict d \<Rightarrow>
          if jget d ''role'' \<noteq> JStr ''assistant'' then None
          else if (case jget d ''content'' of JStr s \<Rightarrow> py_strip s \<noteq> [] | _ \<Rightarrow> False) then Some d
          else if (case jget d ''tool_calls'' of JList (_ # _) \<Rightarrow> True | _ \<Rightarrow> False) then Some d
          else None
      | _ \<Rightarrow> None)"

definition api_v1_qwen_non_thinking_required :: "json \<Rightarrow> bool" where
  "api_v1_qwen_non_thinking_required profile =
     (case profile of
        JDict d \<Rightarrow> jget d ''provider'' = JStr ''qwen'' \<and> jget d ''thinking_mode'' = JStr ''disabled''
      | _ \<Rightarrow> False)"

text \<open>
  The regular expressions as readers of a prefix: \<open>skip_text\<close> takes a word whatever its case, \<open>skip_space\<close> is
  \<^verbatim>\<open>\s*\<close>, and each is followed by something else, so that no backtracking can help.
\<close>

definition skip_space :: "string \<Rightarrow> string" where
  "skip_space s = dropWhile is_space s"

fun skip_text :: "string \<Rightarrow> string \<Rightarrow> string option" where
  "skip_text [] s = Some s"
| "skip_text (w # ws) (c # cs) = (if lower_char c = w then skip_text ws cs else None)"
| "skip_text (w # ws) [] = None"

text \<open>\<^verbatim>\<open><\s*think\s*>\s*<\s*/\s*think\s*>\<close>: what follows an empty wrapper.\<close>

definition empty_wrapper :: "string \<Rightarrow> string option" where
  "empty_wrapper s =
     Option.bind (skip_text ''<'' s) (\<lambda>s.
     Option.bind (skip_text ''think'' (skip_space s)) (\<lambda>s.
     Option.bind (skip_text ''>'' (skip_space s)) (\<lambda>s.
     Option.bind (skip_text ''<'' (skip_space s)) (\<lambda>s.
     Option.bind (skip_text ''/'' (skip_space s)) (\<lambda>s.
     Option.bind (skip_text ''think'' (skip_space s)) (\<lambda>s.
       skip_text ''>'' (skip_space s)))))))"

text \<open>\<^verbatim>\<open>\w\<close> of a code point below 256, and \<^verbatim>\<open><\s*/?\s*think\b\<close> at the beginning and anywhere.\<close>

definition is_word_char :: "char \<Rightarrow> bool" where
  "is_word_char c \<longleftrightarrow>
     (let n = char_code c
      in 48 \<le> n \<and> n \<le> 57 \<or> 65 \<le> n \<and> n \<le> 90 \<or> n = 95 \<or> 97 \<le> n \<and> n \<le> 122
         \<or> n \<in> {170, 178, 179, 181, 185, 186, 188, 189, 190} \<or> 192 \<le> n \<and> n \<noteq> 215 \<and> n \<noteq> 247)"

definition word_ends :: "string \<Rightarrow> bool" where
  "word_ends s = (case s of [] \<Rightarrow> True | c # _ \<Rightarrow> \<not> is_word_char c)"

definition think_tag_at :: "string \<Rightarrow> bool" where
  "think_tag_at s =
     (case skip_text ''<'' s of
        None \<Rightarrow> False
      | Some s1 \<Rightarrow>
          (let s2 = skip_space s1;
               s3 = (case skip_text ''/'' s2 of Some t \<Rightarrow> skip_space t | None \<Rightarrow> s2)
           in case skip_text ''think'' s3 of None \<Rightarrow> False | Some t \<Rightarrow> word_ends t))"

fun has_think_tag :: "string \<Rightarrow> bool" where
  "has_think_tag [] = False"
| "has_think_tag (c # cs) = (think_tag_at (c # cs) \<or> has_think_tag cs)"

lemma skip_text_shorter: "skip_text w s = Some t \<Longrightarrow> length t + length w = length s"
  by (induction w s rule: skip_text.induct) (auto split: if_splits)

lemma skip_space_shorter: "length (skip_space s) \<le> length s"
  by (simp add: skip_space_def length_dropWhile_le)

lemma empty_wrapper_shorter: "empty_wrapper s = Some t \<Longrightarrow> length t < length s"
proof -
  assume "empty_wrapper s = Some t"
  then obtain a b c d e f where
    "skip_text ''<'' s = Some a" "skip_text ''think'' (skip_space a) = Some b" "skip_text ''>'' (skip_space b) = Some c"
    "skip_text ''<'' (skip_space c) = Some d" "skip_text ''/'' (skip_space d) = Some e"
    "skip_text ''think'' (skip_space e) = Some f" "skip_text ''>'' (skip_space f) = Some t"
    by (auto simp: empty_wrapper_def bind_eq_Some_conv)
  from this [THEN skip_text_shorter] skip_space_shorter [of a] skip_space_shorter [of b] skip_space_shorter [of c]
    skip_space_shorter [of d] skip_space_shorter [of e] skip_space_shorter [of f]
  show "length t < length s" by simp
qed

lemma stripped_shorter: "empty_wrapper s = Some t \<Longrightarrow> length (skip_space t) < length s"
  using empty_wrapper_shorter skip_space_shorter le_less_trans by blast

text \<open>The loop that strips empty wrappers; the bool tells whether one was stripped.\<close>

function strip_wrappers :: "string \<Rightarrow> string \<times> bool" where
  "strip_wrappers s =
     (case empty_wrapper s of None \<Rightarrow> (s, False) | Some t \<Rightarrow> (fst (strip_wrappers (skip_space t)), True))"
  by pat_completeness auto

termination
  by (relation "measure length") (simp_all add: stripped_shorter)

declare strip_wrappers.simps [simp del]

definition im_end :: string where
  "im_end = ''<|im_end|>''"

definition strip_end_marker :: "string \<Rightarrow> string" where
  "strip_end_marker s =
     (if ends_with s im_end then rev (dropWhile is_space (rev (take (length s - length im_end) s))) else s)"

definition api_v1_normalize_qwen_non_thinking_content :: "json \<Rightarrow> json \<Rightarrow> string + string" where
  "api_v1_normalize_qwen_non_thinking_content profile content =
     (case content of
        JStr s \<Rightarrow>
          if \<not> api_v1_qwen_non_thinking_required profile
          then if py_strip s \<noteq> [] then Inr s else Inl ''unsupported_completion_shape''
          else
            (let (rest, stripped) = strip_wrappers (skip_space s); cleaned = py_strip rest
             in if cleaned = []
                then Inl (if stripped then ''qwen_empty_after_think_wrapper_strip'' else ''unsupported_completion_shape'')
                else if has_think_tag cleaned then Inl ''qwen_thinking_output_leaked''
                else if strip_end_marker cleaned = [] then Inl ''unsupported_completion_shape''
                else Inr (strip_end_marker cleaned))
      | _ \<Rightarrow> Inl ''unsupported_completion_shape'')"

text \<open>A reasoning field anywhere in a value.\<close>

fun reasoning_field :: "json \<Rightarrow> bool" where
  "reasoning_field (JDict d) =
     (list_ex (\<lambda>(k, _). k \<in> {''reasoning_content'', ''reasoning''}) d \<or> (\<exists>kv \<in> set d. reasoning_field (snd kv)))"
| "reasoning_field (JList vs) = (\<exists>v \<in> set vs. reasoning_field v)"
| "reasoning_field _ = False"

definition api_v1_qwen_reasoning_content_leaked :: "json \<Rightarrow> json \<Rightarrow> bool" where
  "api_v1_qwen_reasoning_content_leaked profile payload \<longleftrightarrow>
     api_v1_qwen_non_thinking_required profile \<and> reasoning_field payload"

text \<open>The content of a message, cleaned; a message without text content is left as it is.\<close>

definition clean_message :: "json \<Rightarrow> object \<Rightarrow> string + object" where
  "clean_message profile message =
     (case jget message ''content'' of
        JStr s \<Rightarrow>
          if py_strip s = [] then Inr message
          else ebind (api_v1_normalize_qwen_non_thinking_content profile (JStr s)) (\<lambda>c. Inr (dset ''content'' (JStr c) message))
      | _ \<Rightarrow> Inr message)"

definition message_of_choice :: "object \<Rightarrow> object option" where
  "message_of_choice choice =
     (let raw = (case jget choice ''message'' of
                   JDict m \<Rightarrow> JDict (if \<not> dmem ''role'' m \<and> dmem ''content'' m then dset ''role'' (JStr ''assistant'') m else m)
                 | v \<Rightarrow> v)
      in case valid_api_v1_assistant_message raw of
           Some m \<Rightarrow> Some m
         | None \<Rightarrow>
             (case jget choice ''text'' of
                JStr t \<Rightarrow>
                  if \<not> dmem ''message'' choice \<and> py_strip t \<noteq> []
                  then Some [(''role'', JStr ''assistant''), (''content'', JStr t)] else None
              | _ \<Rightarrow> None))"

text \<open>The message, or the reason why the output is invalid.\<close>

definition assistant_message_from_runtime_completion :: "json \<Rightarrow> json \<Rightarrow> string + object" where
  "assistant_message_from_runtime_completion profile completion =
     (case completion of
        JDict d \<Rightarrow>
          (case jget d ''choices'' of
             JList (JDict choice # _) \<Rightarrow>
               if api_v1_qwen_reasoning_content_leaked profile completion then Inl ''qwen_thinking_output_leaked''
               else (case message_of_choice choice of
                       None \<Rightarrow> Inl ''unsupported_completion_shape''
                     | Some m \<Rightarrow> clean_message profile m)
           | _ \<Rightarrow> Inl ''unsupported_completion_shape'')
      | JStr s \<Rightarrow>
          if py_strip s = [] then Inl ''unsupported_completion_shape''
          else ebind (api_v1_normalize_qwen_non_thinking_content profile completion) (\<lambda>c.
                 Inr [(''role'', JStr ''assistant''), (''content'', JStr c)])
      | _ \<Rightarrow> Inl ''unsupported_completion_shape'')"

end
