(* ===== verification/Context_Profiles.thy ===== *)
theory Context_Profiles
  imports Json Store_Config
begin

text \<open>
  The context tiers an operator can select (\<^verbatim>\<open>src/utils/context_profiles.py\<close>) and how a
  tier is applied to the runtime manager.
\<close>

section \<open>Profiles\<close>

definition DEFAULT_CONTEXT_TIER :: string where
  "DEFAULT_CONTEXT_TIER = ''8k-fast''"

record context_profile =
  profile_id :: string
  display_label :: string
  total_context_tokens :: nat
  default_output_reservation_tokens :: nat
  profile_enabled :: bool

definition context_profiles_list :: "context_profile list" where
  "context_profiles_list =
     [\<lparr>profile_id = ''8k-fast'', display_label = ''8K Fast'', total_context_tokens = 8192,
       default_output_reservation_tokens = 1024, profile_enabled = True\<rparr>,
      \<lparr>profile_id = ''64k-full'', display_label = ''64K Full'', total_context_tokens = 65536,
       default_output_reservation_tokens = 1024, profile_enabled = True\<rparr>]"

definition CONTEXT_PROFILES :: "(string, context_profile) dict" where
  "CONTEXT_PROFILES = map (\<lambda>p. (profile_id p, p)) context_profiles_list"

text \<open>\<^verbatim>\<open>profile_id or DEFAULT_CONTEXT_TIER\<close>: a missing and an empty name take the default.\<close>

definition named_tier :: "string option \<Rightarrow> string" where
  "named_tier name = (case name of Some (c # cs) \<Rightarrow> c # cs | _ \<Rightarrow> DEFAULT_CONTEXT_TIER)"

datatype profile_error = UnknownProfile "string option"

definition get_context_profile :: "string option \<Rightarrow> profile_error + context_profile" where
  "get_context_profile name =
     (case dget CONTEXT_PROFILES (named_tier name) of
        None \<Rightarrow> Inl (UnknownProfile name)
      | Some p \<Rightarrow> if \<not> profile_enabled p then Inl (UnknownProfile name) else Inr p)"

definition normalize_context_tier :: "string option \<Rightarrow> string" where
  "normalize_context_tier name =
     (case dget CONTEXT_PROFILES (named_tier name) of
        None \<Rightarrow> DEFAULT_CONTEXT_TIER
      | Some p \<Rightarrow> if \<not> profile_enabled p then DEFAULT_CONTEXT_TIER else profile_id p)"

section \<open>Applying a profile\<close>

text \<open>
  What the manager's \<^verbatim>\<open>config\<close> attribute can be: an object with a \<^verbatim>\<open>set\<close> method, seen
  as the settings it holds, a plain dict, or nothing that can be set. The attributes the
  function assigns may be absent before.
\<close>

datatype manager_config =
    NoConfig
  | SettableConfig "(string, nat) dict"
  | DictConfig "(string, nat) dict"
  | OtherConfig

record manager =
  mgr_config :: manager_config
  mgr_context_tier :: "string option"
  mgr_context_window_tokens :: "nat option"
  mgr_default_output_reservation_tokens :: "nat option"

definition set_context_size :: "nat \<Rightarrow> manager_config \<Rightarrow> manager_config" where
  "set_context_size n c =
     (case c of
        SettableConfig d \<Rightarrow> SettableConfig (dset ''model.context_size'' n d)
      | DictConfig d \<Rightarrow> DictConfig (dset ''model.context_size'' n d)
      | _ \<Rightarrow> c)"

definition apply_context_profile ::
  "string option \<Rightarrow> manager \<Rightarrow> (profile_error + context_profile) \<times> manager" where
  "apply_context_profile name m =
     (case get_context_profile name of
        Inl e \<Rightarrow> (Inl e, m)
      | Inr p \<Rightarrow>
          (Inr p,
           m\<lparr>mgr_config := set_context_size (total_context_tokens p) (mgr_config m),
             mgr_context_tier := Some (profile_id p),
             mgr_context_window_tokens := Some (total_context_tokens p),
             mgr_default_output_reservation_tokens := Some (default_output_reservation_tokens p)\<rparr>))"

section \<open>Facts\<close>

lemma profiles_enabled: "dget CONTEXT_PROFILES t = Some p \<Longrightarrow> profile_enabled p \<and> profile_id p = t"
  by (auto simp: CONTEXT_PROFILES_def context_profiles_list_def split: if_splits)

text \<open>The relay's table of tiers is the projection of the profiles to their window.\<close>

lemma profiles_bounds: "map (\<lambda>(t, p). (t, total_context_tokens p)) CONTEXT_PROFILES = CONTEXT_TIER_TOKEN_BOUNDS"
  by code_simp

lemma named_tier_Some: "t \<noteq> [] \<Longrightarrow> named_tier (Some t) = t"
  by (cases t) (simp_all add: named_tier_def)

lemma known_tiers: "dget CONTEXT_PROFILES t = Some p \<Longrightarrow> t \<noteq> []"
  by (auto simp: CONTEXT_PROFILES_def context_profiles_list_def split: if_splits)

lemma default_known: "\<exists>p. dget CONTEXT_PROFILES DEFAULT_CONTEXT_TIER = Some p"
  by (simp add: CONTEXT_PROFILES_def context_profiles_list_def DEFAULT_CONTEXT_TIER_def)

lemma normalized_known: "\<exists>p. dget CONTEXT_PROFILES (normalize_context_tier name) = Some p"
  using default_known profiles_enabled
  by (auto simp: normalize_context_tier_def split: option.split dest: profiles_enabled)

lemma get_known: "dget CONTEXT_PROFILES t = Some p \<Longrightarrow> get_context_profile (Some t) = Inr p"
  using profiles_enabled known_tiers by (simp add: get_context_profile_def named_tier_Some)

end
