(* ===== verification/Node_Requests.thy ===== *)
theory Node_Requests
  imports Compute_Provider Context_Profiles
begin

text \<open>
  What a compute node makes of the work a relay hands it (\<^verbatim>\<open>src/utils/networking/relay_client.py\<close> and
  the payload tests of \<^verbatim>\<open>src/utils/compute_node_runtime.py\<close>): the schema of the message, the request in the
  decrypted envelope, and the deadlines and intervals a relay suggests.
\<close>

section \<open>Payloads\<close>

definition LEGACY_RELAY_REQUIRED_FIELDS :: "string list" where
  "LEGACY_RELAY_REQUIRED_FIELDS = [''client_public_key'', ''chat_history'', ''cipherkey'', ''iv'']"

definition is_legacy_relay_payload :: "json \<Rightarrow> bool" where
  "is_legacy_relay_payload payload =
     (case payload of
        JDict d \<Rightarrow>
          jget d ''protocol'' \<noteq> JStr PROTOCOL \<and> jget d ''e2ee_v1'' \<noteq> JBool True
          \<and> list_all (\<lambda>f. dmem f d) LEGACY_RELAY_REQUIRED_FIELDS
      | _ \<Rightarrow> False)"

text \<open>\<^verbatim>\<open>version != 1\<close> compares numbers: \<^verbatim>\<open>1.0\<close> and \<^verbatim>\<open>True\<close> pass.\<close>

definition is_api_v1_relay_payload :: "json \<Rightarrow> bool" where
  "is_api_v1_relay_payload payload =
     (case payload of
        JDict d \<Rightarrow>
          jget d ''protocol'' = JStr PROTOCOL \<and> jnum (jget d ''version'') = Some 1
          \<and> list_all (\<lambda>f. is_jstr (jget d f)) [''request_id'', ''client_public_key'', ''chat_history'', ''cipherkey'', ''iv'']
      | _ \<Rightarrow> False)"

text \<open>
  \<^verbatim>\<open>_validate_with_fallback\<close> uses \<^verbatim>\<open>jsonschema\<close> where it is installed; the test it falls back to reads the
  required fields and the types of the schema. A bool is an \<^verbatim>\<open>int\<close>, and so a number.
\<close>

record message_schema =
  ms_required :: "string list"
  ms_properties :: "(string, string) dict"

definition MESSAGE_SCHEMA :: message_schema where
  "MESSAGE_SCHEMA =
     \<lparr>ms_required = [''client_public_key'', ''chat_history'', ''cipherkey'', ''iv''],
      ms_properties = [(''client_public_key'', ''string''), (''chat_history'', ''string''), (''cipherkey'', ''string''), (''iv'', ''string'')]\<rparr>"

definition has_json_type :: "string \<Rightarrow> json \<Rightarrow> bool" where
  "has_json_type expected v =
     (if expected = ''string'' then is_jstr v
      else if expected = ''number'' then jfloat v \<noteq> None
      else if expected = ''object'' then is_jdict v
      else True)"

definition validate_with_fallback :: "(json \<Rightarrow> message_schema \<Rightarrow> bool) option \<Rightarrow> json \<Rightarrow> message_schema \<Rightarrow> bool" where
  "validate_with_fallback jsonschema payload schema =
     (case jsonschema of
        Some validate \<Rightarrow> validate payload schema
      | None \<Rightarrow>
          (case payload of
             JDict d \<Rightarrow>
               list_all (\<lambda>f. dmem f d) (ms_required schema)
               \<and> list_all (\<lambda>(f, v). case dget (ms_properties schema) f of
                    Some expected \<Rightarrow> has_json_type expected v | None \<Rightarrow> True) d
           | _ \<Rightarrow> False))"

section \<open>The request in the envelope\<close>

definition normalize_client_public_key_b64 :: "json \<Rightarrow> string option" where
  "normalize_client_public_key_b64 key =
     (case key of JStr s \<Rightarrow> if py_strip s = [] then None else Some (py_strip s) | _ \<Rightarrow> None)"

definition is_valid_chat_history :: "json \<Rightarrow> bool" where
  "is_valid_chat_history history =
     (case history of
        JList ms \<Rightarrow>
          list_all (\<lambda>m. case m of JDict d \<Rightarrow> is_jstr (jget d ''role'') \<and> is_jstr (jget d ''content'') | _ \<Rightarrow> False) ms
      | _ \<Rightarrow> False)"

definition extract_chat_history_and_validate_key_binding :: "json \<Rightarrow> string \<Rightarrow> json option" where
  "extract_chat_history_and_validate_key_binding payload expected =
     (case payload of
        JDict d \<Rightarrow>
          (let bound = jget d ''client_public_key''
           in if bound \<noteq> JNull \<and> bound \<noteq> JStr expected then None
              else if \<not> dmem ''chat_history'' d then None
              else if is_valid_chat_history (jget d ''chat_history'') then Some (jget d ''chat_history'') else None)
      | _ \<Rightarrow> if is_valid_chat_history payload then Some payload else None)"

record node_request =
  nq_request_id :: string
  nq_model :: string
  nq_messages :: "json list"
  nq_options :: object
  nq_context_tier :: string

text \<open>
  The tier that is asked for, or \<open>None\<close> when it is no enabled tier; looking up a list or an object is a
  \<^verbatim>\<open>TypeError\<close>, unless it is empty and the default is looked up instead.
\<close>

definition requested_tier :: "json \<Rightarrow> string + string option" where
  "requested_tier v =
     (case v of
        JNull \<Rightarrow> Inr (Some (normalize_context_tier None))
      | JStr s \<Rightarrow>
          (let tier = normalize_context_tier (Some (py_strip s))
           in Inr (if tier = py_strip s then Some tier else None))
      | _ \<Rightarrow> if jtruthy v \<and> \<not> hashable v then Inl ''TypeError'' else Inr None)"

definition request_of :: "string \<Rightarrow> object \<Rightarrow> string + node_request option" where
  "request_of request_id request =
     (case (jget request ''model'', jget request ''messages'', jget_default request ''options'' (JDict [])) of
        (JStr model, JList messages, JDict options) \<Rightarrow>
          if py_strip model = [] then Inr None
          else (case jget request ''routing'' of
            JNull \<Rightarrow>
              Inr (Some \<lparr>nq_request_id = request_id, nq_model = model, nq_messages = messages, nq_options = options,
                         nq_context_tier = normalize_context_tier None\<rparr>)
          | JDict routing \<Rightarrow>
              ebind (requested_tier (jget routing ''context_tier'')) (\<lambda>tier.
                Inr (map_option (\<lambda>t. \<lparr>nq_request_id = request_id, nq_model = model, nq_messages = messages,
                       nq_options = options, nq_context_tier = t\<rparr>) tier))
          | _ \<Rightarrow> Inr None)
      | _ \<Rightarrow> Inr None)"

definition extract_api_v1_request_payload :: "json \<Rightarrow> string \<Rightarrow> string + node_request option" where
  "extract_api_v1_request_payload payload expected =
     (case payload of
        JDict d \<Rightarrow>
          if jget d ''protocol'' \<noteq> JStr PROTOCOL \<or> jget d ''client_public_key'' \<noteq> JStr expected then Inr None
          else (case (jget d ''request_id'', jget d ''api_v1_request'') of
            (JStr request_id, JDict request) \<Rightarrow> if py_strip request_id = [] then Inr None else request_of request_id request
          | _ \<Rightarrow> Inr None)
      | _ \<Rightarrow> Inr None)"

section \<open>Deadlines and intervals\<close>

text \<open>
  \<^verbatim>\<open>float(value)\<close> where a bool is refused: \<open>Inl\<close> is the \<^verbatim>\<open>OverflowError\<close> of an integer beyond the range of
  floats, which nothing catches, and \<open>Inr None\<close> what is no number.
\<close>

definition float_of_json :: "environ \<Rightarrow> json \<Rightarrow> string + pyfloat option" where
  "float_of_json v value =
     (case value of
        JBool _ \<Rightarrow> Inr None
      | JInt i \<Rightarrow> (case en_float_of_int v i of Some x \<Rightarrow> Inr (Some (FNum x)) | None \<Rightarrow> Inl ''OverflowError'')
      | JStr s \<Rightarrow> Inr (en_float v s)
      | _ \<Rightarrow> Inr (jfloat value))"

definition api_v1_valid_relative_seconds :: "environ \<Rightarrow> json \<Rightarrow> string + rat option" where
  "api_v1_valid_relative_seconds v value =
     ebind (float_of_json v value) (\<lambda>x. Inr (case x of Some (FNum s) \<Rightarrow> if s < 0 then None else Some s | _ \<Rightarrow> None))"

definition api_v1_initial_relative_seconds :: "environ \<Rightarrow> json \<Rightarrow> string + rat option" where
  "api_v1_initial_relative_seconds v value =
     ebind (float_of_json v value) (\<lambda>x. Inr (case x of Some (FNum s) \<Rightarrow> if s > 0 then Some s else None | _ \<Rightarrow> None))"

definition API_V1_COMPATIBILITY_REQUEST_DEADLINE_SECONDS :: rat where
  "API_V1_COMPATIBILITY_REQUEST_DEADLINE_SECONDS = 300"

definition API_V1_CONTROL_MIN_POLL_SECONDS :: rat where
  "API_V1_CONTROL_MIN_POLL_SECONDS = 1"

definition API_V1_CONTROL_MAX_POLL_SECONDS :: rat where
  "API_V1_CONTROL_MAX_POLL_SECONDS = 10"

text \<open>The smaller of the two hints that are valid.\<close>

fun least_hint :: "rat option \<Rightarrow> rat option \<Rightarrow> rat option" where
  "least_hint (Some a) (Some b) = Some (min a b)"
| "least_hint (Some a) None = Some a"
| "least_hint None b = b"

definition api_v1_initial_deadline_from_metadata :: "float_ops \<Rightarrow> environ \<Rightarrow> rat \<Rightarrow> object \<Rightarrow> string + pyfloat" where
  "api_v1_initial_deadline_from_metadata F v now payload =
     ebind (api_v1_initial_relative_seconds v (jget payload ''request_deadline_remaining_seconds'')) (\<lambda>a.
     ebind (api_v1_initial_relative_seconds v (jget payload ''request_ttl_seconds'')) (\<lambda>b.
       Inr (fo_plus F now (case least_hint a b of
              Some s \<Rightarrow> s | None \<Rightarrow> API_V1_COMPATIBILITY_REQUEST_DEADLINE_SECONDS))))"

definition api_v1_deadline_after_response :: "float_ops \<Rightarrow> environ \<Rightarrow> pyfloat \<Rightarrow> json \<Rightarrow> rat \<Rightarrow> string + pyfloat" where
  "api_v1_deadline_after_response F v current payload now =
     (case payload of
        JDict d \<Rightarrow>
          ebind (api_v1_valid_relative_seconds v (jget d ''request_deadline_remaining_seconds'')) (\<lambda>a.
          ebind (api_v1_valid_relative_seconds v (jget d ''request_ttl_seconds'')) (\<lambda>b.
            Inr (case least_hint a b of None \<Rightarrow> current | Some s \<Rightarrow> f_min current (fo_plus F now s))))
      | _ \<Rightarrow> Inr current)"

definition api_v1_control_next_poll_seconds :: "environ \<Rightarrow> json \<Rightarrow> string + rat" where
  "api_v1_control_next_poll_seconds v value =
     ebind (float_of_json v value) (\<lambda>x. Inr (case x of
         Some (FNum s) \<Rightarrow> min API_V1_CONTROL_MAX_POLL_SECONDS (max API_V1_CONTROL_MIN_POLL_SECONDS s)
       | _ \<Rightarrow> API_V1_CONTROL_MIN_POLL_SECONDS))"

definition normalise_poll_wait_seconds :: "environ \<Rightarrow> rat \<Rightarrow> json \<Rightarrow> string + rat" where
  "normalise_poll_wait_seconds v request_timeout value =
     ebind (api_v1_valid_relative_seconds v value) (\<lambda>x. Inr (case x of Some s \<Rightarrow> s | None \<Rightarrow> request_timeout))"

section \<open>What the node reads of an API's envelope\<close>

lemma default_tier [simp]: "normalize_context_tier None = DEFAULT_CONTEXT_TIER"
  by (simp add: normalize_context_tier_def named_tier_def CONTEXT_PROFILES_def context_profiles_list_def DEFAULT_CONTEXT_TIER_def)

lemma request_of_id:
  assumes "request_of i request = Inr (Some q)"
  shows "nq_request_id q = i"
proof (cases "jget request ''model''")
  case (JStr model)
  show ?thesis
  proof (cases "jget request ''messages''")
    case (JList messages)
    show ?thesis
    proof (cases "jget_default request ''options'' (JDict [])")
      case (JDict options)
      with JStr JList assms show ?thesis
        by (cases "jget request ''routing''") (auto simp: request_of_def ebind_Inr split: if_splits)
    qed (use assms JStr JList in \<open>simp_all add: request_of_def\<close>)
  qed (use assms JStr in \<open>simp_all add: request_of_def\<close>)
qed (use assms in \<open>simp_all add: request_of_def\<close>)

lemma extract_Inr:
  assumes "extract_api_v1_request_payload payload expected = Inr (Some q)"
  obtains d request where "payload = JDict d" "jget d ''protocol'' = JStr PROTOCOL" "jget d ''client_public_key'' = JStr expected"
    "jget d ''request_id'' = JStr (nq_request_id q)" "jget d ''api_v1_request'' = JDict request"
    "request_of (nq_request_id q) request = Inr (Some q)"
proof (cases payload)
  case (JDict d)
  with assms have head: "jget d ''protocol'' = JStr PROTOCOL" "jget d ''client_public_key'' = JStr expected"
    by (auto simp: extract_api_v1_request_payload_def split: if_splits)
  show thesis
  proof (cases "\<exists>i request. jget d ''request_id'' = JStr i \<and> jget d ''api_v1_request'' = JDict request")
    case True
    then obtain i request where body: "jget d ''request_id'' = JStr i" "jget d ''api_v1_request'' = JDict request" by blast
    with assms JDict head have "request_of i request = Inr (Some q)"
      by (simp add: extract_api_v1_request_payload_def split: if_splits)
    with request_of_id [OF this] JDict head body that show thesis by simp
  next
    case False
    with assms JDict head show thesis
      by (cases "jget d ''request_id''"; cases "jget d ''api_v1_request''") (simp_all add: extract_api_v1_request_payload_def)
  qed
qed (use assms in \<open>simp_all add: extract_api_v1_request_payload_def\<close>)

lemma envelope_is_extracted:
  assumes "py_strip (di_request_id D) \<noteq> []" "py_strip model \<noteq> []"
  shows "extract_api_v1_request_payload (plaintext_envelope D model messages options) (cr_public_key_b64 (di_crypto D))
     = Inr (Some \<lparr>nq_request_id = di_request_id D, nq_model = model, nq_messages = messages, nq_options = options,
                  nq_context_tier = DEFAULT_CONTEXT_TIER\<rparr>)"
  using assms by (simp add: extract_api_v1_request_payload_def request_of_def plaintext_envelope_def jget_default_def)

end
