(* ===== verification/Node_Replies.thy ===== *)
theory Node_Replies
  imports Node_Requests
begin

text \<open>
  How a compute node answers a request of the relay (\<^verbatim>\<open>process_client_request_result\<close> and what it calls in
  \<^verbatim>\<open>src/utils/networking/relay_client.py\<close>, \<^verbatim>\<open>src/utils/processing_result.py\<close>, and the choice of the adapter in
  \<^verbatim>\<open>src/utils/compute_node_runtime.py\<close>).

  The clock, the flags other threads set, the supervised inference, the model and the HTTP library are the
  \<open>node_world\<close>; a \<open>node\<close> also counts the open mutations and logs its posts.
\<close>

section \<open>The world of a node\<close>

record supervisor_outcome =
  so_response_envelope :: "object option"
  so_terminal_code :: "string option"
  so_runtime_healthy :: bool
  so_recovery_attempted :: bool
  so_recovery_succeeded :: bool
  so_submission_allowed :: bool

record processing_result =
  pr_inference_succeeded :: bool
  pr_submitted :: bool
  pr_safe_error_code :: json
  pr_runtime_healthy :: bool
  pr_recovery_attempted :: bool
  pr_recovery_succeeded :: bool
  pr_submission_allowed :: bool

definition submission_failed :: "string \<Rightarrow> bool \<Rightarrow> processing_result" where
  "submission_failed code well =
     \<lparr>pr_inference_succeeded = False, pr_submitted = False, pr_safe_error_code = JStr code, pr_runtime_healthy = well,
      pr_recovery_attempted = False, pr_recovery_succeeded = False, pr_submission_allowed = True\<rparr>"

record relay_post =
  rp_url :: string
  rp_headers :: "(string, string) dict"
  rp_body :: object
  rp_timeout :: pyfloat

text \<open>The reply with its status and text, or the class of the exception the HTTP library raised.\<close>

datatype node_failure = ConnectionFailed | TimedOut | RequestFailedOtherwise | Raised string

datatype post_reply = Posted int string | PostRaised node_failure

record flags =
  fl_latched :: bool
  fl_stopped :: bool
  fl_cancelled :: bool

datatype worker_event = StartHeartbeat | StopHeartbeat | StartProgress | StopProgress

record 'w node_world =
  nw_time :: "'w \<Rightarrow> rat \<times> 'w"
  nw_flags :: "'w \<Rightarrow> flags \<times> 'w"
  nw_supervise :: "node_request \<Rightarrow> pyfloat \<Rightarrow> 'w \<Rightarrow> (string + supervisor_outcome) \<times> 'w"
  nw_infer :: "json \<Rightarrow> 'w \<Rightarrow> (string + json) \<times> 'w"
  nw_post :: "relay_post \<Rightarrow> 'w \<Rightarrow> post_reply \<times> 'w"
  nw_worker :: "worker_event \<Rightarrow> 'w \<Rightarrow> 'w"

record 'w node_state =
  nd_world :: 'w
  nd_mutations :: nat
  nd_log :: "(relay_post \<times> post_reply) list"

type_synonym ('w, 'a) node_act = "('w node_state, node_failure, 'a) effect"

definition observe :: "('w \<Rightarrow> 'a \<times> 'w) \<Rightarrow> ('w, 'a) node_act" where
  "observe f = (\<lambda>s. let (x, w) = f (nd_world s) in (Inr x, s\<lparr>nd_world := w\<rparr>))"

definition attempt :: "('w \<Rightarrow> (string + 'a) \<times> 'w) \<Rightarrow> ('w, 'a) node_act" where
  "attempt f = (\<lambda>s. let (r, w) = f (nd_world s) in (map_sum Raised id r, s\<lparr>nd_world := w\<rparr>))"

definition notify_worker :: "'w node_world \<Rightarrow> worker_event \<Rightarrow> 'w node_state \<Rightarrow> 'w node_state" where
  "notify_worker W e s = s\<lparr>nd_world := nw_worker W e (nd_world s)\<rparr>"

definition post_to_relay :: "'w node_world \<Rightarrow> relay_post \<Rightarrow> ('w, int \<times> string) node_act" where
  "post_to_relay W p = (\<lambda>s.
     let (reply, w) = nw_post W p (nd_world s); t = s\<lparr>nd_world := w, nd_log := nd_log s @ [(p, reply)]\<rparr>
     in case reply of Posted status body \<Rightarrow> (Inr (status, body), t) | PostRaised e \<Rightarrow> (Inl e, t))"

text \<open>\<^verbatim>\<open>try: ... finally: ...\<close>\<close>

definition finally_do :: "('w node_state \<Rightarrow> 'w node_state) \<Rightarrow> ('w, 'a) node_act \<Rightarrow> ('w, 'a) node_act" where
  "finally_do f act = (\<lambda>s. let (r, t) = act s in (r, f t))"

text \<open>
  What stays fixed: the relays, the headers and the cryptography. A client key is named by the base64 text
  that decodes to it.
\<close>

record node_setup =
  ns_environ :: environ
  ns_floats :: float_ops
  ns_jsonschema :: "(json \<Rightarrow> message_schema \<Rightarrow> bool) option"
  ns_decrypt :: "object \<Rightarrow> string + json option"
  ns_encrypt :: "json \<Rightarrow> string \<Rightarrow> string + object"
  ns_relay_url :: string
  ns_work_relay_url :: "string option"
  ns_registration_token :: "string option"
  ns_request_timeout :: rat
  ns_registered :: bool
  ns_progress_supported :: bool

definition auth_headers :: "node_setup \<Rightarrow> (string, string) dict" where
  "auth_headers N =
     (case ns_registration_token N of Some (c # cs) \<Rightarrow> [(''X-Relay-Server-Token'', c # cs)] | _ \<Rightarrow> [])"

definition api_v1_response_relay_url :: "node_setup \<Rightarrow> string" where
  "api_v1_response_relay_url N = (case ns_work_relay_url N of Some (c # cs) \<Rightarrow> c # cs | _ \<Rightarrow> ns_relay_url N)"

definition build_api_v1_url :: "string \<Rightarrow> string \<Rightarrow> string" where
  "build_api_v1_url relay route =
     (let base = rstrip_slash relay; path = (if take 1 route = ''/'' then route else CHR ''/'' # route)
      in if ends_with base ''/api/v1'' then base @ path else base @ ''/api/v1'' @ path)"

section \<open>Submitting a response\<close>

datatype node_answer =
    AnswerError object
  | AnswerMessage json "string option" "object option" "object option"

definition api_v1_response_envelope :: "string \<Rightarrow> node_answer \<Rightarrow> object" where
  "api_v1_response_envelope request_id answer =
     [(''protocol'', JStr PROTOCOL), (''version'', JInt 1), (''request_id'', JStr request_id),
      (''api_v1_response'', JDict (case answer of
          AnswerError e \<Rightarrow> [(''error'', JDict e)]
        | AnswerMessage m reason usage budget \<Rightarrow>
            [(''message'', m)] @ (case reason of Some r \<Rightarrow> [(''finish_reason'', JStr r)] | None \<Rightarrow> [])
            @ (case usage of Some u \<Rightarrow> [(''usage'', JDict u)] | None \<Rightarrow> [])
            @ (case budget of Some b \<Rightarrow> [(''output_budget'', JDict b)] | None \<Rightarrow> [])))]"

text \<open>The envelope that is encrypted names the client; the payload around it is what the relay sees.\<close>

definition bound_response :: "string \<Rightarrow> object \<Rightarrow> object" where
  "bound_response client envelope = dset ''client_public_key'' (JStr client) envelope"

definition source_payload :: "string \<Rightarrow> json \<Rightarrow> object \<Rightarrow> object" where
  "source_payload client request_id encrypted =
     fold (\<lambda>(k, v). dset k v) encrypted
       [(''client_public_key'', JStr client), (''request_id'', request_id), (''protocol'', JStr PROTOCOL), (''version'', JInt 1)]"

definition response_post :: "node_setup \<Rightarrow> string \<Rightarrow> json \<Rightarrow> object \<Rightarrow> relay_post" where
  "response_post N client request_id encrypted =
     \<lparr>rp_url = build_api_v1_url (api_v1_response_relay_url N) ''/relay/responses'', rp_headers = auth_headers N,
      rp_body = source_payload client request_id encrypted, rp_timeout = FNum (ns_request_timeout N)\<rparr>"

record post_outcome =
  po_submitted :: bool
  po_suppressed :: bool
  po_transport_failed :: bool
  po_suppressed_code :: "string option"

definition suppressed :: "string \<Rightarrow> post_outcome" where
  "suppressed code =
     \<lparr>po_submitted = False, po_suppressed = True, po_transport_failed = False, po_suppressed_code = Some code\<rparr>"

definition begin_mutation :: "'w node_world \<Rightarrow> ('w, bool) node_act" where
  "begin_mutation W =
     sbind (observe (nw_flags W)) (\<lambda>fl.
       if fl_latched fl then ret False else (\<lambda>s. (Inr True, s\<lparr>nd_mutations := nd_mutations s + 1\<rparr>)))"

definition end_mutation :: "'w node_state \<Rightarrow> 'w node_state" where
  "end_mutation s = s\<lparr>nd_mutations := nd_mutations s - 1\<rparr>"

text \<open>\<open>time.monotonic() >= deadline\<close>; without a deadline the clock is not read.\<close>

definition late_now :: "'w node_world \<Rightarrow> pyfloat option \<Rightarrow> ('w, bool) node_act" where
  "late_now W deadline =
     (case deadline of
        None \<Rightarrow> ret False
      | Some d \<Rightarrow> sbind (observe (nw_time W)) (\<lambda>t. ret (d = FNum t \<or> f_less d (FNum t))))"

definition submit_response ::
  "node_setup \<Rightarrow> 'w node_world \<Rightarrow> object \<Rightarrow> string \<Rightarrow> bool \<Rightarrow> pyfloat option \<Rightarrow> ('w, post_outcome) node_act" where
  "submit_response N W envelope client watch deadline =
     sbind (lift (map_sum Raised id (ns_encrypt N (JDict (bound_response client envelope)) client))) (\<lambda>encrypted.
     sbind (lift (case dget envelope ''request_id'' of Some i \<Rightarrow> Inr i | None \<Rightarrow> Inl (Raised ''KeyError''))) (\<lambda>request_id.
     sbind (observe (nw_flags W)) (\<lambda>fl.
     sbind (late_now W deadline) (\<lambda>late.
       if fl_stopped fl then ret (suppressed ''operator_stop'')
       else if late then ret (suppressed ''local_deadline'')
       else if watch \<and> fl_cancelled fl then ret (suppressed ''request_cancelled'')
       else
         sbind (post_to_relay W (response_post N client request_id encrypted)) (\<lambda>(status, _).
           ret \<lparr>po_submitted = (status = 200), po_suppressed = False, po_transport_failed = False, po_suppressed_code = None\<rparr>)))))"

text \<open>\<open>watch\<close> tells whether the request has a cancellation snapshot to compare with.\<close>

definition post_api_v1_response ::
  "node_setup \<Rightarrow> 'w node_world \<Rightarrow> object \<Rightarrow> string \<Rightarrow> bool \<Rightarrow> pyfloat option \<Rightarrow> ('w, post_outcome) node_act" where
  "post_api_v1_response N W envelope client watch deadline =
     sbind (begin_mutation W) (\<lambda>begun.
       if \<not> begun then ret (suppressed ''shutdown_requested'')
       else finally_do end_mutation (\<lambda>s.
         case submit_response N W envelope client watch deadline s of
           (Inl _, t) \<Rightarrow>
             (Inr \<lparr>po_submitted = False, po_suppressed = False, po_transport_failed = True, po_suppressed_code = None\<rparr>, t)
         | r \<Rightarrow> r))"

definition submit_api_v1_error_response ::
  "node_setup \<Rightarrow> 'w node_world \<Rightarrow> json \<Rightarrow> string \<Rightarrow> string \<Rightarrow> ('w, bool) node_act" where
  "submit_api_v1_error_response N W data code message =
     (case data of
        JDict d \<Rightarrow>
          if \<not> is_api_v1_relay_payload data then ret False
          else (case normalize_client_public_key_b64 (jget d ''client_public_key'') of
            None \<Rightarrow> ret False
          | Some client \<Rightarrow>
              if \<not> b64decodes client then ret False
              else (case jget d ''request_id'' of
                JStr i \<Rightarrow>
                  sbind (post_api_v1_response N W
                      (api_v1_response_envelope i (AnswerError [(''code'', JStr code), (''message'', JStr message)])) client False None)
                    (\<lambda>outcome. ret (po_submitted outcome))
              | _ \<Rightarrow> ret False))
      | _ \<Rightarrow> ret False)"

section \<open>Processing a request\<close>

definition error_code_of_envelope :: "object \<Rightarrow> json" where
  "error_code_of_envelope envelope =
     (case jget_default envelope ''api_v1_response'' (JDict []) of
        JDict r \<Rightarrow> (case jget r ''error'' of JDict e \<Rightarrow> jget e ''code'' | _ \<Rightarrow> JNull)
      | _ \<Rightarrow> JNull)"

definition refused_result :: "json \<Rightarrow> bool \<Rightarrow> supervisor_outcome \<Rightarrow> processing_result" where
  "refused_result code well outcome =
     \<lparr>pr_inference_succeeded = False, pr_submitted = False, pr_safe_error_code = code, pr_runtime_healthy = well,
      pr_recovery_attempted = so_recovery_attempted outcome, pr_recovery_succeeded = so_recovery_succeeded outcome,
      pr_submission_allowed = False\<rparr>"

text \<open>What becomes of the envelope that inference returned: the flags and the deadline are checked once more.\<close>

definition answer_request ::
  "node_setup \<Rightarrow> 'w node_world \<Rightarrow> string \<Rightarrow> pyfloat \<Rightarrow> supervisor_outcome \<Rightarrow> object \<Rightarrow> ('w, processing_result) node_act" where
  "answer_request N W client deadline outcome envelope =
     (let code = error_code_of_envelope envelope;
          well = (code \<notin> {JStr ''compute_node_internal_error'', JStr ''compute_node_process_failed''} \<or> so_runtime_healthy outcome)
      in sbind (lift (if hashable code then Inr () else Inl (Raised ''TypeError''))) (\<lambda>_.
         sbind (observe (nw_flags W)) (\<lambda>fl.
         sbind (late_now W (Some deadline)) (\<lambda>late.
           if fl_latched fl \<or> fl_stopped fl \<or> late \<or> fl_cancelled fl
           then ret (refused_result
                  (JStr (if fl_latched fl then ''shutdown_requested'' else if fl_stopped fl then ''operator_stop''
                         else if late then ''local_deadline'' else ''request_cancelled''))
                  (fl_latched fl \<or> fl_stopped fl \<or> well) outcome)
           else
             sbind (post_api_v1_response N W envelope client True (Some deadline)) (\<lambda>posted.
               if po_suppressed posted
               then ret (refused_result (case po_suppressed_code posted of Some (c # cs) \<Rightarrow> JStr (c # cs) | _ \<Rightarrow> JStr ''request_suppressed'')
                      well outcome)
               else
                 sbind (if po_submitted posted then ret False
                        else sbind (observe (nw_flags W)) (\<lambda>fl. ret (fl_latched fl \<or> fl_stopped fl))) (\<lambda>stopped.
                   if stopped then ret (refused_result (JStr ''shutdown_requested'') True outcome)
                   else ret \<lparr>pr_inference_succeeded = (code = JNull \<and> po_submitted posted), pr_submitted = po_submitted posted,
                          pr_safe_error_code = code, pr_runtime_healthy = well,
                          pr_recovery_attempted = so_recovery_attempted outcome,
                          pr_recovery_succeeded = so_recovery_succeeded outcome, pr_submission_allowed = True\<rparr>))))))"

definition process_api_v1 ::
  "node_setup \<Rightarrow> 'w node_world \<Rightarrow> string \<Rightarrow> pyfloat \<Rightarrow> node_request \<Rightarrow> ('w, processing_result) node_act" where
  "process_api_v1 N W client deadline q =
     finally_do (notify_worker W StopHeartbeat) (\<lambda>s.
       let s1 = (if ns_registered N then notify_worker W StartHeartbeat s else s);
           s2 = (if ns_progress_supported N then notify_worker W StartProgress s1 else s1)
       in sbind (finally_do (if ns_progress_supported N then notify_worker W StopProgress else id)
                   (attempt (nw_supervise W q deadline))) (\<lambda>outcome.
            case so_response_envelope outcome of
              None \<Rightarrow>
                ret \<lparr>pr_inference_succeeded = False, pr_submitted = False,
                     pr_safe_error_code = (case so_terminal_code outcome of Some (c # cs) \<Rightarrow> JStr (c # cs)
                        | _ \<Rightarrow> JStr ''api_v1_request_cancelled''),
                     pr_runtime_healthy = so_runtime_healthy outcome, pr_recovery_attempted = so_recovery_attempted outcome,
                     pr_recovery_succeeded = so_recovery_succeeded outcome,
                     pr_submission_allowed = so_submission_allowed outcome\<rparr>
            | Some envelope \<Rightarrow> answer_request N W client deadline outcome envelope) s2)"

definition processed :: processing_result where
  "processed =
     \<lparr>pr_inference_succeeded = True, pr_submitted = True, pr_safe_error_code = JNull, pr_runtime_healthy = True,
      pr_recovery_attempted = False, pr_recovery_succeeded = False, pr_submission_allowed = True\<rparr>"

text \<open>The deprecated requests: the model answers the history, and the answer goes to a stream or to the client.\<close>

definition legacy_post :: "node_setup \<Rightarrow> string \<Rightarrow> object \<Rightarrow> relay_post" where
  "legacy_post N route body =
     \<lparr>rp_url = ns_relay_url N @ route, rp_headers = auth_headers N, rp_body = body, rp_timeout = FNum (ns_request_timeout N)\<rparr>"

definition submit_stream :: "node_setup \<Rightarrow> 'w node_world \<Rightarrow> string \<Rightarrow> object \<Rightarrow> ('w, processing_result) node_act" where
  "submit_stream N W session payload =
     sbind (post_to_relay W (legacy_post N ''/stream/source''
         [(''session_id'', JStr session), (''chunk'', JDict payload), (''final'', JBool True)])) (\<lambda>(status, _).
       ret (if status \<noteq> 200 then submission_failed ''stream_submission_failed'' True else processed))"

definition submit_source :: "node_setup \<Rightarrow> 'w node_world \<Rightarrow> object \<Rightarrow> ('w, processing_result) node_act" where
  "submit_source N W payload =
     (if \<not> validate_with_fallback (ns_jsonschema N) (JDict payload) MESSAGE_SCHEMA
      then ret (submission_failed ''invalid_response_payload'' True)
      else sbind (post_to_relay W (legacy_post N ''/source'' payload)) (\<lambda>(status, body).
        ret (if status \<noteq> 200 then submission_failed ''response_submission_failed'' True
             else if py_strip body = [] then submission_failed ''empty_relay_response'' True else processed)))"

definition process_legacy ::
  "node_setup \<Rightarrow> 'w node_world \<Rightarrow> object \<Rightarrow> string \<Rightarrow> json \<Rightarrow> ('w, processing_result) node_act" where
  "process_legacy N W data client history =
     sbind (attempt (nw_infer W history)) (\<lambda>response.
     sbind (lift (map_sum Raised id (ns_encrypt N response client))) (\<lambda>encrypted.
       let payload = fold (\<lambda>(k, v). dset k v) encrypted [(''client_public_key'', JStr client)]
       in case jget data ''stream_session_id'' of
            JStr session \<Rightarrow>
              if jget data ''stream'' = JBool True \<and> py_strip session \<noteq> []
              then submit_stream N W session payload else submit_source N W payload
          | _ \<Rightarrow> submit_source N W payload))"

text \<open>The payload once its client key is known: an API v1 request, a chat history, or neither.\<close>

definition process_decrypted ::
  "node_setup \<Rightarrow> 'w node_world \<Rightarrow> object \<Rightarrow> string \<Rightarrow> pyfloat \<Rightarrow> json \<Rightarrow> ('w, processing_result) node_act" where
  "process_decrypted N W data client deadline plain =
     sbind (lift (map_sum Raised id (extract_api_v1_request_payload plain client))) (\<lambda>request.
       case request of
         Some q \<Rightarrow> process_api_v1 N W client deadline q
       | None \<Rightarrow>
           (case extract_chat_history_and_validate_key_binding plain client of
              None \<Rightarrow> ret (submission_failed ''invalid_relay_payload'' True)
            | Some history \<Rightarrow> process_legacy N W data client history))"

definition process_payload :: "node_setup \<Rightarrow> 'w node_world \<Rightarrow> object \<Rightarrow> pyfloat \<Rightarrow> ('w, processing_result) node_act" where
  "process_payload N W data deadline =
     (if \<not> validate_with_fallback (ns_jsonschema N) (JDict data) MESSAGE_SCHEMA
      then ret (submission_failed ''invalid_relay_payload'' True)
      else case dget data ''client_public_key'' of
        None \<Rightarrow> lift (Inl (Raised ''KeyError''))
      | Some key \<Rightarrow>
          (case normalize_client_public_key_b64 key of
             None \<Rightarrow> ret (submission_failed ''invalid_relay_payload'' True)
           | Some client \<Rightarrow>
               if \<not> b64decodes client then ret (submission_failed ''invalid_relay_payload'' True)
               else
                 sbind (lift (map_sum Raised id (ns_decrypt N data))) (\<lambda>plain.
                   case plain of
                     None \<Rightarrow> ret (submission_failed ''decrypt_failed'' True)
                   | Some p \<Rightarrow>
                       if p = JNull then ret (submission_failed ''decrypt_failed'' True)
                       else process_decrypted N W data client deadline p)))"

definition failure_result :: "node_failure \<Rightarrow> processing_result" where
  "failure_result e =
     (case e of
        ConnectionFailed \<Rightarrow> submission_failed ''relay_connection_error'' True
      | TimedOut \<Rightarrow> submission_failed ''relay_timeout'' True
      | RequestFailedOtherwise \<Rightarrow> submission_failed ''relay_request_exception'' True
      | Raised _ \<Rightarrow> submission_failed ''compute_node_internal_error'' False)"

text \<open>
  The deadline is computed before the exceptions are caught: the \<^verbatim>\<open>OverflowError\<close> of a lifetime beyond the range of
  floats escapes.
\<close>

definition process_client_request_result :: "node_setup \<Rightarrow> 'w node_world \<Rightarrow> object \<Rightarrow> ('w, processing_result) node_act" where
  "process_client_request_result N W data =
     sbind (observe (nw_time W)) (\<lambda>now.
     sbind (lift (map_sum Raised id (api_v1_initial_deadline_from_metadata (ns_floats N) (ns_environ N) now data))) (\<lambda>deadline s.
       case process_payload N W data deadline s of (Inl e, t) \<Rightarrow> (Inr (failure_result e), t) | r \<Rightarrow> r))"

text \<open>
  The runtime hands a payload to the first adapter that takes it. Both adapters process it the same way, so an
  adapter is its test; by default there is only the one for API v1.
\<close>

definition default_adapters :: "(json \<Rightarrow> bool) list" where
  "default_adapters = [is_api_v1_relay_payload]"

definition process_relay_request_result ::
  "(json \<Rightarrow> bool) list \<Rightarrow> node_setup \<Rightarrow> 'w node_world \<Rightarrow> object \<Rightarrow> ('w, processing_result) node_act" where
  "process_relay_request_result adapters N W data =
     (if list_ex (\<lambda>can_process. can_process (JDict data)) adapters
      then process_client_request_result N W data
      else ret (submission_failed ''unsupported_relay_payload'' True))"

end
