(* ===== verification/Node_Facts.thy ===== *)
theory Node_Facts
  imports Node_Chat Node_Replies
begin

text \<open>
  What a compute node accepts and lets out, stated without its loops: the chats, the options, text without a
  reasoning tag, and the posts of one processed request.
\<close>

section \<open>Chats\<close>

definition node_block :: "json \<Rightarrow> bool" where
  "node_block b \<longleftrightarrow>
     (\<exists>d t. b = JDict d \<and> list_all (\<lambda>(k, _). k \<in> {''type'', ''text''}) d \<and> jget d ''type'' \<in> JStr ` set text_types
        \<and> jget d ''text'' = JStr t \<and> t \<noteq> [])"

definition node_content :: "json \<Rightarrow> bool" where
  "node_content c \<longleftrightarrow>
     (\<exists>s. c = JStr s) \<or> (\<exists>bs. c = JList bs \<and> bs \<noteq> [] \<and> length bs \<le> API_V1_MAX_TEXT_BLOCKS \<and> list_all node_block bs)"

definition node_message :: "json \<Rightarrow> bool" where
  "node_message m \<longleftrightarrow>
     (\<exists>d. m = JDict d \<and> list_all (\<lambda>(k, _). k \<in> {''role'', ''content'', ''name''}) d
        \<and> jget d ''role'' \<in> JStr ` set API_V1_ALLOWED_MESSAGE_ROLES
        \<and> (jget d ''name'' = JNull \<or> (\<exists>n. jget d ''name'' = JStr n \<and> length n \<le> 128))
        \<and> dmem ''content'' d \<and> node_content (jget d ''content''))"

definition text_bytes :: "json \<Rightarrow> nat" where
  "text_bytes v = (case v of JStr s \<Rightarrow> utf8_length s | _ \<Rightarrow> 0)"

definition block_bytes :: "json \<Rightarrow> nat" where
  "block_bytes b = (case b of JDict d \<Rightarrow> text_bytes (jget d ''text'') | _ \<Rightarrow> 0)"

definition content_bytes :: "json \<Rightarrow> nat" where
  "content_bytes c = (case c of JList bs \<Rightarrow> sum_list (map block_bytes bs) | _ \<Rightarrow> text_bytes c)"

definition message_bytes :: "json \<Rightarrow> nat" where
  "message_bytes m = (case m of JDict d \<Rightarrow> content_bytes (jget d ''content'') | _ \<Rightarrow> 0)"

lemma block_sizes_Cons:
  "block_sizes (b # bs) = Inr (Some (n, k)) \<longleftrightarrow>
     node_block b \<and> (\<exists>n' k'. block_sizes bs = Inr (Some (n', k')) \<and> k = block_bytes b + k'
        \<and> n = length (case b of JDict d \<Rightarrow> (case jget d ''text'' of JStr t \<Rightarrow> t | _ \<Rightarrow> []) | _ \<Rightarrow> []) + n')"
proof (cases b)
  case (JDict d)
  have known: "hashable (jget d ''type'')" if "jget d ''type'' \<in> JStr ` set text_types" using that by auto
  show ?thesis
  proof (cases "jget d ''text''")
    case (JStr t)
    with JDict known show ?thesis
      by (cases t) (auto simp: node_block_def block_bytes_def text_bytes_def ebind_Inr image_iff)
  qed (use JDict in \<open>auto simp: node_block_def\<close>)
qed (auto simp: node_block_def)

lemma block_sizes_accepts:
  "(\<exists>n. block_sizes bs = Inr (Some (n, k))) \<longleftrightarrow> list_all node_block bs \<and> k = sum_list (map block_bytes bs)"
proof (induction bs arbitrary: k)
  case (Cons b bs)
  have "(\<exists>n. block_sizes (b # bs) = Inr (Some (n, k)))
      \<longleftrightarrow> node_block b \<and> (\<exists>k'. (\<exists>n. block_sizes bs = Inr (Some (n, k'))) \<and> k = block_bytes b + k')"
    unfolding block_sizes_Cons by blast
  with Cons show ?case by auto
qed auto

lemma sized_Inr:
  "ebind r (\<lambda>x. Inr (case x of None \<Rightarrow> Inl e | Some sz \<Rightarrow> Inr sz)) = Inr (Inr p) \<longleftrightarrow> r = Inr (Some p)"
  by (cases r) (auto split: option.splits)

lemma message_size_accepts:
  "(\<exists>n. message_size m = Inr (Inr (n, k))) \<longleftrightarrow> node_message m \<and> k = message_bytes m"
proof (cases m)
  case (JDict d)
  have size: "(\<exists>n. api_v1_content_validation_size c = Inr (Some (n, k)))
      \<longleftrightarrow> node_content c \<and> k = content_bytes c" for c
    using block_sizes_accepts
    by (cases c) (auto simp: api_v1_content_validation_size_def node_content_def text_bytes_def content_bytes_def)
  have named: "(case v of JNull \<Rightarrow> True | JStr n \<Rightarrow> length n \<le> 128 | _ \<Rightarrow> False)
      \<longleftrightarrow> v = JNull \<or> (\<exists>n. v = JStr n \<and> length n \<le> 128)" for v
    by (cases v) auto
  have "(\<exists>n. message_size m = Inr (Inr (n, k))) \<longleftrightarrow>
      list_all (\<lambda>(k, _). k \<in> {''role'', ''content'', ''name''}) d \<and> jget d ''role'' \<in> JStr ` set API_V1_ALLOWED_MESSAGE_ROLES
      \<and> (jget d ''name'' = JNull \<or> (\<exists>n. jget d ''name'' = JStr n \<and> length n \<le> 128)) \<and> dmem ''content'' d
      \<and> (\<exists>n. api_v1_content_validation_size (jget d ''content'') = Inr (Some (n, k)))"
    unfolding message_size_def JDict json.case named by (auto simp: sized_Inr)
  then show ?thesis unfolding size by (simp add: JDict node_message_def message_bytes_def conj_ac)
qed (simp_all add: message_size_def node_message_def)

lemma messages_accept:
  assumes "bytes \<le> API_V1_MAX_TOTAL_MESSAGE_UTF8_BYTES"
  shows "(\<exists>r. validate_messages count i chars bytes ms = Inr r \<and> cv_valid r)
     \<longleftrightarrow> list_all node_message ms \<and> bytes + sum_list (map message_bytes ms) \<le> API_V1_MAX_TOTAL_MESSAGE_UTF8_BYTES"
  using assms
proof (induction ms arbitrary: i chars bytes)
  case (Cons m ms)
  show ?case
  proof (cases "\<exists>n k. message_size m = Inr (Inr (n, k))")
    case True
    then obtain n k where size: "message_size m = Inr (Inr (n, k))" by blast
    then have "node_message m" "k = message_bytes m" using message_size_accepts by blast+
    with Cons.IH [of "bytes + k" "Suc i" "chars + n"] size show ?thesis by auto
  next
    case False
    then have "\<not> node_message m" using message_size_accepts by blast
    moreover have "\<not> (\<exists>r. validate_messages count i chars bytes (m # ms) = Inr r \<and> cv_valid r)"
      using False by (cases "message_size m") (auto simp: refused_message_def split: sum.splits prod.splits)
    ultimately show ?thesis by simp
  qed
qed simp

section \<open>Options\<close>

definition option_ok :: "string \<Rightarrow> json \<Rightarrow> bool" where
  "option_ok k x \<longleftrightarrow>
     (k = ''max_tokens'' \<and> (\<exists>i. x = JInt i \<and> 1 \<le> i \<and> i \<le> 8192))
     \<or> (k = ''seed'' \<and> (\<exists>i. x = JInt i \<and> 0 \<le> i \<and> i < 2 ^ 32))
     \<or> (k = ''temperature'' \<and> (\<exists>r. x = JFloat r \<and> 0 \<le> r \<and> r \<le> 2))
     \<or> (k = ''top_p'' \<and> (\<exists>r. x = JFloat r \<and> 0 \<le> r \<and> r \<le> 1))
     \<or> (k \<in> {''frequency_penalty'', ''presence_penalty''} \<and> (\<exists>r. x = JFloat r \<and> - 2 \<le> r \<and> r \<le> 2))
     \<or> (k = ''stop'' \<and> (stop_text x \<or> (\<exists>xs. x = JList xs \<and> length xs \<le> 16 \<and> list_all stop_text xs)))"

lemma normalised_number: "normalise_number v a b x = Some y \<Longrightarrow> \<exists>r. y = JFloat r \<and> a \<le> r \<and> r \<le> b"
  by (cases "api_v1_finite_number v x") (auto simp: normalise_number_def split: if_splits)

lemma number_stable: "a \<le> r \<Longrightarrow> r \<le> b \<Longrightarrow> normalise_number v a b (JFloat r) = Some (JFloat r)"
  by (simp add: normalise_number_def api_v1_finite_number_def)

lemma normalised_integer: "normalise_integer a b x = Some y \<Longrightarrow> \<exists>i. y = JInt i \<and> a \<le> i \<and> i \<le> b"
  by (cases x) (auto simp: normalise_integer_def split: if_splits)

lemma normalised_stop:
  "api_v1_normalise_stop_option x = Some y
     \<Longrightarrow> y = x \<and> (stop_text x \<or> (\<exists>xs. x = JList xs \<and> length xs \<le> 16 \<and> list_all stop_text xs))"
  unfolding api_v1_normalise_stop_option_def API_V1_MAX_STOP_SEQUENCES_def by (cases x) (simp_all split: if_splits)

lemma option_normalised:
  assumes "normalise_option v k x = Some y" "k \<in> set supported_options" "k \<noteq> ''stream''"
  shows "option_ok k y \<and> normalise_option v k y = Some y"
proof -
  have "k = ''frequency_penalty'' \<or> k = ''max_tokens'' \<or> k = ''presence_penalty'' \<or> k = ''seed'' \<or> k = ''stop''
      \<or> k = ''temperature'' \<or> k = ''top_p''"
    using assms(2,3) by (simp add: supported_options_def)
  then show ?thesis
  proof (elim disjE, goal_cases frequency tokens presence seed stop temperature top)
  case frequency
  with assms(1) show ?case
    by (auto simp: normalise_option_def option_ok_def number_stable dest!: normalised_number)
  next
  case tokens
  with assms(1) show ?case
    by (auto simp: normalise_option_def option_ok_def API_V1_MAX_TOKENS_LIMIT_def dest!: normalised_integer)
      (simp add: normalise_integer_def)
  next
  case presence
  with assms(1) show ?case
    by (auto simp: normalise_option_def option_ok_def number_stable dest!: normalised_number)
  next
  case seed
  with assms(1) show ?case
    by (auto simp: normalise_option_def option_ok_def API_V1_MAX_SEED_def dest!: normalised_integer)
      (simp add: normalise_integer_def)
  next
  case stop
  with assms(1) show ?case
    by (auto simp: normalise_option_def option_ok_def dest: normalised_stop)
  next
  case temperature
  with assms(1) show ?case
    by (auto simp: normalise_option_def option_ok_def number_stable dest!: normalised_number)
  next
  case top
  with assms(1) show ?case
    by (auto simp: normalise_option_def option_ok_def number_stable dest!: normalised_number)
  qed
qed

lemma options_normalised:
  assumes "normalise_options v options = Inr r" "fst ` set options \<subseteq> set supported_options"
  shows "list_all (\<lambda>(k, x). option_ok k x) r \<and> normalise_options v r = Inr r
     \<and> map fst r = filter (\<lambda>k. k \<noteq> ''stream'') (map fst options)"
  using assms
proof (induction options arbitrary: r)
  case (Cons kx options)
  obtain k x where kx: "kx = (k, x)" by (cases kx)
  show ?case
  proof (cases "k = ''stream''")
    case True
    with Cons kx show ?thesis by (auto split: if_splits)
  next
    case False
    with Cons.prems kx obtain y q where y: "normalise_option v k x = Some y" "normalise_options v options = Inr q" "r = (k, y) # q"
      by (auto simp: ebind_Inr split: option.splits)
    with Cons.IH [of q] Cons.prems option_normalised [OF y(1)] False kx show ?thesis by simp
  qed
qed simp

lemma sorted_empty: "filter P (sort xs) = [] \<longleftrightarrow> list_all (\<lambda>x. \<not> P x) xs" for xs :: "string list"
  by (auto simp: filter_empty_conv list_all_iff)

lemma options_accepted:
  assumes "api_v1_validate_and_normalise_options v options = Inr r"
  shows "fst ` set options \<subseteq> set supported_options" "normalise_options v options = Inr r"
  using assms by (auto simp: api_v1_validate_and_normalise_options_def Let_def sorted_empty list_all_iff split: if_splits)

lemma supported_accepted:
  assumes "fst ` set options \<subseteq> set supported_options"
  shows "api_v1_validate_and_normalise_options v options = normalise_options v options"
proof -
  have "k \<notin> set intentionally_unsupported_options" if "k \<in> set supported_options" for k
    using that by (auto simp: supported_options_def intentionally_unsupported_options_def)
  with assms show ?thesis
    by (auto simp: api_v1_validate_and_normalise_options_def Let_def sorted_empty list_all_iff)
qed

end
