(* ===== verification/Node_Reasoning.thy ===== *)
theory Node_Reasoning
  imports Node_Chat
begin

text \<open>
  A node never lets out the reasoning of a model that must not show it: no tag in the content, no reasoning
  field anywhere in the message.
\<close>

section \<open>Tags\<close>

lemma skip_text_append: "skip_text w s = Some t \<Longrightarrow> skip_text w (s @ r) = Some (t @ r)"
  by (induction w s rule: skip_text.induct) (auto split: if_splits)

lemma skip_text_nonempty: "skip_text (w # ws) s = Some t \<Longrightarrow> s \<noteq> []"
  by (cases s) auto

lemma skip_space_append: "skip_space s \<noteq> [] \<Longrightarrow> skip_space (s @ r) = skip_space s @ r"
  unfolding skip_space_def by (induction s) auto

lemma word_ends_append: "word_ends t \<Longrightarrow> word_ends r \<Longrightarrow> word_ends (t @ r)"
  by (cases t) (auto simp: word_ends_def)

lemma tag_at_append:
  assumes "think_tag_at p" "word_ends r"
  shows "think_tag_at (p @ r)"
proof -
  obtain a where a: "skip_text ''<'' p = Some a" using assms(1) by (auto simp: think_tag_at_def split: option.splits)
  show ?thesis
  proof (cases "skip_text ''/'' (skip_space a)")
    case None
    then obtain u where u: "skip_text ''think'' (skip_space a) = Some u" "word_ends u"
      using assms(1) a by (auto simp: think_tag_at_def Let_def split: option.splits)
    then obtain c cs where cs: "skip_space a = c # cs" using skip_text_nonempty by (cases "skip_space a") auto
    then have "skip_text ''/'' (skip_space a @ r) = None" using None by (simp split: if_splits)
    moreover have "skip_space (a @ r) = skip_space a @ r" using cs skip_space_append by simp
    ultimately show ?thesis
      using a u assms(2) by (simp add: think_tag_at_def skip_text_append word_ends_append)
  next
    case (Some t)
    then obtain u where u: "skip_text ''think'' (skip_space t) = Some u" "word_ends u"
      using assms(1) a by (auto simp: think_tag_at_def Let_def split: option.splits)
    have "skip_space a \<noteq> []" "skip_space t \<noteq> []"
      using Some u(1) skip_text_nonempty by blast+
    then show ?thesis
      using a Some u assms(2) by (simp add: think_tag_at_def skip_text_append skip_space_append word_ends_append)
  qed
qed

lemma tag_append: "has_think_tag p \<Longrightarrow> word_ends r \<Longrightarrow> has_think_tag (p @ r)"
  by (induction p) (use tag_at_append in \<open>fastforce+\<close>)

lemma tag_not_space: "has_think_tag s \<Longrightarrow> \<exists>c \<in> set s. \<not> is_space c"
proof (induction s)
  case (Cons c cs)
  have "\<not> is_space c" if "think_tag_at (c # cs)"
  proof -
    have "lower_char c = CHR ''<''" using that by (auto simp: think_tag_at_def split: if_splits)
    then have "is_space c = is_space (CHR ''<'')" using is_space_lower [of c] by simp
    then show ?thesis by (simp add: is_space_def char_code_def)
  qed
  with Cons show ?case by auto
qed simp

lemma blank_no_tag: "py_strip s = [] \<Longrightarrow> \<not> has_think_tag s"
proof
  assume blank: "py_strip s = []" and "has_think_tag s"
  then obtain c where "c \<in> set s" "\<not> is_space c" using tag_not_space by blast
  then have "dropWhile is_space s \<noteq> []" "dropWhile is_space (rev (dropWhile is_space s)) \<noteq> []"
    using dropWhile_eq_Nil_conv hd_dropWhile hd_in_set by (metis, metis set_rev)
  with blank show False by (simp add: py_strip_def)
qed

section \<open>Content\<close>

lemma space_not_word: "is_space c \<Longrightarrow> \<not> is_word_char c"
  by (auto simp: is_space_def is_word_char_def Let_def)

lemma end_marker_prefix: "\<exists>r. s = strip_end_marker s @ r \<and> word_ends r"
proof (cases "ends_with s im_end")
  case True
  define q where "q = take (length s - length im_end) s"
  define rest where "rest = rev (takeWhile is_space (rev q))"
  have "q = strip_end_marker s @ rest"
    using True by (simp add: strip_end_marker_def q_def [symmetric] rest_def rev_append [symmetric])
  moreover have "s = q @ im_end"
    using True append_take_drop_id [of "length s - length im_end" s] by (simp add: ends_with_def q_def)
  moreover have "word_ends (rest @ im_end)"
  proof (cases rest)
    case Nil
    then show ?thesis by (simp add: word_ends_def im_end_def is_word_char_def char_code_def Let_def)
  next
    case (Cons c cs)
    then have "c \<in> set (takeWhile is_space (rev q))" by (metis list.set_intros(1) rest_def set_rev)
    then have "is_space c" by (rule set_takeWhileD [THEN conjunct2])
    with Cons show ?thesis by (simp add: word_ends_def space_not_word)
  qed
  ultimately show ?thesis by (intro exI [of _ "rest @ im_end"]) simp
qed (simp add: strip_end_marker_def word_ends_def)

lemma cleaned_content:
  assumes "api_v1_normalize_qwen_non_thinking_content profile v = Inr c" "api_v1_qwen_non_thinking_required profile"
  shows "c \<noteq> [] \<and> \<not> has_think_tag c"
proof (cases v)
  case (JStr s)
  define cleaned where "cleaned = py_strip (fst (strip_wrappers (skip_space s)))"
  have c: "\<not> has_think_tag cleaned" "c = strip_end_marker cleaned" "c \<noteq> []"
    using assms JStr
    by (auto simp: api_v1_normalize_qwen_non_thinking_content_def cleaned_def Let_def split: if_splits prod.splits)
  moreover obtain r where "cleaned = c @ r" "word_ends r" using end_marker_prefix [of cleaned] c(2) by blast
  ultimately show ?thesis using tag_append by metis
qed (use assms in \<open>simp_all add: api_v1_normalize_qwen_non_thinking_content_def\<close>)

section \<open>Fields\<close>

lemma reasoning_member: "\<not> reasoning_field (JDict d) \<Longrightarrow> \<not> reasoning_field (jget d k)"
proof (cases "dget d k")
  case (Some v)
  assume "\<not> reasoning_field (JDict d)"
  then have "\<forall>kv \<in> set d. \<not> reasoning_field (snd kv)" by simp
  then have "\<not> reasoning_field (snd (k, v))" using map_of_SomeD [OF Some] by blast
  with Some show ?thesis by (simp add: jget_def)
qed (simp add: jget_def)

lemma reasoning_dset:
  "\<not> reasoning_field (JDict d) \<Longrightarrow> k \<notin> {''reasoning_content'', ''reasoning''}
     \<Longrightarrow> \<not> reasoning_field (JDict (dset k (JStr s) d))"
  by (induction d) auto

lemma reasoning_plain: "\<not> reasoning_field (JDict [(''role'', JStr r), (''content'', JStr c)])"
  by simp

declare reasoning_field.simps(1) [simp del]

lemma choice_message:
  assumes "message_of_choice choice = Some m" "\<not> reasoning_field (JDict choice)"
  shows "\<not> reasoning_field (JDict m)"
proof -
  have valid: "valid_api_v1_assistant_message raw = Some m' \<Longrightarrow> raw = JDict m'" for raw m'
    by (cases raw) (auto simp: valid_api_v1_assistant_message_def split: if_splits)
  define raw where "raw = (case jget choice ''message'' of
      JDict m \<Rightarrow> JDict (if \<not> dmem ''role'' m \<and> dmem ''content'' m then dset ''role'' (JStr ''assistant'') m else m) | v \<Rightarrow> v)"
  have raw: "\<not> reasoning_field raw"
    using reasoning_member [OF assms(2), of "''message''"] reasoning_dset
    by (cases "jget choice ''message''") (auto simp: raw_def)
  show ?thesis
  proof (cases "valid_api_v1_assistant_message raw")
    case (Some m')
    with assms(1) have "m' = m" by (simp add: message_of_choice_def raw_def [symmetric])
    with valid [OF Some] raw show ?thesis by simp
  next
    case None
    with assms(1) show ?thesis
      by (cases "jget choice ''text''") (auto simp: message_of_choice_def raw_def [symmetric] reasoning_plain split: if_splits)
  qed
qed

lemma cleaned_message:
  assumes "clean_message profile m = Inr m'" "api_v1_qwen_non_thinking_required profile" "\<not> reasoning_field (JDict m)"
  shows "\<not> reasoning_field (JDict m') \<and> (\<forall>c. jget m' ''content'' = JStr c \<longrightarrow> \<not> has_think_tag c)"
proof (cases "\<exists>s. jget m ''content'' = JStr s \<and> py_strip s \<noteq> []")
  case True
  then obtain s c where "api_v1_normalize_qwen_non_thinking_content profile (JStr s) = Inr c" "m' = dset ''content'' (JStr c) m"
    using assms(1) by (auto simp: clean_message_def ebind_Inr)
  with cleaned_content [OF this(1) assms(2)] reasoning_dset [OF assms(3)] show ?thesis
    by (simp add: jget_def update_conv')
next
  case False
  then have "m' = m" using assms(1) by (cases "jget m ''content''") (auto simp: clean_message_def split: if_splits)
  with False assms(3) blank_no_tag show ?thesis by auto
qed

lemma assistant_message_clean:
  assumes "assistant_message_from_runtime_completion profile completion = Inr m" "api_v1_qwen_non_thinking_required profile"
  shows "\<not> reasoning_field (JDict m) \<and> (\<forall>c. jget m ''content'' = JStr c \<longrightarrow> \<not> has_think_tag c)"
proof (cases completion)
  case (JDict d)
  obtain choice rest where choices: "jget d ''choices'' = JList (JDict choice # rest)"
    and run: "\<not> reasoning_field completion" "(case message_of_choice choice of None \<Rightarrow> Inl ''unsupported_completion_shape''
        | Some m \<Rightarrow> clean_message profile m) = Inr m"
  proof (cases "jget d ''choices''")
    case (JList vs)
    show thesis
    proof (cases vs)
      case (Cons v rest)
      with JDict JList assms that show thesis
        by (cases v) (auto simp: assistant_message_from_runtime_completion_def api_v1_qwen_reasoning_content_leaked_def split: if_splits)
    qed (use JDict JList assms in \<open>simp add: assistant_message_from_runtime_completion_def\<close>)
  qed (use JDict assms in \<open>simp_all add: assistant_message_from_runtime_completion_def\<close>)
  have "\<not> reasoning_field (JDict choice)" using reasoning_member [of d "''choices''"] run(1) choices JDict by simp
  with run(2) cleaned_message [OF _ assms(2)] choice_message show ?thesis by (auto split: option.splits)
next
  case (JStr s)
  with assms cleaned_content [OF _ assms(2)] show ?thesis
    by (auto simp: assistant_message_from_runtime_completion_def ebind_Inr reasoning_plain split: if_splits)
qed (use assms in \<open>simp_all add: assistant_message_from_runtime_completion_def\<close>)

end
