(* ===== verification/Node_Posts.thy ===== *)
theory Node_Posts
  imports Node_Replies Provider_Runs
begin

text \<open>
  The posts of one processed request: at most one, sealed for the client of the request, and none from a
  node that is stopping.
\<close>

section \<open>Actions without a post\<close>

definition quiet :: "'w node_state \<Rightarrow> 'w node_state \<Rightarrow> bool" where
  "quiet s t \<longleftrightarrow> nd_log t = nd_log s \<and> nd_mutations t = nd_mutations s"

lemma quiet_refl [simp]: "quiet s s"
  by (simp add: quiet_def)

lemma quiet_trans: "quiet s t \<Longrightarrow> quiet t u \<Longrightarrow> quiet s u"
  by (simp add: quiet_def)

lemma quiet_observe: "observe f s = (r, t) \<Longrightarrow> quiet s t \<and> (\<exists>x. r = Inr x)"
  by (auto simp: observe_def quiet_def split: prod.splits)

lemma quiet_attempt: "attempt f s = (r, t) \<Longrightarrow> quiet s t"
  by (auto simp: attempt_def quiet_def split: prod.splits)

lemma quiet_notify: "quiet s (notify_worker W e s)"
  by (simp add: notify_worker_def quiet_def)

lemma quiet_late: "late_now W d s = (r, t) \<Longrightarrow> quiet s t \<and> (\<exists>x. r = Inr x)"
  by (auto simp: late_now_def sbind_def observe_def quiet_def ret_def split: option.splits prod.splits)

lemma lifted [simp]: "lift r s = (r, s)"
  by (simp add: lift_def)

lemma returned [simp]: "ret x s = (Inr x, s)"
  by (simp add: ret_def)

section \<open>One post\<close>

text \<open>
  A post that only shows the client's key, the request and ciphertext for the client: of an API v1 response, of
  a chat, or of a chunk of a stream.
\<close>

definition sealed_post :: "node_setup \<Rightarrow> string \<Rightarrow> relay_post \<Rightarrow> bool" where
  "sealed_post N client p \<longleftrightarrow>
     (\<exists>plain encrypted. ns_encrypt N plain client = Inr encrypted
        \<and> ((\<exists>envelope i. plain = JDict (bound_response client envelope) \<and> dget envelope ''request_id'' = Some i
              \<and> p = response_post N client i encrypted)
           \<or> rp_body p = fold (\<lambda>(k, v). dset k v) encrypted [(''client_public_key'', JStr client)]
           \<or> (\<exists>session. rp_body p = [(''session_id'', JStr session),
                (''chunk'', JDict (fold (\<lambda>(k, v). dset k v) encrypted [(''client_public_key'', JStr client)])), (''final'', JBool True)])))"

text \<open>At most one post; \<open>ok\<close> tells whether the result counts it as accepted.\<close>

definition posts_once :: "node_setup \<Rightarrow> string \<Rightarrow> bool \<Rightarrow> 'w node_state \<Rightarrow> 'w node_state \<Rightarrow> bool" where
  "posts_once N client ok s t \<longleftrightarrow>
     nd_mutations t = nd_mutations s
     \<and> (nd_log t = nd_log s \<and> \<not> ok
        \<or> (\<exists>p reply. nd_log t = nd_log s @ [(p, reply)] \<and> sealed_post N client p \<and> (ok \<longrightarrow> (\<exists>body. reply = Posted 200 body))))"

lemma quiet_posts: "quiet s t \<Longrightarrow> posts_once N client False s t"
  by (simp add: quiet_def posts_once_def)

lemma posts_weaken: "posts_once N client ok s t \<Longrightarrow> (ok' \<Longrightarrow> ok) \<Longrightarrow> \<not> ok' \<or> ok \<Longrightarrow> posts_once N client ok' s t"
  by (auto simp: posts_once_def)

lemma posts_after: "quiet s t \<Longrightarrow> posts_once N client ok t u \<Longrightarrow> posts_once N client ok s u"
  by (simp add: quiet_def posts_once_def)

lemma posts_before: "posts_once N client ok s t \<Longrightarrow> quiet t u \<Longrightarrow> posts_once N client ok s u"
  by (simp add: quiet_def posts_once_def)

lemma run_post:
  "post_to_relay W p s = (r, t) \<Longrightarrow>
     nd_mutations t = nd_mutations s
     \<and> (\<exists>reply. nd_log t = nd_log s @ [(p, reply)] \<and> (\<forall>status body. r = Inr (status, body) \<longrightarrow> reply = Posted status body))"
  by (auto simp: post_to_relay_def Let_def split: prod.splits post_reply.splits)

lemma submit_posts:
  assumes "submit_response N W envelope client watch deadline s = (r, t)"
  shows "posts_once N client (\<exists>x. r = Inr x \<and> po_submitted x) s t \<and> (\<forall>x. r = Inr x \<and> po_suppressed x \<longrightarrow> \<not> po_submitted x \<and> quiet s t)"
proof (cases "ns_encrypt N (JDict (bound_response client envelope)) client")
  case (Inl e)
  with assms show ?thesis by (auto simp: submit_response_def sbind_def intro: quiet_posts [OF quiet_refl])
next
  case (Inr encrypted)
  note enc = Inr
  show ?thesis
  proof (cases "dget envelope ''request_id''")
    case None
    with enc assms show ?thesis by (auto simp: submit_response_def sbind_def intro: quiet_posts [OF quiet_refl])
  next
    case (Some i)
    let ?p = "response_post N client i encrypted"
    have sealed: "sealed_post N client ?p"
      unfolding sealed_post_def using enc Some by (intro exI [of _ "JDict (bound_response client envelope)"] exI [of _ encrypted]) auto
    have run: "sbind (observe (nw_flags W)) (\<lambda>fl. sbind (late_now W deadline) (\<lambda>late.
       if fl_stopped fl then ret (suppressed ''operator_stop'')
       else if late then ret (suppressed ''local_deadline'')
       else if watch \<and> fl_cancelled fl then ret (suppressed ''request_cancelled'')
       else sbind (post_to_relay W ?p) (\<lambda>(status, _).
           ret \<lparr>po_submitted = (status = 200), po_suppressed = False, po_transport_failed = False, po_suppressed_code = None\<rparr>))) s = (r, t)"
      using assms enc Some by (simp add: submit_response_def sbind_def [of "lift _"])
    obtain fl u where u: "observe (nw_flags W) s = (Inr fl, u)" "quiet s u"
      using quiet_observe [of "nw_flags W" s] by (metis surj_pair)
    obtain late w where w: "late_now W deadline u = (Inr late, w)" "quiet u w"
      using quiet_late [of W deadline u] by (metis surj_pair)
    have "quiet s w" using u(2) w(2) by (rule quiet_trans)
    show ?thesis
    proof (cases "fl_stopped fl \<or> late \<or> watch \<and> fl_cancelled fl")
      case True
      then have "(r, t) = (Inr (suppressed (if fl_stopped fl then ''operator_stop'' else if late then ''local_deadline''
          else ''request_cancelled'')), w)"
        using run u(1) w(1) by (auto simp: sbind_def split: if_splits)
      with quiet_posts [OF \<open>quiet s w\<close>] \<open>quiet s w\<close> show ?thesis by (simp add: suppressed_def)
    next
      case False
      then have "sbind (post_to_relay W ?p) (\<lambda>(status, _).
           ret \<lparr>po_submitted = (status = 200), po_suppressed = False, po_transport_failed = False, po_suppressed_code = None\<rparr>) w = (r, t)"
        using run u(1) w(1) by (auto simp: sbind_def [of "observe _"] sbind_def [of "late_now _ _"] if_app split: if_splits)
      then show ?thesis
      proof (rule sbind_cases, goal_cases raised posted)
        case (raised e)
        with run_post [OF raised(1)] sealed \<open>quiet s w\<close> show ?case by (auto simp: posts_once_def quiet_def)
      next
        case (posted x v)
        with run_post [OF posted(1)] sealed \<open>quiet s w\<close> show ?case by (auto simp: posts_once_def quiet_def split: prod.splits)
      qed
    qed
  qed
qed

lemma post_posts:
  assumes "post_api_v1_response N W envelope client watch deadline s = (r, t)"
  shows "\<exists>x. r = Inr x \<and> posts_once N client (po_submitted x) s t \<and> (po_suppressed x \<longrightarrow> \<not> po_submitted x \<and> quiet s t)"
proof -
  obtain fl u where u: "observe (nw_flags W) s = (Inr fl, u)" "quiet s u"
    using quiet_observe [of "nw_flags W" s] by (metis surj_pair)
  show ?thesis
  proof (cases "fl_latched fl")
    case True
    with assms u have "r = Inr (suppressed ''shutdown_requested'')" "t = u"
      by (auto simp: post_api_v1_response_def begin_mutation_def sbind_def)
    with u(2) quiet_posts show ?thesis by (auto simp: suppressed_def)
  next
    case False
    define v where "v = u\<lparr>nd_mutations := nd_mutations u + 1\<rparr>"
    obtain q w where w: "submit_response N W envelope client watch deadline v = (q, w)" by fastforce
    then have rt: "t = end_mutation w"
      "r = (case q of Inl _ \<Rightarrow> Inr \<lparr>po_submitted = False, po_suppressed = False, po_transport_failed = True, po_suppressed_code = None\<rparr>
              | Inr x \<Rightarrow> Inr x)"
      using assms u(1) False
      by (auto simp: post_api_v1_response_def begin_mutation_def sbind_def finally_do_def v_def split: sum.splits)
    from submit_posts [OF w] u(2) rt show ?thesis
      by (cases q) (auto simp: posts_once_def quiet_def v_def end_mutation_def)
  qed
qed

section \<open>Processing\<close>

text \<open>What processing leaves, whether it returns or raises.\<close>

definition settles :: "node_setup \<Rightarrow> string \<Rightarrow> ('w, processing_result) node_act \<Rightarrow> bool" where
  "settles N client act \<longleftrightarrow> (\<forall>s r t. act s = (r, t) \<longrightarrow> posts_once N client (\<exists>x. r = Inr x \<and> pr_submitted x) s t)"

lemma settlesD: "settles N client act \<Longrightarrow> act s = (r, t) \<Longrightarrow> posts_once N client (\<exists>x. r = Inr x \<and> pr_submitted x) s t"
  by (simp add: settles_def)

lemma settles_ret: "\<not> pr_submitted x \<Longrightarrow> settles N client (ret x)"
  by (auto simp: settles_def intro: quiet_posts [OF quiet_refl])

lemma settles_lift: "(\<And>x. r = Inr x \<Longrightarrow> settles N client (f x)) \<Longrightarrow> settles N client (sbind (lift r) f)"
  by (cases r) (auto simp: settles_def sbind_def intro: quiet_posts [OF quiet_refl])

lemma settles_bind:
  assumes "\<And>s r t. m s = (r, t) \<Longrightarrow> quiet s t" "\<And>x. settles N client (f x)"
  shows "settles N client (sbind m f)"
  unfolding settles_def
proof (intro allI impI)
  fix s r t assume "sbind m f s = (r, t)"
  then show "posts_once N client (\<exists>x. r = Inr x \<and> pr_submitted x) s t"
  proof (rule sbind_cases, goal_cases raised went_on)
    case (raised e)
    with quiet_posts [OF assms(1) [OF raised(1)]] show ?case by simp
  next
    case (went_on x u)
    from posts_after [OF assms(1) [OF went_on(1)] settlesD [OF assms(2) went_on(2)]] show ?case .
  qed
qed

lemma settles_observe: "(\<And>x. settles N client (f x)) \<Longrightarrow> settles N client (sbind (observe g) f)"
  by (rule settles_bind) (use quiet_observe in blast)

lemma settles_late: "(\<And>x. settles N client (f x)) \<Longrightarrow> settles N client (sbind (late_now W d) f)"
  by (rule settles_bind) (use quiet_late in blast)

lemma settles_attempt: "(\<And>x. settles N client (f x)) \<Longrightarrow> settles N client (sbind (attempt g) f)"
  by (rule settles_bind) (use quiet_attempt in blast)

lemma settles_answer: "settles N client (answer_request N W client deadline outcome envelope)"
proof -
  have "settles N client (sbind (post_api_v1_response N W envelope client True (Some deadline)) (\<lambda>posted.
      if po_suppressed posted then ret (refused_result (c posted) well outcome)
      else sbind (if po_submitted posted then ret False
             else sbind (observe (nw_flags W)) (\<lambda>fl. ret (fl_latched fl \<or> fl_stopped fl))) (\<lambda>stopped.
           if stopped then ret (refused_result (JStr ''shutdown_requested'') True outcome)
           else ret \<lparr>pr_inference_succeeded = (code = JNull \<and> po_submitted posted), pr_submitted = po_submitted posted,
                  pr_safe_error_code = code, pr_runtime_healthy = well, pr_recovery_attempted = so_recovery_attempted outcome,
                  pr_recovery_succeeded = so_recovery_succeeded outcome, pr_submission_allowed = True\<rparr>)))" for c well code
    unfolding settles_def
  proof (intro allI impI, erule sbind_cases, goal_cases raised posted)
    case (raised s r t e)
    then show ?case using post_posts [OF raised(1)] by simp
  next
    case (posted s r t x u)
    then have x: "posts_once N client (po_submitted x) s u" "po_suppressed x \<longrightarrow> \<not> po_submitted x \<and> quiet s u"
      using post_posts [OF posted(1)] by auto
    show ?case
    proof (cases "po_suppressed x \<or> po_submitted x")
      case True
      with posted(2) x show ?thesis by (auto simp: refused_result_def sbind_def intro: quiet_posts)
    next
      case False
      obtain fl v where v: "observe (nw_flags W) u = (Inr fl, v)" "quiet u v"
        using quiet_observe [of "nw_flags W" u] by (metis surj_pair)
      with False posted(2) have "t = v" "\<not> (\<exists>y. r = Inr y \<and> pr_submitted y)"
        by (auto simp: sbind_def refused_result_def if_app split: if_splits)
      then have no: "(\<exists>y. r = Inr y \<and> pr_submitted y) = False" by simp
      show ?thesis unfolding no \<open>t = v\<close> using posts_before [OF x(1) v(2)] False by simp
    qed
  qed
  then show ?thesis unfolding answer_request_def Let_def
    by (intro settles_lift settles_observe settles_late) (simp add: settles_ret refused_result_def)
qed

lemma settles_finally: "settles N client act \<Longrightarrow> (\<And>s. quiet s (f s)) \<Longrightarrow> settles N client (finally_do f act)"
  unfolding settles_def finally_do_def using posts_before by (metis (no_types, lifting) case_prod_conv prod.inject surj_pair)

lemma quiet_supervised:
  "finally_do (if ns_progress_supported N then notify_worker W StopProgress else id) (attempt (nw_supervise W q deadline)) s = (r, t)
     \<Longrightarrow> quiet s t"
  using quiet_attempt [of "nw_supervise W q deadline" s] quiet_notify quiet_trans
  by (fastforce simp: finally_do_def split: prod.splits if_splits)

lemma quiet_started:
  "quiet s (if ns_progress_supported N then notify_worker W StartProgress
      (if ns_registered N then notify_worker W StartHeartbeat s else s) else
      (if ns_registered N then notify_worker W StartHeartbeat s else s))"
  by (simp add: quiet_def notify_worker_def)

lemma settles_api_v1: "settles N client (process_api_v1 N W client deadline q)"
proof -
  have inner: "settles N client (sbind (finally_do (if ns_progress_supported N then notify_worker W StopProgress else id)
      (attempt (nw_supervise W q deadline))) (\<lambda>outcome. case so_response_envelope outcome of
        None \<Rightarrow> ret \<lparr>pr_inference_succeeded = False, pr_submitted = False, pr_safe_error_code = c outcome,
             pr_runtime_healthy = so_runtime_healthy outcome, pr_recovery_attempted = so_recovery_attempted outcome,
             pr_recovery_succeeded = so_recovery_succeeded outcome, pr_submission_allowed = so_submission_allowed outcome\<rparr>
      | Some envelope \<Rightarrow> answer_request N W client deadline outcome envelope))" for c
    by (rule settles_bind [OF quiet_supervised]) (auto split: option.split intro: settles_answer settles_ret)
  show ?thesis unfolding process_api_v1_def Let_def
  proof (rule settles_finally [OF _ quiet_notify], unfold settles_def, intro allI impI, goal_cases run)
    case (run s r t)
    show ?case by (rule posts_after [OF quiet_started settlesD [OF inner run]])
  qed
qed

lemma settles_post:
  assumes "sealed_post N client p" "\<And>status body. pr_submitted (f status body) \<Longrightarrow> status = 200"
  shows "settles N client (sbind (post_to_relay W p) (\<lambda>(status, body). ret (f status body)))"
  unfolding settles_def
proof (intro allI impI, erule sbind_cases, goal_cases raised posted)
  case (raised s r t e)
  with run_post [OF raised(1)] assms(1) show ?case by (auto simp: posts_once_def)
next
  case (posted s r t x u)
  with run_post [OF posted(1)] assms show ?case by (cases x) (auto simp: posts_once_def)
qed

lemma failed_not_submitted [simp]: "\<not> pr_submitted (submission_failed code well)"
  by (simp add: submission_failed_def)

lemma settles_failed: "settles N client (ret (submission_failed code well))"
  by (rule settles_ret) simp

definition legacy_payload :: "string \<Rightarrow> object \<Rightarrow> object" where
  "legacy_payload client encrypted = fold (\<lambda>(k, v). dset k v) encrypted [(''client_public_key'', JStr client)]"

lemma settles_source:
  assumes "ns_encrypt N response client = Inr encrypted"
  shows "settles N client (submit_source N W (legacy_payload client encrypted))"
proof -
  have sealed: "sealed_post N client (legacy_post N ''/source'' (legacy_payload client encrypted))"
    unfolding sealed_post_def
    by (rule exI [of _ response], rule exI [of _ encrypted]) (simp add: assms legacy_post_def legacy_payload_def)
  have "settles N client (sbind (post_to_relay W (legacy_post N ''/source'' (legacy_payload client encrypted)))
      (\<lambda>(status, body). ret (if status \<noteq> 200 then submission_failed ''response_submission_failed'' True
          else if py_strip body = [] then submission_failed ''empty_relay_response'' True else processed)))"
    by (rule settles_post [OF sealed]) (simp split: if_splits)
  then show ?thesis unfolding submit_source_def by (simp only: settles_failed if_split simp_thms)
qed

lemma settles_stream:
  assumes "ns_encrypt N response client = Inr encrypted"
  shows "settles N client (submit_stream N W session (legacy_payload client encrypted))"
proof -
  have sealed: "sealed_post N client (legacy_post N ''/stream/source'' [(''session_id'', JStr session),
      (''chunk'', JDict (legacy_payload client encrypted)), (''final'', JBool True)])"
    unfolding sealed_post_def
    by (rule exI [of _ response], rule exI [of _ encrypted]) (simp add: assms legacy_post_def legacy_payload_def)
  show ?thesis unfolding submit_stream_def
    by (rule settles_post [OF sealed]) (simp split: if_splits)
qed

lemma settles_legacy: "settles N client (process_legacy N W data client history)"
  unfolding process_legacy_def Let_def legacy_payload_def [symmetric]
proof (intro settles_attempt settles_lift, goal_cases sent)
  case (sent response encrypted)
  then have "ns_encrypt N response client = Inr encrypted" by (cases "ns_encrypt N response client") auto
  with settles_source settles_stream show ?case by (cases "jget data ''stream_session_id''") auto
qed

text \<open>A payload posts nothing unless it names a client, and then only for that client.\<close>

lemma settles_decrypted: "settles N client (process_decrypted N W data client deadline plain)"
  unfolding process_decrypted_def
proof (rule settles_lift)
  fix request
  show "settles N client (case request of Some q \<Rightarrow> process_api_v1 N W client deadline q
      | None \<Rightarrow> (case extract_chat_history_and_validate_key_binding plain client of
           None \<Rightarrow> ret (submission_failed ''invalid_relay_payload'' True)
         | Some history \<Rightarrow> process_legacy N W data client history))"
    by (simp add: settles_failed settles_api_v1 settles_legacy split: option.split)
qed

lemma settles_payload:
  assumes "dget data ''client_public_key'' = Some key" "normalize_client_public_key_b64 key = Some client"
  shows "settles N client (process_payload N W data deadline)"
proof -
  have "settles N client (sbind (lift (map_sum Raised id (ns_decrypt N data))) (\<lambda>plain. case plain of
      None \<Rightarrow> ret (submission_failed ''decrypt_failed'' True)
    | Some p \<Rightarrow> if p = JNull then ret (submission_failed ''decrypt_failed'' True)
        else process_decrypted N W data client deadline p))"
    by (rule settles_lift) (simp add: settles_failed settles_decrypted split: option.split)
  with assms show ?thesis unfolding process_payload_def by (simp add: settles_failed)
qed

lemma unnamed_payload:
  assumes "dget data ''client_public_key'' = None \<or> normalize_client_public_key_b64 (the (dget data ''client_public_key'')) = None"
  shows "\<exists>r. process_payload N W data deadline s = (r, s) \<and> \<not> (\<exists>x. r = Inr x \<and> pr_submitted x)"
  using assms by (auto simp: process_payload_def submission_failed_def split: option.splits)

definition client_of :: "object \<Rightarrow> string" where
  "client_of data = (case normalize_client_public_key_b64 (jget data ''client_public_key'') of Some c \<Rightarrow> c | None \<Rightarrow> [])"

lemma settles_payload_client: "settles N (client_of data) (process_payload N W data deadline)"
proof (cases "\<exists>key client. dget data ''client_public_key'' = Some key \<and> normalize_client_public_key_b64 key = Some client")
  case True
  then obtain key client where "dget data ''client_public_key'' = Some key" "normalize_client_public_key_b64 key = Some client" by blast
  with settles_payload [OF this] show ?thesis by (simp add: client_of_def jget_def)
next
  case False
  show ?thesis unfolding settles_def
  proof (intro allI impI)
    fix s r t assume "process_payload N W data deadline s = (r, t)"
    then have "t = s" "(\<exists>x. r = Inr x \<and> pr_submitted x) = False"
      using unnamed_payload [of data N W deadline s] False by (cases "dget data ''client_public_key''"; force)+
    then show "posts_once N (client_of data) (\<exists>x. r = Inr x \<and> pr_submitted x) s t" by (simp add: posts_once_def)
  qed
qed

lemma settles_request: "settles N (client_of data) (process_client_request_result N W data)"
  unfolding process_client_request_result_def
proof (intro settles_observe settles_lift, unfold settles_def, intro allI impI, goal_cases run)
  case (run now deadline s r t)
  obtain q u where q: "process_payload N W data deadline s = (q, u)" by fastforce
  have "posts_once N (client_of data) (\<exists>x. q = Inr x \<and> pr_submitted x) s u" by (rule settlesD [OF settles_payload_client q])
  with run q show ?case by (cases q) (auto simp: failure_result_def submission_failed_def split: node_failure.splits)
qed

section \<open>A stopping node\<close>

definition stopping :: "'w node_world \<Rightarrow> bool" where
  "stopping W \<longleftrightarrow> (\<forall>w. fl_latched (fst (nw_flags W w)) \<or> fl_stopped (fst (nw_flags W w)))"

text \<open>Silent actions post nothing and promise nothing.\<close>

definition silent :: "('w, processing_result) node_act \<Rightarrow> bool" where
  "silent act \<longleftrightarrow> (\<forall>s r t. act s = (r, t) \<longrightarrow> quiet s t \<and> \<not> (\<exists>x. r = Inr x \<and> pr_submitted x))"

lemma silentD: "silent act \<Longrightarrow> act s = (r, t) \<Longrightarrow> quiet s t \<and> \<not> (\<exists>x. r = Inr x \<and> pr_submitted x)"
  by (simp add: silent_def)

lemma silent_ret: "\<not> pr_submitted x \<Longrightarrow> silent (ret x)"
  by (simp add: silent_def)

lemma silent_failed: "silent (ret (submission_failed code well))"
  by (rule silent_ret) simp

lemma silent_lift: "(\<And>x. r = Inr x \<Longrightarrow> silent (f x)) \<Longrightarrow> silent (sbind (lift r) f)"
  by (cases r) (auto simp: silent_def sbind_def)

lemma silent_bind:
  assumes "\<And>s r t. m s = (r, t) \<Longrightarrow> quiet s t" "\<And>x. silent (f x)"
  shows "silent (sbind m f)"
  unfolding silent_def
proof (intro allI impI, erule sbind_cases, goal_cases raised went_on)
  case (raised s r t e)
  with assms(1) show ?case by simp
next
  case (went_on s r t x u)
  with silentD [OF assms(2) went_on(2)] quiet_trans [OF assms(1) [OF went_on(1)]] show ?case by blast
qed

lemma silent_observe: "(\<And>x. silent (f x)) \<Longrightarrow> silent (sbind (observe g) f)"
  by (rule silent_bind) (use quiet_observe in blast)

lemma silent_answer:
  assumes "stopping W"
  shows "silent (answer_request N W client deadline outcome envelope)"
  unfolding silent_def
proof (intro allI impI)
  fix s r t assume run: "answer_request N W client deadline outcome envelope s = (r, t)"
  obtain fl u where u: "observe (nw_flags W) s = (Inr fl, u)" "quiet s u"
    using quiet_observe [of "nw_flags W" s] by (metis surj_pair)
  have fl: "fl_latched fl \<or> fl_stopped fl"
    using u(1) assms by (auto simp: observe_def stopping_def split: prod.splits dest: spec [of _ "nd_world s"])
  obtain late w where w: "late_now W (Some deadline) u = (Inr late, w)" "quiet u w"
    using quiet_late [of W "Some deadline" u] by (metis surj_pair)
  have "(t = s \<or> t = w) \<and> \<not> (\<exists>x. r = Inr x \<and> pr_submitted x)"
    using run u(1) w(1) fl
    by (cases "hashable (error_code_of_envelope envelope)") (auto simp: answer_request_def Let_def sbind_def refused_result_def)
  with quiet_trans [OF u(2) w(2)] show "quiet s t \<and> \<not> (\<exists>x. r = Inr x \<and> pr_submitted x)" by auto
qed

lemma silent_finally: "silent act \<Longrightarrow> (\<And>s. quiet s (f s)) \<Longrightarrow> silent (finally_do f act)"
  unfolding silent_def finally_do_def using quiet_trans
  by (metis (no_types, lifting) case_prod_conv prod.inject surj_pair)

lemma silent_api_v1:
  assumes "stopping W"
  shows "silent (process_api_v1 N W client deadline q)"
proof -
  have "silent (sbind (finally_do (if ns_progress_supported N then notify_worker W StopProgress else id)
      (attempt (nw_supervise W q deadline))) (\<lambda>outcome. case so_response_envelope outcome of
        None \<Rightarrow> ret \<lparr>pr_inference_succeeded = False, pr_submitted = False, pr_safe_error_code = c outcome,
             pr_runtime_healthy = so_runtime_healthy outcome, pr_recovery_attempted = so_recovery_attempted outcome,
             pr_recovery_succeeded = so_recovery_succeeded outcome, pr_submission_allowed = so_submission_allowed outcome\<rparr>
      | Some envelope \<Rightarrow> answer_request N W client deadline outcome envelope))" for c
    by (rule silent_bind [OF quiet_supervised]) (auto split: option.split intro: silent_answer [OF assms] silent_ret)
  note inner = silentD [OF this]
  show ?thesis unfolding process_api_v1_def Let_def
  proof (rule silent_finally [OF _ quiet_notify], unfold silent_def, intro allI impI, goal_cases run)
    case (run s r t)
    with inner [OF run] quiet_trans [OF quiet_started] show ?case by blast
  qed
qed

text \<open>A payload that is not one of the deprecated ones.\<close>

definition not_legacy :: "node_setup \<Rightarrow> object \<Rightarrow> bool" where
  "not_legacy N data \<longleftrightarrow>
     (\<forall>plain. ns_decrypt N data = Inr (Some plain) \<longrightarrow> extract_chat_history_and_validate_key_binding plain (client_of data) = None)"

lemma silent_payload:
  assumes "stopping W" "not_legacy N data"
  shows "silent (process_payload N W data deadline)"
proof (cases "\<exists>key client. dget data ''client_public_key'' = Some key \<and> normalize_client_public_key_b64 key = Some client")
  case True
  then obtain key client where key: "dget data ''client_public_key'' = Some key" "normalize_client_public_key_b64 key = Some client" by blast
  then have client: "client_of data = client" by (simp add: client_of_def jget_def)
  have "silent (process_decrypted N W data client deadline plain)" if "ns_decrypt N data = Inr (Some plain)" for plain
    unfolding process_decrypted_def using that assms(2)
    by (intro silent_lift) (simp add: not_legacy_def client silent_failed silent_api_v1 [OF assms(1)] split: option.split)
  then have "silent (sbind (lift (map_sum Raised id (ns_decrypt N data))) (\<lambda>plain. case plain of
      None \<Rightarrow> ret (submission_failed ''decrypt_failed'' True)
    | Some p \<Rightarrow> if p = JNull then ret (submission_failed ''decrypt_failed'' True)
        else process_decrypted N W data client deadline p))"
    by (intro silent_lift, cases "ns_decrypt N data") (simp_all add: silent_failed split: option.split)
  with key show ?thesis unfolding process_payload_def by (simp add: silent_failed)
next
  case False
  then have "dget data ''client_public_key'' = None \<or> normalize_client_public_key_b64 (the (dget data ''client_public_key'')) = None"
    by (cases "dget data ''client_public_key''") auto
  from unnamed_payload [OF this] show ?thesis unfolding silent_def by (metis prod.inject quiet_refl)
qed

lemma silent_request:
  assumes "stopping W" "not_legacy N data"
  shows "silent (process_client_request_result N W data)"
  unfolding process_client_request_result_def
proof (intro silent_observe silent_lift, unfold silent_def, intro allI impI, goal_cases run)
  case (run now deadline s r t)
  obtain q u where q: "process_payload N W data deadline s = (q, u)" by fastforce
  with run silentD [OF silent_payload [OF assms] q] show ?case
    by (cases q) (auto simp: failure_result_def split: node_failure.splits)
qed

end
