(* ===== verification/Node_Answers.thy ===== *)
theory Node_Answers
  imports Node_Posts Relay_World
begin

text \<open>
  The answer of a compute node as the relay and the API read it, and the run of a request that nothing
  disturbs.
\<close>

section \<open>The answer as the others read it\<close>

definition completed_with :: "object \<Rightarrow> string option \<Rightarrow> object option \<Rightarrow> object option \<Rightarrow> completion_result" where
  "completed_with m reason usage budget =
     \<lparr>cm_message = m, cm_finish_reason = reason, cm_usage = usage, cm_output_budget = budget\<rparr>"

lemma answer_is_read:
  assumes "client = cr_public_key_b64 (di_crypto D)"
  shows "read_decrypted D (Some (JDict (bound_response client
       (api_v1_response_envelope (di_request_id D) (AnswerMessage (JDict m) reason usage budget)))))
     = Answered (completed_with m reason usage budget)"
  using assms
  by (simp add: read_decrypted_def bound_response_def api_v1_response_envelope_def completion_of_def completed_with_def
      text_field_def object_field_def split: option.split)

lemma error_is_read:
  assumes "client = cr_public_key_b64 (di_crypto D)" "e \<noteq> []"
  shows "\<exists>x. read_decrypted D (Some (JDict (bound_response client (api_v1_response_envelope (di_request_id D) (AnswerError e)))))
     = GiveUp x"
  using assms by (simp add: read_decrypted_def bound_response_def api_v1_response_envelope_def completion_of_def)

lemma source_payload_fields:
  "source_payload client i (ciphertext_object chat key v) =
     [(''client_public_key'', JStr client), (''request_id'', i), (''protocol'', JStr PROTOCOL), (''version'', JInt 1),
      (''chat_history'', JStr chat), (''cipherkey'', JStr key), (''iv'', JStr v)]"
  by (simp add: source_payload_def ciphertext_object_def)

lemma source_accepted:
  "\<exists>e. checked_envelope (JDict (source_payload client (JStr i) (ciphertext_object chat key v))) False = Inr e
     \<and> jget e ''client_public_key'' = JStr client \<and> jget e ''request_id'' = JStr i
     \<and> jget e ''chat_history'' = JStr chat \<and> jget e ''cipherkey'' = JStr key \<and> jget e ''iv'' = JStr v"
  unfolding source_payload_fields
  by (simp add: checked_envelope_def payload_has_plaintext_fields_def payload_has_unexpected_relay_fields_def
      extract_ciphertext_envelope_def dmem_def copy_field_def plaintext_fields_def relay_fields_def jget_default_def Let_def)

section \<open>A request that nothing disturbs\<close>

text \<open>No thread stops the node, the request is not cancelled, its deadline does not pass, and the relay accepts posts.\<close>

definition calm :: "'w node_world \<Rightarrow> rat \<Rightarrow> string \<Rightarrow> bool" where
  "calm W deadline body \<longleftrightarrow>
     (\<forall>w. fst (nw_flags W w) = \<lparr>fl_latched = False, fl_stopped = False, fl_cancelled = False\<rparr>
        \<and> fst (nw_time W w) < deadline \<and> (\<forall>p. fst (nw_post W p w) = Posted 200 body))"

lemma calm_flags:
  "calm W deadline body \<Longrightarrow> observe (nw_flags W) s
     = (Inr \<lparr>fl_latched = False, fl_stopped = False, fl_cancelled = False\<rparr>, s\<lparr>nd_world := snd (nw_flags W (nd_world s))\<rparr>)"
  by (simp add: calm_def observe_def Let_def case_prod_beta)

lemma calm_late:
  "calm W deadline body \<Longrightarrow> late_now W (Some (FNum deadline)) s
     = (Inr False, s\<lparr>nd_world := snd (nw_time W (nd_world s))\<rparr>)"
proof -
  assume "calm W deadline body"
  then have "fst (nw_time W (nd_world s)) < deadline" by (simp add: calm_def)
  then show ?thesis by (simp add: late_now_def sbind_def observe_def Let_def case_prod_beta)
qed

lemma calm_post:
  "calm W deadline body \<Longrightarrow> post_to_relay W p s
     = (Inr (200, body), s\<lparr>nd_world := snd (nw_post W p (nd_world s)), nd_log := nd_log s @ [(p, Posted 200 body)]\<rparr>)"
  by (simp add: calm_def post_to_relay_def Let_def case_prod_beta)

lemma calm_response:
  assumes "calm W deadline body" "ns_encrypt N (JDict (bound_response client envelope)) client = Inr encrypted"
    and "dget envelope ''request_id'' = Some i"
  shows "\<exists>t. post_api_v1_response N W envelope client watch (Some (FNum deadline)) s
       = (Inr \<lparr>po_submitted = True, po_suppressed = False, po_transport_failed = False, po_suppressed_code = None\<rparr>, t)
     \<and> nd_log t = nd_log s @ [(response_post N client i encrypted, Posted 200 body)]"
  using assms calm_flags [OF assms(1)] calm_late [OF assms(1)] calm_post [OF assms(1)]
  by (simp add: post_api_v1_response_def begin_mutation_def submit_response_def finally_do_def end_mutation_def sbind_def)

definition answered_result :: "supervisor_outcome \<Rightarrow> processing_result" where
  "answered_result outcome =
     \<lparr>pr_inference_succeeded = True, pr_submitted = True, pr_safe_error_code = JNull, pr_runtime_healthy = True,
      pr_recovery_attempted = so_recovery_attempted outcome, pr_recovery_succeeded = so_recovery_succeeded outcome,
      pr_submission_allowed = True\<rparr>"

lemma answer_has_no_error: "error_code_of_envelope (api_v1_response_envelope i (AnswerMessage m reason usage budget)) = JNull"
  by (simp add: error_code_of_envelope_def api_v1_response_envelope_def jget_default_def split: option.split)

lemma answer_request_id [simp]: "dget (api_v1_response_envelope i answer) ''request_id'' = Some (JStr i)"
  by (simp add: api_v1_response_envelope_def)

lemma calm_answer:
  assumes "calm W deadline body" and "envelope = api_v1_response_envelope i (AnswerMessage m reason usage budget)"
    and "ns_encrypt N (JDict (bound_response client envelope)) client = Inr encrypted"
  shows "\<exists>t. answer_request N W client (FNum deadline) outcome envelope s = (Inr (answered_result outcome), t)
     \<and> nd_log t = nd_log s @ [(response_post N client (JStr i) encrypted, Posted 200 body)]"
proof -
  define u where "u = s\<lparr>nd_world := snd (nw_flags W (nd_world s))\<rparr>"
  define v where "v = u\<lparr>nd_world := snd (nw_time W (nd_world u))\<rparr>"
  obtain t where t: "post_api_v1_response N W envelope client True (Some (FNum deadline)) v
       = (Inr \<lparr>po_submitted = True, po_suppressed = False, po_transport_failed = False, po_suppressed_code = None\<rparr>, t)"
    "nd_log t = nd_log v @ [(response_post N client (JStr i) encrypted, Posted 200 body)]"
    using calm_response [OF assms(1,3)] assms(2) by fastforce
  have "nd_log v = nd_log s" by (simp add: u_def v_def)
  have "answer_request N W client (FNum deadline) outcome envelope s = (Inr (answered_result outcome), t)"
    using t(1) answer_has_no_error
    by (simp add: answer_request_def Let_def sbind_def calm_flags [OF assms(1)] calm_late [OF assms(1)] u_def v_def
        assms(2) answered_result_def)
  with t(2) \<open>nd_log v = nd_log s\<close> show ?thesis by simp
qed

lemma calm_api_v1:
  assumes "calm W deadline body" and "\<And>w. fst (nw_supervise W q (FNum deadline) w) = Inr outcome"
    and "so_response_envelope outcome = Some (api_v1_response_envelope i (AnswerMessage m reason usage budget))"
    and "ns_encrypt N (JDict (bound_response client (api_v1_response_envelope i (AnswerMessage m reason usage budget)))) client = Inr encrypted"
  shows "\<exists>t. process_api_v1 N W client (FNum deadline) q s = (Inr (answered_result outcome), t)
     \<and> nd_log t = nd_log s @ [(response_post N client (JStr i) encrypted, Posted 200 body)]"
proof -
  define a where "a = (if ns_progress_supported N then notify_worker W StartProgress
      (if ns_registered N then notify_worker W StartHeartbeat s else s) else
      (if ns_registered N then notify_worker W StartHeartbeat s else s))"
  obtain b where b: "finally_do (if ns_progress_supported N then notify_worker W StopProgress else id)
      (attempt (nw_supervise W q (FNum deadline))) a = (Inr outcome, b)"
    using assms(2) [of "nd_world a"] by (cases "nw_supervise W q (FNum deadline) (nd_world a)") (auto simp: finally_do_def attempt_def)
  obtain t where t: "answer_request N W client (FNum deadline) outcome
      (api_v1_response_envelope i (AnswerMessage m reason usage budget)) b = (Inr (answered_result outcome), t)"
    "nd_log t = nd_log b @ [(response_post N client (JStr i) encrypted, Posted 200 body)]"
    using calm_answer [OF assms(1) refl assms(4)] by blast
  have "process_api_v1 N W client (FNum deadline) q s = (Inr (answered_result outcome), notify_worker W StopHeartbeat t)"
    unfolding process_api_v1_def Let_def a_def [symmetric] finally_do_def [of "notify_worker W StopHeartbeat"]
    using b t(1) by (simp add: sbind_def assms(3))
  moreover have "nd_log b = nd_log s" using quiet_supervised [OF b] quiet_started [of s N W, folded a_def] by (simp add: quiet_def)
  ultimately show ?thesis using t(2) by (simp add: notify_worker_def)
qed

lemma calm_request:
  assumes "calm W deadline body" and "\<And>w. fst (nw_supervise W q (FNum deadline) w) = Inr outcome"
    and "so_response_envelope outcome = Some (api_v1_response_envelope i (AnswerMessage m reason usage budget))"
    and "ns_encrypt N (JDict (bound_response client (api_v1_response_envelope i (AnswerMessage m reason usage budget)))) client = Inr encrypted"
    and "validate_with_fallback (ns_jsonschema N) (JDict data) MESSAGE_SCHEMA"
    and "dget data ''client_public_key'' = Some (JStr client)" "py_strip client = client" "client \<noteq> []" "b64decodes client"
    and "ns_decrypt N data = Inr (Some plain)" "plain \<noteq> JNull" "extract_api_v1_request_payload plain client = Inr (Some q)"
    and "api_v1_initial_deadline_from_metadata (ns_floats N) (ns_environ N) (fst (nw_time W (nd_world s))) data = Inr (FNum deadline)"
  shows "\<exists>t. process_client_request_result N W data s = (Inr (answered_result outcome), t)
     \<and> nd_log t = nd_log s @ [(response_post N client (JStr i) encrypted, Posted 200 body)]"
proof -
  define a where "a = s\<lparr>nd_world := snd (nw_time W (nd_world s))\<rparr>"
  have a: "observe (nw_time W) s = (Inr (fst (nw_time W (nd_world s))), a)"
    by (simp add: observe_def Let_def case_prod_beta a_def)
  obtain t where t: "process_api_v1 N W client (FNum deadline) q a = (Inr (answered_result outcome), t)"
    "nd_log t = nd_log a @ [(response_post N client (JStr i) encrypted, Posted 200 body)]"
    using calm_api_v1 [OF assms(1-4)] by blast
  have "process_payload N W data (FNum deadline) a = (Inr (answered_result outcome), t)"
    using t(1) assms(5-12)
    by (simp add: process_payload_def process_decrypted_def normalize_client_public_key_b64_def sbind_def)
  with a assms(13) have "process_client_request_result N W data s = (Inr (answered_result outcome), t)"
    by (simp add: process_client_request_result_def sbind_def)
  with t(2) show ?thesis by (simp add: a_def)
qed

end
