(* ===== verification/Node_Properties.thy ===== *)
theory Node_Properties
  imports Node_Facts Node_Reasoning Node_Answers Provider_Facts
begin

text \<open>
  The properties of a compute node's side of the relay protocol: the conversation with the API, the posts of
  one processed request, and what the node accepts and lets out.
\<close>

section \<open>A node to run\<close>

definition node_dispatch :: "relay_world dispatch" where
  "node_dispatch = run_dispatch\<lparr>di_crypto := run_crypto\<lparr>cr_public_key_b64 := ''YQ==''\<rparr>\<rparr>"

definition node_chat :: "json list" where
  "node_chat = [JDict [(''role'', JStr ''user''), (''content'', JStr ''hi'')]]"

definition node_data :: object where
  "node_data = (''client_public_key'', JStr ''YQ=='') # ciphertext_object ''Yg=='' ''Yg=='' ''Yg==''"

definition node_envelope :: object where
  "node_envelope = api_v1_response_envelope ''r'' (AnswerMessage (JDict run_message) (Some ''stop'') None None)"

definition node_outcome :: supervisor_outcome where
  "node_outcome =
     \<lparr>so_response_envelope = Some node_envelope, so_terminal_code = None, so_runtime_healthy = True,
      so_recovery_attempted = False, so_recovery_succeeded = False, so_submission_allowed = True\<rparr>"

definition test_node :: node_setup where
  "test_node =
     \<lparr>ns_environ = di_environ run_dispatch, ns_floats = exact_floats, ns_jsonschema = None,
      ns_decrypt = (\<lambda>_. Inr (Some (plaintext_envelope node_dispatch ''qwen3-8b-instruct'' node_chat []))),
      ns_encrypt = (\<lambda>_ _. Inr (ciphertext_object ''YQ=='' ''YQ=='' ''YQ=='')),
      ns_relay_url = ''http://relay'', ns_work_relay_url = None, ns_registration_token = None, ns_request_timeout = 30,
      ns_registered = True, ns_progress_supported = True\<rparr>"

text \<open>A world whose clock stands still and whose only thread may have asked the node to stop.\<close>

definition test_world :: "bool \<Rightarrow> unit node_world" where
  "test_world stopped =
     \<lparr>nw_time = (\<lambda>w. (1000, w)), nw_flags = (\<lambda>w. (\<lparr>fl_latched = False, fl_stopped = stopped, fl_cancelled = False\<rparr>, w)),
      nw_supervise = (\<lambda>_ _ w. (Inr node_outcome, w)), nw_infer = (\<lambda>_ w. (Inr (JList []), w)),
      nw_post = (\<lambda>_ w. (Posted 200 ''{}'', w)), nw_worker = (\<lambda>_ w. w)\<rparr>"

definition test_start :: "unit node_state" where
  "test_start = \<lparr>nd_world = (), nd_mutations = 0, nd_log = []\<rparr>"

lemma test_client [simp]: "cr_public_key_b64 (di_crypto node_dispatch) = ''YQ==''" "di_request_id node_dispatch = ''r''"
  by (simp_all add: node_dispatch_def run_dispatch_def)

lemma test_texts: "py_strip ''r'' \<noteq> []" "py_strip ''qwen3-8b-instruct'' \<noteq> []" "py_strip ''YQ=='' = ''YQ==''" "b64decodes ''YQ==''"
  by code_simp+

lemma test_payload:
  "validate_with_fallback (ns_jsonschema test_node) (JDict node_data) MESSAGE_SCHEMA"
  "dget node_data ''client_public_key'' = Some (JStr ''YQ=='')"
  by code_simp+

lemma test_deadline:
  "api_v1_initial_deadline_from_metadata (ns_floats test_node) (ns_environ test_node)
     (fst (nw_time (test_world stopped) (nd_world test_start))) node_data = Inr (FNum 1300)"
  by (simp add: api_v1_initial_deadline_from_metadata_def api_v1_initial_relative_seconds_def float_of_json_def node_data_def
      ciphertext_object_def test_node_def test_world_def exact_floats_def API_V1_COMPATIBILITY_REQUEST_DEADLINE_SECONDS_def)

section \<open>The conversation with the API\<close>

text \<open>C24 (roundtrip). The conversation of the API and a compute node: the envelope that the API encrypts is the request the node
  reads, with its identifier, model, messages, options and the default tier; the payload the node posts is one the
  relay accepts with its fields unchanged; and the answer the node encrypts is read by the API as that completion, by
  the API of another client never.\<close>

theorem conversation_roundtrip:
  assumes "py_strip (di_request_id D) \<noteq> []" "py_strip model \<noteq> []" and "client = cr_public_key_b64 (di_crypto D)"
    and "envelope = api_v1_response_envelope (di_request_id D) (AnswerMessage (JDict m) reason usage budget)"
  shows "extract_api_v1_request_payload (plaintext_envelope D model messages options) client
       = Inr (Some \<lparr>nq_request_id = di_request_id D, nq_model = model, nq_messages = messages, nq_options = options,
                    nq_context_tier = DEFAULT_CONTEXT_TIER\<rparr>)
     \<and> (\<exists>e. checked_envelope (JDict (source_payload client (JStr (di_request_id D)) (ciphertext_object chat key v))) False = Inr e
          \<and> jget e ''client_public_key'' = JStr client \<and> jget e ''request_id'' = JStr (di_request_id D)
          \<and> jget e ''chat_history'' = JStr chat \<and> jget e ''cipherkey'' = JStr key \<and> jget e ''iv'' = JStr v)
     \<and> read_decrypted D (Some (JDict (bound_response client envelope))) = Answered (completed_with m reason usage budget)
     \<and> (\<forall>other c. other \<noteq> client \<longrightarrow> read_decrypted D (Some (JDict (bound_response other envelope))) \<noteq> Answered c)"
proof -
  have "read_decrypted D (Some (JDict (bound_response other envelope))) \<noteq> Answered c" if "other \<noteq> client" for other c
    using that assms(3) by (auto simp: bound_response_def jget_def dict_simps dest!: decrypted_answered)
  then show ?thesis
    using envelope_is_extracted [OF assms(1,2)] source_accepted answer_is_read [OF assms(3)] assms(3,4) by simp
qed

theorem conversation_roundtrip_witness:
  "extract_api_v1_request_payload (plaintext_envelope node_dispatch ''qwen3-8b-instruct'' node_chat []) ''YQ==''
     = Inr (Some \<lparr>nq_request_id = ''r'', nq_model = ''qwen3-8b-instruct'', nq_messages = node_chat, nq_options = [],
                  nq_context_tier = DEFAULT_CONTEXT_TIER\<rparr>)
   \<and> read_decrypted node_dispatch (Some (JDict (bound_response ''YQ=='' node_envelope)))
       = Answered (completed_with run_message (Some ''stop'') None None)"
proof -
  have "py_strip (di_request_id node_dispatch) \<noteq> []" "py_strip ''qwen3-8b-instruct'' \<noteq> []"
    "''YQ=='' = cr_public_key_b64 (di_crypto node_dispatch)"
    "node_envelope = api_v1_response_envelope (di_request_id node_dispatch) (AnswerMessage (JDict run_message) (Some ''stop'') None None)"
    by (simp_all only: test_texts test_client node_envelope_def not_False_eq_True)
  from conversation_roundtrip [OF this] show ?thesis by (simp add: node_dispatch_def run_dispatch_def)
qed

text \<open>C25 (liveness). A valid request of the API that nothing disturbs (no stop, no cancellation, the deadline ahead, a relay that
  accepts the post, an inference that returns a message) is answered: one post, the ciphertext of the bound response,
  the result reports success, and the API reads the message out of it.\<close>

theorem undisturbed_request_is_answered:
  assumes world: "calm W deadline body"
    and inference: "\<And>w. fst (nw_supervise W \<lparr>nq_request_id = di_request_id D, nq_model = model, nq_messages = messages,
           nq_options = options, nq_context_tier = DEFAULT_CONTEXT_TIER\<rparr> (FNum deadline) w) = Inr outcome"
      "so_response_envelope outcome = Some (api_v1_response_envelope (di_request_id D) (AnswerMessage (JDict m) reason usage budget))"
    and crypto: "ns_decrypt N data = Inr (Some (plaintext_envelope D model messages options))"
      "ns_encrypt N (JDict (bound_response client
         (api_v1_response_envelope (di_request_id D) (AnswerMessage (JDict m) reason usage budget)))) client = Inr encrypted"
    and request: "py_strip (di_request_id D) \<noteq> []" "py_strip model \<noteq> []" "client = cr_public_key_b64 (di_crypto D)"
    and payload: "validate_with_fallback (ns_jsonschema N) (JDict data) MESSAGE_SCHEMA"
      "dget data ''client_public_key'' = Some (JStr client)" "py_strip client = client" "client \<noteq> []" "b64decodes client"
    and lifetime: "api_v1_initial_deadline_from_metadata (ns_floats N) (ns_environ N) (fst (nw_time W (nd_world s))) data
       = Inr (FNum deadline)"
  shows "\<exists>t. process_client_request_result N W data s = (Inr (answered_result outcome), t)
     \<and> nd_log t = nd_log s @ [(response_post N client (JStr (di_request_id D)) encrypted, Posted 200 body)]
     \<and> read_decrypted D (Some (JDict (bound_response client
         (api_v1_response_envelope (di_request_id D) (AnswerMessage (JDict m) reason usage budget)))))
       = Answered (completed_with m reason usage budget)"
proof -
  have "plaintext_envelope D model messages options \<noteq> JNull" by (simp add: plaintext_envelope_def)
  from calm_request [OF world inference crypto(2) payload crypto(1) this _ lifetime]
    envelope_is_extracted [OF request(1,2)] answer_is_read [OF request(3)] request(3)
  show ?thesis by simp
qed

theorem undisturbed_request_is_answered_witness:
  "\<exists>t. process_client_request_result test_node (test_world False) node_data test_start = (Inr (answered_result node_outcome), t)
     \<and> length (nd_log t) = 1"
proof -
  have "\<exists>t. process_client_request_result test_node (test_world False) node_data test_start = (Inr (answered_result node_outcome), t)
     \<and> nd_log t = nd_log test_start @ [(response_post test_node ''YQ=='' (JStr (di_request_id node_dispatch))
         (ciphertext_object ''YQ=='' ''YQ=='' ''YQ==''), Posted 200 ''{}'')]
     \<and> read_decrypted node_dispatch (Some (JDict (bound_response ''YQ=='' (api_v1_response_envelope (di_request_id node_dispatch)
         (AnswerMessage (JDict run_message) (Some ''stop'') None None))))) = Answered (completed_with run_message (Some ''stop'') None None)"
  proof (rule undisturbed_request_is_answered [where deadline = 1300 and model = "''qwen3-8b-instruct''" and messages = node_chat
        and options = "[]"], goal_cases)
    case 1 show ?case by (simp add: calm_def test_world_def)
  next
    case 2 show ?case by (simp add: test_world_def)
  next
    case 3 show ?case by (simp add: node_outcome_def node_envelope_def)
  next
    case 14 show ?case by (rule test_deadline)
  qed (simp_all only: test_client test_texts test_payload not_False_eq_True, simp_all add: test_node_def)
  then show ?thesis by (auto simp: test_start_def)
qed

section \<open>Posts\<close>



text \<open>C27 (safety). A node that is shutting down or was stopped by its operator submits no API v1 answer: whatever inference returns,
  processing posts nothing and its result is not \<open>submitted\<close>.\<close>

theorem stopping_node_stays_silent:
  assumes "stopping W" "not_legacy N data" and "process_client_request_result N W data s = (r, t)"
  shows "nd_log t = nd_log s \<and> nd_mutations t = nd_mutations s \<and> \<not> (\<exists>x. r = Inr x \<and> pr_submitted x)"
  using silentD [OF silent_request [OF assms(1,2)] assms(3)] by (simp add: quiet_def)

theorem stopping_node_stays_silent_witness:
  "\<exists>r t. process_client_request_result test_node (test_world True) node_data test_start = (r, t) \<and> nd_log t = []"
proof -
  have "stopping (test_world True)" by (simp add: stopping_def test_world_def)
  moreover have "not_legacy test_node node_data"
    by (simp add: not_legacy_def test_node_def plaintext_envelope_def extract_chat_history_and_validate_key_binding_def dmem_def Let_def)
  ultimately show ?thesis using stopping_node_stays_silent
    by (metis (no_types, lifting) node_state.select_convs(3) prod.exhaust test_start_def)
qed

section \<open>What a node accepts and lets out\<close>

text \<open>C28 (equivalence). The node's message validator accepts exactly the lists of 1 to 64 messages that are objects with a role it
  knows, an optional short name, text or up to 32 text blocks and nothing else, and that have at most 524288 bytes
  together.\<close>

theorem node_chat_validator_is_exact:
  "(\<exists>r. validate_api_v1_chat_messages v = Inr r \<and> cv_valid r)
     \<longleftrightarrow> (\<exists>ms. v = JList ms \<and> ms \<noteq> [] \<and> length ms \<le> 64 \<and> list_all node_message ms
            \<and> sum_list (map message_bytes ms) \<le> 524288)"
proof (cases v)
  case (JList ms)
  show ?thesis
  proof (cases "ms = [] \<or> length ms > 64")
    case True
    with JList show ?thesis
      by (auto simp: validate_api_v1_chat_messages_def API_V1_MAX_MESSAGES_def refused_message_def)
  next
    case False
    with JList messages_accept [of 0 "length ms" 0 0 ms] show ?thesis
      by (simp add: validate_api_v1_chat_messages_def API_V1_MAX_MESSAGES_def API_V1_MAX_TOTAL_MESSAGE_UTF8_BYTES_def)
  qed
qed (simp_all add: validate_api_v1_chat_messages_def refused_message_def)

text \<open>Options that the node accepts are within their bounds and only those it supports, \<open>stream\<close> is dropped, the
  others keep their order, and normalising the result again changes nothing.\<close>

theorem accepted_options_are_bounded:
  assumes "api_v1_validate_and_normalise_options v options = Inr r"
  shows "list_all (\<lambda>(k, x). option_ok k x) r
     \<and> map fst r = filter (\<lambda>k. k \<noteq> ''stream'') (map fst options) \<and> fst ` set options \<subseteq> set supported_options
     \<and> api_v1_validate_and_normalise_options v r = Inr r"
proof -
  note r = options_accepted [OF assms]
  note normal = options_normalised [OF r(2,1)]
  then have "fst ` set r = set (filter (\<lambda>k. k \<noteq> ''stream'') (map fst options))" by (metis list.set_map)
  with r(1) have "fst ` set r \<subseteq> set supported_options" by auto
  with normal r(1) show ?thesis by (simp add: supported_accepted)
qed

theorem accepted_options_are_bounded_witness:
  "\<exists>r. api_v1_validate_and_normalise_options (di_environ run_dispatch)
       [(''max_tokens'', JInt 8192), (''stream'', JBool False), (''top_p'', JInt 1)] = Inr r
     \<and> list_all (\<lambda>(k, x). option_ok k x) r \<and> map fst r = [''max_tokens'', ''top_p'']"
proof -
  let ?run = "api_v1_validate_and_normalise_options (di_environ run_dispatch)
       [(''max_tokens'', JInt 8192), (''stream'', JBool False), (''top_p'', JInt 1)]"
  have "(case ?run of Inr _ \<Rightarrow> True | Inl _ \<Rightarrow> False)" by code_simp
  then obtain r where "?run = Inr r" by (cases ?run) auto
  with accepted_options_are_bounded [OF this] show ?thesis by simp
qed

text \<open>C29 (safety). A model that must not show its reasoning does not: a message the node makes of its completion has no
  \<open>reasoning\<close> or \<open>reasoning_content\<close> field at any depth and no opening or closing \<open>think\<close> tag in its text.\<close>

theorem reasoning_stays_inside:
  assumes "assistant_message_from_runtime_completion profile completion = Inr m" "api_v1_qwen_non_thinking_required profile"
  shows "\<not> reasoning_field (JDict m) \<and> (\<forall>c. jget m ''content'' = JStr c \<longrightarrow> \<not> has_think_tag c)"
  using assms by (rule assistant_message_clean)

theorem reasoning_stays_inside_witness:
  "\<exists>m. assistant_message_from_runtime_completion (JDict [(''provider'', JStr ''qwen''), (''thinking_mode'', JStr ''disabled'')])
       (JStr ''<think> </think> hello'') = Inr m
     \<and> \<not> reasoning_field (JDict m) \<and> (\<forall>c. jget m ''content'' = JStr c \<longrightarrow> \<not> has_think_tag c)"
proof -
  let ?profile = "JDict [(''provider'', JStr ''qwen''), (''thinking_mode'', JStr ''disabled'')]"
  let ?run = "assistant_message_from_runtime_completion ?profile (JStr ''<think> </think> hello'')"
  have "(case ?run of Inr _ \<Rightarrow> True | Inl _ \<Rightarrow> False)" "api_v1_qwen_non_thinking_required ?profile" by code_simp+
  then obtain m where "?run = Inr m" by (cases ?run) auto
  with reasoning_stays_inside [OF this \<open>api_v1_qwen_non_thinking_required ?profile\<close>] show ?thesis by blast
qed

end
