(* ===== verification/Node_Polling.thy ===== *)
theory Node_Polling
  imports Node_Replies
begin

text \<open>
  How a compute node finds work (\<^verbatim>\<open>src/utils/networking/relay_client.py\<close>): it registers with a relay, renews the
  registration in time, polls for work and goes on to the next relay when one fails. The sessions with the relays are
  one record; a step runs on the node of the replies together with them.
\<close>

section \<open>Sessions\<close>

record wait_hints =
  wh_next_ping :: "rat option"
  wh_poll_wait :: "rat option"
  wh_server_key :: "string option"

definition no_hints :: wait_hints where
  "no_hints = \<lparr>wh_next_ping = None, wh_poll_wait = None, wh_server_key = None\<rparr>"

record sessions =
  sn_relay_urls :: "string list"
  sn_active_relay_index :: nat
  sn_registered_relays :: "string list"
  sn_last_heartbeat_at :: "(string, rat) dict"
  sn_relay_wait_hints :: "(string, wait_hints) dict"
  sn_control_credentials :: "(string, string) dict"
  sn_relay_capabilities :: "(string, bool) dict"
  sn_last_work_relay_url :: "string option"
  sn_unregister_complete :: bool

record 'w poller =
  pl_node :: "'w node_state"
  pl_sessions :: sessions

type_synonym ('w, 'a) poll_act = "('w poller, node_failure, 'a) effect"

text \<open>
  The settings of the node, its key and capabilities, \<^verbatim>\<open>response.json()\<close> (\<open>None\<close> when it raises), float
  multiplication, what the text and the class of an exception say, and the diagnostics of a refused request.
\<close>

record poll_setup =
  pc_node :: node_setup
  pc_public_key :: string
  pc_capabilities :: object
  pc_loads :: "string \<Rightarrow> json option"
  pc_times :: "rat \<Rightarrow> rat \<Rightarrow> pyfloat"
  pc_read_timed_out :: "node_failure \<Rightarrow> bool"
  pc_exception_name :: "node_failure \<Rightarrow> string"
  pc_diagnostic :: "string \<Rightarrow> int \<Rightarrow> string \<Rightarrow> object"

definition on_node :: "('w, 'a) node_act \<Rightarrow> ('w, 'a) poll_act" where
  "on_node act = (\<lambda>s. let (r, n) = act (pl_node s) in (r, s\<lparr>pl_node := n\<rparr>))"

definition in_sessions :: "(sessions \<Rightarrow> sessions) \<Rightarrow> ('w, unit) poll_act" where
  "in_sessions f = (\<lambda>s. (Inr (), s\<lparr>pl_sessions := f (pl_sessions s)\<rparr>))"

definition the_sessions :: "('w, sessions) poll_act" where
  "the_sessions = (\<lambda>s. (Inr (pl_sessions s), s))"

definition polling_stopped :: "'w node_world \<Rightarrow> ('w, bool) poll_act" where
  "polling_stopped W = sbind (on_node (observe (nw_flags W))) (\<lambda>fl. ret (fl_stopped fl))"

definition stopped_result :: object where
  "stopped_result = [(''error'', JStr ''Relay polling stopped''), (''next_ping_in_x_seconds'', JInt 0), (''poll_wait_seconds'', JInt 0)]"

section \<open>Intervals\<close>

definition request_timeout :: "poll_setup \<Rightarrow> rat" where
  "request_timeout C = ns_request_timeout (pc_node C)"

definition f_at_least :: "pyfloat \<Rightarrow> pyfloat \<Rightarrow> bool" where
  "f_at_least a b \<longleftrightarrow> f_less b a \<or> (a = b \<and> a \<noteq> FNan)"

text \<open>The double nearest to 0.8.\<close>

definition POINT_EIGHT :: rat where
  "POINT_EIGHT = 3602879701896397 / 4503599627370496"

definition api_v1_refresh_threshold_seconds :: "poll_setup \<Rightarrow> rat \<Rightarrow> pyfloat" where
  "api_v1_refresh_threshold_seconds C lease =
     (if lease \<le> 0 then FNum 0
      else f_max (f_min (pc_times C lease POINT_EIGHT) (fo_minus (ns_floats (pc_node C)) lease 1)) (pc_times C lease (1 / 2)))"

definition api_v1_poll_timeout_seconds :: "poll_setup \<Rightarrow> rat \<Rightarrow> pyfloat" where
  "api_v1_poll_timeout_seconds C wait =
     (if wait < 0 then FNum (request_timeout C)
      else f_max (f_max (FNum (request_timeout C)) (fo_plus (ns_floats (pc_node C)) wait 5)) (pc_times C wait (5 / 4)))"

definition normalise_positive_seconds :: "poll_setup \<Rightarrow> json \<Rightarrow> node_failure + rat" where
  "normalise_positive_seconds C seconds =
     ebind (map_sum Raised id (float_of_json (ns_environ (pc_node C)) seconds)) (\<lambda>x.
       Inr (case x of Some (FNum s) \<Rightarrow> if s > 0 then s else request_timeout C | _ \<Rightarrow> request_timeout C))"

definition poll_wait_of :: "poll_setup \<Rightarrow> json \<Rightarrow> node_failure + rat" where
  "poll_wait_of C seconds = map_sum Raised id (normalise_poll_wait_seconds (ns_environ (pc_node C)) (request_timeout C) seconds)"

section \<open>Registration\<close>

definition session_post :: "poll_setup \<Rightarrow> string \<Rightarrow> string \<Rightarrow> pyfloat \<Rightarrow> relay_post" where
  "session_post C relay route timeout =
     \<lparr>rp_url = build_api_v1_url relay route, rp_headers = auth_headers (pc_node C),
      rp_body = [(''server_public_key'', JStr (pc_public_key C)), (''capabilities'', JDict (pc_capabilities C))],
      rp_timeout = timeout\<rparr>"

definition api_v1_http_error_result :: "poll_setup \<Rightarrow> string \<Rightarrow> int \<Rightarrow> string \<Rightarrow> json \<Rightarrow> object" where
  "api_v1_http_error_result C url status body next_ping =
     [(''error'', JStr (''HTTP '' @ show_int status)), (''next_ping_in_x_seconds'', next_ping), (''http_status'', JInt status)]
     @ pc_diagnostic C url status body"

definition keep_registration :: "string \<Rightarrow> object \<Rightarrow> sessions \<Rightarrow> sessions" where
  "keep_registration relay payload s =
     (let credentials = (case jget payload ''control_credential'' of
                JStr (c # cs) \<Rightarrow> dset relay (c # cs) (sn_control_credentials s) | _ \<Rightarrow> sn_control_credentials s);
          progress = (case jget payload ''relay_capabilities'' of
                JDict d \<Rightarrow> jget d ''encrypted_progress_v1'' = JBool True | _ \<Rightarrow> False)
      in s\<lparr>sn_control_credentials := credentials, sn_relay_capabilities := dset relay progress (sn_relay_capabilities s)\<rparr>)"

definition register_unlatched :: "poll_setup \<Rightarrow> 'w node_world \<Rightarrow> string \<Rightarrow> ('w, json) poll_act" where
  "register_unlatched C W relay =
     (let p = session_post C relay ''/relay/servers/register'' (FNum (request_timeout C))
      in sbind (on_node (post_to_relay W p)) (\<lambda>(status, body).
           if status \<noteq> 200
           then ret (JDict (api_v1_http_error_result C (rp_url p) status body (JFloat (request_timeout C))))
           else (case pc_loads C body of
             None \<Rightarrow> lift (Inl (Raised ''JSONDecodeError''))
           | Some v \<Rightarrow>
               (case v of
                  JDict payload \<Rightarrow> sbind (in_sessions (keep_registration relay payload)) (\<lambda>_. ret v)
                | _ \<Rightarrow> ret v))))"

definition mark_registered :: "string \<Rightarrow> sessions \<Rightarrow> sessions" where
  "mark_registered relay s = s\<lparr>sn_registered_relays := List.insert relay (sn_registered_relays s)\<rparr>"

definition confirm_registration :: "poll_setup \<Rightarrow> string \<Rightarrow> sessions \<Rightarrow> sessions" where
  "confirm_registration C relay s =
     (let hints = (case dget (sn_relay_wait_hints s) relay of Some h \<Rightarrow> h | None \<Rightarrow> no_hints)
      in (mark_registered relay s)\<lparr>
           sn_last_heartbeat_at := (if dmem relay (sn_last_heartbeat_at s) then sn_last_heartbeat_at s
              else dset relay 0 (sn_last_heartbeat_at s)),
           sn_relay_wait_hints := dset relay (hints\<lparr>wh_server_key := Some (pc_public_key C)\<rparr>) (sn_relay_wait_hints s),
           sn_unregister_complete := False\<rparr>)"

definition register_api_v1_compute_node :: "poll_setup \<Rightarrow> 'w node_world \<Rightarrow> string \<Rightarrow> ('w, json) poll_act" where
  "register_api_v1_compute_node C W relay =
     sbind (on_node (begin_mutation W)) (\<lambda>begun.
       if \<not> begun then ret (JDict stopped_result)
       else (\<lambda>s.
         let (r, t) = sbind (register_unlatched C W relay) (\<lambda>v.
               case v of
                 JDict d \<Rightarrow>
                   if jtruthy (jget d ''error'') then ret v
                   else sbind (in_sessions (confirm_registration C relay)) (\<lambda>_. ret v)
               | _ \<Rightarrow> ret v) s
         in (r, t\<lparr>pl_node := end_mutation (pl_node t)\<rparr>)))"

section \<open>Polling one relay\<close>

text \<open>A step returns from the poll, or goes on to the next relay with the error to report if all fail.\<close>

datatype poll_step = PollReturn object | PollNext object

definition remember_hints :: "poll_setup \<Rightarrow> string \<Rightarrow> rat \<Rightarrow> rat \<Rightarrow> sessions \<Rightarrow> sessions" where
  "remember_hints C relay register_wait poll_wait s =
     s\<lparr>sn_relay_wait_hints := dset relay
         \<lparr>wh_next_ping = Some register_wait, wh_poll_wait = Some poll_wait, wh_server_key = Some (pc_public_key C)\<rparr>
         (sn_relay_wait_hints s)\<rparr>"

definition forget_relay :: "string \<Rightarrow> sessions \<Rightarrow> sessions" where
  "forget_relay relay s =
     s\<lparr>sn_registered_relays := removeAll relay (sn_registered_relays s),
       sn_last_heartbeat_at := ddel relay (sn_last_heartbeat_at s),
       sn_relay_wait_hints := ddel relay (sn_relay_wait_hints s)\<rparr>"

definition heartbeat_now :: "'w node_world \<Rightarrow> string \<Rightarrow> ('w, unit) poll_act" where
  "heartbeat_now W relay =
     sbind (on_node (observe (nw_time W))) (\<lambda>t.
       in_sessions (\<lambda>s. s\<lparr>sn_last_heartbeat_at := dset relay t (sn_last_heartbeat_at s)\<rparr>))"

text \<open>Why the node has to register now, if it has to.\<close>

definition reregister_reason :: "poll_setup \<Rightarrow> 'w node_world \<Rightarrow> string \<Rightarrow> wait_hints \<Rightarrow> rat \<Rightarrow> ('w, string option) poll_act" where
  "reregister_reason C W relay hints register_wait =
     sbind the_sessions (\<lambda>s.
       let threshold = api_v1_refresh_threshold_seconds C register_wait
       in if relay \<notin> set (sn_registered_relays s) then ret (Some ''not_registered'')
          else if wh_server_key hints \<noteq> None \<and> wh_server_key hints \<noteq> Some (pc_public_key C) then ret (Some ''public_key_changed'')
          else (case dget (sn_last_heartbeat_at s) relay of
            None \<Rightarrow> ret (Some ''lease_expiry_risk'')
          | Some beat \<Rightarrow>
              if f_at_least (FNum 0) threshold then ret (Some ''lease_expiry_risk'')
              else sbind (on_node (observe (nw_time W))) (\<lambda>t.
                ret (if f_at_least (fo_minus (ns_floats (pc_node C)) t beat) threshold then Some ''lease_expiry_risk'' else None))))"

text \<open>Register; the intervals that the relay suggests, or the step that ends the poll of this relay.\<close>

definition register_step :: "poll_setup \<Rightarrow> 'w node_world \<Rightarrow> string \<Rightarrow> ('w, poll_step + rat \<times> rat) poll_act" where
  "register_step C W relay =
     sbind (polling_stopped W) (\<lambda>stopped.
       if stopped then ret (Inl (PollReturn stopped_result))
       else sbind (register_api_v1_compute_node C W relay) (\<lambda>response.
         case response of
           JDict d \<Rightarrow>
             sbind (lift (normalise_positive_seconds C (jget d ''next_ping_in_x_seconds''))) (\<lambda>register_wait.
             sbind (lift (poll_wait_of C (jget_default d ''poll_wait_seconds'' (JFloat register_wait)))) (\<lambda>poll_wait.
               if jtruthy (jget d ''error'')
               then ret (Inl (PollNext (if dmem ''next_ping_in_x_seconds'' d then d
                      else dset ''next_ping_in_x_seconds'' (JFloat register_wait) d)))
               else
                 sbind (in_sessions (mark_registered relay \<circ> remember_hints C relay register_wait poll_wait)) (\<lambda>_.
                 sbind (heartbeat_now W relay) (\<lambda>_.
                 sbind (in_sessions (\<lambda>s. s\<lparr>sn_unregister_complete := False\<rparr>)) (\<lambda>_.
                 sbind (polling_stopped W) (\<lambda>stopped.
                   ret (if stopped then Inl (PollReturn stopped_result) else Inr (register_wait, poll_wait))))))))
         | _ \<Rightarrow>
             ret (Inl (PollNext [(''error'', JStr ''Invalid register response format: expected object payload''),
               (''next_ping_in_x_seconds'', JFloat (request_timeout C))]))))"

text \<open>
  The poll itself raised: a timeout of the only relay after it has held the request as long as it said is no failure,
  there was just no work.
\<close>

definition no_work :: "rat \<Rightarrow> rat \<Rightarrow> object" where
  "no_work register_wait poll_wait =
     [(''message'', JStr ''No requests available''),
      (''next_ping_in_x_seconds'', if poll_wait > 0 then JInt 0 else JFloat register_wait), (''poll_wait_seconds'', JFloat poll_wait)]"

definition poll_failed ::
  "poll_setup \<Rightarrow> 'w node_world \<Rightarrow> string \<Rightarrow> rat \<Rightarrow> rat \<Rightarrow> rat \<Rightarrow> node_failure \<Rightarrow> ('w, poll_step) poll_act" where
  "poll_failed C W relay register_wait poll_wait started e =
     sbind (on_node (observe (nw_time W))) (\<lambda>now.
     sbind (polling_stopped W) (\<lambda>stopped.
     sbind the_sessions (\<lambda>s.
       let F = ns_floats (pc_node C);
           held = ((e = TimedOut \<or> pc_read_timed_out C e) \<and> length (sn_relay_urls s) \<le> 1 \<and> poll_wait > 0
             \<and> f_at_least (fo_minus F now started) (f_max (FNum 0) (fo_minus F poll_wait (1 / 2))))
       in if stopped then ret (PollReturn stopped_result)
          else if held \<and> relay \<in> set (sn_registered_relays s)
          then sbind (heartbeat_now W relay) (\<lambda>_.
               sbind (in_sessions (remember_hints C relay register_wait poll_wait)) (\<lambda>_.
                 ret (PollReturn (no_work register_wait poll_wait))))
          else lift (Inl e))))"

text \<open>The relay answered the poll.\<close>

definition valid_hint :: "pyfloat option \<Rightarrow> rat option" where
  "valid_hint x = (case x of Some (FNum s) \<Rightarrow> if s > 0 then Some s else None | _ \<Rightarrow> None)"

definition poll_answered ::
  "poll_setup \<Rightarrow> 'w node_world \<Rightarrow> nat \<Rightarrow> string \<Rightarrow> rat \<Rightarrow> rat \<Rightarrow> int \<Rightarrow> string \<Rightarrow> ('w, poll_step) poll_act" where
  "poll_answered C W index relay register_wait poll_wait status body =
     sbind (polling_stopped W) (\<lambda>stopped.
       if stopped then ret (PollReturn stopped_result)
       else if status \<noteq> 200
       then sbind (in_sessions (if status = 404 then forget_relay relay else id)) (\<lambda>_.
              ret (PollNext (api_v1_http_error_result C (build_api_v1_url relay ''/relay/servers/poll'') status body
                (if status = 404 then JInt 0 else JFloat register_wait))))
       else (case pc_loads C body of
         None \<Rightarrow> lift (Inl (Raised ''JSONDecodeError''))
       | Some v \<Rightarrow>
           (case v of
              JDict d \<Rightarrow>
                sbind (lift (map_sum Raised id (float_of_json (ns_environ (pc_node C)) (jget d ''next_ping_in_x_seconds'')))) (\<lambda>x.
                let (payload, wait) = (case valid_hint x of
                      Some s \<Rightarrow> (dset ''next_ping_in_x_seconds'' (JFloat s) d, s)
                    | None \<Rightarrow> (if dmem ''next_ping_in_x_seconds'' d then d
                                else dset ''next_ping_in_x_seconds'' (JFloat register_wait) d, register_wait))
                in sbind (lift (poll_wait_of C (jget_default payload ''poll_wait_seconds'' (JFloat poll_wait)))) (\<lambda>pw.
                   sbind (in_sessions (remember_hints C relay wait pw)) (\<lambda>_.
                   sbind (heartbeat_now W relay) (\<lambda>_.
                   sbind (in_sessions (\<lambda>s. s\<lparr>sn_active_relay_index := index, sn_last_work_relay_url := Some relay\<rparr>)) (\<lambda>_.
                     ret (PollReturn payload))))))
            | _ \<Rightarrow>
                ret (PollNext [(''error'', JStr ''Invalid response format: expected object payload''),
                  (''next_ping_in_x_seconds'', JFloat register_wait)]))))"

definition poll_registered ::
  "poll_setup \<Rightarrow> 'w node_world \<Rightarrow> nat \<Rightarrow> string \<Rightarrow> rat \<Rightarrow> rat \<Rightarrow> ('w, poll_step) poll_act" where
  "poll_registered C W index relay register_wait poll_wait =
     sbind (polling_stopped W) (\<lambda>stopped.
       if stopped then ret (PollReturn stopped_result)
       else sbind (on_node (observe (nw_time W))) (\<lambda>started s.
         case on_node (post_to_relay W (session_post C relay ''/relay/servers/poll''
             (api_v1_poll_timeout_seconds C poll_wait))) s of
           (Inl e, t) \<Rightarrow> poll_failed C W relay register_wait poll_wait started e t
         | (Inr (status, body), t) \<Rightarrow> poll_answered C W index relay register_wait poll_wait status body t))"

definition poll_relay :: "poll_setup \<Rightarrow> 'w node_world \<Rightarrow> nat \<Rightarrow> string \<Rightarrow> ('w, poll_step) poll_act" where
  "poll_relay C W index relay =
     sbind the_sessions (\<lambda>s.
       let hints = (case dget (sn_relay_wait_hints s) relay of Some h \<Rightarrow> h | None \<Rightarrow> no_hints);
           cached_wait = (case wh_next_ping hints of Some w \<Rightarrow> if w > 0 then w else request_timeout C | None \<Rightarrow> request_timeout C);
           cached_poll = (case wh_poll_wait hints of Some w \<Rightarrow> w | None \<Rightarrow> cached_wait);
           cached_poll = (if cached_poll < 0 then request_timeout C else cached_poll)
       in sbind (reregister_reason C W relay hints cached_wait) (\<lambda>reason.
          sbind (polling_stopped W) (\<lambda>stopped.
            if stopped then ret (PollReturn stopped_result)
            else sbind (if reason = None then ret (Inr (cached_wait, cached_poll)) else register_step C W relay) (\<lambda>r.
              case r of
                Inl step \<Rightarrow> ret step
              | Inr (register_wait, poll_wait) \<Rightarrow> poll_registered C W index relay register_wait poll_wait))))"

text \<open>An exception anywhere makes the node forget the relay, unless it is stopping.\<close>

definition poll_guarded :: "poll_setup \<Rightarrow> 'w node_world \<Rightarrow> nat \<Rightarrow> string \<Rightarrow> ('w, poll_step) poll_act" where
  "poll_guarded C W index relay =
     (\<lambda>s. case poll_relay C W index relay s of
        (Inl e, t) \<Rightarrow>
          sbind (polling_stopped W) (\<lambda>stopped.
            if stopped then ret (PollReturn stopped_result)
            else sbind (in_sessions (forget_relay relay)) (\<lambda>_.
              ret (PollNext [(''error'', JStr (pc_exception_name C e)), (''next_ping_in_x_seconds'', JFloat (request_timeout C))]))) t
      | r \<Rightarrow> r)"

section \<open>Polling all relays\<close>

fun poll_each :: "poll_setup \<Rightarrow> 'w node_world \<Rightarrow> (nat \<times> string) list \<Rightarrow> object \<Rightarrow> ('w, object) poll_act" where
  "poll_each C W [] last_error = ret last_error"
| "poll_each C W ((index, relay) # rest) last_error =
     sbind (poll_guarded C W index relay) (\<lambda>step.
       case step of PollReturn r \<Rightarrow> ret r | PollNext e \<Rightarrow> poll_each C W rest e)"

text \<open>The relays in a ring, from the active one on.\<close>

definition relay_ring :: "sessions \<Rightarrow> (nat \<times> string) list" where
  "relay_ring s =
     (let n = length (sn_relay_urls s)
      in map (\<lambda>offset. let i = (sn_active_relay_index s + offset) mod n in (i, sn_relay_urls s ! i)) [0..<n])"

definition poll_api_v1_encrypted_work :: "poll_setup \<Rightarrow> 'w node_world \<Rightarrow> ('w, object) poll_act" where
  "poll_api_v1_encrypted_work C W =
     sbind (polling_stopped W) (\<lambda>stopped.
       if stopped then ret stopped_result
       else sbind the_sessions (\<lambda>s.
         poll_each C W (relay_ring s) [(''error'', JStr ''No relay targets responded''),
           (''next_ping_in_x_seconds'', JFloat (request_timeout C))]))"

end
