(* ===== verification/Node_Sessions.thy ===== *)
theory Node_Sessions
  imports Node_Polling Node_Posts
begin

text \<open>
  The polling loop of a compute node in general: what every primitive change keeps, a poll keeps, with the number of
  posts it may make; and what a poll returns.
\<close>

section \<open>Readings\<close>

definition on_world :: "('w \<Rightarrow> 'w) \<Rightarrow> 'w poller \<Rightarrow> 'w poller" where
  "on_world f s = s\<lparr>pl_node := (pl_node s)\<lparr>nd_world := f (nd_world (pl_node s))\<rparr>\<rparr>"

lemma read_world: "\<exists>x w. on_node (observe f) s = (Inr x, on_world (\<lambda>_. w) s)"
  by (simp add: on_node_def observe_def on_world_def Let_def case_prod_beta) blast

lemma read_stopped: "\<exists>x w. polling_stopped W s = (Inr x, on_world (\<lambda>_. w) s)"
  using read_world [of "nw_flags W" s] by (auto simp: polling_stopped_def sbind_def)

lemma sessions_on_world [simp]: "pl_sessions (on_world f s) = pl_sessions s"
  by (simp add: on_world_def)

lemma log_on_world [simp]: "nd_log (pl_node (on_world f s)) = nd_log (pl_node s)"
  "nd_mutations (pl_node (on_world f s)) = nd_mutations (pl_node s)"
  by (simp_all add: on_world_def)

definition set_sessions :: "(sessions \<Rightarrow> sessions) \<Rightarrow> 'w poller \<Rightarrow> 'w poller" where
  "set_sessions f s = s\<lparr>pl_sessions := f (pl_sessions s)\<rparr>"

lemma run_sessions: "in_sessions f s = (Inr (), set_sessions f s)" "the_sessions s = (Inr (pl_sessions s), s)"
  by (simp_all add: in_sessions_def set_sessions_def the_sessions_def)

definition posted_to :: "relay_post \<Rightarrow> post_reply \<Rightarrow> 'w \<Rightarrow> 'w poller \<Rightarrow> 'w poller" where
  "posted_to p reply w s = s\<lparr>pl_node := (pl_node s)\<lparr>nd_world := w, nd_log := nd_log (pl_node s) @ [(p, reply)]\<rparr>\<rparr>"

lemma post_on_node:
  "on_node (post_to_relay W p) s = (r, t) \<Longrightarrow>
     \<exists>reply w. t = posted_to p reply w s \<and> (\<forall>status body. r = Inr (status, body) \<longrightarrow> reply = Posted status body)"
  by (auto simp: on_node_def post_to_relay_def posted_to_def Let_def split: prod.splits post_reply.splits)

text \<open>A step inside the latch: not begun, or counted while it runs.\<close>

definition counted :: "'w poller \<Rightarrow> 'w poller" where
  "counted s = s\<lparr>pl_node := (pl_node s)\<lparr>nd_mutations := nd_mutations (pl_node s) + 1\<rparr>\<rparr>"

definition uncounted :: "'w poller \<Rightarrow> 'w poller" where
  "uncounted s = s\<lparr>pl_node := end_mutation (pl_node s)\<rparr>"

lemma begin_on_node:
  "\<exists>w. on_node (begin_mutation W) s \<in> {(Inr False, on_world (\<lambda>_. w) s), (Inr True, counted (on_world (\<lambda>_. w) s))}"
  by (simp add: on_node_def begin_mutation_def observe_def sbind_def Let_def case_prod_beta on_world_def counted_def) blast

lemma latched_cases:
  assumes run: "sbind (on_node (begin_mutation W)) (\<lambda>begun. if \<not> begun then ret x
      else (\<lambda>s. let (r, t) = act s in (r, t\<lparr>pl_node := end_mutation (pl_node t)\<rparr>))) s = (r, t)"
  obtains (not_begun) w where "r = Inr x" "t = on_world (\<lambda>_. w) s"
    | (begun) w v where "act (counted (on_world (\<lambda>_. w) s)) = (r, v)" "t = uncounted v"
proof -
  obtain w where "on_node (begin_mutation W) s = (Inr False, on_world (\<lambda>_. w) s)
      \<or> on_node (begin_mutation W) s = (Inr True, counted (on_world (\<lambda>_. w) s))"
    using begin_on_node [of W s] by blast
  then show ?thesis
    by (rule disjE) (insert run not_begun begun, auto simp: sbind_def uncounted_def Let_def split: prod.splits)
qed

section \<open>What a poll keeps\<close>

text \<open>
  \<open>keeps n s t\<close>: the step from \<open>s\<close> to \<open>t\<close> made at most \<open>n\<close> posts and kept what is to be kept; \<open>candidate\<close> tells
  which relays may be polled.
\<close>

locale poll_laws =
  fixes C :: poll_setup
    and W :: "'w node_world"
    and candidate :: "nat \<Rightarrow> string \<Rightarrow> bool"
    and keeps :: "nat \<Rightarrow> 'w poller \<Rightarrow> 'w poller \<Rightarrow> bool"
  assumes keeps_trans: "keeps j s t \<Longrightarrow> keeps k t v \<Longrightarrow> keeps (j + k) s v"
    and keeps_weaken: "keeps j s t \<Longrightarrow> j \<le> k \<Longrightarrow> keeps k s t"
    and keeps_world: "keeps 0 s (on_world f s)"
    and keeps_post: "candidate i u \<Longrightarrow> route \<in> {''/relay/servers/register'', ''/relay/servers/poll''}
          \<Longrightarrow> keeps 1 s (posted_to (session_post C u route timeout) reply w s)"
    and keeps_mutation: "keeps k (counted s) t \<Longrightarrow> keeps k s (uncounted t)"
    and keeps_store: "candidate i u \<Longrightarrow> keeps 0 s (set_sessions (keep_registration u d) s)"
    and keeps_confirm: "candidate i u \<Longrightarrow> keeps 0 s (set_sessions (confirm_registration C u) s)"
    and keeps_mark: "candidate i u \<Longrightarrow> keeps 0 s (set_sessions (mark_registered u) s)"
    and keeps_hints: "candidate i u \<Longrightarrow> keeps 0 s (set_sessions (remember_hints C u a b) s)"
    and keeps_forget: "candidate i u \<Longrightarrow> keeps 0 s (set_sessions (forget_relay u) s)"
    and keeps_beat: "candidate i u \<Longrightarrow> keeps 0 s (set_sessions (\<lambda>x. x\<lparr>sn_last_heartbeat_at := dset u a (sn_last_heartbeat_at x)\<rparr>) s)"
    and keeps_flag: "keeps 0 s (set_sessions (\<lambda>x. x\<lparr>sn_unregister_complete := False\<rparr>) s)"
    and keeps_active: "candidate i u
          \<Longrightarrow> keeps 0 s (set_sessions (\<lambda>x. x\<lparr>sn_active_relay_index := i, sn_last_work_relay_url := Some u\<rparr>) s)"
begin

definition kept :: "nat \<Rightarrow> ('w, 'a) poll_act \<Rightarrow> bool" where
  "kept n act \<longleftrightarrow> (\<forall>s r t. act s = (r, t) \<longrightarrow> keeps n s t)"

lemma keptD: "kept n act \<Longrightarrow> act s = (r, t) \<Longrightarrow> keeps n s t"
  by (simp add: kept_def)

lemma keeps_refl: "keeps n s s"
  using keeps_weaken [OF keeps_world [of s id]] by (simp add: on_world_def)

lemma kept_ret: "kept n (ret x)"
  by (simp add: kept_def keeps_refl)

lemma kept_lift: "kept n (lift x)"
  by (simp add: kept_def keeps_refl)

lemma kept_bind:
  assumes "kept j m" "\<And>x. kept k (f x)"
  shows "kept (j + k) (sbind m f)"
  unfolding kept_def
proof (intro allI impI, erule sbind_cases, goal_cases raised went_on)
  case (raised s r t e)
  from keeps_weaken [OF keptD [OF assms(1) raised(1)], of "j + k"] show ?case by simp
next
  case (went_on s r t x u)
  from keeps_trans [OF keptD [OF assms(1) went_on(1)] keptD [OF assms(2) went_on(2)]] show ?case .
qed

lemma kept_after: "kept 0 m \<Longrightarrow> (\<And>x. kept k (f x)) \<Longrightarrow> kept k (sbind m f)"
  using kept_bind [of 0 m k f] by simp

lemma kept_one: "kept 1 m \<Longrightarrow> (\<And>x. kept 0 (f x)) \<Longrightarrow> kept 1 (sbind m f)"
  using kept_bind [of 1 m 0 f] by simp

lemma kept_two: "kept 1 m \<Longrightarrow> (\<And>x. kept 1 (f x)) \<Longrightarrow> kept 2 (sbind m f)"
  using kept_bind [of 1 m 1 f] by (simp only: one_add_one)

lemma kept_if: "kept n a \<Longrightarrow> kept n b \<Longrightarrow> kept n (if p then a else b)"
  by simp

lemma kept_dict: "(\<And>d. kept n (f d)) \<Longrightarrow> kept n y \<Longrightarrow> kept n (case v of JDict d \<Rightarrow> f d | _ \<Rightarrow> y)"
  by (cases v) simp_all

lemma kept_opt: "kept n y \<Longrightarrow> (\<And>x. kept n (f x)) \<Longrightarrow> kept n (case v of None \<Rightarrow> y | Some x \<Rightarrow> f x)"
  by (cases v) simp_all

lemmas kept_intros = kept_ret kept_lift kept_if kept_dict kept_opt

lemma kept_read: "kept 0 (on_node (observe f))"
  unfolding kept_def using read_world [of f] keeps_world by (metis prod.inject)

lemma kept_stopped: "kept 0 (polling_stopped W)"
  unfolding kept_def using read_stopped [of W] keeps_world by (metis prod.inject)

lemma kept_the_sessions: "kept 0 the_sessions"
  by (simp add: kept_def run_sessions keeps_refl)

lemma kept_sessions: "(\<And>s. keeps 0 s (set_sessions f s)) \<Longrightarrow> kept 0 (in_sessions f)"
  by (simp add: kept_def run_sessions)

lemma kept_heartbeat: "candidate i u \<Longrightarrow> kept 0 (heartbeat_now W u)"
  unfolding heartbeat_now_def by (intro kept_after kept_read kept_sessions keeps_beat)

lemma kept_post:
  "candidate i u \<Longrightarrow> route \<in> {''/relay/servers/register'', ''/relay/servers/poll''}
     \<Longrightarrow> kept 1 (on_node (post_to_relay W (session_post C u route timeout)))"
  unfolding kept_def using post_on_node keeps_post by metis

lemma kept_unlatched:
  assumes "candidate i u"
  shows "kept 1 (register_unlatched C W u)"
  unfolding register_unlatched_def Let_def case_prod_beta
  by (rule kept_one [OF kept_post [OF assms]])
    (simp, intro kept_intros kept_after kept_sessions keeps_store [OF assms])

lemma kept_register:
  assumes "candidate i u"
  shows "kept 1 (register_api_v1_compute_node C W u)"
proof -
  have inner: "kept 1 (sbind (register_unlatched C W u) (\<lambda>v. case v of
      JDict d \<Rightarrow> if jtruthy (jget d ''error'') then ret v else sbind (in_sessions (confirm_registration C u)) (\<lambda>_. ret v)
    | _ \<Rightarrow> ret v))"
    by (rule kept_one [OF kept_unlatched [OF assms]]) (intro kept_dict kept_if kept_ret kept_after kept_sessions keeps_confirm [OF assms])
  show ?thesis unfolding kept_def register_api_v1_compute_node_def
  proof (intro allI impI, erule latched_cases, goal_cases not_begun begun)
    case (not_begun s r t w)
    with keeps_weaken [OF keeps_world] show ?case by simp
  next
    case (begun s r t w v)
    from keeps_mutation [OF keptD [OF inner begun(1)]] have "keeps (0 + 1) s t"
      unfolding begun(2) using keeps_trans [OF keeps_world] by blast
    then show ?case by simp
  qed
qed

lemma kept_mark_hints: "candidate i u \<Longrightarrow> kept 0 (in_sessions (mark_registered u \<circ> remember_hints C u a b))"
proof (rule kept_sessions)
  fix s assume "candidate i u"
  then have "keeps (0 + 0) s (set_sessions (mark_registered u) (set_sessions (remember_hints C u a b) s))"
    using keeps_trans keeps_hints keeps_mark by blast
  then show "keeps 0 s (set_sessions (mark_registered u \<circ> remember_hints C u a b) s)" by (simp add: set_sessions_def)
qed

lemma kept_register_step:
  assumes "candidate i u"
  shows "kept 1 (register_step C W u)"
  unfolding register_step_def
proof (intro kept_after [OF kept_stopped] kept_if kept_ret kept_one [OF kept_register [OF assms]], goal_cases answered)
  case (answered stopped response)
  show ?case
    by (intro kept_dict kept_ret kept_lift kept_if kept_after kept_stopped kept_mark_hints [OF assms] kept_heartbeat [OF assms]
        kept_sessions keeps_flag)
qed

lemma kept_failed:
  assumes "candidate i u"
  shows "kept 0 (poll_failed C W u a b started e)"
proof -
  have "kept 0 (sbind (heartbeat_now W u) (\<lambda>_. sbind (in_sessions (remember_hints C u a b)) (\<lambda>_. ret x)))" for x :: poll_step
    by (intro kept_after kept_ret kept_heartbeat [OF assms] kept_sessions keeps_hints [OF assms])
  then show ?thesis unfolding poll_failed_def Let_def
    by (intro kept_after kept_read kept_stopped kept_the_sessions) (simp add: kept_ret kept_lift)
qed

lemma kept_answered:
  assumes "candidate i u"
  shows "kept 0 (poll_answered C W i u a b status body)"
proof -
  have forgotten: "kept 0 (in_sessions (if status = 404 then forget_relay u else id))"
    by (rule kept_sessions) (simp add: keeps_forget [OF assms], simp add: set_sessions_def keeps_refl)
  show ?thesis unfolding poll_answered_def Let_def case_prod_beta
    by (intro kept_if kept_ret kept_opt kept_dict kept_lift kept_after kept_stopped forgotten kept_heartbeat [OF assms]
        kept_sessions keeps_hints [OF assms] keeps_active [OF assms])
qed

lemma kept_registered:
  assumes "candidate i u"
  shows "kept 1 (poll_registered C W i u a b)"
proof -
  let ?p = "session_post C u ''/relay/servers/poll'' (api_v1_poll_timeout_seconds C b)"
  have "kept 1 (\<lambda>s. case on_node (post_to_relay W ?p) s of
      (Inl e, t) \<Rightarrow> poll_failed C W u a b started e t
    | (Inr (status, body), t) \<Rightarrow> poll_answered C W i u a b status body t)" for started
    unfolding kept_def
  proof (intro allI impI, goal_cases posted)
    case (posted s r t)
    obtain q v where q: "on_node (post_to_relay W ?p) s = (q, v)" by fastforce
    have "keeps 1 s v" using keptD [OF kept_post [OF assms] q] by simp
    moreover have "keeps 0 v t"
      using posted q keptD [OF kept_failed [OF assms]] keptD [OF kept_answered [OF assms]] by (auto split: sum.splits prod.splits)
    ultimately show ?case using keeps_trans by fastforce
  qed
  then show ?thesis unfolding poll_registered_def
    by (intro kept_after [OF kept_stopped]) (simp add: kept_ret kept_after [OF kept_read])
qed

lemma kept_reason: "kept 0 (reregister_reason C W u hints a)"
  unfolding reregister_reason_def Let_def
  by (intro kept_after [OF kept_the_sessions]) (simp add: kept_ret kept_after [OF kept_read kept_ret] split: option.split)

lemma kept_relay:
  assumes "candidate i u"
  shows "kept 2 (poll_relay C W i u)"
  unfolding poll_relay_def Let_def
proof (intro kept_after [OF kept_the_sessions] kept_after [OF kept_reason] kept_after [OF kept_stopped] kept_if kept_ret
    kept_two [OF kept_register_step [OF assms]] kept_two, goal_cases registered answered)
  case (answered s reason stopped r)
  then show ?case using kept_registered [OF assms] by (auto simp: kept_ret split: sum.split simp del: One_nat_def)
qed (rule kept_register_step [OF assms])

lemma kept_guarded:
  assumes "candidate i u"
  shows "kept 2 (poll_guarded C W i u)"
proof -
  have "kept 0 (sbind (polling_stopped W) (\<lambda>stopped. if stopped then ret x
      else sbind (in_sessions (forget_relay u)) (\<lambda>_. ret y)))" for x y :: poll_step
    by (intro kept_after [OF kept_stopped]) (simp add: kept_ret kept_after [OF kept_sessions [OF keeps_forget [OF assms]] kept_ret])
  note caught = this
  show ?thesis unfolding kept_def poll_guarded_def
  proof (intro allI impI, goal_cases run)
    case (run s r t)
    obtain q v where q: "poll_relay C W i u s = (q, v)" by fastforce
    have "keeps 2 s v" by (rule keptD [OF kept_relay [OF assms] q])
    moreover have "keeps 0 v t" using run q keptD [OF caught] keeps_refl by (cases q) auto
    ultimately show ?case using keeps_trans by fastforce
  qed
qed

lemma kept_each:
  "\<forall>(i, u) \<in> set relays. candidate i u \<Longrightarrow> kept (2 * length relays) (poll_each C W relays e)"
proof (induction relays arbitrary: e)
  case Nil
  show ?case by (simp only: poll_each.simps kept_ret)
next
  case (Cons c relays)
  obtain i u where c: "c = (i, u)" by fastforce
  have "kept (2 * length relays) (case step of PollReturn r \<Rightarrow> ret r | PollNext e \<Rightarrow> poll_each C W relays e)" for step
    using Cons by (auto simp: kept_ret split: poll_step.split)
  from kept_bind [OF kept_guarded this] Cons.prems show ?case by (simp add: c)
qed

end

section \<open>The relays of the ring\<close>

text \<open>A request of the node for its own key and capabilities to one of the relays.\<close>

definition session_request :: "poll_setup \<Rightarrow> string set \<Rightarrow> relay_post \<Rightarrow> bool" where
  "session_request C relays p \<longleftrightarrow>
     (\<exists>u \<in> relays. \<exists>route \<in> {''/relay/servers/register'', ''/relay/servers/poll''}. rp_url p = build_api_v1_url u route)
     \<and> rp_body p = [(''server_public_key'', JStr (pc_public_key C)), (''capabilities'', JDict (pc_capabilities C))]"

lemma session_post_request:
  "u \<in> relays \<Longrightarrow> route \<in> {''/relay/servers/register'', ''/relay/servers/poll''}
     \<Longrightarrow> session_request C relays (session_post C u route timeout)"
  unfolding session_request_def session_post_def by (auto intro: bexI [of _ u])

text \<open>At most \<open>n\<close> requests, all of them to relays of the ring; no other relay becomes registered or active.\<close>

definition within_ring :: "poll_setup \<Rightarrow> (nat \<times> string) set \<Rightarrow> nat \<Rightarrow> 'w poller \<Rightarrow> 'w poller \<Rightarrow> bool" where
  "within_ring C R n s t \<longleftrightarrow>
     nd_mutations (pl_node t) = nd_mutations (pl_node s)
     \<and> (\<exists>log. nd_log (pl_node t) = nd_log (pl_node s) @ log \<and> length log \<le> n
          \<and> (\<forall>e \<in> set log. session_request C (snd ` R) (fst e)))
     \<and> sn_relay_urls (pl_sessions t) = sn_relay_urls (pl_sessions s)
     \<and> set (sn_registered_relays (pl_sessions t)) \<subseteq> set (sn_registered_relays (pl_sessions s)) \<union> snd ` R
     \<and> sn_active_relay_index (pl_sessions t) \<in> insert (sn_active_relay_index (pl_sessions s)) (fst ` R)"

lemma within_ring_trans:
  assumes "within_ring C R j s t" "within_ring C R k t v"
  shows "within_ring C R (j + k) s v"
proof -
  from assms obtain log log' where
    "nd_log (pl_node t) = nd_log (pl_node s) @ log" "length log \<le> j" "\<forall>e \<in> set log. session_request C (snd ` R) (fst e)"
    "nd_log (pl_node v) = nd_log (pl_node t) @ log'" "length log' \<le> k" "\<forall>e \<in> set log'. session_request C (snd ` R) (fst e)"
    unfolding within_ring_def by blast
  then have "\<exists>log. nd_log (pl_node v) = nd_log (pl_node s) @ log \<and> length log \<le> j + k
      \<and> (\<forall>e \<in> set log. session_request C (snd ` R) (fst e))"
    by (intro exI [of _ "log @ log'"]) auto
  moreover have "sn_active_relay_index (pl_sessions v) \<in> insert (sn_active_relay_index (pl_sessions s)) (fst ` R)"
    using assms unfolding within_ring_def by (metis insert_iff)
  ultimately show ?thesis using assms unfolding within_ring_def by auto
qed

lemma within_ring_quiet:
  "nd_mutations (pl_node t) = nd_mutations (pl_node s) \<Longrightarrow> nd_log (pl_node t) = nd_log (pl_node s)
     \<Longrightarrow> sn_relay_urls (pl_sessions t) = sn_relay_urls (pl_sessions s)
     \<Longrightarrow> set (sn_registered_relays (pl_sessions t)) \<subseteq> set (sn_registered_relays (pl_sessions s)) \<union> snd ` R
     \<Longrightarrow> sn_active_relay_index (pl_sessions t) \<in> insert (sn_active_relay_index (pl_sessions s)) (fst ` R)
     \<Longrightarrow> within_ring C R 0 s t"
  by (simp add: within_ring_def)

lemmas session_changes = set_sessions_def keep_registration_def confirm_registration_def mark_registered_def remember_hints_def
  forget_relay_def Let_def

interpretation ring: poll_laws C W "\<lambda>i u. (i, u) \<in> R" "within_ring C R"
  for C :: poll_setup and W :: "'w node_world" and R :: "(nat \<times> string) set"
proof (unfold_locales, goal_cases trans weaken world posted mutation store confirm mark hints forget beat flag active)
  case trans then show ?case by (rule within_ring_trans)
next
  case weaken then show ?case unfolding within_ring_def by (meson le_trans)
next
  case (posted i u route s timeout reply w)
  then have "session_request C (snd ` R) (session_post C u route timeout)" by (intro session_post_request) force+
  then show ?case by (simp add: within_ring_def posted_to_def)
next
  case mutation then show ?case by (simp add: within_ring_def counted_def uncounted_def end_mutation_def)
qed (intro within_ring_quiet; force simp: on_world_def session_changes)+

end
