(* ===== verification/Node_Polls.thy ===== *)
theory Node_Polls
  imports Node_Sessions
begin

text \<open>
  What a poll returns: work of a relay that is registered, the end of a long poll without work, or an error; and
  the relay that answered is the first to be asked next time.
\<close>

section \<open>Reading back\<close>

definition registered_now :: "poll_setup \<Rightarrow> string \<Rightarrow> sessions \<Rightarrow> bool" where
  "registered_now C u s \<longleftrightarrow>
     u \<in> set (sn_registered_relays s)
     \<and> (case dget (sn_relay_wait_hints s) u of Some h \<Rightarrow> wh_server_key h = Some (pc_public_key C) | None \<Rightarrow> False)
     \<and> dmem u (sn_last_heartbeat_at s)"

text \<open>The work is what the relay sent, but for the interval.\<close>

definition relays_work :: "poll_setup \<Rightarrow> string \<Rightarrow> object \<Rightarrow> bool" where
  "relays_work C body d \<longleftrightarrow>
     (\<exists>sent. pc_loads C body = Some (JDict sent) \<and> (\<forall>k. k \<noteq> ''next_ping_in_x_seconds'' \<longrightarrow> dget d k = dget sent k))"

definition took_body :: "poll_setup \<Rightarrow> nat \<Rightarrow> string \<Rightarrow> string \<Rightarrow> object \<Rightarrow> 'w poller \<Rightarrow> bool" where
  "took_body C i u body d t \<longleftrightarrow>
     registered_now C u (pl_sessions t) \<and> sn_active_relay_index (pl_sessions t) = i
     \<and> sn_last_work_relay_url (pl_sessions t) = Some u
     \<and> (\<exists>timeout before. nd_log (pl_node t) = before @ [(session_post C u ''/relay/servers/poll'' timeout, Posted 200 body)])
     \<and> relays_work C body d"

definition took_work :: "poll_setup \<Rightarrow> nat \<Rightarrow> string \<Rightarrow> object \<Rightarrow> 'w poller \<Rightarrow> bool" where
  "took_work C i u d t \<longleftrightarrow> (\<exists>body. took_body C i u body d t)"

definition idle_result :: "object \<Rightarrow> bool" where
  "idle_result d \<longleftrightarrow> (\<exists>a b. d = no_work a b \<and> b > 0)"

definition idle_poll :: "poll_setup \<Rightarrow> string \<Rightarrow> object \<Rightarrow> 'w poller \<Rightarrow> bool" where
  "idle_poll C u d t \<longleftrightarrow>
     registered_now C u (pl_sessions t) \<and> idle_result d \<and> length (sn_relay_urls (pl_sessions t)) \<le> 1"

section \<open>Weakest preconditions\<close>

text \<open>\<open>yields Q act s\<close>: if the step does not raise, its result and state satisfy \<open>Q\<close>.\<close>

definition yields :: "('a \<Rightarrow> 'w poller \<Rightarrow> bool) \<Rightarrow> ('w, 'a) poll_act \<Rightarrow> 'w poller \<Rightarrow> bool" where
  "yields Q act s \<longleftrightarrow> (\<forall>r t. act s = (Inr r, t) \<longrightarrow> Q r t)"

named_theorems yield_simps

lemma yields_ret [yield_simps]: "yields Q (ret x) s \<longleftrightarrow> Q x s"
  by (auto simp: yields_def)

lemma yields_lift [yield_simps]: "yields Q (lift x) s \<longleftrightarrow> (\<forall>y. x = Inr y \<longrightarrow> Q y s)"
  by (auto simp: yields_def)

lemma yields_bind [yield_simps]: "yields Q (sbind m f) s \<longleftrightarrow> yields (\<lambda>x. yields Q (f x)) m s"
  by (auto simp: yields_def sbind_def split: prod.splits sum.splits)

lemma yields_sessions [yield_simps]:
  "yields Q (in_sessions g) s \<longleftrightarrow> Q () (set_sessions g s)" "yields P the_sessions s \<longleftrightarrow> P (pl_sessions s) s"
  by (auto simp: yields_def run_sessions)

lemma yields_read: "(\<And>x w. Q x (on_world (\<lambda>_. w) s)) \<Longrightarrow> yields Q (on_node (observe f)) s"
  using read_world [of f s] by (auto simp: yields_def)

lemma yields_stopped: "(\<And>x w. Q x (on_world (\<lambda>_. w) s)) \<Longrightarrow> yields Q (polling_stopped W) s"
  using read_stopped [of W s] by (auto simp: yields_def)

lemma yields_heartbeat:
  "(\<And>x w. Q () (set_sessions (\<lambda>y. y\<lparr>sn_last_heartbeat_at := dset u x (sn_last_heartbeat_at y)\<rparr>) (on_world (\<lambda>_. w) s)))
     \<Longrightarrow> yields Q (heartbeat_now W u) s"
  unfolding heartbeat_now_def yields_bind by (intro yields_read) (simp add: yields_sessions)

lemma yields_if: "(p \<Longrightarrow> yields Q a s) \<Longrightarrow> (\<not> p \<Longrightarrow> yields Q b s) \<Longrightarrow> yields Q (if p then a else b) s"
  by simp

lemma yields_dict:
  "(\<And>d. v = JDict d \<Longrightarrow> yields Q (f d) s) \<Longrightarrow> yields Q y s \<Longrightarrow> yields Q (case v of JDict d \<Rightarrow> f d | _ \<Rightarrow> y) s"
  by (cases v) simp_all

lemma yields_opt:
  "(v = None \<Longrightarrow> yields Q y s) \<Longrightarrow> (\<And>x. v = Some x \<Longrightarrow> yields Q (f x) s) \<Longrightarrow> yields Q (case v of None \<Rightarrow> y | Some x \<Rightarrow> f x) s"
  by (cases v) simp_all

lemma yields_mono: "yields P act s \<Longrightarrow> (\<And>x t. P x t \<Longrightarrow> Q x t) \<Longrightarrow> yields Q act s"
  by (auto simp: yields_def)

lemma named_error [simp]: "dmem ''error'' ((''error'', v) # d)"
  by (simp add: dmem_def)

lemma stopped_has_error [simp]: "dmem ''error'' stopped_result"
  by (simp add: stopped_result_def)

lemma no_work_idle: "b > 0 \<Longrightarrow> idle_result (no_work a b)"
  by (auto simp: idle_result_def)

lemma set_sessions_reads [simp]:
  "pl_sessions (set_sessions g s) = g (pl_sessions s)" "pl_node (set_sessions g s) = pl_node s"
  by (simp_all add: set_sessions_def)

lemma posted_reads [simp]:
  "pl_sessions (posted_to p reply w s) = pl_sessions s" "nd_log (pl_node (posted_to p reply w s)) = nd_log (pl_node s) @ [(p, reply)]"
  by (simp_all add: posted_to_def)

section \<open>One relay\<close>

text \<open>What a step for one relay may end with.\<close>

definition step_result :: "poll_setup \<Rightarrow> nat \<Rightarrow> string \<Rightarrow> poll_step \<Rightarrow> 'w poller \<Rightarrow> bool" where
  "step_result C i u step t \<longleftrightarrow>
     (case step of
        PollNext e \<Rightarrow> dmem ''error'' e
      | PollReturn d \<Rightarrow> d = stopped_result \<or> idle_poll C u d t \<or> took_work C i u d t)"

lemma step_result_simps [simp]: "step_result C i u (PollReturn stopped_result) t" "step_result C i u (PollNext e) t \<longleftrightarrow> dmem ''error'' e"
  by (simp_all add: step_result_def)

lemma took_body_intro:
  assumes "u \<in> set (sn_registered_relays s)" "relays_work C body d"
    "nd_log (pl_node t) = before @ [(session_post C u ''/relay/servers/poll'' timeout, Posted 200 body)]"
    "pl_sessions t = (remember_hints C u wait pw s)\<lparr>sn_last_heartbeat_at := dset u beat hearts,
        sn_active_relay_index := i, sn_last_work_relay_url := Some u\<rparr>"
  shows "took_body C i u body d t"
  using assms unfolding took_body_def registered_now_def by (auto simp: remember_hints_def dict_simps)

lemma work_result:
  assumes "u \<in> set (sn_registered_relays (pl_sessions s))" "relays_work C body d"
    "nd_log (pl_node s) = before @ [(session_post C u ''/relay/servers/poll'' timeout, Posted 200 body)]"
  shows "yields (step_result C i u) (sbind (lift x) (\<lambda>pw. sbind (in_sessions (remember_hints C u wait pw)) (\<lambda>_.
    sbind (heartbeat_now W u) (\<lambda>_.
    sbind (in_sessions (\<lambda>s. s\<lparr>sn_active_relay_index := i, sn_last_work_relay_url := Some u\<rparr>)) (\<lambda>_. ret (PollReturn d)))))) s"
proof -
  have "step_result C i u (PollReturn d) t"
    if "pl_sessions t = (remember_hints C u wait pw (pl_sessions s))\<lparr>sn_last_heartbeat_at := dset u beat hearts,
        sn_active_relay_index := i, sn_last_work_relay_url := Some u\<rparr>" "nd_log (pl_node t) = nd_log (pl_node s)" for pw beat hearts t
    using took_body_intro [OF assms(1,2) _ that(1)] assms(3) that(2) by (auto simp: step_result_def took_work_def)
  note worked = this
  show ?thesis unfolding yield_simps by (intro allI impI yields_heartbeat worked) simp_all
qed

lemma answered_result:
  assumes "u \<in> set (sn_registered_relays (pl_sessions s))"
    "nd_log (pl_node s) = before @ [(session_post C u ''/relay/servers/poll'' timeout, Posted status body)]"
  shows "yields (step_result C i u) (poll_answered C W i u a b status body) s"
  unfolding poll_answered_def yields_bind [of _ "polling_stopped W"]
proof (intro yields_stopped yields_if yields_opt yields_dict, goal_cases stopped refused no_json work odd)
  case (work stopped w v d)
  have kept: "relays_work C body (if dmem k d then d else dset k x d)" "relays_work C body (dset k x d)"
    if "k = ''next_ping_in_x_seconds''" for k x
    using work that by (auto simp: relays_work_def dict_simps)
  have "yields (step_result C i u) (sbind (lift y) (\<lambda>x. let (payload, wait) = (case valid_hint x of
        Some s \<Rightarrow> (dset ''next_ping_in_x_seconds'' (JFloat s) d, s)
      | None \<Rightarrow> (if dmem ''next_ping_in_x_seconds'' d then d else dset ''next_ping_in_x_seconds'' (JFloat a) d, a)) in f payload wait))
      (on_world (\<lambda>_. w) s)"
    if "\<And>payload wait. relays_work C body payload \<Longrightarrow> yields (step_result C i u) (f payload wait) (on_world (\<lambda>_. w) s)" for y f
    using that kept by (auto simp: yields_bind yields_lift split: option.split)
  note interval = this
  show ?case by (rule interval, rule work_result) (use assms work in auto)
qed (simp_all add: yield_simps api_v1_http_error_result_def)

lemma failed_result:
  "u \<in> set (sn_registered_relays (pl_sessions s)) \<Longrightarrow> yields (step_result C i u) (poll_failed C W u a b started e) s"
  unfolding poll_failed_def yields_bind Let_def
  by (intro yields_read yields_stopped, unfold yields_sessions, intro yields_if)
    (auto simp: yield_simps step_result_def idle_poll_def registered_now_def no_work_idle remember_hints_def dict_simps intro!: yields_heartbeat
)

lemma registered_result:
  assumes "u \<in> set (sn_registered_relays (pl_sessions s))"
  shows "yields (step_result C i u) (poll_registered C W i u a b) s"
proof -
  let ?p = "session_post C u ''/relay/servers/poll'' (api_v1_poll_timeout_seconds C b)"
  have "yields (step_result C i u) (\<lambda>s. case on_node (post_to_relay W ?p) s of
      (Inl e, t) \<Rightarrow> poll_failed C W u a b started e t
    | (Inr (status, body), t) \<Rightarrow> poll_answered C W i u a b status body t) v"
    if v: "pl_sessions v = pl_sessions s" for started v
  proof -
    obtain q t where q: "on_node (post_to_relay W ?p) v = (q, t)" by fastforce
    from post_on_node [OF q] obtain reply w where t: "t = posted_to ?p reply w v"
      and reply: "\<And>status body. q = Inr (status, body) \<Longrightarrow> reply = Posted status body" by blast
    have reg: "u \<in> set (sn_registered_relays (pl_sessions t))" using assms v by (simp add: t)
    show ?thesis
    proof (cases q)
      case (Inl e)
      with failed_result [OF reg] q show ?thesis by (simp add: yields_def)
    next
      case (Inr x)
      obtain status body where x: "x = (status, body)" by fastforce
      with Inr reply have "nd_log (pl_node t) = nd_log (pl_node v) @ [(?p, Posted status body)]" by (simp add: t)
      from answered_result [OF reg this] Inr q x show ?thesis by (simp add: yields_def)
    qed
  qed
  then show ?thesis unfolding poll_registered_def yields_bind
    by (intro yields_stopped yields_if) (auto simp: yields_ret yields_bind intro!: yields_read)
qed

lemma reason_result:
  "yields (\<lambda>r t. r = None \<longrightarrow> u \<in> set (sn_registered_relays (pl_sessions t))) (reregister_reason C W u hints a) s"
  unfolding reregister_reason_def yields_bind yields_sessions Let_def
  by (intro yields_if yields_opt) (auto simp: yields_ret yields_bind intro!: yields_read)

lemma register_result:
  "yields (\<lambda>r t. case r of Inl step \<Rightarrow> step_result C i u step t | Inr _ \<Rightarrow> u \<in> set (sn_registered_relays (pl_sessions t)))
     (register_step C W u) s"
proof -
  have error: "jtruthy (jget d ''error'') \<Longrightarrow> dmem ''error'' d" "jtruthy (jget d ''error'') \<Longrightarrow> dmem ''error'' (dset k v d)" for d k v
    by (auto simp: jget_def dmem_def dget_dset split: option.splits)
  show ?thesis unfolding register_step_def yields_bind [of _ "polling_stopped W"]
  proof (intro yields_stopped yields_if, goal_cases stopped registering)
    case (registering stopped w)
    show ?case unfolding yields_bind [of _ "register_api_v1_compute_node C W u"]
      by (rule yields_mono [where P = "\<lambda>_ _. True"], simp add: yields_def)
        (intro yields_dict, auto simp: yield_simps error mark_registered_def intro!: yields_if yields_heartbeat yields_stopped)
  qed (simp add: yield_simps)
qed

lemma relay_result: "yields (step_result C i u) (poll_relay C W i u) s"
proof -
  have polled: "yields (\<lambda>r. yields (step_result C i u) (case r of Inl step \<Rightarrow> ret step
        | Inr (a, b) \<Rightarrow> poll_registered C W i u a b)) (if reason = None then ret x else register_step C W u) v"
    if "x = Inr (c, d)" "reason = None \<longrightarrow> u \<in> set (sn_registered_relays (pl_sessions v))" for reason :: "string option" and c d x v
  proof (rule yields_if, goal_cases cached registering)
    case cached
    with that registered_result show ?case by (simp add: yields_ret)
  next
    case registering
    show ?case
      by (rule yields_mono [OF register_result [where i = i]])
        (auto simp: yields_ret registered_result split: sum.splits prod.split)
  qed
  show ?thesis unfolding poll_relay_def Let_def yields_bind yields_sessions
    by (rule yields_mono [OF reason_result], intro yields_stopped yields_if, simp add: yields_ret, unfold yields_bind)
      (rule polled, auto)
qed

lemma guarded_result:
  obtains step t where "poll_guarded C W i u s = (Inr step, t)" "step_result C i u step t"
proof (cases "poll_relay C W i u s")
  case (Pair r v)
  show ?thesis
  proof (cases r)
    case (Inl e)
    obtain stopped w where "polling_stopped W v = (Inr stopped, on_world (\<lambda>_. w) v)" using read_stopped [of W v] by blast
    with Pair Inl that show ?thesis by (cases stopped) (simp_all add: poll_guarded_def sbind_def run_sessions)
  next
    case (Inr step)
    with Pair relay_result [of C i u W s] that show ?thesis by (simp add: poll_guarded_def yields_def)
  qed
qed

section \<open>All relays\<close>

lemma each_result:
  "dmem ''error'' e \<Longrightarrow> \<exists>d t. poll_each C W relays e s = (Inr d, t)
     \<and> (dmem ''error'' d \<or> (\<exists>(i, u) \<in> set relays. idle_poll C u d t \<or> took_work C i u d t))"
proof (induction relays arbitrary: e s)
  case (Cons c relays)
  obtain i u where c: "c = (i, u)" by fastforce
  obtain step t where step: "poll_guarded C W i u s = (Inr step, t)" "step_result C i u step t" by (rule guarded_result)
  show ?case
  proof (cases step)
    case (PollReturn d)
    with step show ?thesis by (auto simp: c sbind_def step_result_def)
  next
    case (PollNext e')
    with step Cons.IH [of e' t] show ?thesis by (fastforce simp: c sbind_def)
  qed
qed simp

lemma ring_offset:
  fixes a :: nat
  assumes "i < n"
  shows "\<exists>k < n. i = (a + k) mod n"
proof -
  let ?k = "(i + (n - a mod n)) mod n"
  have "(a + ?k) mod n = (a mod n + (i + (n - a mod n))) mod n" by (metis mod_add_left_eq mod_add_right_eq)
  moreover have "a mod n + (i + (n - a mod n)) = i + n" using assms mod_less_divisor [of n a] by linarith
  ultimately show ?thesis using assms by (intro exI [of _ ?k]) simp
qed

lemma ring_complete: "set (relay_ring s) = (\<lambda>i. (i, sn_relay_urls s ! i)) ` {..<length (sn_relay_urls s)}"
proof -
  let ?n = "length (sn_relay_urls s)" and ?a = "sn_active_relay_index s"
  have "(\<lambda>k. (?a + k) mod ?n) ` {..<?n} = {..<?n}"
  proof (rule set_eqI)
    fix i show "i \<in> (\<lambda>k. (?a + k) mod ?n) ` {..<?n} \<longleftrightarrow> i \<in> {..<?n}"
      using ring_offset [of i ?n ?a] mod_less_divisor [of ?n] by (cases "?n = 0") auto
  qed
  moreover have "set (relay_ring s) = (\<lambda>i. (i, sn_relay_urls s ! i)) ` (\<lambda>k. (?a + k) mod ?n) ` {..<?n}"
    by (simp add: relay_ring_def Let_def image_image lessThan_atLeast0)
  ultimately show ?thesis by (simp only:)
qed

lemma ring_first: "i < length (sn_relay_urls s) \<Longrightarrow> sn_active_relay_index s = i \<Longrightarrow> hd (relay_ring s) = (i, sn_relay_urls s ! i)"
  by (cases "length (sn_relay_urls s)") (simp_all add: relay_ring_def Let_def upt_conv_Cons del: upt_Suc)

lemma poll_result:
  "\<exists>d t. poll_api_v1_encrypted_work C W s = (Inr d, t)
     \<and> (dmem ''error'' d \<or> (\<exists>(i, u) \<in> set (relay_ring (pl_sessions s)). idle_poll C u d t \<or> took_work C i u d t))"
proof -
  obtain stopped w where stopped: "polling_stopped W s = (Inr stopped, on_world (\<lambda>_. w) s)" using read_stopped [of W s] by blast
  show ?thesis
  proof (cases stopped)
    case False
    with stopped each_result [of "[(''error'', JStr ''No relay targets responded''),
      (''next_ping_in_x_seconds'', JFloat (request_timeout C))]" C W "relay_ring (pl_sessions s)" "on_world (\<lambda>_. w) s"]
    show ?thesis by (simp add: poll_api_v1_encrypted_work_def sbind_def run_sessions)
  qed (use stopped in \<open>simp add: poll_api_v1_encrypted_work_def sbind_def\<close>)
qed

lemma poll_within:
  assumes "poll_api_v1_encrypted_work C W s = (r, t)"
  shows "within_ring C (set (relay_ring (pl_sessions s))) (2 * length (sn_relay_urls (pl_sessions s))) s t"
proof -
  let ?R = "set (relay_ring (pl_sessions s))"
  have ring: "\<forall>(i, u) \<in> set (relay_ring (pl_sessions s)). (i, u) \<in> ?R" by auto
  have n: "length (relay_ring (pl_sessions s)) = length (sn_relay_urls (pl_sessions s))" by (simp add: relay_ring_def Let_def)
  obtain stopped w where stopped: "polling_stopped W s = (Inr stopped, on_world (\<lambda>_. w) s)" using read_stopped [of W s] by blast
  note quiet = ring.keeps_world [of C ?R s "\<lambda>_. w"]
  show ?thesis
  proof (cases stopped)
    case True
    with assms stopped have "t = on_world (\<lambda>_. w) s" by (simp add: poll_api_v1_encrypted_work_def sbind_def)
    with ring.keeps_weaken [OF quiet] show ?thesis by simp
  next
    case False
    with assms stopped have "poll_each C W (relay_ring (pl_sessions s)) [(''error'', JStr ''No relay targets responded''),
        (''next_ping_in_x_seconds'', JFloat (request_timeout C))] (on_world (\<lambda>_. w) s) = (r, t)"
      by (simp add: poll_api_v1_encrypted_work_def sbind_def run_sessions)
    from ring.keeps_trans [OF quiet ring.keptD [OF ring.kept_each [OF ring] this]] show ?thesis by (simp add: n)
  qed
qed

end
