(* ===== verification/Node_Offers.thy ===== *)
theory Node_Offers
  imports Node_Polls
begin

text \<open>
  An undisturbed search for work: a relay that the node is registered with and that answers its poll gets the work taken.
\<close>

section \<open>Steps that return\<close>

text \<open>\<open>gives Q act s\<close>: the step returns, and its result and state satisfy \<open>Q\<close>.\<close>

definition gives :: "('a \<Rightarrow> 'w poller \<Rightarrow> bool) \<Rightarrow> ('w, 'a) poll_act \<Rightarrow> 'w poller \<Rightarrow> bool" where
  "gives Q act s \<longleftrightarrow> (\<exists>r t. act s = (Inr r, t) \<and> Q r t)"

lemma gives_ret: "gives Q (ret x) s \<longleftrightarrow> Q x s"
  by (simp add: gives_def)

lemma gives_lift: "gives Q (lift x) s \<longleftrightarrow> (\<exists>y. x = Inr y \<and> Q y s)"
  by (auto simp: gives_def)

lemma gives_bind: "gives Q (sbind m f) s \<longleftrightarrow> gives (\<lambda>x. gives Q (f x)) m s"
  by (auto simp: gives_def sbind_def split: prod.splits sum.splits)

lemma gives_sessions: "gives Q (in_sessions g) s \<longleftrightarrow> Q () (set_sessions g s)" "gives P the_sessions s \<longleftrightarrow> P (pl_sessions s) s"
  by (auto simp: gives_def run_sessions)

lemmas gives_simps = gives_ret gives_lift gives_bind gives_sessions

lemma gives_read: "(\<And>x w. Q x (on_world (\<lambda>_. w) s)) \<Longrightarrow> gives Q (on_node (observe f)) s"
  using read_world [of f s] by (auto simp: gives_def)

lemma gives_heartbeat:
  "(\<And>x w. Q () (set_sessions (\<lambda>y. y\<lparr>sn_last_heartbeat_at := dset u x (sn_last_heartbeat_at y)\<rparr>) (on_world (\<lambda>_. w) s)))
     \<Longrightarrow> gives Q (heartbeat_now W u) s"
  unfolding heartbeat_now_def gives_bind by (intro gives_read) (simp add: gives_sessions)

section \<open>An undisturbed poll\<close>

text \<open>Nobody stops the node.\<close>

definition goes_on :: "'w node_world \<Rightarrow> bool" where
  "goes_on W \<longleftrightarrow> (\<forall>w. \<not> fl_stopped (fst (nw_flags W w)))"

lemma reads_on:
  assumes "goes_on W"
  obtains w where "polling_stopped W s = (Inr False, on_world (\<lambda>_. w) s)"
proof -
  have "\<not> fl_stopped (fst (nw_flags W (nd_world (pl_node s))))" using assms by (simp add: goes_on_def)
  then have "\<exists>w. polling_stopped W s = (Inr False, on_world (\<lambda>_. w) s)"
    by (simp add: polling_stopped_def sbind_def on_node_def observe_def on_world_def case_prod_beta) blast
  with that show ?thesis by blast
qed

lemma gives_stopped: "goes_on W \<Longrightarrow> (\<And>w. Q False (on_world (\<lambda>_. w) s)) \<Longrightarrow> gives Q (polling_stopped W) s"
  by (rule reads_on [of W s]) (auto simp: gives_def)

lemma reason_run: "\<exists>r w. reregister_reason C W u hints a s = (Inr r, on_world (\<lambda>_. w) s)"
proof -
  have id: "\<exists>w. s = on_world (\<lambda>_. w) s" by (rule exI [of _ "nd_world (pl_node s)"]) (simp add: on_world_def)
  have "gives (\<lambda>r t. \<exists>w. t = on_world (\<lambda>_. w) s) (reregister_reason C W u hints a) s"
    unfolding reregister_reason_def gives_bind [of _ the_sessions] gives_sessions Let_def
    by (auto simp: gives_ret gives_bind split: option.split intro!: gives_read id)
  then show ?thesis by (auto simp: gives_def)
qed

text \<open>The intervals of the relay's answer are no integers beyond the floats.\<close>

definition readable_work :: "poll_setup \<Rightarrow> object \<Rightarrow> bool" where
  "readable_work C d \<longleftrightarrow>
     (\<exists>x. float_of_json (ns_environ (pc_node C)) (jget d ''next_ping_in_x_seconds'') = Inr x)
     \<and> (\<forall>b. \<exists>y. poll_wait_of C (jget_default d ''poll_wait_seconds'' (JFloat b)) = Inr y)"

lemma answered_gives:
  fixes W :: "'w node_world"
  assumes "goes_on W" "pc_loads C body = Some (JDict sent)" "readable_work C sent"
    "u \<in> set (sn_registered_relays (pl_sessions s))"
    "nd_log (pl_node s) = before @ [(session_post C u ''/relay/servers/poll'' timeout, Posted 200 body)]"
  shows "gives (\<lambda>step t. \<exists>d. step = PollReturn d \<and> took_body C i u body d t) (poll_answered C W i u a b 200 body) s"
proof -
  let ?k = "''next_ping_in_x_seconds''"
  obtain x where x: "float_of_json (ns_environ (pc_node C)) (jget sent ?k) = Inr x" using assms(3) by (auto simp: readable_work_def)
  have poll_wait: "\<exists>y. poll_wait_of C (jget_default d ''poll_wait_seconds'' (JFloat b)) = Inr y"
    if "d \<in> {sent, dset ?k v sent}" for d b v
    using assms(3) that by (auto simp: readable_work_def jget_default_def dict_simps)
  have work: "relays_work C body d" if "d \<in> {sent, dset ?k v sent}" for d v
    using assms(2) that by (auto simp: relays_work_def dict_simps)
  have "took_body C i u body d t"
    if "relays_work C body d" "pl_sessions t = (remember_hints C u wait pw (pl_sessions s))\<lparr>sn_last_heartbeat_at := dset u beat hearts,
        sn_active_relay_index := i, sn_last_work_relay_url := Some u\<rparr>" "nd_log (pl_node t) = nd_log (pl_node s)" for d wait pw beat hearts and t :: "'w poller"
    using took_body_intro [OF assms(4) that(1) _ that(2)] assms(5) that(3) by simp
  note worked = this
  have "gives (\<lambda>step t. \<exists>d. step = PollReturn d \<and> took_body C i u body d t)
      (sbind (lift (poll_wait_of C (jget_default d ''poll_wait_seconds'' (JFloat b)))) (\<lambda>pw.
        sbind (in_sessions (remember_hints C u wait pw)) (\<lambda>_. sbind (heartbeat_now W u) (\<lambda>_.
        sbind (in_sessions (\<lambda>s. s\<lparr>sn_active_relay_index := i, sn_last_work_relay_url := Some u\<rparr>)) (\<lambda>_. ret (PollReturn d))))))
      (on_world (\<lambda>_. w) s)" if d: "d \<in> {sent, dset ?k v sent}" for d wait w v
  proof -
    obtain pw where pw: "poll_wait_of C (jget_default d ''poll_wait_seconds'' (JFloat b)) = Inr pw" using poll_wait [OF d] by blast
    have "relays_work C body d" by (rule work [OF d])
    then show ?thesis unfolding gives_bind [of _ "lift _"] gives_lift pw gives_bind [of _ "in_sessions _"] gives_sessions gives_bind
      by (intro exI [of _ pw] conjI refl gives_heartbeat) (simp add: gives_simps, rule worked, simp_all)
  qed
  note taken = this [OF insertI1] this [OF insertI2, OF insertI1]
  have known: "gives Q (sbind (lift (Inr x)) f) t \<longleftrightarrow> gives Q (f x) t" for Q f and t :: "'w poller"
    by (simp add: gives_bind gives_lift)
  show ?thesis unfolding poll_answered_def gives_bind [of _ "polling_stopped W"]
    by (rule gives_stopped [OF assms(1)]) (simp add: assms(2) x known taken split: option.split)
qed

text \<open>The relay's network answers every poll of the node with \<open>body\<close>.\<close>

definition offers :: "poll_setup \<Rightarrow> 'w node_world \<Rightarrow> string \<Rightarrow> string \<Rightarrow> bool" where
  "offers C W u body \<longleftrightarrow>
     (\<forall>p w. rp_url p = build_api_v1_url u ''/relay/servers/poll'' \<longrightarrow> fst (nw_post W p w) = Posted 200 body)"

lemma offered_post:
  assumes "offers C W u body"
  shows "\<exists>w. on_node (post_to_relay W (session_post C u ''/relay/servers/poll'' timeout)) s
     = (Inr (200, body), posted_to (session_post C u ''/relay/servers/poll'' timeout) (Posted 200 body) w s)"
proof -
  let ?p = "session_post C u ''/relay/servers/poll'' timeout"
  have "fst (nw_post W ?p (nd_world (pl_node s))) = Posted 200 body" using assms by (simp add: offers_def session_post_def)
  then obtain w where "nw_post W ?p (nd_world (pl_node s)) = (Posted 200 body, w)" by (cases "nw_post W ?p (nd_world (pl_node s))") simp
  then show ?thesis by (auto simp: on_node_def post_to_relay_def posted_to_def)
qed

lemma registered_gives:
  assumes "goes_on W" "offers C W u body" "pc_loads C body = Some (JDict sent)" "readable_work C sent"
    "u \<in> set (sn_registered_relays (pl_sessions s))"
  shows "gives (\<lambda>step t. \<exists>d. step = PollReturn d \<and> took_body C i u body d t) (poll_registered C W i u a b) s"
proof -
  let ?p = "session_post C u ''/relay/servers/poll'' (api_v1_poll_timeout_seconds C b)"
  have "gives (\<lambda>step t. \<exists>d. step = PollReturn d \<and> took_body C i u body d t) (\<lambda>s. case on_node (post_to_relay W ?p) s of
      (Inl e, t) \<Rightarrow> poll_failed C W u a b started e t
    | (Inr (status, body), t) \<Rightarrow> poll_answered C W i u a b status body t) v"
    if v: "pl_sessions v = pl_sessions s" for started v
  proof -
    obtain w where w: "on_node (post_to_relay W ?p) v = (Inr (200, body), posted_to ?p (Posted 200 body) w v)"
      using offered_post [OF assms(2)] by blast
    have "gives (\<lambda>step t. \<exists>d. step = PollReturn d \<and> took_body C i u body d t) (poll_answered C W i u a b 200 body)
        (posted_to ?p (Posted 200 body) w v)"
      by (rule answered_gives [OF assms(1,3,4)]) (use assms(5) v in simp_all)
    with w show ?thesis by (simp add: gives_def)
  qed
  then show ?thesis unfolding poll_registered_def gives_bind [of _ "polling_stopped W"]
    by (intro gives_stopped [OF assms(1)]) (auto simp: gives_bind [of _ "on_node (observe (nw_time W))"] intro!: gives_read)
qed

text \<open>The lease is fresh: no reason to register again.\<close>

definition lease_fresh :: "poll_setup \<Rightarrow> 'w node_world \<Rightarrow> string \<Rightarrow> 'w poller \<Rightarrow> bool" where
  "lease_fresh C W u s \<longleftrightarrow>
     (\<exists>h a. dget (sn_relay_wait_hints (pl_sessions s)) u = Some h \<and> wh_next_ping h = Some a \<and> a > 0
        \<and> (\<forall>w. fst (reregister_reason C W u h a (on_world (\<lambda>_. w) s)) = Inr None))"

lemma fresh_gives:
  assumes "goes_on W" "offers C W u body" "pc_loads C body = Some (JDict sent)" "readable_work C sent" "lease_fresh C W u s"
  shows "gives (\<lambda>step t. \<exists>d. step = PollReturn d \<and> took_body C i u body d t) (poll_relay C W i u) (on_world (\<lambda>_. w) s)"
proof -
  obtain h a where h: "dget (sn_relay_wait_hints (pl_sessions s)) u = Some h" "wh_next_ping h = Some a" "a > 0"
    and none: "fst (reregister_reason C W u h a (on_world (\<lambda>_. w) s)) = Inr None"
    using assms(5) by (auto simp: lease_fresh_def)
  from reason_run [of C W u h a "on_world (\<lambda>_. w) s"] none obtain w' where
    run: "reregister_reason C W u h a (on_world (\<lambda>_. w) s) = (Inr None, on_world (\<lambda>_. w') (on_world (\<lambda>_. w) s))"
    by auto
  then have reg: "u \<in> set (sn_registered_relays (pl_sessions s))"
    using reason_result [of u C W h a "on_world (\<lambda>_. w) s"] by (simp add: yields_def)
  show ?thesis unfolding poll_relay_def gives_bind [of _ the_sessions] gives_sessions Let_def
    using h run reg registered_gives [OF assms(1-4)]
    by (auto simp: gives_bind [of _ "reregister_reason C W u h a"] gives_bind [of _ "polling_stopped W"] gives_def [of _ "reregister_reason C W u h a"]
        gives_bind [of _ "ret _"] gives_ret intro!: gives_stopped [OF assms(1)])
qed

lemma offer_taken:
  assumes "goes_on W" "offers C W u body" "pc_loads C body = Some (JDict sent)" "readable_work C sent" "lease_fresh C W u s"
    and "i < length (sn_relay_urls (pl_sessions s))" "i = sn_active_relay_index (pl_sessions s)" "u = sn_relay_urls (pl_sessions s) ! i"
  shows "\<exists>d t. poll_api_v1_encrypted_work C W s = (Inr d, t) \<and> took_body C i u body d t"
proof -
  obtain rest where ring: "relay_ring (pl_sessions s) = (i, u) # rest"
  proof -
    have "length (relay_ring (pl_sessions s)) = length (sn_relay_urls (pl_sessions s))" by (simp add: relay_ring_def Let_def)
    then have "relay_ring (pl_sessions s) \<noteq> []" using assms(6) by fastforce
    from hd_Cons_tl [OF this] that ring_first [of i "pl_sessions s"] assms(6-8) show ?thesis by metis
  qed
  obtain w where w: "polling_stopped W s = (Inr False, on_world (\<lambda>_. w) s)" by (rule reads_on [OF assms(1)])
  from fresh_gives [OF assms(1-5)] obtain d t where
    "poll_relay C W i u (on_world (\<lambda>_. w) s) = (Inr (PollReturn d), t)" and taken: "took_body C i u body d t"
    unfolding gives_def by blast
  then have "poll_guarded C W i u (on_world (\<lambda>_. w) s) = (Inr (PollReturn d), t)" by (simp add: poll_guarded_def)
  then have "poll_each C W (relay_ring (pl_sessions s)) e (on_world (\<lambda>_. w) s) = (Inr d, t)" for e by (simp add: ring sbind_def)
  with w taken show ?thesis by (auto simp: poll_api_v1_encrypted_work_def sbind_def run_sessions)
qed

end
