(* ===== verification/Node_Capabilities.thy ===== *)
theory Node_Capabilities
  imports Relay_Capabilities Context_Profiles Model_Profiles Api_Routes Node_Requests
begin

text \<open>
  What a compute node registers of itself (\<^verbatim>\<open>src/utils/networking/relay_client.py\<close>): the ids of the models its model
  manager (\<^verbatim>\<open>src/utils/llm/model_manager.py\<close>) can serve, its context tier and its backend.
\<close>

section \<open>Model ids\<close>

text \<open>The attributes of a model manager that the node reads; \<open>None\<close> is one that is missing or no string.\<close>

record runtime_model =
  rm_api_model_id :: "string option"
  rm_profile_id :: "string option"
  rm_model_id :: "string option"
  rm_file_name :: "string option"
  rm_model_path :: "string option"

definition basename :: "string \<Rightarrow> string" where
  "basename path = rev (takeWhile (\<lambda>c. c \<noteq> CHR ''/'') (rev path))"

definition plain_id :: "string \<Rightarrow> string" where
  "plain_id s = py_lower (py_strip s)"

definition named :: "string option \<Rightarrow> string list" where
  "named value = (case value of Some s \<Rightarrow> if s = [] then [] else [s] | None \<Rightarrow> [])"

definition supports_api_v1_model :: "runtime_model \<Rightarrow> string \<Rightarrow> bool" where
  "supports_api_v1_model M model_id \<longleftrightarrow>
     py_strip model_id \<noteq> []
     \<and> plain_id model_id \<in> set (map plain_id (concat (map named
          [rm_api_model_id M, rm_profile_id M, rm_file_name M, map_option basename (rm_model_path M)])))"

definition configured_names :: "runtime_model \<Rightarrow> string list" where
  "configured_names M =
     concat (map named [rm_api_model_id M, rm_model_id M, rm_file_name M, map_option basename (rm_model_path M)])"

definition configured_ids :: "runtime_model \<Rightarrow> string list" where
  "configured_ids M = map plain_id (filter (\<lambda>s. py_strip s \<noteq> []) (configured_names M))"

text \<open>The entries of the catalogue hold strings, or nothing, under these keys.\<close>

definition entry_text :: "object \<Rightarrow> string \<Rightarrow> string list" where
  "entry_text entry key = (case jget entry key of JStr s \<Rightarrow> named (Some s) | _ \<Rightarrow> [])"

definition normalised_model_ids_from_api_v1_entry :: "object \<Rightarrow> string list" where
  "normalised_model_ids_from_api_v1_entry entry =
     filter (\<lambda>s. s \<noteq> []) (map plain_id (entry_text entry ''id'' @ entry_text entry ''base_model_id'' @ entry_text entry ''file_name''
       @ filter (\<lambda>s. s \<noteq> []) (map basename (entry_text entry ''file_name''))))"

definition api_v1_catalogue_ids_for_configured_runtime :: "string list \<Rightarrow> string list" where
  "api_v1_catalogue_ids_for_configured_runtime configured =
     concat (filter (\<lambda>ids. set ids \<inter> set configured \<noteq> {}) (map normalised_model_ids_from_api_v1_entry get_models_info))"

text \<open>\<open>judges\<close>: the class of the manager defines \<^verbatim>\<open>supports_api_v1_model\<close>.\<close>

definition api_v1_supported_model_ids :: "bool \<Rightarrow> runtime_model \<Rightarrow> string list" where
  "api_v1_supported_model_ids judges M =
     (let ids = configured_ids M;
          served = (if judges
            then filter (supports_api_v1_model M) (ids @ map fst build_model_aliases @ dvals build_model_aliases)
            else ids @ api_v1_catalogue_ids_for_configured_runtime ids)
      in filter (\<lambda>i. \<not> ends_with i ''.gguf'') (sort (remdups served)))"

section \<open>Capabilities\<close>

definition backend_reported :: "json \<Rightarrow> string" where
  "backend_reported compute =
     (case compute of
        JDict d \<Rightarrow>
          (case jor (jget d ''backend_used'') (jor (jget d ''backend_selected'') (jor (jget d ''backend_available'') (JStr ''unknown''))) of
             JStr t \<Rightarrow>
               (let b = py_lower (py_strip t)
                in if b \<in> {''cpu'', ''cuda'', ''metal'', ''vulkan'', ''gpu'', ''unknown''} then b else ''unknown'')
           | _ \<Rightarrow> ''unknown'')
      | _ \<Rightarrow> ''unknown'')"

text \<open>From the context tier of the model manager, its models and its diagnostics.\<close>

definition api_v1_compute_node_capabilities :: "bool \<Rightarrow> runtime_model \<Rightarrow> string option \<Rightarrow> json \<Rightarrow> profile_error + object" where
  "api_v1_compute_node_capabilities judges M tier compute =
     ebind (get_context_profile (Some (normalize_context_tier tier))) (\<lambda>p.
       Inr [(''api_version'', JStr ''v1''), (''supported_model_ids'', JList (map JStr (api_v1_supported_model_ids judges M))),
            (''active_context_tier'', JStr (profile_id p)),
            (''maximum_total_context_tokens'', JInt (int (total_context_tokens p))),
            (''default_output_token_reservation'', JInt (int (default_output_reservation_tokens p))),
            (''maximum_output_tokens'', JInt (max (int (default_output_reservation_tokens p)) 8192)),
            (''max_concurrency'', JInt 1), (''backend_class'', JStr (backend_reported compute))])"

section \<open>Facts\<close>

lemma plain_fixed [simp]: "plain_id (plain_id s) = plain_id s"
  by (simp add: plain_id_def py_strip_lower)

lemma normal_plain: "plain_id s \<noteq> [] \<Longrightarrow> length (plain_id s) \<le> 128 \<Longrightarrow> normal_id (plain_id s)"
  by (simp add: normal_id_def plain_id_def py_strip_lower)

lemma backend_reported_allowed: "backend_reported v \<in> set ALLOWED_BACKEND_CLASSES"
  by (auto simp: backend_reported_def ALLOWED_BACKEND_CLASSES_def Let_def split: json.split)

lemma catalogue_normal:
  "list_all (\<lambda>ids. list_all normal_id ids \<and> length ids \<le> 4) (map normalised_model_ids_from_api_v1_entry get_models_info)
     \<and> length get_models_info \<le> 8"
  by code_simp

lemma aliases_normal: "list_all normal_id (map fst build_model_aliases @ dvals build_model_aliases) \<and> length build_model_aliases \<le> 8"
  by code_simp

lemma tier_profile:
  obtains p where "get_context_profile (Some (normalize_context_tier tier)) = Inr p"
    "dget CONTEXT_TIER_ORDER (profile_id p) = Some (total_context_tokens p)"
    "1 \<le> total_context_tokens p" "total_context_tokens p \<le> 1000000" "default_output_reservation_tokens p = 1024"
proof -
  obtain p where p: "dget CONTEXT_PROFILES (normalize_context_tier tier) = Some p" using normalized_known by blast
  have "list_all (\<lambda>p. dget CONTEXT_TIER_ORDER (profile_id p) = Some (total_context_tokens p) \<and> 1 \<le> total_context_tokens p
      \<and> total_context_tokens p \<le> 1000000 \<and> default_output_reservation_tokens p = 1024) (dvals CONTEXT_PROFILES)"
    by code_simp
  with map_of_SomeD [OF p] that get_known [OF p] show ?thesis by (force simp: list_all_iff)
qed

lemma length_concat_filter: "list_all (\<lambda>xs. length xs \<le> k) xss \<Longrightarrow> length (concat (filter P xss)) \<le> k * length xss"
  by (induction xss) auto

lemma length_configured: "length (configured_ids M) \<le> 4"
proof -
  have "length (named v) \<le> 1" for v by (simp add: named_def split: option.split)
  then have "list_all (\<lambda>xs. length xs \<le> 1) (map named vs)" for vs by (simp add: list_all_iff)
  from length_concat_filter [OF this, where P = "\<lambda>_. True"]
  have "length (concat (map named vs)) \<le> length vs" for vs by simp
  then have "length (configured_names M) \<le> length [1, 1, 1, 1 :: nat]"
    unfolding configured_names_def by (rule order_trans) simp
  then have "length (configured_names M) \<le> 4" by simp
  then show ?thesis unfolding configured_ids_def length_map by (rule order_trans [OF length_filter_le])
qed

lemma catalogue_ids:
  "length (api_v1_catalogue_ids_for_configured_runtime ids) \<le> 32"
  "list_all normal_id (api_v1_catalogue_ids_for_configured_runtime ids)"
proof -
  let ?all = "map normalised_model_ids_from_api_v1_entry get_models_info"
  have "list_all (\<lambda>ids. length ids \<le> 4) ?all" "length ?all \<le> 8" using catalogue_normal by (auto simp: list_all_iff)
  then show "length (api_v1_catalogue_ids_for_configured_runtime ids) \<le> 32"
    unfolding api_v1_catalogue_ids_for_configured_runtime_def
    using length_concat_filter [of 4 ?all "\<lambda>i. set i \<inter> set ids \<noteq> {}"] by linarith
  show "list_all normal_id (api_v1_catalogue_ids_for_configured_runtime ids)"
    using catalogue_normal by (auto simp: api_v1_catalogue_ids_for_configured_runtime_def list_all_iff)
qed

lemma served_ids:
  obtains served where "api_v1_supported_model_ids judges M = filter (\<lambda>i. \<not> ends_with i ''.gguf'') (sort (remdups served))"
    "length served \<le> 64" "\<And>i. i \<in> set served \<Longrightarrow> i \<in> set (configured_ids M) \<or> normal_id i"
    "\<And>i. i \<in> set (configured_ids M) \<Longrightarrow> \<not> judges \<or> supports_api_v1_model M i \<Longrightarrow> i \<in> set served"
    "\<And>i. judges \<Longrightarrow> i \<in> set served \<Longrightarrow> supports_api_v1_model M i"
proof (cases judges)
  case True
  define known where "known = map fst build_model_aliases @ dvals build_model_aliases"
  have known: "list_all normal_id known" "length known \<le> 16" using aliases_normal by (simp_all add: known_def)
  let ?served = "filter (supports_api_v1_model M) (configured_ids M @ known)"
  have "length ?served \<le> 64" using known(2) length_configured [of M] by (intro order_trans [OF length_filter_le]) simp
  moreover have "api_v1_supported_model_ids judges M = filter (\<lambda>i. \<not> ends_with i ''.gguf'') (sort (remdups ?served))"
    using True by (simp only: api_v1_supported_model_ids_def Let_def simp_thms if_True if_False known_def)
  ultimately show ?thesis using True known(1) by (intro that [of ?served]) (auto simp: list_all_iff)
next
  case False
  let ?served = "configured_ids M @ api_v1_catalogue_ids_for_configured_runtime (configured_ids M)"
  have "length ?served \<le> 64" using catalogue_ids(1) [of "configured_ids M"] length_configured [of M] by simp
  moreover have "api_v1_supported_model_ids judges M = filter (\<lambda>i. \<not> ends_with i ''.gguf'') (sort (remdups ?served))"
    using False by (simp only: api_v1_supported_model_ids_def Let_def simp_thms if_True if_False)
  ultimately show ?thesis using False catalogue_ids(2) by (intro that [of ?served]) (auto simp: list_all_iff)
qed

text \<open>The names of the model are short enough, and its API id is no file name.\<close>

definition plain_names :: "runtime_model \<Rightarrow> bool" where
  "plain_names M \<longleftrightarrow>
     (case rm_api_model_id M of Some i \<Rightarrow> plain_id i \<noteq> [] \<and> \<not> ends_with (plain_id i) ''.gguf'' | None \<Rightarrow> False)
     \<and> list_all (\<lambda>s. length (plain_id s) \<le> 128) (configured_names M)"

lemma plain_nonempty: "plain_id s \<noteq> [] \<longleftrightarrow> py_strip s \<noteq> []"
  by (metis plain_id_def length_py_lower length_0_conv)

lemma configured_normal: "plain_names M \<Longrightarrow> i \<in> set (configured_ids M) \<Longrightarrow> normal_id i"
  using normal_plain plain_nonempty by (auto simp: configured_ids_def plain_names_def list_all_iff)

lemma api_id_served:
  assumes "plain_names M" "rm_api_model_id M = Some i"
  shows "plain_id i \<in> set (configured_ids M)" "supports_api_v1_model M (plain_id i)"
proof -
  have i: "py_strip i \<noteq> []" "i \<noteq> []" "plain_id i \<noteq> []"
    using assms plain_nonempty [of i] by (auto simp: plain_names_def py_strip_def)
  with assms(2) show "plain_id i \<in> set (configured_ids M)" "supports_api_v1_model M (plain_id i)"
    using plain_nonempty [of "plain_id i"] by (auto simp: configured_ids_def configured_names_def named_def supports_api_v1_model_def)
qed

lemma advertised_ids:
  assumes "plain_names M"
  shows "list_all normal_id (api_v1_supported_model_ids judges M)" "distinct (api_v1_supported_model_ids judges M)"
    "length (api_v1_supported_model_ids judges M) \<le> 64"
    "rm_api_model_id M = Some i \<Longrightarrow> plain_id i \<in> set (api_v1_supported_model_ids judges M)"
    "judges \<Longrightarrow> m \<in> set (api_v1_supported_model_ids judges M) \<Longrightarrow> supports_api_v1_model M m"
proof -
  obtain served where served:
    "api_v1_supported_model_ids judges M = filter (\<lambda>i. \<not> ends_with i ''.gguf'') (sort (remdups served))"
    "length served \<le> 64" "\<And>i. i \<in> set served \<Longrightarrow> i \<in> set (configured_ids M) \<or> normal_id i"
    "\<And>i. i \<in> set (configured_ids M) \<Longrightarrow> \<not> judges \<or> supports_api_v1_model M i \<Longrightarrow> i \<in> set served"
    "\<And>i. judges \<Longrightarrow> i \<in> set served \<Longrightarrow> supports_api_v1_model M i"
    using served_ids [of judges M] by blast
  show "list_all normal_id (api_v1_supported_model_ids judges M)" "distinct (api_v1_supported_model_ids judges M)"
    using served(1,3) configured_normal [OF assms] by (auto simp: list_all_iff)
  show "length (api_v1_supported_model_ids judges M) \<le> 64"
    using served(1,2) length_remdups_leq [of served] length_filter_le [of _ "sort (remdups served)"] by (metis length_sort order_trans)
  show "plain_id i \<in> set (api_v1_supported_model_ids judges M)" if "rm_api_model_id M = Some i"
    using api_id_served [OF assms that] served(1,4) assms that by (simp add: plain_names_def)
  show "judges \<Longrightarrow> m \<in> set (api_v1_supported_model_ids judges M) \<Longrightarrow> supports_api_v1_model M m"
    using served(1,5) by simp
qed

text \<open>What the node registers is in the form that the relay keeps.\<close>

lemma capabilities_normal:
  assumes "plain_names M"
  obtains c where "api_v1_compute_node_capabilities judges M tier compute = Inr (capability_object c)" "normal_capabilities c"
    "supported_model_ids c = api_v1_supported_model_ids judges M" "max_concurrency c = 1"
proof -
  obtain p where p: "get_context_profile (Some (normalize_context_tier tier)) = Inr p"
    "dget CONTEXT_TIER_ORDER (profile_id p) = Some (total_context_tokens p)"
    "1 \<le> total_context_tokens p" "total_context_tokens p \<le> 1000000" "default_output_reservation_tokens p = 1024"
    by (rule tier_profile)
  define c where "c = \<lparr>supported_model_ids = api_v1_supported_model_ids judges M, active_context_tier = profile_id p,
    maximum_total_context_tokens = total_context_tokens p, default_output_token_reservation = 1024, maximum_output_tokens = 8192,
    max_concurrency = 1, backend_class = backend_reported compute\<rparr>"
  obtain i where "rm_api_model_id M = Some i" using assms by (auto simp: plain_names_def split: option.splits)
  from advertised_ids(4) [OF assms this] have "api_v1_supported_model_ids judges M \<noteq> []" by (metis empty_iff empty_set)
  then have "normal_capabilities c"
    using p advertised_ids(1,2,3) [OF assms] backend_reported_allowed by (simp add: normal_capabilities_def c_def)
  moreover have "api_v1_compute_node_capabilities judges M tier compute = Inr (capability_object c)"
    by (simp add: api_v1_compute_node_capabilities_def capability_object_def c_def p(1,5))
  ultimately show ?thesis by (intro that [of c]) (simp_all add: c_def)
qed

end
