(* ===== verification/Node_Poll_Properties.thy ===== *)
theory Node_Poll_Properties
  imports Node_Offers Node_Capabilities Node_Properties
begin

text \<open>
  The properties of a compute node's search for work: where it asks and how often, what it takes for work, when it renews
  a registration, and that the relay accepts the capabilities it registers.
\<close>

section \<open>A node that polls\<close>

definition test_poll :: poll_setup where
  "test_poll =
     \<lparr>pc_node = test_node, pc_public_key = ''YQ=='', pc_capabilities = [], pc_loads = (\<lambda>_. Some (JDict [])), pc_times = (\<lambda>a b. FNum (a * b)),
      pc_read_timed_out = (\<lambda>_. False), pc_exception_name = (\<lambda>_. ''Exception''), pc_diagnostic = (\<lambda>_ _ _. [])\<rparr>"

definition test_hints :: wait_hints where
  "test_hints = \<lparr>wh_next_ping = Some 60, wh_poll_wait = Some 20, wh_server_key = Some ''YQ==''\<rparr>"

definition test_sessions :: "rat \<Rightarrow> sessions" where
  "test_sessions beat =
     \<lparr>sn_relay_urls = [''http://relay''], sn_active_relay_index = 0, sn_registered_relays = [''http://relay''],
      sn_last_heartbeat_at = [(''http://relay'', beat)], sn_relay_wait_hints = [(''http://relay'', test_hints)],
      sn_control_credentials = [], sn_relay_capabilities = [], sn_last_work_relay_url = None, sn_unregister_complete = False\<rparr>"

definition test_model :: runtime_model where
  "test_model =
     \<lparr>rm_api_model_id = Some ''qwen3-8b-instruct'', rm_profile_id = Some ''qwen3-8b-q4-k-m'', rm_model_id = None,
      rm_file_name = Some ''Qwen3-8B-Q4_K_M.gguf'', rm_model_path = Some ''models/Qwen3-8B-Q4_K_M.gguf''\<rparr>"

section \<open>Renewing in time\<close>

lemma f_order [simp]: "f_at_least (FNum a) (FNum b) \<longleftrightarrow> b \<le> a"
  by (auto simp: f_at_least_def)

lemma threshold_inside:
  assumes "lease > 0" "pc_times C lease POINT_EIGHT = FNum x" "x < lease" "pc_times C lease (1 / 2) = FNum y" "y < lease"
  obtains h where "api_v1_refresh_threshold_seconds C lease = FNum h" "y \<le> h" "h < lease"
proof -
  let ?m = "f_min (FNum x) (fo_minus (ns_floats (pc_node C)) lease 1)"
  have "(\<exists>h. f_max ?m (FNum y) = FNum h \<and> y \<le> h \<and> h < lease)"
    using assms by (cases "fo_minus (ns_floats (pc_node C)) lease 1") (auto simp: f_min_def f_max_def)
  with assms that show ?thesis by (auto simp: api_v1_refresh_threshold_seconds_def)
qed

lemma reason_by_age:
  assumes "api_v1_refresh_threshold_seconds C lease = FNum h" "h > 0"
    and "u \<in> set (sn_registered_relays (pl_sessions s))" "wh_server_key hints = Some (pc_public_key C)"
    and "dget (sn_last_heartbeat_at (pl_sessions s)) u = Some beat"
    and "nw_time W (nd_world (pl_node s)) = (now, w)" "fo_minus (ns_floats (pc_node C)) now beat = FNum age"
  shows "fst (reregister_reason C W u hints lease s) = Inr (if h \<le> age then Some ''lease_expiry_risk'' else None)"
  using assms by (simp add: reregister_reason_def sbind_def run_sessions on_node_def observe_def)

lemma test_minus: "fo_minus (ns_floats (pc_node test_poll)) a b = FNum (a - b)"
  by (simp add: test_poll_def test_node_def exact_floats_def)

lemma test_fresh: "lease_fresh test_poll (test_world False) ''http://relay'' \<lparr>pl_node = test_start, pl_sessions = test_sessions 990\<rparr>"
proof -
  obtain h where h: "api_v1_refresh_threshold_seconds test_poll 60 = FNum h" "30 \<le> h"
    by (rule threshold_inside [of 60 test_poll "60 * POINT_EIGHT" 30]) (simp_all add: test_poll_def POINT_EIGHT_def)
  have "fst (reregister_reason test_poll (test_world False) ''http://relay'' test_hints 60
      (on_world (\<lambda>_. w) \<lparr>pl_node = test_start, pl_sessions = test_sessions 990\<rparr>)) = Inr (if h \<le> 1000 - 990 then Some ''lease_expiry_risk'' else None)" for w
    by (rule reason_by_age [OF h(1) _ _ _ _ _ test_minus])
      (use h(2) in \<open>simp_all add: test_sessions_def test_hints_def test_poll_def test_world_def\<close>)
  with h(2) show ?thesis
    unfolding lease_fresh_def by (intro exI [of _ test_hints] exI [of _ 60]) (simp add: test_sessions_def, simp add: test_hints_def)
qed

section \<open>Properties\<close>

text \<open>C30 (safety). One search for work, whatever the relays and the network answer, asks only the configured relays: it adds
  at most two requests per relay to what the node has sent, each of them a registration or a poll of one of these relays
  with the node's own key and capabilities. It leaves the list of relays alone, registers with no other relay, selects
  no relay outside the list and ends every state change that it began.\<close>

theorem search_stays_with_the_configured_relays:
  "let t = snd (poll_api_v1_encrypted_work C W s); urls = sn_relay_urls (pl_sessions s)
   in (\<exists>sent. nd_log (pl_node t) = nd_log (pl_node s) @ sent \<and> length sent \<le> 2 * length urls
         \<and> list_all (\<lambda>(p, reply). session_request C (set urls) p) sent)
      \<and> sn_relay_urls (pl_sessions t) = urls
      \<and> set (sn_registered_relays (pl_sessions t)) \<subseteq> set (sn_registered_relays (pl_sessions s)) \<union> set urls
      \<and> sn_active_relay_index (pl_sessions t) \<in> insert (sn_active_relay_index (pl_sessions s)) {..<length urls}
      \<and> nd_mutations (pl_node t) = nd_mutations (pl_node s)"
proof -
  let ?t = "snd (poll_api_v1_encrypted_work C W s)" and ?urls = "sn_relay_urls (pl_sessions s)"
  have "within_ring C (set (relay_ring (pl_sessions s))) (2 * length ?urls) s ?t"
    by (rule poll_within [where r = "fst (poll_api_v1_encrypted_work C W s)"]) simp
  moreover have "snd ` set (relay_ring (pl_sessions s)) = set ?urls" "fst ` set (relay_ring (pl_sessions s)) = {..<length ?urls}"
    using nth_image [of "length ?urls" ?urls] by (simp_all add: ring_complete image_image lessThan_atLeast0)
  ultimately show ?thesis unfolding within_ring_def Let_def by (simp add: list_all_iff case_prod_beta)
qed

text \<open>C31 (functional). A search for work never raises. What it returns names an error, or says that the only relay held the
  request as long as it had announced, or is work: then the node's last request was a poll that one of its relays answered
  with status 200, the work is what this answer holds but for the interval, the node counts as registered there with its
  present key and a heartbeat, and this relay is the one it asks first next time.\<close>

theorem work_comes_from_a_registered_relay:
  "\<exists>d t. poll_api_v1_encrypted_work C W s = (Inr d, t)
     \<and> (dmem ''error'' d
        \<or> (\<exists>i u. i < length (sn_relay_urls (pl_sessions s)) \<and> u = sn_relay_urls (pl_sessions s) ! i
             \<and> (idle_poll C u d t \<or> took_work C i u d t \<and> hd (relay_ring (pl_sessions t)) = (i, u))))"
proof -
  obtain d t where run: "poll_api_v1_encrypted_work C W s = (Inr d, t)"
    and d: "dmem ''error'' d \<or> (\<exists>(i, u) \<in> set (relay_ring (pl_sessions s)). idle_poll C u d t \<or> took_work C i u d t)"
    using poll_result [of C W s] by blast
  have urls: "sn_relay_urls (pl_sessions t) = sn_relay_urls (pl_sessions s)"
    using poll_within [OF run] by (simp add: within_ring_def)
  have "hd (relay_ring (pl_sessions t)) = (i, sn_relay_urls (pl_sessions s) ! i)"
    if "took_work C i u d t" "i < length (sn_relay_urls (pl_sessions s))" for i u
    using ring_first [of i "pl_sessions t"] that urls by (auto simp: took_work_def took_body_def)
  with run d show ?thesis by (auto simp: ring_complete)
qed

text \<open>C32 (liveness). Work that a relay offers is taken: when nobody stops the node, the active relay answers polls with an object
  whose intervals can be read, and the lease there is fresh, the search returns that object as work of this relay.\<close>

theorem offered_work_is_taken:
  assumes "goes_on W" "offers C W u body" "pc_loads C body = Some (JDict sent)" "readable_work C sent" "lease_fresh C W u s"
    and "sn_active_relay_index (pl_sessions s) < length (sn_relay_urls (pl_sessions s))"
    and "u = sn_relay_urls (pl_sessions s) ! sn_active_relay_index (pl_sessions s)"
  shows "\<exists>d t. poll_api_v1_encrypted_work C W s = (Inr d, t) \<and> took_body C (sn_active_relay_index (pl_sessions s)) u body d t"
  using offer_taken [OF assms(1-6) refl assms(7)] .

theorem offered_work_is_taken_witness:
  "\<exists>d t. poll_api_v1_encrypted_work test_poll (test_world False) \<lparr>pl_node = test_start, pl_sessions = test_sessions 990\<rparr> = (Inr d, t)
     \<and> took_body test_poll 0 ''http://relay'' ''{}'' d t"
proof -
  have "readable_work test_poll []"
    by (simp add: readable_work_def float_of_json_def poll_wait_of_def normalise_poll_wait_seconds_def api_v1_valid_relative_seconds_def
        jget_def jget_default_def)
  note readable = this
  have node: "goes_on (test_world False)" "offers test_poll (test_world False) ''http://relay'' ''{}''"
    by (simp_all add: goes_on_def offers_def test_world_def)
  have body: "pc_loads test_poll ''{}'' = Some (JDict [])" by (simp add: test_poll_def)
  have active: "sn_active_relay_index (pl_sessions \<lparr>pl_node = test_start, pl_sessions = test_sessions 990\<rparr>) = 0"
    "sn_relay_urls (pl_sessions \<lparr>pl_node = test_start, pl_sessions = test_sessions 990\<rparr>) = [''http://relay'']"
    by (simp_all add: test_sessions_def)
  show ?thesis by (rule offered_work_is_taken [OF node body readable test_fresh, unfolded active]) simp_all
qed

text \<open>A node that is registered with its present key renews the registration when its last heartbeat is as old
  as the lease, and does not while the heartbeat is younger than half of it. The products with 0.8 and with one half may be
  rounded, as long as they stay below the lease.\<close>

theorem lease_is_renewed_in_time:
  assumes "lease > 0" "pc_times C lease POINT_EIGHT = FNum x" "x < lease" "pc_times C lease (1 / 2) = FNum y" "0 < y" "y < lease"
    and "u \<in> set (sn_registered_relays (pl_sessions s))" "wh_server_key hints = Some (pc_public_key C)"
    and "dget (sn_last_heartbeat_at (pl_sessions s)) u = Some beat"
    and "nw_time W (nd_world (pl_node s)) = (now, w)" "fo_minus (ns_floats (pc_node C)) now beat = FNum age"
  shows "(age \<ge> lease \<longrightarrow> fst (reregister_reason C W u hints lease s) = Inr (Some ''lease_expiry_risk''))
     \<and> (age < y \<longrightarrow> fst (reregister_reason C W u hints lease s) = Inr None)"
proof -
  obtain h where h: "api_v1_refresh_threshold_seconds C lease = FNum h" "y \<le> h" "h < lease"
    using threshold_inside assms(1-4,6) by blast
  have "fst (reregister_reason C W u hints lease s) = Inr (if h \<le> age then Some ''lease_expiry_risk'' else None)"
    by (rule reason_by_age [OF h(1)]) (use assms h(2) in simp_all)
  with h show ?thesis by simp
qed

theorem lease_is_renewed_in_time_witness:
  "fst (reregister_reason test_poll (test_world False) ''http://relay'' test_hints 60
       \<lparr>pl_node = test_start, pl_sessions = test_sessions 940\<rparr>) = Inr (Some ''lease_expiry_risk'')
   \<and> fst (reregister_reason test_poll (test_world False) ''http://relay'' test_hints 60
       \<lparr>pl_node = test_start, pl_sessions = test_sessions 990\<rparr>) = Inr None"
proof -
  have "(1000 - beat \<ge> 60 \<longrightarrow> fst (reregister_reason test_poll (test_world False) ''http://relay'' test_hints 60
       \<lparr>pl_node = test_start, pl_sessions = test_sessions beat\<rparr>) = Inr (Some ''lease_expiry_risk''))
     \<and> (1000 - beat < 30 \<longrightarrow> fst (reregister_reason test_poll (test_world False) ''http://relay'' test_hints 60
       \<lparr>pl_node = test_start, pl_sessions = test_sessions beat\<rparr>) = Inr None)" for beat
    by (rule lease_is_renewed_in_time [where x = "60 * POINT_EIGHT" and beat = beat and now = 1000 and w = "()"])
      (simp_all add: test_minus, simp_all add: test_poll_def POINT_EIGHT_def test_sessions_def test_hints_def test_world_def)
  from this [of 940] this [of 990] show ?thesis by simp
qed

text \<open>C33 (refinement). The capabilities of a node whose model has an API id and short names are complete, the relay accepts
  them as they are, and the API id of the model is among the models. A model manager that judges models advertises only
  what it supports.\<close>

theorem registered_capabilities_are_accepted:
  assumes "plain_names M" "rm_api_model_id M = Some i"
  shows "\<exists>d ids. api_v1_compute_node_capabilities judges M tier compute = Inr d
     \<and> normalise_api_v1_capabilities (JDict d) = Inr d
     \<and> dget d ''supported_model_ids'' = Some (JList (map JStr ids)) \<and> plain_id i \<in> set ids
     \<and> (judges \<longrightarrow> list_all (supports_api_v1_model M) ids)"
proof -
  obtain c where c: "api_v1_compute_node_capabilities judges M tier compute = Inr (capability_object c)" "normal_capabilities c"
    "supported_model_ids c = api_v1_supported_model_ids judges M"
    using capabilities_normal [OF assms(1)] by blast
  have "normalise_api_v1_capabilities (JDict (capability_object c)) = Inr (capability_object c)"
    using normal_refixed [OF c(2)] by (simp add: normalise_api_v1_capabilities_def)
  with c(1,3) advertised_ids(4,5) [OF assms(1)] assms(2) show ?thesis
    by (intro exI [of _ "capability_object c"] exI [of _ "supported_model_ids c"]) (auto simp: capability_object_def list_all_iff)
qed

theorem registered_capabilities_are_accepted_witness:
  "\<exists>d ids. api_v1_compute_node_capabilities True test_model (Some ''64k-full'') JNull = Inr d
     \<and> normalise_api_v1_capabilities (JDict d) = Inr d
     \<and> dget d ''supported_model_ids'' = Some (JList (map JStr ids)) \<and> plain_id ''qwen3-8b-instruct'' \<in> set ids
     \<and> list_all (supports_api_v1_model test_model) ids"
proof -
  have "plain_names test_model" by code_simp
  moreover have "rm_api_model_id test_model = Some ''qwen3-8b-instruct''" by (simp add: test_model_def)
  ultimately show ?thesis using registered_capabilities_are_accepted [of test_model _ True] by simp
qed

end
