(* ===== verification/V2_Models.thy ===== *)
theory V2_Models
  imports Api_Models
begin

text \<open>The model catalogue of \<^verbatim>\<open>src/api/v2/models.py\<close>.\<close>

definition v2_AVAILABLE_MODELS :: "object list" where
  "v2_AVAILABLE_MODELS =
     [[(''id'', JStr ''llama-3-8b-instruct''),
       (''name'', JStr ''Meta Llama 3.1 8B Instruct''),
       (''description'', JStr (''Meta'' @ [CHR 0x27] @ ''s refreshed 8B instruction-tuned release with Q4_K_M quantisation; the artifact ''
         @ ''is roughly 4.9 GB and stays well within a 24 GB RTX 4090 budget.'')),
       (''parameters'', JStr ''8B''),
       (''quantization'', JStr ''Q4_K_M''),
       (''context_length'', JInt 8192),
       (''url'', JStr (''https://huggingface.co/bartowski/Meta-Llama-3.1-8B-Instruct-GGUF/resolve/main/Meta-Llama-3.1-8B-Instruct-Q4_K_M.gguf'')),
       (''file_name'', JStr ''Meta-Llama-3.1-8B-Instruct-Q4_K_M.gguf''),
       (''adapters'', JList [JDict [(''id'', JStr ''llama-3-8b-instruct:alignment''),
                (''name'', JStr ''Meta Llama 3.1 8B Alignment Assistant''),
                (''description'', JStr (''Alignment-focused profile that layers a safety charter on the base model while ''
                  @ ''reusing the same 4.9 GB quantised weights.'')),
                (''instructions'', JStr (''You are the alignment-focused variant of Meta Llama 3.1 8B. Follow the provided ''
                  @ ''safety charter to remain helpful, honest, harmless, and to call out uncertain ''
                  @ ''answers.'')),
                (''share_base'', JBool True)]])],
      [(''id'', JStr ''gpt-oss-20b''),
       (''name'', JStr ''OpenAI gpt-oss 20B''),
       (''description'', JStr (''OpenAI'' @ [CHR 0x27] @ ''s open-weight MoE model; the unsloth GGUF notes the 20B variant runs within 16 ''
         @ ''GB of memory, keeping it inside RTX 4090 limits while delivering strong coding ''
         @ ''performance.'')),
       (''parameters'', JStr ''20B (MoE)''),
       (''quantization'', JStr ''MXFP4/BF16''),
       (''context_length'', JInt 65536),
       (''url'', JStr ''https://huggingface.co/unsloth/gpt-oss-20b-GGUF/resolve/main/gpt-oss-20b-Q4_K_M.gguf''),
       (''file_name'', JStr ''gpt-oss-20b-Q4_K_M.gguf'')],
      [(''id'', JStr ''mistral-7b-instruct''),
       (''name'', JStr ''Mistral 7B Instruct v0.2''),
       (''description'', JStr (''Balanced 7B chat model with a recommended Q4_K_M build requiring around 6.9 GB of ''
         @ ''VRAM when fully offloaded.'')),
       (''parameters'', JStr ''7B''),
       (''quantization'', JStr ''Q4_K_M''),
       (''context_length'', JInt 8192),
       (''url'', JStr (''https://huggingface.co/TheBloke/Mistral-7B-Instruct-v0.2-GGUF/resolve/main/mistral-7b-instruct-v0.2.Q4_K_M.gguf'')),
       (''file_name'', JStr ''mistral-7b-instruct-v0.2.Q4_K_M.gguf'')],
      [(''id'', JStr ''mixtral-8x7b-instruct''),
       (''name'', JStr ''Mixtral 8x7B Instruct''),
       (''description'', JStr (''Mixture-of-experts release; the Q3_K_M build is ~20 GB with a 22.9 GB RAM footprint, ''
         @ ''fitting comfortably on a 24 GB card while retaining MoE quality.'')),
       (''parameters'', JStr ''8x7B MoE''),
       (''quantization'', JStr ''Q3_K_M''),
       (''context_length'', JInt 32768),
       (''url'', JStr (''https://huggingface.co/TheBloke/Mixtral-8x7B-Instruct-v0.1-GGUF/resolve/main/mixtral-8x7b-instruct-v0.1.Q3_K_M.gguf'')),
       (''file_name'', JStr ''mixtral-8x7b-instruct-v0.1.Q3_K_M.gguf'')],
      [(''id'', JStr ''phi-3-mini-4k-instruct''),
       (''name'', JStr ''Phi-3 Mini 4K Instruct''),
       (''description'', JStr (''Compact Microsoft Phi-3 variant; the Q4_K_M weight is ~2.4 GB, ideal for tooling ''
         @ ''workloads on consumer GPUs.'')),
       (''parameters'', JStr ''3.8B''),
       (''quantization'', JStr ''Q4_K_M''),
       (''context_length'', JInt 4096),
       (''url'', JStr (''https://huggingface.co/bartowski/Phi-3-mini-4k-instruct-GGUF/resolve/main/Phi-3-mini-4k-instruct-Q4_K_M.gguf'')),
       (''file_name'', JStr ''Phi-3-mini-4k-instruct-Q4_K_M.gguf'')],
      [(''id'', JStr ''mistral-nemo-instruct''),
       (''name'', JStr ''Mistral Nemo Instruct 2407''),
       (''description'', JStr (''Frontier 12B collaboration between Mistral and NVIDIA; the Q4_K_M quant occupies ''
         @ ''roughly 7.5 GB enabling rich multimodal-style responses on a 4090.'')),
       (''parameters'', JStr ''12B''),
       (''quantization'', JStr ''Q4_K_M''),
       (''context_length'', JInt 32768),
       (''url'', JStr (''https://huggingface.co/bartowski/Mistral-Nemo-Instruct-2407-GGUF/resolve/main/Mistral-Nemo-Instruct-2407-Q4_K_M.gguf'')),
       (''file_name'', JStr ''Mistral-Nemo-Instruct-2407-Q4_K_M.gguf'')],
      [(''id'', JStr ''qwen2.5-7b-instruct''),
       (''name'', JStr ''Qwen2.5 7B Instruct''),
       (''description'', JStr (''Qwen'' @ [CHR 0x27] @ ''s 7B general assistant; the recommended Q4_K_M build is 4.68 GB, keeping latency ''
         @ ''low while supporting long contexts.'')),
       (''parameters'', JStr ''7B''),
       (''quantization'', JStr ''Q4_K_M''),
       (''context_length'', JInt 131072),
       (''url'', JStr (''https://huggingface.co/bartowski/Qwen2.5-7B-Instruct-GGUF/resolve/main/Qwen2.5-7B-Instruct-Q4_K_M.gguf'')),
       (''file_name'', JStr ''Qwen2.5-7B-Instruct-Q4_K_M.gguf'')],
      [(''id'', JStr ''qwen2.5-coder-7b-instruct''),
       (''name'', JStr ''Qwen2.5 Coder 7B Instruct''),
       (''description'', JStr (''Code-specialised Qwen2.5 variant with the same lightweight Q4_K_M footprint (~4.68 ''
         @ ''GB) tuned for IDE copilots.'')),
       (''parameters'', JStr ''7B''),
       (''quantization'', JStr ''Q4_K_M''),
       (''context_length'', JInt 131072),
       (''url'', JStr (''https://huggingface.co/bartowski/Qwen2.5-Coder-7B-Instruct-GGUF/resolve/main/Qwen2.5-Coder-7B-Instruct-Q4_K_M.gguf'')),
       (''file_name'', JStr ''Qwen2.5-Coder-7B-Instruct-Q4_K_M.gguf'')],
      [(''id'', JStr ''gemma-2-9b-it''),
       (''name'', JStr ''Gemma 2 9B IT''),
       (''description'', JStr (''Google'' @ [CHR 0x27] @ ''s Gemma 2 chat model; the Q4_K_M GGUF is ~5.8 GB enabling fast inference and ''
         @ ''strong multilingual coverage.'')),
       (''parameters'', JStr ''9B''),
       (''quantization'', JStr ''Q4_K_M''),
       (''context_length'', JInt 8192),
       (''url'', JStr ''https://huggingface.co/bartowski/gemma-2-9b-it-GGUF/resolve/main/gemma-2-9b-it-Q4_K_M.gguf''),
       (''file_name'', JStr ''gemma-2-9b-it-Q4_K_M.gguf'')],
      [(''id'', JStr ''codegemma-7b''),
       (''name'', JStr ''CodeGemma 7B''),
       (''description'', JStr (''Gemma'' @ [CHR 0x27] @ ''s code-specialised sibling; the recommended Q4_K_M build is 5.3 GB, providing ''
         @ ''coding assistance without saturating GPU memory.'')),
       (''parameters'', JStr ''7B''),
       (''quantization'', JStr ''Q4_K_M''),
       (''context_length'', JInt 8192),
       (''url'', JStr ''https://huggingface.co/bartowski/codegemma-7b-GGUF/resolve/main/codegemma-7b-Q4_K_M.gguf''),
       (''file_name'', JStr ''codegemma-7b-Q4_K_M.gguf'')],
      [(''id'', JStr ''smollm2-1.7b-instruct''),
       (''name'', JStr ''SmolLM2 1.7B Instruct''),
       (''description'', JStr (''Ultra-light 1.7B assistant from Hugging Face; the Q4_K_M artifact is about 1.1 GB, ''
         @ ''perfect for latency-sensitive tasks.'')),
       (''parameters'', JStr ''1.7B''),
       (''quantization'', JStr ''Q4_K_M''),
       (''context_length'', JInt 8192),
       (''url'', JStr (''https://huggingface.co/bartowski/SmolLM2-1.7B-Instruct-GGUF/resolve/main/SmolLM2-1.7B-Instruct-Q4_K_M.gguf'')),
       (''file_name'', JStr ''SmolLM2-1.7B-Instruct-Q4_K_M.gguf'')]]"

definition v2_iter_model_entries :: "object list" where
  "v2_iter_model_entries =
     concat (map (\<lambda>base.
        dset ''base_model_id'' (jget base ''id'') (ddel ''adapters'' base)
        # (case jget base ''adapters'' of
             JList as \<Rightarrow> concat (map (\<lambda>a. case a of JDict d \<Rightarrow> [adapter_entry base d] | _ \<Rightarrow> []) as)
           | _ \<Rightarrow> [])) v2_AVAILABLE_MODELS)"

definition v2_get_models_info :: "object list" where
  "v2_get_models_info = v2_iter_model_entries"

definition v2_model_ids :: "string list" where
  "v2_model_ids = map (\<lambda>e. case jget e ''id'' of JStr i \<Rightarrow> i | _ \<Rightarrow> []) v2_get_models_info"

text \<open>The identifiers, and what the first version of the API makes of them.\<close>

lemma v2_ids:
  "v2_model_ids =
     [''llama-3-8b-instruct'', ''llama-3-8b-instruct:alignment'', ''gpt-oss-20b'', ''mistral-7b-instruct'', ''mixtral-8x7b-instruct'',
      ''phi-3-mini-4k-instruct'', ''mistral-nemo-instruct'', ''qwen2.5-7b-instruct'', ''qwen2.5-coder-7b-instruct'', ''gemma-2-9b-it'',
      ''codegemma-7b'', ''smollm2-1.7b-instruct'']"
  by code_simp

lemma v2_unknown_models:
  "list_all (\<lambda>m. canonical_model m = m \<and> get_model_metadata m = None) (tl v2_model_ids)"
  unfolding v2_ids by code_simp

lemma v2_alias: "canonical_model ''llama-3-8b-instruct'' = ''qwen3-8b-instruct''"
  by code_simp

end
