(* ===== verification/Image_Analysis.thy ===== *)
theory Image_Analysis
  imports Api_Validation "HOL-Library.Word"
begin

text \<open>
  What \<^verbatim>\<open>src/utils/vision/image_analysis.py\<close> reads of an image: its base64 text, the type its first bytes
  tell, the dimensions in the header of a PNG, a GIF or a JPEG, and the sentence about them.
\<close>

section \<open>Decoding\<close>

type_synonym bytes = "8 word list"

definition left_strip :: "string \<Rightarrow> string" where
  "left_strip s = dropWhile is_space s"

definition strip_data_url :: "string \<Rightarrow> string" where
  "strip_data_url encoded =
     (let trimmed = left_strip encoded
      in if py_lower (take 5 trimmed) = ''data:'' then py_strip (tl (dropWhile (\<lambda>c. c \<noteq> CHR '','') trimmed))
         else py_strip trimmed)"

definition b64_value :: "char \<Rightarrow> nat" where
  "b64_value c =
     (let n = char_code c
      in if 65 \<le> n \<and> n \<le> 90 then n - 65 else if 97 \<le> n \<and> n \<le> 122 then n - 71
         else if 48 \<le> n \<and> n \<le> 57 then n + 4 else if n = 43 then 62 else 63)"

fun b64_bytes :: "nat list \<Rightarrow> bytes" where
  "b64_bytes (a # b # c # d # r) =
     word_of_nat (a * 4 + b div 16) # word_of_nat (b mod 16 * 16 + c div 4) # word_of_nat (c mod 4 * 64 + d) # b64_bytes r"
| "b64_bytes [a, b, c] = [word_of_nat (a * 4 + b div 16), word_of_nat (b mod 16 * 16 + c div 4)]"
| "b64_bytes [a, b] = [word_of_nat (a * 4 + b div 16)]"
| "b64_bytes _ = []"

definition b64decode :: "string \<Rightarrow> bytes option" where
  "b64decode s = (if b64decodes s then Some (b64_bytes (map b64_value (filter is_b64 s))) else None)"

text \<open>\<open>None\<close> is the \<^verbatim>\<open>ValueError\<close> of an empty or malformed payload.\<close>

definition decode_base64_image :: "string \<Rightarrow> bytes option" where
  "decode_base64_image encoded =
     (let normalized = filter (\<lambda>c. \<not> is_space c) (strip_data_url encoded)
      in if normalized = [] then None else b64decode normalized)"

section \<open>Dimensions\<close>

text \<open>\<^verbatim>\<open>struct.unpack\<close> of unsigned integers, the most significant byte first and last.\<close>

definition big_endian :: "bytes \<Rightarrow> nat" where
  "big_endian bs = foldl (\<lambda>n b. n * 256 + unat b) 0 bs"

definition little_endian :: "bytes \<Rightarrow> nat" where
  "little_endian bs = big_endian (rev bs)"

definition slice_bytes :: "bytes \<Rightarrow> nat \<Rightarrow> nat \<Rightarrow> bytes" where
  "slice_bytes data i n = take n (drop i data)"

definition png_signature :: bytes where
  "png_signature = [0x89, 0x50, 0x4E, 0x47, 0x0D, 0x0A, 0x1A, 0x0A]"

definition gif_signatures :: "bytes list" where
  "gif_signatures = [[0x47, 0x49, 0x46, 0x38, 0x37, 0x61], [0x47, 0x49, 0x46, 0x38, 0x39, 0x61]]"

definition extract_png_dimensions :: "bytes \<Rightarrow> (nat \<times> nat) option" where
  "extract_png_dimensions data =
     (if length data < 24 \<or> take 8 data \<noteq> png_signature then None
      else Some (big_endian (slice_bytes data 16 4), big_endian (slice_bytes data 20 4)))"

definition extract_gif_dimensions :: "bytes \<Rightarrow> (nat \<times> nat) option" where
  "extract_gif_dimensions data =
     (if length data < 10 \<or> take 6 data \<notin> set gif_signatures then None
      else Some (little_endian (slice_bytes data 6 2), little_endian (slice_bytes data 8 2)))"

definition frame_markers :: "8 word list" where
  "frame_markers = [0xC0, 0xC1, 0xC2, 0xC3, 0xC5, 0xC6, 0xC7, 0xC9, 0xCA, 0xCB, 0xCD, 0xCE, 0xCF]"

text \<open>The loop over the markers and segments of a JPEG.\<close>

function jpeg_from :: "bytes \<Rightarrow> nat \<Rightarrow> (nat \<times> nat) option" where
  "jpeg_from data index =
     (if index + 1 < length data
      then if data ! index \<noteq> 0xFF then jpeg_from data (index + 1)
           else if data ! (index + 1) \<in> {0xD8, 0xD9} then jpeg_from data (index + 2)
           else if index + 4 > length data then None
           else (let n = big_endian (slice_bytes data (index + 2) 2)
                 in if n < 2 \<or> index + 2 + n > length data then None
                    else if data ! (index + 1) \<in> set frame_markers
                    then if n < 7 then None
                         else Some (big_endian (slice_bytes data (index + 7) 2), big_endian (slice_bytes data (index + 5) 2))
                    else jpeg_from data (index + 2 + n))
      else None)"
  by pat_completeness auto

termination
  by (relation "measure (\<lambda>(data, index). length data - index)") auto

declare jpeg_from.simps [simp del]

definition extract_jpeg_dimensions :: "bytes \<Rightarrow> (nat \<times> nat) option" where
  "extract_jpeg_dimensions data = (if length data < 4 \<or> take 2 data \<noteq> [0xFF, 0xD8] then None else jpeg_from data 2)"

definition detect_image_type :: "bytes \<Rightarrow> string option" where
  "detect_image_type data =
     (if take 8 data = png_signature then Some ''png''
      else if take 6 data \<in> set gif_signatures then Some ''gif''
      else if take 2 data = [0xFF, 0xD8] then Some ''jpeg''
      else None)"

definition image_dimensions :: "string option \<Rightarrow> bytes \<Rightarrow> (nat \<times> nat) option" where
  "image_dimensions image_type data =
     (case image_type of
        None \<Rightarrow> None
      | Some t \<Rightarrow>
          if t = ''png'' then extract_png_dimensions data
          else if t = ''gif'' then extract_gif_dimensions data
          else if t \<in> {''jpeg'', ''jpg''} then extract_jpeg_dimensions data
          else None)"

section \<open>The analysis\<close>

record image_analysis =
  an_format :: "string option"
  an_dimensions :: "(nat \<times> nat) option"
  an_size_bytes :: nat
  an_orientation :: "string option"

definition orientation_of :: "(nat \<times> nat) option \<Rightarrow> string option" where
  "orientation_of d =
     (case d of
        Some (width, height) \<Rightarrow>
          if width = 0 \<or> height = 0 then None
          else Some (if width = height then ''square'' else if width > height then ''landscape'' else ''portrait'')
      | None \<Rightarrow> None)"

definition analyze_base64_image :: "string \<Rightarrow> image_analysis option" where
  "analyze_base64_image encoded =
     map_option (\<lambda>binary.
       (let t = detect_image_type binary; d = image_dimensions t binary
        in \<lparr>an_format = t, an_dimensions = d, an_size_bytes = length binary, an_orientation = orientation_of d\<rparr>))
       (decode_base64_image encoded)"

definition upper_char :: "char \<Rightarrow> char" where
  "upper_char c = (let n = char_code c in if 97 \<le> n \<and> n \<le> 122 then char_of (n - 32) else c)"

definition analysis_line :: "image_analysis \<Rightarrow> string" where
  "analysis_line a =
     (case an_format a of Some f \<Rightarrow> map upper_char f | None \<Rightarrow> ''UNKNOWN'') @ '' image''
     @ (case an_dimensions a of
          Some (width, height) \<Rightarrow>
            if width = 0 \<or> height = 0 then [] else '', '' @ show_nat width @ ''x'' @ show_nat height @ '' px''
        | None \<Rightarrow> [])
     @ '', '' @ show_nat (an_size_bytes a) @ '' bytes''
     @ (case an_orientation a of Some s \<Rightarrow> '', '' @ s @ '' orientation'' | None \<Rightarrow> [])"

fun enumerated_lines :: "nat \<Rightarrow> string list \<Rightarrow> string" where
  "enumerated_lines i [] = []"
| "enumerated_lines i (l # ls) = CHR 0x0A # show_nat i @ ''. '' @ l @ enumerated_lines (Suc i) ls"

definition summarize_analysis :: "image_analysis list \<Rightarrow> string" where
  "summarize_analysis records =
     (case map analysis_line records of
        [] \<Rightarrow> ''Vision analysis unavailable.''
      | [l] \<Rightarrow> ''Vision analysis: '' @ l @ ''.''
      | ls \<Rightarrow> ''Vision analysis:'' @ enumerated_lines 1 ls)"

end
