(* ===== verification/Api_V2.thy ===== *)
theory Api_V2
  imports V2_Models Image_Analysis Api_Routes
begin

text \<open>
  The second version of the completion routes (\<^verbatim>\<open>src/api/v2/routes.py\<close>): messages with images, server-sent
  events, and a model in the API's own process.
\<close>

section \<open>Messages\<close>

definition image_of_block :: "object \<Rightarrow> json" where
  "image_of_block d = jor (jget d ''image'') (jget d ''image_url'')"

definition encoded_image :: "object \<Rightarrow> json" where
  "encoded_image p = jor (jget p ''b64_json'') (jor (jget p ''base64'') (jget p ''data''))"

definition url_of_block :: "object \<Rightarrow> json" where
  "url_of_block d = (case jget d ''image_url'' of JDict u \<Rightarrow> jget u ''url'' | v \<Rightarrow> v)"

definition v2_validate_content_item :: "nat \<Rightarrow> nat \<Rightarrow> json \<Rightarrow> api_error + unit" where
  "v2_validate_content_item i j item =
     (let wrong = (\<lambda>t. Inl (messages_error [Text (at_item i j @ t)]))
      in case item of
        JDict d \<Rightarrow>
          (let ty = jget d ''type'' in
           if \<not> hashable ty then Inl UnhashableTypeError
           else if ty \<in> JStr ` set text_types
           then (case jget d ''text'' of JStr (c # cs) \<Rightarrow> Inr () | _ \<Rightarrow> wrong ''.text must be a non-empty string'')
           else if ty = JStr ''image_url''
           then (case url_of_block d of JStr (c # cs) \<Rightarrow> Inr () | _ \<Rightarrow> wrong ''.image_url.url must be a non-empty string'')
           else if ty \<in> {JStr ''input_image'', JStr ''image''}
           then (case image_of_block d of
                   JDict p \<Rightarrow>
                     (case encoded_image p of
                        JStr (c # cs) \<Rightarrow>
                          if b64decodes (c # cs) then Inr () else wrong ''.image must contain valid base64 data''
                      | _ \<Rightarrow> wrong ''.image must include base64 data'')
                 | _ \<Rightarrow> wrong ''.image must be an object'')
           else Inl (messages_error [Text (''Unsupported content type in '' @ at_message i @ '': ''), Value ty]))
      | _ \<Rightarrow> wrong '' must be an object'')"

fun v2_validate_content_items :: "nat \<Rightarrow> nat \<Rightarrow> json list \<Rightarrow> api_error + unit" where
  "v2_validate_content_items i j [] = Inr ()"
| "v2_validate_content_items i j (item # items) =
     ebind (v2_validate_content_item i j item) (\<lambda>_. v2_validate_content_items i (j + 1) items)"

definition v2_validate_content :: "nat \<Rightarrow> json \<Rightarrow> api_error + unit" where
  "v2_validate_content i content =
     (case content of
        JStr _ \<Rightarrow> Inr ()
      | JList items \<Rightarrow>
          if items = []
          then Inl (messages_error [Text (at_message i @ ''.content must contain at least one item'')])
          else v2_validate_content_items i 0 items
      | _ \<Rightarrow> Inl (messages_error [Text (at_message i @ ''.content must be a string or array of content blocks'')]))"

definition v2_validate_message :: "nat \<Rightarrow> json \<Rightarrow> api_error + unit" where
  "v2_validate_message i message =
     (case message of
        JDict d \<Rightarrow>
          ebind (validate_required_fields d [''role'', ''content'']) (\<lambda>_.
          ebind (validate_field_type d ''role'' StrType False) (\<lambda>_.
          ebind (echeck (jget d ''role'' \<notin> JStr ` set valid_roles)
            (messages_error [Text (''Invalid role in '' @ at_message i @ '': ''), Value (jget d ''role'')])) (\<lambda>_.
          v2_validate_content i (jget d ''content''))))
      | _ \<Rightarrow> Inl (messages_error [Text (at_message i @ '' must be an object'')]))"

fun v2_validate_messages_from :: "nat \<Rightarrow> json list \<Rightarrow> api_error + unit" where
  "v2_validate_messages_from i [] = Inr ()"
| "v2_validate_messages_from i (m # ms) =
     ebind (v2_validate_message i m) (\<lambda>_. v2_validate_messages_from (i + 1) ms)"

definition v2_validate_chat_messages :: "json \<Rightarrow> api_error + unit" where
  "v2_validate_chat_messages messages =
     (case messages of
        JList ms \<Rightarrow> v2_validate_messages_from 0 ms
      | _ \<Rightarrow> Inl (messages_error [Text ''Messages must be an array'']))"

section \<open>Images\<close>

text \<open>
  The encoded image of a block, and whether the block only refers to a remote one. The validator has already
  refused a type that cannot be hashed.
\<close>

definition extract_base64_payload :: "object \<Rightarrow> string option \<times> bool" where
  "extract_base64_payload part =
     (if jget part ''type'' \<in> {JStr ''input_image'', JStr ''image''}
      then (case image_of_block part of
              JDict p \<Rightarrow> (case encoded_image p of JStr e \<Rightarrow> if py_strip e \<noteq> [] then Some e else None | _ \<Rightarrow> None, False)
            | _ \<Rightarrow> (None, False))
      else if jget part ''type'' = JStr ''image_url''
      then (case url_of_block part of
              JStr url \<Rightarrow> if take 5 url = ''data:'' then (Some url, False) else (None, True)
            | _ \<Rightarrow> (None, False))
      else (None, False))"

definition image_payloads :: "json list \<Rightarrow> (string option \<times> bool) list" where
  "image_payloads messages =
     concat (map (\<lambda>m. case m of
         JDict d \<Rightarrow>
           (case jget d ''content'' of
              JList blocks \<Rightarrow> concat (map (\<lambda>b. case b of JDict e \<Rightarrow> [extract_base64_payload e] | _ \<Rightarrow> []) blocks)
            | _ \<Rightarrow> [])
       | _ \<Rightarrow> []) messages)"

definition build_v2_vision_summary :: "json list \<Rightarrow> string option" where
  "build_v2_vision_summary messages =
     (let payloads = image_payloads messages;
          analyses = List.map_filter (\<lambda>(e, _). Option.bind e analyze_base64_image) payloads;
          skipped_remote = list_ex snd payloads
      in if analyses \<noteq> []
         then Some (summarize_analysis analyses
           @ (if skipped_remote then '' Additional attachments reference remote URLs; provide base64 data for inline analysis.'' else []))
         else if skipped_remote
         then Some ''Vision analysis unavailable: remote image URLs require base64 data URIs for inspection.''
         else None)"

section \<open>Streams\<close>

text \<open>\<^verbatim>\<open>iter_stream_content_chunks\<close>: texts and lists are sliced alike.\<close>

function stream_chunks :: "nat \<Rightarrow> 'a list \<Rightarrow> 'a list list" where
  "stream_chunks n xs = (if xs = [] \<or> n = 0 then [] else take n xs # stream_chunks n (drop n xs))"
  by pat_completeness auto

termination
  by (relation "measure (\<lambda>(n, xs). length xs)") auto

declare stream_chunks.simps [simp del]

definition max_chunk_size :: nat where
  "max_chunk_size = 512"

text \<open>The pieces of the content; \<open>None\<close> when it is neither text nor list, which breaks the stream off.\<close>

definition content_pieces :: "json \<Rightarrow> json list option" where
  "content_pieces content =
     (if \<not> jtruthy content then Some []
      else case content of
        JStr t \<Rightarrow> Some (map JStr (stream_chunks max_chunk_size t))
      | JList xs \<Rightarrow> Some (map JList (stream_chunks max_chunk_size xs))
      | _ \<Rightarrow> None)"

definition serialize_tool_call :: "object \<Rightarrow> nat \<Rightarrow> json" where
  "serialize_tool_call call index =
     (let f = (case jget call ''function'' of JDict f \<Rightarrow> f | _ \<Rightarrow> [])
      in JDict [(''index'', JInt (int index)), (''id'', jget call ''id''), (''type'', jget_default call ''type'' (JStr ''function'')),
           (''function'', JDict [(''name'', jget f ''name''), (''arguments'', jget_default f ''arguments'' (JStr []))])])"

text \<open>The deltas of the tool calls, and whether none of them broke the stream off.\<close>

fun tool_deltas :: "nat \<Rightarrow> json list \<Rightarrow> object list \<times> bool" where
  "tool_deltas i [] = ([], True)"
| "tool_deltas i (JDict c # cs) =
     (let (ds, ended) = tool_deltas (Suc i) cs in ([(''tool_calls'', JList [serialize_tool_call c i])] # ds, ended))"
| "tool_deltas i (_ # cs) = ([], False)"

definition finish_reason :: "object \<Rightarrow> string" where
  "finish_reason m = (if jtruthy (jget m ''tool_calls'') then ''tool_calls'' else ''stop'')"

text \<open>A delta with its finish reason; \<open>False\<close> marks a stream that an exception broke off.\<close>

definition message_deltas :: "object \<Rightarrow> (object \<times> json) list \<times> bool" where
  "message_deltas m =
     (let first = ([(''role'', jget_default m ''role'' (JStr ''assistant''))], JNull)
      in case content_pieces (jget m ''content'') of
           None \<Rightarrow> ([first], False)
         | Some pieces \<Rightarrow>
             (let (tools, ended) =
                    (if jtruthy (jget m ''tool_calls'')
                     then (case jget m ''tool_calls'' of JList cs \<Rightarrow> tool_deltas 0 cs | _ \<Rightarrow> ([], False))
                     else ([], True))
              in (first # map (\<lambda>p. ([(''content'', p)], JNull)) pieces @ map (\<lambda>d. (d, JNull)) tools
                    @ (if ended then [([], JStr (finish_reason m))] else []), ended)))"

text \<open>
  What the routes need besides the surroundings of the first version: identifiers of a stream, and the encryption of
  one chunk for a client, with the session it continues (\<open>None\<close> when it raises). The bytes of a chunk are named by
  their base64 texts.
\<close>

record stream_chunk =
  sk_ciphertext :: string
  sk_iv :: string
  sk_tag :: "string option"
  sk_mode :: "string option"
  sk_associated_data :: "string option"
  sk_cipherkey :: "string option"

record 's v2_api =
  va_api :: api
  va_stream_uuid :: string
  va_session_uuid :: string
  va_encrypt_chunk :: "string \<Rightarrow> string \<Rightarrow> 's option \<Rightarrow> (stream_chunk \<times> 's) option"

definition build_chunk :: "'s v2_api \<Rightarrow> string \<Rightarrow> object \<Rightarrow> json \<Rightarrow> json" where
  "build_chunk V model delta reason =
     JDict [(''id'', JStr (''chatcmpl-'' @ va_stream_uuid V)), (''object'', JStr ''chat.completion.chunk''),
       (''created'', JInt (ap_time (va_api V))), (''model'', JStr model),
       (''choices'', JList [JDict [(''index'', JInt 0), (''delta'', JDict delta), (''finish_reason'', reason)]])]"

definition event_of :: "string \<Rightarrow> string" where
  "event_of t = ''data: '' @ t @ [CHR 0x0A, CHR 0x0A]"

definition event_error :: "string \<Rightarrow> string" where
  "event_error reason =
     event_of ([CHR 0x7B, CHR 0x22] @ ''event'' @ [CHR 0x22] @ '': '' @ [CHR 0x22] @ ''error'' @ [CHR 0x22] @ '', '' @ [CHR 0x22]
       @ ''reason'' @ [CHR 0x22] @ '': '' @ [CHR 0x22] @ reason @ [CHR 0x22, CHR 0x7D])"

definition sealed_event :: "'s v2_api \<Rightarrow> stream_chunk \<Rightarrow> string" where
  "sealed_event V c =
     (let session = JStr (''stream-'' @ va_session_uuid V);
          data = [(''encrypted'', JBool True), (''ciphertext'', JStr (sk_ciphertext c)), (''iv'', JStr (sk_iv c)),
              (''stream_session_id'', session)]
            @ (case sk_tag c of Some t \<Rightarrow> [(''tag'', JStr t)] | None \<Rightarrow> [])
            @ (case sk_mode c of Some t \<Rightarrow> [(''mode'', JStr t)] | None \<Rightarrow> [])
            @ (case sk_associated_data c of Some t \<Rightarrow> [(''associated_data'', JStr t)] | None \<Rightarrow> [])
            @ (case sk_cipherkey c of Some t \<Rightarrow> [(''cipherkey'', JStr t)] | None \<Rightarrow> [])
      in event_of (ap_dumps (va_api V) (JDict [(''event'', JStr ''delta''), (''encrypted'', JBool True),
           (''stream_session_id'', session), (''data'', JDict data)])))"

text \<open>The events of the chunks, each encrypted in the session of the one before, and whether all were.\<close>

fun sealed_events :: "'s v2_api \<Rightarrow> string \<Rightarrow> 's option \<Rightarrow> json list \<Rightarrow> string list \<times> bool" where
  "sealed_events V key session [] = ([], True)"
| "sealed_events V key session (p # ps) =
     (case va_encrypt_chunk V (ap_dumps (va_api V) p) key session of
        None \<Rightarrow> ([event_error ''encryption_failed''], False)
      | Some (c, t) \<Rightarrow> (let (es, ended) = sealed_events V key (Some t) ps in (sealed_event V c # es, ended)))"

definition done_event :: string where
  "done_event = event_of ''[DONE]''"

text \<open>A reply, or the events of a stream with whether the generator returned.\<close>

datatype v2_outcome = Reply response | EventStream "string list" bool

definition stream_payloads :: "'s v2_api \<Rightarrow> string \<Rightarrow> object \<Rightarrow> json list \<times> bool" where
  "stream_payloads V model m =
     (let (ds, ended) = message_deltas m in (map (\<lambda>(d, r). build_chunk V model d r) ds, ended))"

definition event_stream :: "'s v2_api \<Rightarrow> string \<Rightarrow> object \<Rightarrow> v2_outcome" where
  "event_stream V model m =
     (let (ps, ended) = stream_payloads V model m
      in EventStream (map (\<lambda>p. event_of (ap_dumps (va_api V) p)) ps @ (if ended then [done_event] else [])) ended)"

definition encrypted_event_stream :: "'s v2_api \<Rightarrow> string \<Rightarrow> string \<Rightarrow> object \<Rightarrow> v2_outcome" where
  "encrypted_event_stream V key model m =
     (let (ps, ended) = stream_payloads V model m; (es, sealed) = sealed_events V key None ps
      in EventStream (es @ (if ended \<and> sealed then [done_event] else [])) (ended \<or> \<not> sealed))"

text \<open>
  \<^verbatim>\<open>base64.b64decode\<close> without validation: other characters are skipped, and what follows the padding is not read.
\<close>

fun b64_lenient_scan :: "nat \<Rightarrow> nat \<Rightarrow> string \<Rightarrow> bool" where
  "b64_lenient_scan quad pads [] = (quad = 0)"
| "b64_lenient_scan quad pads (c # cs) =
     (if c = pad_char
      then if 2 \<le> quad \<and> 4 \<le> quad + (pads + 1) then True
           else b64_lenient_scan quad (if 2 \<le> quad then pads + 1 else pads) cs
      else if \<not> is_b64 c then b64_lenient_scan quad pads cs
      else b64_lenient_scan ((quad + 1) mod 4) 0 cs)"

definition b64decodes_lenient :: "string \<Rightarrow> bool" where
  "b64decodes_lenient s \<longleftrightarrow> list_all (\<lambda>c. char_code c < 128) s \<and> b64_lenient_scan 0 0 s"

section \<open>Chat completions\<close>

definition v2_internal_error :: response where
  "v2_internal_error = format_error_response ''Internal server error'' ''server_error'' None None 500"

definition v2_validation_response :: "api \<Rightarrow> api_error \<Rightarrow> response" where
  "v2_validation_response A e =
     (case e of
        ValidationError message field code \<Rightarrow>
          format_error_response (render A message) ''invalid_request_error'' field (Some code) 400
      | UnhashableTypeError \<Rightarrow> v2_internal_error)"

definition v2_exception_response :: "api \<Rightarrow> api_exception \<Rightarrow> response" where
  "v2_exception_response A e =
     (case e of
        ModelError m \<Rightarrow> format_error_response (render A (me_message m)) ''model_error'' None None 400
      | _ \<Rightarrow> v2_internal_error)"

definition v2_known_model :: "object \<Rightarrow> api_error + string" where
  "v2_known_model data =
     (case jget data ''model'' of
        JStr m \<Rightarrow> ebind (validate_model_name m v2_model_ids) (\<lambda>_. Inr m)
      | v \<Rightarrow> Inl (ValidationError [Text (''Model '' @ [CHR 0x27]), Value v, Text ([CHR 0x27] @ '' not found'')]
               (Some ''model'') ''model_not_found''))"

definition v2_decrypted_messages :: "api \<Rightarrow> object \<Rightarrow> response + json" where
  "v2_decrypted_messages A data =
     (case validate_encrypted_request data of
        Inl e \<Rightarrow> Inl (v2_validation_response A e)
      | Inr _ \<Rightarrow>
          (case ap_decrypt A (case jget data ''messages'' of JDict m \<Rightarrow> m | _ \<Rightarrow> []) of
             Inl e \<Rightarrow> Inl v2_internal_error
           | Inr None \<Rightarrow> Inl (encryption_error ''Failed to decrypt messages'' 400)
           | Inr (Some plain) \<Rightarrow>
               (case ap_loads A plain of
                  None \<Rightarrow> Inl (encryption_error ''Failed to parse JSON from decrypted messages'' 400)
                | Some v \<Rightarrow> Inr v)))"

definition v2_plain_messages :: "api \<Rightarrow> object \<Rightarrow> response + json" where
  "v2_plain_messages A data =
     (case ebind (validate_required_fields data [''messages'']) (\<lambda>_. validate_field_type data ''messages'' ListType False) of
        Inl e \<Rightarrow> Inl (v2_validation_response A e)
      | Inr _ \<Rightarrow> Inr (jget data ''messages''))"

definition v2_checked_messages :: "api \<Rightarrow> object \<Rightarrow> response + json list" where
  "v2_checked_messages A data =
     ebind (if jtruthy (jget data ''encrypted'') then v2_decrypted_messages A data else v2_plain_messages A data) (\<lambda>messages.
       case v2_validate_chat_messages messages of
         Inl e \<Rightarrow> Inl (v2_validation_response A e)
       | Inr _ \<Rightarrow>
           (let ms = (case messages of JList ms \<Rightarrow> ms | _ \<Rightarrow> []);
                decision = evaluate_messages_for_policy (env_of (ap_settings A)) ms
            in if \<not> md_allowed decision then Inl (content_blocked decision) else Inr ms))"

definition openai_option_keys :: "string list" where
  "openai_option_keys =
     [''frequency_penalty'', ''logit_bias'', ''max_tokens'', ''n'', ''presence_penalty'', ''response_format'', ''seed'', ''stop'',
      ''temperature'', ''tool_choice'', ''tools'', ''top_p'', ''user'', ''function_call'', ''functions'']"

definition model_request_options :: "object \<Rightarrow> object" where
  "model_request_options data = filter (\<lambda>(k, _). k \<in> set openai_option_keys) data"

definition v2_response_data :: "api \<Rightarrow> string \<Rightarrow> object \<Rightarrow> object" where
  "v2_response_data A model m =
     [(''id'', JStr (''chatcmpl-'' @ ap_uuid A)), (''object'', JStr ''chat.completion''), (''created'', JInt (ap_time A)),
      (''model'', JStr model),
      (''choices'', JList [JDict [(''index'', JInt 0),
         (''message'', JDict ([(''role'', jget_default m ''role'' (JStr ''assistant'')), (''content'', jget m ''content'')]
            @ (if jtruthy (jget m ''tool_calls'') then [(''tool_calls'', jget m ''tool_calls'')] else []))),
         (''finish_reason'', JStr (finish_reason m))]]),
      (''usage'', JDict [(''prompt_tokens'', JInt (- 1)), (''completion_tokens'', JInt (- 1)), (''total_tokens'', JInt (- 1))])]"

definition v2_reply :: "'s v2_api \<Rightarrow> object \<Rightarrow> string \<Rightarrow> object \<Rightarrow> v2_outcome" where
  "v2_reply V data model m =
     (if jtruthy (jget data ''stream'')
      then if jtruthy (jget data ''encrypted'')
           then (case jget data ''client_public_key'' of
                   JStr (k # ks) \<Rightarrow>
                     if \<not> b64decodes_lenient (k # ks) then Reply (encryption_error ''Client public key is not valid base64'' 400)
                     else encrypted_event_stream V (k # ks) model m
                 | _ \<Rightarrow> Reply (encryption_error ''Client public key required for encrypted streaming'' 400))
           else event_stream V model m
      else Reply (sealed_response (va_api V) ''encryption_error'' data (v2_response_data (va_api V) model m) []))"

definition v2_answer ::
  "'s v2_api \<Rightarrow> 'm runtime \<Rightarrow> nat \<Rightarrow> object \<Rightarrow> string \<Rightarrow> json list \<Rightarrow> 'm loaded \<Rightarrow> v2_outcome \<times> 'm loaded" where
  "v2_answer V R pick data model messages cache =
     (let answered = (\<lambda>v. case v of JDict m \<Rightarrow> v2_reply V data model m | _ \<Rightarrow> Reply v2_internal_error)
      in case build_v2_vision_summary messages of
           Some t \<Rightarrow> (answered (JDict [(''role'', JStr ''assistant''), (''content'', JStr t)]), cache)
         | None \<Rightarrow>
             (case generate_response R pick model messages (model_request_options data) cache of
                (Inl e, t) \<Rightarrow> (Reply (v2_exception_response (va_api V) e), t)
              | (Inr updated, t) \<Rightarrow> (answered (last updated), t)))"

definition v2_create_chat_completion ::
  "'s v2_api \<Rightarrow> 'm runtime \<Rightarrow> nat \<Rightarrow> json \<Rightarrow> 'm loaded \<Rightarrow> v2_outcome \<times> 'm loaded" where
  "v2_create_chat_completion V R pick body cache =
     (if \<not> jtruthy body then (Reply (invalid_body ''Invalid request body: empty or not JSON''), cache)
      else case body_has body ''model'' of
        None \<Rightarrow> (Reply v2_internal_error, cache)
      | Some False \<Rightarrow> (Reply (missing_parameter ''model''), cache)
      | Some True \<Rightarrow>
          (case body of
             JDict data \<Rightarrow>
               (case v2_known_model data of
                  Inl e \<Rightarrow> (Reply (v2_validation_response (va_api V) e), cache)
                | Inr model \<Rightarrow>
                    (case get_model_instance R model cache of
                       (Inl e, t) \<Rightarrow> (Reply (v2_exception_response (va_api V) e), t)
                     | (Inr _, t) \<Rightarrow>
                         (case v2_checked_messages (va_api V) data of
                            Inl r \<Rightarrow> (Reply r, t)
                          | Inr messages \<Rightarrow> v2_answer V R pick data model messages t)))
           | _ \<Rightarrow> (Reply v2_internal_error, cache)))"

section \<open>Text completions\<close>

definition v2_text_response_data :: "api \<Rightarrow> json \<Rightarrow> object \<Rightarrow> object" where
  "v2_text_response_data A model m =
     [(''id'', JStr (''cmpl-'' @ take 12 (ap_uuid A))), (''object'', JStr ''text_completion''), (''created'', JInt (ap_time A)),
      (''model'', model),
      (''choices'', JList [JDict [(''index'', JInt 0), (''text'', jget_default m ''content'' (JStr [])),
         (''finish_reason'', JStr ''stop'')]]),
      (''usage'', JDict [(''prompt_tokens'', JInt 0), (''completion_tokens'', JInt 0), (''total_tokens'', JInt 0)])]"

definition v2_model_error :: "api \<Rightarrow> string option \<Rightarrow> api_exception \<Rightarrow> response" where
  "v2_model_error A param e =
     (case e of
        ModelError m \<Rightarrow>
          format_error_response (render A (me_message m)) (me_error_type m) param
            (if param \<noteq> None \<and> me_error_type m = ''model_not_found'' then Some ''model_not_found'' else None) (me_status_code m)
      | _ \<Rightarrow> v2_internal_error)"

text \<open>The instance of a model whose name is any JSON value: only texts name models, and a list cannot be looked up.\<close>

definition model_instance_of :: "'m runtime \<Rightarrow> json \<Rightarrow> ('m loaded, api_exception, 'm model_instance) effect" where
  "model_instance_of R v =
     (case v of
        JStr m \<Rightarrow> get_model_instance R m
      | _ \<Rightarrow>
          lift (Inl (if \<not> hashable v then OtherException ''unhashable type''
            else ModelError \<lparr>me_message = [Text (''Model '' @ [CHR 0x27]), Value v, Text ([CHR 0x27] @ '' not found. Available models: ''
                      @ join_ids iter_model_entries)], me_status_code = 400, me_error_type = ''model_not_found''\<rparr>)))"

definition v2_create_completion ::
  "'s v2_api \<Rightarrow> 'm runtime \<Rightarrow> nat \<Rightarrow> json \<Rightarrow> 'm loaded \<Rightarrow> response \<times> 'm loaded" where
  "v2_create_completion V R pick body cache =
     (let A = va_api V
      in if \<not> jtruthy body then (invalid_body ''Invalid request body'', cache)
         else case body of
           JDict data \<Rightarrow>
             (let model = jget data ''model'';
                  message = JDict [(''role'', JStr ''user''), (''content'', jget_default data ''prompt'' (JStr []))];
                  decision = evaluate_messages_for_policy (env_of (ap_settings A)) [message]
              in if \<not> jtruthy model
                 then (format_error_response ''Missing required parameter: model'' ''invalid_request_error'' (Some ''model'') None 400, cache)
                 else (case model_instance_of R model cache of
                   (Inl e, t) \<Rightarrow> (v2_model_error A (Some ''model'') e, t)
                 | (Inr _, t) \<Rightarrow>
                     if \<not> md_allowed decision then (content_blocked decision, t)
                     else (case generate_response R pick (case model of JStr m \<Rightarrow> m | _ \<Rightarrow> []) [message] [] t of
                       (Inl e, u) \<Rightarrow> (v2_model_error A None e, u)
                     | (Inr updated, u) \<Rightarrow>
                         (case last updated of
                            JDict m \<Rightarrow> (sealed_response A ''server_error'' data (v2_text_response_data A model m) [], u)
                          | _ \<Rightarrow> (v2_internal_error, u)))))
         | _ \<Rightarrow> (v2_internal_error, cache))"

section \<open>Models\<close>

definition v2_model_entry :: "api \<Rightarrow> object \<Rightarrow> object" where
  "v2_model_entry A m =
     (let i = jget m ''id''; base = jget_default m ''base_model_id'' i; created = JInt (ap_time A)
      in [(''id'', i), (''object'', JStr ''model''), (''created'', created), (''owned_by'', JStr ''token.place''),
          (''permission'', JList [JDict
             [(''id'', JStr (''modelperm-'' @ (case i of JStr t \<Rightarrow> t | _ \<Rightarrow> []))), (''object'', JStr ''model_permission''),
              (''created'', created),
              (''allow_create_engine'', JBool False), (''allow_sampling'', JBool True), (''allow_logprobs'', JBool True),
              (''allow_search_indices'', JBool False), (''allow_view'', JBool True), (''allow_fine_tuning'', JBool False),
              (''organization'', JStr ''*''), (''group'', JNull), (''is_blocking'', JBool False)]]),
          (''root'', base), (''parent'', if base = i then JNull else base)]
         @ (case jget m ''adapter'' of
              JDict (a # as) \<Rightarrow>
                [(''metadata'', JDict [(''adapter'', JDict [(''id'', jget_default (a # as) ''id'' i),
                    (''share_base'', jget_default (a # as) ''share_base'' (JBool False))])])]
            | _ \<Rightarrow> []))"

definition v2_list_models :: "api \<Rightarrow> response" where
  "v2_list_models A =
     \<lparr>rs_status = 200,
      rs_body = JDict [(''object'', JStr ''list''), (''data'', JList (map (JDict \<circ> v2_model_entry A) v2_get_models_info))],
      rs_headers = []\<rparr>"

definition v2_get_model :: "api \<Rightarrow> string \<Rightarrow> response" where
  "v2_get_model A model =
     (case find (\<lambda>m. jget m ''id'' = JStr model) v2_get_models_info of
        None \<Rightarrow>
          format_error_response (''Model '' @ [CHR 0x27] @ model @ [CHR 0x27] @ '' not found'') ''invalid_request_error'' None
            (Some ''model_not_found'') 404
      | Some m \<Rightarrow> \<lparr>rs_status = 200, rs_body = JDict (v2_model_entry A m), rs_headers = []\<rparr>)"

end
