(* ===== verification/V2_Facts.thy ===== *)
theory V2_Facts
  imports Api_V2
begin

text \<open>
  Facts about the second version of the routes: the numbers in image headers, the walk over the segments of a
  JPEG, the pieces of a stream, and what a sealed stream consists of.
\<close>

section \<open>Images\<close>

lemma big_endian_snoc: "big_endian (bs @ [b]) = big_endian bs * 256 + unat b"
  by (simp add: big_endian_def)

lemma big_endian_bound: "big_endian bs < 256 ^ length bs"
proof (induction bs rule: rev_induct)
  case (snoc b bs)
  have "unat b < 256" using unsigned_less [of b] by simp
  with snoc show ?case by (simp add: big_endian_snoc)
qed (simp add: big_endian_def)

definition word16 :: "nat \<Rightarrow> bytes" where
  "word16 n = [word_of_nat (n div 256), word_of_nat (n mod 256)]"

lemma length_word16 [simp]: "length (word16 n) = 2"
  by (simp add: word16_def)

lemma big_endian_word16: "n < 65536 \<Longrightarrow> big_endian (word16 n) = n"
  by (simp add: big_endian_def word16_def unat_of_nat take_bit_eq_mod)

text \<open>A segment the walk skips, and a frame header with its height and width.\<close>

definition jpeg_segment :: "8 word \<times> bytes \<Rightarrow> bytes" where
  "jpeg_segment sg = (case sg of (m, p) \<Rightarrow> 0xFF # m # word16 (length p + 2) @ p)"

definition skipped_segment :: "8 word \<times> bytes \<Rightarrow> bool" where
  "skipped_segment sg = (case sg of (m, p) \<Rightarrow> m \<notin> set frame_markers \<and> m \<notin> {0xD8, 0xD9} \<and> length p + 2 < 65536)"

definition jpeg_frame :: "8 word \<Rightarrow> 8 word \<Rightarrow> nat \<Rightarrow> nat \<Rightarrow> bytes \<Rightarrow> bytes" where
  "jpeg_frame m precision height width rest =
     0xFF # m # word16 (length rest + 7) @ precision # word16 height @ word16 width @ rest"

lemma slice_at: "slice_bytes (pre @ xs) (length pre + k) n = take n (drop k xs)"
  by (simp add: slice_bytes_def)

lemma skip_segment:
  assumes "skipped_segment sg"
  shows "jpeg_from (pre @ jpeg_segment sg @ tail) (length pre)
     = jpeg_from (pre @ jpeg_segment sg @ tail) (length (pre @ jpeg_segment sg))"
proof -
  obtain m p where sg: "sg = (m, p)" by fastforce
  let ?data = "pre @ 0xFF # m # word16 (length p + 2) @ p @ tail"
  have n: "big_endian (slice_bytes ?data (length pre + 2) 2) = length p + 2"
    unfolding slice_at using assms by (simp add: sg skipped_segment_def big_endian_word16)
  have "jpeg_from ?data (length pre) = jpeg_from ?data (length pre + 2 + (length p + 2))"
    using assms n by (subst jpeg_from.simps) (simp add: sg skipped_segment_def nth_append Let_def)
  then show ?thesis by (simp add: sg jpeg_segment_def)
qed

lemma frame_found:
  assumes "m \<in> set frame_markers" "length rest + 7 < 65536" "height < 65536" "width < 65536"
  shows "jpeg_from (pre @ jpeg_frame m precision height width rest @ tail) (length pre) = Some (width, height)"
proof -
  let ?data = "pre @ 0xFF # m # word16 (length rest + 7) @ precision # word16 height @ word16 width @ rest @ tail"
  have n: "big_endian (slice_bytes ?data (length pre + 2) 2) = length rest + 7"
    unfolding slice_at using assms(2) by (simp add: big_endian_word16)
  have h: "big_endian (slice_bytes ?data (length pre + 5) 2) = height"
    unfolding slice_at using assms(3) by (simp add: word16_def) (simp flip: word16_def add: big_endian_word16)
  have w: "big_endian (slice_bytes ?data (length pre + 7) 2) = width"
    unfolding slice_at using assms(4) by (simp add: word16_def) (simp flip: word16_def add: big_endian_word16)
  have m: "m \<noteq> 0xD8" "m \<noteq> 0xD9" using assms(1) by (auto simp: frame_markers_def)
  have "jpeg_from ?data (length pre) = Some (width, height)"
    using assms(1) m n h w by (subst jpeg_from.simps) (simp add: nth_append Let_def)
  then show ?thesis by (simp add: jpeg_frame_def)
qed

lemma segments_skipped:
  assumes "list_all skipped_segment segments" "m \<in> set frame_markers" "length rest + 7 < 65536" "height < 65536" "width < 65536"
  shows "jpeg_from (pre @ concat (map jpeg_segment segments) @ jpeg_frame m precision height width rest @ tail) (length pre)
     = Some (width, height)"
  using assms(1)
proof (induction segments arbitrary: pre)
  case Nil
  then show ?case using frame_found [OF assms(2-5)] by simp
next
  case (Cons sg segments)
  let ?tail = "concat (map jpeg_segment segments) @ jpeg_frame m precision height width rest @ tail"
  have "jpeg_from (pre @ jpeg_segment sg @ ?tail) (length pre) = jpeg_from (pre @ jpeg_segment sg @ ?tail) (length (pre @ jpeg_segment sg))"
    using Cons.prems by (intro skip_segment) simp
  also have "\<dots> = Some (width, height)" using Cons.IH [of "pre @ jpeg_segment sg"] Cons.prems by simp
  finally show ?case by simp
qed

lemma jpeg_dimensions_bound: "jpeg_from data i = Some (w, h) \<Longrightarrow> w < 65536 \<and> h < 65536"
proof (induction data i rule: jpeg_from.induct)
  case (1 data index)
  have two: "big_endian (slice_bytes data k 2) < 65536" for k
  proof -
    have "big_endian (slice_bytes data k 2) < 256 ^ length (slice_bytes data k 2)" by (rule big_endian_bound)
    also have "\<dots> \<le> 256 ^ 2" by (rule power_increasing) (simp_all add: slice_bytes_def)
    finally show ?thesis by simp
  qed
  show ?case using "1.prems" "1.IH" two
    by (subst (asm) jpeg_from.simps) (auto simp: Let_def split: if_splits)
qed

section \<open>Streams\<close>

lemma chunks_concat: "0 < n \<Longrightarrow> concat (stream_chunks n xs) = xs"
proof (induction n xs rule: stream_chunks.induct)
  case (1 n xs)
  then show ?case by (subst stream_chunks.simps) auto
qed

lemma chunks_bounded: "x \<in> set (stream_chunks n xs) \<Longrightarrow> x \<noteq> [] \<and> length x \<le> n"
proof (induction n xs rule: stream_chunks.induct)
  case (1 n xs)
  then show ?case by (subst (asm) stream_chunks.simps) (auto split: if_splits)
qed

text \<open>The text a delta adds to the message.\<close>

definition delta_text :: "object \<Rightarrow> string" where
  "delta_text d = (case jget d ''content'' of JStr t \<Rightarrow> t | _ \<Rightarrow> [])"

lemma tool_deltas_complete:
  "list_all is_jdict cs \<Longrightarrow> \<exists>ds. tool_deltas i cs = (ds, True) \<and> length ds = length cs \<and> list_all (\<lambda>d. delta_text d = []) ds"
proof (induction cs arbitrary: i)
  case (Cons c cs)
  then obtain d where "c = JDict d" by (cases c) auto
  moreover obtain ds where "tool_deltas (Suc i) cs = (ds, True)" "length ds = length cs" "list_all (\<lambda>d. delta_text d = []) ds"
    using Cons by fastforce
  ultimately show ?case by (simp add: delta_text_def)
qed simp

lemma text_pieces: "content_pieces (JStr t) = Some (map JStr (stream_chunks max_chunk_size t))"
  by (cases t) (simp_all add: content_pieces_def stream_chunks.simps)

section \<open>Sealed streams\<close>

definition sealed_or_control :: "'s v2_api \<Rightarrow> string \<Rightarrow> string \<Rightarrow> bool" where
  "sealed_or_control V key e \<longleftrightarrow>
     e = done_event \<or> e = event_error ''encryption_failed''
     \<or> (\<exists>plain session c t. va_encrypt_chunk V plain key session = Some (c, t) \<and> e = sealed_event V c)"

lemma sealed_events_sealed: "list_all (sealed_or_control V key) (fst (sealed_events V key session ps))"
proof (induction ps arbitrary: session)
  case (Cons p ps)
  show ?case
  proof (cases "va_encrypt_chunk V (ap_dumps (va_api V) p) key session")
    case None
    then show ?thesis by (simp add: sealed_or_control_def)
  next
    case (Some ct)
    obtain c t where ct: "ct = (c, t)" by fastforce
    then have "sealed_or_control V key (sealed_event V c)" using Some unfolding sealed_or_control_def by blast
    with Cons [of "Some t"] Some ct show ?thesis by (simp add: case_prod_beta)
  qed
qed simp

lemma sealed_stream:
  "\<exists>es ended. encrypted_event_stream V key model m = EventStream es ended \<and> list_all (sealed_or_control V key) es"
proof -
  obtain ps ended where ps: "stream_payloads V model m = (ps, ended)" by fastforce
  obtain es sealed where es: "sealed_events V key None ps = (es, sealed)" by fastforce
  have "list_all (sealed_or_control V key) es" using sealed_events_sealed [of V key None ps] es by simp
  with ps es show ?thesis by (simp add: encrypted_event_stream_def sealed_or_control_def)
qed

section \<open>Checked messages\<close>

lemma v2_error_status [simp]: "rs_status (v2_validation_response A e) \<noteq> 200" "rs_status v2_internal_error \<noteq> 200"
  "rs_status (v2_exception_response A e') \<noteq> 200"
  by (cases e) (auto simp: v2_validation_response_def v2_internal_error_def v2_exception_response_def format_error_response_def
      split: api_exception.splits)

lemma v2_checked_Inr:
  assumes "v2_checked_messages A data = Inr ms"
  shows "(if jtruthy (jget data ''encrypted'') then v2_decrypted_messages A data = Inr (JList ms) else jget data ''messages'' = JList ms)
     \<and> v2_validate_chat_messages (JList ms) = Inr () \<and> md_allowed (evaluate_messages_for_policy (env_of (ap_settings A)) ms)"
proof -
  obtain v where raw: "(if jtruthy (jget data ''encrypted'') then v2_decrypted_messages A data else v2_plain_messages A data) = Inr v"
    using assms unfolding v2_checked_messages_def ebind_Inr by blast
  then have v: "v2_validate_chat_messages v = Inr ()"
    using assms by (cases "v2_validate_chat_messages v") (auto simp: v2_checked_messages_def)
  then have ms: "(case v of JList ms \<Rightarrow> ms | _ \<Rightarrow> []) = ms" "md_allowed (evaluate_messages_for_policy (env_of (ap_settings A)) ms)"
    using assms raw by (auto simp: v2_checked_messages_def Let_def split: if_splits)
  have "v = JList ms" using v ms(1) by (cases v) (simp_all add: v2_validate_chat_messages_def)
  with raw v ms show ?thesis by (auto simp: v2_plain_messages_def split: sum.splits if_splits)
qed

lemma v2_messages_Inl:
  "v2_decrypted_messages A data = Inl r \<Longrightarrow> rs_status r \<noteq> 200" "v2_plain_messages A data = Inl r \<Longrightarrow> rs_status r \<noteq> 200"
  by (auto simp: v2_decrypted_messages_def v2_plain_messages_def encryption_error_def format_error_response_def
      split: sum.splits option.splits)

lemma v2_checked_Inl:
  assumes "v2_checked_messages A data = Inl r"
  shows "rs_status r \<noteq> 200"
proof (cases "if jtruthy (jget data ''encrypted'') then v2_decrypted_messages A data else v2_plain_messages A data")
  case (Inl e)
  with assms v2_messages_Inl [of A data] show ?thesis by (auto simp: v2_checked_messages_def split: if_splits)
next
  case (Inr v)
  with assms show ?thesis
    by (cases "v2_validate_chat_messages v")
      (auto simp: v2_checked_messages_def content_blocked_def format_error_response_def Let_def split: if_splits)
qed

text \<open>How a chat request ends: refused with an error, or with the reply of a message.\<close>

definition succeeds :: "v2_outcome \<Rightarrow> bool" where
  "succeeds out = (case out of Reply r \<Rightarrow> rs_status r = 200 | EventStream _ _ \<Rightarrow> True)"

lemma v2_answered:
  assumes "v2_answer V R pick data model messages cache = (out, t)" "succeeds out"
  shows "\<exists>m. out = v2_reply V data model m"
  using assms
  by (auto simp: v2_answer_def Let_def succeeds_def split: option.splits prod.splits sum.splits json.splits)

lemma v2_handled:
  assumes "v2_create_chat_completion V R pick body cache = (out, t)" "succeeds out"
  shows "\<exists>data model ms m. body = JDict data \<and> v2_known_model data = Inr model \<and> v2_checked_messages (va_api V) data = Inr ms
     \<and> out = v2_reply V data model m"
proof -
  have status: "rs_status r = 200" if "out = Reply r" for r using assms(2) that by (simp add: succeeds_def)
  have errors: "rs_status (invalid_body x) \<noteq> 200" "rs_status (missing_parameter x) \<noteq> 200" for x
    by (simp_all add: invalid_body_def missing_parameter_def format_error_response_def)
  have refused: "out \<noteq> Reply (invalid_body x)" "out \<noteq> Reply (missing_parameter x)" "out \<noteq> Reply v2_internal_error"
    "out \<noteq> Reply (v2_validation_response A e)" "out \<noteq> Reply (v2_exception_response A e')" for x A e e'
    using status errors v2_error_status by blast+
  have "jtruthy body" using assms(1) refused by (auto simp: v2_create_chat_completion_def split: if_splits)
  moreover have "body_has body ''model'' = Some True" using assms(1) calculation refused
    by (cases "body_has body ''model''"; cases "the (body_has body ''model'')") (auto simp: v2_create_chat_completion_def)
  moreover obtain data where data: "body = JDict data"
    using assms(1) calculation refused by (cases body) (auto simp: v2_create_chat_completion_def)
  moreover obtain model where model: "v2_known_model data = Inr model"
    using assms(1) calculation refused by (cases "v2_known_model data") (auto simp: v2_create_chat_completion_def)
  moreover obtain i u where u: "get_model_instance R model cache = (Inr i, u)"
    using assms(1) calculation status
    by (cases "get_model_instance R model cache"; cases "fst (get_model_instance R model cache)") (auto simp: v2_create_chat_completion_def)
  moreover obtain ms where ms: "v2_checked_messages (va_api V) data = Inr ms"
    using assms(1) calculation status v2_checked_Inl [of "va_api V" data]
    by (cases "v2_checked_messages (va_api V) data") (auto simp: v2_create_chat_completion_def)
  ultimately have "v2_answer V R pick data model ms u = (out, t)"
    using assms(1) by (simp add: v2_create_chat_completion_def)
  from v2_answered [OF this assms(2)] data model ms show ?thesis by blast
qed

end
