(* ===== verification/V2_Properties.thy ===== *)
theory V2_Properties
  imports V2_Facts
begin

text \<open>
  The properties of the second version of the completion routes: encrypted chats are answered with ciphertext,
  a stream carries the whole message, which listed models can be used, and what is read of an image.
\<close>

section \<open>Encrypted chats\<close>

text \<open>C34 (safety). The answer of the second version to an encrypted chat with a client key is an error, a body encrypted for
  that key, or a stream whose every event is a chunk encrypted for that key, the end mark or the notice that encryption
  failed; and an answer other than an error is given only to decrypted messages that are valid and that the content
  policy allows.\<close>

theorem v2_encrypted_chat_gets_ciphertext:
  assumes "v2_create_chat_completion V R pick (JDict data) cache = (out, t)" "jtruthy (jget data ''encrypted'')"
    and "jget data ''client_public_key'' = JStr key" "key \<noteq> []"
  shows "(\<exists>r. out = Reply r \<and> rs_status r \<noteq> 200)
     \<or> ((\<exists>ms. v2_decrypted_messages (va_api V) data = Inr (JList ms) \<and> v2_validate_chat_messages (JList ms) = Inr ()
            \<and> md_allowed (evaluate_messages_for_policy (env_of (ap_settings (va_api V))) ms))
        \<and> ((\<exists>plain e. ap_encrypt (va_api V) plain key = Some e
              \<and> out = Reply \<lparr>rs_status = 200, rs_body = JDict [(''encrypted'', JBool True), (''data'', JDict e)], rs_headers = []\<rparr>)
           \<or> (\<exists>es ended. out = EventStream es ended \<and> list_all (sealed_or_control V key) es)))"
proof (cases "succeeds out")
  case False
  then show ?thesis by (cases out) (simp_all add: succeeds_def)
next
  case True
  obtain model ms m where ms: "v2_checked_messages (va_api V) data = Inr ms" and out: "out = v2_reply V data model m"
    using v2_handled [OF assms(1) True] by auto
  obtain k ks where key: "key = k # ks" using assms(4) by (cases key) auto
  let ?ok = "(\<exists>plain e. ap_encrypt (va_api V) plain key = Some e
        \<and> out = Reply \<lparr>rs_status = 200, rs_body = JDict [(''encrypted'', JBool True), (''data'', JDict e)], rs_headers = []\<rparr>)
     \<or> (\<exists>es ended. out = EventStream es ended \<and> list_all (sealed_or_control V key) es)"
  have ?ok
  proof (cases "jtruthy (jget data ''stream'')")
    case stream: True
    show ?thesis
    proof (cases "b64decodes_lenient key")
      case True
      with out assms(2,3) key stream sealed_stream [of V key model m] show ?thesis by (auto simp: v2_reply_def)
    next
      case bad: False
      with out assms(2,3) key stream \<open>succeeds out\<close> show ?thesis
        by (simp add: v2_reply_def succeeds_def encryption_error_def format_error_response_def)
    qed
  next
    case plain: False
    with out assms(2,3) key \<open>succeeds out\<close> show ?thesis
      by (cases "ap_encrypt (va_api V) (v2_response_data (va_api V) model m) key")
        (auto simp: v2_reply_def sealed_response_def succeeds_def format_error_response_def)
  qed
  with v2_checked_Inr [OF ms] assms(2) show ?thesis by auto
qed

definition v2_test_api :: "unit v2_api" where
  "v2_test_api =
     \<lparr>va_api = \<lparr>ap_settings = \<lparr>st_environ = \<lparr>en_vars = (\<lambda>_. None), en_float = (\<lambda>_. None), en_float_of_int = (\<lambda>i. Some (of_int i))\<rparr>,
          st_config = (\<lambda>_. Inr JNull), st_brackets_ok = (\<lambda>_. True)\<rparr>,
        ap_decrypt = (\<lambda>_. Inr (Some ''plain'')),
        ap_loads = (\<lambda>_. Some (JList [JDict [(''role'', JStr ''user''), (''content'', JStr ''hi'')]])),
        ap_dumps = (\<lambda>_. ''{}''), ap_encrypt = (\<lambda>_ _. Some [(''ciphertext'', JStr ''Yw=='')]), ap_str = (\<lambda>_. []), ap_uuid = ''u'',
        ap_crc32 = (\<lambda>_. 0), ap_time = 0, ap_host_url = [], ap_remote_addr = [],
        ap_ip_version = (\<lambda>_. None), ap_ip_is_loopback = (\<lambda>_. None)\<rparr>,
      va_stream_uuid = ''s'', va_session_uuid = ''t'',
      va_encrypt_chunk = (\<lambda>_ _ _. Some (\<lparr>sk_ciphertext = ''Yw=='', sk_iv = ''Yw=='', sk_tag = None, sk_mode = None,
         sk_associated_data = None, sk_cipherkey = None\<rparr>, ()))\<rparr>"

definition v2_test_runtime :: "unit runtime" where
  "v2_test_runtime = \<lparr>rt_use_mock = True, rt_llama = None, rt_complete = (\<lambda>_ _ _. Inl [])\<rparr>"

definition v2_test_chat :: object where
  "v2_test_chat =
     [(''model'', JStr ''llama-3-8b-instruct''), (''encrypted'', JBool True), (''stream'', JBool True), (''client_public_key'', JStr ''YQ==''),
      (''messages'', JDict [(''ciphertext'', JStr ''YQ==''), (''cipherkey'', JStr ''YQ==''), (''iv'', JStr ''YQ=='')])]"

theorem v2_encrypted_chat_gets_ciphertext_witness:
  "\<exists>es ended t. v2_create_chat_completion v2_test_api v2_test_runtime 0 (JDict v2_test_chat) [] = (EventStream es ended, t)
     \<and> list_all (sealed_or_control v2_test_api ''YQ=='') es"
proof -
  let ?run = "v2_create_chat_completion v2_test_api v2_test_runtime 0 (JDict v2_test_chat) []"
  have "(case fst ?run of EventStream es ended \<Rightarrow> ended \<and> es \<noteq> [] | Reply r \<Rightarrow> False)" by code_simp
  then obtain es ended t where run: "?run = (EventStream es ended, t)" by (cases ?run; cases "fst ?run") auto
  have "jtruthy (jget v2_test_chat ''encrypted'')" "jget v2_test_chat ''client_public_key'' = JStr ''YQ==''"
    by (simp_all add: v2_test_chat_def)
  from v2_encrypted_chat_gets_ciphertext [OF run this] run show ?thesis by auto
qed

section \<open>Streams\<close>

text \<open>C35 (roundtrip). A streamed message arrives whole: when its content is text and its tool calls are objects, the stream
  opens with the role, the texts of the deltas put together are the content, each of them at most 512 characters, the
  last delta alone has a finish reason, and the end mark follows.\<close>

theorem v2_stream_carries_the_message:
  assumes "jget m ''content'' = JStr s" and "jget m ''tool_calls'' = JNull \<or> (\<exists>cs. jget m ''tool_calls'' = JList cs \<and> list_all is_jdict cs)"
  shows "\<exists>ds. message_deltas m = (ds @ [([], JStr (finish_reason m))], True)
     \<and> ds \<noteq> [] \<and> fst (hd ds) = [(''role'', jget_default m ''role'' (JStr ''assistant''))]
     \<and> concat (map (\<lambda>d. delta_text (fst d)) ds) = s \<and> list_all (\<lambda>d. length (delta_text (fst d)) \<le> 512 \<and> snd d = JNull) ds
     \<and> event_stream V model m = EventStream (map (\<lambda>(d, r). event_of (ap_dumps (va_api V) (build_chunk V model d r)))
          (ds @ [([], JStr (finish_reason m))]) @ [done_event]) True"
proof -
  let ?tools = "if jtruthy (jget m ''tool_calls'') then (case jget m ''tool_calls'' of JList cs \<Rightarrow> tool_deltas 0 cs
      | _ \<Rightarrow> ([], False)) else ([], True)"
  have "\<exists>tools. ?tools = (tools, True) \<and> list_all (\<lambda>d. delta_text d = []) tools" using assms(2)
  proof
    assume "\<exists>cs. jget m ''tool_calls'' = JList cs \<and> list_all is_jdict cs"
    then obtain cs where "jget m ''tool_calls'' = JList cs" "list_all is_jdict cs" by blast
    with tool_deltas_complete [of cs 0] show ?thesis by (cases cs) auto
  qed simp
  then obtain tools where tools: "?tools = (tools, True)" "list_all (\<lambda>d. delta_text d = []) tools" by blast
  let ?first = "([(''role'', jget_default m ''role'' (JStr ''assistant''))], JNull)"
  let ?pieces = "map (\<lambda>p. ([(''content'', JStr p)], JNull)) (stream_chunks max_chunk_size s)"
  let ?ds = "?first # ?pieces @ map (\<lambda>d. (d, JNull)) tools"
  have deltas: "message_deltas m = (?ds @ [([], JStr (finish_reason m))], True)"
    unfolding message_deltas_def using assms(1) tools(1) by (simp add: text_pieces Let_def comp_def)
  have "concat (map (\<lambda>d. delta_text (fst d)) ?pieces) = concat (stream_chunks max_chunk_size s)"
    by (simp add: delta_text_def comp_def)
  moreover have "concat (map (\<lambda>d. delta_text (fst d)) (map (\<lambda>d. (d, JNull)) tools)) = []" using tools(2) by (auto simp: list_all_iff)
  ultimately have whole: "concat (map (\<lambda>d. delta_text (fst d)) ?ds) = s"
    using chunks_concat [of max_chunk_size s] by (simp add: delta_text_def max_chunk_size_def)
  have small: "list_all (\<lambda>d. length (delta_text (fst d)) \<le> 512 \<and> snd d = JNull) ?ds"
    using tools(2) chunks_bounded [of _ max_chunk_size s] by (auto simp: list_all_iff delta_text_def max_chunk_size_def)
  have "event_stream V model m = EventStream (map (\<lambda>(d, r). event_of (ap_dumps (va_api V) (build_chunk V model d r)))
      (?ds @ [([], JStr (finish_reason m))]) @ [done_event]) True"
    by (simp add: event_stream_def stream_payloads_def deltas case_prod_beta comp_def)
  with deltas whole small show ?thesis by (intro exI [of _ ?ds]) simp
qed

theorem v2_stream_carries_the_message_witness:
  "\<exists>ds. message_deltas [(''content'', JStr ''hello'')] = (ds @ [([], JStr ''stop'')], True)
     \<and> concat (map (\<lambda>d. delta_text (fst d)) ds) = ''hello''"
  using v2_stream_carries_the_message [of "[(''content'', JStr ''hello'')]" "''hello''" v2_test_api "''m''"]
  by (auto simp: finish_reason_def)

section \<open>Models\<close>

text \<open>Of the models the second version lists, a chat can use only \<^verbatim>\<open>llama-3-8b-instruct\<close>, which the first version's
  catalogue has as an alias: a request for any other listed model is refused with a model error before its messages are
  looked at, whatever runtime there is.\<close>

theorem v2_serves_one_model:
  assumes "jget data ''model'' = JStr model" "model \<in> set v2_model_ids" "model \<noteq> ''llama-3-8b-instruct''"
  shows "v2_create_chat_completion V R pick (JDict data) cache
       = (Reply (format_error_response (''Model '' @ [CHR 0x27] @ model @ [CHR 0x27] @ '' not found. Available models: ''
            @ join_ids iter_model_entries) ''model_error'' None None 400), cache)
     \<and> get_model_metadata (canonical_model ''llama-3-8b-instruct'') \<noteq> None"
proof -
  have "model \<in> set (tl v2_model_ids)" using assms(2,3) by (simp add: v2_ids)
  with v2_unknown_models have unknown: "canonical_model model = model" "get_model_metadata model = None"
    by (auto simp: list_all_iff)
  have "model \<noteq> []" using assms(2) by (auto simp: v2_ids)
  then have "get_model_instance R model cache = (Inl (model_error_of (''Model '' @ [CHR 0x27] @ model @ [CHR 0x27]
      @ '' not found. Available models: '' @ join_ids iter_model_entries) 400 ''model_not_found''), cache)"
    using unknown by (simp add: get_model_instance_def lift_def Let_def)
  moreover have "dmem ''model'' data" "data \<noteq> []"
    using assms(1) by (auto simp: dmem_def jget_def split: option.splits)
  moreover have "v2_known_model data = Inr model" using assms(1,2) by (simp add: v2_known_model_def validate_model_name_def)
  moreover have "get_model_metadata (canonical_model ''llama-3-8b-instruct'') \<noteq> None" by code_simp
  ultimately show ?thesis
    by (simp add: v2_create_chat_completion_def body_has_def v2_exception_response_def model_error_of_def render_def)
qed

theorem v2_serves_one_model_witness:
  "fst (v2_create_chat_completion v2_test_api v2_test_runtime 0 (JDict [(''model'', JStr ''gpt-oss-20b'')]) [])
     = Reply (format_error_response (''Model '' @ [CHR 0x27] @ ''gpt-oss-20b'' @ [CHR 0x27] @ '' not found. Available models: ''
          @ join_ids iter_model_entries) ''model_error'' None None 400)"
proof -
  have "''gpt-oss-20b'' \<in> set v2_model_ids" by (simp add: v2_ids)
  with v2_serves_one_model [of "[(''model'', JStr ''gpt-oss-20b'')]" "''gpt-oss-20b''" v2_test_api v2_test_runtime 0 "[]"]
  show ?thesis by simp
qed

section \<open>Images\<close>

text \<open>The walk over a JPEG finds its size: after any number of well-formed segments that are no frame headers,
  the first frame header's width and height are the result, whatever follows; and no data give a width or height of
  more than 16 bits.\<close>

theorem jpeg_size_is_found:
  assumes "list_all skipped_segment segments" "m \<in> set frame_markers" "length rest + 7 < 65536" "height < 65536" "width < 65536"
    and "data = 0xFF # 0xD8 # concat (map jpeg_segment segments) @ jpeg_frame m precision height width rest @ tail"
  shows "image_dimensions (detect_image_type data) data = Some (width, height)
     \<and> (\<forall>bytes w h. extract_jpeg_dimensions bytes = Some (w, h) \<longrightarrow> w < 65536 \<and> h < 65536)"
proof -
  have "detect_image_type data = Some ''jpeg''"
    by (simp add: assms(6) detect_image_type_def png_signature_def gif_signatures_def)
  moreover have "length data \<ge> 4" by (simp add: assms(6) jpeg_frame_def)
  moreover have "jpeg_from data 2 = Some (width, height)"
    using segments_skipped [OF assms(1-5), of "[0xFF, 0xD8]" precision tail] by (simp add: assms(6) numeral_2_eq_2)
  moreover have "take 2 data = [0xFF, 0xD8]" by (simp add: assms(6))
  moreover have "extract_jpeg_dimensions bytes = Some (w, h) \<longrightarrow> w < 65536 \<and> h < 65536" for bytes w h
    using jpeg_dimensions_bound by (auto simp: extract_jpeg_dimensions_def split: if_splits)
  ultimately show ?thesis by (simp add: image_dimensions_def extract_jpeg_dimensions_def)
qed

theorem jpeg_size_is_found_witness:
  "image_dimensions (Some ''jpeg'') (0xFF # 0xD8 # jpeg_segment (0xE0, [1, 2]) @ jpeg_frame 0xC0 8 480 640 [] @ []) = Some (640, 480)"
proof -
  let ?data = "0xFF # 0xD8 # concat (map jpeg_segment [(0xE0, [1, 2])]) @ jpeg_frame 0xC0 8 480 640 [] @ []"
  have "list_all skipped_segment [(0xE0, [1, 2])]" "0xC0 \<in> set frame_markers"
    by (simp_all add: skipped_segment_def frame_markers_def)
  from jpeg_size_is_found [OF this, of "[]" 480 640 ?data 8 "[]"]
  have "image_dimensions (detect_image_type ?data) ?data = Some (640, 480)" by simp
  then show ?thesis by (simp add: detect_image_type_def png_signature_def gif_signatures_def)
qed

end
