(* ===== verification/Relay_Properties.thy ===== *)
theory Relay_Properties
  imports Relay_Scheduler
begin

text \<open>
  The properties of the relay process: what it lets in, how it is configured, and how it
  distributes requests over compute nodes.
\<close>

section \<open>Registration\<close>

text \<open>C36 (refinement). The capabilities the relay normalises are capabilities of the state
  store: from what an accepted dictionary was normalised to, the store's constructor
  builds a record with the same values, unchanged.\<close>

theorem relay_capabilities_refine_store:
  assumes "normalise_capability_dict d = Inr c"
  shows "mk_capabilities (Some (map VStr (supported_model_ids c))) (VStr (active_context_tier c))
     (VInt (int (maximum_total_context_tokens c))) (VInt (int (default_output_token_reservation c)))
     (VInt (int (maximum_output_tokens c))) (VInt (int (max_concurrency c))) (VStr (backend_class c)) (VStr ''v1'')
     = Inr c"
  by (rule normal_stored [OF normalised_normal [OF assms]])

definition sample_capability_dict :: object where
  "sample_capability_dict =
     [(''context_tier'', JStr '' 8k-fast ''), (''model_ids'', JList [JStr '' Qwen3 '', JStr ''qwen3'']),
      (''maximum_total_context_tokens'', JInt 8192), (''default_output_token_reservation'', JInt 256),
      (''maximum_output_tokens'', JInt 512), (''max_concurrency'', JInt 2), (''backend_class'', JStr ''TPU'')]"

definition sample_capabilities :: capabilities where
  "sample_capabilities =
     \<lparr>supported_model_ids = [''qwen3''], active_context_tier = ''8k-fast'', maximum_total_context_tokens = 8192,
      default_output_token_reservation = 256, maximum_output_tokens = 512, max_concurrency = 2,
      backend_class = ''unknown''\<rparr>"

lemma sample_normalised: "normalise_capability_dict sample_capability_dict = Inr sample_capabilities"
  by code_simp

theorem relay_capabilities_refine_store_witness:
  "mk_capabilities (Some [VStr ''qwen3'']) (VStr ''8k-fast'') (VInt 8192) (VInt 256) (VInt 512) (VInt 2)
     (VStr ''unknown'') (VStr ''v1'') = Inr sample_capabilities"
  using relay_capabilities_refine_store [OF sample_normalised] by (simp add: sample_capabilities_def)

text \<open>Normalising is idempotent: the dictionary it returns is accepted and comes
  back as it is. A node that reports no capabilities gets a default without models, which
  is not accepted as a report.\<close>

theorem normalising_is_idempotent:
  assumes "normalise_api_v1_capabilities v = Inr d" and "v \<noteq> JNull"
  shows "normalise_api_v1_capabilities (JDict d) = Inr d"
proof -
  obtain x c where c: "v = JDict x" "normalise_capability_dict x = Inr c" "d = capability_object c"
    using assms by (auto simp: normalise_api_v1_capabilities_def ebind_Inr split: json.splits)
  then show ?thesis
    using normal_refixed [OF normalised_normal [OF c(2)]] by (simp add: normalise_api_v1_capabilities_def)
qed

theorem normalising_is_idempotent_witness:
  "normalise_api_v1_capabilities (JDict (capability_object sample_capabilities)) = Inr (capability_object sample_capabilities)"
  by (rule normalising_is_idempotent [of "JDict sample_capability_dict"])
    (simp_all add: normalise_api_v1_capabilities_def sample_normalised)

definition jstr_value :: "json \<Rightarrow> string" where
  "jstr_value v = (case v of JStr s \<Rightarrow> s | _ \<Rightarrow> [])"

text \<open>A node's control credential is issued once: a payload that has a digest is
  left alone and no credential is disclosed; otherwise the issued credential is the one
  that is valid afterwards, and another credential is valid only if it has the same
  digest.\<close>

theorem control_credential_issued_once:
  assumes "store_api_v1_control_credential E fresh payload = Some (issued, t)"
    and "fresh \<noteq> []" and "\<forall>m. length (sha256 E m) = 32"
  shows "(issued = [] \<longrightarrow> t = payload)
     \<and> (issued \<noteq> [] \<longrightarrow> issued = fresh
          \<and> api_v1_server_control_credential_valid E (JDict t) (JStr issued) = Some True
          \<and> (other \<noteq> [] \<longrightarrow> api_v1_server_control_credential_valid E (JDict t) (JStr other)
               = map_option (\<lambda>b. hexdigest (sha256 E b) = jstr_value (jget t DIGEST_KEY)) (utf8 E other)))"
proof (cases "\<exists>c cs. jget payload DIGEST_KEY = JStr (c # cs)")
  case True
  with assms(1,2) show ?thesis by (auto simp: store_api_v1_control_credential_def)
next
  case False
  have branch: "store_api_v1_control_credential E fresh payload
      = map_option (\<lambda>d. (fresh, dset DIGEST_KEY (JStr d) payload)) (api_v1_control_credential_digest E fresh)"
    using False by (auto simp: store_api_v1_control_credential_def split: json.split list.split)
  with assms(1) obtain b where b: "utf8 E fresh = Some b" "issued = fresh"
      and t: "t = dset DIGEST_KEY (JStr (hexdigest (sha256 E b))) payload"
    by (auto simp: api_v1_control_credential_digest_def)
  obtain e es where e: "hexdigest (sha256 E b) = e # es"
    using assms(3) length_hexdigest [of "sha256 E b"] by (cases "hexdigest (sha256 E b)") auto
  have stored: "jget t DIGEST_KEY = JStr (e # es)" by (simp add: t e jget_def dget_dset)
  have valid: "api_v1_server_control_credential_valid E (JDict t) (JStr x)
      = map_option (\<lambda>b. hexdigest (sha256 E b) = e # es) (utf8 E x)" if "x \<noteq> []" for x
    using that stored
    by (cases x) (simp_all add: api_v1_server_control_credential_valid_def api_v1_control_credential_digest_def
        option.map_comp comp_def)
  show ?thesis using valid [OF assms(2)] valid [of other] b e stored assms(2) by (auto simp: jstr_value_def)
qed

theorem control_credential_issued_once_witness:
  "api_v1_server_control_credential_valid test_env
     (JDict [(DIGEST_KEY, JStr (hexdigest (pad32 ''tok'')))]) (JStr ''tok'') = Some True"
proof -
  have "store_api_v1_control_credential test_env ''tok'' []
      = Some (''tok'', [(DIGEST_KEY, JStr (hexdigest (pad32 ''tok'')))])"
    by (simp add: store_api_v1_control_credential_def api_v1_control_credential_digest_def test_env_def)
  from control_credential_issued_once [OF this] test_env_lengths show ?thesis by simp
qed

section \<open>Envelopes\<close>

text \<open>A request that passes the schema check carries none of the plaintext fields,
  and the envelope the relay forwards holds only keys of the schema.\<close>

theorem relay_sees_ciphertext_only:
  assumes "\<not> payload_has_unexpected_relay_fields (JDict d) server"
    and "extract_ciphertext_envelope (JDict d) server = Inr e"
  shows "\<not> payload_has_plaintext_fields (JDict d) \<and> dkeys e \<subseteq> set (relay_fields server)
     \<and> dkeys e \<inter> set plaintext_fields = {}"
proof -
  have disjoint: "set (relay_fields server) \<inter> set plaintext_fields = {}"
    by (auto simp: relay_fields_def plaintext_fields_def)
  have "dkeys d \<subseteq> set (relay_fields server)"
    using assms(1) by (auto simp: payload_has_unexpected_relay_fields_def list_ex_iff dkeys_def)
  then have "\<not> payload_has_plaintext_fields (JDict d)"
    using disjoint by (auto simp: payload_has_plaintext_fields_def list_ex_iff dmem_iff)
  moreover have "dkeys e \<subseteq> set (relay_fields server)" using assms(2) by (rule envelope_keys)
  ultimately show ?thesis using disjoint by blast
qed

definition sample_payload :: object where
  "sample_payload = [(''client_public_key'', JStr ''k''), (''ciphertext'', JStr ''YQ==''), (''cipherkey'', JStr ''YQ==''),
     (''iv'', JStr ''YQ==''), (''request_id'', JStr ''r'')]"

theorem relay_sees_ciphertext_only_witness:
  "\<not> payload_has_plaintext_fields (JDict sample_payload)"
proof -
  have "\<not> payload_has_unexpected_relay_fields (JDict sample_payload) False" by code_simp
  moreover have "extract_ciphertext_envelope (JDict sample_payload) False = Inr
      [(''client_public_key'', JStr ''k''), (''chat_history'', JStr ''YQ==''), (''ciphertext'', JStr ''YQ==''),
       (''cipherkey'', JStr ''YQ==''), (''iv'', JStr ''YQ==''), (''request_id'', JStr ''r'')]" by code_simp
  ultimately show ?thesis by (rule relay_sees_ciphertext_only [THEN conjunct1])
qed

section \<open>Settings\<close>

text \<open>Whatever the process environment holds, the request deadline is between one
  second and an hour, the tombstone lifetime between one second and five minutes, and
  the lease, staleness and queue limits are at least one.\<close>

theorem settings_are_bounded:
  "1 \<le> api_v1_request_deadline_seconds v \<and> api_v1_request_deadline_seconds v \<le> 3600
   \<and> 1 \<le> api_v1_control_tombstone_ttl_seconds v \<and> api_v1_control_tombstone_ttl_seconds v \<le> 300
   \<and> 1 \<le> server_stale_seconds v \<and> 1 \<le> api_v1_lease_seconds v \<and> 1 \<le> api_v1_max_queue_depth_per_node v"
proof -
  have "1 \<le> bounded_float_env v name 60 1" for name
    by (auto simp: bounded_float_env_def split: option.split pyfloat.split)
  then show ?thesis
    using request_deadline_bounds [of v]
    by (simp add: api_v1_control_tombstone_ttl_seconds_def server_stale_seconds_def api_v1_lease_seconds_def
        api_v1_max_queue_depth_per_node_def int_setting_positive)
qed

section \<open>Selection\<close>

text \<open>The selected node is registered for API v1, supports the requested model
  and a tier at least as large as the requested one, is not at its capacity limit, and no
  eligible node has a smaller tier, or the same tier and a lower load. The answer reports
  a spill-over exactly when the tier is larger than requested.\<close>

theorem best_fit_is_best:
  assumes "select_best_fit_server_key ck model tier s = (Inr (Selected key sel ld spill why srv), t)"
  shows "\<exists>all_candidates c. collect_candidates ck s (requested_model_of model) tier 0 (api_v1_round_robin_keys s) = Inr all_candidates
     \<and> c \<in> set all_candidates \<and> \<not> sc_capacity_limited c \<and> key = sc_server_public_key c
     \<and> fits s (requested_model_of model) tier c
     \<and> (\<forall>d \<in> set all_candidates. \<not> sc_capacity_limited d \<longrightarrow> score c \<le> score d)
     \<and> (spill \<longleftrightarrow> dget CONTEXT_TIER_ORDER tier \<noteq> Some (sc_tier_tokens c))"
proof -
  obtain all_candidates where all: "collect_candidates ck s (requested_model_of model) tier 0 (api_v1_round_robin_keys s)
      = Inr all_candidates"
    using assms by (auto simp: select_best_fit_server_key_def Let_def split: sum.splits)
  define cs where "cs = filter (\<lambda>c. \<not> sc_capacity_limited c) all_candidates"
  define tied where "tied = load_candidates_of cs"
  have cs: "cs \<noteq> []" and tier: "dget CONTEXT_TIER_ORDER tier \<noteq> None"
    using assms unfolding select_best_fit_server_key_def Let_def all sum.case cs_def [symmetric]
    by (auto split: if_splits option.splits)
  then obtain n where n: "dget CONTEXT_TIER_ORDER tier = Some n" by blast
  from select_value [OF all cs_def cs n tied_def refl] assms obtain p
    where p: "p = tied_position s (if length (api_v1_round_robin_keys s) \<noteq> 0
        then server_round_robin_next_index s mod length (api_v1_round_robin_keys s) else 0)
        (length (api_v1_round_robin_keys s)) tied"
      and key: "key = sc_server_public_key (tied ! p)" "spill \<longleftrightarrow> n < sc_tier_tokens (tied ! p)"
    by auto
  have "p < length tied" unfolding p by (rule tied_position_bound) (simp add: tied_def tied_nonempty [OF cs])
  then have c: "tied ! p \<in> set (load_candidates_of cs)" by (simp add: tied_def)
  note best = tied_best [OF c]
  have fits: "fits s (requested_model_of model) tier (tied ! p)"
    using best by (intro collected_fit [OF all]) (auto simp: cs_def)
  then have "n \<le> sc_tier_tokens (tied ! p)" using n by (auto simp: fits_def)
  then have "spill \<longleftrightarrow> dget CONTEXT_TIER_ORDER tier \<noteq> Some (sc_tier_tokens (tied ! p))"
    using key(2) n by auto
  moreover have "tied ! p \<in> set all_candidates" "\<not> sc_capacity_limited (tied ! p)"
      "\<forall>d \<in> set all_candidates. \<not> sc_capacity_limited d \<longrightarrow> score (tied ! p) \<le> score d"
    using best by (auto simp: cs_def)
  ultimately show ?thesis using all fits key(1)
    by (intro exI [of _ all_candidates] exI [of _ "tied ! p"] conjI)
qed

text \<open>A relay with three nodes for the same model, two of them on the small tier.\<close>

definition sample_node :: "string \<Rightarrow> int \<Rightarrow> node" where
  "sample_node tier window =
     \<lparr>nd_fields = [(API_V1_SERVER_MARKER, JBool True), (''last_ping_duration'', JInt 30),
        (''capabilities'', JDict (capability_object (sample_capabilities\<lparr>active_context_tier := tier,
           maximum_total_context_tokens := nat window\<rparr>)))],
      nd_last_ping = PingDatetime 0\<rparr>"

definition sample_relay :: relay where
  "sample_relay =
     \<lparr>known_servers = [(''big'', sample_node ''64k-full'' 65536), (''a'', sample_node ''8k-fast'' 8192),
        (''b'', sample_node ''8k-fast'' 8192)],
      client_inference_requests = [], server_round_robin_next_index = 2,
      api_v1_filtered_round_robin_next_positions = []\<rparr>"

definition sample_clock_at :: "rat \<Rightarrow> clock" where
  "sample_clock_at t =
     \<lparr>ck_monotonic = t, ck_datetime = 1, ck_time = t, ck_seconds = of_int, ck_minus = (-),
      ck_load_score = (\<lambda>a b. of_int a / of_int b),
      ck_environ = \<lparr>en_vars = (\<lambda>_. None), en_float = (\<lambda>_. None), en_float_of_int = (\<lambda>i. Some (of_int i))\<rparr>\<rparr>"

lemma sample_tied: "tied_keys (sample_clock_at 1) (Some ''Qwen3'') ''8k-fast'' sample_relay = Inr [''a'', ''b'']"
  by code_simp

lemma sample_selected:
  "\<exists>sel ld spill why srv t. select_best_fit_server_key (sample_clock_at 1) (Some ''Qwen3'') ''8k-fast'' sample_relay
     = (Inr (Selected ''b'' sel ld spill why srv), t)"
proof -
  have "(case fst (select_best_fit_server_key (sample_clock_at 1) (Some ''Qwen3'') ''8k-fast'' sample_relay) of
      Inr (Selected key _ _ _ _ _) \<Rightarrow> key = ''b'' | _ \<Rightarrow> False)" by code_simp
  then show ?thesis by (auto split: sum.splits best_fit.splits prod.splits) (metis prod.collapse)
qed

theorem best_fit_is_best_witness:
  "\<exists>all_candidates c. collect_candidates (sample_clock_at 1) sample_relay (requested_model_of (Some ''Qwen3'')) ''8k-fast'' 0
        (api_v1_round_robin_keys sample_relay) = Inr all_candidates
     \<and> c \<in> set all_candidates \<and> \<not> sc_capacity_limited c \<and> ''b'' = sc_server_public_key c
     \<and> fits sample_relay (requested_model_of (Some ''Qwen3'')) ''8k-fast'' c"
proof -
  obtain sel ld spill why srv t where
    "select_best_fit_server_key (sample_clock_at 1) (Some ''Qwen3'') ''8k-fast'' sample_relay
     = (Inr (Selected ''b'' sel ld spill why srv), t)" using sample_selected by blast
  from best_fit_is_best [OF this] show ?thesis by blast
qed

text \<open>C37 (liveness). Ties are broken fairly: as long as the same nodes are tied, that many
  consecutive selections choose each of them exactly once, in rotation.\<close>

theorem tied_nodes_take_turns:
  assumes "list_all (\<lambda>ck. tied_keys ck model tier s = Inr ks) cks" and "length cks = length ks" and "ks \<noteq> []"
    and "dget CONTEXT_TIER_ORDER tier \<noteq> None"
  shows "\<exists>p. select_each cks model tier s = map Some (rotate p ks)"
proof -
  obtain ck cks' where cks: "cks = ck # cks'" using assms(2,3) by (cases cks) auto
  have tied: "tied_keys ck model tier s = Inr ks" "list_all (\<lambda>ck. tied_keys ck model tier s = Inr ks) cks'"
    using assms(1) by (simp_all add: cks)
  from select_tied [OF tied(1) assms(3,4)] obtain p t sel ld sp why srv where p: "p < length ks"
      and r: "select_best_fit_server_key ck model tier s = (Inr (Selected (ks ! p) sel ld sp why srv), t)"
      and q: "dget (api_v1_filtered_round_robin_next_positions t) ks = Some ((p + 1) mod length ks)"
      and same: "known_servers t = known_servers s" "client_inference_requests t = client_inference_requests s"
    by blast
  have "list_all (\<lambda>ck. tied_keys ck model tier t = Inr ks) cks'"
    using tied(2) by (simp add: tied_keys_unchanged [OF same])
  from rotation_from [OF this assms(3,4) q]
  have rest: "select_each cks' model tier t = map (\<lambda>i. Some (ks ! ((p + Suc i) mod length ks))) [0..<length cks']"
    by (simp add: mod_simps)
  have "select_each cks model tier s = Some (ks ! (p mod length ks)) # select_each cks' model tier t"
    using p by (simp add: cks r)
  also have "\<dots> = map (\<lambda>i. Some (ks ! ((p + i) mod length ks))) [0..<length ks]"
    unfolding rest assms(2) [symmetric] cks
    by (subst upt_conv_Cons) (auto simp: map_Suc_upt [symmetric] simp del: upt_Suc)
  also have "\<dots> = map Some (rotate p ks)"
    by (intro nth_equalityI) (simp_all add: nth_rotate)
  finally show ?thesis by blast
qed

theorem tied_nodes_take_turns_witness:
  "\<exists>p. select_each [sample_clock_at 1, sample_clock_at 1] (Some ''Qwen3'') ''8k-fast'' sample_relay
     = map Some (rotate p [''a'', ''b''])"
  by (rule tied_nodes_take_turns) (simp_all add: sample_tied CONTEXT_TIER_ORDER_def)

text \<open>Removing a node keeps the rotation: the cursor still points to the node
  it pointed to, or to the one after it when that is the node removed.\<close>

theorem removal_keeps_rotation:
  assumes "wf_dict (known_servers s)" and "key \<in> set (api_v1_round_robin_keys s)"
    and "1 < length (api_v1_round_robin_keys s)"
  shows "fst (remove_known_server key s) \<and> dget (known_servers (snd (remove_known_server key s))) key = None
     \<and> next_in_rotation (snd (remove_known_server key s)) =
       (if next_in_rotation s = key
        then api_v1_round_robin_keys s !
          ((server_round_robin_next_index s mod length (api_v1_round_robin_keys s) + 1) mod length (api_v1_round_robin_keys s))
        else next_in_rotation s)"
proof -
  define keys where "keys = api_v1_round_robin_keys s"
  define n where "n = length keys"
  define c where "c = server_round_robin_next_index s mod n"
  define r where "r = index_of key keys"
  define j where "j = (if r < c then (c - 1) mod (n - 1) else c mod (n - 1))"
  have r: "r < n" "keys ! r = key" using index_of_nth [OF assms(2)] by (simp_all add: r_def n_def keys_def)
  have n: "1 < n" using assms(3) by (simp add: n_def keys_def)
  then have c: "c < n" by (simp add: c_def)
  have d: "distinct keys" unfolding keys_def by (rule keys_distinct [OF assms(1)])
  have mem: "dmem key (known_servers s)"
    using assms(2) by (auto simp: api_v1_round_robin_keys_def dmem_iff dkeys_def)
  have t: "remove_known_server key s =
      (True, s\<lparr>known_servers := ddel key (known_servers s), server_round_robin_next_index := j\<rparr>)"
    using mem assms(2) n by (simp add: remove_known_server_def Let_def keys_def [symmetric] r_def [symmetric]
        n_def [symmetric] c_def [symmetric] j_def)
  have left: "filter (\<lambda>k. k \<noteq> key) keys = take r keys @ drop (Suc r) keys"
    using filter_neq_nth [OF d, of r] r by (simp add: n_def)
  note arith = rotation_after [OF c r(1) n, folded j_def]
  have "length (take r keys @ drop (Suc r) keys) = n - 1" using r(1) by (simp add: n_def)
  then have "next_in_rotation (snd (remove_known_server key s)) = (take r keys @ drop (Suc r) keys) ! j"
    using arith(1) by (simp add: next_in_rotation_def t keys_after_removal keys_def [symmetric] left Let_def)
  also have "\<dots> = keys ! (if j < r then j else Suc j)"
    using r(1) by (auto simp: nth_append n_def min_def)
  also have "\<dots> = (if keys ! c = key then keys ! ((c + 1) mod n) else keys ! c)"
    unfolding arith(2) using r c d by (simp add: nth_eq_iff_index_eq n_def flip: r(2))
  finally show ?thesis
    by (simp add: t dget_ddel next_in_rotation_def keys_def [symmetric] n_def [symmetric] c_def [symmetric] Let_def)
qed

theorem removal_keeps_rotation_witness:
  "next_in_rotation sample_relay = ''b'' \<and> next_in_rotation (snd (remove_known_server ''a'' sample_relay)) = ''b''"
proof -
  have "api_v1_round_robin_keys sample_relay = [''big'', ''a'', ''b'']" by code_simp
  moreover have "next_in_rotation sample_relay = ''b''" by code_simp
  moreover have "wf_dict (known_servers sample_relay)" by (simp add: sample_relay_def)
  ultimately show ?thesis using removal_keeps_rotation [of sample_relay "''a''"] by simp
qed

section \<open>Polling\<close>

text \<open>A poll takes the first end-to-end encrypted request of the node's queue
  and drops every other kind; with none, it takes the first complete legacy envelope and
  drops what stands before it. No other queue changes.\<close>

theorem poll_takes_first_encrypted:
  "fst (pop_next_api_v1_request key s) =
     (if filter is_e2ee (queue_of s key) \<noteq> [] then Some (hd (filter is_e2ee (queue_of s key)))
      else find is_legacy_ciphertext_payload (queue_of s key))
   \<and> queue_of (snd (pop_next_api_v1_request key s)) k =
     (if k \<noteq> key then queue_of s k
      else if filter is_e2ee (queue_of s key) \<noteq> [] then tl (filter is_e2ee (queue_of s key))
      else tl (dropWhile (\<lambda>x. \<not> is_legacy_ciphertext_payload x) (queue_of s key)))"
proof (cases "pop_e2ee (queue_of s key)")
  case None
  have none: "filter is_e2ee (queue_of s key) = []" using None by (simp add: pop_e2ee_None)
  then have "\<not> is_e2ee x" if "find is_legacy_ciphertext_payload (queue_of s key) = Some x" for x
    using that by (auto simp: find_Some_iff filter_empty_conv)
  then show ?thesis
    by (cases "queue_of s key = []")
      (auto simp: pop_next_api_v1_request_def None none pop_legacy_eq queue_of_update Let_def split: option.split)
next
  case (Some a)
  obtain x rest where a: "pop_e2ee (queue_of s key) = Some (x, rest)" using Some by (cases a) auto
  from pop_e2ee_Some [OF a] have x: "is_e2ee x" "filter is_e2ee (queue_of s key) = x # filter is_e2ee rest" by auto
  then have "queue_of s key \<noteq> []" by auto
  with a x show ?thesis by (simp add: pop_next_api_v1_request_def Let_def queue_of_update)
qed

end
