(* ===== verification/Api_Properties.thy ===== *)
theory Api_Properties
  imports Api_Validation Moderation Context_Profiles Model_Profiles
begin

text \<open>
  The properties of the API layer: the request validators, the content policy and their
  composition, the context profiles and the model catalogue.
\<close>

section \<open>Validation\<close>

text \<open>C38 (equivalence). The chat validator accepts exactly the non-empty lists of messages with
  a known role and text content, the content being a string or a non-empty list of
  text blocks with a non-empty text.\<close>

theorem chat_validator_is_exact:
  "validate_chat_messages v = Inr () \<longleftrightarrow> (\<exists>ms. v = JList ms \<and> ms \<noteq> [] \<and> list_all chat_message ms)"
  by (rule chat_accepts)




text \<open>An encrypted request passes exactly when it has a text public key and an
  object of messages whose three cipher fields are present and, where they are texts, are
  base64: digits and the padding that fills the last group. A cipher field that is no
  text passes unchecked.\<close>

theorem encrypted_validator_is_exact:
  "validate_encrypted_request data = Inr () \<longleftrightarrow>
     (\<exists>key envelope. dget data ''client_public_key'' = Some (JStr key) \<and> dget data ''messages'' = Some (JDict envelope)
        \<and> list_all (\<lambda>f. \<exists>v. dget envelope f = Some v \<and> cipher_value v) cipher_fields)"
  by (rule encrypted_accepts)

text \<open>A validated image request has a stripped non-empty prompt, both dimensions
  between 32 and 1024, and a seed that is absent or not negative.\<close>

theorem image_request_bounds:
  assumes "validate_image_generation_payload payload = Inr r"
  shows "im_prompt r \<noteq> [] \<and> py_strip (im_prompt r) = im_prompt r
     \<and> 32 \<le> im_width r \<and> im_width r \<le> 1024 \<and> 32 \<le> im_height r \<and> im_height r \<le> 1024
     \<and> (im_seed r = JNull \<or> (\<exists>n. jint (im_seed r) = Some n \<and> 0 \<le> n))"
proof (cases payload)
  case (JDict data)
  define prompt where "prompt = (case jget data ''prompt'' of JStr s \<Rightarrow> py_strip s | _ \<Rightarrow> [])"
  obtain w h where dims: "derive_dimensions data = Inr (w, h)"
    and seed: "validate_field_type data ''seed'' IntType True = Inr ()"
      "\<not> (case jint (jget data ''seed'') of Some n \<Rightarrow> n < 0 | None \<Rightarrow> False)"
    and prompt: "prompt \<noteq> []"
    and r: "r = \<lparr>im_prompt = prompt, im_seed = jget data ''seed'', im_width = w, im_height = h\<rparr>"
    using assms unfolding JDict validate_image_generation_payload_def
    by (auto simp: ebind_Inr Let_def prompt_def split: prod.splits)
  have "jget data ''seed'' = JNull \<or> (\<exists>n. jint (jget data ''seed'') = Some n \<and> 0 \<le> n)"
    using seed by (auto simp: field_type_accepts jget_def split: option.splits)
  moreover have "py_strip [] = []" by (simp add: py_strip_def)
  then have "py_strip prompt = prompt" by (cases "jget data ''prompt''") (simp_all add: prompt_def)
  ultimately show ?thesis using derive_bounds [OF dims] prompt
    by (simp add: r dimension_low_def dimension_high_def)
qed (use assms in \<open>auto simp: validate_image_generation_payload_def\<close>)

theorem image_request_bounds_witness:
  "im_prompt \<lparr>im_prompt = ''cat'', im_seed = JInt 7, im_width = 64, im_height = 128\<rparr> \<noteq> []
     \<and> (64::int) \<le> 1024 \<and> (128::int) \<le> 1024"
proof -
  have "validate_image_generation_payload
      (JDict [(''prompt'', JStr '' cat ''), (''seed'', JInt 7), (''size'', JStr ''64x128'')])
    = Inr \<lparr>im_prompt = ''cat'', im_seed = JInt 7, im_width = 64, im_height = 128\<rparr>" by code_simp
  from image_request_bounds [OF this] show ?thesis by simp
qed

text \<open>Writing two dimensions in range as \<^verbatim>\<open>WIDTHxHEIGHT\<close>, in either case of
  the letter and with white space around, and parsing the text gives the dimensions back.\<close>

theorem size_text_roundtrip:
  assumes "32 \<le> w" "w \<le> 1024" "32 \<le> h" "h \<le> 1024"
    and "list_all is_space pre" "list_all is_space post" and "x \<in> {CHR ''x'', CHR ''X''}"
  shows "parse_size_field (JStr (pre @ show_nat w @ [x] @ show_nat h @ post)) = Inr (int w, int h)"
proof -
  have len: "2 \<le> length (show_nat n) \<and> length (show_nat n) \<le> 4" if "32 \<le> n" "n \<le> 1024" for n
    using that length_show_nat [of 1 n] length_show_nat [of 4 n] by simp
  have ws: "show_nat w \<noteq> []" "show_nat h \<noteq> []" using len [OF assms(1,2)] len [OF assms(3,4)] by auto
  have "\<not> is_space (hd (show_nat w))" "\<not> is_space (last (show_nat h))"
    using ws show_nat_digits by (metis digit_not_space list_all_iff hd_in_set, metis digit_not_space list_all_iff last_in_set)
  then have strip: "py_strip (pre @ (show_nat w @ [x] @ show_nat h) @ post) = show_nat w @ [x] @ show_nat h"
    using ws by (intro strip_padding [OF assms(5,6)]) auto
  have "lower_char (CHR ''x'') = CHR ''x''" "lower_char (CHR ''X'') = CHR ''x''" by code_simp+
  then have "lower_char x = CHR ''x''" using assms(7) by auto
  then have "py_lower (show_nat w @ [x] @ show_nat h) = show_nat w @ CHR ''x'' # show_nat h"
    using digits_lower [OF show_nat_digits] by (simp add: py_lower_def)
  with strip len [OF assms(1,2)] len [OF assms(3,4)] show ?thesis
    using size_pattern_digits [OF show_nat_digits show_nat_digits, of w h] assms(1-4)
    by (simp add: parse_size_field_def ensure_dimension_def dimension_low_def dimension_high_def)
qed

theorem size_text_roundtrip_witness:
  "parse_size_field (JStr ('' '' @ show_nat 640 @ [CHR ''X''] @ show_nat 480 @ [])) = Inr (640, 480)"
proof -
  have "list_all is_space '' ''" by code_simp
  from size_text_roundtrip [of 640 480, OF _ _ _ _ this, of "[]" "CHR ''X''"] show ?thesis by simp
qed

section \<open>Content policy\<close>

text \<open>The policy allows a list of messages exactly when it is switched off or
  no text it inspects contains, in lower case, a term of the block list.\<close>

theorem policy_is_exact:
  "md_allowed (evaluate_messages_for_policy env messages) \<longleftrightarrow>
     get_mode env \<in> {''disabled'', ''off'', ''none'', ''''}
     \<or> list_all (\<lambda>f. list_all (\<lambda>t. \<not> sublist t (py_lower f)) (get_blocklist env)) (inspected messages)"
proof -
  have terms: "banned_term (get_blocklist env) f = None \<longleftrightarrow> list_all (\<lambda>t. \<not> sublist t (py_lower f)) (get_blocklist env)" for f
    using blocklist_terms [of _ env] by (auto simp: banned_term_None list_all_iff)
  have "md_allowed (scan_messages (get_blocklist env) messages) \<longleftrightarrow> scan_fragments (get_blocklist env) (inspected messages) = None"
    using scan_fragments_Some [of "get_blocklist env" "inspected messages"]
    by (cases "scan_fragments (get_blocklist env) (inspected messages)")
      (auto simp: scan_messages_inspected allow_def block_def)
  then have scan: "md_allowed (scan_messages (get_blocklist env) messages)
      \<longleftrightarrow> list_all (\<lambda>f. list_all (\<lambda>t. \<not> sublist t (py_lower f)) (get_blocklist env)) (inspected messages)"
    by (simp add: scan_fragments_None terms)
  show ?thesis
  proof (cases "get_blocklist env = []")
    case True
    then show ?thesis by (simp add: evaluate_messages_for_policy_def allow_def list_all_iff)
  next
    case False
    then show ?thesis using scan by (simp add: evaluate_messages_for_policy_def Let_def allow_def)
  qed
qed

text \<open>A block names the first offending text, in the order of the messages and
  their fragments, and a term of the block list that occurs in it.\<close>

theorem block_names_first_text:
  assumes "\<not> md_allowed (evaluate_messages_for_policy env messages)"
  shows "\<exists>pre f post t. inspected messages = pre @ f # post
     \<and> list_all (\<lambda>g. banned_term (get_blocklist env) g = None) pre
     \<and> t \<in> set (get_blocklist env) \<and> t \<noteq> [] \<and> sublist t (py_lower f)
     \<and> md_matched_term (evaluate_messages_for_policy env messages) = Some t
     \<and> md_flagged_text (evaluate_messages_for_policy env messages) = Some f"
proof -
  have eval: "evaluate_messages_for_policy env messages = scan_messages (get_blocklist env) messages"
    using assms by (auto simp: evaluate_messages_for_policy_def Let_def allow_def split: if_splits)
  then obtain d where "scan_fragments (get_blocklist env) (inspected messages) = Some d" "evaluate_messages_for_policy env messages = d"
    using assms by (auto simp: scan_messages_inspected allow_def split: option.splits)
  from scan_fragments_Some [OF this(1)] this(2) obtain pre f post t
    where "inspected messages = pre @ f # post" "list_all (\<lambda>f. banned_term (get_blocklist env) f = None) pre"
      "banned_term (get_blocklist env) f = Some t" "evaluate_messages_for_policy env messages = block t f" by blast
  with banned_term_Some [OF this(3)] show ?thesis by (auto simp: block_def)
qed

definition demo_environment :: getenv where
  "demo_environment name = (if name = ''CONTENT_MODERATION_MODE'' then Some ''On'' else None)"

definition demo_message :: json where
  "demo_message = JDict [(''role'', JStr ''user''),
     (''content'', JList [JDict [(''type'', JStr ''input_text''), (''text'', JStr ''how to KILL a process'')]])]"

theorem block_names_first_text_witness:
  "\<exists>pre f post t. inspected [demo_message] = pre @ f # post
     \<and> list_all (\<lambda>g. banned_term (get_blocklist demo_environment) g = None) pre
     \<and> t \<in> set (get_blocklist demo_environment) \<and> t \<noteq> [] \<and> sublist t (py_lower f)
     \<and> md_matched_term (evaluate_messages_for_policy demo_environment [demo_message]) = Some t
     \<and> md_flagged_text (evaluate_messages_for_policy demo_environment [demo_message]) = Some f"
proof (rule block_names_first_text)
  show "\<not> md_allowed (evaluate_messages_for_policy demo_environment [demo_message])" by code_simp
qed

text \<open>The policy and the validator fit together: when both let a request pass and
  the policy is on, no text of any message contains a term of the block list.\<close>

theorem validated_and_allowed_is_clean:
  assumes "validate_chat_messages (JList ms) = Inr ()"
    and "get_mode env \<notin> {''disabled'', ''off'', ''none'', ''''}"
    and "md_allowed (evaluate_messages_for_policy env ms)"
  shows "list_all (\<lambda>m. list_all (\<lambda>f. list_all (\<lambda>t. \<not> sublist t (py_lower f)) (get_blocklist env))
     (content_texts (message_content m))) ms"
proof -
  have "list_all chat_message ms" using assms(1) by (auto simp: chat_accepts)
  from inspected_chat [OF this] have inspected: "inspected ms = concat (map (content_texts \<circ> message_content) ms)" .
  have "md_allowed (scan_messages (get_blocklist env) ms) \<or> get_blocklist env = []"
    using assms(2,3) by (auto simp: evaluate_messages_for_policy_def Let_def split: if_splits)
  then have "list_all (\<lambda>f. banned_term (get_blocklist env) f = None) (inspected ms)"
    using scan_fragments_Some [of "get_blocklist env" "inspected ms"] scan_fragments_None [of "get_blocklist env" "inspected ms"]
    by (cases "scan_fragments (get_blocklist env) (inspected ms)")
      (auto simp: scan_messages_inspected allow_def block_def banned_term_None list_all_iff)
  then show ?thesis using blocklist_terms [of _ env]
    by (auto simp: inspected banned_term_None list_all_iff)
qed

definition polite_message :: json where
  "polite_message = JDict [(''role'', JStr ''user''), (''content'', JStr ''Hello'')]"

theorem validated_and_allowed_is_clean_witness:
  "list_all (\<lambda>m. list_all (\<lambda>f. list_all (\<lambda>t. \<not> sublist t (py_lower f)) (get_blocklist demo_environment))
     (content_texts (message_content m))) [polite_message]"
proof (rule validated_and_allowed_is_clean)
  show "validate_chat_messages (JList [polite_message]) = Inr ()" by code_simp
  show "get_mode demo_environment \<notin> {''disabled'', ''off'', ''none'', ''''}" by code_simp
  show "md_allowed (evaluate_messages_for_policy demo_environment [polite_message])" by code_simp
qed

section \<open>Profiles\<close>

text \<open>C40 (type). Whatever name is given, the normalised tier is one the profile lookup accepts, is
  a fixed point of normalisation, and its window is the bound the relay's state store
  keeps for that tier.\<close>

theorem normalized_tier_is_known:
  "\<exists>p. get_context_profile (Some (normalize_context_tier name)) = Inr p
     \<and> profile_id p = normalize_context_tier name
     \<and> normalize_context_tier (Some (normalize_context_tier name)) = normalize_context_tier name
     \<and> dget CONTEXT_TIER_TOKEN_BOUNDS (normalize_context_tier name) = Some (total_context_tokens p)"
proof -
  define t where "t = normalize_context_tier name"
  obtain p where p: "dget CONTEXT_PROFILES t = Some p" unfolding t_def using normalized_known by blast
  note facts = profiles_enabled [OF p] known_tiers [OF p]
  have "dget CONTEXT_TIER_TOKEN_BOUNDS t = Some (total_context_tokens p)"
    unfolding profiles_bounds [symmetric] map_of_map using p by simp
  moreover have "normalize_context_tier (Some t) = t"
    using facts unfolding normalize_context_tier_def named_tier_Some [OF known_tiers [OF p]] p by simp
  ultimately show ?thesis using get_known [OF p] facts unfolding t_def [symmetric] by blast
qed

text \<open>Resolving an alias gives a model that no alias redirects further, and an
  alias always leads to a public, runnable profile.\<close>

theorem alias_resolution:
  "resolve_alias (resolve_alias m) = resolve_alias m
   \<and> (resolve_alias m \<noteq> m \<longrightarrow>
        (\<exists>i p. dget MODEL_PROFILES i = Some p \<and> mp_api_model_id p = resolve_alias m \<and> mp_public_catalog p \<and> mp_runnable p))"
proof -
  have fixed: "resolve_alias CANONICAL_API_V1_MODEL_ID = CANONICAL_API_V1_MODEL_ID" by code_simp
  have qwen: "dget MODEL_PROFILES QWEN3_8B_PROFILE_ID = Some qwen_profile"
      "mp_api_model_id qwen_profile = CANONICAL_API_V1_MODEL_ID" "mp_public_catalog qwen_profile" "mp_runnable qwen_profile"
    by (simp_all add: MODEL_PROFILES_def LLAMA_3_1_8B_PROFILE_ID_def QWEN3_8B_PROFILE_ID_def qwen_profile_def)
  have "resolve_alias m = m \<or> resolve_alias m = CANONICAL_API_V1_MODEL_ID"
    by (simp add: resolve_alias_def aliases_value)
  then show ?thesis using fixed qwen by metis
qed

theorem alias_resolution_witness:
  "resolve_alias ''gpt-3.5-turbo'' = ''qwen3-8b-instruct''
   \<and> (\<exists>i p. dget MODEL_PROFILES i = Some p \<and> mp_api_model_id p = resolve_alias ''gpt-3.5-turbo'' \<and> mp_public_catalog p \<and> mp_runnable p)"
proof -
  have "resolve_alias ''gpt-3.5-turbo'' = ''qwen3-8b-instruct''" by code_simp
  with alias_resolution [of "''gpt-3.5-turbo''"] show ?thesis by simp
qed

end
