(* ===== verification/Spec2Isabelle.thy ===== *)
theory Spec2Isabelle
  imports Store_Properties Store_Outcomes Store_Removal Store_Fencing Exchange_Properties Provider_Properties Route_Properties
    Node_Properties Node_Poll_Properties V2_Properties Relay_Properties Api_Properties
begin

text \<open>
  \<^bold>\<open>token.place: a verification library\<close>

  token.place relays end-to-end encrypted inference requests from clients to compute
  nodes. A client asks the relay for a node (select and reserve), enqueues a ciphertext
  envelope for it, and later retrieves a ciphertext response with a one-time
  acknowledgement. A node registers with its capabilities, claims queued requests under
  a lease with a generation number, renews the lease or learns that it must stop, and
  returns the response. The relay never sees plaintext; its job is to keep the lifecycle
  of each request consistent under retries, expiry, cancellation and nodes that leave.

  \<^bold>\<open>The relay state store\<close> (\<^verbatim>\<open>src/relay_state_store.py\<close>, modelled in full). The
  class \<^verbatim>\<open>InMemoryRelayStateStore\<close> is the record \<^typ>\<open>store\<close>: one field per dictionary
  and counter of the object. Its methods run under one lock, so each is a function
  \<^verbatim>\<open>store \<Rightarrow> (error + result) \<times> store\<close>, where an exception also returns the state it
  leaves behind. Exceptions are the constructors of \<^typ>\<open>store_error\<close>. Dictionaries are
  association lists in insertion order, digests and credentials are texts, times are
  finite rationals with a value for overflow (\<^typ>\<open>epoch\<close>).

  \<^item> \<open>Prelude\<close>: Python values, ordered dictionaries, results and effects, text
    primitives, the environment (SHA-256, HMAC, UTF-8, float addition and conversion),
    and the locales \<open>step_order\<close> and \<open>ordered_dict\<close>.
  \<^item> \<open>Store_Config\<close>: the exceptions and the validating constructors
    (\<^verbatim>\<open>RelayStateStoreConfig\<close>, \<^verbatim>\<open>ComputeNodeCapabilities\<close>, \<^verbatim>\<open>SchedulerNodeState\<close>, the
    envelopes).
  \<^item> \<open>Store_State\<close>: the records, the result types, the store, argument checks, digests and
    tokens.
  \<^item> \<open>Store_Nodes\<close>: closing a lifecycle, removing a node with its work in batches, lease
    expiry, the reaper, registration.
  \<^item> \<open>Store_Requests\<close>: scheduling and reservation, enqueueing, claims, responses,
    retrieval, cancellation, and the read operations.
  \<^item> \<open>Store_Lifecycle\<close>, \<open>Store_Housekeeping\<close>, \<open>Store_Steps\<close>, \<open>Store_Scheduler\<close>: the
    lifecycle invariant and that every change keeps it, the locale \<open>housekeeping\<close> (what
    the reaper needs of an invariant and a step relation), the commits of the operations,
    the ranking and the round robin.
  \<^item> \<open>Store_Machine\<close>: the public operations as the datatype \<^typ>\<open>call\<close> and the transition
    function \<open>perform\<close>, reachable states, and the locale \<open>store_machine\<close>: from a law per
    kind of change it derives that every call keeps an invariant and a relation.
  \<^item> \<open>Store_Invariants\<close>, \<open>Store_Progress\<close>, \<open>Store_Capacity\<close>, \<open>Store_Registry\<close>,
    \<open>Store_Leases\<close>: the interpretations of that locale, one per concern (consistency,
    finality and fencing of generations, configured bounds, the node registry and its
    fences, active claims under a clock that does not go back).
  \<^item> \<open>Store_Demo\<close>: a concrete run that the witnesses use.
  \<^item> \<open>Store_Properties\<close>, \<open>Store_Outcomes\<close>, \<open>Store_Removal\<close>, \<open>Store_Fencing\<close>: the
    properties. Reachable states are consistent and within every bound; a terminal
    outcome is final; claims go to the oldest request and their generations are fresh; a
    response needs the current claim and a retry of it changes nothing; what was accepted
    is what is retrieved; the selected node is the best one, in fair turns; a reservation
    is consumed once; cancelling needs the proof and stops the worker; removing a node
    takes a bounded step per call and enough calls complete it; a removed owner is fenced
    off; a store has settings in bounds only.

  \<^bold>\<open>The relay process\<close> (\<^verbatim>\<open>src/relay.py\<close>). \<open>Relay_Settings\<close> has the settings
  read from the environment, \<open>Relay_Capabilities\<close> what a node registers with, its
  control credential, and the envelope checks of a request, \<open>Relay_Scheduler\<close> the
  in-process scheduler: the module's dictionaries and cursor are the record
  \<^typ>\<open>relay\<close>. \<open>Relay_Properties\<close> shows that normalised capabilities are exactly what
  the store's constructor accepts unchanged, that a request which passes the schema
  carries no plaintext field, that settings are bounded whatever the environment holds,
  that the best fit is best, that tied nodes take turns, that removing a node keeps the
  rotation, and which request a poll takes.

  The module's other dictionaries (waiting responses, progress, pending and terminal
  requests, outcomes, tombstones, streams) and its scheduler make up the record
  \<^typ>\<open>exchange\<close>; a handler is an action on it that ends in a status and a body or in an
  exception, and always leaves a state.

  \<^item> \<open>Relay_Lifecycle\<close>: the dictionaries of dictionaries, terminal records and their
    pruning, pending requests, waiting responses, cancellation, stream sessions,
    unregistering a node, eviction of stale nodes and of stale work.
  \<^item> \<open>Relay_Handlers\<close>, \<open>Relay_Nodes\<close>, \<open>Relay_Legacy\<close>: the handlers that clients call,
    those that compute nodes call with the selection of the next node, and the legacy
    routes.
  \<^item> \<open>Relay_Laws\<close>: the locale \<open>exchange_laws\<close>, what an invariant and a step relation must
    satisfy for each primitive change of the dictionaries. \<open>Relay_Steps\<close> derives inside it
    that every handler keeps them.
  \<^item> \<open>Relay_Exchange\<close>: the invariant, the transition function \<open>serve\<close> over all requests,
    the states it can reach, and the interpretation of the locale. \<open>Relay_Effects\<close>: what a
    cancellation leaves, how rounds of a poll end, and the mailbox specification of the
    waiting responses.
  \<^item> \<open>Exchange_Properties\<close>: in every state requests can produce the dictionaries agree; a
    closed request stays closed and its late response is refused; the waiting responses
    implement a list per client; an accepted response reaches its client once; cancelling
    needs the proof and leaves nothing of the request; the rounds of a poll end.

  \<^bold>\<open>The API layer\<close> (\<^verbatim>\<open>src/api/v1/validation.py\<close>, \<^verbatim>\<open>src/api/v1/moderation.py\<close>,
  \<^verbatim>\<open>src/utils/context_profiles.py\<close>, \<^verbatim>\<open>src/utils/llm/model_profiles.py\<close>): theories
  \<open>Json\<close>, \<open>Api_Validation\<close>, \<open>Moderation\<close>, \<open>Context_Profiles\<close>, \<open>Model_Profiles\<close>. The
  locale \<open>checked_loop\<close> states what a loop of checks with a first error does.
  \<open>Api_Properties\<close> characterises exactly which chat messages and encrypted requests
  pass, which error is raised, what a validated image request satisfies, when the content
  policy blocks and why, and that a validated request the policy allows has no banned
  text anywhere.

  \<^bold>\<open>The API's compute providers and routes\<close> (\<^verbatim>\<open>src/api/v1/compute_provider.py\<close>,
  \<^verbatim>\<open>src/api/v1/models.py\<close>, the completion and model routes of \<^verbatim>\<open>src/api/v1/routes.py\<close>,
  \<^verbatim>\<open>src/api/security.py\<close>). The API answers chat requests with a model in its own process, or
  dispatches them through a relay as one more client of it. What lies outside (HTTP, the clock, sleep, the
  generator) is the record \<open>world\<close>; a call of a provider runs on a \<open>client\<close>, which has a state of the world,
  the log of the requests sent with their outcomes, and the label of the backend.

  \<^item> \<open>Compute_Provider\<close>: the local, the distributed and the fallback provider. The polling loop is a
    \<^verbatim>\<open>partial_function (option)\<close>: a call that never returns is \<open>None\<close>.
  \<^item> \<open>Provider_Targets\<close>: which relay and which provider the environment selects.
  \<^item> \<open>Api_Models\<close>, \<open>Api_Routes\<close>: the catalogue, loading and generation; the handlers of chat and text
    completions and of the models, from the decoded body to status, body and headers; operator access.
  \<^item> \<open>Provider_Runs\<close>, \<open>Provider_Facts\<close>: the log of a dispatch as a sequence of requests, and what the readers
    of replies and settings accept. \<open>Provider_Clock\<close> has the locale \<open>steady_world\<close> (the clock does not go back,
    a sleep lasts as long as asked for, floats round monotonically) and proves in it that a dispatch returns;
    \<open>Provider_World\<close> has the locale \<open>kept_world\<close>: what every request keeps, the dispatch keeps.
  \<^item> \<open>Relay_World\<close>: the modelled relay, used by other parties at the same time, as the world of the provider. It
    interprets both locales.
  \<^item> \<open>Provider_Properties\<close>, \<open>Route_Properties\<close>: a dispatched chat returns and leaves the relay consistent; it is
    cancelled at most once, and on every timeout; a completion is bound to its request and client; only ciphertext
    is sent, in an envelope the relay accepts; no deployment falls back to the production relay by accident; only
    valid messages the policy allows reach a provider; an encrypted chat is answered with ciphertext; every chat
    is answered; a validated chat reaches the model as plain text.

  \<^bold>\<open>The second version of the routes\<close> (\<^verbatim>\<open>src/api/v2/routes.py\<close>, \<^verbatim>\<open>src/api/v2/models.py\<close>,
  \<^verbatim>\<open>src/utils/vision/image_analysis.py\<close>). It answers with the model in its own process, takes messages with images, which
  it describes itself, and can stream the answer as server-sent events. \<open>V2_Models\<close> has its catalogue, \<open>Image_Analysis\<close> the
  description of an image (bytes are \<^typ>\<open>8 word\<close>), \<open>Api_V2\<close> the handlers: their outcome is a reply or the list of the
  events of a stream. \<open>V2_Facts\<close> and \<open>V2_Properties\<close> show that an encrypted chat gets ciphertext only, that a stream carries
  the whole message in small pieces, which of the listed models can be used at all, and that the size of a JPEG is found.

  \<^bold>\<open>The compute node\<close> (\<^verbatim>\<open>src/utils/networking/relay_client.py\<close>, \<^verbatim>\<open>src/utils/processing_result.py\<close>, the payload tests and
  the adapters of \<^verbatim>\<open>src/utils/compute_node_runtime.py\<close>). A node takes a payload from the relay, decrypts it, reads the
  request of the API out of it, lets its supervised runtime answer and posts the encrypted response. The clock, the flags
  that other threads set (shutdown latch, operator stop, cancellation), the supervised inference and HTTP are the record
  \<open>node_world\<close>; the state \<open>node_state\<close> also has the count of open mutations and the log of posts; keys, relays,
  headers and the cryptography are the record \<open>node_setup\<close>.

  \<^item> \<open>Node_Requests\<close>: the schema check, the request in the envelope, the legacy chat, deadlines and poll intervals.
  \<^item> \<open>Node_Chat\<close>: the validation of messages and options, and the assistant message made of a completion, where the
    regular expressions are readers of prefixes.
  \<^item> \<open>Node_Replies\<close>: the response envelope, its guarded submission, and \<^verbatim>\<open>process_client_request_result\<close> on all branches.
  \<^item> \<open>Node_Facts\<close>, \<open>Node_Reasoning\<close>, \<open>Node_Posts\<close>, \<open>Node_Answers\<close>: what the validators accept, why no reasoning is let
    out, the posts of each step, and the run of a request that nothing disturbs.
  \<^item> \<open>Node_Properties\<close>: what the API sends is what the node reads, and what the node answers is what the API reads; an
    undisturbed request is answered; a request has at most one post, made for its client, and a stopping node none; the
    validator is exact; accepted options are bounded; reasoning stays inside.

  Before that, the node searches for work. The sessions with the relays (who is registered, the last heartbeat, the suggested
  intervals, the control credentials) are the record \<open>sessions\<close>; a search runs on them and the state above together.

  \<^item> \<open>Node_Polling\<close>: registration and its renewal, one poll with every way it can fail, and
    \<^verbatim>\<open>poll_api_v1_encrypted_work\<close> over the ring of relays.
  \<^item> \<open>Node_Capabilities\<close>: the models, the tier and the backend that the node registers, with
    \<^verbatim>\<open>ModelManager.supports_api_v1_model\<close>.
  \<^item> \<open>Node_Sessions\<close>: the locale \<open>poll_laws\<close>, a law per primitive change of the sessions, derives what a whole search keeps and
    how many requests it makes; it is interpreted with the relays of the ring. \<open>Node_Polls\<close> has weakest preconditions of the
    steps and what a search may return, \<open>Node_Offers\<close> the search that nothing disturbs.
  \<^item> \<open>Node_Poll_Properties\<close>: a search asks only the configured relays, at most twice each, and never raises; its work comes
    from a relay that counts as registered, which is asked first next time; offered work is taken; a lease is renewed in
    time; the relay accepts the registered capabilities as they are.

  \<^bold>\<open>Modelling choices.\<close> A character is one of 256 code points, so the case mapping and
  white space of other Unicode characters are outside the model. A float is the rational
  it denotes; where the code adds, divides or parses floats, the operation is a parameter
  (monotone addition is the only law assumed of it). Cryptographic functions are
  parameters. Random tokens and clock readings are arguments. Base64 decoding is the
  strict loop of CPython 3.11 and 3.12. No definition needs fuel: every loop is a
  structural recursion, or has a measure (the walk over nested content, decimal output, the
  markers of a JPEG, the pieces of a stream, empty reasoning wrappers), or
  is the polling loop of the distributed provider, whose termination is a theorem.

  For the API, \<^verbatim>\<open>json.loads\<close> and \<^verbatim>\<open>json.dumps\<close>, \<^verbatim>\<open>ipaddress\<close>, \<^verbatim>\<open>zlib.crc32\<close>, the check of bracketed
  hosts in \<^verbatim>\<open>urlparse\<close>, encryption, \<^verbatim>\<open>llama_cpp\<close> and the configuration object are parameters. The cache
  of built providers is left out: it returns what building again would, while the environment stays the
  same. The text of an exception of the interpreter is abbreviated.

  A handler of the relay process is one step, as it is under its locks; a poll, which
  gives them up while it waits, is cut into its pieces (open, round, close), and the
  number of rounds is a bound whose sufficiency is proved. One operation reads the clocks
  once. Dictionary keys that come from a request body are texts; a body with another
  truthy value there ends in the exception \<open>OutsideModel\<close>, about which nothing is claimed.

  A compute node processes one request at a time; other threads appear in the world, which may change at every reading of
  it. A request of the node is a JSON object, as the relay's reply is before it is handed on. During a search for work
  only the search changes the sessions (the heartbeat thread, which renews leases while a request runs, is left out), the
  key and the capabilities stay the same, and the configured addresses are not empty.

  \<^bold>\<open>Not modelled.\<close> The metrics, logging, health and diagnostics pages of
  \<^verbatim>\<open>src/relay.py\<close>, and \<^verbatim>\<open>_clear_pending_requests_for_queued_items\<close>, which nothing calls; the
  image, community, public-key, health and relay administration routes of both versions of the API,
  and the hooks by which tests replace the generator; of the compute node, the supervision of
  inference with its worker threads and the heartbeat thread, whose behaviour is in the interleaving of threads, unregistering
  and the legacy polling loop, and the model manager and the desktop bridge, which drive subprocesses, GPUs and files; the
  cryptographic wrappers; \<^verbatim>\<open>validate_json_string\<close>, which only calls \<^verbatim>\<open>json.loads\<close>; build, release
  and benchmark scripts.
\<close>

end
